(* ===== verification/Go_Prelude.thy ===== *)
theory Go_Prelude
  imports Main "HOL-Library.Word" "HOL-Library.Multiset" "HOL-Library.Sublist" "HOL-Library.AList"
begin

text \<open>
  What the components share of the Go language and its standard library: instants and
  durations, fixed-width integers, maps with pointer values, the stable sort of the
  \<open>sort\<close> package and the few functions of \<open>strings\<close> the sources call.

  An instant is the number of nanoseconds since the zero value of \<open>time.Time\<close>, so
  \<open>IsZero\<close> is equality with 0. Every operation of the model takes the clock reading
  \<open>now\<close> as an argument: the sources call \<open>time.Now()\<close> inside one critical section, and
  the model gives every call in that section the same reading.
\<close>

named_theorems go_simps \<open>evaluation rules for the Go primitives\<close>
named_theorems frame_simps \<open>fields an operation leaves unchanged\<close>

section \<open>Instants, durations and machine integers\<close>

type_synonym instant = int
type_synonym duration = int
type_synonym u16 = "16 word"
type_synonym u64 = "64 word"
type_synonym tag = string

abbreviation (input) IsZero :: "instant \<Rightarrow> bool" where "IsZero t \<equiv> t = 0"
abbreviation (input) After :: "instant \<Rightarrow> instant \<Rightarrow> bool" where "After t u \<equiv> u < t"
abbreviation (input) Before :: "instant \<Rightarrow> instant \<Rightarrow> bool" where "Before t u \<equiv> t < u"

abbreviation (input) millis :: "int \<Rightarrow> duration" where "millis n \<equiv> n * 1000000"
abbreviation (input) seconds :: "int \<Rightarrow> duration" where "seconds n \<equiv> n * 1000000000"
abbreviation (input) minutes :: "int \<Rightarrow> duration" where "minutes n \<equiv> n * 60000000000"

section \<open>Maps\<close>

text \<open>
  A Go map is an association list whose keys are distinct. The iteration order of a
  \<open>range\<close> loop is the order of the list; Go leaves it open, and so do the theorems, which
  hold for every list. A map of pointers stores \<open>None\<close> for a nil pointer; reading a
  missing key gives the nil pointer as well.
\<close>

type_synonym ('k, 'v) go_map = "('k \<times> 'v) list"
type_synonym ('k, 'v) ptr_map = "('k \<times> 'v option) list"

definition wf_map :: "('k, 'v) go_map \<Rightarrow> bool" where
  "wf_map m \<longleftrightarrow> distinct (map fst m)"

definition pget :: "('k, 'v) ptr_map \<Rightarrow> 'k \<Rightarrow> 'v option" where
  "pget m k = (case map_of m k of None \<Rightarrow> None | Some p \<Rightarrow> p)"

text \<open>Reading a map of plain values: a missing key gives the zero value \<open>z\<close> of their type.\<close>

definition get_or :: "'v \<Rightarrow> ('k, 'v) go_map \<Rightarrow> 'k \<Rightarrow> 'v" where
  "get_or z m k = (case map_of m k of None \<Rightarrow> z | Some v \<Rightarrow> v)"

definition range_delete :: "('k \<Rightarrow> 'v \<Rightarrow> bool) \<Rightarrow> ('k, 'v) go_map \<Rightarrow> ('k, 'v) go_map" where
  "range_delete p m = filter (\<lambda>(k, v). \<not> p k v) m"

lemma pget_Nil [simp]: "pget [] k = None"
  by (simp add: pget_def)

lemma pget_Cons [simp]: "pget ((k', v) # m) k = (if k = k' then v else pget m k)"
  by (simp add: pget_def)

lemma pget_update [simp]: "pget (AList.update k v m) k' = (if k' = k then v else pget m k')"
  by (simp add: pget_def update_conv)

lemma get_or_update [simp]: "get_or z (AList.update k v m) k' = (if k' = k then v else get_or z m k')"
  by (simp add: get_or_def update_conv)

lemma get_or_map_values:
  "k \<in> fst ` set m \<or> f k z = z' \<Longrightarrow> get_or z' (map (\<lambda>(k, v). (k, f k v)) m) k = f k (get_or z m k)"
  by (induction m) (auto simp: get_or_def)

lemma pget_map_values:
  "pget (map (\<lambda>(k, v). (k, f k v)) m) k
    = (case map_of m k of None \<Rightarrow> None | Some v \<Rightarrow> f k v)"
  by (induction m) auto

lemma pget_Some_map_of: "pget m k = Some v \<Longrightarrow> map_of m k = Some (Some v)"
  by (simp add: pget_def split: option.splits)

lemma map_of_range_delete:
  assumes "wf_map m"
  shows "map_of (range_delete p m) k
    = (case map_of m k of None \<Rightarrow> None | Some v \<Rightarrow> if p k v then None else Some v)"
  using assms
proof (induction m)
  case Nil
  then show ?case by (simp add: range_delete_def)
next
  case (Cons e m)
  obtain k' v' where e: "e = (k', v')" by (cases e)
  have fresh: "map_of m k' = None" and wf: "wf_map m"
    using Cons.prems by (auto simp: e wf_map_def map_of_eq_None_iff)
  show ?case
    using Cons.IH [OF wf] fresh by (auto simp: e range_delete_def)
qed

lemma wf_map_update [simp]: "wf_map m \<Longrightarrow> wf_map (AList.update k v m)"
  by (simp add: wf_map_def distinct_update)

lemma wf_map_delete [simp]: "wf_map m \<Longrightarrow> wf_map (AList.delete k m)"
  by (simp add: wf_map_def distinct_delete)

lemma wf_map_Nil [simp]: "wf_map []"
  by (simp add: wf_map_def)

lemma wf_map_range_delete [simp]: "wf_map m \<Longrightarrow> wf_map (range_delete p m)"
  unfolding wf_map_def range_delete_def by (induction m) auto

text \<open>The contract every map of the sources is used under.\<close>

locale go_dictionary =
  fixes lookup :: "'m \<Rightarrow> 'k \<Rightarrow> 'v option"
    and put :: "'k \<Rightarrow> 'v \<Rightarrow> 'm \<Rightarrow> 'm"
    and del :: "'k \<Rightarrow> 'm \<Rightarrow> 'm"
    and nil :: 'm
    and ok :: "'m \<Rightarrow> bool"
  assumes lookup_nil: "lookup nil k = None"
    and lookup_put: "ok m \<Longrightarrow> lookup (put k v m) k' = (if k' = k then Some v else lookup m k')"
    and lookup_del: "ok m \<Longrightarrow> lookup (del k m) k' = (if k' = k then None else lookup m k')"
    and ok_nil: "ok nil"
    and ok_put: "ok m \<Longrightarrow> ok (put k v m)"
    and ok_del: "ok m \<Longrightarrow> ok (del k m)"
begin

lemma put_then_lookup: "ok m \<Longrightarrow> lookup (put k v m) k = Some v"
  by (simp add: lookup_put)

lemma overwrite: "ok m \<Longrightarrow> lookup (put k v (put k w m)) k' = lookup (put k v m) k'"
  by (simp add: lookup_put ok_put)

lemma put_commute:
  "ok m \<Longrightarrow> k \<noteq> l \<Longrightarrow> lookup (put k v (put l w m)) j = lookup (put l w (put k v m)) j"
  by (simp add: lookup_put ok_put)

lemma del_put: "ok m \<Longrightarrow> lookup (del k (put k v m)) k' = lookup (del k m) k'"
  by (simp add: lookup_put lookup_del ok_put)

end

interpretation assoc: go_dictionary map_of AList.update AList.delete "[]" wf_map
proof
  fix m :: "('k, 'v) go_map" and k k' v
  show "map_of (AList.update k v m) k' = (if k' = k then Some v else map_of m k')"
    by (simp add: update_conv)
  show "map_of (AList.delete k m) k' = (if k' = k then None else map_of m k')"
    by (simp add: delete_conv)
qed auto

section \<open>Panics\<close>

text \<open>
  An operation that may panic (an index out of range, a method call on a nil interface) returns
  an \<open>outcome\<close>; \<open>index_at\<close> is the indexing of a slice with a Go \<open>int\<close>.
\<close>

datatype 'a outcome = Returned 'a | Panicked

definition index_at :: "'a list \<Rightarrow> int \<Rightarrow> 'a outcome" where
  "index_at xs i = (if 0 \<le> i \<and> i < int (length xs) then Returned (xs ! nat i) else Panicked)"

primrec and_then :: "'a outcome \<Rightarrow> ('a \<Rightarrow> 'b outcome) \<Rightarrow> 'b outcome" where
  "and_then (Returned x) f = f x"
| "and_then Panicked f = Panicked"

lemma index_at_Returned: "index_at xs i = Returned x \<Longrightarrow> x \<in> set xs"
  by (auto simp: index_at_def split: if_splits)

lemma index_at_defined: "0 \<le> i \<Longrightarrow> i < int (length xs) \<Longrightarrow> index_at xs i = Returned (xs ! nat i)"
  by (simp add: index_at_def)

lemma and_then_Returned: "and_then r f = Returned y \<longleftrightarrow> (\<exists>x. r = Returned x \<and> f x = Returned y)"
  by (cases r) simp_all

end
