(* ===== verification/Probe_History.thy ===== *)
theory Probe_History
  imports Go_Prelude Complex_Main
begin

text \<open>
  The data every component exchanges: \<open>adapter.URLTestHistory\<close> (the latest health sample of
  one outbound), the IP metadata it points to, and the constants of the status and error
  fields. \<open>UDPLoss\<close> is a float64 in the source, a rational here; theory \<open>Udp_Probe\<close> computes it.
\<close>

record ip_info =
  IP :: string
  CountryCode :: string
  Region :: string
  City :: string
  ASN :: int
  Org :: string
  Latitude :: rat
  Longitude :: rat
  PostalCode :: string

record url_test_history =
  Time :: instant
  Delay :: u16
  IpInfo :: "ip_info option"
  IsFromCache :: bool
  Success :: bool
  ErrorType :: string
  ErrorText :: string
  URLTestStatus :: string
  HealthScore :: int
  RuntimePenalty :: int
  RealUserPenalty :: int
  FreshnessPenalty :: int
  VolatilityPenalty :: int
  StabilityPoints :: int
  DegradationPoints :: int
  PolicyPenalty :: int
  UDPProbeAvailable :: bool
  UDPPenalty :: int
  UDPLoss :: rat
  UDPJitterMs :: int
  CheckGeneration :: u64
  PingReady :: bool
  QualityReady :: bool
  SpeedReady :: bool
  UDPReady :: bool
  CombinedReady :: bool
  IPv6Status :: string
  IPv6CheckedAt :: instant
  IPv6Generation :: u64
  IPv6TargetSuccess :: int
  IPv6TargetCount :: int
  IPv6ErrorType :: string
  IPv6ErrorText :: string

text \<open>The zero value of the struct.\<close>

definition zero_history :: url_test_history where
  "zero_history = \<lparr> Time = 0, Delay = 0, IpInfo = None, IsFromCache = False, Success = False,
     ErrorType = [], ErrorText = [], URLTestStatus = [], HealthScore = 0, RuntimePenalty = 0,
     RealUserPenalty = 0, FreshnessPenalty = 0, VolatilityPenalty = 0, StabilityPoints = 0,
     DegradationPoints = 0, PolicyPenalty = 0, UDPProbeAvailable = False, UDPPenalty = 0,
     UDPLoss = 0, UDPJitterMs = 0, CheckGeneration = 0, PingReady = False,
     QualityReady = False, SpeedReady = False, UDPReady = False, CombinedReady = False,
     IPv6Status = [], IPv6CheckedAt = 0, IPv6Generation = 0, IPv6TargetSuccess = 0,
     IPv6TargetCount = 0, IPv6ErrorType = [], IPv6ErrorText = [] \<rparr>"

text \<open>\<open>monitoring.GroupEvent\<close>: what the monitor publishes to the subscribers of a group.\<close>

record group_event =
  GroupTag :: tag
  From :: instant
  To :: instant
  BatchCompleted :: bool
  Generation :: u64
  BatchNumber :: int
  EventTags :: "tag list"

type_synonym history_map = "(tag, url_test_history) ptr_map"

abbreviation "StatusNotTested \<equiv> ''not_tested''"
abbreviation "StatusChecking \<equiv> ''checking''"
abbreviation "StatusSuccess \<equiv> ''success''"
abbreviation "StatusFailed \<equiv> ''failed''"

abbreviation "ErrorTypeNone \<equiv> ''none''"
abbreviation "ErrorTypeTimeout \<equiv> ''timeout''"
abbreviation "ErrorTypeDeadline \<equiv> ''deadline''"
abbreviation "ErrorTypeReset \<equiv> ''reset''"
abbreviation "ErrorTypeRefused \<equiv> ''refused''"
abbreviation "ErrorTypeEOF \<equiv> ''eof''"
abbreviation "ErrorTypeBrokenPipe \<equiv> ''broken_pipe''"
abbreviation "ErrorTypeDNSTimeout \<equiv> ''dns_timeout''"
abbreviation "ErrorTypeTLSHandshakeFailed \<equiv> ''tls_handshake_failed''"
abbreviation "ErrorTypeQUICTimeout \<equiv> ''quic_timeout''"
abbreviation "ErrorTypeBadStatus \<equiv> ''bad_status''"
abbreviation "ErrorTypeUnsupportedCurve \<equiv> ''unsupported_curve''"
abbreviation "ErrorTypeUnknown \<equiv> ''unknown''"

abbreviation TimeoutDelay :: u16 where "TimeoutDelay \<equiv> 65535"

lemma no_delay_above_timeout: "d \<le> (TimeoutDelay :: u16)"
using unsigned_less [of d, where ?'a = nat] by (simp add: word_le_nat_alt)

end
