(* ===== verification/Go_Strings.thy ===== *)
theory Go_Strings
  imports Go_Prelude
begin

text \<open>
  The functions of Go's \<open>strings\<close> package the sources call, on byte strings. A Go string is
  its UTF-8 bytes; a \<open>char\<close> of HOL is one byte.
\<close>

abbreviation byte :: "char \<Rightarrow> nat" where "byte c \<equiv> of_char c"

text \<open>\<open>strings.Contains (s, p)\<close>, with the pattern first.\<close>

fun str_contains :: "string \<Rightarrow> string \<Rightarrow> bool" where
  "str_contains p [] \<longleftrightarrow> p = []"
| "str_contains p (c # s) \<longleftrightarrow> prefix p (c # s) \<or> str_contains p s"

lemma str_contains_iff_sublist: "str_contains p s \<longleftrightarrow> sublist p s"
  by (induction s) (auto simp: sublist_Cons_right)

lemma str_contains_append: "str_contains p s \<Longrightarrow> str_contains p (r @ s @ t)"
  unfolding str_contains_iff_sublist by (meson sublist_appendI sublist_order.order.trans)

text \<open>
  \<open>strings.ToLower\<close> on the letters that can occur in a pattern the sources search for: ASCII
  and Cyrillic capitals, and the two capitals outside these ranges whose lower case is an
  ASCII letter (U+0130 and U+212A). The lower case of every other letter is outside all the
  patterns, so leaving it unchanged does not change the outcome of a search.
\<close>

fun go_lower :: "string \<Rightarrow> string" where
  "go_lower [] = []"
| "go_lower (a # s) =
     (let b = (case s of [] \<Rightarrow> 0 | x # _ \<Rightarrow> byte x);
          c = (case s of _ # y # _ \<Rightarrow> byte y | _ \<Rightarrow> 0)
      in if byte a = 0xD0 \<and> 0x90 \<le> b \<and> b \<le> 0x9F
         then CHR 0xD0 # char_of (b + 0x20) # go_lower (drop 1 s)
         else if byte a = 0xD0 \<and> 0xA0 \<le> b \<and> b \<le> 0xAF
         then CHR 0xD1 # char_of (b - 0x20) # go_lower (drop 1 s)
         else if byte a = 0xC4 \<and> b = 0xB0 then CHR ''i'' # go_lower (drop 1 s)
         else if byte a = 0xE2 \<and> b = 0x84 \<and> c = 0xAA then CHR ''k'' # go_lower (drop 2 s)
         else if 0x41 \<le> byte a \<and> byte a \<le> 0x5A then char_of (byte a + 0x20) # go_lower s
         else a # go_lower s)"

text \<open>\<open>strings.TrimSpace\<close>: the encodings of the runes \<open>unicode.IsSpace\<close> accepts.\<close>

definition space_runes :: "string list" where
  "space_runes =
     [[CHR 0x09], [CHR 0x0A], [CHR 0x0B], [CHR 0x0C], [CHR 0x0D], [CHR 0x20],
      [CHR 0xC2, CHR 0x85], [CHR 0xC2, CHR 0xA0], [CHR 0xE1, CHR 0x9A, CHR 0x80],
      [CHR 0xE2, CHR 0x80, CHR 0x80], [CHR 0xE2, CHR 0x80, CHR 0x81],
      [CHR 0xE2, CHR 0x80, CHR 0x82], [CHR 0xE2, CHR 0x80, CHR 0x83],
      [CHR 0xE2, CHR 0x80, CHR 0x84], [CHR 0xE2, CHR 0x80, CHR 0x85],
      [CHR 0xE2, CHR 0x80, CHR 0x86], [CHR 0xE2, CHR 0x80, CHR 0x87],
      [CHR 0xE2, CHR 0x80, CHR 0x88], [CHR 0xE2, CHR 0x80, CHR 0x89],
      [CHR 0xE2, CHR 0x80, CHR 0x8A], [CHR 0xE2, CHR 0x80, CHR 0xA8],
      [CHR 0xE2, CHR 0x80, CHR 0xA9], [CHR 0xE2, CHR 0x80, CHR 0xAF],
      [CHR 0xE2, CHR 0x81, CHR 0x9F], [CHR 0xE3, CHR 0x80, CHR 0x80]]"

text \<open>\<open>trim_left\<close> drops runes of the list while one is a prefix.\<close>

function trim_left :: "string list \<Rightarrow> string \<Rightarrow> string" where
  "trim_left ws s =
     (case find (\<lambda>w. w \<noteq> [] \<and> prefix w s) ws of
        None \<Rightarrow> s
      | Some w \<Rightarrow> trim_left ws (drop (length w) s))"
  by pat_completeness auto
termination
proof (relation "measure (\<lambda>(ws, s). length s)")
  fix ws s w
  assume "find (\<lambda>w. w \<noteq> [] \<and> prefix w s) ws = Some w"
  then have "w \<noteq> [] \<and> prefix w s" by (auto simp: find_Some_iff)
  then have "w \<noteq> []" "length w \<le> length s" by (auto dest: prefix_length_le)
  then show "((ws, drop (length w) s), ws, s) \<in> measure (\<lambda>(ws, s). length s)"
    by (cases s) auto
qed simp

declare trim_left.simps [simp del]

definition TrimSpace :: "string \<Rightarrow> string" where
  "TrimSpace s = rev (trim_left (map rev space_runes) (rev (trim_left space_runes s)))"

lemma length_trim_left: "length (trim_left ws s) \<le> length s"
proof (induction ws s rule: trim_left.induct)
  case (1 ws s)
  show ?case
  proof (cases "find (\<lambda>w. w \<noteq> [] \<and> prefix w s) ws")
    case None
    then show ?thesis by (simp add: trim_left.simps [of ws s])
  next
    case (Some w)
    with 1 [OF Some] show ?thesis by (simp add: trim_left.simps [of ws s])
  qed
qed

lemma length_TrimSpace: "length (TrimSpace s) \<le> length s"
proof -
  let ?l = "trim_left space_runes s"
  have "length (TrimSpace s) \<le> length ?l"
    using length_trim_left [of "map rev space_runes" "rev ?l"] by (simp add: TrimSpace_def)
  then show ?thesis
    using length_trim_left [of space_runes s] by linarith
qed

text \<open>\<open>strings.EqualFold (s, "RU")\<close>: neither letter has a fold outside ASCII.\<close>

definition fold_equals_RU :: "string \<Rightarrow> bool" where
  "fold_equals_RU s \<longleftrightarrow> s \<in> {''RU'', ''Ru'', ''rU'', ''ru''}"

text \<open>\<open>strings.Join\<close>.\<close>

fun str_join :: "string \<Rightarrow> string list \<Rightarrow> string" where
  "str_join sep [] = []"
| "str_join sep [x] = x"
| "str_join sep (x # y # xs) = x @ sep @ str_join sep (y # xs)"

end
