(* ===== verification/Url_Health.thy ===== *)
theory Url_Health
  imports Probe_History Go_Strings
begin

text \<open>
  \<open>common/urltest/health.go\<close>: error classification, the delay score, the penalties and the
  health score every ranking uses. Scores and penalties are Go \<open>int\<close>s of small magnitude
  and are modelled as \<open>int\<close>.
\<close>

abbreviation (input) RussianServerPolicyPenalty :: int where "RussianServerPolicyPenalty \<equiv> 45"
abbreviation (input) maxErrorTextLength :: nat where "maxErrorTextLength \<equiv> 240"

section \<open>Error classification\<close>

text \<open>
  A Go \<open>error\<close> as the classifier sees it: its text and the answers of \<open>errors.Is\<close> and
  \<open>errors.As\<close>. A nil error is \<open>None\<close>.
\<close>

record go_error =
  err_text :: string
  is_deadline_exceeded :: bool
  is_eof :: bool
  is_net_timeout :: bool

definition plain_error :: "string \<Rightarrow> go_error" where
  "plain_error t = \<lparr> err_text = t, is_deadline_exceeded = False, is_eof = False,
     is_net_timeout = False \<rparr>"

definition shortenErrorText :: "string \<Rightarrow> string" where
  "shortenErrorText text =
     (let t = TrimSpace text
      in if length t \<le> maxErrorTextLength then t else take maxErrorTextLength t)"

definition ClassifyProbeError :: "go_error option \<Rightarrow> string \<times> string" where
  "ClassifyProbeError err =
     (case err of
        None \<Rightarrow> (ErrorTypeNone, [])
      | Some e \<Rightarrow>
          (let errorText = shortenErrorText (err_text e); lower = go_lower errorText
           in if is_deadline_exceeded e then (ErrorTypeDeadline, errorText)
              else if is_eof e then (ErrorTypeEOF, errorText)
              else if is_net_timeout e then
                (if str_contains ''dns'' lower then (ErrorTypeDNSTimeout, errorText)
                 else (ErrorTypeTimeout, errorText))
              else if str_contains ''unsupported curve'' lower
                then (ErrorTypeUnsupportedCurve, errorText)
              else if str_contains ''quic'' lower \<and> str_contains ''timeout'' lower
                then (ErrorTypeQUICTimeout, errorText)
              else if str_contains ''dns'' lower \<and> str_contains ''timeout'' lower
                then (ErrorTypeDNSTimeout, errorText)
              else if str_contains ''tls handshake failed'' lower \<or> str_contains ''tls:'' lower
                then (ErrorTypeTLSHandshakeFailed, errorText)
              else if str_contains ''context deadline exceeded'' lower
                then (ErrorTypeDeadline, errorText)
              else if str_contains ''i/o timeout'' lower \<or> str_contains ''timeout'' lower
                then (ErrorTypeTimeout, errorText)
              else if str_contains ''connection reset'' lower then (ErrorTypeReset, errorText)
              else if str_contains ''connection refused'' lower then (ErrorTypeRefused, errorText)
              else if str_contains ''broken pipe'' lower then (ErrorTypeBrokenPipe, errorText)
              else if lower = ''eof'' \<or> str_contains '': eof'' lower \<or> str_contains '' eof'' lower
                then (ErrorTypeEOF, errorText)
              else if str_contains ''bad status'' lower \<or> str_contains ''unexpected status'' lower
                then (ErrorTypeBadStatus, errorText)
              else (ErrorTypeUnknown, errorText)))"

definition IsCriticalProbeError :: "string \<Rightarrow> bool" where
  "IsCriticalProbeError errorType \<longleftrightarrow>
     errorType \<in> {ErrorTypeTimeout, ErrorTypeDeadline, ErrorTypeDNSTimeout,
       ErrorTypeTLSHandshakeFailed, ErrorTypeUnsupportedCurve, ErrorTypeQUICTimeout,
       ErrorTypeRefused}"

definition ShouldApplyRuntimePenalty :: "string \<Rightarrow> bool \<Rightarrow> bool" where
  "ShouldApplyRuntimePenalty errorType strict =
     (if errorType \<in> {ErrorTypeNone, ErrorTypeUnknown, ErrorTypeBadStatus} then False
      else if errorType \<in> {ErrorTypeEOF, ErrorTypeRefused} then \<not> strict
      else True)"

definition ResultStatus :: "bool \<Rightarrow> string" where
  "ResultStatus success = (if success then StatusSuccess else StatusFailed)"

section \<open>The score\<close>

definition clamp :: "int \<Rightarrow> int \<Rightarrow> int \<Rightarrow> int" where
  "clamp v minValue maxValue =
     (if v < minValue then minValue else if v > maxValue then maxValue else v)"

definition delayScore :: "u16 \<Rightarrow> int" where
  "delayScore delay =
     (if delay = 0 \<or> delay \<ge> 65535 then 0
      else if delay \<le> 80 then 100
      else if delay \<le> 150 then 90
      else if delay \<le> 250 then 75
      else if delay \<le> 400 then 60
      else if delay \<le> 700 then 40
      else if delay \<le> 1000 then 25
      else 10)"

definition errorScoreCap :: "string \<Rightarrow> int" where
  "errorScoreCap errorType =
     (if errorType \<in> {ErrorTypeTimeout, ErrorTypeDeadline, ErrorTypeDNSTimeout,
           ErrorTypeQUICTimeout} then 25
      else if errorType = ErrorTypeTLSHandshakeFailed then 20
      else if errorType = ErrorTypeUnsupportedCurve then 15
      else if errorType = ErrorTypeRefused then 25
      else if errorType \<in> {ErrorTypeReset, ErrorTypeBrokenPipe} then 40
      else if errorType = ErrorTypeEOF then 45
      else if errorType = ErrorTypeBadStatus then 55
      else 45)"

definition CalculateFreshnessPenalty :: "instant \<Rightarrow> bool \<Rightarrow> instant \<Rightarrow> int" where
  "CalculateFreshnessPenalty now isFromCache updatedAt =
     (let penalty = (if isFromCache then 10 else 0)
      in if IsZero updatedAt then clamp (penalty + 20) 0 30
         else (let age = now - updatedAt
               in clamp (if age \<le> minutes 3 then penalty
                         else if age \<le> minutes 5 then penalty + 5
                         else if age \<le> minutes 15 then penalty + 12
                         else penalty + 20) 0 30))"

definition isRussianServer :: "tag \<Rightarrow> string \<Rightarrow> bool" where
  "isRussianServer t countryCode \<longleftrightarrow>
     fold_equals_RU (TrimSpace countryCode) \<or>
     (let lowerTag = go_lower (TrimSpace t)
      in str_contains [CHR 0xF0, CHR 0x9F, CHR 0x87, CHR 0xB7, CHR 0xF0, CHR 0x9F, CHR 0x87, CHR 0xBA] lowerTag \<or>
         str_contains [CHR 0xD1, CHR 0x80, CHR 0xD0, CHR 0xBE, CHR 0xD1, CHR 0x81,
           CHR 0xD1, CHR 0x81, CHR 0xD0, CHR 0xB8, CHR 0xD1, CHR 0x8F] lowerTag \<or>
         str_contains [CHR 0xD1, CHR 0x80, CHR 0xD0, CHR 0xBE, CHR 0xD1, CHR 0x81,
           CHR 0xD1, CHR 0x81, CHR 0xD0, CHR 0xB8, CHR 0xD0, CHR 0xB9] lowerTag \<or>
         str_contains ''russia'' lowerTag \<or>
         str_contains ''russian'' lowerTag)"

definition CalculatePolicyPenalty :: "tag \<Rightarrow> string \<Rightarrow> int" where
  "CalculatePolicyPenalty t countryCode =
     (if isRussianServer t countryCode then RussianServerPolicyPenalty else 0)"

text \<open>The clamps the source writes as pairs of \<open>if\<close> statements are calls of \<open>clamp\<close>.\<close>

definition CalculateHealthScoreWithEvidence ::
  "instant \<Rightarrow> u16 \<Rightarrow> bool \<Rightarrow> string \<Rightarrow> bool \<Rightarrow> instant \<Rightarrow> int \<Rightarrow> int \<Rightarrow> int \<Rightarrow> int \<Rightarrow> int \<Rightarrow> int" where
  "CalculateHealthScoreWithEvidence now delay success errorType isFromCache updatedAt
       runtimePenalty realUserPenalty volatilityPenalty udpPenalty policyPenalty =
     (let score = delayScore delay;
          freshnessPenalty = CalculateFreshnessPenalty now isFromCache updatedAt;
          runtimePenalty = clamp runtimePenalty 0 25;
          realUserPenalty = clamp realUserPenalty 0 30;
          volatilityPenalty = clamp volatilityPenalty 0 25;
          udpPenalty = clamp udpPenalty 0 15;
          policyPenalty = clamp policyPenalty 0 50;
          score = (if success then score else min score (errorScoreCap errorType))
      in clamp (score - (freshnessPenalty + runtimePenalty + realUserPenalty
                 + volatilityPenalty + udpPenalty + policyPenalty)) 0 100)"

definition CalculateHealthScoreWithPenalties ::
  "instant \<Rightarrow> u16 \<Rightarrow> bool \<Rightarrow> string \<Rightarrow> bool \<Rightarrow> instant \<Rightarrow> int \<Rightarrow> int \<Rightarrow> int \<Rightarrow> int" where
  "CalculateHealthScoreWithPenalties now delay success errorType isFromCache updatedAt
       runtimePenalty udpPenalty policyPenalty =
     CalculateHealthScoreWithEvidence now delay success errorType isFromCache updatedAt
       runtimePenalty 0 0 udpPenalty policyPenalty"

definition CalculateHealthScoreWithUDPPenalty ::
  "instant \<Rightarrow> u16 \<Rightarrow> bool \<Rightarrow> string \<Rightarrow> bool \<Rightarrow> instant \<Rightarrow> int \<Rightarrow> int \<Rightarrow> int" where
  "CalculateHealthScoreWithUDPPenalty now delay success errorType isFromCache updatedAt
       runtimePenalty udpPenalty =
     CalculateHealthScoreWithPenalties now delay success errorType isFromCache updatedAt
       runtimePenalty udpPenalty 0"

definition CalculateHealthScore ::
  "instant \<Rightarrow> u16 \<Rightarrow> bool \<Rightarrow> string \<Rightarrow> bool \<Rightarrow> instant \<Rightarrow> int \<Rightarrow> int" where
  "CalculateHealthScore now delay success errorType isFromCache updatedAt runtimePenalty =
     CalculateHealthScoreWithUDPPenalty now delay success errorType isFromCache updatedAt
       runtimePenalty 0"

definition NewURLTestHistory :: "instant \<Rightarrow> u16 \<Rightarrow> go_error option \<Rightarrow> int \<Rightarrow> url_test_history" where
  "NewURLTestHistory now delay err runtimePenalty =
     (let (errorType, errorText) = ClassifyProbeError err;
          success = (err = None \<and> delay > 0 \<and> delay < 65535);
          errorType = (if \<not> success \<and> (errorType = [] \<or> errorType = ErrorTypeNone)
                       then ErrorTypeTimeout else errorType);
          delay = (if success then delay else 65535)
      in zero_history\<lparr> Time := now, Delay := delay, Success := success, ErrorType := errorType,
           ErrorText := errorText, URLTestStatus := ResultStatus success,
           HealthScore := CalculateHealthScore now delay success errorType False now runtimePenalty,
           RuntimePenalty := runtimePenalty,
           FreshnessPenalty := CalculateFreshnessPenalty now False now,
           PingReady := True, QualityReady := True, SpeedReady := True, CombinedReady := True \<rparr>)"

section \<open>Bounds and monotonicity\<close>

lemma clamp_bounds: "lo \<le> hi \<Longrightarrow> lo \<le> clamp v lo hi \<and> clamp v lo hi \<le> hi"
  by (simp add: clamp_def)

lemma clamp_ge [simp]: "lo \<le> hi \<Longrightarrow> lo \<le> clamp v lo hi"
  and clamp_le [simp]: "lo \<le> hi \<Longrightarrow> clamp v lo hi \<le> hi"
  by (simp_all add: clamp_def)

lemma clamp_mono: "v \<le> w \<Longrightarrow> lo \<le> hi \<Longrightarrow> clamp v lo hi \<le> clamp w lo hi"
  by (simp add: clamp_def)

lemma clamp_id: "lo \<le> v \<Longrightarrow> v \<le> hi \<Longrightarrow> clamp v lo hi = v"
  by (simp add: clamp_def)

lemma clamp_upper: "v \<le> b \<Longrightarrow> lo \<le> b \<Longrightarrow> clamp v lo hi \<le> b"
  by (simp add: clamp_def)

lemma delayScore_bounds: "0 \<le> delayScore d \<and> delayScore d \<le> 100"
  by (simp add: delayScore_def)

lemma delayScore_antitone: "0 < d \<Longrightarrow> d \<le> d' \<Longrightarrow> delayScore d' \<le> delayScore d"
proof -
  assume d: "0 < d" "d \<le> d'"
  have step: "d \<le> k" if "d' \<le> k" for k
    using d(2) that by (rule order_trans)
  have "d \<noteq> 0" "d' \<noteq> 0"
    using d by auto
  then show ?thesis
    using step [of 80] step [of 150] step [of 250] step [of 400] step [of 700] step [of 1000] order_trans [OF _ d(2), of 65535]
    by (simp add: delayScore_def)
qed

lemma errorScoreCap_bounds: "15 \<le> errorScoreCap e \<and> errorScoreCap e \<le> 55"
  by (simp add: errorScoreCap_def)

lemma freshness_bounds:
  "0 \<le> CalculateFreshnessPenalty now c t \<and> CalculateFreshnessPenalty now c t \<le> 30"
  by (simp add: CalculateFreshnessPenalty_def Let_def)

lemma freshness_grows_with_age:
  "now \<le> now' \<Longrightarrow> CalculateFreshnessPenalty now c t \<le> CalculateFreshnessPenalty now' c t"
  by (simp add: CalculateFreshnessPenalty_def Let_def clamp_def)

lemma freshness_cache_worse:
  "CalculateFreshnessPenalty now False t \<le> CalculateFreshnessPenalty now c t"
  by (simp add: CalculateFreshnessPenalty_def Let_def clamp_def)

lemma freshness_recent: "0 < t \<Longrightarrow> now - t \<le> minutes 3 \<Longrightarrow> CalculateFreshnessPenalty now False t = 0"
  by (simp add: CalculateFreshnessPenalty_def clamp_def)

lemma health_score_bounds_aux:
  "0 \<le> CalculateHealthScoreWithEvidence now d ok e c t rp ru vol udp pol \<and>
   CalculateHealthScoreWithEvidence now d ok e c t rp ru vol udp pol \<le> 100"
  by (simp add: CalculateHealthScoreWithEvidence_def Let_def)

lemma health_score_le_base:
  "CalculateHealthScoreWithEvidence now d ok e c t rp ru vol udp pol
    \<le> (if ok then delayScore d else min (delayScore d) (errorScoreCap e))"
proof -
  have base: "0 \<le> (if ok then delayScore d else min (delayScore d) (errorScoreCap e))"
    using delayScore_bounds [of d] errorScoreCap_bounds [of e] by auto
  have pens: "0 \<le> CalculateFreshnessPenalty now c t" "0 \<le> clamp rp 0 25" "0 \<le> clamp ru 0 30"
    "0 \<le> clamp vol 0 25" "0 \<le> clamp udp 0 15" "0 \<le> clamp pol 0 50"
    using freshness_bounds by simp_all
  show ?thesis
    unfolding CalculateHealthScoreWithEvidence_def Let_def
    by (rule clamp_upper) (use base pens in linarith)+
qed

lemma health_score_le_delayScore:
  "CalculateHealthScoreWithEvidence now d ok e c t rp ru vol udp pol \<le> delayScore d"
  using health_score_le_base [of now d ok e c t rp ru vol udp pol] by (auto split: if_splits)

lemma health_score_failure_cap:
  "CalculateHealthScoreWithEvidence now d False e c t rp ru vol udp pol \<le> errorScoreCap e"
  using health_score_le_base [of now d False e c t rp ru vol udp pol] by simp

lemma health_score_antitone:
  assumes "0 < d" "d \<le> d'" "ok' \<longrightarrow> ok" "t' = t" "c \<longrightarrow> c'" "now \<le> now'"
    and "rp \<le> rp'" "ru \<le> ru'" "vol \<le> vol'" "udp \<le> udp'" "pol \<le> pol'"
  shows "CalculateHealthScoreWithEvidence now' d' ok' e c' t' rp' ru' vol' udp' pol'
    \<le> CalculateHealthScoreWithEvidence now d ok e c t rp ru vol udp pol"
proof -
  have fresh: "CalculateFreshnessPenalty now c t \<le> CalculateFreshnessPenalty now' c' t'"
    using assms freshness_grows_with_age [of now now' c t] freshness_cache_worse [of now' t c']
    by (cases c; cases c') auto
  have score: "(if ok' then delayScore d' else min (delayScore d') (errorScoreCap e))
      \<le> (if ok then delayScore d else min (delayScore d) (errorScoreCap e))"
    using delayScore_antitone [of d d'] assms by auto
  have pens: "clamp rp 0 25 \<le> clamp rp' 0 25" "clamp ru 0 30 \<le> clamp ru' 0 30"
    "clamp vol 0 25 \<le> clamp vol' 0 25" "clamp udp 0 15 \<le> clamp udp' 0 15"
    "clamp pol 0 50 \<le> clamp pol' 0 50"
    using assms by (simp_all add: clamp_mono)
  show ?thesis
    unfolding CalculateHealthScoreWithEvidence_def Let_def
    by (rule clamp_mono) (use fresh score pens in linarith)+
qed

lemma policy_penalty_cases: "CalculatePolicyPenalty t c \<in> {0, 45}"
  by (simp add: CalculatePolicyPenalty_def)

section \<open>Classification\<close>

abbreviation probe_error_types :: "string set" where
  "probe_error_types \<equiv> {ErrorTypeTimeout, ErrorTypeDeadline, ErrorTypeReset, ErrorTypeRefused,
     ErrorTypeEOF, ErrorTypeBrokenPipe, ErrorTypeDNSTimeout, ErrorTypeTLSHandshakeFailed,
     ErrorTypeQUICTimeout, ErrorTypeBadStatus, ErrorTypeUnsupportedCurve, ErrorTypeUnknown}"

lemma length_shortenErrorText: "length (shortenErrorText s) \<le> maxErrorTextLength"
  by (simp add: shortenErrorText_def Let_def)

lemma classify_nil: "ClassifyProbeError None = (ErrorTypeNone, [])"
  by (simp add: ClassifyProbeError_def)

lemma classify_some_type: "fst (ClassifyProbeError (Some e)) \<in> probe_error_types"
  by (simp add: ClassifyProbeError_def Let_def)

lemma classify_some_text: "snd (ClassifyProbeError (Some e)) = shortenErrorText (err_text e)"
  by (simp add: ClassifyProbeError_def Let_def)

lemma classify_deadline: "is_deadline_exceeded e \<Longrightarrow> fst (ClassifyProbeError (Some e)) = ErrorTypeDeadline"
  by (simp add: ClassifyProbeError_def Let_def)

end
