(* ===== verification/Go_Sort.thy ===== *)
theory Go_Sort
  imports Go_Prelude
begin

text \<open>
  \<open>sort.SliceStable\<close>. Go sorts blocks by insertion and merges them stably; the insertion
  step is modelled as it is written (an element moves left past every element it is
  \<open>less\<close> than). For a strict weak order the result of a stable sort is unique, and every
  comparator of the sources is one (the interpretations of locale \<open>ranking\<close> in the
  theories that declare the comparators), so block size does not matter.
\<close>

text \<open>\<open>sort_insert\<close> works on the already sorted prefix, kept in reverse.\<close>

fun sort_insert :: "('a \<Rightarrow> 'a \<Rightarrow> bool) \<Rightarrow> 'a \<Rightarrow> 'a list \<Rightarrow> 'a list" where
  "sort_insert lt x [] = [x]"
| "sort_insert lt x (y # ys) = (if lt x y then y # sort_insert lt x ys else x # y # ys)"

definition slice_stable :: "('a \<Rightarrow> 'a \<Rightarrow> bool) \<Rightarrow> 'a list \<Rightarrow> 'a list" where
  "slice_stable lt xs = rev (fold (sort_insert lt) xs [])"

lemma mset_sort_insert [simp]: "mset (sort_insert lt x ys) = add_mset x (mset ys)"
  by (induction ys) auto

lemma mset_fold_insert: "mset (fold (sort_insert lt) xs acc) = mset xs + mset acc"
  by (induction xs arbitrary: acc) auto

lemma mset_slice_stable [simp]: "mset (slice_stable lt xs) = mset xs"
  by (simp add: slice_stable_def mset_fold_insert)

lemma set_slice_stable [simp]: "set (slice_stable lt xs) = set xs"
  by (metis mset_slice_stable set_mset_mset)

lemma length_slice_stable [simp]: "length (slice_stable lt xs) = length xs"
  by (metis mset_slice_stable size_mset)

lemma distinct_slice_stable [simp]: "distinct (slice_stable lt xs) = distinct xs"
  by (metis mset_slice_stable mset_eq_imp_distinct_iff)

lemma slice_stable_Nil [simp]: "slice_stable lt [] = []"
  by (simp add: slice_stable_def)

lemma slice_stable_eq_Nil [simp]: "slice_stable lt xs = [] \<longleftrightarrow> xs = []"
  by (metis length_0_conv length_slice_stable)

text \<open>A comparator is a strict weak order: what the \<open>sort\<close> package documents it needs.\<close>

locale ranking =
  fixes lt :: "'a \<Rightarrow> 'a \<Rightarrow> bool"
  assumes irrefl: "\<not> lt x x"
    and trans: "lt x y \<Longrightarrow> lt y z \<Longrightarrow> lt x z"
    and neg_trans: "\<not> lt x y \<Longrightarrow> \<not> lt y z \<Longrightarrow> \<not> lt x z"
begin

lemma asym: "lt x y \<Longrightarrow> \<not> lt y x"
  using irrefl trans by blast

lemma sort_insert_sorted:
  "sorted_wrt (\<lambda>a b. \<not> lt a b) ys \<Longrightarrow> sorted_wrt (\<lambda>a b. \<not> lt a b) (sort_insert lt x ys)"
proof (induction ys)
  case Nil
  then show ?case by simp
next
  case (Cons y ys)
  have set_ins: "set (sort_insert lt x ys) = insert x (set ys)"
    by (metis mset_sort_insert set_mset_add_mset_insert set_mset_mset)
  have reach: "\<not> lt x b" if "\<not> lt x y" "b \<in> set ys" for b
    using neg_trans [OF that(1), of b] Cons.prems that(2) by simp
  show ?case
    using Cons asym [of x y] by (auto simp: set_ins dest: reach)
qed

lemma fold_insert_sorted:
  "sorted_wrt (\<lambda>a b. \<not> lt a b) acc
    \<Longrightarrow> sorted_wrt (\<lambda>a b. \<not> lt a b) (fold (sort_insert lt) xs acc)"
  by (induction xs arbitrary: acc) (auto simp: sort_insert_sorted)

theorem sorted_slice_stable: "sorted_wrt (\<lambda>a b. \<not> lt b a) (slice_stable lt xs)"
  using fold_insert_sorted [of "[]" xs] by (simp add: slice_stable_def sorted_wrt_rev)

lemma head_is_minimal:
  assumes "slice_stable lt xs = y # ys" and "x \<in> set xs"
  shows "\<not> lt x y"
proof -
  have "x \<in> set (y # ys)"
    using assms by (metis set_slice_stable)
  then show ?thesis
    using sorted_slice_stable [of xs] assms(1) irrefl by auto
qed

text \<open>
  Where the comparator separates the elements, the result does not depend on the order of
  the input: two permutations of a list sort to the same list.
\<close>

lemma separated_sorted_unique:
  assumes "sorted_wrt (\<lambda>a b. \<not> lt b a) xs" and "sorted_wrt (\<lambda>a b. \<not> lt b a) ys"
    and "mset xs = mset ys"
    and sep: "\<And>a b. a \<in> set xs \<Longrightarrow> b \<in> set xs \<Longrightarrow> a \<noteq> b \<Longrightarrow> lt a b \<or> lt b a"
  shows "xs = ys"
  using assms
proof (induction xs arbitrary: ys)
  case Nil
  then show ?case by simp
next
  case (Cons x xs)
  then obtain y ys' where ys: "ys = y # ys'"
    by (cases ys) auto
  have members: "x \<in> set ys" "y \<in> set (x # xs)"
    using Cons.prems(3) ys by (metis list.set_intros(1) set_mset_mset)+
  have "x = y"
  proof (rule ccontr)
    assume "x \<noteq> y"
    then have "lt x y \<or> lt y x"
      using members(2) Cons.prems(4) by simp
    moreover have "\<not> lt x y"
      using \<open>x \<noteq> y\<close> members(1) Cons.prems(2) ys by auto
    moreover have "\<not> lt y x"
      using \<open>x \<noteq> y\<close> members(2) Cons.prems(1) by auto
    ultimately show False by blast
  qed
  moreover have "xs = ys'"
    by (rule Cons.IH) (use Cons.prems ys \<open>x = y\<close> in auto)
  ultimately show ?case by (simp add: ys)
qed

lemma order_independent:
  assumes "mset xs = mset ys"
    and "\<And>a b. a \<in> set xs \<Longrightarrow> b \<in> set xs \<Longrightarrow> a \<noteq> b \<Longrightarrow> lt a b \<or> lt b a"
  shows "slice_stable lt xs = slice_stable lt ys"
  by (rule separated_sorted_unique) (use assms in \<open>auto simp: sorted_slice_stable\<close>)

end

text \<open>Lexicographic comparators are rankings: first by one key, ties by another comparator.\<close>

definition by_key_desc :: "('a \<Rightarrow> 'b::linorder) \<Rightarrow> ('a \<Rightarrow> 'a \<Rightarrow> bool) \<Rightarrow> 'a \<Rightarrow> 'a \<Rightarrow> bool" where
  "by_key_desc key lt x y = (if key x \<noteq> key y then key x > key y else lt x y)"

definition by_key_asc :: "('a \<Rightarrow> 'b::linorder) \<Rightarrow> ('a \<Rightarrow> 'a \<Rightarrow> bool) \<Rightarrow> 'a \<Rightarrow> 'a \<Rightarrow> bool" where
  "by_key_asc key lt x y = (if key x \<noteq> key y then key x < key y else lt x y)"

lemma ranking_desc:
  assumes "ranking lt"
  shows "ranking (by_key_desc key lt)"
proof
  fix x y z
  show "\<not> by_key_desc key lt x x"
    using ranking.irrefl [OF assms] by (simp add: by_key_desc_def)
  show "by_key_desc key lt x z" if "by_key_desc key lt x y" "by_key_desc key lt y z"
    using that ranking.trans [OF assms, of x y z]
    by (cases "key x" "key y" rule: linorder_cases; cases "key y" "key z" rule: linorder_cases)
      (auto simp: by_key_desc_def split: if_splits)
  show "\<not> by_key_desc key lt x z" if "\<not> by_key_desc key lt x y" "\<not> by_key_desc key lt y z"
    using that ranking.neg_trans [OF assms, of x y z]
    by (cases "key x" "key y" rule: linorder_cases; cases "key y" "key z" rule: linorder_cases)
      (auto simp: by_key_desc_def split: if_splits)
qed

lemma ranking_asc:
  assumes "ranking lt"
  shows "ranking (by_key_asc key lt)"
proof
  fix x y z
  show "\<not> by_key_asc key lt x x"
    using ranking.irrefl [OF assms] by (simp add: by_key_asc_def)
  show "by_key_asc key lt x z" if "by_key_asc key lt x y" "by_key_asc key lt y z"
    using that ranking.trans [OF assms, of x y z]
    by (cases "key x" "key y" rule: linorder_cases; cases "key y" "key z" rule: linorder_cases)
      (auto simp: by_key_asc_def split: if_splits)
  show "\<not> by_key_asc key lt x z" if "\<not> by_key_asc key lt x y" "\<not> by_key_asc key lt y z"
    using that ranking.neg_trans [OF assms, of x y z]
    by (cases "key x" "key y" rule: linorder_cases; cases "key y" "key z" rule: linorder_cases)
      (auto simp: by_key_asc_def split: if_splits)
qed

lemma ranking_never: "ranking (\<lambda>x y. False)"
  by unfold_locales auto

lemma ranking_key: "ranking (\<lambda>x y. key x < (key y :: 'b::linorder))"
  by unfold_locales auto

end
