(* ===== verification/Balancer_Common.thy ===== *)
theory Balancer_Common
  imports Url_Health Go_Sort
begin

text \<open>
  \<open>protocol/group/balancer/common.go\<close> and the fallback helpers of \<open>smart_active.go\<close>: the
  delay and score every strategy ranks by, the per-network candidate lists, and the lowest
  delay search.
\<close>

text \<open>An outbound as a strategy sees it: its tag and the networks it supports.\<close>

record outbound =
  Tag :: tag
  Networks :: "string list"

abbreviation NetworkTCP :: string where "NetworkTCP \<equiv> ''tcp''"
abbreviation NetworkUDP :: string where "NetworkUDP \<equiv> ''udp''"
abbreviation (input) minHealthyScore :: int where "minHealthyScore \<equiv> 30"
abbreviation (input) healthAcceptableWindow :: int where "healthAcceptableWindow \<equiv> 15"

section \<open>Delay, policy and score of a history entry\<close>

definition getModifiedDelay :: "url_test_history option \<Rightarrow> u16" where
  "getModifiedDelay his =
     (case his of
        None \<Rightarrow> TimeoutDelay
      | Some h \<Rightarrow>
          (let delay = (if Delay h = 0 then TimeoutDelay else Delay h)
           in if IsFromCache h \<and> delay < 20000 then delay + 20000 else delay))"

definition getTagDelay :: "tag \<Rightarrow> history_map \<Rightarrow> u16" where
  "getTagDelay t history =
     (case pget history t of Some h \<Rightarrow> getModifiedDelay (Some h) | None \<Rightarrow> TimeoutDelay)"

definition getPolicyPenalty :: "tag \<Rightarrow> url_test_history option \<Rightarrow> int" where
  "getPolicyPenalty t his =
     (case his of
        None \<Rightarrow> CalculatePolicyPenalty t []
      | Some h \<Rightarrow>
          if PolicyPenalty h > 0 then PolicyPenalty h
          else CalculatePolicyPenalty t (case IpInfo h of None \<Rightarrow> [] | Some i \<Rightarrow> CountryCode i))"

definition getHealthScore :: "instant \<Rightarrow> tag \<Rightarrow> url_test_history option \<Rightarrow> int" where
  "getHealthScore now t his =
     (case his of
        None \<Rightarrow> 0
      | Some h \<Rightarrow>
          if CheckGeneration h > 0 \<and> \<not> CombinedReady h then 0
          else (let policyPenalty = getPolicyPenalty t (Some h)
                in if Delay h > 0 \<and> Delay h < TimeoutDelay \<and> ErrorType h = []
                   then CalculateHealthScoreWithEvidence now (Delay h) True ErrorTypeNone
                     (IsFromCache h) (Time h) (RuntimePenalty h) (RealUserPenalty h)
                     (VolatilityPenalty h) (UDPPenalty h) policyPenalty
                   else if ErrorType h = [] then 0
                   else CalculateHealthScoreWithEvidence now (Delay h) (Success h) (ErrorType h)
                     (IsFromCache h) (Time h) (RuntimePenalty h) (RealUserPenalty h)
                     (VolatilityPenalty h) (UDPPenalty h) policyPenalty))"

definition getTagHealthScore :: "instant \<Rightarrow> tag \<Rightarrow> history_map \<Rightarrow> int" where
  "getTagHealthScore now t history =
     (case pget history t of Some h \<Rightarrow> getHealthScore now t (Some h) | None \<Rightarrow> 0)"

definition getTagSuccess :: "tag \<Rightarrow> history_map \<Rightarrow> bool" where
  "getTagSuccess t history =
     (case pget history t of None \<Rightarrow> False
      | Some h \<Rightarrow> Success h \<and> (CheckGeneration h = 0 \<or> PingReady h \<and> CombinedReady h))"

definition hasUsableHealth :: "instant \<Rightarrow> history_map \<Rightarrow> bool" where
  "hasUsableHealth now history \<longleftrightarrow>
     list_ex (\<lambda>(t, his). case his of None \<Rightarrow> False
       | Some h \<Rightarrow> Success h \<and> getHealthScore now t (Some h) > 0) history"

definition hasFreshUsableHealth :: "instant \<Rightarrow> history_map \<Rightarrow> bool" where
  "hasFreshUsableHealth now history \<longleftrightarrow>
     list_ex (\<lambda>(t, his). case his of None \<Rightarrow> False
       | Some h \<Rightarrow> \<not> IsFromCache h \<and> Success h \<and> getHealthScore now t (Some h) > 0) history"

definition getDelayMap :: "history_map \<Rightarrow> (tag, u16) go_map" where
  "getDelayMap history =
     map (\<lambda>(t, his). (t, case his of None \<Rightarrow> TimeoutDelay | Some h \<Rightarrow> Delay h)) history"

section \<open>Candidate lists per network\<close>

definition filterOutbounds :: "outbound list \<Rightarrow> string \<Rightarrow> outbound list" where
  "filterOutbounds outbounds network =
     (let res = filter (\<lambda>out. network \<in> set (Networks out)) outbounds
      in if res = [] then outbounds else res)"

definition convertOutbounds :: "outbound list \<Rightarrow> (string, outbound list) go_map" where
  "convertOutbounds outbounds =
     [(NetworkTCP, filterOutbounds outbounds NetworkTCP),
      (NetworkUDP, filterOutbounds outbounds NetworkUDP)]"

definition firstPolicyPreferredOutbound :: "outbound list \<Rightarrow> outbound option" where
  "firstPolicyPreferredOutbound outbounds =
     (if outbounds = [] then None
      else (case find (\<lambda>out. getPolicyPenalty (Tag out) None = 0) outbounds of
              Some out \<Rightarrow> Some out
            | None \<Rightarrow> Some (hd outbounds)))"

definition preferFallbackOutbound :: "instant \<Rightarrow> outbound \<Rightarrow> outbound \<Rightarrow> history_map \<Rightarrow> bool" where
  "preferFallbackOutbound now candidate current history =
     (let candidateHistory = pget history (Tag candidate);
          currentHistory = pget history (Tag current);
          candidateSuccess = (case candidateHistory of None \<Rightarrow> False | Some h \<Rightarrow> Success h);
          currentSuccess = (case currentHistory of None \<Rightarrow> False | Some h \<Rightarrow> Success h);
          candidateScore = getHealthScore now (Tag candidate) candidateHistory;
          currentScore = getHealthScore now (Tag current) currentHistory;
          candidatePenalty = getPolicyPenalty (Tag candidate) candidateHistory;
          currentPenalty = getPolicyPenalty (Tag current) currentHistory
      in if candidateSuccess \<noteq> currentSuccess then candidateSuccess
         else if candidateSuccess \<and> currentSuccess \<and> candidateScore \<noteq> currentScore
           then candidateScore > currentScore
         else if candidatePenalty \<noteq> currentPenalty then candidatePenalty < currentPenalty
         else getModifiedDelay candidateHistory < getModifiedDelay currentHistory)"

text \<open>One network of \<open>getMinDelay\<close>: the loop over the outbounds, then the fallback loop.\<close>

fun min_delay_loop :: "instant \<Rightarrow> bool \<Rightarrow> history_map \<Rightarrow> outbound list
    \<Rightarrow> u16 \<times> int \<times> outbound option \<Rightarrow> u16 \<times> int \<times> outbound option" where
  "min_delay_loop now useHealth history [] acc = acc"
| "min_delay_loop now useHealth history (out # outs) (minDelay, bestScore, minOut) =
     (let d = getTagDelay (Tag out) history;
          score = getTagHealthScore now (Tag out) history
      in min_delay_loop now useHealth history outs
           (if useHealth \<and> getTagSuccess (Tag out) history then
              (if score > bestScore \<or> score = bestScore \<and> d \<le> minDelay
               then (d, score, Some out) else (minDelay, bestScore, minOut))
            else if \<not> useHealth \<and> (case minOut of None \<Rightarrow> True
                   | Some cur \<Rightarrow> preferFallbackOutbound now out cur history)
              then (d, bestScore, Some out)
            else (minDelay, bestScore, minOut)))"

fun fallback_loop :: "instant \<Rightarrow> history_map \<Rightarrow> outbound list
    \<Rightarrow> u16 \<times> outbound option \<Rightarrow> u16 \<times> outbound option" where
  "fallback_loop now history [] acc = acc"
| "fallback_loop now history (out # outs) (minDelay, minOut) =
     fallback_loop now history outs
       (if (case minOut of None \<Rightarrow> True | Some cur \<Rightarrow> preferFallbackOutbound now out cur history)
        then (getTagDelay (Tag out) history, Some out) else (minDelay, minOut))"

definition min_delay_of :: "instant \<Rightarrow> bool \<Rightarrow> history_map \<Rightarrow> outbound list \<Rightarrow> u16 \<times> outbound option" where
  "min_delay_of now useHealth history outs =
     (case min_delay_loop now useHealth history outs (TimeoutDelay, -1, None) of
        (minDelay, bestScore, Some out) \<Rightarrow> (minDelay, Some out)
      | (minDelay, bestScore, None) \<Rightarrow> fallback_loop now history outs (TimeoutDelay, None))"

definition getMinDelay :: "instant \<Rightarrow> (string, outbound list) go_map \<Rightarrow> history_map
    \<Rightarrow> (string, outbound) ptr_map \<times> (string, u16) go_map" where
  "getMinDelay now outbounds history =
     (let useHealth = hasUsableHealth now history
      in (map (\<lambda>(net, outs). (net, snd (min_delay_of now useHealth history outs))) outbounds,
          map (\<lambda>(net, outs). (net, fst (min_delay_of now useHealth history outs))) outbounds))"

section \<open>Facts about delays and scores\<close>

lemma getHealthScore_None [simp]: "getHealthScore now t None = 0"
  by (simp add: getHealthScore_def)

lemma getHealthScore_bounds: "0 \<le> getHealthScore now t h \<and> getHealthScore now t h \<le> 100"
  by (auto simp: getHealthScore_def Let_def health_score_bounds_aux split: option.splits)

lemma getTagHealthScore_eq: "getTagHealthScore now t m = getHealthScore now t (pget m t)"
  by (simp add: getTagHealthScore_def split: option.splits)

lemma getTagDelay_eq: "getTagDelay t m = getModifiedDelay (pget m t)"
  by (simp add: getTagDelay_def getModifiedDelay_def split: option.splits)

lemma getPolicyPenalty_nonneg: "0 \<le> getPolicyPenalty t h"
  by (auto simp: getPolicyPenalty_def CalculatePolicyPenalty_def split: option.splits)

text \<open>The increment for a cached delay never wraps around its 16 bits.\<close>

lemma delay_increment_no_wrap:
  fixes d :: u16
  assumes "d < 20000"
  shows "unat (d + 20000) = unat d + 20000"
proof -
  have "unat d < unat (20000 :: u16)"
    using assms by (simp only: word_less_nat_alt)
  then show ?thesis
    by (simp add: unat_word_ariths)
qed

lemma cached_delay_no_wrap:
  assumes "IsFromCache h"
  shows "20000 \<le> unat (getModifiedDelay (Some h))"
proof -
  let ?d = "if Delay h = 0 then TimeoutDelay else Delay h"
  show ?thesis
  proof (cases "?d < 20000")
    case True
    then have "unat (?d + 20000) = unat ?d + 20000"
      by (rule delay_increment_no_wrap)
    moreover have "getModifiedDelay (Some h) = ?d + 20000"
      using True assms by (simp add: getModifiedDelay_def Let_def)
    ultimately show ?thesis by simp
  next
    case False
    then have "unat (20000 :: u16) \<le> unat ?d"
      by (simp only: word_le_nat_alt not_less)
    moreover have "getModifiedDelay (Some h) = ?d"
      using False by (simp add: getModifiedDelay_def Let_def)
    ultimately show ?thesis by simp
  qed
qed

lemma getModifiedDelay_positive: "0 < getModifiedDelay h"
proof (cases h)
  case None
  then show ?thesis by (simp add: getModifiedDelay_def)
next
  case (Some x)
  show ?thesis
  proof (cases "IsFromCache x")
    case True
    then show ?thesis
      using cached_delay_no_wrap [of x] by (simp add: Some word_less_nat_alt)
  next
    case False
    then show ?thesis
      by (simp add: Some getModifiedDelay_def word_neq_0_conv)
  qed
qed

lemma filterOutbounds_subset: "set (filterOutbounds outs n) \<subseteq> set outs"
  by (auto simp: filterOutbounds_def Let_def)

lemma filterOutbounds_nonempty: "outs \<noteq> [] \<Longrightarrow> filterOutbounds outs n \<noteq> []"
  by (simp add: filterOutbounds_def Let_def)

lemma firstPolicyPreferred_member: "firstPolicyPreferredOutbound outs = Some out \<Longrightarrow> out \<in> set outs"
  by (auto simp: firstPolicyPreferredOutbound_def find_Some_iff split: if_splits option.splits)

lemma firstPolicyPreferred_exists: "outs \<noteq> [] \<Longrightarrow> \<exists>out. firstPolicyPreferredOutbound outs = Some out"
  by (auto simp: firstPolicyPreferredOutbound_def split: option.splits)

end
