(* ===== verification/IPv6_Gate.thy ===== *)
theory IPv6_Gate
  imports Url_Health
begin

text \<open>
  \<open>common/monitoring/ipv6_capability.go\<close>: the capability verdict of one IPv6 probe and the
  gate that decides whether a flow may use an outbound under the configured IP family mode.
\<close>

datatype domain_strategy =
  DomainStrategyAsIS | DomainStrategyPreferIPv4 | DomainStrategyPreferIPv6
| DomainStrategyIPv4Only | DomainStrategyIPv6Only

text \<open>\<open>netip.Addr\<close>: the zero address, an IPv4 address, an IPv6 address with its zone.\<close>

datatype netip_addr = AddrZero | Addr4 "32 word" | Addr6 "128 word" string

definition Is4 :: "netip_addr \<Rightarrow> bool" where
  "Is4 a = (case a of Addr4 _ \<Rightarrow> True | _ \<Rightarrow> False)"

definition Is6 :: "netip_addr \<Rightarrow> bool" where
  "Is6 a = (case a of Addr6 _ _ \<Rightarrow> True | _ \<Rightarrow> False)"

definition Is4In6 :: "netip_addr \<Rightarrow> bool" where
  "Is4In6 a = (case a of Addr6 w _ \<Rightarrow> drop_bit 32 w = 0xffff | _ \<Rightarrow> False)"

text \<open>The fields of \<open>adapter.InboundContext\<close> the group outbounds read and write.\<close>

record inbound_context =
  IPVersion :: nat
  Network :: string
  DestinationAddr :: netip_addr
  RealOutbound :: tag

abbreviation "IPv6StatusNotTested \<equiv> ''not_tested''"
abbreviation "IPv6StatusChecking \<equiv> ''checking''"
abbreviation "IPv6StatusSupported \<equiv> ''supported''"
abbreviation "IPv6StatusUnavailable \<equiv> ''unavailable''"
abbreviation "IPv6StatusIndeterminate \<equiv> ''indeterminate''"
abbreviation (input) DefaultIPv6CapabilityTTL :: duration where "DefaultIPv6CapabilityTTL \<equiv> minutes 10"

section \<open>The probe verdict\<close>

record ipv6_probe_result =
  probe_status :: string
  probe_checkedAt :: instant
  probe_successes :: int
  probe_attempts :: int
  probe_errorType :: string
  probe_errorText :: string

definition allIPv6ProbeErrorsInfrastructure :: "string list \<Rightarrow> string list \<Rightarrow> bool" where
  "allIPv6ProbeErrorsInfrastructure errorTypes errorTexts =
     (if errorTypes = [] then True
      else list_all (\<lambda>(index, errorType).
             let infrastructure = (errorType = ErrorTypeDNSTimeout
                   \<or> errorType = ErrorTypeTLSHandshakeFailed);
                 infrastructure = (if errorType = ErrorTypeUnknown \<and> index < length errorTexts
                   then (let text = go_lower (errorTexts ! index)
                         in str_contains ''dns'' text \<or> str_contains ''aaaa'' text)
                   else infrastructure)
             in infrastructure) (enumerate 0 errorTypes))"

text \<open>
  \<open>probeIPv6Capability\<close> after the probes have run: \<open>results\<close> is what the result channel
  delivered, one entry per target in the order of arrival, \<open>ctx_err\<close> whether the context
  had ended, \<open>label\<close> the host name \<open>ipv6ProbeTargetLabel\<close> takes from a target URL.
\<close>

definition probeIPv6Capability ::
  "(string \<Rightarrow> string) \<Rightarrow> instant \<Rightarrow> bool \<Rightarrow> (string \<times> go_error option) list \<Rightarrow> ipv6_probe_result" where
  "probeIPv6Capability label now ctx_err results =
     (let failures = filter (\<lambda>r. snd r \<noteq> None) results;
          classified = map (\<lambda>(target, err). (label target, ClassifyProbeError err)) failures;
          successes = int (length results) - int (length failures);
          probe = \<lparr> probe_status = IPv6StatusUnavailable, probe_checkedAt = now,
                    probe_successes = successes, probe_attempts = int (length results),
                    probe_errorType = str_join '','' (map (\<lambda>(l, e, t). l @ ''='' @ e) classified),
                    probe_errorText = str_join ''; '' (map (\<lambda>(l, e, t). l @ ''='' @ t) classified) \<rparr>
      in if successes > 0 then probe\<lparr>probe_status := IPv6StatusSupported\<rparr>
         else if ctx_err \<or> allIPv6ProbeErrorsInfrastructure
                (map (\<lambda>(l, e, t). e) classified) (map (\<lambda>(l, e, t). t) classified)
         then probe\<lparr>probe_status := IPv6StatusIndeterminate\<rparr>
         else probe)"

definition ipv6CapabilityStatusForMode :: "ipv6_probe_result \<Rightarrow> domain_strategy \<Rightarrow> string" where
  "ipv6CapabilityStatusForMode result mode =
     (if mode = DomainStrategyIPv6Only \<and> probe_successes result > 0
         \<and> probe_successes result < probe_attempts result
      then IPv6StatusUnavailable else probe_status result)"

section \<open>The traffic gate\<close>

definition IPv6CapabilityFresh :: "url_test_history option \<Rightarrow> instant \<Rightarrow> duration \<Rightarrow> bool" where
  "IPv6CapabilityFresh history now ttl =
     (case history of
        None \<Rightarrow> False
      | Some h \<Rightarrow>
          if IPv6Status h \<noteq> IPv6StatusSupported \<or> IsZero (IPv6CheckedAt h) then False
          else (let ttl = (if ttl \<le> 0 then DefaultIPv6CapabilityTTL else ttl)
                in \<not> After (IPv6CheckedAt h) now \<and> now - IPv6CheckedAt h \<le> ttl))"

definition IPv6CapabilityFreshForMode ::
  "url_test_history option \<Rightarrow> domain_strategy \<Rightarrow> instant \<Rightarrow> duration \<Rightarrow> bool" where
  "IPv6CapabilityFreshForMode history mode now ttl =
     (if \<not> IPv6CapabilityFresh history now ttl then False
      else if mode \<noteq> DomainStrategyIPv6Only then True
      else (case history of None \<Rightarrow> False
            | Some h \<Rightarrow> IPv6TargetCount h > 0 \<and> IPv6TargetSuccess h = IPv6TargetCount h))"

definition IPv6ModeRequiresCapability :: "domain_strategy \<Rightarrow> bool" where
  "IPv6ModeRequiresCapability mode \<longleftrightarrow>
     mode = DomainStrategyPreferIPv4 \<or> mode = DomainStrategyPreferIPv6
     \<or> mode = DomainStrategyIPv6Only"

definition flow_is_v4 :: "inbound_context \<Rightarrow> bool" where
  "flow_is_v4 metadata \<longleftrightarrow> IPVersion metadata = 4 \<or> Is4 (DestinationAddr metadata)
     \<or> Is4In6 (DestinationAddr metadata)"

definition flow_is_v6 :: "inbound_context \<Rightarrow> bool" where
  "flow_is_v6 metadata \<longleftrightarrow> IPVersion metadata = 6
     \<or> Is6 (DestinationAddr metadata) \<and> \<not> Is4In6 (DestinationAddr metadata)"

definition IPv6TrafficAllowed ::
  "domain_strategy \<Rightarrow> inbound_context \<Rightarrow> url_test_history option \<Rightarrow> instant \<Rightarrow> duration \<Rightarrow> bool" where
  "IPv6TrafficAllowed mode metadata history now ttl =
     (let isIPv4 = flow_is_v4 metadata; isIPv6 = flow_is_v6 metadata
      in if mode = DomainStrategyIPv4Only then \<not> isIPv6
         else if mode = DomainStrategyIPv6Only
           then \<not> isIPv4 \<and> IPv6CapabilityFreshForMode history mode now ttl
         else if isIPv6 \<and> IPv6ModeRequiresCapability mode
           then IPv6CapabilityFresh history now ttl
         else True)"

lemma capability_fresh_for_mode_imp: "IPv6CapabilityFreshForMode h m now ttl \<Longrightarrow> IPv6CapabilityFresh h now ttl"
  by (simp add: IPv6CapabilityFreshForMode_def split: if_splits)

lemma capability_fresh_Some:
  "IPv6CapabilityFresh h now ttl \<Longrightarrow> \<exists>x. h = Some x \<and> IPv6Status x = IPv6StatusSupported \<and> IPv6CheckedAt x \<le> now"
  by (auto simp: IPv6CapabilityFresh_def Let_def split: option.splits if_splits)

lemma capability_fresh_expires:
  assumes "IPv6CapabilityFresh (Some h) now ttl" and "0 < ttl"
  shows "\<not> IPv6CapabilityFresh (Some h) (IPv6CheckedAt h + ttl + 1) ttl"
  using assms by (simp add: IPv6CapabilityFresh_def)

text \<open>Partial success of the targets never becomes a capability under the strict mode.\<close>

lemma strict_mode_needs_every_target:
  assumes "ipv6CapabilityStatusForMode (probeIPv6Capability label now ctx results) DomainStrategyIPv6Only
      = IPv6StatusSupported"
  shows "results \<noteq> [] \<and> list_all (\<lambda>r. snd r = None) results"
proof -
  let ?p = "probeIPv6Capability label now ctx results"
  let ?f = "filter (\<lambda>r. snd r \<noteq> None) results"
  have p: "probe_successes ?p = int (length results) - int (length ?f)"
    "probe_attempts ?p = int (length results)"
    by (simp_all add: probeIPv6Capability_def Let_def)
  have status: "probe_status ?p = IPv6StatusSupported"
    using assms by (simp add: ipv6CapabilityStatusForMode_def split: if_splits)
  then have pos: "length ?f < length results"
    by (simp add: probeIPv6Capability_def Let_def split: if_splits)
  have "\<not> (probe_successes ?p > 0 \<and> probe_successes ?p < probe_attempts ?p)"
    using assms by (simp add: ipv6CapabilityStatusForMode_def split: if_splits)
  then have "length ?f = 0"
    using pos by (simp add: p)
  then show ?thesis
    using pos by (auto simp: filter_empty_conv list_all_iff)
qed

end
