(* ===== verification/Smart_Types.thy ===== *)
theory Smart_Types
  imports Balancer_Common IPv6_Gate
begin

text \<open>
  The state of \<open>SmartActive\<close> (\<open>protocol/group/balancer/smart_active.go\<close> and
  \<open>smart_active_probe.go\<close>), the health classification of one outbound and the eligibility
  test every selection goes through.
\<close>

section \<open>Health states, decisions and evidence\<close>

text \<open>
  The string literals of \<open>smartActiveState\<close>, in order of severity. The strings of actions,
  modes and history sources are closed sets too; reasons are built by concatenation and
  searched for substrings, so they stay strings.
\<close>

datatype health_state = GOOD | SUSPECT | DEGRADED | BAD | CRITICAL

primrec severity :: "health_state \<Rightarrow> nat" where
  "severity GOOD = 0"
| "severity SUSPECT = 1"
| "severity DEGRADED = 2"
| "severity BAD = 3"
| "severity CRITICAL = 4"

instantiation health_state :: linorder
begin

definition less_eq_health_state :: "health_state \<Rightarrow> health_state \<Rightarrow> bool" where
  "less_eq_health_state a b \<longleftrightarrow> severity a \<le> severity b"

definition less_health_state :: "health_state \<Rightarrow> health_state \<Rightarrow> bool" where
  "less_health_state a b \<longleftrightarrow> severity a < severity b"

instance
proof
  fix x y z :: health_state
  show "x \<le> y \<Longrightarrow> y \<le> x \<Longrightarrow> x = y"
    by (cases x; cases y) (simp_all add: less_eq_health_state_def)
qed (auto simp: less_eq_health_state_def less_health_state_def)

end

datatype decision_action = Wait | Keep | Confirm | Switch | Fallback

datatype update_mode =
  ModeNone | ModeVpnStart | ModeBackground | ModeUserRefresh | ModeCompletedBatch | ModeActiveProbe

datatype history_source = SourceUnset | SourceCache | SourcePartial | SourceFull | SourceActiveProbe

record smart_decision =
  action :: decision_action
  reason :: string
  dfrom :: tag
  dto :: tag
  dstate :: health_state
  dmode :: update_mode

record smart_evidence =
  successStreak :: int
  failureStreak :: int
  lastScore :: int
  recoveryPending :: bool
  lastProbeGeneration :: u64
  lastProbeTime :: instant
  hasCompletedProbe :: bool

definition zero_evidence :: smart_evidence where
  "zero_evidence = \<lparr> successStreak = 0, failureStreak = 0, lastScore = 0, recoveryPending = False,
     lastProbeGeneration = 0, lastProbeTime = 0, hasCompletedProbe = False \<rparr>"

record smart_probe_evidence =
  ptag :: tag
  lastProbeAt :: instant
  hardFailureStreak :: int
  poorQualityStreak :: int
  confirmedUnhealthy :: bool
  betterCandidate :: tag
  betterStreak :: int

definition probe_evidence_for :: "tag \<Rightarrow> smart_probe_evidence" where
  "probe_evidence_for t = \<lparr> ptag = t, lastProbeAt = 0, hardFailureStreak = 0,
     poorQualityStreak = 0, confirmedUnhealthy = False, betterCandidate = [], betterStreak = 0 \<rparr>"

record smart_active =
  sa_outbounds :: "outbound list"
  sa_active :: "outbound option"
  sa_bootstrap :: bool
  sa_selectionGeneration :: u64
  sa_lastFullGeneration :: u64
  sa_lastFullHistory :: history_map
  sa_confirmed :: bool
  sa_startedAt :: instant
  sa_evidence :: "(tag, smart_evidence) go_map"
  sa_avoidUntil :: "(tag, instant) go_map"
  sa_decision :: smart_decision
  sa_recovered :: "tag list"
  sa_activeProbe :: smart_probe_evidence
  sa_diagnosticHistory :: history_map
  sa_diagnosticGeneration :: u64
  sa_diagnosticSource :: history_source
  sa_ipv6Mode :: domain_strategy
  sa_ipv6CapabilityTTL :: duration
  sa_latestHistory :: history_map

abbreviation (input) smartActiveMinimalDelayDelta :: int where "smartActiveMinimalDelayDelta \<equiv> 10"
abbreviation (input) smartActiveSignificantDelayDelta :: int where "smartActiveSignificantDelayDelta \<equiv> 50"
abbreviation (input) smartActiveScoreSwitchMargin :: int where "smartActiveScoreSwitchMargin \<equiv> 8"
abbreviation (input) smartActiveComparableScoreDelta :: int where "smartActiveComparableScoreDelta \<equiv> 5"
abbreviation (input) smartActiveCleanEvidenceRequired :: int where "smartActiveCleanEvidenceRequired \<equiv> 2"
abbreviation (input) smartActiveAvoidAfterSwitch :: duration where "smartActiveAvoidAfterSwitch \<equiv> minutes 2"
abbreviation (input) smartActiveProbeConfirmations :: int where "smartActiveProbeConfirmations \<equiv> 2"
abbreviation (input) smartActiveUnusableDelay :: u16 where "smartActiveUnusableDelay \<equiv> 1500"
abbreviation (input) smartActiveSevereUDPLoss :: rat where "smartActiveSevereUDPLoss \<equiv> 80"
abbreviation (input) smartActiveCandidateMaxAge :: duration where "smartActiveCandidateMaxAge \<equiv> minutes 10"

definition NewSmartActive :: "instant \<Rightarrow> outbound list \<Rightarrow> domain_strategy \<Rightarrow> duration \<Rightarrow> smart_active" where
  "NewSmartActive now outbounds mode ttl =
     \<lparr> sa_outbounds = outbounds, sa_active = None, sa_bootstrap = True, sa_selectionGeneration = 0,
       sa_lastFullGeneration = 0, sa_lastFullHistory = [], sa_confirmed = False,
       sa_startedAt = now, sa_evidence = [], sa_avoidUntil = [],
       sa_decision = \<lparr> action = Wait, reason = ''startup_waiting_for_verified_batch'', dfrom = [],
         dto = [], dstate = SUSPECT, dmode = ModeVpnStart \<rparr>,
       sa_recovered = [], sa_activeProbe = probe_evidence_for [], sa_diagnosticHistory = [],
       sa_diagnosticGeneration = 0, sa_diagnosticSource = SourceUnset, sa_ipv6Mode = mode,
       sa_ipv6CapabilityTTL = (if ttl \<le> 0 then DefaultIPv6CapabilityTTL else ttl),
       sa_latestHistory = [] \<rparr>"

definition candidateTag :: "outbound option \<Rightarrow> tag" where
  "candidateTag candidate = (case candidate of None \<Rightarrow> [] | Some out \<Rightarrow> Tag out)"

definition Now :: "smart_active \<Rightarrow> tag" where
  "Now s = (case sa_active s of None \<Rightarrow> [] | Some out \<Rightarrow> Tag out)"

definition Select :: "instant \<Rightarrow> smart_active \<Rightarrow> inbound_context \<Rightarrow> outbound option" where
  "Select now s metadata =
     (case sa_active s of
        None \<Rightarrow> None
      | Some out \<Rightarrow>
          if \<not> IPv6TrafficAllowed (sa_ipv6Mode s) metadata (pget (sa_latestHistory s) (Tag out)) now
               (sa_ipv6CapabilityTTL s)
          then None else Some out)"

section \<open>Classification of one outbound\<close>

definition isTransientSmartActiveError :: "string \<Rightarrow> bool" where
  "isTransientSmartActiveError errorType \<longleftrightarrow>
     errorType \<in> {ErrorTypeEOF, ErrorTypeReset, ErrorTypeBrokenPipe}"

definition smartActiveState :: "instant \<Rightarrow> url_test_history option \<Rightarrow> health_state" where
  "smartActiveState now his =
     (case his of
        None \<Rightarrow> SUSPECT
      | Some h \<Rightarrow>
          if CheckGeneration h > 0 \<and> URLTestStatus h = StatusChecking then
            (if IsCriticalProbeError (ErrorType h) \<or> DegradationPoints h \<ge> 75
                \<or> \<not> Success h \<and> RealUserPenalty h \<ge> 20 then CRITICAL else SUSPECT)
          else if IsCriticalProbeError (ErrorType h) \<or> DegradationPoints h \<ge> 75
                  \<or> \<not> Success h \<and> RealUserPenalty h \<ge> 20 then CRITICAL
          else if \<not> Success h \<and> isTransientSmartActiveError (ErrorType h)
                  \<and> DegradationPoints h < 30 \<and> RealUserPenalty h < 12 then SUSPECT
          else (let score = getHealthScore now [] (Some h)
                in if \<not> Success h \<or> DegradationPoints h \<ge> 55 \<or> score < 25 then BAD
                   else if DegradationPoints h \<ge> 30 \<or> RuntimePenalty h + RealUserPenalty h \<ge> 18
                           \<or> score < 45 then DEGRADED
                   else if DegradationPoints h \<ge> 10 \<or> RuntimePenalty h + RealUserPenalty h \<ge> 8
                           \<or> score < 60 \<or> VolatilityPenalty h \<ge> 10 then SUSPECT
                   else GOOD))"

definition runtimeDrivenActiveIssue :: "url_test_history option \<Rightarrow> bool" where
  "runtimeDrivenActiveIssue his =
     (case his of None \<Rightarrow> False | Some h \<Rightarrow> RuntimePenalty h > 0 \<or> RealUserPenalty h > 0)"

definition runtimeCriticalActiveIssue :: "url_test_history option \<Rightarrow> bool" where
  "runtimeCriticalActiveIssue his =
     (case his of None \<Rightarrow> False
      | Some h \<Rightarrow> DegradationPoints h \<ge> 75 \<or> RealUserPenalty h \<ge> 20 \<or> RuntimePenalty h \<ge> 20
          \<or> IsCriticalProbeError (ErrorType h))"

definition currentCheckInProgress :: "url_test_history option \<Rightarrow> bool" where
  "currentCheckInProgress his =
     (case his of None \<Rightarrow> False
      | Some h \<Rightarrow> CheckGeneration h > 0 \<and> URLTestStatus h = StatusChecking \<and> \<not> CombinedReady h)"

definition pendingAction :: "outbound option \<Rightarrow> decision_action" where
  "pendingAction current = (case current of None \<Rightarrow> Wait | Some _ \<Rightarrow> Keep)"

definition decisionMode :: "update_mode \<Rightarrow> bool \<Rightarrow> update_mode" where
  "decisionMode requested boot =
     (if requested \<noteq> ModeNone then requested
      else if boot then ModeVpnStart else ModeBackground)"

section \<open>Eligibility\<close>

record smart_candidate_status =
  status_ok :: bool
  status_reason :: string

definition rejected :: "string \<Rightarrow> smart_candidate_status" where
  "rejected r = \<lparr> status_ok = False, status_reason = r \<rparr>"

definition hasOutbound :: "smart_active \<Rightarrow> tag \<Rightarrow> bool" where
  "hasOutbound s t \<longleftrightarrow> list_ex (\<lambda>out. Tag out = t) (sa_outbounds s)"

definition ipv6Preferred :: "instant \<Rightarrow> smart_active \<Rightarrow> url_test_history option \<Rightarrow> u64 \<Rightarrow> bool" where
  "ipv6Preferred now s his generation =
     (case his of None \<Rightarrow> False
      | Some h \<Rightarrow> IPv6Generation h = generation
          \<and> IPv6CapabilityFreshForMode (Some h) (sa_ipv6Mode s) now (sa_ipv6CapabilityTTL s))"

definition candidateStatus ::
  "instant \<Rightarrow> smart_active \<Rightarrow> tag \<Rightarrow> url_test_history option \<Rightarrow> u64 \<Rightarrow> smart_candidate_status" where
  "candidateStatus now s t his generation =
     (if t = [] \<or> \<not> hasOutbound s t then rejected ''unknown_outbound''
      else (case his of
        None \<Rightarrow> rejected ''missing_history''
      | Some h \<Rightarrow>
          if generation = 0 then rejected ''missing_current_generation''
          else if CheckGeneration h = 0 then rejected ''missing_generation''
          else if CheckGeneration h \<noteq> generation then rejected ''stale_generation''
          else if IsZero (Time h) \<or> Before (Time h) (sa_startedAt s) then rejected ''stale_timestamp''
          else if IsFromCache h then rejected ''cached_history''
          else if sa_ipv6Mode s = DomainStrategyIPv6Only \<and> \<not> ipv6Preferred now s (Some h) generation
            then rejected ''ipv6_capability_required''
          else if \<not> Success h then
            (if ErrorType h \<noteq> [] then rejected (''failed_'' @ ErrorType h) else rejected ''failed'')
          else if ErrorType h \<noteq> [] \<and> ErrorType h \<noteq> ErrorTypeNone
            then rejected (''error_'' @ ErrorType h)
          else if URLTestStatus h \<noteq> [] \<and> URLTestStatus h \<noteq> StatusSuccess
            then rejected (''status_'' @ URLTestStatus h)
          else if \<not> CombinedReady h then rejected ''combined_not_ready''
          else if getPolicyPenalty t (Some h) \<ge> 50 then rejected ''policy_blocked''
          else if getHealthScore now t (Some h) < 35 then rejected ''score_below_minimum''
          else (let state = smartActiveState now (Some h)
                in if state = BAD \<or> state = CRITICAL then rejected ''bad_health_state''
                   else \<lparr> status_ok = True, status_reason = [] \<rparr>)))"

abbreviation eligible :: "instant \<Rightarrow> smart_active \<Rightarrow> tag \<Rightarrow> url_test_history option \<Rightarrow> u64 \<Rightarrow> bool" where
  "eligible now s t his g \<equiv> status_ok (candidateStatus now s t his g)"

lemma rejected_not_ok [simp]: "\<not> status_ok (rejected r)"
  by (simp add: rejected_def)

lemma hasOutbound_iff: "hasOutbound s t \<longleftrightarrow> (\<exists>out \<in> set (sa_outbounds s). Tag out = t)"
  by (simp add: hasOutbound_def list_ex_iff)

text \<open>What eligibility means, as one conjunction.\<close>

lemma eligible_iff:
  "eligible now s t his g \<longleftrightarrow>
     (\<exists>h. his = Some h \<and> t \<noteq> [] \<and> hasOutbound s t \<and> g \<noteq> 0 \<and> CheckGeneration h = g
       \<and> Time h \<noteq> 0 \<and> sa_startedAt s \<le> Time h \<and> \<not> IsFromCache h
       \<and> (sa_ipv6Mode s = DomainStrategyIPv6Only \<longrightarrow> ipv6Preferred now s (Some h) g)
       \<and> Success h \<and> (ErrorType h = [] \<or> ErrorType h = ErrorTypeNone)
       \<and> (URLTestStatus h = [] \<or> URLTestStatus h = StatusSuccess) \<and> CombinedReady h
       \<and> getPolicyPenalty t (Some h) < 50 \<and> 35 \<le> getHealthScore now t (Some h)
       \<and> smartActiveState now (Some h) < BAD)"
proof (cases his)
  case None
  then show ?thesis by (simp add: candidateStatus_def)
next
  case (Some h)
  have st: "smartActiveState now (Some h) < BAD
      \<longleftrightarrow> smartActiveState now (Some h) \<noteq> BAD \<and> smartActiveState now (Some h) \<noteq> CRITICAL"
    by (cases "smartActiveState now (Some h)") (simp_all add: less_health_state_def)
  show ?thesis (is "?l = ?r")
  proof
    assume ?l
    then show ?r
      by (simp add: Some candidateStatus_def Let_def st split: if_splits)
  next
    assume ?r
    then show ?l
      by (auto simp: Some candidateStatus_def Let_def st)
  qed
qed

lemma eligible_Some: "eligible now s t his g \<Longrightarrow> \<exists>h. his = Some h"
  by (auto simp: eligible_iff)

lemma eligible_hasOutbound: "eligible now s t his g \<Longrightarrow> hasOutbound s t"
  by (auto simp: eligible_iff)

text \<open>Eligibility reads only these fields of the state.\<close>

lemma candidateStatus_cong:
  assumes "sa_outbounds s = sa_outbounds s'" "sa_startedAt s = sa_startedAt s'"
    "sa_ipv6Mode s = sa_ipv6Mode s'" "sa_ipv6CapabilityTTL s = sa_ipv6CapabilityTTL s'"
  shows "candidateStatus now s t h g = candidateStatus now s' t h g"
proof -
  have "hasOutbound s t = hasOutbound s' t"
    using assms by (simp add: hasOutbound_def)
  moreover have "ipv6Preferred now s h' g = ipv6Preferred now s' h' g" for h'
    using assms by (simp add: ipv6Preferred_def cong: option.case_cong)
  ultimately show ?thesis
    using assms by (simp only: candidateStatus_def)
qed

end
