(* ===== verification/Smart_Memory.thy ===== *)
theory Smart_Memory
  imports Smart_Types
begin

text \<open>
  Generations and the memory of the last complete one. Monitoring resets its state in place
  when a cycle starts, so \<open>SmartActive\<close> keeps a snapshot of the last cohort in which every
  outbound had a terminal result, and lays later evidence over it. The sources clone every
  history before they change it; values are immutable here, so a clone is the value itself.
\<close>

section \<open>Which generation the histories show\<close>

definition fresh_entry :: "smart_active \<Rightarrow> url_test_history \<Rightarrow> bool" where
  "fresh_entry s h \<longleftrightarrow>
     \<not> IsZero (Time h) \<and> \<not> Before (Time h) (sa_startedAt s) \<and> \<not> IsFromCache h"

definition currentGeneration :: "smart_active \<Rightarrow> history_map \<Rightarrow> u64" where
  "currentGeneration s history =
     fold (\<lambda>out newest. case pget history (Tag out) of
             None \<Rightarrow> newest
           | Some h \<Rightarrow> if CheckGeneration h = 0 \<or> \<not> fresh_entry s h then newest
                       else if CheckGeneration h > newest then CheckGeneration h else newest)
       (sa_outbounds s) 0"

definition terminal_result :: "url_test_history \<Rightarrow> bool" where
  "terminal_result h =
     (if URLTestStatus h = StatusSuccess \<or> URLTestStatus h = StatusFailed then True
      else if URLTestStatus h = []
        then \<not> (\<not> Success h \<and> (ErrorType h = [] \<or> ErrorType h = ErrorTypeNone))
      else False)"

definition generationSettled :: "smart_active \<Rightarrow> history_map \<Rightarrow> u64 \<Rightarrow> bool" where
  "generationSettled s history generation =
     (if generation = 0 \<or> sa_outbounds s = [] then False
      else list_all (\<lambda>out. case pget history (Tag out) of None \<Rightarrow> False
             | Some h \<Rightarrow> CheckGeneration h = generation \<and> fresh_entry s h \<and> CombinedReady h
                 \<and> terminal_result h) (sa_outbounds s))"

definition generationCoversAll :: "smart_active \<Rightarrow> history_map \<Rightarrow> u64 \<Rightarrow> bool" where
  "generationCoversAll s history generation =
     (if generation = 0 \<or> sa_outbounds s = [] then False
      else list_all (\<lambda>out. case pget history (Tag out) of None \<Rightarrow> False
             | Some h \<Rightarrow> CheckGeneration h = generation \<and> fresh_entry s h) (sa_outbounds s))"

definition bootstrapGenerationSettled :: "smart_active \<Rightarrow> history_map \<Rightarrow> u64 \<Rightarrow> bool" where
  "bootstrapGenerationSettled s history generation =
     (if generation = 0 \<or> sa_outbounds s = [] then False
      else list_all (\<lambda>out. case pget history (Tag out) of None \<Rightarrow> False
             | Some h \<Rightarrow> \<not> CheckGeneration h < generation \<and> fresh_entry s h \<and> CombinedReady h
                 \<and> terminal_result h) (sa_outbounds s))"

definition smartActiveHistorySource :: "history_map \<Rightarrow> u64 \<Rightarrow> history_source" where
  "smartActiveHistorySource history generation =
     (if list_ex (\<lambda>(t, item). case item of None \<Rightarrow> False | Some h \<Rightarrow> IsFromCache h) history
      then SourceCache
      else if generation = 0 then SourcePartial else SourceFull)"

section \<open>Laying newer evidence over a saved entry\<close>

definition mergeSmartActiveWorseningEvidence ::
  "url_test_history \<Rightarrow> url_test_history option \<Rightarrow> url_test_history" where
  "mergeSmartActiveWorseningEvidence target latest =
     (case latest of
        None \<Rightarrow> target
      | Some l \<Rightarrow>
          (let target = target\<lparr> RuntimePenalty := max (RuntimePenalty target) (RuntimePenalty l),
                 RealUserPenalty := max (RealUserPenalty target) (RealUserPenalty l),
                 VolatilityPenalty := max (VolatilityPenalty target) (VolatilityPenalty l),
                 DegradationPoints := max (DegradationPoints target) (DegradationPoints l),
                 StabilityPoints := min (StabilityPoints target) (StabilityPoints l),
                 PolicyPenalty := max (PolicyPenalty target) (PolicyPenalty l) \<rparr>
           in if UDPReady l \<and> UDPPenalty l \<ge> UDPPenalty target
              then target\<lparr> UDPReady := True, UDPProbeAvailable := UDPProbeAvailable l,
                     UDPPenalty := UDPPenalty l, UDPLoss := UDPLoss l,
                     UDPJitterMs := UDPJitterMs l \<rparr>
              else target))"

definition mergeSmartActiveDynamicEvidence ::
  "url_test_history \<Rightarrow> url_test_history option \<Rightarrow> url_test_history" where
  "mergeSmartActiveDynamicEvidence target latest =
     (case latest of
        None \<Rightarrow> target
      | Some l \<Rightarrow>
          (let target = target\<lparr> RuntimePenalty := RuntimePenalty l,
                 RealUserPenalty := RealUserPenalty l,
                 VolatilityPenalty := VolatilityPenalty l,
                 StabilityPoints := StabilityPoints l,
                 DegradationPoints := DegradationPoints l \<rparr>
           in if PolicyPenalty l > 0 then target\<lparr> PolicyPenalty := PolicyPenalty l \<rparr> else target))"

definition newerSmartActiveSnapshot :: "url_test_history option \<Rightarrow> url_test_history option \<Rightarrow> bool" where
  "newerSmartActiveSnapshot latest saved =
     (case (latest, saved) of
        (Some l, Some v) \<Rightarrow>
          if CheckGeneration l < CheckGeneration v then False
          else CheckGeneration l > CheckGeneration v \<or> After (Time l) (Time v)
      | _ \<Rightarrow> False)"

definition newerSmartActiveFailure :: "url_test_history option \<Rightarrow> url_test_history option \<Rightarrow> bool" where
  "newerSmartActiveFailure latest saved =
     (if \<not> newerSmartActiveSnapshot latest saved then False
      else (case latest of None \<Rightarrow> False
            | Some l \<Rightarrow> if URLTestStatus l = StatusFailed then True
                        else if \<not> CombinedReady l then False
                        else \<not> Success l \<and> ErrorType l \<noteq> [] \<and> ErrorType l \<noteq> ErrorTypeNone))"

definition newerSmartActivePending :: "url_test_history option \<Rightarrow> url_test_history option \<Rightarrow> bool" where
  "newerSmartActivePending latest saved =
     (if \<not> newerSmartActiveSnapshot latest saved then False
      else (case latest of None \<Rightarrow> False
            | Some l \<Rightarrow> URLTestStatus l = StatusChecking \<or> \<not> CombinedReady l))"

text \<open>The dynamic evidence a replaced entry keeps: the worse of the two samples.\<close>

definition keep_worse_evidence :: "url_test_history \<Rightarrow> url_test_history \<Rightarrow> url_test_history" where
  "keep_worse_evidence target dynamic =
     target\<lparr> RuntimePenalty := max (RuntimePenalty target) (RuntimePenalty dynamic),
       RealUserPenalty := max (RealUserPenalty target) (RealUserPenalty dynamic),
       VolatilityPenalty := max (VolatilityPenalty target) (VolatilityPenalty dynamic),
       DegradationPoints := max (DegradationPoints target) (DegradationPoints dynamic),
       StabilityPoints := min (StabilityPoints target) (StabilityPoints dynamic),
       PolicyPenalty := max (PolicyPenalty target) (PolicyPenalty dynamic) \<rparr>"

definition applySmartActiveFailure ::
  "instant \<Rightarrow> url_test_history \<Rightarrow> url_test_history option \<Rightarrow> url_test_history" where
  "applySmartActiveFailure now target latest =
     (case latest of
        None \<Rightarrow> target
      | Some l \<Rightarrow>
          (let t = keep_worse_evidence (l\<lparr> Success := False, URLTestStatus := StatusFailed \<rparr>) target
           in t\<lparr> HealthScore := getHealthScore now [] (Some t) \<rparr>))"

definition applySmartActivePending ::
  "url_test_history \<Rightarrow> url_test_history option \<Rightarrow> url_test_history" where
  "applySmartActivePending target latest =
     (case latest of
        None \<Rightarrow> target
      | Some l \<Rightarrow>
          keep_worse_evidence (l\<lparr> Success := False, Delay := 0, HealthScore := 0 \<rparr>) target)"

text \<open>The three calls every snapshot entry goes through, in the order the sources make them.\<close>

definition overlay_entry ::
  "instant \<Rightarrow> bool \<Rightarrow> url_test_history \<Rightarrow> url_test_history option \<Rightarrow> url_test_history" where
  "overlay_entry now is_active saved latest =
     (let item = mergeSmartActiveWorseningEvidence saved latest;
          item = (if is_active then mergeSmartActiveDynamicEvidence item latest else item)
      in if newerSmartActiveFailure latest (Some saved) then applySmartActiveFailure now item latest
         else if newerSmartActivePending latest (Some saved) then applySmartActivePending item latest
         else item)"

section \<open>The snapshot\<close>

definition smartActiveSnapshotsEqual :: "history_map \<Rightarrow> history_map \<Rightarrow> bool" where
  "smartActiveSnapshotsEqual left right =
     (if length left \<noteq> length right then False
      else list_all (\<lambda>(t, leftHistory).
             case (leftHistory, pget right t) of
               (Some l, Some r) \<Rightarrow> l\<lparr>IpInfo := None\<rparr> = r\<lparr>IpInfo := None\<rparr>
             | (None, None) \<Rightarrow> True
             | _ \<Rightarrow> False) left)"

definition refresh_entry :: "instant \<Rightarrow> url_test_history \<Rightarrow> url_test_history \<Rightarrow> url_test_history" where
  "refresh_entry now saved incoming =
     (let item = mergeSmartActiveWorseningEvidence saved (Some incoming)
      in if newerSmartActiveFailure (Some incoming) (Some item)
         then applySmartActiveFailure now item (Some incoming) else item)"

text \<open>The two loops of \<open>rememberFullGeneration\<close>; \<open>None\<close> is its early \<open>return false\<close>.\<close>

fun refresh_snapshot :: "instant \<Rightarrow> history_map \<Rightarrow> history_map \<Rightarrow> u64 \<Rightarrow> outbound list
    \<Rightarrow> history_map \<Rightarrow> history_map option" where
  "refresh_snapshot now lastFull history generation [] updated = Some updated"
| "refresh_snapshot now lastFull history generation (out # outs) updated =
     (case (pget lastFull (Tag out), pget history (Tag out)) of
        (Some saved, Some incoming) \<Rightarrow>
          if CheckGeneration incoming \<noteq> generation then None
          else refresh_snapshot now lastFull history generation outs
                 (AList.update (Tag out) (Some (refresh_entry now saved incoming)) updated)
      | _ \<Rightarrow> None)"

fun take_snapshot :: "instant \<Rightarrow> history_map \<Rightarrow> u64 \<Rightarrow> outbound list \<Rightarrow> history_map
    \<Rightarrow> history_map option" where
  "take_snapshot now history generation [] snapshot = Some snapshot"
| "take_snapshot now history generation (out # outs) snapshot =
     (case pget history (Tag out) of
        None \<Rightarrow> None
      | Some item \<Rightarrow>
          if CheckGeneration item \<noteq> generation then None
          else take_snapshot now history generation outs
                 (AList.update (Tag out)
                   (Some (item\<lparr> HealthScore := getHealthScore now (Tag out) (Some item) \<rparr>)) snapshot))"

definition rememberFullGeneration ::
  "instant \<Rightarrow> smart_active \<Rightarrow> history_map \<Rightarrow> u64 \<Rightarrow> bool \<times> smart_active" where
  "rememberFullGeneration now s history generation =
     (if generation = 0 \<or> generation < sa_lastFullGeneration s then (False, s)
      else if generation = sa_lastFullGeneration s then
        (case refresh_snapshot now (sa_lastFullHistory s) history generation (sa_outbounds s) [] of
           None \<Rightarrow> (False, s)
         | Some updated \<Rightarrow>
             if smartActiveSnapshotsEqual updated (sa_lastFullHistory s) then (False, s)
             else (True, s\<lparr> sa_lastFullHistory := updated \<rparr>))
      else
        (case take_snapshot now history generation (sa_outbounds s) [] of
           None \<Rightarrow> (False, s)
         | Some snapshot \<Rightarrow>
             (True, s\<lparr> sa_lastFullGeneration := generation, sa_lastFullHistory := snapshot \<rparr>)))"

definition fullGenerationDecisionHistory ::
  "instant \<Rightarrow> smart_active \<Rightarrow> tag \<Rightarrow> history_map \<Rightarrow> history_map" where
  "fullGenerationDecisionHistory now s activeTag current =
     map (\<lambda>(t, saved). (t, map_option (\<lambda>v. overlay_entry now (t = activeTag) v (pget current t)) saved))
       (sa_lastFullHistory s)"

definition rememberDecisionDiagnostics ::
  "smart_active \<Rightarrow> history_map \<Rightarrow> u64 \<Rightarrow> history_source \<Rightarrow> smart_active" where
  "rememberDecisionDiagnostics s history generation source =
     s\<lparr> sa_diagnosticGeneration := generation, sa_diagnosticHistory := history,
        sa_diagnosticSource := source \<rparr>"

end
