(* ===== verification/Smart_Select.thy ===== *)
theory Smart_Select
  imports Smart_Memory "HOL-Library.Char_ord" "HOL-Library.List_Lexorder"
begin

text \<open>
  Evidence streaks, candidate selection and the two operations that install a new active
  outbound (\<open>smart_active.go\<close>). Tags compare byte by byte, as Go strings do. The selection
  loops delete expired entries of \<open>avoidUntil\<close> while they run, so they thread that map.
\<close>

section \<open>Evidence\<close>

definition isNewCompletedProbe :: "smart_active \<Rightarrow> url_test_history option \<Rightarrow> smart_evidence \<Rightarrow> bool" where
  "isNewCompletedProbe s his e =
     (case his of
        None \<Rightarrow> False
      | Some h \<Rightarrow>
          if CheckGeneration h = 0 \<or> \<not> fresh_entry s h \<or> \<not> CombinedReady h then False
          else if URLTestStatus h \<noteq> [] \<and> URLTestStatus h \<noteq> StatusSuccess
                  \<and> URLTestStatus h \<noteq> StatusFailed then False
          else if URLTestStatus h = [] \<and> \<not> Success h
                  \<and> (ErrorType h = [] \<or> ErrorType h = ErrorTypeNone) then False
          else if \<not> hasCompletedProbe e then True
          else if CheckGeneration h < lastProbeGeneration e then False
          else if CheckGeneration h = lastProbeGeneration e \<and> \<not> After (Time h) (lastProbeTime e)
            then False
          else True)"

definition cleanCompletedProbe :: "instant \<Rightarrow> tag \<Rightarrow> url_test_history option \<Rightarrow> bool" where
  "cleanCompletedProbe now t his =
     (case his of
        None \<Rightarrow> False
      | Some h \<Rightarrow>
          if \<not> Success h \<or> (ErrorType h \<noteq> [] \<and> ErrorType h \<noteq> ErrorTypeNone) then False
          else if URLTestStatus h \<noteq> [] \<and> URLTestStatus h \<noteq> StatusSuccess then False
          else if getPolicyPenalty t (Some h) \<ge> 50 \<or> getHealthScore now t (Some h) < 35 then False
          else smartActiveState now (Some h) \<noteq> BAD \<and> smartActiveState now (Some h) \<noteq> CRITICAL)"

text \<open>The body of the loop of \<open>updateEvidence\<close>: the new record, and whether it recovered.\<close>

definition evidence_step ::
  "instant \<Rightarrow> smart_active \<Rightarrow> tag \<Rightarrow> url_test_history option \<Rightarrow> smart_evidence \<Rightarrow> smart_evidence \<times> bool" where
  "evidence_step now s t his e0 =
     (let e = (case his of None \<Rightarrow> e0 | Some h \<Rightarrow> e0\<lparr> lastScore := getHealthScore now t (Some h) \<rparr>)
      in case his of
           None \<Rightarrow> (e, False)
         | Some h \<Rightarrow>
             if \<not> isNewCompletedProbe s (Some h) e then (e, False)
             else
               (let newGeneration = (\<not> hasCompletedProbe e \<or> CheckGeneration h > lastProbeGeneration e);
                    e = e\<lparr> lastProbeGeneration := CheckGeneration h, lastProbeTime := Time h,
                           hasCompletedProbe := True \<rparr>;
                    state = smartActiveState now (Some h);
                    cleanSuccess = cleanCompletedProbe now t (Some h);
                    failed = e\<lparr> failureStreak := (if newGeneration then failureStreak e + 1
                                                  else max (failureStreak e) 1),
                                successStreak := 0 \<rparr>
                in if state = BAD \<or> state = CRITICAL then (failed\<lparr> recoveryPending := True \<rparr>, False)
                   else if cleanSuccess then
                     (if recoveryPending e \<and> state \<noteq> GOOD
                      then (e\<lparr> successStreak := 0, failureStreak := 0 \<rparr>, False)
                      else if \<not> newGeneration then (e, False)
                      else (let e = e\<lparr> successStreak := successStreak e + 1, failureStreak := 0 \<rparr>
                            in if recoveryPending e \<and> successStreak e \<ge> 2
                               then (e\<lparr> recoveryPending := False \<rparr>, True) else (e, False)))
                   else (failed, False)))"

definition evidence_of :: "(tag, smart_evidence) go_map \<Rightarrow> tag \<Rightarrow> smart_evidence" where
  "evidence_of m t = (case map_of m t of None \<Rightarrow> zero_evidence | Some e \<Rightarrow> e)"

fun evidence_loop :: "instant \<Rightarrow> smart_active \<Rightarrow> history_map \<Rightarrow> outbound list
    \<Rightarrow> (tag, smart_evidence) go_map \<times> tag list \<Rightarrow> (tag, smart_evidence) go_map \<times> tag list" where
  "evidence_loop now s history [] acc = acc"
| "evidence_loop now s history (out # outs) (m, rec) =
     (let (e, recovered) = evidence_step now s (Tag out) (pget history (Tag out)) (evidence_of m (Tag out))
      in evidence_loop now s history outs
           (AList.update (Tag out) e m, if recovered then rec @ [Tag out] else rec))"

definition updateEvidence :: "instant \<Rightarrow> smart_active \<Rightarrow> history_map \<Rightarrow> smart_active" where
  "updateEvidence now s history =
     (let (m, rec) = evidence_loop now s history (sa_outbounds s) (sa_evidence s, [])
      in s\<lparr> sa_avoidUntil := range_delete (\<lambda>t until. After now until) (sa_avoidUntil s),
            sa_evidence := m, sa_recovered := rec \<rparr>)"

section \<open>Installing an active outbound\<close>

definition confirmActive ::
  "smart_active \<Rightarrow> outbound option \<Rightarrow> outbound option \<Rightarrow> string \<Rightarrow> update_mode \<Rightarrow> bool \<times> smart_active" where
  "confirmActive s from to r mode =
     (let fromTag = candidateTag from; toTag = candidateTag to
      in case to of
           None \<Rightarrow> (False, s\<lparr> sa_decision := \<lparr> action = Keep, reason = ''blocked_confirm_nil_target'',
                     dfrom = fromTag, dto = [], dstate = SUSPECT, dmode = mode \<rparr> \<rparr>)
         | Some out \<Rightarrow>
             (fromTag \<noteq> toTag,
              s\<lparr> sa_active := Some out, sa_confirmed := True,
                 sa_decision := \<lparr> action = (if fromTag \<noteq> [] \<and> fromTag \<noteq> toTag then Switch else Confirm),
                   reason = r, dfrom = fromTag, dto = toTag, dstate = GOOD, dmode = mode \<rparr> \<rparr>))"

definition switchTo ::
  "instant \<Rightarrow> smart_active \<Rightarrow> outbound option \<Rightarrow> outbound option \<Rightarrow> string \<Rightarrow> health_state
     \<Rightarrow> history_map \<Rightarrow> u64 \<Rightarrow> bool \<times> smart_active" where
  "switchTo now s from to r state history generation =
     (let fromTag = candidateTag from; toTag = candidateTag to;
          status = candidateStatus now s toTag (pget history toTag) generation
      in if \<not> status_ok status then
           (False, s\<lparr> sa_decision := \<lparr> action = Keep,
              reason = ''blocked_invalid_switch_'' @ status_reason status, dfrom = fromTag,
              dto = toTag, dstate = state, dmode = ModeNone \<rparr> \<rparr>)
         else
           (let s = (if fromTag \<noteq> [] \<and> toTag \<noteq> [] \<and> fromTag \<noteq> toTag
                     then s\<lparr> sa_avoidUntil := AList.update fromTag (now + smartActiveAvoidAfterSwitch)
                               (sa_avoidUntil s),
                             sa_evidence := (case map_of (sa_evidence s) fromTag of
                               None \<Rightarrow> sa_evidence s
                             | Some e \<Rightarrow> AList.update fromTag (e\<lparr> successStreak := 0 \<rparr>) (sa_evidence s)) \<rparr>
                     else s)
            in (True, s\<lparr> sa_active := to, sa_confirmed := True,
                 sa_decision := \<lparr> action = Switch, reason = r, dfrom = fromTag, dto = toTag,
                   dstate = state, dmode = ModeNone \<rparr> \<rparr>)))"

section \<open>Rankings\<close>

definition tag_less :: "outbound \<Rightarrow> outbound \<Rightarrow> bool" where
  "tag_less left right \<longleftrightarrow> Tag left < Tag right"

definition score_delay_less :: "instant \<Rightarrow> history_map \<Rightarrow> (outbound \<Rightarrow> outbound \<Rightarrow> bool)
    \<Rightarrow> outbound \<Rightarrow> outbound \<Rightarrow> bool" where
  "score_delay_less now history tie =
     by_key_desc (\<lambda>out. getHealthScore now (Tag out) (pget history (Tag out)))
       (by_key_asc (\<lambda>out. getModifiedDelay (pget history (Tag out))) tie)"

definition ipv6_first :: "instant \<Rightarrow> smart_active \<Rightarrow> history_map \<Rightarrow> u64 \<Rightarrow> outbound \<Rightarrow> bool" where
  "ipv6_first now s history generation out \<longleftrightarrow>
     sa_ipv6Mode s = DomainStrategyPreferIPv6
     \<and> ipv6Preferred now s (pget history (Tag out)) generation"

definition candidate_less :: "instant \<Rightarrow> smart_active \<Rightarrow> history_map \<Rightarrow> u64 \<Rightarrow> outbound \<Rightarrow> outbound \<Rightarrow> bool" where
  "candidate_less now s history generation =
     by_key_desc (ipv6_first now s history generation) (score_delay_less now history tag_less)"

definition active_tie :: "tag \<Rightarrow> outbound \<Rightarrow> outbound \<Rightarrow> bool" where
  "active_tie activeTag left right =
     (if Tag left = activeTag \<or> Tag right = activeTag then Tag left = activeTag
      else Tag left < Tag right)"

definition progressive_less :: "instant \<Rightarrow> smart_active \<Rightarrow> history_map \<Rightarrow> u64 \<Rightarrow> outbound \<Rightarrow> outbound \<Rightarrow> bool" where
  "progressive_less now s history generation =
     by_key_desc (ipv6_first now s history generation)
       (score_delay_less now history (active_tie (candidateTag (sa_active s))))"

section \<open>Candidate loops\<close>

definition isAvoidedCandidate ::
  "instant \<Rightarrow> (tag, instant) go_map \<Rightarrow> tag \<Rightarrow> bool \<times> (tag, instant) go_map" where
  "isAvoidedCandidate now avoid t =
     (case map_of avoid t of
        None \<Rightarrow> (False, avoid)
      | Some until \<Rightarrow> if After now until then (False, AList.delete t avoid) else (True, avoid))"

definition lacks_evidence :: "smart_evidence option \<Rightarrow> int \<Rightarrow> bool" where
  "lacks_evidence e requiredSuccesses =
     (case e of None \<Rightarrow> True
      | Some x \<Rightarrow> successStreak x < requiredSuccesses \<or> failureStreak x > 0)"

definition too_old :: "instant \<Rightarrow> url_test_history option \<Rightarrow> duration \<Rightarrow> bool" where
  "too_old now his maxAge = (case his of None \<Rightarrow> False | Some h \<Rightarrow> now - Time h > maxAge)"

fun best_candidate_loop :: "instant \<Rightarrow> smart_active \<Rightarrow> history_map \<Rightarrow> bool \<Rightarrow> bool \<Rightarrow> u64
    \<Rightarrow> outbound list \<Rightarrow> outbound option \<Rightarrow> (tag, instant) go_map
    \<Rightarrow> outbound option \<times> (tag, instant) go_map" where
  "best_candidate_loop now s history emergency requireEvidence generation [] avoidedFallback avoid
     = (avoidedFallback, avoid)"
| "best_candidate_loop now s history emergency requireEvidence generation (c # cs) avoidedFallback avoid
     = (let t = Tag c; h = pget history t; e = map_of (sa_evidence s) t;
            continue = best_candidate_loop now s history emergency requireEvidence generation cs
        in if \<not> eligible now s t h generation then continue avoidedFallback avoid
           else if too_old now h smartActiveCandidateMaxAge then continue avoidedFallback avoid
           else if requireEvidence \<and> lacks_evidence e (if emergency then 1 else 2)
             then continue avoidedFallback avoid
           else (case isAvoidedCandidate now avoid t of
                   (True, avoid) \<Rightarrow>
                     continue (if emergency \<and> avoidedFallback = None then Some c else avoidedFallback) avoid
                 | (False, avoid) \<Rightarrow> (Some c, avoid)))"

definition bestCandidate :: "instant \<Rightarrow> smart_active \<Rightarrow> history_map \<Rightarrow> bool \<Rightarrow> bool \<Rightarrow> u64
    \<Rightarrow> outbound option \<times> smart_active" where
  "bestCandidate now s history emergency requireEvidence generation =
     (let candidates = slice_stable (candidate_less now s history generation) (sa_outbounds s);
          (best, avoid) = best_candidate_loop now s history emergency requireEvidence generation
            candidates None (sa_avoidUntil s)
      in (best, s\<lparr> sa_avoidUntil := avoid \<rparr>))"

definition smartActiveEvidencePenalty :: "url_test_history option \<Rightarrow> int" where
  "smartActiveEvidencePenalty his =
     (case his of None \<Rightarrow> 0
      | Some h \<Rightarrow> RuntimePenalty h + RealUserPenalty h + VolatilityPenalty h + UDPPenalty h
          + PolicyPenalty h + sgn (DegradationPoints h) * (\<bar>DegradationPoints h\<bar> div 2))"

definition currentRealUserAdvantage ::
  "url_test_history option \<Rightarrow> url_test_history option \<Rightarrow> int \<Rightarrow> int \<Rightarrow> bool" where
  "currentRealUserAdvantage current candidate scoreDelta delayDelta =
     (case (current, candidate) of
        (Some a, Some b) \<Rightarrow>
          (let currentPenalty = RuntimePenalty a + RealUserPenalty a + DegradationPoints a + UDPPenalty a;
               candidatePenalty = RuntimePenalty b + RealUserPenalty b + DegradationPoints b + UDPPenalty b
           in if candidatePenalty \<ge> currentPenalty + 16 then True
              else scoreDelta < smartActiveScoreSwitchMargin
                \<and> delayDelta < smartActiveSignificantDelayDelta
                \<and> StabilityPoints a \<ge> StabilityPoints b + 30
                \<and> VolatilityPenalty b \<ge> VolatilityPenalty a + 4)
      | _ \<Rightarrow> False)"

definition state_advantage ::
  "health_state \<Rightarrow> int \<Rightarrow> int \<Rightarrow> int \<Rightarrow> int \<Rightarrow> int \<Rightarrow> bool \<times> string" where
  "state_advantage currentState currentScore candidateScore currentDelay candidateDelay penaltyAdvantage =
     (let scoreDelta = candidateScore - currentScore; delayDelta = currentDelay - candidateDelay
      in if currentState = DEGRADED then
           (if scoreDelta \<ge> 4
               \<or> candidateScore \<ge> currentScore - smartActiveComparableScoreDelta
                 \<and> delayDelta \<ge> smartActiveSignificantDelayDelta
               \<or> candidateScore \<ge> currentScore - smartActiveComparableScoreDelta
                 \<and> candidateDelay \<le> currentDelay + smartActiveMinimalDelayDelta
            then (True, ''degraded_active_stable_good_candidate'')
            else (False, ''degraded_candidate_advantage_insufficient''))
         else if currentState = SUSPECT then
           (if scoreDelta \<ge> smartActiveScoreSwitchMargin
               \<or> candidateScore \<ge> currentScore - smartActiveComparableScoreDelta
                 \<and> delayDelta \<ge> smartActiveSignificantDelayDelta
               \<or> candidateScore \<ge> currentScore
                 \<and> candidateDelay \<le> currentDelay + smartActiveMinimalDelayDelta
            then (True, ''suspect_active_stable_good_candidate'')
            else (False, ''suspect_candidate_advantage_insufficient''))
         else if candidateScore \<ge> currentScore - smartActiveComparableScoreDelta
                 \<and> delayDelta \<ge> smartActiveSignificantDelayDelta
           then (True, ''same_quality_significantly_lower_delay'')
         else if scoreDelta \<ge> smartActiveScoreSwitchMargin
                 \<and> (delayDelta > smartActiveMinimalDelayDelta
                    \<or> penaltyAdvantage \<ge> smartActiveScoreSwitchMargin)
                 \<and> candidateDelay \<le> currentDelay + smartActiveSignificantDelayDelta
           then (True, ''candidate_score_better_with_clean_evidence'')
         else if delayDelta \<le> smartActiveMinimalDelayDelta
           then (False, ''delay_delta_minimal_current_stable'')
         else (False, ''candidate_advantage_insufficient''))"

definition significantSmartActiveAdvantage ::
  "instant \<Rightarrow> smart_active \<Rightarrow> tag \<Rightarrow> tag \<Rightarrow> history_map \<Rightarrow> health_state \<Rightarrow> u64 \<Rightarrow> bool \<times> string" where
  "significantSmartActiveAdvantage now s currentTag candTag history currentState generation =
     (let current = pget history currentTag; candidate = pget history candTag
      in if sa_ipv6Mode s = DomainStrategyPreferIPv6 \<and> ipv6Preferred now s candidate generation
            \<and> \<not> ipv6Preferred now s current generation
         then (True, ''ipv6_capable_candidate_preferred'')
         else if (case current of None \<Rightarrow> True | Some h \<Rightarrow> \<not> Success h)
         then (True, ''current_unhealthy_candidate_fresh'')
         else if candidate = None then (False, ''candidate_missing'')
         else
           (let currentScore = getHealthScore now currentTag current;
                candidateScore = getHealthScore now candTag candidate;
                currentDelay = uint (getModifiedDelay current);
                candidateDelay = uint (getModifiedDelay candidate);
                delayDelta = currentDelay - candidateDelay;
                scoreDelta = candidateScore - currentScore;
                penaltyAdvantage = smartActiveEvidencePenalty current - smartActiveEvidencePenalty candidate;
                currentPolicyPenalty = getPolicyPenalty currentTag current;
                candidatePolicyPenalty = getPolicyPenalty candTag candidate
            in if candidatePolicyPenalty > currentPolicyPenalty
               then (False, ''candidate_policy_worse_than_current'')
               else if currentPolicyPenalty - candidatePolicyPenalty \<ge> RussianServerPolicyPenalty
                       \<and> scoreDelta \<ge> 4
               then (True, ''policy_preferred_foreign_candidate'')
               else if currentRealUserAdvantage current candidate scoreDelta delayDelta
               then (False, ''current_real_traffic_stable_and_candidate_advantage_insufficient'')
               else state_advantage currentState currentScore candidateScore currentDelay
                      candidateDelay penaltyAdvantage))"

end
