(* ===== verification/Smart_Choose.thy ===== *)
theory Smart_Choose
  imports Smart_Select
begin

text \<open>
  The walk over the whole ranking (\<open>bestSignificantCandidate\<close>), the progressive choice of the
  start-up cohort, the diagnostics of a rejected batch and the decision after a manual refresh
  (\<open>smart_active.go\<close>).
\<close>

fun significant_loop :: "instant \<Rightarrow> smart_active \<Rightarrow> tag \<Rightarrow> history_map \<Rightarrow> u64 \<Rightarrow> health_state
    \<Rightarrow> int \<Rightarrow> bool \<Rightarrow> duration \<Rightarrow> outbound list \<Rightarrow> tag \<Rightarrow> string \<Rightarrow> bool \<Rightarrow> (tag, instant) go_map
    \<Rightarrow> (outbound option \<times> tag \<times> string \<times> bool) \<times> (tag, instant) go_map" where
  "significant_loop now s currentTag history generation currentState minimumSuccesses requireGood
      maxAge [] comparisonTag rejectionReason staleCandidate avoid
     = ((None, comparisonTag, rejectionReason, staleCandidate), avoid)"
| "significant_loop now s currentTag history generation currentState minimumSuccesses requireGood
      maxAge (c # cs) comparisonTag rejectionReason staleCandidate avoid
     = (let continue = significant_loop now s currentTag history generation currentState
              minimumSuccesses requireGood maxAge cs;
            t = Tag c; h = pget history t
        in if t = currentTag then continue comparisonTag rejectionReason staleCandidate avoid
           else if \<not> eligible now s t h generation
             then continue comparisonTag rejectionReason staleCandidate avoid
           else if maxAge > 0 \<and> too_old now h maxAge
             then continue comparisonTag rejectionReason True avoid
           else
             (let comparisonTag = (if comparisonTag = [] then t else comparisonTag);
                  e = map_of (sa_evidence s) t;
                  requiredSuccesses = (case e of
                    Some x \<Rightarrow> if recoveryPending x
                      then max minimumSuccesses smartActiveCleanEvidenceRequired else minimumSuccesses
                  | None \<Rightarrow> minimumSuccesses)
              in if requireGood \<and> smartActiveState now h \<noteq> GOOD
                   then continue comparisonTag ''candidate_not_stably_good'' staleCandidate avoid
                 else if lacks_evidence e requiredSuccesses
                   then continue comparisonTag ''candidate_waiting_for_clean_evidence'' staleCandidate avoid
                 else (case isAvoidedCandidate now avoid t of
                     (True, avoid) \<Rightarrow>
                       continue comparisonTag ''candidate_recently_avoided_waiting_recovery'' staleCandidate avoid
                   | (False, avoid) \<Rightarrow>
                       (case significantSmartActiveAdvantage now s currentTag t history currentState generation of
                          (True, r) \<Rightarrow> ((Some c, comparisonTag, r, False), avoid)
                        | (False, r) \<Rightarrow> continue comparisonTag r staleCandidate avoid))))"

definition bestSignificantCandidate :: "instant \<Rightarrow> smart_active \<Rightarrow> tag \<Rightarrow> history_map \<Rightarrow> u64
    \<Rightarrow> health_state \<Rightarrow> int \<Rightarrow> bool \<Rightarrow> duration
    \<Rightarrow> (outbound option \<times> tag \<times> string \<times> bool) \<times> smart_active" where
  "bestSignificantCandidate now s currentTag history generation currentState minimumSuccesses
      requireGood maxAge =
     (if generation = 0 then ((None, [], ''missing_full_generation'', False), s)
      else (let candidates = slice_stable (candidate_less now s history generation) (sa_outbounds s);
                (result, avoid) = significant_loop now s currentTag history generation currentState
                  minimumSuccesses requireGood maxAge candidates []
                  ''candidate_advantage_insufficient'' False (sa_avoidUntil s)
            in (result, s\<lparr> sa_avoidUntil := avoid \<rparr>)))"

section \<open>The progressive choice of the start-up cohort\<close>

definition best_score_of :: "instant \<Rightarrow> history_map \<Rightarrow> outbound list \<Rightarrow> int" where
  "best_score_of now history outs =
     fold (\<lambda>c best. max best (getHealthScore now (Tag c) (pget history (Tag c)))) outs 0"

fun progressive_pick :: "instant \<Rightarrow> history_map \<Rightarrow> int \<Rightarrow> u16 \<Rightarrow> outbound list \<Rightarrow> outbound \<times> u16
    \<Rightarrow> outbound \<times> u16" where
  "progressive_pick now history bestScore winnerDelay [] acc = acc"
| "progressive_pick now history bestScore winnerDelay (c # cs) (selected, selectedDelay) =
     (let score = getHealthScore now (Tag c) (pget history (Tag c));
          delay = getModifiedDelay (pget history (Tag c));
          continue = progressive_pick now history bestScore winnerDelay cs
      in if score < bestScore - smartActiveComparableScoreDelta then continue (selected, selectedDelay)
         else if score < bestScore \<and> uint winnerDelay - uint delay < smartActiveSignificantDelayDelta
           then continue (selected, selectedDelay)
         else if delay < selectedDelay then continue (c, delay)
         else continue (selected, selectedDelay))"

definition progressive_eligible :: "instant \<Rightarrow> smart_active \<Rightarrow> history_map \<Rightarrow> u64 \<Rightarrow> int \<Rightarrow> outbound list" where
  "progressive_eligible now s history generation requiredSuccesses =
     filter (\<lambda>c. eligible now s (Tag c) (pget history (Tag c)) generation
        \<and> (requiredSuccesses > 0 \<longrightarrow>
             \<not> lacks_evidence (map_of (sa_evidence s) (Tag c)) requiredSuccesses)) (sa_outbounds s)"

definition progressive_pool :: "instant \<Rightarrow> smart_active \<Rightarrow> history_map \<Rightarrow> u64 \<Rightarrow> int \<Rightarrow> outbound list" where
  "progressive_pool now s history generation requiredSuccesses =
     (let candidates = progressive_eligible now s history generation requiredSuccesses;
          preferred = filter (ipv6_first now s history generation) candidates
      in if preferred = [] then candidates else preferred)"

definition bestProgressiveBatchCandidate ::
  "instant \<Rightarrow> smart_active \<Rightarrow> history_map \<Rightarrow> u64 \<Rightarrow> int \<Rightarrow> outbound option" where
  "bestProgressiveBatchCandidate now s history generation requiredSuccesses =
     (let pool = progressive_pool now s history generation requiredSuccesses
      in case slice_stable (progressive_less now s history generation) pool of
           [] \<Rightarrow> None
         | qualityWinner # others \<Rightarrow>
             (let winnerDelay = getModifiedDelay (pget history (Tag qualityWinner))
              in Some (fst (progressive_pick now history (best_score_of now history pool) winnerDelay
                   others (qualityWinner, winnerDelay)))))"

definition bestBootstrapCandidate :: "instant \<Rightarrow> smart_active \<Rightarrow> history_map \<Rightarrow> u64 \<Rightarrow> outbound option" where
  "bestBootstrapCandidate now s history generation =
     bestProgressiveBatchCandidate now s history generation 0"

definition bestRejectedCandidate :: "instant \<Rightarrow> smart_active \<Rightarrow> history_map \<Rightarrow> u64 \<Rightarrow> tag \<times> string" where
  "bestRejectedCandidate now s history generation =
     (let candidates = slice_stable (score_delay_less now history (\<lambda>_ _. False)) (sa_outbounds s)
      in case find (\<lambda>c. \<not> eligible now s (Tag c) (pget history (Tag c)) generation) candidates of
           None \<Rightarrow> ([], [])
         | Some c \<Rightarrow> (Tag c,
             status_reason (candidateStatus now s (Tag c) (pget history (Tag c)) generation)))"

section \<open>Manual refresh\<close>

definition userRefreshCandidatePenalized :: "url_test_history option \<Rightarrow> bool" where
  "userRefreshCandidatePenalized his =
     (case his of None \<Rightarrow> False
      | Some h \<Rightarrow> RuntimePenalty h > 0 \<or> RealUserPenalty h > 0 \<or> DegradationPoints h > 0
          \<or> VolatilityPenalty h > 0 \<or> UDPPenalty h > 0)"

definition userRefreshMinimalTie :: "instant \<Rightarrow> tag \<Rightarrow> tag \<Rightarrow> history_map \<Rightarrow> bool" where
  "userRefreshMinimalTie now currentTag candTag history =
     (case (pget history currentTag, pget history candTag) of
        (Some a, Some b) \<Rightarrow>
          if \<not> Success a \<or> \<not> Success b then False
          else if getHealthScore now currentTag (Some a) \<noteq> getHealthScore now candTag (Some b) then False
          else (let currentDelay = getModifiedDelay (Some a); candidateDelay = getModifiedDelay (Some b)
                in if currentDelay > candidateDelay then currentDelay - candidateDelay \<le> 10
                   else candidateDelay - currentDelay \<le> 10)
      | _ \<Rightarrow> False)"

definition keep_decision :: "string \<Rightarrow> tag \<Rightarrow> tag \<Rightarrow> health_state \<Rightarrow> update_mode \<Rightarrow> smart_decision" where
  "keep_decision r from to state mode =
     \<lparr> action = Keep, reason = r, dfrom = from, dto = to, dstate = state, dmode = mode \<rparr>"

definition set_mode :: "update_mode \<Rightarrow> smart_active \<Rightarrow> smart_active" where
  "set_mode mode s = s\<lparr> sa_decision := (sa_decision s)\<lparr> dmode := mode \<rparr> \<rparr>"

definition applyUserRefreshDecision ::
  "instant \<Rightarrow> smart_active \<Rightarrow> outbound \<Rightarrow> outbound \<Rightarrow> history_map \<Rightarrow> u64 \<Rightarrow> bool \<times> smart_active" where
  "applyUserRefreshDecision now s0 current candidate history generation =
     (let s = s0\<lparr> sa_bootstrap := False \<rparr>;
          currentTag = Tag current; candTag = Tag candidate;
          currentHistory = pget history currentTag; candidateHistory = pget history candTag;
          currentState = smartActiveState now currentHistory;
          status = candidateStatus now s candTag candidateHistory generation;
          keep = (\<lambda>r. (False, s\<lparr> sa_decision :=
                    keep_decision r currentTag candTag currentState ModeUserRefresh \<rparr>));
          switch = (case switchTo now s (Some current) (Some candidate)
                      ''user_refresh_best_fresh_candidate'' currentState history generation of
                    (changed, s') \<Rightarrow> (changed, set_mode ModeUserRefresh s'))
      in if currentTag = candTag then keep ''user_refresh_current_is_rank1''
         else if \<not> status_ok status
           then keep (''user_refresh_candidate_rejected_'' @ status_reason status)
         else if (case currentHistory of None \<Rightarrow> True | Some h \<Rightarrow> \<not> Success h \<or> IsFromCache h)
                 \<or> currentState = BAD \<or> currentState = CRITICAL
           then switch
         else if userRefreshCandidatePenalized candidateHistory
           then keep ''user_refresh_candidate_penalized''
         else if userRefreshMinimalTie now currentTag candTag history
           then keep ''user_refresh_candidate_tie_minimal_delta''
         else switch)"

end
