(* ===== verification/Smart_Probe.thy ===== *)
theory Smart_Probe
  imports Smart_Choose
begin

text \<open>
  The isolated samples of the outbound that carries traffic
  (\<open>smart_active_probe.go\<close> and the two functions of \<open>smart_active.go\<close> that serve them).
  A single bad sample never moves traffic; the second one marks the outbound unhealthy and
  looks for a verified alternative.
\<close>

record smart_probe_update =
  changed :: bool
  retry :: bool
  refreshCandidates :: bool

definition no_update :: smart_probe_update where
  "no_update = \<lparr> changed = False, retry = False, refreshCandidates = False \<rparr>"

definition set_decision :: "smart_decision \<Rightarrow> smart_active \<Rightarrow> smart_active" where
  "set_decision d s = s\<lparr> sa_decision := d \<rparr>"

definition resetActiveProbeAdvantage :: "smart_active \<Rightarrow> smart_active" where
  "resetActiveProbeAdvantage s =
     s\<lparr> sa_activeProbe := (sa_activeProbe s)\<lparr> betterCandidate := [], betterStreak := 0 \<rparr> \<rparr>"

definition markActiveProbeUnhealthy :: "smart_active \<Rightarrow> tag \<Rightarrow> smart_active" where
  "markActiveProbeUnhealthy s t =
     (let e = evidence_of (sa_evidence s) t
      in s\<lparr> sa_evidence := AList.update t
             (e\<lparr> recoveryPending := True, successStreak := 0,
                 failureStreak := max (failureStreak e) smartActiveProbeConfirmations \<rparr>)
             (sa_evidence s) \<rparr>)"

definition activeProbeHardFailure :: "url_test_history option \<Rightarrow> bool" where
  "activeProbeHardFailure probe =
     (case probe of None \<Rightarrow> True
      | Some h \<Rightarrow>
          if \<not> Success h \<or> Delay h = 0 \<or> Delay h \<ge> 65535 then True
          else ErrorType h \<noteq> [] \<and> ErrorType h \<noteq> ErrorTypeNone)"

definition activeProbePoorQuality :: "url_test_history option \<Rightarrow> bool" where
  "activeProbePoorQuality probe =
     (case probe of None \<Rightarrow> True
      | Some h \<Rightarrow>
          if Delay h \<ge> smartActiveUnusableDelay then True
          else UDPReady h \<and> UDPProbeAvailable h \<and> UDPLoss h \<ge> smartActiveSevereUDPLoss)"

definition bestActiveProbeUpgradeCandidate ::
  "instant \<Rightarrow> smart_active \<Rightarrow> tag \<Rightarrow> history_map \<Rightarrow> u64 \<Rightarrow> health_state
     \<Rightarrow> (outbound option \<times> tag \<times> bool) \<times> smart_active" where
  "bestActiveProbeUpgradeCandidate now s currentTag history generation currentState =
     (case bestSignificantCandidate now s currentTag history generation currentState 1 True
        smartActiveCandidateMaxAge of
        ((candidate, comparisonTag, r, stale), s') \<Rightarrow> ((candidate, comparisonTag, stale), s'))"

text \<open>
  The loop of \<open>bestActiveFailoverCandidate\<close>. Unlike \<open>bestCandidate\<close> it has no IPv6 key, needs
  one clean success and skips the failing outbound itself.
\<close>

fun failover_loop :: "instant \<Rightarrow> smart_active \<Rightarrow> tag \<Rightarrow> history_map \<Rightarrow> u64 \<Rightarrow> outbound list
    \<Rightarrow> outbound option \<Rightarrow> (tag, instant) go_map \<Rightarrow> outbound option \<times> (tag, instant) go_map" where
  "failover_loop now s currentTag history generation [] avoidedFallback avoid = (avoidedFallback, avoid)"
| "failover_loop now s currentTag history generation (c # cs) avoidedFallback avoid =
     (let t = Tag c; h = pget history t;
          continue = failover_loop now s currentTag history generation cs
      in if t = currentTag \<or> \<not> eligible now s t h generation then continue avoidedFallback avoid
         else if too_old now h smartActiveCandidateMaxAge then continue avoidedFallback avoid
         else if lacks_evidence (map_of (sa_evidence s) t) 1 then continue avoidedFallback avoid
         else (case isAvoidedCandidate now avoid t of
                 (True, avoid) \<Rightarrow>
                   continue (if avoidedFallback = None then Some c else avoidedFallback) avoid
               | (False, avoid) \<Rightarrow> (Some c, avoid)))"

definition bestActiveFailoverCandidate ::
  "instant \<Rightarrow> smart_active \<Rightarrow> tag \<Rightarrow> history_map \<Rightarrow> u64 \<Rightarrow> outbound option \<times> smart_active" where
  "bestActiveFailoverCandidate now s currentTag history generation =
     (if generation = 0 then (None, s)
      else (let candidates = slice_stable (score_delay_less now history tag_less) (sa_outbounds s);
                (best, avoid) = failover_loop now s currentTag history generation candidates None
                  (sa_avoidUntil s)
            in (best, s\<lparr> sa_avoidUntil := avoid \<rparr>)))"

text \<open>\<open>switchTo\<close> followed by the lines that every probe-driven switch adds to it.\<close>

definition probe_switch :: "instant \<Rightarrow> smart_active \<Rightarrow> outbound \<Rightarrow> outbound \<Rightarrow> string \<Rightarrow> health_state
    \<Rightarrow> history_map \<Rightarrow> u64 \<Rightarrow> bool \<times> smart_active" where
  "probe_switch now s current candidate r state history generation =
     (case switchTo now s (Some current) (Some candidate) r state history generation of
        (ch, s') \<Rightarrow>
          (let s' = set_mode ModeActiveProbe s'
           in (ch, if ch then s'\<lparr> sa_activeProbe := probe_evidence_for (Tag candidate) \<rparr> else s')))"

text \<open>The pair is \<open>(changed, handled)\<close>.\<close>

definition handleConfirmedActiveProbe ::
  "instant \<Rightarrow> smart_active \<Rightarrow> outbound option \<Rightarrow> history_map \<Rightarrow> u64 \<Rightarrow> (bool \<times> bool) \<times> smart_active" where
  "handleConfirmedActiveProbe now s cur history generation =
     (case cur of
        None \<Rightarrow> ((False, False), s)
      | Some current \<Rightarrow>
          if \<not> confirmedUnhealthy (sa_activeProbe s) \<or> ptag (sa_activeProbe s) \<noteq> Tag current
          then ((False, False), s)
          else
            (let currentHistory = pget history (Tag current);
                 state = smartActiveState now currentHistory
             in if (case currentHistory of None \<Rightarrow> False
                    | Some h \<Rightarrow> CheckGeneration h = generation \<and> Success h \<and> CombinedReady h
                        \<and> state \<noteq> BAD \<and> state \<noteq> CRITICAL)
                then ((False, True),
                      s\<lparr> sa_activeProbe := probe_evidence_for (Tag current),
                         sa_decision := keep_decision ''active_probe_recovered_during_candidate_refresh''
                           (Tag current) [] state ModeActiveProbe \<rparr>)
                else (case bestActiveFailoverCandidate now s (Tag current) history generation of
                    (None, s) \<Rightarrow>
                      ((False, True), set_decision
                        (keep_decision ''active_probe_confirmed_waiting_for_candidate''
                          (Tag current) [] BAD ModeActiveProbe) s)
                  | (Some candidate, s) \<Rightarrow>
                      (case probe_switch now s current candidate
                          ''active_probe_confirmed_candidate_refreshed'' BAD history generation of
                        (ch, s) \<Rightarrow> ((ch, True), s)))))"

definition reconcileActiveProbeAdvantage ::
  "instant \<Rightarrow> smart_active \<Rightarrow> history_map \<Rightarrow> u64 \<Rightarrow> smart_active" where
  "reconcileActiveProbeAdvantage now s history generation =
     (case sa_active s of
        None \<Rightarrow> s
      | Some out \<Rightarrow>
          if betterCandidate (sa_activeProbe s) = [] \<or> generation = 0 then s
          else (case bestSignificantCandidate now s (Tag out) history generation
                  (smartActiveState now (pget history (Tag out))) 1 True smartActiveCandidateMaxAge of
                ((candidate, _, _, _), s') \<Rightarrow>
                  if candidate = None \<or> candidateTag candidate \<noteq> betterCandidate (sa_activeProbe s')
                  then resetActiveProbeAdvantage s' else s'))"

text \<open>
  \<open>activeProbeDecisionHistory\<close> first recovers the newest coherent generation straight from the
  ranking snapshot, then lays the newer evidence and the probe itself over the saved cohort.
\<close>

definition recover_generation :: "instant \<Rightarrow> smart_active \<Rightarrow> tag \<Rightarrow> history_map \<Rightarrow> smart_active" where
  "recover_generation now s t current =
     (let observedGeneration = currentGeneration s current
      in if observedGeneration \<ge> sa_lastFullGeneration s \<and> observedGeneration \<noteq> 0
            \<and> generationSettled s current observedGeneration
         then (let s = s\<lparr> sa_selectionGeneration := max (sa_selectionGeneration s) observedGeneration \<rparr>
               in case rememberFullGeneration now s current observedGeneration of
                    (False, s) \<Rightarrow> s
                  | (True, s) \<Rightarrow>
                      (let s = updateEvidence now s current
                       in reconcileActiveProbeAdvantage now s
                            (fullGenerationDecisionHistory now s t current) observedGeneration))
         else s)"

definition activeProbeDecisionHistory ::
  "instant \<Rightarrow> smart_active \<Rightarrow> tag \<Rightarrow> url_test_history option \<Rightarrow> history_map
     \<Rightarrow> (history_map option \<times> u64) \<times> smart_active" where
  "activeProbeDecisionHistory now s t probe current =
     (let s = recover_generation now s t current
      in if sa_lastFullGeneration s = 0 \<or> sa_lastFullHistory s = [] then ((None, 0), s)
         else (case probe of
             None \<Rightarrow> ((None, 0), s)
           | Some p \<Rightarrow>
               (let overlaid = map (\<lambda>(ct, saved).
                      (ct, map_option (\<lambda>v. overlay_entry now False v (pget current ct)) saved))
                      (sa_lastFullHistory s);
                    active = (mergeSmartActiveDynamicEvidence p (pget current t))
                      \<lparr> CheckGeneration := sa_lastFullGeneration s, IsFromCache := False \<rparr>
                in ((Some (AList.update t (Some active) overlaid), sa_lastFullGeneration s), s))))"

section \<open>One sample of the active outbound\<close>

text \<open>The branch of a sample that is neither a hard failure nor of poor quality.\<close>

definition probe_healthy :: "instant \<Rightarrow> smart_active \<Rightarrow> outbound \<Rightarrow> history_map \<Rightarrow> u64 \<Rightarrow> health_state
    \<Rightarrow> smart_probe_update \<times> smart_active" where
  "probe_healthy now s0 current decisionHistory generation activeState =
     (let t = Tag current;
          s = s0\<lparr> sa_activeProbe := (sa_activeProbe s0)\<lparr> hardFailureStreak := 0,
                 poorQualityStreak := 0, confirmedUnhealthy := False \<rparr> \<rparr>
      in case bestActiveProbeUpgradeCandidate now s t decisionHistory generation activeState of
           ((None, comparisonTag, stale), s) \<Rightarrow>
             (no_update\<lparr> refreshCandidates := stale \<rparr>,
              set_decision (keep_decision
                (if generation = 0 then ''active_probe_waiting_for_full_generation''
                 else ''active_probe_candidate_advantage_insufficient'')
                t comparisonTag activeState ModeActiveProbe) (resetActiveProbeAdvantage s))
         | ((Some candidate, comparisonTag, stale), s) \<Rightarrow>
             (let p = sa_activeProbe s;
                  p = (if betterCandidate p = Tag candidate
                       then p\<lparr> betterStreak := betterStreak p + 1 \<rparr>
                       else p\<lparr> betterCandidate := Tag candidate, betterStreak := 1 \<rparr>);
                  s = s\<lparr> sa_activeProbe := p \<rparr>
              in if betterStreak p < smartActiveProbeConfirmations
                 then (no_update, set_decision (keep_decision
                         ''active_probe_waiting_better_candidate_confirmation''
                         t (Tag candidate) activeState ModeActiveProbe) s)
                 else (case probe_switch now s current candidate
                         ''active_probe_stably_better_candidate'' activeState decisionHistory generation of
                       (ch, s) \<Rightarrow> (no_update\<lparr> changed := ch \<rparr>, s))))"

text \<open>
  The branch of a hard failure (\<open>hard\<close>) or a sample of poor quality: the streak of its kind
  grows and the other one ends; from the second sample on the outbound is unhealthy.
\<close>

definition count_bad_sample :: "bool \<Rightarrow> smart_probe_evidence \<Rightarrow> smart_probe_evidence" where
  "count_bad_sample hard p =
     (if hard then p\<lparr> hardFailureStreak := hardFailureStreak p + 1, poorQualityStreak := 0 \<rparr>
      else p\<lparr> poorQualityStreak := poorQualityStreak p + 1, hardFailureStreak := 0 \<rparr>)"

definition bad_streak :: "bool \<Rightarrow> smart_probe_evidence \<Rightarrow> int" where
  "bad_streak hard p = (if hard then hardFailureStreak p else poorQualityStreak p)"

definition probe_failover :: "instant \<Rightarrow> smart_active \<Rightarrow> outbound \<Rightarrow> bool \<Rightarrow> history_map \<Rightarrow> u64
    \<Rightarrow> smart_probe_update \<times> smart_active" where
  "probe_failover now s0 current hard decisionHistory generation =
     (let t = Tag current;
          state = (if hard then BAD else DEGRADED);
          s = markActiveProbeUnhealthy
                (s0\<lparr> sa_activeProbe := (sa_activeProbe s0)\<lparr> confirmedUnhealthy := True \<rparr> \<rparr>) t
      in case bestActiveFailoverCandidate now s t decisionHistory generation of
           (None, s) \<Rightarrow>
             (no_update\<lparr> refreshCandidates := True \<rparr>,
              set_decision (keep_decision ''active_probe_confirmed_without_fresh_candidate''
                t [] state ModeActiveProbe) s)
         | (Some candidate, s) \<Rightarrow>
             (case probe_switch now s current candidate
                (if hard then ''active_probe_confirmed_connection_failure''
                 else ''active_probe_confirmed_quality_failure'') state decisionHistory generation of
              (ch, s) \<Rightarrow> (no_update\<lparr> changed := ch \<rparr>, s)))"

definition probe_unhealthy :: "instant \<Rightarrow> smart_active \<Rightarrow> outbound \<Rightarrow> bool \<Rightarrow> history_map \<Rightarrow> u64
    \<Rightarrow> smart_probe_update \<times> smart_active" where
  "probe_unhealthy now s0 current hard decisionHistory generation =
     (let p = count_bad_sample hard (sa_activeProbe (resetActiveProbeAdvantage s0));
          s = (resetActiveProbeAdvantage s0)\<lparr> sa_activeProbe := p \<rparr>
      in if bad_streak hard p < smartActiveProbeConfirmations
         then (no_update\<lparr> retry := True \<rparr>,
               set_decision (keep_decision
                 (if hard then ''active_probe_waiting_failure_confirmation''
                  else ''active_probe_waiting_quality_confirmation'') (Tag current) []
                 (if hard then BAD else DEGRADED) ModeActiveProbe) s)
         else probe_failover now s current hard decisionHistory generation)"

definition UpdateActiveProbe ::
  "instant \<Rightarrow> smart_active \<Rightarrow> tag \<Rightarrow> url_test_history option \<Rightarrow> history_map
     \<Rightarrow> smart_probe_update \<times> smart_active" where
  "UpdateActiveProbe now s t probe history =
     (case (sa_active s, probe) of
        (Some current, Some p) \<Rightarrow>
          if t = [] \<or> Tag current \<noteq> t \<or> IsZero (Time p) then (no_update, s)
          else
            (let s = (if ptag (sa_activeProbe s) \<noteq> t
                      then s\<lparr> sa_activeProbe := probe_evidence_for t \<rparr> else s)
             in if \<not> After (Time p) (lastProbeAt (sa_activeProbe s)) then (no_update, s)
                else
                  (let s = s\<lparr> sa_activeProbe := (sa_activeProbe s)\<lparr> lastProbeAt := Time p \<rparr> \<rparr>
                   in case activeProbeDecisionHistory now s t (Some p) history of
                        ((found, foundGeneration), s) \<Rightarrow>
                          (let decisionHistory = (case found of None \<Rightarrow> [(t, Some p)] | Some d \<Rightarrow> d);
                               generation = (case found of None \<Rightarrow> 0 | Some _ \<Rightarrow> foundGeneration);
                               activeState = smartActiveState now (pget decisionHistory t);
                               s = rememberDecisionDiagnostics s decisionHistory generation SourceActiveProbe;
                               hardFailure = activeProbeHardFailure (Some p);
                               poorQuality = (\<not> hardFailure \<and> activeProbePoorQuality (Some p))
                           in if \<not> hardFailure \<and> \<not> poorQuality
                              then probe_healthy now s current decisionHistory generation activeState
                              else probe_unhealthy now s current hardFailure decisionHistory generation)))
      | _ \<Rightarrow> (no_update, s))"

end
