(* ===== verification/Smart_Update.thy ===== *)
theory Smart_Update
  imports Smart_Probe
begin

text \<open>
  \<open>updateOutboundsInfo\<close> of \<open>smart_active.go\<close>: one definition per phase, in the order the
  method has them (what it learns from the histories, start-up, an unconfirmed active, and the
  confirmed active with its refresh, batch, emergency and quality branches), and their
  composition. The mode of a decision is \<open>decisionMode mode bootstrap\<close>; \<open>switch_with\<close> is
  \<open>switchTo\<close> followed by the assignment of that mode.
\<close>

definition decide :: "decision_action \<Rightarrow> string \<Rightarrow> tag \<Rightarrow> tag \<Rightarrow> health_state \<Rightarrow> update_mode
    \<Rightarrow> smart_active \<Rightarrow> bool \<times> smart_active" where
  "decide a r from to state mode s =
     (False, s\<lparr> sa_decision := \<lparr> action = a, reason = r, dfrom = from, dto = to, dstate = state,
        dmode = decisionMode mode (sa_bootstrap s) \<rparr> \<rparr>)"

definition switch_with :: "instant \<Rightarrow> smart_active \<Rightarrow> outbound \<Rightarrow> outbound \<Rightarrow> string \<Rightarrow> health_state
    \<Rightarrow> history_map \<Rightarrow> u64 \<Rightarrow> update_mode \<Rightarrow> bool \<times> smart_active" where
  "switch_with now s current candidate r state history generation mode =
     (case switchTo now s (Some current) (Some candidate) r state history generation of
        (ch, s') \<Rightarrow> (ch, set_mode (decisionMode mode (sa_bootstrap s')) s'))"

section \<open>What an update learns\<close>

definition advance_selection :: "smart_active \<Rightarrow> history_map \<Rightarrow> smart_active" where
  "advance_selection s history =
     (let observed = currentGeneration s history
      in if observed > sa_selectionGeneration s \<and> generationCoversAll s history observed
         then s\<lparr> sa_selectionGeneration := observed \<rparr> else s)"

definition remember_settled :: "instant \<Rightarrow> smart_active \<Rightarrow> history_map \<Rightarrow> bool \<times> smart_active" where
  "remember_settled now s0 history =
     (let s = advance_selection s0 history;
          generation = sa_selectionGeneration s
      in if generation \<noteq> 0 \<and> generationSettled s history generation
         then rememberFullGeneration now s history generation else (False, s))"

definition learn_history :: "instant \<Rightarrow> smart_active \<Rightarrow> history_map \<Rightarrow> history_map \<times> smart_active" where
  "learn_history now s history =
     (let (fullGenerationChanged, s) = remember_settled now s history;
          s = (updateEvidence now s history)\<lparr> sa_latestHistory := history \<rparr>;
          generation = sa_selectionGeneration s;
          full = (\<not> sa_bootstrap s \<and> generation \<noteq> 0 \<and> generation = sa_lastFullGeneration s);
          decisionHistory = (if full
            then fullGenerationDecisionHistory now s (candidateTag (sa_active s)) history else history);
          decisionSource = (if full then SourceFull else smartActiveHistorySource history generation);
          s = rememberDecisionDiagnostics s decisionHistory generation decisionSource;
          s = (if fullGenerationChanged
               then reconcileActiveProbeAdvantage now s decisionHistory generation else s)
      in (decisionHistory, s))"

section \<open>Start-up\<close>

definition update_bootstrap ::
  "instant \<Rightarrow> smart_active \<Rightarrow> history_map \<Rightarrow> update_mode \<Rightarrow> u64 \<Rightarrow> u64 \<Rightarrow> bool \<times> smart_active" where
  "update_bootstrap now s history mode batchGeneration observedGeneration =
     (let generation = sa_selectionGeneration s; current = sa_active s;
          wait = (\<lambda>r to. decide (pendingAction current) r (candidateTag current) to SUSPECT mode s)
      in if generation = 0 then
           wait (if observedGeneration \<noteq> 0 then ''partial_generation_ignored_during_startup''
                 else ''startup_waiting_for_full_generation'') []
         else if mode = ModeCompletedBatch \<and> batchGeneration \<noteq> generation then
           wait ''partial_batch_generation_ignored'' []
         else if mode \<noteq> ModeCompletedBatch \<and> mode \<noteq> ModeUserRefresh
                 \<and> \<not> bootstrapGenerationSettled s history generation then
           wait ''startup_waiting_for_completed_batch'' []
         else
           (case bestBootstrapCandidate now s history generation of
              Some candidate \<Rightarrow>
                (let (ch, s) =
                   (if \<not> sa_confirmed s \<or> current = None \<or> Tag candidate \<noteq> candidateTag current
                    then confirmActive s current (Some candidate)
                           (if sa_confirmed s then ''startup_progressively_better_candidate''
                            else ''first_confirmed_current_generation_candidate'')
                           (decisionMode mode (sa_bootstrap s))
                    else decide Keep ''startup_current_is_best_so_far'' (candidateTag current)
                           (Tag candidate) (smartActiveState now (pget history (candidateTag current)))
                           mode s)
                 in (ch, if bootstrapGenerationSettled s history generation
                         then s\<lparr> sa_bootstrap := False \<rparr> else s))
            | None \<Rightarrow>
                (let (t, r) = bestRejectedCandidate now s history generation
                 in wait (if r = [] then ''startup_waiting_for_current_generation_ready''
                          else ''candidate_rejected_'' @ r) t)))"

section \<open>After start-up\<close>

definition update_unconfirmed ::
  "instant \<Rightarrow> smart_active \<Rightarrow> outbound \<Rightarrow> history_map \<Rightarrow> update_mode \<Rightarrow> u64 \<Rightarrow> bool \<times> smart_active" where
  "update_unconfirmed now s current history mode generation =
     (case bestCandidate now s history True False generation of
        (Some candidate, s) \<Rightarrow>
          confirmActive s (Some current) (Some candidate)
            ''first_confirmed_current_generation_candidate'' (decisionMode mode (sa_bootstrap s))
      | (None, s) \<Rightarrow>
          decide Keep ''waiting_for_confirmed_candidate'' (Tag current) [] SUSPECT mode s)"

definition update_ineligible ::
  "instant \<Rightarrow> smart_active \<Rightarrow> outbound \<Rightarrow> history_map \<Rightarrow> update_mode \<Rightarrow> u64 \<Rightarrow> bool \<times> smart_active" where
  "update_ineligible now s current history mode generation =
     (let (best, s) = bestCandidate now s history True True generation;
          keep = decide Keep ''failed_active_without_fresh_candidate'' (Tag current) [] BAD mode s
      in case best of
           Some candidate \<Rightarrow>
             if Tag candidate \<noteq> Tag current
             then switch_with now s current candidate ''current_terminal_result_ineligible'' BAD
                    history generation mode
             else keep
         | None \<Rightarrow> keep)"

definition update_refresh ::
  "instant \<Rightarrow> smart_active \<Rightarrow> outbound \<Rightarrow> history_map \<Rightarrow> health_state \<Rightarrow> u64 \<Rightarrow> bool \<times> smart_active" where
  "update_refresh now s current history state generation =
     (case bestCandidate now s history True False generation of
        (Some candidate, s) \<Rightarrow> applyUserRefreshDecision now s current candidate history generation
      | (None, s) \<Rightarrow>
          (let (t, r) = bestRejectedCandidate now s history generation
           in decide Keep (if r = [] then ''user_refresh_without_confirmed_candidate''
                           else ''user_refresh_candidate_rejected_'' @ r)
                (Tag current) t state ModeUserRefresh s))"

definition update_batch ::
  "instant \<Rightarrow> smart_active \<Rightarrow> outbound \<Rightarrow> history_map \<Rightarrow> health_state \<Rightarrow> u64 \<Rightarrow> bool \<times> smart_active" where
  "update_batch now s current history state generation =
     (let ((best, comparisonTag, r), s) =
        (if state = BAD \<or> state = CRITICAL
         then (case bestCandidate now s history True True generation of
                 (c, s') \<Rightarrow> ((c, [], ''completed_batch_without_confirmed_candidate''), s'))
         else (case bestSignificantCandidate now s (Tag current) history generation state
                      smartActiveCleanEvidenceRequired (state \<noteq> GOOD) smartActiveCandidateMaxAge of
                 ((c, ct, why, _), s') \<Rightarrow> ((c, ct, why), s')))
      in case best of
           None \<Rightarrow> decide Keep r (Tag current) comparisonTag state ModeCompletedBatch s
         | Some candidate \<Rightarrow>
             switch_with now s current candidate ''completed_batch_better_candidate'' state history
               generation ModeCompletedBatch)"

text \<open>\<open>CRITICAL\<close> and \<open>BAD\<close>: the emergency candidate, when there is another outbound.\<close>

definition update_emergency ::
  "instant \<Rightarrow> smart_active \<Rightarrow> outbound \<Rightarrow> outbound option \<Rightarrow> history_map \<Rightarrow> health_state \<Rightarrow> u64
     \<Rightarrow> update_mode \<Rightarrow> bool \<times> smart_active" where
  "update_emergency now s current emergencyCandidate history state generation mode =
     (let runtimeDriven = runtimeDrivenActiveIssue (pget history (Tag current));
          critical = (state = CRITICAL);
          none = decide (if critical then Fallback else Keep)
            (if critical then ''critical_without_healthy_candidate'' else ''bad_without_confirmed_candidate'')
            (Tag current) [] state mode s
      in case emergencyCandidate of
           Some candidate \<Rightarrow>
             if Tag candidate \<noteq> Tag current
             then switch_with now s current candidate
               (if critical then
                  (if runtimeDriven then ''runtime_errors_current_critical'' else ''critical_active_failure'')
                else (if runtimeDriven then ''runtime_errors_current_bad''
                      else ''bad_active_confirmed_candidate''))
               state history generation mode
             else none
         | None \<Rightarrow> none)"

text \<open>\<open>DEGRADED\<close>, \<open>SUSPECT\<close> and \<open>GOOD\<close>: a candidate must be significantly better.\<close>

definition update_quality ::
  "instant \<Rightarrow> smart_active \<Rightarrow> outbound \<Rightarrow> history_map \<Rightarrow> health_state \<Rightarrow> u64 \<Rightarrow> update_mode
     \<Rightarrow> bool \<times> smart_active" where
  "update_quality now s current history state generation mode =
     (let ((best, comparisonTag, assessmentReason, _), s) =
            bestSignificantCandidate now s (Tag current) history generation state
              smartActiveCleanEvidenceRequired (state \<noteq> GOOD) smartActiveCandidateMaxAge;
          keep = (\<lambda>r to. decide Keep r (Tag current) to state mode s)
      in case best of
           Some candidate \<Rightarrow>
             switch_with now s current candidate
               (if state = DEGRADED then
                  (if runtimeDrivenActiveIssue (pget history (Tag current))
                   then ''runtime_errors_current_degraded'' else ''degraded_active_better_candidate'')
                else if state = SUSPECT then ''suspect_stably_better_candidate''
                else assessmentReason)
               state history generation mode
         | None \<Rightarrow>
             if state = DEGRADED then keep ''degraded_collecting_evidence'' []
             else if state = SUSPECT then keep ''suspect_collecting_evidence'' []
             else if comparisonTag \<noteq> [] then keep assessmentReason comparisonTag
             else keep ''active_good_no_better_candidate'' [])"

definition update_background ::
  "instant \<Rightarrow> smart_active \<Rightarrow> outbound \<Rightarrow> history_map \<Rightarrow> health_state \<Rightarrow> u64 \<Rightarrow> update_mode
     \<Rightarrow> bool \<times> smart_active" where
  "update_background now s current history state generation mode =
     (let currentHistory = pget history (Tag current);
          (emergencyCandidate, s) =
            bestCandidate now s history (state = BAD \<or> state = CRITICAL) True generation
      in if currentCheckInProgress currentHistory \<and> \<not> runtimeCriticalActiveIssue currentHistory
         then decide Keep ''current_temporarily_kept_during_refresh'' (Tag current)
                (candidateTag emergencyCandidate) state mode s
         else if state = CRITICAL \<or> state = BAD
         then update_emergency now s current emergencyCandidate history state generation mode
         else update_quality now s current history state generation mode)"

definition update_confirmed ::
  "instant \<Rightarrow> smart_active \<Rightarrow> outbound \<Rightarrow> history_map \<Rightarrow> history_map \<Rightarrow> update_mode \<Rightarrow> u64
     \<Rightarrow> bool \<times> smart_active" where
  "update_confirmed now s current rawHistory decisionHistory mode batchGeneration =
     (let generation = sa_selectionGeneration s;
          rawState = smartActiveState now (pget rawHistory (Tag current));
          keep = (\<lambda>r. decide Keep r (Tag current) [] rawState mode s)
      in if mode = ModeCompletedBatch \<and> batchGeneration \<noteq> generation
         then keep ''partial_batch_generation_ignored''
         else if mode \<noteq> ModeUserRefresh \<and> mode \<noteq> ModeCompletedBatch
                 \<and> \<not> generationSettled s rawHistory generation
                 \<and> (generation \<noteq> sa_lastFullGeneration s \<or> sa_lastFullHistory s = [])
         then keep ''current_generation_incomplete''
         else
           (case handleConfirmedActiveProbe now s (Some current) decisionHistory generation of
              ((ch, handled), s) \<Rightarrow>
                if handled then (ch, s)
                else
                  (let currentHistory = pget decisionHistory (Tag current);
                       state = smartActiveState now currentHistory
                   in if \<not> eligible now s (Tag current) currentHistory generation
                         \<and> \<not> currentCheckInProgress currentHistory \<and> state \<noteq> BAD \<and> state \<noteq> CRITICAL
                      then update_ineligible now s current decisionHistory mode generation
                      else if mode = ModeUserRefresh
                      then update_refresh now s current decisionHistory state generation
                      else if mode = ModeCompletedBatch
                      then update_batch now s current decisionHistory state generation
                      else update_background now s current decisionHistory state generation mode)))"

definition updateOutboundsInfo ::
  "instant \<Rightarrow> smart_active \<Rightarrow> history_map \<Rightarrow> update_mode \<Rightarrow> u64 \<Rightarrow> bool \<times> smart_active" where
  "updateOutboundsInfo now s history mode batchGeneration =
     (let observedGeneration = currentGeneration s history;
          (decisionHistory, s) = learn_history now s history
      in if sa_bootstrap s
         then update_bootstrap now s history mode batchGeneration observedGeneration
         else (case sa_active s of
             None \<Rightarrow> decide Wait ''waiting_for_verified_candidate'' [] [] SUSPECT mode s
           | Some current \<Rightarrow>
               if \<not> sa_confirmed s
               then update_unconfirmed now s current history mode (sa_selectionGeneration s)
               else update_confirmed now s current history decisionHistory mode batchGeneration))"

definition UpdateOutboundsInfo :: "instant \<Rightarrow> smart_active \<Rightarrow> history_map \<Rightarrow> bool \<times> smart_active" where
  "UpdateOutboundsInfo now s history = updateOutboundsInfo now s history ModeNone 0"

definition UpdateOutboundsInfoForManualRefresh ::
  "instant \<Rightarrow> smart_active \<Rightarrow> history_map \<Rightarrow> bool \<times> smart_active" where
  "UpdateOutboundsInfoForManualRefresh now s history = updateOutboundsInfo now s history ModeUserRefresh 0"

definition UpdateOutboundsInfoForCompletedBatch ::
  "instant \<Rightarrow> smart_active \<Rightarrow> history_map \<Rightarrow> u64 \<Rightarrow> bool \<times> smart_active" where
  "UpdateOutboundsInfoForCompletedBatch now s history generation =
     updateOutboundsInfo now s history ModeCompletedBatch generation"

end
