(* ===== verification/Smart_Safety.thy ===== *)
theory Smart_Safety
  imports Smart_Update
begin

text \<open>
  What the selection operations of \<open>SmartActive\<close> never do: install an outbound that is not
  eligible for the generation the decision is made on, report a change that did not happen, or
  touch the profile. The loops are characterised first, then every phase is shown to keep the
  contract \<open>moves\<close>.
\<close>

named_theorems moves_intros \<open>operations that keep the contract \<open>moves\<close>\<close>

section \<open>What a candidate loop returns\<close>

lemma best_candidate_loop_sound:
  "best_candidate_loop now s history emergency re g cs fb avoid = (Some c, avoid')
    \<Longrightarrow> fb = Some c \<or> c \<in> set cs \<and> eligible now s (Tag c) (pget history (Tag c)) g
         \<and> \<not> too_old now (pget history (Tag c)) smartActiveCandidateMaxAge
         \<and> (re \<longrightarrow> \<not> lacks_evidence (map_of (sa_evidence s) (Tag c)) (if emergency then 1 else 2))"
proof (induction cs arbitrary: fb avoid)
  case Nil
  then show ?case by simp
next
  case (Cons x xs)
  then show ?case
    by (auto simp: Let_def split: if_splits prod.splits bool.splits)
qed

lemma bestCandidate_sound:
  assumes "bestCandidate now s history emergency re g = (Some c, s')"
  shows "c \<in> set (sa_outbounds s)" "eligible now s (Tag c) (pget history (Tag c)) g"
    "\<not> too_old now (pget history (Tag c)) smartActiveCandidateMaxAge"
    "re \<Longrightarrow> \<not> lacks_evidence (map_of (sa_evidence s) (Tag c)) (if emergency then 1 else 2)"
  using assms by (auto simp: bestCandidate_def Let_def split: prod.splits dest: best_candidate_loop_sound)

lemma failover_loop_sound:
  "failover_loop now s current history g cs fb avoid = (Some c, avoid')
    \<Longrightarrow> fb = Some c \<or> c \<in> set cs \<and> Tag c \<noteq> current \<and> eligible now s (Tag c) (pget history (Tag c)) g
         \<and> \<not> too_old now (pget history (Tag c)) smartActiveCandidateMaxAge
         \<and> \<not> lacks_evidence (map_of (sa_evidence s) (Tag c)) 1"
proof (induction cs arbitrary: fb avoid)
  case Nil
  then show ?case by simp
next
  case (Cons x xs)
  then show ?case
    by (auto simp: Let_def split: if_splits prod.splits bool.splits)
qed

lemma bestActiveFailoverCandidate_sound:
  assumes "bestActiveFailoverCandidate now s current history g = (Some c, s')"
  shows "g \<noteq> 0" "c \<in> set (sa_outbounds s)" "Tag c \<noteq> current"
    "eligible now s (Tag c) (pget history (Tag c)) g"
    "\<not> too_old now (pget history (Tag c)) smartActiveCandidateMaxAge"
    "\<not> lacks_evidence (map_of (sa_evidence s) (Tag c)) 1"
  using assms
  by (auto simp: bestActiveFailoverCandidate_def Let_def split: prod.splits if_splits
      dest: failover_loop_sound)

lemma lacks_evidence_required:
  "\<not> lacks_evidence e (case e of
       Some y \<Rightarrow> if recoveryPending y then max k smartActiveCleanEvidenceRequired else k | None \<Rightarrow> k)
    \<Longrightarrow> \<not> lacks_evidence e k"
  by (auto simp: lacks_evidence_def split: option.splits if_splits)

lemma significant_loop_sound:
  "significant_loop now s current history g state k rg age cs ct r stale avoid
      = ((Some c, ct', r', stale'), avoid')
    \<Longrightarrow> c \<in> set cs \<and> Tag c \<noteq> current \<and> eligible now s (Tag c) (pget history (Tag c)) g
      \<and> (0 < age \<longrightarrow> \<not> too_old now (pget history (Tag c)) age)
      \<and> (rg \<longrightarrow> smartActiveState now (pget history (Tag c)) = GOOD)
      \<and> \<not> lacks_evidence (map_of (sa_evidence s) (Tag c)) k
      \<and> significantSmartActiveAdvantage now s current (Tag c) history state g = (True, r')"
proof (induction cs arbitrary: ct r stale avoid)
  case Nil
  then show ?case by simp
next
  case (Cons x xs)
  then show ?case
    by (auto simp: Let_def split: if_splits prod.splits bool.splits
        dest!: lacks_evidence_required dest: Cons.IH)
qed

lemma bestSignificantCandidate_sound:
  assumes "bestSignificantCandidate now s current history g state k rg age = ((Some c, ct, r, stale), s')"
  shows "g \<noteq> 0" "c \<in> set (sa_outbounds s)" "Tag c \<noteq> current"
    "eligible now s (Tag c) (pget history (Tag c)) g"
    "0 < age \<Longrightarrow> \<not> too_old now (pget history (Tag c)) age"
    "rg \<Longrightarrow> smartActiveState now (pget history (Tag c)) = GOOD"
    "\<not> lacks_evidence (map_of (sa_evidence s) (Tag c)) k"
    "significantSmartActiveAdvantage now s current (Tag c) history state g = (True, r)"
  using assms
  by (auto simp: bestSignificantCandidate_def Let_def split: prod.splits if_splits
      dest: significant_loop_sound)

section \<open>Avoided outbounds\<close>

text \<open>
  The loops only delete expired entries, so whether an outbound is avoided does not depend on
  how far a loop has run.
\<close>

definition avoided :: "instant \<Rightarrow> (tag, instant) go_map \<Rightarrow> tag \<Rightarrow> bool" where
  "avoided now m t = (case map_of m t of None \<Rightarrow> False | Some until \<Rightarrow> now \<le> until)"

lemma isAvoidedCandidate_spec:
  assumes "isAvoidedCandidate now m t = (b, m')"
  shows "(b \<longleftrightarrow> avoided now m t) \<and> avoided now m' = avoided now m"
  using assms
  by (auto simp: isAvoidedCandidate_def avoided_def delete_conv fun_eq_iff split: option.splits if_splits)

lemma significant_loop_not_avoided:
  "significant_loop now s current history g state k rg age cs ct r stale avoid
      = ((Some c, ct', r', stale'), avoid') \<Longrightarrow> \<not> avoided now avoid (Tag c)"
proof (induction cs arbitrary: ct r stale avoid)
  case Nil
  then show ?case by simp
next
  case (Cons x xs)
  then show ?case
    by (auto simp: Let_def split: if_splits prod.splits bool.splits
        dest!: isAvoidedCandidate_spec dest: Cons.IH)
qed

lemma best_candidate_loop_not_avoided:
  "best_candidate_loop now s history False re g cs None avoid = (Some c, avoid')
    \<Longrightarrow> \<not> avoided now avoid (Tag c)"
proof (induction cs arbitrary: avoid)
  case Nil
  then show ?case by simp
next
  case (Cons x xs)
  then show ?case
    by (auto simp: Let_def split: if_splits prod.splits bool.splits
        dest!: isAvoidedCandidate_spec dest: Cons.IH)
qed

lemma bestSignificantCandidate_not_avoided:
  "bestSignificantCandidate now s current history g state k rg age = ((Some c, ct, r, stale), s')
    \<Longrightarrow> \<not> avoided now (sa_avoidUntil s) (Tag c)"
  by (auto simp: bestSignificantCandidate_def Let_def split: prod.splits if_splits
      dest: significant_loop_not_avoided)

section \<open>Fields a decision leaves alone\<close>

lemma candidateStatus_frame [simp]:
  "candidateStatus now (s\<lparr> sa_avoidUntil := a \<rparr>) = candidateStatus now s"
  "candidateStatus now (s\<lparr> sa_evidence := e \<rparr>) = candidateStatus now s"
  "candidateStatus now (s\<lparr> sa_active := c \<rparr>) = candidateStatus now s"
  "candidateStatus now (s\<lparr> sa_confirmed := b \<rparr>) = candidateStatus now s"
  "candidateStatus now (s\<lparr> sa_bootstrap := b \<rparr>) = candidateStatus now s"
  "candidateStatus now (s\<lparr> sa_decision := d \<rparr>) = candidateStatus now s"
  "candidateStatus now (s\<lparr> sa_activeProbe := p \<rparr>) = candidateStatus now s"
  by (intro ext candidateStatus_cong; simp)+

definition kept :: "smart_active \<Rightarrow> smart_active \<Rightarrow> bool" where
  "kept s s' \<longleftrightarrow>
     sa_outbounds s' = sa_outbounds s \<and> sa_startedAt s' = sa_startedAt s
     \<and> sa_ipv6Mode s' = sa_ipv6Mode s \<and> sa_ipv6CapabilityTTL s' = sa_ipv6CapabilityTTL s
     \<and> sa_selectionGeneration s' = sa_selectionGeneration s
     \<and> sa_lastFullGeneration s' = sa_lastFullGeneration s
     \<and> sa_lastFullHistory s' = sa_lastFullHistory s \<and> sa_latestHistory s' = sa_latestHistory s
     \<and> sa_diagnosticHistory s' = sa_diagnosticHistory s
     \<and> sa_diagnosticGeneration s' = sa_diagnosticGeneration s"

lemma kept_refl [simp]: "kept s s"
  by (simp add: kept_def)

lemma kept_trans: "kept s s' \<Longrightarrow> kept s' s'' \<Longrightarrow> kept s s''"
  by (simp add: kept_def)

lemma kept_status: "kept s s' \<Longrightarrow> candidateStatus now s' = candidateStatus now s"
  by (intro ext candidateStatus_cong) (simp_all add: kept_def)

text \<open>\<open>idle s s'\<close>: the operation changed neither the active outbound nor what it rests on.\<close>

definition idle :: "smart_active \<Rightarrow> smart_active \<Rightarrow> bool" where
  "idle s s' \<longleftrightarrow> kept s s' \<and> sa_active s' = sa_active s \<and> sa_confirmed s' = sa_confirmed s
     \<and> sa_bootstrap s' = sa_bootstrap s"

lemma idle_refl [simp]: "idle s s"
  by (simp add: idle_def)

lemma idle_trans: "idle s s' \<Longrightarrow> idle s' s'' \<Longrightarrow> idle s s''"
  by (simp add: idle_def kept_def)

lemma idle_status: "idle s s' \<Longrightarrow> candidateStatus now s' = candidateStatus now s"
  by (simp add: idle_def kept_status)

lemma idle_updates [simp]:
  "idle s (s\<lparr> sa_avoidUntil := a \<rparr>)" "idle s (s\<lparr> sa_evidence := e \<rparr>)"
  "idle s (s\<lparr> sa_decision := d \<rparr>)" "idle s (s\<lparr> sa_activeProbe := p \<rparr>)"
  "idle s (s\<lparr> sa_recovered := rec \<rparr>)"
  "idle s (resetActiveProbeAdvantage s)"
  "idle s (markActiveProbeUnhealthy s t)" "idle s (set_decision d s)" "idle s (set_mode m s)"
  by (simp_all add: idle_def kept_def resetActiveProbeAdvantage_def
      markActiveProbeUnhealthy_def set_decision_def set_mode_def Let_def)

lemma idle_bestCandidate: "bestCandidate now s history em re g = (c, s') \<Longrightarrow> idle s s'"
  by (auto simp: bestCandidate_def Let_def split: prod.splits)

lemma idle_bestSignificantCandidate:
  "bestSignificantCandidate now s current history g state k rg age = (r, s') \<Longrightarrow> idle s s'"
  by (auto simp: bestSignificantCandidate_def Let_def split: prod.splits if_splits)

lemma idle_bestActiveFailoverCandidate:
  "bestActiveFailoverCandidate now s current history g = (c, s') \<Longrightarrow> idle s s'"
  by (auto simp: bestActiveFailoverCandidate_def Let_def split: prod.splits if_splits)

lemma idle_decide: "decide a r f t st m s = (ch, s') \<Longrightarrow> idle s s' \<and> \<not> ch"
  by (auto simp: decide_def)

lemma idle_reconcile: "idle s (reconcileActiveProbeAdvantage now s history g)"
proof -
  have step: "idle s s' \<Longrightarrow> idle s (resetActiveProbeAdvantage s')" for s'
    using idle_trans idle_updates(6) by blast
  show ?thesis
    by (auto simp: reconcileActiveProbeAdvantage_def split: option.splits prod.splits
        dest: idle_bestSignificantCandidate intro: step)
qed

section \<open>The contract of a decision\<close>

definition installed :: "instant \<Rightarrow> history_map \<Rightarrow> u64 \<Rightarrow> smart_active \<Rightarrow> smart_active \<Rightarrow> bool" where
  "installed now history g s s' \<longleftrightarrow>
     (\<exists>c \<in> set (sa_outbounds s). sa_active s' = Some c \<and> sa_confirmed s'
        \<and> eligible now s (Tag c) (pget history (Tag c)) g)"

definition moves :: "instant \<Rightarrow> history_map \<Rightarrow> u64 \<Rightarrow> smart_active \<Rightarrow> bool \<times> smart_active \<Rightarrow> bool" where
  "moves now history g s r =
     (case r of (ch, s') \<Rightarrow>
        kept s s' \<and> (ch \<longleftrightarrow> Now s' \<noteq> Now s)
        \<and> (sa_active s' = sa_active s \<and> sa_confirmed s' = sa_confirmed s \<or> installed now history g s s')
        \<and> (sa_bootstrap s' \<longrightarrow> sa_bootstrap s)
        \<and> (\<not> sa_bootstrap s' \<longrightarrow> \<not> sa_bootstrap s \<or> sa_active s' \<noteq> None \<and> sa_confirmed s'))"

lemma Now_cong: "sa_active s' = sa_active s \<Longrightarrow> Now s' = Now s"
  by (simp add: Now_def)

lemma moves_idle [moves_intros]: "idle s s' \<Longrightarrow> moves now history g s (False, s')"
  using Now_cong [of s' s] by (simp add: moves_def idle_def)

lemma moves_decide [moves_intros]: "moves now history g s (decide a r f t st m s)"
  by (simp add: decide_def moves_idle)

lemma moves_if:
  "(b \<Longrightarrow> moves now history g s x) \<Longrightarrow> (\<not> b \<Longrightarrow> moves now history g s y)
    \<Longrightarrow> moves now history g s (if b then x else y)"
  by simp

text \<open>Steps that are idle before or after a move do not matter.\<close>

lemma moves_after_idle:
  assumes "idle s s1" and "moves now history g s1 r"
  shows "moves now history g s r"
proof -
  have k: "kept s s1" and same: "sa_active s1 = sa_active s" "sa_confirmed s1 = sa_confirmed s"
    "sa_bootstrap s1 = sa_bootstrap s"
    using assms(1) by (simp_all add: idle_def)
  have "installed now history g s1 = installed now history g s"
    using k by (simp add: installed_def kept_status fun_eq_iff) (simp add: kept_def)
  moreover have "kept s1 x \<Longrightarrow> kept s x" for x
    using k kept_trans by blast
  ultimately show ?thesis
    using assms(2) by (simp add: moves_def same Now_cong [OF same(1)] split: prod.splits)
qed

lemma moves_then_idle:
  assumes "moves now history g s (ch, s1)" and "idle s1 s2"
  shows "moves now history g s (ch, s2)"
proof -
  have k: "kept s1 s2" and same: "sa_active s2 = sa_active s1" "sa_confirmed s2 = sa_confirmed s1"
    "sa_bootstrap s2 = sa_bootstrap s1"
    using assms(2) by (simp_all add: idle_def)
  have "installed now history g s s2 = installed now history g s s1"
    by (simp add: installed_def same)
  moreover have "kept s s1 \<Longrightarrow> kept s s2"
    using k kept_trans by blast
  ultimately show ?thesis
    using assms(1) by (simp add: moves_def same Now_cong [OF same(1)])
qed

lemma eligible_tag: "eligible now s t h g \<Longrightarrow> t \<noteq> []"
  using eligible_iff by blast

lemma moves_switchTo:
  assumes "sa_active s = Some current" "c \<in> set (sa_outbounds s)" "Tag c \<noteq> Tag current"
  shows "moves now history g s (switchTo now s (Some current) (Some c) r st history g)"
  using assms
  by (auto simp: switchTo_def Let_def moves_def kept_def Now_def installed_def candidateTag_def)

lemma moves_confirmActive:
  assumes "c \<in> set (sa_outbounds s)" "eligible now s (Tag c) (pget history (Tag c)) g"
  shows "moves now history g s (confirmActive s (sa_active s) (Some c) r m)"
  using assms
  by (auto simp: confirmActive_def Let_def moves_def kept_def Now_def installed_def candidateTag_def)

lemma moves_switch_with:
  assumes "sa_active s = Some current" "c \<in> set (sa_outbounds s)" "Tag c \<noteq> Tag current"
  shows "moves now history g s (switch_with now s current c r st history g m)"
  using moves_switchTo [OF assms, of now history g r st]
  by (auto simp: switch_with_def split: prod.splits intro: moves_then_idle)

lemma moves_probe_switch:
  assumes "sa_active s = Some current" "c \<in> set (sa_outbounds s)" "Tag c \<noteq> Tag current"
  shows "moves now history g s (probe_switch now s current c r st history g)"
proof (cases "switchTo now s (Some current) (Some c) r st history g")
  case (Pair ch s1)
  have "idle s1 (if ch then (set_mode ModeActiveProbe s1)\<lparr> sa_activeProbe := probe_evidence_for (Tag c) \<rparr>
                 else set_mode ModeActiveProbe s1)"
    using idle_trans [OF idle_updates(9) idle_updates(4)] by simp
  then show ?thesis
    using moves_switchTo [OF assms, of now history g r st] Pair
    by (auto simp: probe_switch_def Let_def intro: moves_then_idle)
qed

lemma idle_same: "idle s s' \<Longrightarrow> sa_active s' = sa_active s \<and> sa_outbounds s' = sa_outbounds s"
  by (simp add: idle_def kept_def)

lemma moves_applyUserRefreshDecision:
  assumes "sa_active s = Some current" "c \<in> set (sa_outbounds s)" "\<not> sa_bootstrap s"
  shows "moves now history g s (applyUserRefreshDecision now s current c history g)"
proof -
  let ?s = "s\<lparr> sa_bootstrap := False \<rparr>"
  have i: "idle s ?s"
    using assms by (simp add: idle_def kept_def)
  have keep: "moves now history g s (False, ?s\<lparr> sa_decision := d \<rparr>)" for d
    using moves_idle idle_trans [OF i idle_updates(3)] by blast
  have switch: "moves now history g s (case switchTo now ?s (Some current) (Some c) r st history g of
       (ch, s') \<Rightarrow> (ch, set_mode m s'))" if "Tag c \<noteq> Tag current" for r st m
  proof -
    have "moves now history g s (switchTo now ?s (Some current) (Some c) r st history g)"
      by (rule moves_after_idle [OF i], rule moves_switchTo) (use assms that in simp_all)
    then show ?thesis
      by (cases "switchTo now ?s (Some current) (Some c) r st history g") (auto intro: moves_then_idle)
  qed
  show ?thesis
    unfolding applyUserRefreshDecision_def Let_def
    using keep switch by (cases "Tag c = Tag current") simp_all
qed

lemma moves_update_ineligible:
  assumes "sa_active s = Some current"
  shows "moves now history g s (update_ineligible now s current history mode g)"
proof (cases "bestCandidate now s history True True g")
  case (Pair best s1)
  note i = idle_bestCandidate [OF Pair]
  show ?thesis
  proof (cases "\<exists>c. best = Some c \<and> Tag c \<noteq> Tag current")
    case True
    then obtain c where c: "best = Some c" "Tag c \<noteq> Tag current" by blast
    have "moves now history g s1 (switch_with now s1 current c ''current_terminal_result_ineligible''
        BAD history g mode)"
      using bestCandidate_sound(1) [OF Pair [unfolded c(1)]] assms idle_same [OF i] c(2)
      by (simp add: moves_switch_with)
    then show ?thesis
      using moves_after_idle [OF i] c Pair by (simp add: update_ineligible_def Let_def)
  next
    case False
    then have "update_ineligible now s current history mode g
        = decide Keep ''failed_active_without_fresh_candidate'' (Tag current) [] BAD mode s1"
      by (cases best) (auto simp: update_ineligible_def Let_def Pair)
    then show ?thesis
      by (simp only:) (rule moves_after_idle [OF i moves_decide])
  qed
qed

lemma moves_update_refresh:
  assumes "sa_active s = Some current" "\<not> sa_bootstrap s"
  shows "moves now history g s (update_refresh now s current history st g)"
proof (cases "bestCandidate now s history True False g")
  case (Pair best s1)
  note i = idle_bestCandidate [OF Pair]
  show ?thesis
  proof (cases best)
    case None
    obtain t r where rej: "bestRejectedCandidate now s1 history g = (t, r)" by fastforce
    show ?thesis
      unfolding update_refresh_def Pair None Let_def rej prod.case option.case
      by (rule moves_after_idle [OF i moves_decide])
  next
    case (Some c)
    have "moves now history g s1 (applyUserRefreshDecision now s1 current c history g)"
      using bestCandidate_sound(1) [OF Pair [unfolded Some]] assms i
      by (intro moves_applyUserRefreshDecision) (auto simp: idle_def kept_def)
    then show ?thesis
      using moves_after_idle [OF i] Some Pair by (simp add: update_refresh_def)
  qed
qed

text \<open>A candidate is never the outbound in a \<open>BAD\<close> or \<open>CRITICAL\<close> state.\<close>

lemma bad_not_candidate:
  assumes "bestCandidate now s history em re g = (Some c, s')"
    and "st = smartActiveState now (pget history (Tag current))" "st = BAD \<or> st = CRITICAL"
  shows "Tag c \<noteq> Tag current"
  using bestCandidate_sound(2) [OF assms(1)] assms(2,3) by (auto simp: eligible_iff less_health_state_def)

lemma moves_significant_switch:
  assumes "bestSignificantCandidate now s (Tag current) history g st k rg age = ((Some c, ct, r, stale), s1)"
    and "sa_active s = Some current"
  shows "moves now history g s (switch_with now s1 current c why st' history g m)"
proof -
  note i = idle_bestSignificantCandidate [OF assms(1)]
  show ?thesis
    by (rule moves_after_idle [OF i], rule moves_switch_with)
      (use bestSignificantCandidate_sound(2,3) [OF assms(1)] assms(2) idle_same [OF i] in simp_all)
qed

lemma moves_emergency_switch:
  assumes "bestCandidate now s history em re g = (Some c, s1)"
    and "sa_active s = Some current" "Tag c \<noteq> Tag current"
  shows "moves now history g s (switch_with now s1 current c why st' history g m)"
proof -
  note i = idle_bestCandidate [OF assms(1)]
  show ?thesis
    by (rule moves_after_idle [OF i], rule moves_switch_with)
      (use bestCandidate_sound(1) [OF assms(1)] assms(2,3) idle_same [OF i] in simp_all)
qed

lemma moves_update_batch:
  assumes "sa_active s = Some current" "st = smartActiveState now (pget history (Tag current))"
  shows "moves now history g s (update_batch now s current history st g)"
proof (cases "st = BAD \<or> st = CRITICAL")
  case True
  obtain best s1 where b: "bestCandidate now s history True True g = (best, s1)" by fastforce
  show ?thesis
  proof (cases best)
    case None
    then show ?thesis
      using True moves_after_idle [OF idle_bestCandidate [OF b] moves_decide]
      by (simp add: update_batch_def b)
  next
    case (Some c)
    then show ?thesis
      using True moves_emergency_switch [OF b [unfolded Some] assms(1)]
        bad_not_candidate [OF b [unfolded Some] assms(2) True]
      by (simp add: update_batch_def b)
  qed
next
  case False
  obtain best ct r stale s1 where b: "bestSignificantCandidate now s (Tag current) history g st
      smartActiveCleanEvidenceRequired (st \<noteq> GOOD) smartActiveCandidateMaxAge = ((best, ct, r, stale), s1)"
    by (metis prod_cases4 surj_pair)
  show ?thesis
  proof (cases best)
    case None
    then show ?thesis
      unfolding update_batch_def b
      using False moves_after_idle [OF idle_bestSignificantCandidate [OF b] moves_decide]
      by (simp add: Let_def)
  next
    case (Some c)
    then show ?thesis
      unfolding update_batch_def b
      using False moves_significant_switch [OF b [unfolded Some] assms(1)]
      by (simp add: Let_def)
  qed
qed

lemma moves_update_quality:
  assumes "sa_active s = Some current"
  shows "moves now history g s (update_quality now s current history st g m)"
proof -
  obtain best ct r stale s1 where b: "bestSignificantCandidate now s (Tag current) history g st
      smartActiveCleanEvidenceRequired (st \<noteq> GOOD) smartActiveCandidateMaxAge = ((best, ct, r, stale), s1)"
    by (metis prod_cases4 surj_pair)
  show ?thesis
  proof (cases best)
    case None
    then show ?thesis
      unfolding update_quality_def b
      using moves_after_idle [OF idle_bestSignificantCandidate [OF b] moves_decide]
      by (simp add: Let_def)
  next
    case (Some c)
    then show ?thesis
      unfolding update_quality_def b
      using moves_significant_switch [OF b [unfolded Some] assms]
      by (simp add: Let_def)
  qed
qed

lemma moves_update_background:
  assumes "sa_active s = Some current"
  shows "moves now history g s (update_background now s current history st g m)"
proof -
  obtain best s1 where b: "bestCandidate now s history (st = BAD \<or> st = CRITICAL) True g = (best, s1)"
    by fastforce
  note i = idle_bestCandidate [OF b]
  have decide: "moves now history g s (decide a r f t st' m' s1)" for a r f t st' m'
    by (rule moves_after_idle [OF i moves_decide])
  have switch: "moves now history g s (switch_with now s1 current c why st' history g m')"
    if "best = Some c" "Tag c \<noteq> Tag current" for c why st' m'
    by (rule moves_emergency_switch [OF b [unfolded that(1)] assms that(2)])
  have "moves now history g s (update_emergency now s1 current best history st g m)"
    unfolding update_emergency_def Let_def using decide switch by (simp split: option.splits)
  moreover have "moves now history g s (update_quality now s1 current history st g m)"
    by (rule moves_after_idle [OF i moves_update_quality]) (use assms idle_same [OF i] in simp)
  ultimately show ?thesis
    using decide by (simp add: update_background_def b Let_def)
qed

lemma moves_handleConfirmedActiveProbe:
  assumes "sa_active s = Some current"
    and "handleConfirmedActiveProbe now s (Some current) history g = ((ch, handled), s')"
  shows "moves now history g s (ch, s')" "\<not> handled \<Longrightarrow> s' = s"
proof -
  obtain best s1 where b: "bestActiveFailoverCandidate now s (Tag current) history g = (best, s1)"
    by fastforce
  note i = idle_bestActiveFailoverCandidate [OF b]
  have "moves now history g s r" if "best = Some c" "probe_switch now s1 current c why st' history g = r"
    for c why st' r
    unfolding that(2) [symmetric]
    by (rule moves_after_idle [OF i], rule moves_probe_switch)
      (use bestActiveFailoverCandidate_sound(2,3) [OF b [unfolded that(1)]] assms(1) idle_same [OF i] in simp_all)
  moreover have "moves now history g s (False, set_decision d s1)" for d
    by (rule moves_idle, rule idle_trans [OF i]) simp
  moreover have "idle s (s\<lparr> sa_activeProbe := p, sa_decision := d \<rparr>)" for p d
    by (simp add: idle_def kept_def)
  then have "moves now history g s (False, s\<lparr> sa_activeProbe := p, sa_decision := d \<rparr>)" for p d
    by (rule moves_idle)
  moreover have "moves now history g s (False, s)"
    by (rule moves_idle) simp
  ultimately show "moves now history g s (ch, s')"
    using assms(2) by (auto simp: handleConfirmedActiveProbe_def b Let_def split: if_splits option.splits prod.splits)
  show "\<not> handled \<Longrightarrow> s' = s"
    using assms(2) by (auto simp: handleConfirmedActiveProbe_def b Let_def split: if_splits option.splits prod.splits)
qed

lemma moves_update_confirmed:
  assumes "sa_active s = Some current" "\<not> sa_bootstrap s"
  shows "moves now decisionHistory (sa_selectionGeneration s) s
           (update_confirmed now s current rawHistory decisionHistory mode batchGeneration)"
proof -
  let ?g = "sa_selectionGeneration s"
  obtain ch handled s1 where h: "handleConfirmedActiveProbe now s (Some current) decisionHistory ?g
      = ((ch, handled), s1)"
    by (metis surj_pair)
  note hm = moves_handleConfirmedActiveProbe [OF assms(1) h]
  show ?thesis
    unfolding update_confirmed_def Let_def h prod.case
    by (intro moves_if moves_decide hm(1);
        simp only: hm(2) moves_update_ineligible moves_update_refresh moves_update_batch
          moves_update_background assms not_False_eq_True)
qed

lemma moves_update_unconfirmed:
  assumes "sa_active s = Some current"
  shows "moves now history g s (update_unconfirmed now s current history mode g)"
proof (cases "bestCandidate now s history True False g")
  case (Pair best s1)
  note i = idle_bestCandidate [OF Pair]
  have "moves now history g s (confirmActive s1 (Some current) (Some c) r m)" if "best = Some c" for c r m
  proof (rule moves_after_idle [OF i])
    have "moves now history g s1 (confirmActive s1 (sa_active s1) (Some c) r m)"
      by (rule moves_confirmActive)
        (use bestCandidate_sound(1,2) [OF Pair [unfolded that]] idle_same [OF i] idle_status [OF i]
         in simp_all)
    then show "moves now history g s1 (confirmActive s1 (Some current) (Some c) r m)"
      using assms idle_same [OF i] by simp
  qed
  then show ?thesis
    using moves_after_idle [OF i moves_decide]
    by (simp add: update_unconfirmed_def Pair split: option.splits)
qed

section \<open>Start-up\<close>

lemma best_progressive_member:
  assumes "bestProgressiveBatchCandidate now s history g k = Some c"
  shows "c \<in> set (progressive_eligible now s history g k)"
proof -
  have pick: "fst (progressive_pick now history b w cs (x, d)) \<in> insert x (set cs)" for b w cs x d
  proof (induction cs arbitrary: x d)
    case Nil
    then show ?case by simp
  next
    case (Cons y ys)
    show ?case
      using Cons [of x d] Cons [of y] by (auto simp: Let_def)
  qed
  let ?pool = "progressive_pool now s history g k"
  obtain w others where sorted: "slice_stable (progressive_less now s history g) ?pool = w # others"
    using assms by (auto simp: bestProgressiveBatchCandidate_def Let_def split: list.splits)
  have "c = fst (progressive_pick now history (best_score_of now history ?pool)
      (getModifiedDelay (pget history (Tag w))) others (w, getModifiedDelay (pget history (Tag w))))"
    using assms by (simp add: bestProgressiveBatchCandidate_def Let_def sorted)
  then have "c \<in> insert w (set others)"
    using pick by (simp only:)
  also have "insert w (set others) = set ?pool"
    using sorted by (metis list.simps(15) set_slice_stable)
  finally show ?thesis
    by (auto simp: progressive_pool_def Let_def split: if_splits)
qed

lemma bestBootstrapCandidate_sound:
  assumes "bestBootstrapCandidate now s history g = Some c"
  shows "c \<in> set (sa_outbounds s)" "eligible now s (Tag c) (pget history (Tag c)) g"
  using best_progressive_member assms
  by (fastforce simp: bestBootstrapCandidate_def progressive_eligible_def)+

lemma moves_end_bootstrap:
  assumes "moves now history g s (ch, s1)" "sa_active s1 \<noteq> None" "sa_confirmed s1"
  shows "moves now history g s (ch, if b then s1\<lparr> sa_bootstrap := False \<rparr> else s1)"
  using assms by (cases b) (auto simp: moves_def kept_def installed_def Now_def)

lemma confirmActive_result:
  "confirmActive s from (Some c) r m = (ch, s1) \<Longrightarrow> sa_active s1 = Some c \<and> sa_confirmed s1"
  by (auto simp: confirmActive_def Let_def)

lemma moves_update_bootstrap:
  assumes "g = sa_selectionGeneration s"
  shows "moves now history g s (update_bootstrap now s history mode batchGeneration observedGeneration)"
proof (cases "bestBootstrapCandidate now s history g")
  case None
  obtain t r where "bestRejectedCandidate now s history g = (t, r)" by fastforce
  then show ?thesis
    using None assms by (simp add: update_bootstrap_def Let_def moves_decide)
next
  case (Some c)
  note sound = bestBootstrapCandidate_sound [OF Some]
  let ?finish = "\<lambda>(ch, s1). (ch, if bootstrapGenerationSettled s1 history g
      then s1\<lparr> sa_bootstrap := False \<rparr> else s1)"
  have install: "moves now history g s (?finish (confirmActive s (sa_active s) (Some c) r m))" for r m
    using moves_confirmActive [OF sound, of r m]
      confirmActive_result [of s "sa_active s" c r m]
    by (cases "confirmActive s (sa_active s) (Some c) r m") (simp add: moves_end_bootstrap)
  have keep: "moves now history g s (?finish (decide Keep r f t st mode s))"
    if "sa_active s \<noteq> None" "sa_confirmed s" for r f t st
    using moves_decide [of now history g s Keep r f t st mode] idle_decide [of Keep r f t st mode s] that
    by (cases "decide Keep r f t st mode s") (simp add: idle_def moves_end_bootstrap)
  show ?thesis
  proof (cases "\<not> sa_confirmed s \<or> sa_active s = None \<or> Tag c \<noteq> candidateTag (sa_active s)")
    case True
    then show ?thesis
      unfolding update_bootstrap_def Let_def assms [symmetric] Some option.case
      by (intro moves_if moves_decide) (simp only: if_True install)
  next
    case False
    then have confirmed: "sa_active s \<noteq> None" "sa_confirmed s" by simp_all
    show ?thesis
      unfolding update_bootstrap_def Let_def assms [symmetric] Some option.case
      by (intro moves_if moves_decide) (simp only: False if_False keep [OF confirmed])
  qed
qed

section \<open>What an update learns\<close>

definition learns :: "smart_active \<Rightarrow> smart_active \<Rightarrow> bool" where
  "learns s s' \<longleftrightarrow>
     sa_outbounds s' = sa_outbounds s \<and> sa_startedAt s' = sa_startedAt s
     \<and> sa_ipv6Mode s' = sa_ipv6Mode s \<and> sa_ipv6CapabilityTTL s' = sa_ipv6CapabilityTTL s
     \<and> sa_active s' = sa_active s \<and> sa_confirmed s' = sa_confirmed s
     \<and> sa_bootstrap s' = sa_bootstrap s
     \<and> sa_selectionGeneration s \<le> sa_selectionGeneration s'
     \<and> sa_lastFullGeneration s \<le> sa_lastFullGeneration s'"

lemma learns_refl [simp]: "learns s s"
  by (simp add: learns_def)

lemma learns_trans: "learns s s' \<Longrightarrow> learns s' s'' \<Longrightarrow> learns s s''"
  unfolding learns_def by (metis order_trans)

lemma idle_learns: "idle s s' \<Longrightarrow> learns s s'"
  by (simp add: idle_def kept_def learns_def)

lemma learns_status: "learns s s' \<Longrightarrow> candidateStatus now s' = candidateStatus now s"
  by (intro ext candidateStatus_cong) (simp_all add: learns_def)

lemma learns_advance_selection: "learns s (advance_selection s history)"
  by (auto simp: advance_selection_def learns_def Let_def)

lemma learns_rememberFullGeneration: "learns s (snd (rememberFullGeneration now s history g))"
  by (auto simp: rememberFullGeneration_def learns_def split: option.splits)

lemma idle_updateEvidence: "idle s (updateEvidence now s history)"
  by (simp add: updateEvidence_def idle_def kept_def split: prod.splits)

lemma learns_diagnostics [simp]: "learns s (rememberDecisionDiagnostics s h g src)"
  by (simp add: rememberDecisionDiagnostics_def learns_def)

lemma learns_latest [simp]: "learns s (s\<lparr> sa_latestHistory := h \<rparr>)"
  by (simp add: learns_def)

lemma learns_remember_settled: "learns s (snd (remember_settled now s history))"
  using learns_trans [OF learns_advance_selection learns_rememberFullGeneration]
  by (simp add: remember_settled_def Let_def learns_advance_selection)

lemma learns_learn_history: "learns s (snd (learn_history now s history))"
proof -
  obtain full s1 where r: "remember_settled now s history = (full, s1)" by fastforce
  define s2 where "s2 = (updateEvidence now s1 history)\<lparr> sa_latestHistory := history \<rparr>"
  have "learns s s1"
    using learns_remember_settled [of s now history] by (simp add: r)
  moreover have "learns s1 s2"
    unfolding s2_def using learns_trans [OF idle_learns [OF idle_updateEvidence] learns_latest] .
  ultimately have "learns s s2"
    by (rule learns_trans)
  then have diag: "learns s (rememberDecisionDiagnostics s2 h' g' src)" for h' g' src
    using learns_trans learns_diagnostics by blast
  have "learns s (reconcileActiveProbeAdvantage now (rememberDecisionDiagnostics s2 h' g' src) h g)" for h' g' src h g
    using learns_trans [OF diag idle_learns [OF idle_reconcile]] .
  with diag show ?thesis
    by (simp add: learn_history_def r Let_def s2_def [symmetric])
qed

text \<open>The diagnostics show the histories and the generation the decision was made on.\<close>

lemma idle_diagnostics:
  "idle s s' \<Longrightarrow> sa_diagnosticHistory s' = sa_diagnosticHistory s
     \<and> sa_diagnosticGeneration s' = sa_diagnosticGeneration s"
  by (simp add: idle_def kept_def)

lemma learn_history_diagnostics:
  assumes "learn_history now s history = (d, s')"
  shows "sa_diagnosticHistory s' = d" "sa_diagnosticGeneration s' = sa_selectionGeneration s'"
    "sa_bootstrap s' \<Longrightarrow> d = history"
  using assms
  by (auto simp: learn_history_def Let_def rememberDecisionDiagnostics_def split: prod.splits if_splits
      dest: arg_cong [where f = sa_bootstrap]
      simp: idle_diagnostics [OF idle_reconcile] idle_reconcile [unfolded idle_def kept_def])

section \<open>The two entry points\<close>

text \<open>
  The history an update decides on is the one it leaves in the diagnostics. The one exception
  would be an unconfirmed active after start-up; theory \<open>Smart_Invariant\<close> shows that no
  reachable state has one.
\<close>

lemma updateOutboundsInfo_moves:
  assumes "sa_bootstrap s \<or> sa_confirmed s" "learn_history now s history = (d, s1)"
  shows "learns s s1" "moves now d (sa_selectionGeneration s1) s1
           (updateOutboundsInfo now s history mode batchGeneration)"
proof -
  show l: "learns s s1"
    using learns_learn_history [of s now history] assms(2) by simp
  then have phase: "sa_bootstrap s1 \<or> sa_confirmed s1"
    using assms(1) by (simp add: learns_def)
  have d: "sa_bootstrap s1 \<Longrightarrow> d = history"
    by (rule learn_history_diagnostics(3) [OF assms(2)])
  show "moves now d (sa_selectionGeneration s1) s1
          (updateOutboundsInfo now s history mode batchGeneration)"
    using phase d
    by (cases "sa_bootstrap s1")
      (simp_all add: updateOutboundsInfo_def Let_def assms(2) moves_update_bootstrap moves_decide
        moves_update_confirmed split: option.splits)
qed

lemma learns_recover_generation: "learns s (recover_generation now s t current)"
proof -
  let ?g = "currentGeneration s current"
  let ?s = "s\<lparr> sa_selectionGeneration := max (sa_selectionGeneration s) ?g \<rparr>"
  obtain b s1 where r: "rememberFullGeneration now ?s current ?g = (b, s1)" by fastforce
  have "learns s ?s"
    by (simp add: learns_def)
  then have "learns s s1"
    using learns_trans learns_rememberFullGeneration [of ?s now current ?g] by (simp add: r)
  moreover from this have "learns s (reconcileActiveProbeAdvantage now (updateEvidence now s1 current) h g)" for h g
    using learns_trans idle_learns [OF idle_trans [OF idle_updateEvidence idle_reconcile]] by blast
  ultimately show ?thesis
    by (simp add: recover_generation_def Let_def r split: bool.splits)
qed

lemma activeProbeDecisionHistory_state:
  "activeProbeDecisionHistory now s t p current = (r, s') \<Longrightarrow> s' = recover_generation now s t current"
  by (auto simp: activeProbeDecisionHistory_def Let_def split: if_splits option.splits)

lemma moves_probe_healthy:
  assumes "sa_active s = Some current"
  shows "case probe_healthy now s current history g st of (u, s') \<Rightarrow> moves now history g s (changed u, s')"
proof -
  define s1 where "s1 = s\<lparr> sa_activeProbe := (sa_activeProbe s)\<lparr> hardFailureStreak := 0,
      poorQualityStreak := 0, confirmedUnhealthy := False \<rparr> \<rparr>"
  obtain best ct r stale s2 where b: "bestSignificantCandidate now s1 (Tag current) history g st 1 True
      smartActiveCandidateMaxAge = ((best, ct, r, stale), s2)"
    by (metis prod_cases4 surj_pair)
  have i: "idle s s2"
    using idle_trans [OF idle_updates(4) idle_bestSignificantCandidate [OF b [unfolded s1_def]]] .
  have keep: "moves now history g s (False, set_decision d (resetActiveProbeAdvantage s2))"
    "moves now history g s (False, set_decision d (s2\<lparr> sa_activeProbe := p \<rparr>))" for d p
    using moves_idle idle_trans [OF i idle_trans] idle_updates by metis+
  have switch: "moves now history g s r'"
    if "best = Some c" "probe_switch now (s2\<lparr> sa_activeProbe := p \<rparr>) current c why st' history g = r'"
    for c why st' r' p
    unfolding that(2) [symmetric]
    by (rule moves_after_idle [OF idle_trans [OF i idle_updates(4)]], rule moves_probe_switch)
      (use bestSignificantCandidate_sound(2,3) [OF b [unfolded that(1)]] assms idle_same [OF i]
       in \<open>simp_all add: s1_def\<close>)
  show ?thesis
    unfolding probe_healthy_def bestActiveProbeUpgradeCandidate_def s1_def [symmetric] b Let_def prod.case
    using keep switch by (cases best) (simp_all add: no_update_def split: prod.splits)
qed

lemma moves_probe_failover:
  assumes "sa_active s = Some current"
  shows "case probe_failover now s current hard history g of (u, s') \<Rightarrow> moves now history g s (changed u, s')"
proof -
  define s1 where "s1 = markActiveProbeUnhealthy
    (s\<lparr> sa_activeProbe := (sa_activeProbe s)\<lparr> confirmedUnhealthy := True \<rparr> \<rparr>) (Tag current)"
  obtain best s2 where b: "bestActiveFailoverCandidate now s1 (Tag current) history g = (best, s2)"
    by fastforce
  have i1: "idle s s1"
    unfolding s1_def using idle_trans [OF idle_updates(4) idle_updates(7)] .
  have i: "idle s s2"
    using idle_trans [OF i1 idle_bestActiveFailoverCandidate [OF b]] .
  have keep: "moves now history g s (False, set_decision d s2)" for d
    using moves_idle idle_trans [OF i] idle_updates by metis
  have switch: "moves now history g s r'"
    if "best = Some c" "probe_switch now s2 current c why st' history g = r'" for c why st' r'
    unfolding that(2) [symmetric]
    by (rule moves_after_idle [OF i], rule moves_probe_switch)
      (use bestActiveFailoverCandidate_sound(2,3) [OF b [unfolded that(1)]] assms idle_same [OF i]
        idle_same [OF i1] in simp_all)
  show ?thesis
    unfolding probe_failover_def Let_def s1_def [symmetric] b prod.case using keep switch
    by (cases best) (simp_all add: no_update_def split: prod.splits)
qed

lemma moves_probe_unhealthy:
  assumes "sa_active s = Some current"
  shows "case probe_unhealthy now s current hard history g of (u, s') \<Rightarrow> moves now history g s (changed u, s')"
proof -
  define p where "p = count_bad_sample hard (sa_activeProbe (resetActiveProbeAdvantage s))"
  define s1 where "s1 = (resetActiveProbeAdvantage s)\<lparr> sa_activeProbe := p \<rparr>"
  have i: "idle s s1"
    unfolding s1_def using idle_trans [OF idle_updates(6) idle_updates(4)] .
  have wait: "moves now history g s (False, set_decision d s1)" for d
    using moves_idle [OF idle_trans [OF i idle_updates(8)]] .
  have failover: "case probe_failover now s1 current hard history g of
      (u, s') \<Rightarrow> moves now history g s (changed u, s')"
    using moves_probe_failover [of s1 current now history g hard] moves_after_idle [OF i] idle_same [OF i] assms
    by auto
  show ?thesis
    unfolding probe_unhealthy_def Let_def p_def [symmetric] s1_def [symmetric]
    using wait failover by (simp add: no_update_def)
qed

text \<open>
  The histories a probe decides on: the saved cohort with the probe laid over it, or the probe
  alone when no generation is complete.
\<close>

definition probe_basis :: "instant \<Rightarrow> smart_active \<Rightarrow> tag \<Rightarrow> url_test_history \<Rightarrow> history_map
    \<Rightarrow> history_map \<times> u64" where
  "probe_basis now s t p history =
     (case fst (activeProbeDecisionHistory now s t (Some p) history) of
        (None, _) \<Rightarrow> ([(t, Some p)], 0)
      | (Some d, g) \<Rightarrow> (d, g))"

lemma UpdateActiveProbe_cases:
  assumes "UpdateActiveProbe now s t probe history = (u, s')"
  obtains (ignored) "u = no_update" "s' = s \<or> (\<exists>c. sa_active s = Some c \<and> Tag c = t
        \<and> s' = s\<lparr> sa_activeProbe := probe_evidence_for t \<rparr>)"
  | (sampled) c p s1 s2 where "sa_active s = Some c" "Tag c = t" "probe = Some p" "t \<noteq> []"
      "s1 = s\<lparr> sa_activeProbe := (if ptag (sa_activeProbe s) \<noteq> t then probe_evidence_for t
                else sa_activeProbe s)\<lparr> lastProbeAt := Time p \<rparr> \<rparr>"
      "s2 = recover_generation now s1 t history"
      "let (d, g) = probe_basis now s1 t p history;
           s3 = rememberDecisionDiagnostics s2 d g SourceActiveProbe
       in (u, s') = (if \<not> activeProbeHardFailure probe \<and> \<not> activeProbePoorQuality probe
            then probe_healthy now s3 c d g (smartActiveState now (pget d t))
            else probe_unhealthy now s3 c (activeProbeHardFailure probe) d g)"
proof (cases "\<exists>c p. sa_active s = Some c \<and> probe = Some p \<and> t \<noteq> [] \<and> Tag c = t \<and> Time p \<noteq> 0")
  case False
  then have "u = no_update \<and> s' = s"
    using assms by (auto simp: UpdateActiveProbe_def split: option.splits if_splits)
  then show ?thesis
    by (intro ignored) simp_all
next
  case True
  then obtain c p where cp: "sa_active s = Some c" "probe = Some p" "t \<noteq> []" "Tag c = t" "Time p \<noteq> 0"
    by blast
  define s0 where "s0 = (if ptag (sa_activeProbe s) \<noteq> t
      then s\<lparr> sa_activeProbe := probe_evidence_for t \<rparr> else s)"
  show ?thesis
  proof (cases "Time p \<le> lastProbeAt (sa_activeProbe s0)")
    case True
    then have "u = no_update \<and> s' = s0"
      using assms cp by (simp add: UpdateActiveProbe_def Let_def s0_def [symmetric] split: if_splits)
    then show ?thesis
      using cp by (intro ignored) (auto simp: s0_def)
  next
    case False
    define s1 where "s1 = s0\<lparr> sa_activeProbe := (sa_activeProbe s0)\<lparr> lastProbeAt := Time p \<rparr> \<rparr>"
    obtain found fg s2 where a: "activeProbeDecisionHistory now s1 t (Some p) history = ((found, fg), s2)"
      by (metis surj_pair)
    show ?thesis
    proof (rule sampled [of c p s1 s2])
      show "s1 = s\<lparr> sa_activeProbe := (if ptag (sa_activeProbe s) \<noteq> t then probe_evidence_for t
                else sa_activeProbe s)\<lparr> lastProbeAt := Time p \<rparr> \<rparr>"
        by (simp add: s1_def s0_def)
      show "s2 = recover_generation now s1 t history"
        by (rule activeProbeDecisionHistory_state [OF a])
      show "let (d, g) = probe_basis now s1 t p history;
           s3 = rememberDecisionDiagnostics s2 d g SourceActiveProbe
         in (u, s') = (if \<not> activeProbeHardFailure probe \<and> \<not> activeProbePoorQuality probe
              then probe_healthy now s3 c d g (smartActiveState now (pget d t))
              else probe_unhealthy now s3 c (activeProbeHardFailure probe) d g)"
        using assms False cp
        by (cases found) (auto simp: UpdateActiveProbe_def Let_def s0_def [symmetric] s1_def [symmetric]
            a probe_basis_def split: if_splits)
    qed (use cp in simp_all)
  qed
qed

lemma UpdateActiveProbe_moves:
  assumes "UpdateActiveProbe now s t probe history = (u, s')"
  shows "idle s s' \<and> \<not> changed u
    \<or> (\<exists>d g s1. idle s s1 \<and> moves now d g
         (rememberDecisionDiagnostics (recover_generation now s1 t history) d g SourceActiveProbe)
         (changed u, s'))"
  using assms
proof (cases rule: UpdateActiveProbe_cases)
  case ignored
  then have "idle s s'"
    using idle_updates(4) by auto
  then show ?thesis
    using ignored(1) by (simp add: no_update_def)
next
  case (sampled c p s1 s2)
  obtain d g where b: "probe_basis now s1 t p history = (d, g)" by fastforce
  let ?s3 = "rememberDecisionDiagnostics s2 d g SourceActiveProbe"
  have i: "idle s s1"
    unfolding sampled(5) by (rule idle_updates(4))
  have "learns s ?s3"
    using learns_trans [OF idle_learns [OF i] learns_trans [OF learns_recover_generation learns_diagnostics]]
    by (simp add: sampled(6))
  then have "sa_active ?s3 = Some c"
    using sampled(1) by (simp add: learns_def)
  note healthy = moves_probe_healthy [OF this, of now d g "smartActiveState now (pget d t)"]
    and unhealthy = moves_probe_unhealthy [OF this, of now d g "activeProbeHardFailure probe"]
  have "moves now d g ?s3 (changed u, s')"
    using sampled(7) healthy unhealthy by (auto simp: b Let_def split: if_splits)
  with i show ?thesis
    unfolding sampled(6) by blast
qed

end
