(* ===== verification/Smart_Invariant.thy ===== *)
theory Smart_Invariant
  imports Smart_Safety
begin

text \<open>
  The life of a \<open>SmartActive\<close>: the step relation over its entry points, the states it can
  reach from \<open>NewSmartActive\<close>, and what holds in all of them.
\<close>

section \<open>The snapshot stays a complete generation\<close>

definition settled_entry :: "smart_active \<Rightarrow> u64 \<Rightarrow> url_test_history \<Rightarrow> bool" where
  "settled_entry s g h \<longleftrightarrow>
     CheckGeneration h = g \<and> fresh_entry s h \<and> CombinedReady h \<and> terminal_result h"

lemma generationSettled_iff:
  "generationSettled s history g \<longleftrightarrow> g \<noteq> 0 \<and> sa_outbounds s \<noteq> []
     \<and> (\<forall>out \<in> set (sa_outbounds s). \<exists>h. pget history (Tag out) = Some h \<and> settled_entry s g h)"
  by (auto simp: generationSettled_def settled_entry_def list_all_iff split: option.splits)

lemma merge_worsening_fields [simp]:
  "CheckGeneration (mergeSmartActiveWorseningEvidence h l) = CheckGeneration h"
  "Time (mergeSmartActiveWorseningEvidence h l) = Time h"
  "IsFromCache (mergeSmartActiveWorseningEvidence h l) = IsFromCache h"
  "CombinedReady (mergeSmartActiveWorseningEvidence h l) = CombinedReady h"
  "URLTestStatus (mergeSmartActiveWorseningEvidence h l) = URLTestStatus h"
  "Success (mergeSmartActiveWorseningEvidence h l) = Success h"
  "ErrorType (mergeSmartActiveWorseningEvidence h l) = ErrorType h"
  "Delay (mergeSmartActiveWorseningEvidence h l) = Delay h"
  by (simp_all add: mergeSmartActiveWorseningEvidence_def Let_def split: option.splits)

lemma refresh_entry_settled:
  assumes "settled_entry s g saved" "settled_entry s g incoming"
  shows "settled_entry s g (refresh_entry now saved incoming)"
  using assms
  by (auto simp: refresh_entry_def Let_def settled_entry_def fresh_entry_def terminal_result_def
      applySmartActiveFailure_def keep_worse_evidence_def)

lemma refresh_snapshot_entries:
  assumes "refresh_snapshot now full history g outs acc = Some updated"
  shows "(t \<notin> Tag ` set outs \<longrightarrow> pget updated t = pget acc t)
    \<and> (t \<in> Tag ` set outs \<longrightarrow> (\<exists>saved incoming. pget full t = Some saved \<and> pget history t = Some incoming
         \<and> pget updated t = Some (refresh_entry now saved incoming)))"
  using assms
proof (induction outs arbitrary: acc)
  case Nil
  then show ?case by simp
next
  case (Cons out outs)
  then obtain saved incoming where e: "pget full (Tag out) = Some saved" "pget history (Tag out) = Some incoming"
    "refresh_snapshot now full history g outs
       (AList.update (Tag out) (Some (refresh_entry now saved incoming)) acc) = Some updated"
    by (auto split: option.splits if_splits)
  show ?case
    using Cons.IH [OF e(3)] e(1,2) by (cases "t \<in> Tag ` set outs") auto
qed

lemma take_snapshot_entries:
  assumes "take_snapshot now history g outs acc = Some snapshot"
  shows "(t \<notin> Tag ` set outs \<longrightarrow> pget snapshot t = pget acc t)
    \<and> (t \<in> Tag ` set outs \<longrightarrow> (\<exists>item. pget history t = Some item \<and> CheckGeneration item = g
         \<and> pget snapshot t = Some (item\<lparr> HealthScore := getHealthScore now t (Some item) \<rparr>)))"
  using assms
proof (induction outs arbitrary: acc)
  case Nil
  then show ?case by simp
next
  case (Cons out outs)
  then obtain item where e: "pget history (Tag out) = Some item" "CheckGeneration item = g"
    "take_snapshot now history g outs (AList.update (Tag out)
       (Some (item\<lparr> HealthScore := getHealthScore now (Tag out) (Some item) \<rparr>)) acc) = Some snapshot"
    by (auto split: option.splits if_splits)
  show ?case
    using Cons.IH [OF e(3)] e(1,2) by (cases "t \<in> Tag ` set outs") auto
qed

definition memory_ok :: "smart_active \<Rightarrow> bool" where
  "memory_ok s \<longleftrightarrow> sa_lastFullGeneration s \<le> sa_selectionGeneration s
     \<and> (if sa_lastFullGeneration s = 0 then sa_lastFullHistory s = []
        else generationSettled s (sa_lastFullHistory s) (sa_lastFullGeneration s))"

lemma generationSettled_cong:
  "sa_outbounds s' = sa_outbounds s \<Longrightarrow> sa_startedAt s' = sa_startedAt s
    \<Longrightarrow> generationSettled s' h g = generationSettled s h g"
  by (simp add: generationSettled_iff settled_entry_def fresh_entry_def)

lemma memory_ok_remember:
  assumes ok: "memory_ok s" and settled: "generationSettled s history g"
    and g: "g \<le> sa_selectionGeneration s"
    and r: "rememberFullGeneration now s history g = (b, s')"
  shows "memory_ok s'"
proof -
  have hist: "g \<noteq> 0" "sa_outbounds s \<noteq> []"
    "\<And>out. out \<in> set (sa_outbounds s) \<Longrightarrow> \<exists>h. pget history (Tag out) = Some h \<and> settled_entry s g h"
    using settled by (auto simp: generationSettled_iff)
  have "generationSettled s updated g"
    if snap: "refresh_snapshot now (sa_lastFullHistory s) history g (sa_outbounds s) [] = Some updated"
      and gen: "g = sa_lastFullGeneration s" for updated
  proof -
    have saved: "\<exists>h. pget (sa_lastFullHistory s) (Tag out) = Some h \<and> settled_entry s g h"
      if "out \<in> set (sa_outbounds s)" for out
      using ok that hist(1) gen by (auto simp: memory_ok_def generationSettled_iff)
    have "\<exists>h. pget updated (Tag out) = Some h \<and> settled_entry s g h" if out: "out \<in> set (sa_outbounds s)" for out
    proof -
      have "Tag out \<in> Tag ` set (sa_outbounds s)"
        using out by (rule imageI)
      then obtain sv inc where e: "pget (sa_lastFullHistory s) (Tag out) = Some sv"
        "pget history (Tag out) = Some inc" "pget updated (Tag out) = Some (refresh_entry now sv inc)"
        using refresh_snapshot_entries [OF snap, of "Tag out"] by blast
      then have "settled_entry s g sv" "settled_entry s g inc"
        using saved [OF out] hist(3) [OF out] by auto
      then show ?thesis
        using e(3) refresh_entry_settled by blast
    qed
    then show ?thesis
      using hist(1,2) by (simp add: generationSettled_iff)
  qed
  moreover have "generationSettled s snapshot g"
    if "take_snapshot now history g (sa_outbounds s) [] = Some snapshot" for snapshot
  proof -
    have "\<exists>h. pget snapshot (Tag out) = Some h \<and> settled_entry s g h" if out: "out \<in> set (sa_outbounds s)" for out
    proof -
      have "Tag out \<in> Tag ` set (sa_outbounds s)"
        using out by (rule imageI)
      then obtain item where e: "pget history (Tag out) = Some item"
        "pget snapshot (Tag out) = Some (item\<lparr> HealthScore := getHealthScore now (Tag out) (Some item) \<rparr>)"
        using take_snapshot_entries [OF \<open>take_snapshot _ _ _ _ _ = _\<close>, of "Tag out"] by blast
      then have "settled_entry s g item"
        using hist(3) [OF out] by auto
      then show ?thesis
        using e(2) by (auto simp: settled_entry_def fresh_entry_def terminal_result_def split: if_splits)
    qed
    then show ?thesis
      using hist(1,2) by (simp add: generationSettled_iff)
  qed
  moreover have "s' = s
      \<or> g = sa_lastFullGeneration s \<and> (\<exists>u. s' = s\<lparr> sa_lastFullHistory := u \<rparr>
           \<and> refresh_snapshot now (sa_lastFullHistory s) history g (sa_outbounds s) [] = Some u)
      \<or> (\<exists>u. s' = s\<lparr> sa_lastFullGeneration := g, sa_lastFullHistory := u \<rparr>
           \<and> take_snapshot now history g (sa_outbounds s) [] = Some u)"
    using r by (auto simp: rememberFullGeneration_def split: if_splits option.splits)
  ultimately have "s' = s
      \<or> g = sa_lastFullGeneration s \<and> (\<exists>u. s' = s\<lparr> sa_lastFullHistory := u \<rparr> \<and> generationSettled s u g)
      \<or> (\<exists>u. s' = s\<lparr> sa_lastFullGeneration := g, sa_lastFullHistory := u \<rparr> \<and> generationSettled s u g)"
    by blast
  moreover have "memory_ok (s\<lparr> sa_lastFullGeneration := g, sa_lastFullHistory := u \<rparr>)"
    if "generationSettled s u g" for u
    using that g hist(1) generationSettled_cong
      [of "s\<lparr> sa_lastFullGeneration := g, sa_lastFullHistory := u \<rparr>" s u g]
    by (simp add: memory_ok_def)
  moreover have "memory_ok (s\<lparr> sa_lastFullHistory := u \<rparr>)"
    if "generationSettled s u g" "g = sa_lastFullGeneration s" for u
    using that g hist(1) generationSettled_cong [of "s\<lparr> sa_lastFullHistory := u \<rparr>" s u g]
    by (simp add: memory_ok_def)
  ultimately show ?thesis
    using ok by blast
qed

lemma memory_ok_cong:
  "sa_outbounds s' = sa_outbounds s \<Longrightarrow> sa_startedAt s' = sa_startedAt s
    \<Longrightarrow> sa_selectionGeneration s' = sa_selectionGeneration s
    \<Longrightarrow> sa_lastFullGeneration s' = sa_lastFullGeneration s
    \<Longrightarrow> sa_lastFullHistory s' = sa_lastFullHistory s \<Longrightarrow> memory_ok s' = memory_ok s"
  using generationSettled_cong [of s' s] by (simp add: memory_ok_def)

lemma memory_ok_kept: "kept s s' \<Longrightarrow> memory_ok s' = memory_ok s"
  by (rule memory_ok_cong) (simp_all add: kept_def)

lemma memory_ok_raise:
  "memory_ok s \<Longrightarrow> sa_selectionGeneration s \<le> g \<Longrightarrow> memory_ok (s\<lparr> sa_selectionGeneration := g \<rparr>)"
  using generationSettled_cong [of "s\<lparr> sa_selectionGeneration := g \<rparr>" s] by (auto simp: memory_ok_def)

lemma memory_ok_advance: "memory_ok s \<Longrightarrow> memory_ok (advance_selection s history)"
  by (auto simp: advance_selection_def Let_def intro: memory_ok_raise)

lemma memory_ok_remember_settled:
  assumes "memory_ok s"
  shows "memory_ok (snd (remember_settled now s history))"
proof -
  let ?s = "advance_selection s history"
  obtain b s' where r: "rememberFullGeneration now ?s history (sa_selectionGeneration ?s) = (b, s')"
    by fastforce
  show ?thesis
    using memory_ok_remember [OF memory_ok_advance [OF assms] _ order_refl r] memory_ok_advance [OF assms]
    by (simp add: remember_settled_def Let_def r)
qed

lemma memory_ok_idle: "idle s s' \<Longrightarrow> memory_ok s' = memory_ok s"
  by (simp add: idle_def memory_ok_kept)

lemma memory_ok_diagnostics [simp]: "memory_ok (rememberDecisionDiagnostics s h g src) = memory_ok s"
  by (rule memory_ok_cong) (simp_all add: rememberDecisionDiagnostics_def)

lemma memory_ok_learn_history:
  assumes "memory_ok s" "learn_history now s history = (d, s')"
  shows "memory_ok s'"
proof -
  obtain full s1 where r: "remember_settled now s history = (full, s1)" by fastforce
  have 1: "memory_ok s1"
    using memory_ok_remember_settled [OF assms(1), of now history] by (simp add: r)
  then have 2: "memory_ok ((updateEvidence now s1 history)\<lparr> sa_latestHistory := history \<rparr>)"
    using memory_ok_idle [OF idle_updateEvidence, of now s1 history]
      memory_ok_cong [of "(updateEvidence now s1 history)\<lparr> sa_latestHistory := history \<rparr>"
        "updateEvidence now s1 history"]
    by simp
  then show ?thesis
    using assms(2)
    by (auto simp: learn_history_def r Let_def memory_ok_idle [OF idle_reconcile] split: if_splits)
qed

lemma memory_ok_recover:
  assumes "memory_ok s"
  shows "memory_ok (recover_generation now s t current)"
proof -
  let ?g = "currentGeneration s current"
  let ?s = "s\<lparr> sa_selectionGeneration := max (sa_selectionGeneration s) ?g \<rparr>"
  have ok: "memory_ok ?s"
    by (rule memory_ok_raise [OF assms]) simp
  have le: "?g \<le> sa_selectionGeneration ?s"
    by simp
  obtain b s1 where r: "rememberFullGeneration now ?s current ?g = (b, s1)" by fastforce
  have "memory_ok s1" if "generationSettled s current ?g"
    using memory_ok_remember [OF ok _ le r] generationSettled_cong [of ?s s current ?g] that by simp
  then show ?thesis
    using assms
    by (simp add: recover_generation_def Let_def r memory_ok_idle [OF idle_reconcile]
        memory_ok_idle [OF idle_updateEvidence] split: bool.splits)
qed

section \<open>Reachable states\<close>

definition wf_smart :: "smart_active \<Rightarrow> bool" where
  "wf_smart s \<longleftrightarrow> memory_ok s \<and> (sa_confirmed s \<longleftrightarrow> sa_active s \<noteq> None)
     \<and> (\<forall>c. sa_active s = Some c \<longrightarrow> c \<in> set (sa_outbounds s) \<and> Tag c \<noteq> [])
     \<and> (\<not> sa_bootstrap s \<longrightarrow> sa_active s \<noteq> None)"

text \<open>
  One step is one call of an entry point, with any clock reading, histories, mode and
  generation number: nothing is assumed of the environment.
\<close>

inductive smart_step :: "smart_active \<Rightarrow> smart_active \<Rightarrow> bool" where
  update: "updateOutboundsInfo now s history mode batchGeneration = (ch, s') \<Longrightarrow> smart_step s s'"
| probe: "UpdateActiveProbe now s t p history = (u, s') \<Longrightarrow> smart_step s s'"

inductive smart_reachable :: "instant \<Rightarrow> outbound list \<Rightarrow> domain_strategy \<Rightarrow> duration \<Rightarrow> smart_active \<Rightarrow> bool"
  for start :: instant and outbounds :: "outbound list" and mode :: domain_strategy and ttl :: duration
  where
  init: "smart_reachable start outbounds mode ttl (NewSmartActive start outbounds mode ttl)"
| step: "smart_reachable start outbounds mode ttl s \<Longrightarrow> smart_step s s'
    \<Longrightarrow> smart_reachable start outbounds mode ttl s'"

inductive_cases smart_step_cases [elim!]: "smart_step s s'"

lemma wf_NewSmartActive: "wf_smart (NewSmartActive start outbounds mode ttl)"
  by (simp add: wf_smart_def memory_ok_def NewSmartActive_def)

lemma wf_learns:
  assumes "wf_smart s" "learns s s'" "memory_ok s'"
  shows "wf_smart s'"
  using assms by (simp add: wf_smart_def learns_def)

lemma wf_moves:
  assumes wf: "wf_smart s" and m: "moves now d g s (ch, s')"
  shows "wf_smart s'"
proof -
  have k: "kept s s'" and outs: "sa_outbounds s' = sa_outbounds s"
    using m by (simp_all add: moves_def kept_def)
  have active: "sa_active s' = sa_active s \<and> sa_confirmed s' = sa_confirmed s
      \<or> (\<exists>c \<in> set (sa_outbounds s). sa_active s' = Some c \<and> sa_confirmed s' \<and> Tag c \<noteq> [])"
    using m eligible_tag by (fastforce simp: moves_def installed_def)
  have boot: "\<not> sa_bootstrap s' \<longrightarrow> \<not> sa_bootstrap s \<or> sa_active s' \<noteq> None"
    using m by (auto simp: moves_def)
  show ?thesis
    using wf memory_ok_kept [OF k] outs active boot by (auto simp: wf_smart_def)
qed

lemma wf_confirmed: "wf_smart s \<Longrightarrow> sa_bootstrap s \<or> sa_confirmed s"
  by (auto simp: wf_smart_def)

lemma wf_updateOutboundsInfo:
  assumes "wf_smart s" "updateOutboundsInfo now s history mode bg = (ch, s')"
  shows "wf_smart s'"
proof -
  obtain d s1 where l: "learn_history now s history = (d, s1)" by fastforce
  note m = updateOutboundsInfo_moves [OF wf_confirmed [OF assms(1)] l]
  have "wf_smart s1"
    using wf_learns [OF assms(1) m(1)] memory_ok_learn_history [OF _ l] assms(1) by (simp add: wf_smart_def)
  then show ?thesis
    by (rule wf_moves) (use m(2) [of mode bg] assms(2) in simp)
qed

lemma wf_idle: "idle s s' \<Longrightarrow> wf_smart s \<Longrightarrow> wf_smart s'"
  using wf_learns idle_learns memory_ok_idle by (metis wf_smart_def)

lemma wf_UpdateActiveProbe:
  assumes "wf_smart s" "UpdateActiveProbe now s t p history = (u, s')"
  shows "wf_smart s'"
  using UpdateActiveProbe_moves [OF assms(2)]
proof
  assume "idle s s' \<and> \<not> changed u"
  then show ?thesis
    using wf_idle assms(1) by blast
next
  assume "\<exists>d g s1. idle s s1 \<and> moves now d g (rememberDecisionDiagnostics
      (recover_generation now s1 t history) d g SourceActiveProbe) (changed u, s')"
  then obtain d g s1 where i: "idle s s1" and m: "moves now d g (rememberDecisionDiagnostics
      (recover_generation now s1 t history) d g SourceActiveProbe) (changed u, s')"
    by blast
  have wf1: "wf_smart s1"
    using wf_idle [OF i assms(1)] .
  then have "wf_smart (rememberDecisionDiagnostics (recover_generation now s1 t history) d g SourceActiveProbe)"
    using wf_learns [OF wf1 learns_trans [OF learns_recover_generation learns_diagnostics]]
    by (simp add: memory_ok_recover wf_smart_def)
  then show ?thesis
    by (rule wf_moves) (rule m)
qed

lemma reachable_wf: "smart_reachable start outbounds mode ttl s \<Longrightarrow> wf_smart s"
  by (induction rule: smart_reachable.induct)
    (auto simp: wf_NewSmartActive dest: wf_updateOutboundsInfo wf_UpdateActiveProbe)

text \<open>No step changes the profile or lowers a generation.\<close>

lemma step_monotone:
  assumes "wf_smart s" "smart_step s s'"
  shows "sa_outbounds s' = sa_outbounds s \<and> sa_selectionGeneration s \<le> sa_selectionGeneration s'
    \<and> sa_lastFullGeneration s \<le> sa_lastFullGeneration s'"
  using assms(2)
proof
  fix now history mode bg ch
  assume u: "updateOutboundsInfo now s history mode bg = (ch, s')"
  obtain d s1 where l: "learn_history now s history = (d, s1)" by fastforce
  note m = updateOutboundsInfo_moves [OF wf_confirmed [OF assms(1)] l]
  show ?thesis
    using m(1) m(2) [of mode bg] u by (simp add: moves_def kept_def learns_def)
next
  fix now t p history u
  assume u: "UpdateActiveProbe now s t p history = (u, s')"
  from UpdateActiveProbe_moves [OF u] show ?thesis
  proof
    assume "idle s s' \<and> \<not> changed u"
    then show ?thesis
      by (simp add: idle_def kept_def)
  next
    assume "\<exists>d g s1. idle s s1 \<and> moves now d g (rememberDecisionDiagnostics
        (recover_generation now s1 t history) d g SourceActiveProbe) (changed u, s')"
    then obtain d g s1 where i: "idle s s1" and m: "moves now d g (rememberDecisionDiagnostics
        (recover_generation now s1 t history) d g SourceActiveProbe) (changed u, s')"
      by blast
    have "learns s (rememberDecisionDiagnostics (recover_generation now s1 t history) d g SourceActiveProbe)"
      using learns_trans [OF idle_learns [OF i] learns_trans [OF learns_recover_generation learns_diagnostics]] .
    then show ?thesis
      using m unfolding moves_def kept_def learns_def prod.case by metis
  qed
qed

end
