(* ===== verification/Scenarios.thy ===== *)
theory Scenarios
  imports Smart_Invariant
begin

text \<open>
  Concrete profiles, samples and states for the witnesses: three servers, a clock, the sample
  of a server that answered, and the states a fresh \<open>SmartActive\<close> goes through.
\<close>

definition server :: "string \<Rightarrow> outbound" where
  "server t = \<lparr> Tag = t, Networks = [NetworkTCP, NetworkUDP] \<rparr>"

definition start_time :: instant where "start_time = seconds 1000"

definition clock :: instant where "clock = seconds 1060"

definition sample :: "u64 \<Rightarrow> instant \<Rightarrow> u16 \<Rightarrow> url_test_history" where
  "sample g t d = zero_history\<lparr> Time := t, Delay := d, Success := True, URLTestStatus := StatusSuccess,
     CheckGeneration := g, PingReady := True, QualityReady := True, SpeedReady := True,
     CombinedReady := True \<rparr>"

definition failure :: "u64 \<Rightarrow> instant \<Rightarrow> url_test_history" where
  "failure g t = zero_history\<lparr> Time := t, Delay := TimeoutDelay, URLTestStatus := StatusFailed,
     ErrorType := ErrorTypeTimeout, CheckGeneration := g, PingReady := True, CombinedReady := True \<rparr>"

definition fresh_smart :: smart_active where
  "fresh_smart = NewSmartActive start_time [server ''a'', server ''b'', server ''c''] DomainStrategyAsIS 0"

definition cohort :: "u64 \<Rightarrow> instant \<Rightarrow> u16 \<Rightarrow> u16 \<Rightarrow> u16 \<Rightarrow> history_map" where
  "cohort g t x y z = [(''a'', Some (sample g t x)), (''b'', Some (sample g t y)), (''c'', Some (sample g t z))]"

definition clean_streak :: "int \<Rightarrow> u64 \<Rightarrow> instant \<Rightarrow> int \<Rightarrow> smart_evidence" where
  "clean_streak n g t score = zero_evidence\<lparr> successStreak := n, lastScore := score,
     lastProbeGeneration := g, lastProbeTime := t, hasCompletedProbe := True \<rparr>"

text \<open>
  The state after the first complete generation, in which \<open>b\<close> answered fastest, written out;
  \<open>started_run\<close> evaluates the update that leads to it.
\<close>

definition first_cohort :: history_map where
  "first_cohort = cohort 1 (seconds 1050) 300 90 120"

definition started :: smart_active where
  "started = fresh_smart\<lparr> sa_active := Some (server ''b''), sa_bootstrap := False, sa_confirmed := True,
     sa_selectionGeneration := 1, sa_lastFullGeneration := 1,
     sa_lastFullHistory :=
       [(''a'', Some ((sample 1 (seconds 1050) 300)\<lparr> HealthScore := 60 \<rparr>)),
        (''b'', Some ((sample 1 (seconds 1050) 90)\<lparr> HealthScore := 90 \<rparr>)),
        (''c'', Some ((sample 1 (seconds 1050) 120)\<lparr> HealthScore := 90 \<rparr>))],
     sa_evidence := [(''a'', clean_streak 1 1 (seconds 1050) 60), (''b'', clean_streak 1 1 (seconds 1050) 90),
       (''c'', clean_streak 1 1 (seconds 1050) 90)],
     sa_decision := \<lparr> action = Confirm, reason = ''first_confirmed_current_generation_candidate'',
       dfrom = [], dto = ''b'', dstate = GOOD, dmode = ModeVpnStart \<rparr>,
     sa_diagnosticHistory := first_cohort, sa_diagnosticGeneration := 1, sa_diagnosticSource := SourceFull,
     sa_latestHistory := first_cohort \<rparr>"

lemma started_run: "updateOutboundsInfo clock fresh_smart first_cohort ModeNone 0 = (True, started)"
  by code_simp

lemma fresh_reachable: "smart_reachable start_time [server ''a'', server ''b'', server ''c'']
    DomainStrategyAsIS 0 fresh_smart"
  unfolding fresh_smart_def by (rule init)

lemma started_reachable: "smart_reachable start_time [server ''a'', server ''b'', server ''c'']
    DomainStrategyAsIS 0 started"
  by (rule step [OF fresh_reachable], rule update) (rule started_run)

lemma started_active [simp]: "sa_active started = Some (server ''b'')" "Now started = ''b''"
  by (simp_all add: started_def Now_def server_def)

lemma fresh_active [simp]: "sa_active fresh_smart = None" "Now fresh_smart = []"
  by (simp_all add: fresh_smart_def NewSmartActive_def Now_def)

text \<open>After one failed probe of \<open>b\<close>.\<close>

definition warned :: smart_active where
  "warned = started\<lparr> sa_activeProbe := (probe_evidence_for ''b'')\<lparr> lastProbeAt := seconds 1070,
       hardFailureStreak := 1 \<rparr>,
     sa_decision := keep_decision ''active_probe_waiting_failure_confirmation'' ''b'' [] BAD ModeActiveProbe,
     sa_diagnosticHistory :=
       [(''a'', Some ((sample 1 (seconds 1050) 300)\<lparr> HealthScore := 60 \<rparr>)),
        (''b'', Some ((failure 1 (seconds 1070)))),
        (''c'', Some ((sample 1 (seconds 1050) 120)\<lparr> HealthScore := 90 \<rparr>))],
     sa_diagnosticSource := SourceActiveProbe \<rparr>"

lemma warned_run: "UpdateActiveProbe (seconds 1070) started ''b'' (Some (failure 0 (seconds 1070))) first_cohort
    = (no_update\<lparr> retry := True \<rparr>, warned)"
  by code_simp

lemma warned_reachable: "smart_reachable start_time [server ''a'', server ''b'', server ''c'']
    DomainStrategyAsIS 0 warned"
  by (rule step [OF started_reachable], rule probe) (rule warned_run)

lemma warned_active [simp]: "sa_active warned = Some (server ''b'')" "Now warned = ''b''"
  by (simp_all add: warned_def Now_def server_def)

end
