(* ===== verification/Smart_Progress.thy ===== *)
theory Smart_Progress
  imports Smart_Invariant
begin

text \<open>
  What an update learns about generations, and the facts behind the liveness properties: a
  complete generation is recognised, and a pool with an eligible member yields a candidate.
\<close>

section \<open>Generations\<close>

lemma fold_newest_settled:
  assumes "\<forall>out \<in> set outs. \<exists>h. pget history (Tag out) = Some h \<and> CheckGeneration h = g \<and> fresh_entry s h"
    and "outs \<noteq> []" "g \<noteq> 0" "newest \<le> g"
  shows "fold (\<lambda>out newest. case pget history (Tag out) of
             None \<Rightarrow> newest
           | Some h \<Rightarrow> if CheckGeneration h = 0 \<or> \<not> fresh_entry s h then newest
                       else if CheckGeneration h > newest then CheckGeneration h else newest) outs newest = g"
  using assms
proof (induction outs arbitrary: newest)
  case Nil
  then show ?case by simp
next
  case (Cons out outs)
  then obtain h where h: "pget history (Tag out) = Some h" "CheckGeneration h = g" "fresh_entry s h"
    by auto
  show ?case
  proof (cases "outs = []")
    case True
    then show ?thesis
      using h Cons.prems(3,4) by simp
  next
    case False
    have "(if g > newest then g else newest) = g"
      using Cons.prems(4) by auto
    then show ?thesis
      using Cons.IH [of g] Cons.prems False h by auto
  qed
qed

lemma settled_currentGeneration:
  assumes "generationSettled s history g"
  shows "currentGeneration s history = g" "generationCoversAll s history g"
proof -
  have e: "g \<noteq> 0" "sa_outbounds s \<noteq> []"
    "\<forall>out \<in> set (sa_outbounds s). \<exists>h. pget history (Tag out) = Some h \<and> CheckGeneration h = g \<and> fresh_entry s h"
    using assms by (auto simp: generationSettled_iff settled_entry_def)
  show "currentGeneration s history = g"
    unfolding currentGeneration_def using fold_newest_settled [OF e(3) e(2) e(1), of 0] by simp
  show "generationCoversAll s history g"
    using e by (auto simp: generationCoversAll_def list_all_iff)
qed

lemma settled_bootstrap: "generationSettled s history g \<Longrightarrow> bootstrapGenerationSettled s history g"
  by (auto simp: generationSettled_def bootstrapGenerationSettled_def list_all_iff split: option.splits if_splits)

lemma bootstrapGenerationSettled_cong:
  assumes "sa_outbounds s' = sa_outbounds s" "sa_startedAt s' = sa_startedAt s"
  shows "bootstrapGenerationSettled s' h g = bootstrapGenerationSettled s h g"
proof -
  have "fresh_entry s' = fresh_entry s"
    by (simp add: fresh_entry_def fun_eq_iff assms)
  then show ?thesis
    by (simp add: bootstrapGenerationSettled_def assms cong: option.case_cong)
qed

lemma rememberFullGeneration_selection [simp]:
  "sa_selectionGeneration (snd (rememberFullGeneration now s h g)) = sa_selectionGeneration s"
  by (auto simp: rememberFullGeneration_def split: option.splits)

lemma remember_settled_selection:
  "sa_selectionGeneration (snd (remember_settled now s h)) = sa_selectionGeneration (advance_selection s h)"
  by (simp add: remember_settled_def Let_def)

lemma updateEvidence_fields [simp]:
  "sa_selectionGeneration (updateEvidence now s h) = sa_selectionGeneration s"
  "sa_lastFullGeneration (updateEvidence now s h) = sa_lastFullGeneration s"
  "sa_lastFullHistory (updateEvidence now s h) = sa_lastFullHistory s"
  "sa_bootstrap (updateEvidence now s h) = sa_bootstrap s"
  "sa_active (updateEvidence now s h) = sa_active s"
  "sa_outbounds (updateEvidence now s h) = sa_outbounds s"
  using idle_updateEvidence [of s now h] by (simp_all add: idle_def kept_def)

lemma reconcile_fields [simp]:
  "sa_selectionGeneration (reconcileActiveProbeAdvantage now s h g) = sa_selectionGeneration s"
  "sa_lastFullGeneration (reconcileActiveProbeAdvantage now s h g) = sa_lastFullGeneration s"
  "sa_lastFullHistory (reconcileActiveProbeAdvantage now s h g) = sa_lastFullHistory s"
  using idle_reconcile [of s now h g] by (simp_all add: idle_def kept_def)

lemma diagnostics_fields [simp]:
  "sa_selectionGeneration (rememberDecisionDiagnostics s h g src) = sa_selectionGeneration s"
  "sa_lastFullGeneration (rememberDecisionDiagnostics s h g src) = sa_lastFullGeneration s"
  "sa_lastFullHistory (rememberDecisionDiagnostics s h g src) = sa_lastFullHistory s"
  by (simp_all add: rememberDecisionDiagnostics_def)

lemma learn_history_selection:
  "sa_selectionGeneration (snd (learn_history now s history)) = sa_selectionGeneration (advance_selection s history)"
proof -
  obtain full s1 where r: "remember_settled now s history = (full, s1)" by fastforce
  then have "sa_selectionGeneration s1 = sa_selectionGeneration (advance_selection s history)"
    using remember_settled_selection [of now s history] by simp
  then show ?thesis
    by (simp add: learn_history_def r Let_def)
qed

lemma advance_selection_settled:
  assumes "generationSettled s history g" "sa_selectionGeneration s \<le> g"
  shows "sa_selectionGeneration (advance_selection s history) = g"
  using settled_currentGeneration [OF assms(1)] assms(2)
  by (auto simp: advance_selection_def Let_def)

text \<open>An incomplete generation leaves the memory alone.\<close>

lemma learn_history_unsettled:
  assumes "\<not> generationSettled s history (sa_selectionGeneration (advance_selection s history))"
  shows "sa_lastFullGeneration (snd (learn_history now s history)) = sa_lastFullGeneration s"
    and "sa_lastFullHistory (snd (learn_history now s history)) = sa_lastFullHistory s"
proof -
  let ?s = "advance_selection s history"
  have "\<not> generationSettled ?s history (sa_selectionGeneration ?s)"
    using assms generationSettled_cong [of ?s s] learns_advance_selection [of s history]
    by (simp add: learns_def)
  then have r: "remember_settled now s history = (False, ?s)"
    by (simp add: remember_settled_def Let_def)
  show "sa_lastFullGeneration (snd (learn_history now s history)) = sa_lastFullGeneration s"
    "sa_lastFullHistory (snd (learn_history now s history)) = sa_lastFullHistory s"
    by (simp_all add: learn_history_def r Let_def) (simp_all add: advance_selection_def Let_def)
qed

section \<open>A pool with an eligible member yields a candidate\<close>

lemma bestBootstrapCandidate_exists:
  assumes "out \<in> set (sa_outbounds s)" "eligible now s (Tag out) (pget history (Tag out)) g"
  shows "\<exists>c. bestBootstrapCandidate now s history g = Some c"
proof -
  have "out \<in> set (progressive_eligible now s history g 0)"
    using assms by (simp add: progressive_eligible_def)
  then have "progressive_pool now s history g 0 \<noteq> []"
    by (auto simp: progressive_pool_def Let_def)
  then have "slice_stable (progressive_less now s history g) (progressive_pool now s history g 0) \<noteq> []"
    by simp
  then show ?thesis
    by (auto simp: bestBootstrapCandidate_def bestProgressiveBatchCandidate_def Let_def split: list.splits)
qed

lemma best_candidate_loop_exists:
  assumes "c \<in> set cs" "eligible now s (Tag c) (pget history (Tag c)) g"
    "\<not> too_old now (pget history (Tag c)) smartActiveCandidateMaxAge"
    "re \<longrightarrow> \<not> lacks_evidence (map_of (sa_evidence s) (Tag c)) (if em then 1 else 2)"
    "em \<or> \<not> avoided now avoid (Tag c)"
  shows "fst (best_candidate_loop now s history em re g cs fb avoid) \<noteq> None"
  using assms
proof (induction cs arbitrary: fb avoid)
  case Nil
  then show ?case by simp
next
  case (Cons x xs)
  have found: "fb' \<noteq> None \<Longrightarrow> fst (best_candidate_loop now s history em re g ys fb' av) \<noteq> None" for fb' av ys
    by (induction ys arbitrary: fb' av) (auto simp: Let_def split: prod.splits bool.splits)
  show ?case
  proof (cases "x = c")
    case True
    then show ?thesis
      using Cons.prems found
      by (auto simp: Let_def split: prod.splits bool.splits dest!: isAvoidedCandidate_spec)
  next
    case False
    then show ?thesis
      using Cons.prems Cons.IH
      by (auto simp: Let_def split: prod.splits bool.splits dest!: isAvoidedCandidate_spec)
  qed
qed

lemma bestCandidate_exists:
  assumes "c \<in> set (sa_outbounds s)" "eligible now s (Tag c) (pget history (Tag c)) g"
    "\<not> too_old now (pget history (Tag c)) smartActiveCandidateMaxAge"
    "re \<longrightarrow> \<not> lacks_evidence (map_of (sa_evidence s) (Tag c)) 1"
  shows "\<exists>b s'. bestCandidate now s history True re g = (Some b, s')"
proof -
  have "fst (best_candidate_loop now s history True re g
      (slice_stable (candidate_less now s history g) (sa_outbounds s)) None (sa_avoidUntil s)) \<noteq> None"
    by (rule best_candidate_loop_exists [of c]) (use assms in auto)
  then show ?thesis
    by (auto simp: bestCandidate_def Let_def split: prod.splits)
qed

lemma failover_loop_exists:
  assumes "c \<in> set cs" "Tag c \<noteq> current" "eligible now s (Tag c) (pget history (Tag c)) g"
    "\<not> too_old now (pget history (Tag c)) smartActiveCandidateMaxAge"
    "\<not> lacks_evidence (map_of (sa_evidence s) (Tag c)) 1"
  shows "fst (failover_loop now s current history g cs fb avoid) \<noteq> None"
  using assms
proof (induction cs arbitrary: fb avoid)
  case Nil
  then show ?case by simp
next
  case (Cons x xs)
  have found: "fb' \<noteq> None \<Longrightarrow> fst (failover_loop now s current history g ys fb' av) \<noteq> None" for fb' av ys
    by (induction ys arbitrary: fb' av) (auto simp: Let_def split: prod.splits bool.splits)
  show ?case
    using Cons found by (cases "x = c") (auto simp: Let_def split: prod.splits bool.splits)
qed

lemma bestActiveFailoverCandidate_exists:
  assumes "c \<in> set (sa_outbounds s)" "Tag c \<noteq> current" "eligible now s (Tag c) (pget history (Tag c)) g"
    "\<not> too_old now (pget history (Tag c)) smartActiveCandidateMaxAge"
    "\<not> lacks_evidence (map_of (sa_evidence s) (Tag c)) 1"
  shows "\<exists>b s'. bestActiveFailoverCandidate now s current history g = (Some b, s')"
proof -
  have "g \<noteq> 0"
    using assms(3) by (auto simp: eligible_iff)
  moreover have "fst (failover_loop now s current history g
      (slice_stable (score_delay_less now history tag_less) (sa_outbounds s)) None (sa_avoidUntil s)) \<noteq> None"
    by (rule failover_loop_exists [of c]) (use assms in auto)
  ultimately show ?thesis
    by (auto simp: bestActiveFailoverCandidate_def Let_def split: prod.splits)
qed

section \<open>What the bookkeeping of a probe keeps\<close>

lemma bestSignificantCandidate_probe:
  "bestSignificantCandidate now s current history g state k rg age = (r, s')
    \<Longrightarrow> sa_activeProbe s' = sa_activeProbe s \<and> sa_evidence s' = sa_evidence s"
  by (auto simp: bestSignificantCandidate_def Let_def split: prod.splits if_splits)

lemma bestActiveFailoverCandidate_probe:
  "bestActiveFailoverCandidate now s current history g = (r, s') \<Longrightarrow> sa_activeProbe s' = sa_activeProbe s"
  by (auto simp: bestActiveFailoverCandidate_def Let_def split: prod.splits if_splits)

definition same_streaks :: "smart_probe_evidence \<Rightarrow> smart_probe_evidence \<Rightarrow> bool" where
  "same_streaks p q \<longleftrightarrow> ptag q = ptag p \<and> lastProbeAt q = lastProbeAt p
     \<and> hardFailureStreak q = hardFailureStreak p \<and> poorQualityStreak q = poorQualityStreak p
     \<and> confirmedUnhealthy q = confirmedUnhealthy p"

lemma same_streaks_reset [simp]: "same_streaks (sa_activeProbe s) (sa_activeProbe (resetActiveProbeAdvantage s))"
  by (simp add: same_streaks_def resetActiveProbeAdvantage_def)

lemma same_streaks_reconcile: "same_streaks (sa_activeProbe s) (sa_activeProbe (reconcileActiveProbeAdvantage now s h g))"
  using same_streaks_reset
  by (auto simp: reconcileActiveProbeAdvantage_def same_streaks_def resetActiveProbeAdvantage_def
      split: option.splits prod.splits dest: bestSignificantCandidate_probe)

lemma rememberFullGeneration_probe [simp]:
  "sa_activeProbe (snd (rememberFullGeneration now s h g)) = sa_activeProbe s"
  by (auto simp: rememberFullGeneration_def split: option.splits)

lemma updateEvidence_probe [simp]: "sa_activeProbe (updateEvidence now s h) = sa_activeProbe s"
  by (simp add: updateEvidence_def split: prod.splits)

lemma same_streaks_recover: "same_streaks (sa_activeProbe s) (sa_activeProbe (recover_generation now s t h))"
proof -
  let ?g = "currentGeneration s h"
  let ?s = "s\<lparr> sa_selectionGeneration := max (sa_selectionGeneration s) ?g \<rparr>"
  obtain b s1 where r: "rememberFullGeneration now ?s h ?g = (b, s1)" by fastforce
  then have p: "sa_activeProbe s1 = sa_activeProbe s"
    using rememberFullGeneration_probe [of now ?s h ?g] by simp
  show ?thesis
    using same_streaks_reconcile [of "updateEvidence now s1 h"] p
    by (simp add: recover_generation_def Let_def r same_streaks_def split: bool.splits)
qed

text \<open>A probe that is newer than the last one is evaluated, on the basis \<open>probe_basis\<close>.\<close>

definition probed_evidence :: "smart_active \<Rightarrow> tag \<Rightarrow> url_test_history \<Rightarrow> smart_probe_evidence" where
  "probed_evidence s t p = (if ptag (sa_activeProbe s) \<noteq> t then probe_evidence_for t
     else sa_activeProbe s)\<lparr> lastProbeAt := Time p \<rparr>"

definition probed_state :: "instant \<Rightarrow> smart_active \<Rightarrow> tag \<Rightarrow> url_test_history \<Rightarrow> history_map
    \<Rightarrow> history_map \<times> u64 \<times> smart_active" where
  "probed_state now s t p history =
     (let s1 = s\<lparr> sa_activeProbe := probed_evidence s t p \<rparr>;
          (d, g) = probe_basis now s1 t p history
      in (d, g, rememberDecisionDiagnostics (recover_generation now s1 t history) d g SourceActiveProbe))"

lemma UpdateActiveProbe_fresh:
  assumes "sa_active s = Some current" "Tag current = t" "t \<noteq> []" "0 < Time p"
    and "ptag (sa_activeProbe s) = t \<longrightarrow> lastProbeAt (sa_activeProbe s) < Time p"
    and "probed_state now s t p history = (d, g, s1)"
  shows "UpdateActiveProbe now s t (Some p) history =
    (if \<not> activeProbeHardFailure (Some p) \<and> \<not> activeProbePoorQuality (Some p)
     then probe_healthy now s1 current d g (smartActiveState now (pget d t))
     else probe_unhealthy now s1 current (activeProbeHardFailure (Some p)) d g)"
proof -
  let ?s0 = "if ptag (sa_activeProbe s) \<noteq> t then s\<lparr> sa_activeProbe := probe_evidence_for t \<rparr> else s"
  let ?s1 = "s\<lparr> sa_activeProbe := probed_evidence s t p \<rparr>"
  have s1: "?s0\<lparr> sa_activeProbe := (sa_activeProbe ?s0)\<lparr> lastProbeAt := Time p \<rparr> \<rparr> = ?s1"
    by (simp add: probed_evidence_def)
  have new: "\<not> Time p \<le> lastProbeAt (sa_activeProbe ?s0)"
    using assms(4,5) by (auto simp: probe_evidence_for_def)
  obtain found fg s2 where a: "activeProbeDecisionHistory now ?s1 t (Some p) history = ((found, fg), s2)"
    by (metis surj_pair)
  have s2: "s2 = recover_generation now ?s1 t history"
    by (rule activeProbeDecisionHistory_state [OF a])
  show ?thesis
    using assms new
    by (cases found)
      (auto simp: UpdateActiveProbe_def probed_state_def probe_basis_def Let_def s1 [simplified Let_def] a s2)
qed

lemma probed_state_facts:
  assumes "probed_state now s t p history = (d, g, s1)"
  shows "learns s s1" "same_streaks (probed_evidence s t p) (sa_activeProbe s1)"
    "sa_diagnosticHistory s1 = d" "sa_diagnosticGeneration s1 = g"
proof -
  let ?s1 = "s\<lparr> sa_activeProbe := probed_evidence s t p \<rparr>"
  have s1: "s1 = rememberDecisionDiagnostics (recover_generation now ?s1 t history) d g SourceActiveProbe"
    using assms by (auto simp: probed_state_def Let_def split: prod.splits)
  show "learns s s1"
    unfolding s1 using learns_trans [OF idle_learns [OF idle_updates(4)]
        learns_trans [OF learns_recover_generation learns_diagnostics]] .
  show "same_streaks (probed_evidence s t p) (sa_activeProbe s1)"
    using same_streaks_recover [of ?s1 now t history] by (simp add: s1 rememberDecisionDiagnostics_def)
  show "sa_diagnosticHistory s1 = d" "sa_diagnosticGeneration s1 = g"
    by (simp_all add: s1 rememberDecisionDiagnostics_def)
qed

end
