(* ===== verification/Smart_Quarantine.thy ===== *)
theory Smart_Quarantine
  imports Smart_Progress
begin

text \<open>
  How long an outbound stays avoided. Every entry of \<open>avoidUntil\<close> that has not expired survives
  every operation, except the entry of the active outbound itself, which a switch renews.
\<close>

section \<open>One operation\<close>

definition keeps_avoided :: "instant \<Rightarrow> smart_active \<Rightarrow> smart_active \<Rightarrow> bool" where
  "keeps_avoided now s s' \<longleftrightarrow>
     (wf_map (sa_avoidUntil s) \<longrightarrow> wf_map (sa_avoidUntil s')
       \<and> (\<forall>t a. now \<le> t \<and> a \<noteq> Now s \<and> avoided t (sa_avoidUntil s) a \<longrightarrow> avoided t (sa_avoidUntil s') a))"

lemma keeps_avoided_same: "sa_avoidUntil s' = sa_avoidUntil s \<Longrightarrow> keeps_avoided now s s'"
  by (simp add: keeps_avoided_def)

lemma keeps_avoided_trans:
  "keeps_avoided now s s1 \<Longrightarrow> Now s1 = Now s \<Longrightarrow> keeps_avoided now s1 s2 \<Longrightarrow> keeps_avoided now s s2"
  by (simp add: keeps_avoided_def)

lemma keeps_avoided_then:
  "keeps_avoided now s s1 \<Longrightarrow> sa_avoidUntil s2 = sa_avoidUntil s1 \<Longrightarrow> keeps_avoided now s s2"
  by (simp add: keeps_avoided_def)

lemma keeps_avoided_ignore [simp]:
  "keeps_avoided now s (x\<lparr> sa_decision := d \<rparr>) = keeps_avoided now s x"
  "keeps_avoided now s (x\<lparr> sa_activeProbe := p \<rparr>) = keeps_avoided now s x"
  "keeps_avoided now s (x\<lparr> sa_bootstrap := b \<rparr>) = keeps_avoided now s x"
  "keeps_avoided now s (set_decision d x) = keeps_avoided now s x"
  "keeps_avoided now s (set_mode m x) = keeps_avoided now s x"
  "keeps_avoided now s (resetActiveProbeAdvantage x) = keeps_avoided now s x"
  "keeps_avoided now s (rememberDecisionDiagnostics x h g src) = keeps_avoided now s x"
  by (simp_all add: keeps_avoided_def set_decision_def set_mode_def resetActiveProbeAdvantage_def
      rememberDecisionDiagnostics_def)

lemma keeps_avoided_start [simp]:
  "keeps_avoided now (s\<lparr> sa_bootstrap := b \<rparr>) x = keeps_avoided now s x"
  "keeps_avoided now (s\<lparr> sa_activeProbe := p \<rparr>) x = keeps_avoided now s x"
  by (simp_all add: keeps_avoided_def Now_def)

lemma isAvoidedCandidate_later:
  assumes "isAvoidedCandidate now m x = (b, m')"
  shows "(wf_map m \<longrightarrow> wf_map m') \<and> (now \<le> t \<longrightarrow> avoided t m' a = avoided t m a)"
  using assms by (auto simp: isAvoidedCandidate_def avoided_def delete_conv split: option.splits if_splits)

lemma best_candidate_loop_later:
  "best_candidate_loop now s history em re g cs fb m = (r, m')
    \<Longrightarrow> (wf_map m \<longrightarrow> wf_map m') \<and> (now \<le> t \<longrightarrow> avoided t m' a = avoided t m a)"
proof (induction cs arbitrary: fb m)
  case Nil
  then show ?case by simp
next
  case (Cons x xs)
  obtain b m1 where i: "isAvoidedCandidate now m (Tag x) = (b, m1)" by fastforce
  show ?case
    using Cons.prems isAvoidedCandidate_later [OF i] Cons.IH i
    by (cases b) (auto simp: Let_def split: if_splits)
qed

lemma failover_loop_later:
  "failover_loop now s current history g cs fb m = (r, m')
    \<Longrightarrow> (wf_map m \<longrightarrow> wf_map m') \<and> (now \<le> t \<longrightarrow> avoided t m' a = avoided t m a)"
proof (induction cs arbitrary: fb m)
  case Nil
  then show ?case by simp
next
  case (Cons x xs)
  obtain b m1 where i: "isAvoidedCandidate now m (Tag x) = (b, m1)" by fastforce
  show ?case
    using Cons.prems isAvoidedCandidate_later [OF i] Cons.IH i
    by (cases b) (auto simp: Let_def split: if_splits)
qed

lemma significant_loop_later:
  "significant_loop now s current history g state k rg age cs ct r stale m = (res, m')
    \<Longrightarrow> (wf_map m \<longrightarrow> wf_map m') \<and> (now \<le> t \<longrightarrow> avoided t m' a = avoided t m a)"
proof (induction cs arbitrary: ct r stale m)
  case Nil
  then show ?case by simp
next
  case (Cons x xs)
  obtain b m1 where i: "isAvoidedCandidate now m (Tag x) = (b, m1)" by fastforce
  show ?case
    using Cons.prems isAvoidedCandidate_later [OF i] Cons.IH i
    by (cases b) (auto simp: Let_def split: if_splits prod.splits bool.splits)
qed

lemma keeps_avoided_bestCandidate:
  "bestCandidate now s history em re g = (c, s') \<Longrightarrow> keeps_avoided now s s'"
  by (auto simp: bestCandidate_def Let_def keeps_avoided_def split: prod.splits dest: best_candidate_loop_later)

lemma keeps_avoided_bestSignificantCandidate:
  "bestSignificantCandidate now s current history g st k rg age = (r, s') \<Longrightarrow> keeps_avoided now s s'"
  by (auto simp: bestSignificantCandidate_def Let_def keeps_avoided_def split: prod.splits if_splits
      dest: significant_loop_later)

lemma keeps_avoided_bestActiveFailoverCandidate:
  "bestActiveFailoverCandidate now s current history g = (c, s') \<Longrightarrow> keeps_avoided now s s'"
  by (auto simp: bestActiveFailoverCandidate_def Let_def keeps_avoided_def split: prod.splits if_splits
      dest: failover_loop_later)

lemma keeps_avoided_updateEvidence: "keeps_avoided now s (updateEvidence now s history)"
  by (auto simp: updateEvidence_def keeps_avoided_def avoided_def map_of_range_delete
      split: prod.splits option.splits)

lemma keeps_avoided_switchTo:
  assumes "sa_active s = Some current" "switchTo now s (Some current) to r st history g = (ch, s')"
  shows "keeps_avoided now s s'"
proof -
  have "Now s = Tag current"
    using assms(1) by (simp add: Now_def)
  then show ?thesis
    using assms(2)
    by (auto simp: switchTo_def Let_def keeps_avoided_def avoided_def candidateTag_def update_conv
        split: if_splits)
qed

lemma keeps_avoided_switch_with:
  assumes "sa_active s = Some current"
  shows "keeps_avoided now s (snd (switch_with now s current c r st history g m))"
  using keeps_avoided_switchTo [OF assms]
  by (simp add: switch_with_def split: prod.splits)

lemma keeps_avoided_probe_switch:
  assumes "sa_active s = Some current"
  shows "keeps_avoided now s (snd (probe_switch now s current c r st history g))"
  using keeps_avoided_switchTo [OF assms]
  by (simp add: probe_switch_def Let_def split: prod.splits)

text \<open>A search that is idle, followed by a switch or a decision.\<close>

lemma search_then:
  assumes "idle s s1" "keeps_avoided now s s1"
    and "keeps_avoided now s1 s2"
  shows "keeps_avoided now s s2"
  using keeps_avoided_trans [OF assms(2) Now_cong assms(3)] idle_same [OF assms(1)] by simp

lemma keeps_avoided_decide: "keeps_avoided now s (snd (decide a r f t st m s))"
  by (rule keeps_avoided_same) (simp add: decide_def)

lemma keeps_avoided_confirmActive: "keeps_avoided now s (snd (confirmActive s f t r m))"
  by (rule keeps_avoided_same) (auto simp: confirmActive_def Let_def split: option.splits)

lemma keeps_avoided_if:
  "keeps_avoided now s (snd x) \<Longrightarrow> keeps_avoided now s (snd y) \<Longrightarrow> keeps_avoided now s (snd (if b then x else y))"
  by simp

section \<open>The phases\<close>

lemma keeps_avoided_search_switch:
  assumes "idle s s1" "keeps_avoided now s s1" "sa_active s = Some current"
  shows "keeps_avoided now s (snd (switch_with now s1 current c r st history g m))"
    and "keeps_avoided now s (snd (probe_switch now s1 current c r st history g))"
    and "keeps_avoided now s (snd (decide act r f t st m s1))"
  using search_then [OF assms(1,2)] keeps_avoided_switch_with keeps_avoided_probe_switch
    keeps_avoided_decide idle_same [OF assms(1)] assms(3) by simp_all

lemma keeps_avoided_applyUserRefreshDecision:
  assumes "sa_active s = Some current"
  shows "keeps_avoided now s (snd (applyUserRefreshDecision now s current c history g))"
proof -
  let ?s = "s\<lparr> sa_bootstrap := False \<rparr>"
  have "keeps_avoided now s (snd (case switchTo now ?s (Some current) (Some c) r st history g of
      (ch, s') \<Rightarrow> (ch, set_mode m s')))" for r st m
  proof -
    obtain ch s' where sw: "switchTo now ?s (Some current) (Some c) r st history g = (ch, s')" by fastforce
    have "keeps_avoided now ?s s'"
      using keeps_avoided_switchTo [OF _ sw] assms by simp
    then show ?thesis
      by (simp add: sw)
  qed
  moreover have "keeps_avoided now s (snd (False, ?s\<lparr> sa_decision := d \<rparr>))" for d
    by (simp add: keeps_avoided_same)
  ultimately show ?thesis
    unfolding applyUserRefreshDecision_def Let_def by (intro keeps_avoided_if) blast+
qed

lemma keeps_avoided_update_ineligible:
  assumes "sa_active s = Some current"
  shows "keeps_avoided now s (snd (update_ineligible now s current history mode g))"
proof (cases "bestCandidate now s history True True g")
  case (Pair best s1)
  note sw = keeps_avoided_search_switch [OF idle_bestCandidate [OF Pair] keeps_avoided_bestCandidate [OF Pair] assms]
  show ?thesis
    by (cases best) (simp_all add: update_ineligible_def Pair Let_def sw)
qed

lemma keeps_avoided_update_refresh:
  assumes "sa_active s = Some current"
  shows "keeps_avoided now s (snd (update_refresh now s current history st g))"
proof (cases "bestCandidate now s history True False g")
  case (Pair best s1)
  note i = idle_bestCandidate [OF Pair] and k = keeps_avoided_bestCandidate [OF Pair]
  show ?thesis
  proof (cases best)
    case None
    then show ?thesis
      using keeps_avoided_search_switch(3) [OF i k assms]
      by (simp add: update_refresh_def Pair split: prod.splits)
  next
    case (Some c)
    have "keeps_avoided now s1 (snd (applyUserRefreshDecision now s1 current c history g))"
      by (rule keeps_avoided_applyUserRefreshDecision) (use assms idle_same [OF i] in simp)
    then show ?thesis
      using search_then [OF i k] by (simp add: update_refresh_def Pair Some)
  qed
qed

lemma keeps_avoided_update_batch:
  assumes "sa_active s = Some current"
  shows "keeps_avoided now s (snd (update_batch now s current history st g))"
proof (cases "st = BAD \<or> st = CRITICAL")
  case True
  obtain best s1 where b: "bestCandidate now s history True True g = (best, s1)" by fastforce
  note sw = keeps_avoided_search_switch [OF idle_bestCandidate [OF b] keeps_avoided_bestCandidate [OF b] assms]
  show ?thesis
    using True sw by (cases best) (simp_all add: update_batch_def b)
next
  case False
  obtain best ct r stale s1 where b: "bestSignificantCandidate now s (Tag current) history g st
      smartActiveCleanEvidenceRequired (st \<noteq> GOOD) smartActiveCandidateMaxAge = ((best, ct, r, stale), s1)"
    by (metis prod_cases4 surj_pair)
  note sw = keeps_avoided_search_switch [OF idle_bestSignificantCandidate [OF b]
      keeps_avoided_bestSignificantCandidate [OF b] assms]
  show ?thesis
    unfolding update_batch_def b using False sw by (cases best) simp_all
qed

lemma keeps_avoided_update_quality:
  assumes "sa_active s = Some current"
  shows "keeps_avoided now s (snd (update_quality now s current history st g m))"
proof -
  obtain best ct r stale s1 where b: "bestSignificantCandidate now s (Tag current) history g st
      smartActiveCleanEvidenceRequired (st \<noteq> GOOD) smartActiveCandidateMaxAge = ((best, ct, r, stale), s1)"
    by (metis prod_cases4 surj_pair)
  note sw = keeps_avoided_search_switch [OF idle_bestSignificantCandidate [OF b]
      keeps_avoided_bestSignificantCandidate [OF b] assms]
  show ?thesis
    unfolding update_quality_def b using sw by (cases best) (simp_all add: Let_def)
qed

lemma keeps_avoided_update_background:
  assumes "sa_active s = Some current"
  shows "keeps_avoided now s (snd (update_background now s current history st g m))"
proof -
  obtain best s1 where b: "bestCandidate now s history (st = BAD \<or> st = CRITICAL) True g = (best, s1)"
    by fastforce
  note i = idle_bestCandidate [OF b] and k = keeps_avoided_bestCandidate [OF b]
  note sw = keeps_avoided_search_switch [OF i k assms]
  have "keeps_avoided now s (snd (update_emergency now s1 current best history st g m))"
    by (cases best) (simp_all add: update_emergency_def Let_def sw)
  moreover have "keeps_avoided now s (snd (update_quality now s1 current history st g m))"
    by (rule search_then [OF i k], rule keeps_avoided_update_quality) (use assms idle_same [OF i] in simp)
  ultimately show ?thesis
    using sw(3) by (simp add: update_background_def b Let_def)
qed

lemma keeps_avoided_handleConfirmedActiveProbe:
  assumes "sa_active s = Some current"
  shows "keeps_avoided now s (snd (handleConfirmedActiveProbe now s (Some current) history g))"
proof -
  obtain best s1 where b: "bestActiveFailoverCandidate now s (Tag current) history g = (best, s1)"
    by fastforce
  note i = idle_bestActiveFailoverCandidate [OF b] and k = keeps_avoided_bestActiveFailoverCandidate [OF b]
  note sw = keeps_avoided_search_switch(2) [OF i k assms]
  have "keeps_avoided now s (snd (case probe_switch now s1 current c r st history g of (ch, s) \<Rightarrow> ((ch, True), s)))"
    for c r st
    using sw [where c = c and r = r and st = st and history = history and g = g] by (cases "probe_switch now s1 current c r st history g") simp
  then show ?thesis
    using k keeps_avoided_same [of s s now]
    by (simp add: handleConfirmedActiveProbe_def b Let_def split: option.splits)
qed

lemma keeps_avoided_update_confirmed:
  assumes "sa_active s = Some current"
  shows "keeps_avoided now s (snd (update_confirmed now s current raw d mode bg))"
proof -
  obtain ch handled s1 where h: "handleConfirmedActiveProbe now s (Some current) d (sa_selectionGeneration s)
      = ((ch, handled), s1)"
    by (metis surj_pair)
  have k: "keeps_avoided now s s1"
    using keeps_avoided_handleConfirmedActiveProbe [OF assms, of now d "sa_selectionGeneration s"] by (simp add: h)
  have same: "\<not> handled \<Longrightarrow> s1 = s"
    by (rule moves_handleConfirmedActiveProbe(2) [OF assms h])
  show ?thesis
  proof (cases handled)
    case True
    then show ?thesis
      using k by (simp add: update_confirmed_def Let_def h keeps_avoided_decide)
  next
    case False
    then show ?thesis
      using same assms
      by (simp add: update_confirmed_def Let_def h keeps_avoided_decide keeps_avoided_update_ineligible
          keeps_avoided_update_refresh keeps_avoided_update_batch keeps_avoided_update_background)
  qed
qed

lemma keeps_avoided_update_bootstrap:
  "keeps_avoided now s (snd (update_bootstrap now s history mode bg observed))"
proof (cases "bestBootstrapCandidate now s history (sa_selectionGeneration s)")
  case None
  then show ?thesis
    by (simp add: update_bootstrap_def Let_def keeps_avoided_decide split: prod.splits)
next
  case (Some c)
  have fin: "keeps_avoided now s (snd (case r of (ch, s1) \<Rightarrow> (ch, if b s1 then s1\<lparr> sa_bootstrap := False \<rparr> else s1)))"
    if "keeps_avoided now s (snd r)" for r :: "bool \<times> smart_active" and b
    using that by (cases r) simp
  show ?thesis
    unfolding update_bootstrap_def Let_def Some option.case
    by (intro keeps_avoided_if keeps_avoided_decide fin keeps_avoided_confirmActive)
qed

lemma keeps_avoided_update_unconfirmed:
  "keeps_avoided now s (snd (update_unconfirmed now s current history mode g))"
proof (cases "bestCandidate now s history True False g")
  case (Pair best s1)
  note i = idle_bestCandidate [OF Pair] and k = keeps_avoided_bestCandidate [OF Pair]
  show ?thesis
    using search_then [OF i k keeps_avoided_decide] search_then [OF i k keeps_avoided_confirmActive]
    by (simp add: update_unconfirmed_def Pair split: option.splits)
qed

section \<open>The entry points\<close>

lemma rememberFullGeneration_avoid [simp]:
  "sa_avoidUntil (snd (rememberFullGeneration now s h g)) = sa_avoidUntil s"
  by (auto simp: rememberFullGeneration_def split: option.splits)

lemma remember_settled_avoid: "sa_avoidUntil (snd (remember_settled now s h)) = sa_avoidUntil s"
  by (simp add: remember_settled_def advance_selection_def Let_def)

lemma keeps_avoided_reconcile: "keeps_avoided now s (reconcileActiveProbeAdvantage now s h g)"
  using keeps_avoided_same [of s s now]
  by (auto simp: reconcileActiveProbeAdvantage_def split: option.splits prod.splits
      dest: keeps_avoided_bestSignificantCandidate)

lemma keeps_avoided_learn_history: "keeps_avoided now s (snd (learn_history now s history))"
proof -
  obtain full s1 where r: "remember_settled now s history = (full, s1)" by fastforce
  have 1: "keeps_avoided now s s1"
    using remember_settled_avoid [of now s history] by (simp add: r keeps_avoided_same)
  have "learns s s1"
    using learns_remember_settled [of s now history] by (simp add: r)
  then have n1: "Now s1 = Now s"
    by (simp add: learns_def Now_def)
  define s2 where "s2 = (updateEvidence now s1 history)\<lparr> sa_latestHistory := history \<rparr>"
  have 2: "keeps_avoided now s s2"
    using keeps_avoided_then [OF keeps_avoided_trans [OF 1 n1 keeps_avoided_updateEvidence]]
    by (simp add: s2_def)
  have n2: "Now (rememberDecisionDiagnostics s2 h g src) = Now s" for h g src
    using n1 by (simp add: s2_def Now_def rememberDecisionDiagnostics_def)
  have "keeps_avoided now s (reconcileActiveProbeAdvantage now (rememberDecisionDiagnostics s2 h' g' src) h g)"
    for h' g' src h g
    by (rule keeps_avoided_trans [OF _ n2 keeps_avoided_reconcile]) (simp add: 2)
  then show ?thesis
    by (simp add: learn_history_def r Let_def s2_def [symmetric] 2)
qed

lemma keeps_avoided_updateOutboundsInfo: "keeps_avoided now s (snd (updateOutboundsInfo now s history mode bg))"
proof -
  obtain d s1 where l: "learn_history now s history = (d, s1)" by fastforce
  have k: "keeps_avoided now s s1"
    using keeps_avoided_learn_history [of now s history] by (simp add: l)
  have n: "Now s1 = Now s"
    using learns_learn_history [of s now history] by (simp add: l learns_def Now_def)
  note trans = keeps_avoided_trans [OF k n]
  show ?thesis
    using trans [OF keeps_avoided_update_bootstrap] trans [OF keeps_avoided_decide]
      trans [OF keeps_avoided_update_confirmed] trans [OF keeps_avoided_update_unconfirmed]
    by (simp add: updateOutboundsInfo_def l Let_def split: option.splits)
qed

lemma keeps_avoided_recover: "keeps_avoided now s (recover_generation now s t h)"
proof -
  let ?g = "currentGeneration s h"
  let ?s = "s\<lparr> sa_selectionGeneration := max (sa_selectionGeneration s) ?g \<rparr>"
  obtain b s1 where r: "rememberFullGeneration now ?s h ?g = (b, s1)" by fastforce
  have 1: "keeps_avoided now s s1"
    using rememberFullGeneration_avoid [of now ?s h ?g] by (simp add: r keeps_avoided_same)
  have n: "Now s1 = Now s"
    using learns_rememberFullGeneration [of ?s now h ?g] by (simp add: r learns_def Now_def)
  have 2: "keeps_avoided now s (updateEvidence now s1 h)"
    by (rule keeps_avoided_trans [OF 1 n keeps_avoided_updateEvidence])
  have 3: "keeps_avoided now s (reconcileActiveProbeAdvantage now (updateEvidence now s1 h) d g)" for d g
    by (rule keeps_avoided_trans [OF 2 _ keeps_avoided_reconcile]) (simp add: Now_def n [unfolded Now_def])
  show ?thesis
    using 1 3 keeps_avoided_same [of s s now]
    by (simp add: recover_generation_def Let_def r split: bool.splits)
qed

lemma keeps_avoided_probe_healthy:
  assumes "sa_active s = Some current"
  shows "keeps_avoided now s (snd (probe_healthy now s current d g st))"
proof -
  define s1 where "s1 = s\<lparr> sa_activeProbe := (sa_activeProbe s)\<lparr> hardFailureStreak := 0,
      poorQualityStreak := 0, confirmedUnhealthy := False \<rparr> \<rparr>"
  obtain best ct r stale s2 where b: "bestSignificantCandidate now s1 (Tag current) d g st 1 True
      smartActiveCandidateMaxAge = ((best, ct, r, stale), s2)"
    by (metis prod_cases4 surj_pair)
  have i: "idle s s2"
    using idle_trans [OF idle_updates(4) idle_bestSignificantCandidate [OF b [unfolded s1_def]]] .
  have k: "keeps_avoided now s s2"
    using keeps_avoided_bestSignificantCandidate [OF b] by (simp add: s1_def keeps_avoided_def Now_def)
  have sw: "keeps_avoided now s x"
    if "probe_switch now (s2\<lparr> sa_activeProbe := p \<rparr>) current c why st' d g = (ch, x)" for p c why st' ch x
    using keeps_avoided_search_switch(2) [OF idle_trans [OF i idle_updates(4) [of s2 p]] _ assms,
        where c = c and r = why and st = st' and history = d and g = g and now = now] k that by simp
  show ?thesis
    unfolding probe_healthy_def bestActiveProbeUpgradeCandidate_def s1_def [symmetric] b Let_def prod.case
    using k sw by (cases best) (auto split: prod.splits)
qed

lemma keeps_avoided_probe_unhealthy:
  assumes "sa_active s = Some current"
  shows "keeps_avoided now s (snd (probe_unhealthy now s current hard d g))"
proof -
  define r where "r = (resetActiveProbeAdvantage s)\<lparr> sa_activeProbe :=
      count_bad_sample hard (sa_activeProbe (resetActiveProbeAdvantage s)) \<rparr>"
  define s1 where "s1 = markActiveProbeUnhealthy
    (r\<lparr> sa_activeProbe := (sa_activeProbe r)\<lparr> confirmedUnhealthy := True \<rparr> \<rparr>) (Tag current)"
  obtain best s2 where b: "bestActiveFailoverCandidate now s1 (Tag current) d g = (best, s2)"
    by fastforce
  have i: "idle s s2"
    by (rule idle_trans [OF _ idle_bestActiveFailoverCandidate [OF b]])
      (simp add: s1_def r_def idle_def kept_def markActiveProbeUnhealthy_def resetActiveProbeAdvantage_def Let_def)
  have r: "keeps_avoided now s r"
    by (rule keeps_avoided_same) (simp add: r_def resetActiveProbeAdvantage_def)
  have 1: "keeps_avoided now s s1" "Now s1 = Now s"
    by (simp_all add: keeps_avoided_same s1_def r_def resetActiveProbeAdvantage_def
        markActiveProbeUnhealthy_def Let_def Now_def)
  have k: "keeps_avoided now s s2"
    by (rule keeps_avoided_trans [OF 1 keeps_avoided_bestActiveFailoverCandidate [OF b]])
  have sw: "keeps_avoided now s x" if "probe_switch now s2 current c why st' d g = (ch, x)" for c why st' ch x
    using keeps_avoided_search_switch(2) [OF i k assms,
        where c = c and r = why and st = st' and history = d and g = g] that by simp
  show ?thesis
    unfolding probe_unhealthy_def probe_failover_def Let_def r_def [symmetric] s1_def [symmetric] b prod.case
    using r k sw by (cases best) (auto split: prod.splits)
qed

lemma keeps_avoided_UpdateActiveProbe: "keeps_avoided now s (snd (UpdateActiveProbe now s t p history))"
proof -
  obtain u s' where u: "UpdateActiveProbe now s t p history = (u, s')" by fastforce
  from u have "keeps_avoided now s s'"
  proof (cases rule: UpdateActiveProbe_cases)
    case ignored
    then show ?thesis
      by (auto intro: keeps_avoided_same)
  next
    case (sampled c q s1 s2)
    obtain d g where b: "probe_basis now s1 t q history = (d, g)" by fastforce
    let ?s3 = "rememberDecisionDiagnostics s2 d g SourceActiveProbe"
    have "keeps_avoided now s1 s2"
      unfolding sampled(6) by (rule keeps_avoided_recover)
    then have 3: "keeps_avoided now s ?s3"
      by (simp add: sampled(5))
    have a3: "sa_active ?s3 = Some c"
      using learns_recover_generation [of s1 now t history] sampled(1,5,6)
      by (simp add: learns_def rememberDecisionDiagnostics_def)
    then have n3: "Now ?s3 = Now s"
      using sampled(1) by (simp add: Now_def)
    show ?thesis
      using sampled(7) keeps_avoided_trans [OF 3 n3 keeps_avoided_probe_healthy [OF a3]]
        keeps_avoided_trans [OF 3 n3 keeps_avoided_probe_unhealthy [OF a3]]
      by (simp add: b Let_def split: if_splits) (metis snd_conv)+
  qed
  then show ?thesis by (simp add: u)
qed

end
