(* ===== verification/Smart_Departure.thy ===== *)
theory Smart_Departure
  imports Smart_Quarantine
begin

text \<open>
  How Smart Active leaves its active outbound: which updates may decide at all, what a switch away from a
  working active needs, and that every switch after start-up enters the outbound it leaves into
  \<open>avoidUntil\<close>.
\<close>

section \<open>Updates that may decide\<close>

text \<open>
  A refresh by the user always may, a completed batch when it is of the selected generation \<open>g\<close>. Any other
  update needs a terminal result of every outbound in \<open>g\<close>; after start-up the snapshot of \<open>g\<close> will do.
\<close>

definition may_decide :: "smart_active \<Rightarrow> history_map \<Rightarrow> update_mode \<Rightarrow> u64 \<Rightarrow> u64 \<Rightarrow> bool" where
  "may_decide s history mode batchGeneration g \<longleftrightarrow>
     (if mode = ModeUserRefresh then True
      else if mode = ModeCompletedBatch then batchGeneration = g
      else if sa_bootstrap s then bootstrapGenerationSettled s history g
      else generationSettled s history g \<or> g = sa_lastFullGeneration s \<and> sa_lastFullHistory s \<noteq> [])"

lemma learn_history_memory:
  assumes "learn_history now s history = (d, s1)" "\<not> generationSettled s history (sa_selectionGeneration s1)"
  shows "sa_lastFullGeneration s1 = sa_lastFullGeneration s" "sa_lastFullHistory s1 = sa_lastFullHistory s"
  using learn_history_unsettled [of s history now] learn_history_selection [of now s history] assms by simp_all

text \<open>An update that may not decide keeps everything but what it has learnt.\<close>

lemma forbidden_keeps:
  assumes "wf_smart s" "learn_history now s history = (d, s1)"
    and "\<not> may_decide s history mode bg (sa_selectionGeneration s1)"
  shows "\<not> fst (updateOutboundsInfo now s history mode bg)"
proof -
  let ?g = "sa_selectionGeneration s1"
  have learned: "learns s s1"
    using learns_learn_history [of s now history] assms(2) by simp
  then have same: "sa_bootstrap s1 = sa_bootstrap s" "sa_active s1 = sa_active s"
    "sa_confirmed s1 = sa_confirmed s" "sa_outbounds s1 = sa_outbounds s" "sa_startedAt s1 = sa_startedAt s"
    by (simp_all add: learns_def)
  have settled: "bootstrapGenerationSettled s1 history ?g = bootstrapGenerationSettled s history ?g"
    "generationSettled s1 history ?g = generationSettled s history ?g"
    using bootstrapGenerationSettled_cong [of s1 s] generationSettled_cong [of s1 s] same by simp_all
  show ?thesis
  proof (cases "sa_bootstrap s")
    case True
    then have "mode = ModeCompletedBatch \<and> bg \<noteq> ?g
      \<or> mode \<noteq> ModeCompletedBatch \<and> mode \<noteq> ModeUserRefresh \<and> \<not> bootstrapGenerationSettled s1 history ?g"
      using assms(3) settled by (simp add: may_decide_def split: if_splits)
    then show ?thesis
      using True by (auto simp: updateOutboundsInfo_def assms(2) Let_def same update_bootstrap_def decide_def)
  next
    case False
    then obtain current where c: "sa_active s = Some current" "sa_confirmed s"
      using assms(1) by (auto simp: wf_smart_def)
    have "updateOutboundsInfo now s history mode bg = update_confirmed now s1 current history d mode bg"
      using False c by (simp add: updateOutboundsInfo_def assms(2) Let_def same)
    moreover have "mode = ModeCompletedBatch \<and> bg \<noteq> ?g
      \<or> mode \<noteq> ModeCompletedBatch \<and> mode \<noteq> ModeUserRefresh \<and> \<not> generationSettled s1 history ?g
        \<and> (?g \<noteq> sa_lastFullGeneration s1 \<or> sa_lastFullHistory s1 = [])"
      using assms(3) settled False learn_history_memory [OF assms(2)]
      by (auto simp: may_decide_def split: if_splits)
    ultimately show ?thesis
      by (auto simp: update_confirmed_def Let_def decide_def)
  qed
qed

text \<open>After start-up one that may decide comes to the probe and the branches of its mode.\<close>

lemma updateOutboundsInfo_decides:
  assumes "\<not> sa_bootstrap s" "sa_active s = Some current" "sa_confirmed s"
    and "learn_history now s history = (d, s1)" "g = sa_selectionGeneration s1"
    and "may_decide s history mode bg g"
    and "handleConfirmedActiveProbe now s1 (Some current) d g = ((ch, handled), s2)"
  shows "updateOutboundsInfo now s history mode bg =
    (if handled then (ch, s2)
     else let st = smartActiveState now (pget d (Tag current))
          in if \<not> eligible now s1 (Tag current) (pget d (Tag current)) g
                \<and> \<not> currentCheckInProgress (pget d (Tag current)) \<and> st \<noteq> BAD \<and> st \<noteq> CRITICAL
             then update_ineligible now s1 current d mode g
             else if mode = ModeUserRefresh then update_refresh now s1 current d st g
             else if mode = ModeCompletedBatch then update_batch now s1 current d st g
             else update_background now s1 current d st g mode)"
    and "sa_active s1 = Some current" "\<not> sa_bootstrap s1" "candidateStatus now s1 = candidateStatus now s"
      "sa_outbounds s1 = sa_outbounds s"
proof -
  have learned: "learns s s1"
    using learns_learn_history [of s now history] assms(4) by simp
  then have same: "sa_bootstrap s1 = sa_bootstrap s" "sa_active s1 = sa_active s"
    "sa_confirmed s1 = sa_confirmed s" "sa_outbounds s1 = sa_outbounds s" "sa_startedAt s1 = sa_startedAt s"
    by (simp_all add: learns_def)
  then show "sa_active s1 = Some current" "\<not> sa_bootstrap s1" "sa_outbounds s1 = sa_outbounds s"
    using assms(1,2) by simp_all
  show "candidateStatus now s1 = candidateStatus now s"
    by (rule learns_status [OF learned])
  have settled: "generationSettled s1 history g = generationSettled s history g"
    using generationSettled_cong [of s1 s] same by simp
  have u: "updateOutboundsInfo now s history mode bg = update_confirmed now s1 current history d mode bg"
    using assms(1-3) by (simp add: updateOutboundsInfo_def assms(4) Let_def same)
  have pass: "\<not> (mode = ModeCompletedBatch \<and> bg \<noteq> g)"
    "\<not> (mode \<noteq> ModeUserRefresh \<and> mode \<noteq> ModeCompletedBatch \<and> \<not> generationSettled s1 history g
        \<and> (g \<noteq> sa_lastFullGeneration s1 \<or> sa_lastFullHistory s1 = []))"
    using assms(1,6) settled learn_history_memory [OF assms(4)] assms(5)
    by (auto simp: may_decide_def split: if_splits)
  have same_state: "s2 = s1" if "\<not> handled"
    using moves_handleConfirmedActiveProbe(2) [OF _ assms(7)] that assms(2) same by simp
  show "updateOutboundsInfo now s history mode bg =
    (if handled then (ch, s2)
     else let st = smartActiveState now (pget d (Tag current))
          in if \<not> eligible now s1 (Tag current) (pget d (Tag current)) g
                \<and> \<not> currentCheckInProgress (pget d (Tag current)) \<and> st \<noteq> BAD \<and> st \<noteq> CRITICAL
             then update_ineligible now s1 current d mode g
             else if mode = ModeUserRefresh then update_refresh now s1 current d st g
             else if mode = ModeCompletedBatch then update_batch now s1 current d st g
             else update_background now s1 current d st g mode)"
    unfolding u update_confirmed_def Let_def assms(5) [symmetric] if_not_P [OF pass(1)] if_not_P [OF pass(2)]
      assms(7) prod.case
    using same_state by (cases handled) simp_all
qed

section \<open>A critical active\<close>

lemma critical_is_runtime_critical: "smartActiveState now h = CRITICAL \<Longrightarrow> runtimeCriticalActiveIssue h"
  by (auto simp: smartActiveState_def runtimeCriticalActiveIssue_def Let_def split: option.splits if_splits)

lemma switchTo_eligible:
  assumes "eligible now s (Tag c) (pget history (Tag c)) g"
  shows "fst (switch_with now s current c r st history g mode)"
    and "fst (probe_switch now s current c r st history g)"
  using assms by (simp_all add: switch_with_def probe_switch_def switchTo_def Let_def candidateTag_def split: prod.splits)

lemma candidate_eligible_after:
  assumes "bestCandidate now s history em re g = (Some c, s1)"
  shows "eligible now s1 (Tag c) (pget history (Tag c)) g"
  using bestCandidate_sound(2) [OF assms] idle_status [OF idle_bestCandidate [OF assms]] by simp

lemma background_leaves_critical:
  assumes "bestCandidate now s history True True g = (Some c, s1)" "Tag c \<noteq> Tag current"
    and "smartActiveState now (pget history (Tag current)) = CRITICAL"
  shows "fst (update_background now s current history CRITICAL g mode)"
  using critical_is_runtime_critical [OF assms(3)] switchTo_eligible [OF candidate_eligible_after [OF assms(1)]] assms(2)
  by (simp add: update_background_def assms(1) Let_def update_emergency_def)

lemma batch_leaves_critical:
  assumes "bestCandidate now s history True True g = (Some c, s1)"
  shows "fst (update_batch now s current history CRITICAL g)"
  using switchTo_eligible [OF candidate_eligible_after [OF assms]] by (simp add: update_batch_def assms)

lemma refresh_leaves_critical:
  assumes "bestCandidate now s history True False g = (Some c, s1)" "Tag c \<noteq> Tag current"
    and "smartActiveState now (pget history (Tag current)) = CRITICAL"
  shows "fst (update_refresh now s current history st g)"
  using candidate_eligible_after [OF assms(1)] assms(2,3)
  by (simp add: update_refresh_def assms(1) applyUserRefreshDecision_def Let_def switchTo_def candidateTag_def
      split: prod.splits)

lemma probe_leaves_critical:
  assumes "confirmedUnhealthy (sa_activeProbe s)" "ptag (sa_activeProbe s) = Tag current"
    and "smartActiveState now (pget history (Tag current)) = CRITICAL"
    and "bestActiveFailoverCandidate now s (Tag current) history g = (Some c, s1)"
  shows "fst (fst (handleConfirmedActiveProbe now s (Some current) history g))"
proof -
  have "eligible now s1 (Tag c) (pget history (Tag c)) g"
    using bestActiveFailoverCandidate_sound(4) [OF assms(4)]
      idle_status [OF idle_bestActiveFailoverCandidate [OF assms(4)]] by simp
  note sw = switchTo_eligible(2) [OF this, of current]
  show ?thesis
    using assms sw
    by (simp add: handleConfirmedActiveProbe_def Let_def split: option.splits prod.splits)
      (metis fst_conv)
qed

lemma critical_leaves:
  assumes "\<not> sa_bootstrap s" "sa_active s = Some current" "sa_confirmed s"
    and "learn_history now s history = (d, s1)" "g = sa_selectionGeneration s1"
    and "may_decide s history mode bg g"
    and "smartActiveState now (pget d (Tag current)) = CRITICAL"
    and "out \<in> set (sa_outbounds s)" "eligible now s (Tag out) (pget d (Tag out)) g"
      "\<not> too_old now (pget d (Tag out)) smartActiveCandidateMaxAge"
      "\<not> lacks_evidence (map_of (sa_evidence s1) (Tag out)) 1"
  shows "fst (updateOutboundsInfo now s history mode bg)"
proof -
  obtain ch handled s2 where h: "handleConfirmedActiveProbe now s1 (Some current) d g = ((ch, handled), s2)"
    by (metis surj_pair)
  note u = updateOutboundsInfo_decides [OF assms(1-6) h]
  have pool: "out \<in> set (sa_outbounds s1)" "eligible now s1 (Tag out) (pget d (Tag out)) g"
    using assms(8,9) u(4,5) by simp_all
  have other: "Tag out \<noteq> Tag current"
    using assms(7,9) by (auto simp: eligible_iff less_health_state_def)
  obtain c s3 where b: "bestCandidate now s1 d True True g = (Some c, s3)"
    using bestCandidate_exists [OF pool assms(10)] assms(11) by blast
  obtain c' s4 where r: "bestCandidate now s1 d True False g = (Some c', s4)"
    using bestCandidate_exists [OF pool assms(10), of False] by blast
  note differ = bad_not_candidate [where st = CRITICAL and current = current, OF _ assms(7) [symmetric]]
  show ?thesis
  proof (cases "confirmedUnhealthy (sa_activeProbe s1) \<and> ptag (sa_activeProbe s1) = Tag current")
    case True
    obtain c'' s5 where f: "bestActiveFailoverCandidate now s1 (Tag current) d g = (Some c'', s5)"
      using bestActiveFailoverCandidate_exists [OF pool(1) other pool(2) assms(10,11)] by blast
    have "ch"
      using probe_leaves_critical [OF _ _ assms(7) f] True h by simp
    moreover have "handled"
      using h True f assms(7)
      by (auto simp: handleConfirmedActiveProbe_def Let_def split: option.splits prod.splits if_splits)
    ultimately show ?thesis
      by (simp add: u(1))
  next
    case False
    then have "\<not> handled"
      using h by (auto simp: handleConfirmedActiveProbe_def split: if_splits)
    then show ?thesis
      using batch_leaves_critical [OF b] background_leaves_critical [OF b differ [OF b] assms(7)]
        refresh_leaves_critical [OF r differ [OF r] assms(7)]
      by (simp add: u(1) assms(7))
  qed
qed

section \<open>A working active\<close>

text \<open>
  \<open>works\<close>: the active is itself eligible in the histories the decision is made on, and the isolated probe has
  not confirmed it unhealthy. \<open>well_founded k\<close>: the target has \<open>k\<close> clean successes in a row and no failure since,
  a sample of at most ten minutes, has not just been left and has a significant advantage.
\<close>

definition works :: "instant \<Rightarrow> smart_active \<Rightarrow> outbound \<Rightarrow> history_map \<Rightarrow> u64 \<Rightarrow> bool" where
  "works now s current d g \<longleftrightarrow> eligible now s (Tag current) (pget d (Tag current)) g
     \<and> \<not> (confirmedUnhealthy (sa_activeProbe s) \<and> ptag (sa_activeProbe s) = Tag current)"

definition well_founded :: "instant \<Rightarrow> smart_active \<Rightarrow> int \<Rightarrow> outbound \<Rightarrow> outbound \<Rightarrow> history_map \<Rightarrow> u64 \<Rightarrow> bool" where
  "well_founded now s k current c d g \<longleftrightarrow>
     \<not> lacks_evidence (map_of (sa_evidence s) (Tag c)) k
     \<and> \<not> too_old now (pget d (Tag c)) smartActiveCandidateMaxAge
     \<and> \<not> avoided now (sa_avoidUntil s) (Tag c)
     \<and> fst (significantSmartActiveAdvantage now s (Tag current) (Tag c) d (smartActiveState now (pget d (Tag current))) g)"

lemma well_founded_searched:
  assumes "bestSignificantCandidate now s (Tag current) d g (smartActiveState now (pget d (Tag current))) k rg
      smartActiveCandidateMaxAge = ((Some c, ct, r, stale), s1)"
  shows "well_founded now s k current c d g"
  using bestSignificantCandidate_sound [OF assms] bestSignificantCandidate_not_avoided [OF assms]
  by (simp add: well_founded_def)

lemma significant_cong:
  assumes "sa_ipv6Mode s' = sa_ipv6Mode s" "sa_ipv6CapabilityTTL s' = sa_ipv6CapabilityTTL s"
  shows "significantSmartActiveAdvantage now s' x y d st g = significantSmartActiveAdvantage now s x y d st g"
proof -
  have "ipv6Preferred now s' h g = ipv6Preferred now s h g" for h
    using assms by (simp add: ipv6Preferred_def cong: option.case_cong)
  then show ?thesis
    by (simp only: significantSmartActiveAdvantage_def assms(1))
qed

lemma well_founded_cong:
  assumes "sa_ipv6Mode s' = sa_ipv6Mode s" "sa_ipv6CapabilityTTL s' = sa_ipv6CapabilityTTL s"
    and "sa_evidence s' = sa_evidence s" "avoided now (sa_avoidUntil s') = avoided now (sa_avoidUntil s)"
  shows "well_founded now s' k current c d g = well_founded now s k current c d g"
  by (simp add: well_founded_def significant_cong [OF assms(1,2)] assms(3,4))

lemma well_founded_searching:
  assumes "bestCandidate now s history em re g' = (b, s1)"
  shows "well_founded now s1 k current c d g = well_founded now s k current c d g"
proof (rule well_founded_cong)
  obtain m where "best_candidate_loop now s history em re g' (slice_stable (candidate_less now s history g')
      (sa_outbounds s)) None (sa_avoidUntil s) = (b, m)" "s1 = s\<lparr> sa_avoidUntil := m \<rparr>"
    using assms by (auto simp: bestCandidate_def Let_def split: prod.splits)
  then show "avoided now (sa_avoidUntil s1) = avoided now (sa_avoidUntil s)"
    using best_candidate_loop_later [where now = now and t = now] by (fastforce simp: fun_eq_iff)
qed (use assms in \<open>auto simp: bestCandidate_def Let_def split: prod.splits\<close>)

lemma switch_with_active: "switch_with now s current c r st history g m = (True, s') \<Longrightarrow> sa_active s' = Some c"
  by (auto simp: switch_with_def switchTo_def Let_def set_mode_def split: prod.splits if_splits)

lemma quality_switch:
  assumes "update_quality now s current d st g mode = (True, s')" "st = smartActiveState now (pget d (Tag current))"
  shows "\<exists>c. sa_active s' = Some c \<and> well_founded now s 2 current c d g
    \<and> (st \<noteq> GOOD \<longrightarrow> smartActiveState now (pget d (Tag c)) = GOOD)"
proof -
  obtain best ct r stale s1 where b: "bestSignificantCandidate now s (Tag current) d g st
      smartActiveCleanEvidenceRequired (st \<noteq> GOOD) smartActiveCandidateMaxAge = ((best, ct, r, stale), s1)"
    by (metis prod_cases4 surj_pair)
  have "\<exists>c. best = Some c"
    using assms(1) unfolding update_quality_def b
    by (cases best) (auto simp: Let_def decide_def split: if_splits)
  then obtain c where c: "best = Some c" by blast
  have "\<exists>why. switch_with now s1 current c why st d g mode = (True, s')"
    using assms(1) unfolding update_quality_def b c by (auto simp: Let_def)
  then show ?thesis
    using switch_with_active well_founded_searched [OF b [unfolded c assms(2)]]
      bestSignificantCandidate_sound(6) [OF b [unfolded c]] by auto
qed

lemma batch_switch:
  assumes "update_batch now s current d st g = (True, s')" "st = smartActiveState now (pget d (Tag current))" "st < BAD"
  shows "\<exists>c. sa_active s' = Some c \<and> well_founded now s 2 current c d g
    \<and> (st \<noteq> GOOD \<longrightarrow> smartActiveState now (pget d (Tag c)) = GOOD)"
proof -
  obtain best ct r stale s1 where b: "bestSignificantCandidate now s (Tag current) d g st
      smartActiveCleanEvidenceRequired (st \<noteq> GOOD) smartActiveCandidateMaxAge = ((best, ct, r, stale), s1)"
    by (metis prod_cases4 surj_pair)
  have mild: "st \<noteq> BAD" "st \<noteq> CRITICAL"
    using assms(3) by (auto simp: less_health_state_def)
  then have u: "update_batch now s current d st g = (case best of
      None \<Rightarrow> decide Keep r (Tag current) ct st ModeCompletedBatch s1
    | Some candidate \<Rightarrow> switch_with now s1 current candidate ''completed_batch_better_candidate'' st d g ModeCompletedBatch)"
    unfolding update_batch_def b by simp
  then obtain c where c: "best = Some c"
    using assms(1) by (cases best) (simp_all add: decide_def)
  then show ?thesis
    using assms(1) u switch_with_active well_founded_searched [OF b [unfolded c assms(2)]]
      bestSignificantCandidate_sound(6) [OF b [unfolded c]] by auto
qed

lemma background_switch:
  assumes "update_background now s current d st g mode = (True, s')"
    and "st = smartActiveState now (pget d (Tag current))" "st < BAD"
  shows "\<exists>c. sa_active s' = Some c \<and> well_founded now s 2 current c d g
    \<and> (st \<noteq> GOOD \<longrightarrow> smartActiveState now (pget d (Tag c)) = GOOD)"
proof -
  obtain best s1 where b: "bestCandidate now s d (st = BAD \<or> st = CRITICAL) True g = (best, s1)"
    by fastforce
  have mild: "st \<noteq> BAD" "st \<noteq> CRITICAL"
    using assms(3) by (auto simp: less_health_state_def)
  have "update_quality now s1 current d st g mode = (True, s')"
    using assms(1) mild unfolding update_background_def b Let_def prod.case
    by (simp add: decide_def split: if_splits)
  then show ?thesis
    unfolding well_founded_searching [OF b, symmetric] by (rule quality_switch) (rule assms(2))
qed

lemma refresh_switch:
  assumes "update_refresh now s current d st g = (True, s')" "works now s current d g"
  shows "\<exists>c. sa_active s' = Some c \<and> Tag c \<noteq> Tag current \<and> \<not> userRefreshCandidatePenalized (pget d (Tag c))
    \<and> \<not> userRefreshMinimalTie now (Tag current) (Tag c) d"
proof -
  obtain best s1 where b: "bestCandidate now s d True False g = (best, s1)" by fastforce
  obtain c where c: "best = Some c"
    using assms(1) by (cases best) (auto simp: update_refresh_def b decide_def split: prod.splits)
  obtain h where h: "pget d (Tag current) = Some h" "Success h" "\<not> IsFromCache h"
    "smartActiveState now (Some h) < BAD"
    using assms(2) by (auto simp: works_def eligible_iff)
  have "smartActiveState now (Some h) \<noteq> BAD" "smartActiveState now (Some h) \<noteq> CRITICAL"
    using h(4) by (auto simp: less_health_state_def)
  moreover have "applyUserRefreshDecision now s1 current c d g = (True, s')"
    using assms(1) by (simp add: update_refresh_def b c)
  ultimately show ?thesis
    using h(1-3)
    by (auto simp: applyUserRefreshDecision_def Let_def switchTo_def set_mode_def split: if_splits prod.splits)
qed

lemma same_streaks_learn: "same_streaks (sa_activeProbe s) (sa_activeProbe (snd (learn_history now s history)))"
proof -
  have "sa_activeProbe (snd (remember_settled now s history)) = sa_activeProbe s"
    by (simp add: remember_settled_def advance_selection_def Let_def)
  moreover have "sa_activeProbe (rememberDecisionDiagnostics x h g src) = sa_activeProbe x" for x h g src
    by (simp add: rememberDecisionDiagnostics_def)
  ultimately show ?thesis
    using same_streaks_reconcile [of "rememberDecisionDiagnostics ((updateEvidence now (snd (remember_settled now s history)) history)
        \<lparr> sa_latestHistory := history \<rparr>) h g src" for h g src]
    by (auto simp: learn_history_def Let_def same_streaks_def split: prod.splits)
qed

text \<open>The two ways a working active is left: by an update, and by a healthy sample of the isolated probe.\<close>

lemma update_leaves_working:
  assumes "wf_smart s" "\<not> sa_bootstrap s" "sa_active s = Some current"
    and "learn_history now s history = (d, s1)" "g = sa_selectionGeneration s1"
    and "works now s1 current d g" "updateOutboundsInfo now s history mode bg = (True, s')"
  shows "\<exists>c. sa_active s' = Some c \<and>
    (if mode = ModeUserRefresh
     then Tag c \<noteq> Tag current \<and> \<not> userRefreshCandidatePenalized (pget d (Tag c))
       \<and> \<not> userRefreshMinimalTie now (Tag current) (Tag c) d
     else well_founded now s1 2 current c d g
       \<and> (smartActiveState now (pget d (Tag current)) \<noteq> GOOD \<longrightarrow> smartActiveState now (pget d (Tag c)) = GOOD))"
proof -
  have allowed: "may_decide s history mode bg g"
    using forbidden_keeps [OF assms(1,4)] assms(5,7) by fastforce
  have confirmed: "sa_confirmed s"
    using assms(1,3) by (simp add: wf_smart_def)
  obtain ch handled s2 where h: "handleConfirmedActiveProbe now s1 (Some current) d g = ((ch, handled), s2)"
    by (metis surj_pair)
  have "\<not> handled"
    using h assms(6) by (auto simp: handleConfirmedActiveProbe_def works_def split: if_splits)
  then have "(True, s') = (let st = smartActiveState now (pget d (Tag current))
      in if mode = ModeUserRefresh then update_refresh now s1 current d st g
         else if mode = ModeCompletedBatch then update_batch now s1 current d st g
         else update_background now s1 current d st g mode)"
    using updateOutboundsInfo_decides(1) [OF assms(2,3) confirmed assms(4,5) allowed h] assms(6,7)
    by (simp add: works_def Let_def)
  moreover have "smartActiveState now (pget d (Tag current)) < BAD"
    using assms(6) by (auto simp: works_def eligible_iff)
  ultimately show ?thesis
    using refresh_switch [OF _ assms(6)] batch_switch background_switch
    by (simp add: Let_def split: if_splits)
qed

lemma probe_leaves_working:
  assumes "probe_healthy now s current d g (smartActiveState now (pget d (Tag current))) = (u, s')" "changed u"
  shows "\<exists>c. sa_active s' = Some c \<and> well_founded now s 1 current c d g
    \<and> smartActiveState now (pget d (Tag c)) = GOOD
    \<and> betterCandidate (sa_activeProbe s) = Tag c \<and> smartActiveProbeConfirmations \<le> betterStreak (sa_activeProbe s) + 1"
proof -
  define s1 where "s1 = s\<lparr> sa_activeProbe := (sa_activeProbe s)\<lparr> hardFailureStreak := 0,
      poorQualityStreak := 0, confirmedUnhealthy := False \<rparr> \<rparr>"
  obtain best ct r stale s2 where b: "bestSignificantCandidate now s1 (Tag current) d g
      (smartActiveState now (pget d (Tag current))) 1 True smartActiveCandidateMaxAge = ((best, ct, r, stale), s2)"
    by (metis prod_cases4 surj_pair)
  have p2: "sa_activeProbe s2 = sa_activeProbe s1"
    using bestSignificantCandidate_probe [OF b] by simp
  obtain c where c: "best = Some c"
    using assms unfolding probe_healthy_def bestActiveProbeUpgradeCandidate_def s1_def [symmetric] b Let_def prod.case
    by (cases best) (auto simp: no_update_def)
  have "well_founded now s1 1 current c d g"
    by (rule well_founded_searched [OF b [unfolded c]])
  then have "well_founded now s 1 current c d g"
    by (subst well_founded_cong [of s s1]) (simp_all add: s1_def)
  moreover have "betterCandidate (sa_activeProbe s) = Tag c
      \<and> smartActiveProbeConfirmations \<le> betterStreak (sa_activeProbe s) + 1 \<and> sa_active s' = Some c"
    using assms unfolding probe_healthy_def bestActiveProbeUpgradeCandidate_def s1_def [symmetric] b c Let_def prod.case
      option.case p2
    by (auto simp: no_update_def s1_def probe_switch_def switchTo_def set_mode_def Let_def
        split: if_splits prod.splits)
  ultimately show ?thesis
    using bestSignificantCandidate_sound(6) [OF b [unfolded c]] by blast
qed

section \<open>What is left is avoided\<close>

definition enters :: "instant \<Rightarrow> smart_active \<Rightarrow> smart_active \<Rightarrow> bool" where
  "enters now s s' \<longleftrightarrow> (Now s \<noteq> [] \<and> Now s' \<noteq> [] \<and> Now s' \<noteq> Now s \<longrightarrow>
     (\<forall>t \<le> now + smartActiveAvoidAfterSwitch. avoided t (sa_avoidUntil s') (Now s)))"

lemma enters_still: "sa_active s' = sa_active s \<Longrightarrow> enters now s s'"
  by (simp add: enters_def Now_def)

lemma enters_ignore [simp]:
  "enters now s (x\<lparr> sa_decision := d \<rparr>) = enters now s x"
  "enters now s (x\<lparr> sa_activeProbe := p \<rparr>) = enters now s x"
  "enters now s (set_decision d x) = enters now s x"
  "enters now s (set_mode m x) = enters now s x"
  by (simp_all add: enters_def Now_def set_decision_def set_mode_def)

lemma enters_switchTo:
  assumes "switchTo now s1 (Some current) to r st history g = (ch, s')"
    and "sa_active s = Some current" "sa_active s1 = Some current"
  shows "enters now s s'"
  using assms
  by (auto simp: switchTo_def Let_def enters_def Now_def candidateTag_def avoided_def update_conv
      split: if_splits option.splits)

lemma enters_outcomes:
  assumes "sa_active s = Some current" "sa_active s1 = Some current"
  shows "enters now s (snd (switch_with now s1 current c r st history g m))"
    and "enters now s (snd (probe_switch now s1 current c r st history g))"
    and "enters now s (snd (decide act r f t st m s1))"
    and "enters now s (snd (applyUserRefreshDecision now s1 current c history g))"
proof -
  show "enters now s (snd (switch_with now s1 current c r st history g m))"
    "enters now s (snd (probe_switch now s1 current c r st history g))"
    using enters_switchTo [OF _ assms]
    by (simp_all add: switch_with_def probe_switch_def Let_def split: prod.splits)
  show "enters now s (snd (decide act r f t st m s1))"
    by (rule enters_still) (simp add: decide_def assms)
  have "enters now s (snd (case switchTo now (s1\<lparr> sa_bootstrap := False \<rparr>) (Some current) (Some c) r st history g of
      (ch, s') \<Rightarrow> (ch, set_mode m s')))" for r st m
    using enters_switchTo [of now "s1\<lparr> sa_bootstrap := False \<rparr>" current "Some c" r st history g _ _ s] assms
    by (simp split: prod.splits)
  moreover have "enters now s (snd (False, s1\<lparr> sa_bootstrap := False, sa_decision := d \<rparr>))" for d
    by (simp add: enters_still assms)
  ultimately show "enters now s (snd (applyUserRefreshDecision now s1 current c history g))"
    unfolding applyUserRefreshDecision_def Let_def by (auto simp: enters_still assms)
qed

lemma enters_searches:
  assumes "sa_active s = Some current" "sa_active s0 = Some current"
  shows "enters now s (snd (update_ineligible now s0 current d mode g))"
    and "enters now s (snd (update_refresh now s0 current d st g))"
    and "enters now s (snd (update_batch now s0 current d st g))"
    and "enters now s (snd (update_quality now s0 current d st g mode))"
proof -
  note found = enters_outcomes [OF assms(1)]
  have best: "sa_active s1 = Some current" if "bestCandidate now s0 d em re g = (b, s1)" for em re b s1
    using idle_same [OF idle_bestCandidate [OF that]] assms(2) by simp
  have significant: "sa_active s1 = Some current"
    if "bestSignificantCandidate now s0 (Tag current) d g st' k rg age = (b, s1)" for st' k rg age b s1
    using idle_same [OF idle_bestSignificantCandidate [OF that]] assms(2) by simp
  show "enters now s (snd (update_ineligible now s0 current d mode g))"
    by (auto simp: update_ineligible_def Let_def found best split: prod.splits option.splits)
  show "enters now s (snd (update_refresh now s0 current d st g))"
    by (auto simp: update_refresh_def found best split: prod.splits option.splits)
  show "enters now s (snd (update_batch now s0 current d st g))"
    by (auto simp: update_batch_def Let_def found best significant split: prod.splits option.splits)
  show "enters now s (snd (update_quality now s0 current d st g mode))"
    by (auto simp: update_quality_def Let_def found significant split: prod.splits option.splits)
qed

lemma enters_update_background:
  assumes "sa_active s = Some current" "sa_active s0 = Some current"
  shows "enters now s (snd (update_background now s0 current d st g mode))"
proof -
  obtain best s1 where b: "bestCandidate now s0 d (st = BAD \<or> st = CRITICAL) True g = (best, s1)" by fastforce
  have a: "sa_active s1 = Some current"
    using idle_same [OF idle_bestCandidate [OF b]] assms(2) by simp
  have "enters now s (snd (update_emergency now s1 current best d st g mode))"
    by (auto simp: update_emergency_def Let_def enters_outcomes [OF assms(1) a] split: option.splits)
  then show ?thesis
    unfolding update_background_def b Let_def prod.case
    by (simp add: enters_outcomes [OF assms(1) a] enters_searches(4) [OF assms(1) a])
qed

lemma enters_handle:
  assumes "sa_active s = Some current" "sa_active s0 = Some current"
    and "handleConfirmedActiveProbe now s0 (Some current) d g = ((ch, handled), s')"
  shows "enters now s s'"
proof -
  obtain best s1 where b: "bestActiveFailoverCandidate now s0 (Tag current) d g = (best, s1)" by fastforce
  have a: "sa_active s1 = Some current"
    using idle_same [OF idle_bestActiveFailoverCandidate [OF b]] assms(2) by simp
  have "enters now s x" if "probe_switch now s1 current c r st d g = (ch', x)" for c r st ch' x
    using enters_outcomes(2) [OF assms(1) a, of now c r st d g] that by simp
  then show ?thesis
    using assms(3) a enters_still [of s0 s now] enters_still [of s1 s now] assms(1,2)
    by (auto simp: handleConfirmedActiveProbe_def b Let_def split: if_splits option.splits prod.splits)
qed

lemma enters_updateOutboundsInfo:
  assumes "wf_smart s" "\<not> sa_bootstrap s"
  shows "enters now s (snd (updateOutboundsInfo now s history mode bg))"
proof -
  obtain d s1 where l: "learn_history now s history = (d, s1)" by fastforce
  obtain current where c: "sa_active s = Some current" "sa_confirmed s"
    using assms by (auto simp: wf_smart_def)
  have same: "sa_bootstrap s1 = sa_bootstrap s" "sa_active s1 = Some current" "sa_confirmed s1"
    using learns_learn_history [of s now history] c by (simp_all add: l learns_def)
  obtain ch handled s2 where h: "handleConfirmedActiveProbe now s1 (Some current) d (sa_selectionGeneration s1)
      = ((ch, handled), s2)"
    by (metis surj_pair)
  have "\<not> handled \<Longrightarrow> s2 = s1"
    using moves_handleConfirmedActiveProbe(2) [OF same(2) h] by simp
  then have "enters now s (snd (update_confirmed now s1 current history d mode bg))"
    using enters_handle [OF c(1) same(2) h]
    by (simp add: update_confirmed_def Let_def h enters_outcomes [OF c(1) same(2)]
        enters_searches [OF c(1) same(2)] enters_update_background [OF c(1) same(2)])
  then show ?thesis
    using c assms(2) same by (simp add: updateOutboundsInfo_def l Let_def)
qed

lemma enters_probe_healthy:
  assumes "sa_active s = Some current" "sa_active s0 = Some current"
  shows "enters now s (snd (probe_healthy now s0 current d g st))"
proof -
  define s1 where "s1 = s0\<lparr> sa_activeProbe := (sa_activeProbe s0)\<lparr> hardFailureStreak := 0,
      poorQualityStreak := 0, confirmedUnhealthy := False \<rparr> \<rparr>"
  obtain best ct r stale s2 where b: "bestSignificantCandidate now s1 (Tag current) d g st 1 True
      smartActiveCandidateMaxAge = ((best, ct, r, stale), s2)"
    by (metis prod_cases4 surj_pair)
  have a: "sa_active s2 = Some current"
    using idle_same [OF idle_bestSignificantCandidate [OF b]] assms(2) by (simp add: s1_def)
  then have "enters now s x" if "probe_switch now (s2\<lparr> sa_activeProbe := p \<rparr>) current c why st' d g = (ch, x)"
    for p c why st' ch x
    using enters_outcomes(2) [OF assms(1), of "s2\<lparr> sa_activeProbe := p \<rparr>" now c why st' d g] that by simp
  then show ?thesis
    unfolding probe_healthy_def bestActiveProbeUpgradeCandidate_def s1_def [symmetric] b Let_def prod.case
    using a by (cases best)
      (auto simp: enters_still assms resetActiveProbeAdvantage_def split: prod.splits)
qed

lemma enters_probe_unhealthy:
  assumes "sa_active s = Some current" "sa_active s0 = Some current"
  shows "enters now s (snd (probe_unhealthy now s0 current hard d g))"
proof -
  define r where "r = (resetActiveProbeAdvantage s0)\<lparr> sa_activeProbe :=
      count_bad_sample hard (sa_activeProbe (resetActiveProbeAdvantage s0)) \<rparr>"
  define s1 where "s1 = markActiveProbeUnhealthy
    (r\<lparr> sa_activeProbe := (sa_activeProbe r)\<lparr> confirmedUnhealthy := True \<rparr> \<rparr>) (Tag current)"
  obtain best s2 where b: "bestActiveFailoverCandidate now s1 (Tag current) d g = (best, s2)" by fastforce
  have r: "sa_active r = Some current" "sa_active s1 = Some current"
    using assms(2) by (simp_all add: s1_def r_def resetActiveProbeAdvantage_def markActiveProbeUnhealthy_def Let_def)
  then have a: "sa_active s2 = Some current"
    using idle_same [OF idle_bestActiveFailoverCandidate [OF b]] by simp
  have "enters now s x" if "probe_switch now s2 current c why st' d g = (ch, x)" for c why st' ch x
    using enters_outcomes(2) [OF assms(1) a, of now c why st' d g] that by simp
  then show ?thesis
    unfolding probe_unhealthy_def probe_failover_def Let_def r_def [symmetric] s1_def [symmetric] b prod.case
    using r a by (cases best) (auto simp: enters_still assms split: prod.splits)
qed

lemma enters_UpdateActiveProbe:
  assumes "UpdateActiveProbe now s t p history = (u, s')"
  shows "enters now s s'"
  using assms
proof (cases rule: UpdateActiveProbe_cases)
  case ignored
  then show ?thesis
    by (auto intro: enters_still)
next
  case (sampled c q s1 s2)
  obtain d g where b: "probe_basis now s1 t q history = (d, g)" by fastforce
  have "sa_active (rememberDecisionDiagnostics s2 d g SourceActiveProbe) = Some c"
    using learns_recover_generation [of s1 now t history] sampled(1,5,6)
    by (simp add: learns_def rememberDecisionDiagnostics_def)
  note outcomes = enters_probe_healthy [OF sampled(1) this] enters_probe_unhealthy [OF sampled(1) this]
  show ?thesis
    using sampled(7) outcomes by (simp add: b Let_def split: if_splits) (metis snd_conv)+
qed

text \<open>An update during start-up enters nothing.\<close>

lemma learn_history_avoided:
  assumes "wf_map (sa_avoidUntil s)" "now \<le> t" "avoided t (sa_avoidUntil (snd (learn_history now s history))) a"
  shows "avoided t (sa_avoidUntil s) a"
proof -
  have evidence: "avoided t (sa_avoidUntil (updateEvidence now x history)) a \<Longrightarrow> avoided t (sa_avoidUntil x) a"
    if "wf_map (sa_avoidUntil x)" for x
    using that by (auto simp: updateEvidence_def avoided_def map_of_range_delete split: prod.splits option.splits if_splits)
  have reconcile: "avoided t (sa_avoidUntil (reconcileActiveProbeAdvantage now x h g)) a = avoided t (sa_avoidUntil x) a" for x h g
  proof -
    have "avoided t (sa_avoidUntil x') a = avoided t (sa_avoidUntil x) a"
      if "bestSignificantCandidate now x current h g st k rg age = (r, x')" for current st k rg age r x'
      using that assms(2)
      by (auto simp: bestSignificantCandidate_def Let_def split: prod.splits if_splits
          dest!: significant_loop_later [where t = t and a = a])
    then show ?thesis
      by (auto simp: reconcileActiveProbeAdvantage_def resetActiveProbeAdvantage_def split: option.splits prod.splits)
  qed
  obtain full s1 where r: "remember_settled now s history = (full, s1)" by fastforce
  have "sa_avoidUntil s1 = sa_avoidUntil s"
    using remember_settled_avoid [of now s history] by (simp add: r)
  then show ?thesis
    using assms(1,3) evidence [of s1] reconcile
    by (simp add: learn_history_def r Let_def rememberDecisionDiagnostics_def split: if_splits)
qed

lemma startup_enters_nothing:
  assumes "wf_map (sa_avoidUntil s)" "sa_bootstrap s" "now \<le> t"
    and "avoided t (sa_avoidUntil (snd (updateOutboundsInfo now s history mode bg))) a"
  shows "avoided t (sa_avoidUntil s) a"
proof -
  obtain d s1 where l: "learn_history now s history = (d, s1)" by fastforce
  have "sa_bootstrap s1"
    using learns_learn_history [of s now history] assms(2) by (simp add: l learns_def)
  moreover have "sa_avoidUntil (snd (update_bootstrap now s1 history mode bg og)) = sa_avoidUntil s1" for og
    by (simp add: update_bootstrap_def Let_def decide_def confirmActive_def split_def split: option.split)
  ultimately show ?thesis
    using assms learn_history_avoided [OF assms(1,3), of history a] by (simp add: updateOutboundsInfo_def l Let_def)
qed

lemma reachable_avoided: "smart_reachable start outbounds mode ttl s \<Longrightarrow> wf_map (sa_avoidUntil s)"
proof (induction rule: smart_reachable.induct)
  case init
  then show ?case by (simp add: NewSmartActive_def wf_map_def)
next
  case (step s s')
  from step.hyps(2) show ?case
  proof
    fix now history mode bg ch
    assume "updateOutboundsInfo now s history mode bg = (ch, s')"
    then show ?thesis
      using keeps_avoided_updateOutboundsInfo [of now s history mode bg] step.IH by (simp add: keeps_avoided_def)
  next
    fix now t p history u
    assume "UpdateActiveProbe now s t p history = (u, s')"
    then show ?thesis
      using keeps_avoided_UpdateActiveProbe [of now s t p history] step.IH by (simp add: keeps_avoided_def)
  qed
qed

text \<open>A call that reports a change leaves one outbound for another.\<close>

lemma update_changes:
  assumes "wf_smart s" "updateOutboundsInfo now s history mode bg = (True, s')"
  shows "Now s' \<noteq> Now s \<and> Now s' \<noteq> []"
proof -
  obtain d s1 where l: "learn_history now s history = (d, s1)" by fastforce
  note m = updateOutboundsInfo_moves [OF wf_confirmed [OF assms(1)] l]
  have "moves now d (sa_selectionGeneration s1) s1 (True, s')"
    using m(2) [of mode bg] assms(2) by simp
  then show ?thesis
    using m(1) Now_cong [of s' s1] by (auto simp: moves_def installed_def learns_def Now_def dest: eligible_tag)
qed

lemma probe_changes:
  assumes "wf_smart s" "UpdateActiveProbe now s t p history = (u, s')" "changed u"
  shows "Now s' \<noteq> Now s \<and> Now s' \<noteq> [] \<and> Now s \<noteq> []"
proof -
  have current: "\<exists>c. sa_active s = Some c"
    using assms(2,3) by (cases rule: UpdateActiveProbe_cases) (auto simp: no_update_def)
  obtain d g s1 where i: "idle s s1" and m: "moves now d g (rememberDecisionDiagnostics
      (recover_generation now s1 t history) d g SourceActiveProbe) (changed u, s')"
    using UpdateActiveProbe_moves [OF assms(2)] assms(3) by blast
  let ?s2 = "rememberDecisionDiagnostics (recover_generation now s1 t history) d g SourceActiveProbe"
  have "learns s ?s2"
    using learns_trans [OF idle_learns [OF i] learns_trans [OF learns_recover_generation learns_diagnostics]] .
  then have "sa_active ?s2 = sa_active s" "Now ?s2 = Now s"
    by (simp_all add: learns_def Now_def)
  then have "Now s' \<noteq> Now s" "Now s' \<noteq> []"
    using m assms(3) Now_cong [of s' ?s2] by (auto simp: moves_def installed_def Now_def dest: eligible_tag)
  then show ?thesis
    using current assms(1) by (auto simp: wf_smart_def Now_def)
qed

end
