(* ===== verification/Claims_Smart.thy ===== *)
theory Claims_Smart
  imports Scenarios Smart_Departure
begin

text \<open>
  The properties of the selection itself: when the active outbound may change, what it may
  change to, and when it has to.
\<close>

section \<open>Switching is safe\<close>

text \<open>
  C1: In every reachable state an update reports a change exactly when the active tag changes,
  and a new active outbound is a member of the profile that is eligible under the very
  histories and generation the diagnostics record for that decision.
\<close>

theorem update_installs_only_eligible:
  assumes "smart_reachable start outbounds ipmode ttl s"
    and "updateOutboundsInfo now s history mode batchGeneration = (ch, s')"
  shows "(ch \<longleftrightarrow> Now s' \<noteq> Now s)
    \<and> (sa_active s' = sa_active s
       \<or> (\<exists>c \<in> set (sa_outbounds s). sa_active s' = Some c
            \<and> eligible now s (Tag c) (pget (sa_diagnosticHistory s') (Tag c)) (sa_diagnosticGeneration s')))"
proof -
  obtain d s1 where l: "learn_history now s history = (d, s1)" by fastforce
  note wf = reachable_wf [OF assms(1)]
  note m = updateOutboundsInfo_moves [OF wf_confirmed [OF wf] l]
  have mv: "moves now d (sa_selectionGeneration s1) s1 (ch, s')"
    using m(2) [of mode batchGeneration] assms(2) by simp
  have same: "sa_active s1 = sa_active s" "sa_outbounds s1 = sa_outbounds s"
    and status: "candidateStatus now s1 = candidateStatus now s"
    using m(1) learns_status by (auto simp: learns_def)
  have diag: "sa_diagnosticHistory s' = d" "sa_diagnosticGeneration s' = sa_selectionGeneration s1"
    using mv learn_history_diagnostics(1,2) [OF l] by (simp_all add: moves_def kept_def)
  show ?thesis
    using mv Now_cong [OF same(1)] by (auto simp: moves_def installed_def same status diag)
qed

theorem update_installs_only_eligible_witness:
  "updateOutboundsInfo clock fresh_smart first_cohort ModeNone 0 = (True, started)
    \<and> Now started = ''b''
    \<and> (\<exists>c \<in> set (sa_outbounds fresh_smart). sa_active started = Some c
         \<and> eligible clock fresh_smart (Tag c) (pget (sa_diagnosticHistory started) (Tag c))
             (sa_diagnosticGeneration started))"
  using update_installs_only_eligible [OF fresh_reachable started_run] started_run by simp

text \<open>
  C2: In every reachable state an isolated probe of the active outbound reports a change exactly
  when the active tag changes, and it can only move traffic to a member of the profile that is
  eligible under the histories and the complete generation recorded for that decision.
\<close>

theorem probe_installs_only_eligible:
  assumes "smart_reachable start outbounds ipmode ttl s"
    and "UpdateActiveProbe now s t p history = (u, s')"
  shows "(changed u \<longleftrightarrow> Now s' \<noteq> Now s)
    \<and> (sa_active s' = sa_active s
       \<or> (\<exists>c \<in> set (sa_outbounds s). sa_active s' = Some c
            \<and> eligible now s (Tag c) (pget (sa_diagnosticHistory s') (Tag c)) (sa_diagnosticGeneration s')))"
  using UpdateActiveProbe_moves [OF assms(2)]
proof
  assume "idle s s' \<and> \<not> changed u"
  then show ?thesis
    using Now_cong idle_same by metis
next
  assume "\<exists>d g s1. idle s s1 \<and> moves now d g (rememberDecisionDiagnostics
      (recover_generation now s1 t history) d g SourceActiveProbe) (changed u, s')"
  then obtain d g s1 where i: "idle s s1" and m: "moves now d g (rememberDecisionDiagnostics
      (recover_generation now s1 t history) d g SourceActiveProbe) (changed u, s')"
    by blast
  let ?s2 = "rememberDecisionDiagnostics (recover_generation now s1 t history) d g SourceActiveProbe"
  have l: "learns s ?s2"
    using learns_trans [OF idle_learns [OF i] learns_trans [OF learns_recover_generation learns_diagnostics]] .
  have same: "sa_active ?s2 = sa_active s" "sa_outbounds ?s2 = sa_outbounds s"
    and status: "candidateStatus now ?s2 = candidateStatus now s"
    using l learns_status by (auto simp: learns_def)
  have diag: "sa_diagnosticHistory s' = d" "sa_diagnosticGeneration s' = g"
    using m by (simp_all add: moves_def kept_def rememberDecisionDiagnostics_def)
  show ?thesis
    using m Now_cong [OF same(1)] by (auto simp: moves_def installed_def same status diag)
qed

theorem probe_installs_only_eligible_witness:
  "\<exists>u s'. UpdateActiveProbe (seconds 1070) started ''b'' (Some (failure 0 (seconds 1070))) first_cohort
      = (u, s') \<and> (changed u \<longleftrightarrow> Now s' \<noteq> ''b'')"
proof -
  obtain u s' where "UpdateActiveProbe (seconds 1070) started ''b'' (Some (failure 0 (seconds 1070)))
      first_cohort = (u, s')" by fastforce
  with probe_installs_only_eligible [OF started_reachable this] show ?thesis by auto
qed

section \<open>Start-up and generations\<close>

text \<open>
  C5: Start-up ends as soon as it can: when every outbound has a terminal result of one
  generation that is not older than the selected one, and some outbound is eligible in it, the
  update confirms an active outbound and leaves the start-up phase.
\<close>

theorem startup_completes:
  assumes "sa_bootstrap s" "generationSettled s history g" "sa_selectionGeneration s \<le> g"
    and "out \<in> set (sa_outbounds s)" "eligible now s (Tag out) (pget history (Tag out)) g"
    and "mode = ModeCompletedBatch \<longrightarrow> batchGeneration = g"
    and "updateOutboundsInfo now s history mode batchGeneration = (ch, s')"
  shows "sa_active s' \<noteq> None \<and> sa_confirmed s' \<and> \<not> sa_bootstrap s'"
proof -
  obtain d s1 where l: "learn_history now s history = (d, s1)" by fastforce
  have g: "sa_selectionGeneration s1 = g"
    using learn_history_selection [of now s history] advance_selection_settled [OF assms(2,3)] by (simp add: l)
  have learned: "learns s s1"
    using learns_learn_history [of s now history] by (simp add: l)
  then have same: "sa_bootstrap s1" "sa_outbounds s1 = sa_outbounds s" "sa_startedAt s1 = sa_startedAt s"
    using assms(1) by (simp_all add: learns_def)
  have boot: "bootstrapGenerationSettled s1 history g"
    using settled_bootstrap [OF assms(2)] bootstrapGenerationSettled_cong [OF same(2,3)] by simp
  obtain c where c: "bestBootstrapCandidate now s1 history g = Some c"
    using bestBootstrapCandidate_exists [of out s1 now history g] assms(4,5) same(2) learns_status [OF learned]
    by auto
  have end_phase:
    "bootstrapGenerationSettled (s1\<lparr> sa_active := a, sa_confirmed := b, sa_decision := e \<rparr>) history g"
    "bootstrapGenerationSettled (s1\<lparr> sa_decision := e \<rparr>) history g" for a b e
    by (subst bootstrapGenerationSettled_cong [of _ s1], simp_all add: boot)+
  have "g \<noteq> 0"
    using assms(2) by (simp add: generationSettled_def split: if_splits)
  moreover have "update_bootstrap now s1 history mode batchGeneration (currentGeneration s history) = (ch, s')"
    using assms(7) same(1) by (simp add: updateOutboundsInfo_def l Let_def)
  ultimately show ?thesis
    using assms(6) boot
    by (auto simp: update_bootstrap_def Let_def g c confirmActive_def decide_def end_phase split: if_splits)
qed

theorem startup_completes_witness:
  "sa_active started \<noteq> None \<and> sa_confirmed started \<and> \<not> sa_bootstrap started"
proof (rule startup_completes [OF _ _ _ _ _ _ started_run])
  show "generationSettled fresh_smart first_cohort 1"
    by code_simp
  show "server ''a'' \<in> set (sa_outbounds fresh_smart)"
    by (simp add: fresh_smart_def NewSmartActive_def)
  show "eligible clock fresh_smart (Tag (server ''a'')) (pget first_cohort (Tag (server ''a''))) 1"
    by code_simp
qed (simp_all add: fresh_smart_def NewSmartActive_def)



section \<open>The active probe\<close>

text \<open>
  C4: A single bad sample never moves traffic. Whatever the histories say, a probe that fails or
  is of poor quality, when no sample of that kind came before it, keeps the active outbound and
  asks for one confirmation probe.
\<close>

theorem single_bad_probe_never_switches:
  assumes "sa_active s = Some current" "Tag current = t" "t \<noteq> []"
    and "ptag (sa_activeProbe s) = t \<longrightarrow> lastProbeAt (sa_activeProbe s) < Time p
      \<and> hardFailureStreak (sa_activeProbe s) = 0 \<and> poorQualityStreak (sa_activeProbe s) = 0"
    and "0 < Time p" "activeProbeHardFailure (Some p) \<or> activeProbePoorQuality (Some p)"
    and "UpdateActiveProbe now s t (Some p) history = (u, s')"
  shows "\<not> changed u \<and> retry u \<and> sa_active s' = sa_active s"
proof -
  obtain d g s1 where b: "probed_state now s t p history = (d, g, s1)"
    by (metis prod_cases3)
  note facts = probed_state_facts [OF b]
  have streaks: "hardFailureStreak (sa_activeProbe s1) = 0" "poorQualityStreak (sa_activeProbe s1) = 0"
    using facts(2) assms(4) by (auto simp: same_streaks_def probed_evidence_def probe_evidence_for_def split: if_splits)
  have "(u, s') = probe_unhealthy now s1 current (activeProbeHardFailure (Some p)) d g"
    using UpdateActiveProbe_fresh [OF assms(1-3,5) _ b] assms(4,6,7) by (auto split: if_splits)
  moreover have "sa_active s1 = sa_active s"
    using facts(1) by (simp add: learns_def)
  ultimately show ?thesis
    using streaks
    by (auto simp: probe_unhealthy_def Let_def resetActiveProbeAdvantage_def no_update_def set_decision_def
        count_bad_sample_def bad_streak_def split: if_splits)
qed

theorem single_bad_probe_never_switches_witness:
  "sa_active warned = sa_active started \<and> hardFailureStreak (sa_activeProbe warned) = 1"
proof -
  have "ptag (sa_activeProbe started) \<noteq> ''b''" "activeProbeHardFailure (Some (failure 0 (seconds 1070)))"
    "0 < Time (failure 0 (seconds 1070))"
    by (simp_all add: started_def fresh_smart_def NewSmartActive_def probe_evidence_for_def
        activeProbeHardFailure_def failure_def zero_history_def)
  then show ?thesis
    using single_bad_probe_never_switches [OF started_active(1) _ _ _ _ _ warned_run]
    by (simp add: server_def warned_def)
qed

text \<open>
  C3: A confirmed failure always fails over when it can. If the previous sample of the active
  was a hard failure too and this one is, and some other outbound is eligible in the complete
  generation the decision rests on, is not older than ten minutes and has a clean success, then
  traffic moves to an eligible outbound.
\<close>

theorem confirmed_failure_fails_over:
  assumes "smart_reachable start outbounds ipmode ttl s"
    and "sa_active s = Some current" "Tag current = t" "0 < Time p"
    and "ptag (sa_activeProbe s) = t" "lastProbeAt (sa_activeProbe s) < Time p"
      "1 \<le> hardFailureStreak (sa_activeProbe s)"
    and "activeProbeHardFailure (Some p)"
    and "probed_state now s t p history = (d, g, s1)"
    and "out \<in> set (sa_outbounds s)" "Tag out \<noteq> t" "eligible now s (Tag out) (pget d (Tag out)) g"
      "\<not> too_old now (pget d (Tag out)) smartActiveCandidateMaxAge"
      "\<not> lacks_evidence (map_of (sa_evidence s1) (Tag out)) 1"
    and "UpdateActiveProbe now s t (Some p) history = (u, s')"
  shows "changed u \<and> Now s' \<noteq> t
    \<and> (\<exists>c \<in> set (sa_outbounds s). sa_active s' = Some c \<and> eligible now s (Tag c) (pget d (Tag c)) g)"
proof -
  note facts = probed_state_facts [OF assms(9)]
  have tag: "t \<noteq> []"
    using reachable_wf [OF assms(1)] assms(2,3) by (auto simp: wf_smart_def)
  have streak: "1 \<le> hardFailureStreak (sa_activeProbe s1)"
    using facts(2) assms(5,7) by (simp add: same_streaks_def probed_evidence_def)
  define r where "r = (resetActiveProbeAdvantage s1)\<lparr> sa_activeProbe :=
      count_bad_sample True (sa_activeProbe (resetActiveProbeAdvantage s1)) \<rparr>"
  define s2 where "s2 = markActiveProbeUnhealthy
    (r\<lparr> sa_activeProbe := (sa_activeProbe r)\<lparr> confirmedUnhealthy := True \<rparr> \<rparr>) t"
  have s2: "candidateStatus now s2 = candidateStatus now s" "sa_outbounds s2 = sa_outbounds s"
    "sa_active s2 = Some current"
    using learns_status [OF facts(1)] facts(1) assms(2)
    by (auto simp: s2_def r_def markActiveProbeUnhealthy_def resetActiveProbeAdvantage_def learns_def Let_def)
  have ev: "map_of (sa_evidence s2) (Tag out) = map_of (sa_evidence s1) (Tag out)"
    using assms(11) by (simp add: s2_def r_def markActiveProbeUnhealthy_def resetActiveProbeAdvantage_def
        Let_def update_conv)
  obtain c s3 where c: "bestActiveFailoverCandidate now s2 t d g = (Some c, s3)"
    using bestActiveFailoverCandidate_exists [of out s2 t now d g] assms(10-14) s2 ev by auto
  note sound = bestActiveFailoverCandidate_sound [OF c]
  have i: "idle s2 s3"
    by (rule idle_bestActiveFailoverCandidate [OF c])
  then have st3: "candidateStatus now s3 = candidateStatus now s"
    using idle_status [OF i] s2(1) by simp
  have "(u, s') = probe_unhealthy now s1 current True d g"
    using UpdateActiveProbe_fresh [OF assms(2,3) tag assms(4) _ assms(9)] assms(5,6,8,15) by simp
  then have "(u, s') = (case probe_switch now s3 current c ''active_probe_confirmed_connection_failure''
      BAD d g of (ch, s) \<Rightarrow> (no_update\<lparr> changed := ch \<rparr>, s))"
    using streak assms(3)
    by (simp add: probe_unhealthy_def Let_def r_def [symmetric] bad_streak_def probe_failover_def
        s2_def [symmetric] c)
      (simp add: count_bad_sample_def resetActiveProbeAdvantage_def)
  moreover have "eligible now s3 (Tag c) (pget d (Tag c)) g" "c \<in> set (sa_outbounds s)" "Tag c \<noteq> t"
    using sound s2 st3 by simp_all
  ultimately show ?thesis
    using st3 assms(3)
    by (auto simp: probe_switch_def switchTo_def Let_def candidateTag_def set_mode_def Now_def
        no_update_def split: if_splits)
qed


theorem confirmed_failure_fails_over_witness:
  "\<exists>u s'. UpdateActiveProbe (seconds 1080) warned ''b'' (Some (failure 0 (seconds 1080))) first_cohort = (u, s')
    \<and> changed u \<and> Now s' \<noteq> ''b''"
proof -
  let ?p = "failure 0 (seconds 1080)" and ?out = "server ''c''"
  obtain u s' where u: "UpdateActiveProbe (seconds 1080) warned ''b'' (Some ?p) first_cohort = (u, s')"
    by fastforce
  obtain d g s1 where b: "probed_state (seconds 1080) warned ''b'' ?p first_cohort = (d, g, s1)"
    by (metis prod_cases3)
  have "case probed_state (seconds 1080) warned ''b'' ?p first_cohort of (d, g, s1) \<Rightarrow>
      eligible (seconds 1080) warned (Tag ?out) (pget d (Tag ?out)) g
      \<and> \<not> too_old (seconds 1080) (pget d (Tag ?out)) smartActiveCandidateMaxAge
      \<and> \<not> lacks_evidence (map_of (sa_evidence s1) (Tag ?out)) 1"
    by code_simp
  then have c: "eligible (seconds 1080) warned (Tag ?out) (pget d (Tag ?out)) g"
    "\<not> too_old (seconds 1080) (pget d (Tag ?out)) smartActiveCandidateMaxAge"
    "\<not> lacks_evidence (map_of (sa_evidence s1) (Tag ?out)) 1"
    by (simp_all only: b prod.case not_False_eq_True)
  have "?out \<in> set (sa_outbounds warned)" "activeProbeHardFailure (Some ?p)" "Tag ?out \<noteq> ''b''"
    "0 < Time ?p" "Tag (server ''b'') = ''b''" "ptag (sa_activeProbe warned) = ''b''"
    "lastProbeAt (sa_activeProbe warned) < Time ?p" "1 \<le> hardFailureStreak (sa_activeProbe warned)"
    by (simp_all add: warned_def started_def fresh_smart_def NewSmartActive_def failure_def
        activeProbeHardFailure_def server_def probe_evidence_for_def)
  note h = this
  have "changed u \<and> Now s' \<noteq> ''b''"
    using confirmed_failure_fails_over [OF warned_reachable warned_active(1) h(5) h(4) h(6,7,8) h(2) b
        h(1) h(3) c u] by simp
  with u show ?thesis by blast
qed

end
