(* ===== verification/Departure_Scenarios.thy ===== *)
theory Departure_Scenarios
  imports Scenarios Smart_Departure
begin

text \<open>
  Two runs of the state \<open>started\<close> into a second generation: one in which every outbound answers, and one in
  which the active \<open>b\<close> fails. The states are written out and evaluated in the stages of \<open>learn_history\<close>.
\<close>

definition second_cohort :: history_map where
  "second_cohort = cohort 2 (seconds 1090) 60 300 90"

definition second_view :: history_map where
  "second_view = [(''a'', Some ((sample 2 (seconds 1090) 60)\<lparr> HealthScore := 100 \<rparr>)),
     (''b'', Some ((sample 2 (seconds 1090) 300)\<lparr> HealthScore := 60 \<rparr>)),
     (''c'', Some ((sample 2 (seconds 1090) 90)\<lparr> HealthScore := 90 \<rparr>))]"

definition failed_cohort :: history_map where
  "failed_cohort = [(''a'', Some (sample 2 (seconds 1090) 300)), (''b'', Some (failure 2 (seconds 1090))),
     (''c'', Some (sample 2 (seconds 1090) 120))]"

definition failed_view :: history_map where
  "failed_view = [(''a'', Some ((sample 2 (seconds 1090) 300)\<lparr> HealthScore := 60 \<rparr>)),
     (''b'', Some (failure 2 (seconds 1090))),
     (''c'', Some ((sample 2 (seconds 1090) 120)\<lparr> HealthScore := 90 \<rparr>))]"

definition remembering :: "history_map \<Rightarrow> smart_active" where
  "remembering view = started\<lparr> sa_selectionGeneration := 2, sa_lastFullGeneration := 2, sa_lastFullHistory := view \<rparr>"

definition second_evidence :: "(tag, smart_evidence) go_map" where
  "second_evidence = [(''a'', clean_streak 2 2 (seconds 1090) 100), (''b'', clean_streak 2 2 (seconds 1090) 60),
     (''c'', clean_streak 2 2 (seconds 1090) 90)]"

definition failed_evidence :: "(tag, smart_evidence) go_map" where
  "failed_evidence = [(''a'', clean_streak 2 2 (seconds 1090) 60),
     (''b'', (clean_streak 0 2 (seconds 1090) 0)\<lparr> failureStreak := 1, recoveryPending := True \<rparr>),
     (''c'', clean_streak 2 2 (seconds 1090) 90)]"

definition after_learning :: "history_map \<Rightarrow> history_map \<Rightarrow> (tag, smart_evidence) go_map \<Rightarrow> smart_active" where
  "after_learning seen view evidence = (remembering view)\<lparr> sa_evidence := evidence, sa_latestHistory := seen,
     sa_diagnosticHistory := view, sa_diagnosticGeneration := 2, sa_diagnosticSource := SourceFull \<rparr>"

lemma second_stages:
  "remember_settled (seconds 1100) started second_cohort = (True, remembering second_view)"
  "updateEvidence (seconds 1100) (remembering second_view) second_cohort
     = (remembering second_view)\<lparr> sa_evidence := second_evidence \<rparr>"
  "fullGenerationDecisionHistory (seconds 1100) ((remembering second_view)\<lparr> sa_evidence := second_evidence,
     sa_latestHistory := second_cohort \<rparr>) ''b'' second_cohort = second_view"
  by code_simp+

lemma failed_stages:
  "remember_settled (seconds 1100) started failed_cohort = (True, remembering failed_view)"
  "updateEvidence (seconds 1100) (remembering failed_view) failed_cohort
     = (remembering failed_view)\<lparr> sa_evidence := failed_evidence \<rparr>"
  "fullGenerationDecisionHistory (seconds 1100) ((remembering failed_view)\<lparr> sa_evidence := failed_evidence,
     sa_latestHistory := failed_cohort \<rparr>) ''b'' failed_cohort = failed_view"
  by code_simp+

lemma remembering_fields [simp]:
  "\<not> sa_bootstrap (remembering view)" "sa_selectionGeneration (remembering view) = 2"
  "sa_lastFullGeneration (remembering view) = 2" "sa_active (remembering view) = Some (server ''b'')"
  "betterCandidate (sa_activeProbe (remembering view)) = []"
  by (simp_all add: remembering_def started_def fresh_smart_def NewSmartActive_def probe_evidence_for_def)

lemma learned_by_stages:
  assumes "remember_settled now started seen = (True, remembering view)"
    and "updateEvidence now (remembering view) seen = (remembering view)\<lparr> sa_evidence := evidence \<rparr>"
    and "fullGenerationDecisionHistory now ((remembering view)\<lparr> sa_evidence := evidence,
      sa_latestHistory := seen \<rparr>) ''b'' seen = view"
  shows "learn_history now started seen = (view, after_learning seen view evidence)"
  using assms(3)
  by (simp add: learn_history_def assms(1,2) after_learning_def reconcileActiveProbeAdvantage_def candidateTag_def
      rememberDecisionDiagnostics_def server_def Let_def)

lemmas second_learned = learned_by_stages [OF second_stages]
lemmas failed_learned = learned_by_stages [OF failed_stages]

text \<open>The active works in the second cohort and is critical in the failed one, and both updates leave it.\<close>

lemma second_works: "works (seconds 1100) (after_learning second_cohort second_view second_evidence) (server ''b'') second_view 2"
  by code_simp

lemma second_switches: "fst (updateOutboundsInfo (seconds 1100) started second_cohort ModeNone 0)"
proof -
  let ?s = "after_learning second_cohort second_view second_evidence"
  have "fst (update_confirmed (seconds 1100) ?s (server ''b'') second_cohort second_view ModeNone 0)"
    by code_simp
  moreover have "sa_active ?s = Some (server ''b'')" "\<not> sa_bootstrap ?s" "sa_confirmed ?s"
    by (simp_all add: after_learning_def) (simp add: remembering_def started_def)
  ultimately show ?thesis
    by (simp only: updateOutboundsInfo_def second_learned Let_def prod.case if_False option.case simp_thms)
qed

end
