(* ===== verification/Smart_Worsening.thy ===== *)
theory Smart_Worsening
  imports Smart_Invariant
begin

text \<open>
  Evidence that only gets worse: a sample with the same transport result and larger penalties
  has a lower score, a state at least as severe, and is eligible only if the original was.
  Laying newer evidence over a saved entry produces exactly such a sample.
\<close>

definition worsens :: "url_test_history \<Rightarrow> url_test_history \<Rightarrow> bool" where
  "worsens h h' \<longleftrightarrow>
     Time h' = Time h \<and> Delay h' = Delay h \<and> IsFromCache h' = IsFromCache h
     \<and> Success h' = Success h \<and> ErrorType h' = ErrorType h \<and> URLTestStatus h' = URLTestStatus h
     \<and> CheckGeneration h' = CheckGeneration h \<and> CombinedReady h' = CombinedReady h
     \<and> IPv6Status h' = IPv6Status h \<and> IPv6CheckedAt h' = IPv6CheckedAt h
     \<and> IPv6Generation h' = IPv6Generation h \<and> IPv6TargetSuccess h' = IPv6TargetSuccess h
     \<and> IPv6TargetCount h' = IPv6TargetCount h
     \<and> RuntimePenalty h \<le> RuntimePenalty h' \<and> RealUserPenalty h \<le> RealUserPenalty h'
     \<and> VolatilityPenalty h \<le> VolatilityPenalty h' \<and> DegradationPoints h \<le> DegradationPoints h'
     \<and> UDPPenalty h \<le> UDPPenalty h'
     \<and> (\<forall>t. getPolicyPenalty t (Some h) \<le> getPolicyPenalty t (Some h'))"

lemma worsens_refl: "worsens h h"
  by (simp add: worsens_def)

lemma health_score_penalties:
  assumes "rp \<le> rp'" "ru \<le> ru'" "vol \<le> vol'" "udp \<le> udp'" "pol \<le> pol'"
  shows "CalculateHealthScoreWithEvidence now d ok e c t rp' ru' vol' udp' pol'
    \<le> CalculateHealthScoreWithEvidence now d ok e c t rp ru vol udp pol"
proof -
  have pens: "clamp rp 0 25 \<le> clamp rp' 0 25" "clamp ru 0 30 \<le> clamp ru' 0 30"
    "clamp vol 0 25 \<le> clamp vol' 0 25" "clamp udp 0 15 \<le> clamp udp' 0 15"
    "clamp pol 0 50 \<le> clamp pol' 0 50"
    using assms by (simp_all add: clamp_mono)
  show ?thesis
    unfolding CalculateHealthScoreWithEvidence_def Let_def
    by (rule clamp_mono) (use pens in linarith)+
qed

lemma worsens_score:
  assumes "worsens h h'"
  shows "getHealthScore now t (Some h') \<le> getHealthScore now t (Some h)"
  using assms unfolding worsens_def getHealthScore_def
  by (auto simp: Let_def intro!: health_score_penalties)

lemma severity_cascade:
  assumes "C \<Longrightarrow> C'" "T' \<Longrightarrow> T" "T \<Longrightarrow> B'" "B \<Longrightarrow> B'" "D \<Longrightarrow> D'" "S \<Longrightarrow> S'"
  shows "(if C then CRITICAL else if T then SUSPECT else if B then BAD else if D then DEGRADED
      else if S then SUSPECT else GOOD)
    \<le> (if C' then CRITICAL else if T' then SUSPECT else if B' then BAD else if D' then DEGRADED
      else if S' then SUSPECT else GOOD)"
  using assms unfolding less_eq_health_state_def by (cases C'; cases T'; cases B'; cases D'; cases S') auto

lemma worsens_state:
  assumes "worsens h h'"
  shows "smartActiveState now (Some h) \<le> smartActiveState now (Some h')"
proof -
  have score: "getHealthScore now [] (Some h') \<le> getHealthScore now [] (Some h)"
    by (rule worsens_score [OF assms])
  have eqs: "Success h' = Success h" "ErrorType h' = ErrorType h" "URLTestStatus h' = URLTestStatus h"
    "CheckGeneration h' = CheckGeneration h"
    and le: "RuntimePenalty h \<le> RuntimePenalty h'" "RealUserPenalty h \<le> RealUserPenalty h'"
    "VolatilityPenalty h \<le> VolatilityPenalty h'" "DegradationPoints h \<le> DegradationPoints h'"
    using assms by (simp_all add: worsens_def)
  have crit: "(IsCriticalProbeError (ErrorType h) \<or> DegradationPoints h \<ge> 75
      \<or> \<not> Success h \<and> RealUserPenalty h \<ge> 20) \<Longrightarrow> (IsCriticalProbeError (ErrorType h) \<or> DegradationPoints h' \<ge> 75
      \<or> \<not> Success h \<and> RealUserPenalty h' \<ge> 20)"
    using le by linarith
  show ?thesis
  proof (cases "CheckGeneration h > 0 \<and> URLTestStatus h = StatusChecking")
    case True
    then show ?thesis
      using crit unfolding smartActiveState_def option.case eqs by (auto simp: less_eq_health_state_def)
  next
    case False
    show ?thesis
      unfolding smartActiveState_def option.case eqs Let_def if_not_P [OF False]
      by (rule severity_cascade) (use le score crit in \<open>linarith | blast\<close>)+
  qed
qed

lemma worsens_ipv6:
  assumes "worsens h h'"
  shows "ipv6Preferred now s (Some h') g = ipv6Preferred now s (Some h) g"
  using assms
  by (simp add: worsens_def ipv6Preferred_def IPv6CapabilityFreshForMode_def IPv6CapabilityFresh_def)

lemma worsens_base:
  "worsens h h' \<Longrightarrow> Time h' = Time h \<and> IsFromCache h' = IsFromCache h \<and> Success h' = Success h
    \<and> ErrorType h' = ErrorType h \<and> URLTestStatus h' = URLTestStatus h
    \<and> CheckGeneration h' = CheckGeneration h \<and> CombinedReady h' = CombinedReady h"
  by (simp add: worsens_def)

lemma worsens_eligible:
  assumes "worsens h h'" "eligible now s t (Some h') g"
  shows "eligible now s t (Some h) g"
proof -
  have pol: "getPolicyPenalty t (Some h) \<le> getPolicyPenalty t (Some h')"
    using assms(1) by (simp add: worsens_def)
  have "smartActiveState now (Some h) < BAD"
    using worsens_state [OF assms(1), of now] assms(2) by (auto simp: eligible_iff)
  then show ?thesis
    using assms(2) worsens_score [OF assms(1), of now t] pol worsens_ipv6 [OF assms(1)]
      worsens_base [OF assms(1)]
    unfolding eligible_iff by auto
qed

text \<open>
  The policy penalty of a tag is 0 or 45, and monitoring stores it in the sample; a positive
  value below 45 would replace the larger one computed from the tag.
\<close>

lemma merge_worsens:
  assumes "case latest of None \<Rightarrow> True | Some l \<Rightarrow> PolicyPenalty l \<le> 0 \<or> RussianServerPolicyPenalty \<le> PolicyPenalty l"
  shows "worsens h (mergeSmartActiveWorseningEvidence h latest)"
proof (cases latest)
  case None
  then show ?thesis
    by (simp add: mergeSmartActiveWorseningEvidence_def worsens_refl)
next
  case (Some l)
  have "CalculatePolicyPenalty t c \<le> 45" for t c
    using policy_penalty_cases [of t c] by auto
  then have "getPolicyPenalty t (Some h) \<le> getPolicyPenalty t (Some (mergeSmartActiveWorseningEvidence h latest))" for t
    using assms order_trans [of "CalculatePolicyPenalty t _" 45]
    by (auto simp: Some getPolicyPenalty_def mergeSmartActiveWorseningEvidence_def Let_def max_def)
  then show ?thesis
    by (auto simp: worsens_def) (auto simp: Some mergeSmartActiveWorseningEvidence_def Let_def)
qed

lemma failure_not_successful [simp]: "\<not> Success (applySmartActiveFailure now h (Some l))"
  by (simp add: applySmartActiveFailure_def keep_worse_evidence_def Let_def)

lemma pending_not_successful [simp]: "\<not> Success (applySmartActivePending h (Some l))"
  by (simp add: applySmartActivePending_def keep_worse_evidence_def)

lemma overlay_cases:
  "overlay_entry now False saved latest = mergeSmartActiveWorseningEvidence saved latest
    \<or> \<not> Success (overlay_entry now False saved latest)"
  by (cases latest) (auto simp: overlay_entry_def Let_def newerSmartActiveFailure_def
      newerSmartActivePending_def newerSmartActiveSnapshot_def)

end
