(* ===== verification/Smart_Ranking.thy ===== *)
theory Smart_Ranking
  imports Smart_Invariant
begin

text \<open>
  The comparators of the selection are rankings, and the start-up choice does not depend on the
  order of the profile. The comparator of \<open>bestProgressiveBatchCandidate\<close> answers \<open>true\<close> when it
  is asked about the active and itself; the sort never asks, because tags are distinct, so it
  agrees with a ranking wherever it is used.
\<close>

section \<open>Comparators\<close>

lemma ranking_tag_less: "ranking tag_less"
  unfolding tag_less_def by (rule ranking_key)

lemma ranking_score_delay: "ranking tie \<Longrightarrow> ranking (score_delay_less now history tie)"
  unfolding score_delay_less_def by (intro ranking_desc ranking_asc)

interpretation by_score: ranking "score_delay_less now history tag_less"
  by (rule ranking_score_delay [OF ranking_tag_less])

interpretation by_score_stable: ranking "score_delay_less now history (\<lambda>_ _. False)"
  by (rule ranking_score_delay [OF ranking_never])

interpretation candidates: ranking "candidate_less now s history g"
  unfolding candidate_less_def by (rule ranking_desc [OF ranking_score_delay [OF ranking_tag_less]])

definition active_first :: "tag \<Rightarrow> outbound \<Rightarrow> outbound \<Rightarrow> bool" where
  "active_first activeTag = by_key_asc (\<lambda>out. Tag out \<noteq> activeTag) tag_less"

definition progressive_rank :: "instant \<Rightarrow> smart_active \<Rightarrow> history_map \<Rightarrow> u64 \<Rightarrow> outbound \<Rightarrow> outbound \<Rightarrow> bool" where
  "progressive_rank now s history generation =
     by_key_desc (ipv6_first now s history generation)
       (score_delay_less now history (active_first (candidateTag (sa_active s))))"

interpretation progressive: ranking "progressive_rank now s history g"
  unfolding progressive_rank_def active_first_def
  by (intro ranking_desc ranking_score_delay ranking_asc ranking_tag_less)

lemma progressive_less_rank:
  "Tag x \<noteq> Tag y \<Longrightarrow> progressive_less now s history g x y = progressive_rank now s history g x y"
  by (auto simp: progressive_less_def progressive_rank_def by_key_desc_def by_key_asc_def
      score_delay_less_def active_first_def active_tie_def tag_less_def)

lemma progressive_separates:
  assumes "Tag x \<noteq> Tag y"
  shows "progressive_rank now s history g x y \<or> progressive_rank now s history g y x"
proof -
  have "Tag x < Tag y \<or> Tag y < Tag x"
    using assms by (rule neqE) simp_all
  then show ?thesis
    by (auto simp: progressive_rank_def by_key_desc_def by_key_asc_def score_delay_less_def
        active_first_def tag_less_def)
qed

lemma candidates_separate:
  assumes "Tag x \<noteq> Tag y"
  shows "candidate_less now s history g x y \<or> candidate_less now s history g y x"
proof -
  have "Tag x < Tag y \<or> Tag y < Tag x"
    using assms by (rule neqE) simp_all
  then show ?thesis
    by (auto simp: candidate_less_def by_key_desc_def by_key_asc_def score_delay_less_def tag_less_def)
qed

text \<open>A sort of distinct elements never compares an element with itself.\<close>

lemma sort_insert_cong:
  "(\<And>y. y \<in> set ys \<Longrightarrow> lt x y = lt' x y) \<Longrightarrow> sort_insert lt x ys = sort_insert lt' x ys"
  by (induction ys) auto

lemma fold_insert_cong:
  assumes "distinct (xs @ acc)" "\<And>a b. a \<in> set (xs @ acc) \<Longrightarrow> b \<in> set (xs @ acc) \<Longrightarrow> a \<noteq> b \<Longrightarrow> lt a b = lt' a b"
  shows "fold (sort_insert lt) xs acc = fold (sort_insert lt') xs acc"
  using assms
proof (induction xs arbitrary: acc)
  case Nil
  then show ?case by simp
next
  case (Cons x xs)
  have same: "sort_insert lt x acc = sort_insert lt' x acc"
    by (rule sort_insert_cong) (use Cons.prems in auto)
  have set_ins: "set (sort_insert lt' x acc) = insert x (set acc)"
    by (metis mset_sort_insert set_mset_add_mset_insert set_mset_mset)
  have "distinct (sort_insert lt' x acc) = distinct (x # acc)"
    by (metis mset.simps(2) mset_eq_imp_distinct_iff mset_sort_insert)
  then have "distinct (xs @ sort_insert lt' x acc)"
    using Cons.prems(1) set_ins by auto
  then have "fold (sort_insert lt) xs (sort_insert lt' x acc) = fold (sort_insert lt') xs (sort_insert lt' x acc)"
    by (rule Cons.IH) (use Cons.prems(2) set_ins in auto)
  then show ?case
    by (simp add: same)
qed

lemma slice_stable_cong:
  assumes "distinct xs" "\<And>a b. a \<in> set xs \<Longrightarrow> b \<in> set xs \<Longrightarrow> a \<noteq> b \<Longrightarrow> lt a b = lt' a b"
  shows "slice_stable lt xs = slice_stable lt' xs"
  unfolding slice_stable_def by (rule arg_cong [where f = rev], rule fold_insert_cong) (use assms in auto)

section \<open>The order of the profile\<close>

lemma distinct_tags_inj: "distinct (map Tag xs) \<Longrightarrow> x \<in> set xs \<Longrightarrow> y \<in> set xs \<Longrightarrow> x \<noteq> y \<Longrightarrow> Tag x \<noteq> Tag y"
  by (auto simp: distinct_map inj_on_def)

lemma slice_stable_progressive:
  assumes "distinct (map Tag xs)" "mset xs = mset ys"
  shows "slice_stable (progressive_less now s history g) xs = slice_stable (progressive_less now s history g) ys"
proof -
  have ys: "distinct (map Tag ys)" "set ys = set xs"
    using assms by (metis mset_eq_imp_distinct_iff mset_map) (metis assms(2) set_mset_mset)
  have to_rank: "slice_stable (progressive_less now s history g) zs
      = slice_stable (progressive_rank now s history g) zs" if "distinct (map Tag zs)" for zs
    by (rule slice_stable_cong)
      (use that distinct_tags_inj [OF that] progressive_less_rank in \<open>auto simp: distinct_map\<close>)
  have "slice_stable (progressive_rank now s history g) xs = slice_stable (progressive_rank now s history g) ys"
    by (rule progressive.order_independent [OF assms(2)])
      (use distinct_tags_inj [OF assms(1)] progressive_separates in blast)
  then show ?thesis
    by (simp add: to_rank assms(1) ys(1))
qed

lemma best_score_of_order: "mset xs = mset ys \<Longrightarrow> best_score_of now history xs = best_score_of now history ys"
  unfolding best_score_of_def
  by (rule fun_cong [OF fold_multiset_equiv]) (auto simp: fun_eq_iff max.left_commute max.commute max.assoc)

lemma bestBootstrapCandidate_order:
  assumes "mset outs = mset (sa_outbounds s)" "distinct (map Tag (sa_outbounds s))"
  shows "bestBootstrapCandidate now (s\<lparr> sa_outbounds := outs \<rparr>) history g = bestBootstrapCandidate now s history g"
proof -
  let ?s = "s\<lparr> sa_outbounds := outs \<rparr>"
  have sets: "set outs = set (sa_outbounds s)"
    using assms(1) by (metis set_mset_mset)
  have member: "hasOutbound ?s t = hasOutbound s t" for t
    by (simp add: hasOutbound_iff sets)
  have fields: "sa_startedAt ?s = sa_startedAt s" "sa_ipv6Mode ?s = sa_ipv6Mode s"
    by simp_all
  have v6: "ipv6Preferred now ?s h g = ipv6Preferred now s h g" for h
    by (simp add: ipv6Preferred_def cong: option.case_cong)
  have st: "candidateStatus now ?s t h g = candidateStatus now s t h g" for t h
    by (simp only: candidateStatus_def member v6 fields)
  have elig: "mset (progressive_eligible now ?s history g 0) = mset (progressive_eligible now s history g 0)"
    by (simp add: progressive_eligible_def st assms(1))
  have first: "ipv6_first now ?s history g = ipv6_first now s history g"
    by (simp add: ipv6_first_def v6 fun_eq_iff)
  have pref: "mset (filter (ipv6_first now s history g) (progressive_eligible now ?s history g 0))
      = mset (filter (ipv6_first now s history g) (progressive_eligible now s history g 0))"
    by (simp add: elig)
  then have nil: "filter (ipv6_first now s history g) (progressive_eligible now ?s history g 0) = []
      \<longleftrightarrow> filter (ipv6_first now s history g) (progressive_eligible now s history g 0) = []"
    by (metis mset_zero_iff)
  have pool: "mset (progressive_pool now ?s history g 0) = mset (progressive_pool now s history g 0)"
    using elig pref nil by (simp add: progressive_pool_def Let_def first)
  have dist: "distinct (map Tag (progressive_pool now s history g 0))"
    using assms(2)
    by (auto simp: progressive_pool_def progressive_eligible_def Let_def distinct_map_filter)
  have less: "progressive_less now ?s history g = progressive_less now s history g"
    by (simp add: progressive_less_def first)
  show ?thesis
    unfolding bestBootstrapCandidate_def bestProgressiveBatchCandidate_def Let_def less
      slice_stable_progressive [OF dist pool [symmetric], symmetric] best_score_of_order [OF pool]
    by (rule refl)
qed

end
