(* ===== verification/Claims_Ranking.thy ===== *)
theory Claims_Ranking
  imports Departure_Scenarios Smart_Worsening Smart_Ranking
begin

text \<open>
  The properties of the rankings: hysteresis, quarantine, the memory of the last complete
  generation, and the independence of the choice from the order of the profile.
\<close>

section \<open>Emergencies\<close>

text \<open>
  C16: After start-up a critical active is left by the first update that may decide. When the histories of the
  decision show the active in state \<open>CRITICAL\<close>, even with a check of it in progress, and another outbound is
  eligible, at most ten minutes old and has a clean success, every refresh by the user, every completed batch
  of the selected generation, and every other update for which that generation is settled or remembered
  switches to an eligible outbound. An update on an unsettled generation without a snapshot keeps it.
\<close>

theorem critical_active_is_left:
  assumes "smart_reachable start outbounds ipmode ttl s" and "\<not> sa_bootstrap s" and "sa_active s = Some current"
    and "learn_history now s history = (d, s1)" and "g = sa_selectionGeneration s1"
    and "mode = ModeUserRefresh
      \<or> mode = ModeCompletedBatch \<and> batchGeneration = g
      \<or> mode \<noteq> ModeUserRefresh \<and> mode \<noteq> ModeCompletedBatch
        \<and> (generationSettled s history g \<or> g = sa_lastFullGeneration s \<and> sa_lastFullHistory s \<noteq> [])"
    and "smartActiveState now (pget d (Tag current)) = CRITICAL"
    and "out \<in> set (sa_outbounds s)" "eligible now s (Tag out) (pget d (Tag out)) g"
      "\<not> too_old now (pget d (Tag out)) smartActiveCandidateMaxAge"
      "\<not> lacks_evidence (map_of (sa_evidence s1) (Tag out)) 1"
    and "updateOutboundsInfo now s history mode batchGeneration = (ch, s')"
  shows "ch \<and> (\<exists>c \<in> set (sa_outbounds s). sa_active s' = Some c \<and> Tag c \<noteq> Tag current
    \<and> eligible now s (Tag c) (pget d (Tag c)) g)"
proof -
  note wf = reachable_wf [OF assms(1)]
  have confirmed: "sa_confirmed s"
    using wf assms(3) by (simp add: wf_smart_def)
  have "may_decide s history mode batchGeneration g"
    using assms(2,6) by (auto simp: may_decide_def)
  then have ch
    using critical_leaves [OF assms(2,3) confirmed assms(4,5) _ assms(7-11)] assms(12) by fastforce
  note m = updateOutboundsInfo_moves [OF wf_confirmed [OF wf] assms(4)]
  have mv: "moves now d g s1 (True, s')"
    using m(2) [of mode batchGeneration] assms(5,12) \<open>ch\<close> by simp
  have same: "sa_active s1 = Some current" "sa_outbounds s1 = sa_outbounds s" "candidateStatus now s1 = candidateStatus now s"
    using m(1) learns_status assms(3) by (auto simp: learns_def)
  have "installed now d g s1 s'" "Now s' \<noteq> Tag current"
    using mv Now_cong [of s' s1] same(1) by (auto simp: moves_def Now_def)
  then show ?thesis
    using \<open>ch\<close> by (auto simp: installed_def same(2,3) Now_def)
qed

theorem critical_active_is_left_witness:
  "\<exists>ch s'. updateOutboundsInfo (seconds 1100) started failed_cohort ModeNone 0 = (ch, s') \<and> ch \<and> Now s' \<noteq> ''b''"
proof -
  let ?now = "seconds 1100" and ?s = "after_learning failed_cohort failed_view failed_evidence"
  obtain ch s' where u: "updateOutboundsInfo ?now started failed_cohort ModeNone 0 = (ch, s')"
    by fastforce
  have h: "smartActiveState ?now (pget failed_view (Tag (server ''b''))) = CRITICAL"
    "eligible ?now started (Tag (server ''c'')) (pget failed_view (Tag (server ''c''))) 2"
    "\<not> too_old ?now (pget failed_view (Tag (server ''c''))) smartActiveCandidateMaxAge"
    "\<not> lacks_evidence (map_of (sa_evidence ?s) (Tag (server ''c''))) 1"
    and settled: "generationSettled started failed_cohort 2"
    by code_simp+
  have s: "server ''c'' \<in> set (sa_outbounds started)" "\<not> sa_bootstrap started" "2 = sa_selectionGeneration ?s"
    by (simp_all add: started_def fresh_smart_def NewSmartActive_def after_learning_def remembering_def)
  have "ch \<and> (\<exists>c \<in> set (sa_outbounds started). sa_active s' = Some c \<and> Tag c \<noteq> Tag (server ''b'')
      \<and> eligible ?now started (Tag c) (pget failed_view (Tag c)) 2)"
    by (rule critical_active_is_left [OF started_reachable s(2) started_active(1) failed_learned s(3) _ h(1) s(1) h(2-4) u])
      (simp add: settled)
  then show ?thesis
    using u by (auto simp: Now_def server_def)
qed

section \<open>Hysteresis\<close>

text \<open>
  C17: After start-up traffic leaves a working active (one that is eligible itself, and that the isolated probe
  has not confirmed unhealthy) only with a reason, which depends on the way. An update that the user did not
  ask for: the target has two clean successes in a row and no failure, a sample of at most ten minutes, a
  significant advantage, traffic has not just left it, and it is \<open>GOOD\<close> unless the active is. A refresh by the
  user: the target carries no penalty and is not a near tie. A healthy sample of the isolated probe: as for an
  update, but one clean success is enough; the target is \<open>GOOD\<close>, and was the better one in the samples before,
  so that this is at least the second in a row.
\<close>

theorem routine_switch_has_evidence:
  assumes "smart_reachable start outbounds ipmode ttl s" and "\<not> sa_bootstrap s" and "sa_active s = Some current"
  shows "(\<forall>now history mode bg d s1 s'. learn_history now s history = (d, s1)
        \<and> works now s1 current d (sa_selectionGeneration s1)
        \<and> updateOutboundsInfo now s history mode bg = (True, s') \<longrightarrow>
      (\<exists>c. sa_active s' = Some c \<and>
        (if mode = ModeUserRefresh
         then Tag c \<noteq> Tag current \<and> \<not> userRefreshCandidatePenalized (pget d (Tag c))
           \<and> \<not> userRefreshMinimalTie now (Tag current) (Tag c) d
         else well_founded now s1 2 current c d (sa_selectionGeneration s1)
           \<and> (smartActiveState now (pget d (Tag current)) \<noteq> GOOD
              \<longrightarrow> smartActiveState now (pget d (Tag c)) = GOOD))))
    \<and> (\<forall>now t p history d g s1 u s'. probed_state now s t p history = (d, g, s1)
        \<and> \<not> activeProbeHardFailure (Some p) \<and> \<not> activeProbePoorQuality (Some p)
        \<and> UpdateActiveProbe now s t (Some p) history = (u, s') \<and> changed u \<longrightarrow>
      (\<exists>c. sa_active s' = Some c \<and> well_founded now s1 1 current c d g
        \<and> smartActiveState now (pget d (Tag c)) = GOOD \<and> betterCandidate (sa_activeProbe s1) = Tag c
        \<and> smartActiveProbeConfirmations \<le> betterStreak (sa_activeProbe s1) + 1))"
proof (intro conjI allI impI)
  fix now history mode bg d s1 s'
  assume "learn_history now s history = (d, s1) \<and> works now s1 current d (sa_selectionGeneration s1)
    \<and> updateOutboundsInfo now s history mode bg = (True, s')"
  then show "\<exists>c. sa_active s' = Some c \<and>
        (if mode = ModeUserRefresh
         then Tag c \<noteq> Tag current \<and> \<not> userRefreshCandidatePenalized (pget d (Tag c))
           \<and> \<not> userRefreshMinimalTie now (Tag current) (Tag c) d
         else well_founded now s1 2 current c d (sa_selectionGeneration s1)
           \<and> (smartActiveState now (pget d (Tag current)) \<noteq> GOOD
              \<longrightarrow> smartActiveState now (pget d (Tag c)) = GOOD))"
    using update_leaves_working [OF reachable_wf [OF assms(1)] assms(2,3) _ refl] by blast
next
  fix now t p history d g s1 u s'
  assume *: "probed_state now s t p history = (d, g, s1)
        \<and> \<not> activeProbeHardFailure (Some p) \<and> \<not> activeProbePoorQuality (Some p)
        \<and> UpdateActiveProbe now s t (Some p) history = (u, s') \<and> changed u"
  then have "UpdateActiveProbe now s t (Some p) history = (u, s')" by blast
  then have "probe_healthy now s1 current d g (smartActiveState now (pget d (Tag current))) = (u, s')"
    using * assms(3)
    by (cases rule: UpdateActiveProbe_cases)
      (auto simp: no_update_def probed_state_def probed_evidence_def Let_def split: prod.splits)
  then show "\<exists>c. sa_active s' = Some c \<and> well_founded now s1 1 current c d g
        \<and> smartActiveState now (pget d (Tag c)) = GOOD \<and> betterCandidate (sa_activeProbe s1) = Tag c
        \<and> smartActiveProbeConfirmations \<le> betterStreak (sa_activeProbe s1) + 1"
    using probe_leaves_working * by blast
qed

theorem routine_switch_has_evidence_witness:
  "\<exists>s' c. updateOutboundsInfo (seconds 1100) started second_cohort ModeNone 0 = (True, s') \<and> sa_active s' = Some c
    \<and> well_founded (seconds 1100) (after_learning second_cohort second_view second_evidence) 2 (server ''b'') c second_view 2"
proof -
  let ?s = "after_learning second_cohort second_view second_evidence"
  obtain s' where u: "updateOutboundsInfo (seconds 1100) started second_cohort ModeNone 0 = (True, s')"
    using second_switches by (metis prod.collapse)
  have "\<not> sa_bootstrap started" "sa_selectionGeneration ?s = 2"
    by (simp_all add: started_def after_learning_def)
  then show ?thesis
    using routine_switch_has_evidence [OF started_reachable _ started_active(1), THEN conjunct1, rule_format,
        of "seconds 1100" second_cohort second_view ?s ModeNone 0 s'] second_learned second_works u by auto
qed

text \<open>
  C18: The quarantine holds. Every switch after start-up, by an update or by the isolated probe, enters the
  outbound traffic left for two minutes, and as long as an entry has not expired no update and no probe lifts
  it unless its outbound is the active one. Start-up is the exception, on purpose: an update during it enters
  nothing, so the best outbound so far may be left and taken again.
\<close>

theorem quarantine_holds:
  assumes "smart_reachable start outbounds ipmode ttl s" and "now \<le> t"
  shows "(\<forall>history mode bg ch s'. updateOutboundsInfo now s history mode bg = (ch, s') \<longrightarrow>
          (a \<noteq> Now s \<and> avoided t (sa_avoidUntil s) a \<longrightarrow> avoided t (sa_avoidUntil s') a)
          \<and> (\<not> sa_bootstrap s \<and> ch \<and> t \<le> now + smartActiveAvoidAfterSwitch \<longrightarrow> avoided t (sa_avoidUntil s') (Now s))
          \<and> (sa_bootstrap s \<and> avoided t (sa_avoidUntil s') a \<longrightarrow> avoided t (sa_avoidUntil s) a))
    \<and> (\<forall>x p history u s'. UpdateActiveProbe now s x p history = (u, s') \<longrightarrow>
          (a \<noteq> Now s \<and> avoided t (sa_avoidUntil s) a \<longrightarrow> avoided t (sa_avoidUntil s') a)
          \<and> (changed u \<and> t \<le> now + smartActiveAvoidAfterSwitch \<longrightarrow> avoided t (sa_avoidUntil s') (Now s)))"
proof -
  note wf = reachable_wf [OF assms(1)] and distinct = reachable_avoided [OF assms(1)]
  have tag: "Now s \<noteq> []" if "\<not> sa_bootstrap s"
    using wf that by (auto simp: wf_smart_def Now_def)
  show ?thesis
  proof (intro conjI allI impI)
    fix history mode bg ch s'
    assume u: "updateOutboundsInfo now s history mode bg = (ch, s')"
    show "avoided t (sa_avoidUntil s') a" if "a \<noteq> Now s \<and> avoided t (sa_avoidUntil s) a"
      using keeps_avoided_updateOutboundsInfo [of now s history mode bg] u that distinct assms(2)
      by (simp add: keeps_avoided_def)
    show "avoided t (sa_avoidUntil s') (Now s)" if "\<not> sa_bootstrap s \<and> ch \<and> t \<le> now + smartActiveAvoidAfterSwitch"
      using enters_updateOutboundsInfo [OF wf, of now history mode bg] update_changes [OF wf] u that tag
      by (simp add: enters_def)
    show "avoided t (sa_avoidUntil s) a" if "sa_bootstrap s \<and> avoided t (sa_avoidUntil s') a"
      using startup_enters_nothing [OF distinct _ assms(2), of history mode bg a] u that by simp
  next
    fix x p history u s'
    assume u: "UpdateActiveProbe now s x p history = (u, s')"
    show "avoided t (sa_avoidUntil s') a" if "a \<noteq> Now s \<and> avoided t (sa_avoidUntil s) a"
      using keeps_avoided_UpdateActiveProbe [of now s x p history] u that distinct assms(2)
      by (simp add: keeps_avoided_def)
    show "avoided t (sa_avoidUntil s') (Now s)" if "changed u \<and> t \<le> now + smartActiveAvoidAfterSwitch"
      using enters_UpdateActiveProbe [OF u] probe_changes [OF wf u] that by (simp add: enters_def)
  qed
qed

theorem quarantine_holds_witness:
  "\<exists>s'. updateOutboundsInfo (seconds 1100) started second_cohort ModeNone 0 = (True, s')
    \<and> avoided (seconds 1200) (sa_avoidUntil s') ''b''"
proof -
  obtain s' where u: "updateOutboundsInfo (seconds 1100) started second_cohort ModeNone 0 = (True, s')"
    using second_switches by (metis prod.collapse)
  have "\<not> sa_bootstrap started" "seconds 1200 \<le> seconds 1100 + smartActiveAvoidAfterSwitch"
    by (simp_all add: started_def)
  moreover have "seconds 1100 \<le> seconds 1200" by simp
  ultimately show ?thesis
    using quarantine_holds [OF started_reachable \<open>seconds 1100 \<le> seconds 1200\<close>, THEN conjunct1, rule_format, OF u] u
    by auto
qed

section \<open>No ping-pong\<close>

text \<open>
  Two working servers never outrank each other. When both answered, neither has an IPv6
  preference and both are judged as a \<open>GOOD\<close> active would be, at most one of them has a
  significant advantage over the other, so a good active cannot oscillate between them.
\<close>

theorem good_advantage_is_antisymmetric:
  assumes "sa_ipv6Mode s \<noteq> DomainStrategyPreferIPv6"
    and "pget history x = Some hx" "pget history y = Some hy" "Success hx" "Success hy"
    and "fst (significantSmartActiveAdvantage now s x y history GOOD g)"
  shows "\<not> fst (significantSmartActiveAdvantage now s y x history GOOD g)"
  using assms
  by (auto simp: significantSmartActiveAdvantage_def state_advantage_def Let_def split: if_splits)

theorem good_advantage_is_antisymmetric_witness:
  "fst (significantSmartActiveAdvantage (seconds 1100) started ''a'' ''b'' first_cohort GOOD 1)
    \<and> \<not> fst (significantSmartActiveAdvantage (seconds 1100) started ''b'' ''a'' first_cohort GOOD 1)"
proof -
  have a: "fst (significantSmartActiveAdvantage (seconds 1100) started ''a'' ''b'' first_cohort GOOD 1)"
    by code_simp
  moreover have "\<not> fst (significantSmartActiveAdvantage (seconds 1100) started ''b'' ''a'' first_cohort GOOD 1)"
    by (rule good_advantage_is_antisymmetric [where hx = "sample 1 (seconds 1050) 300"
          and hy = "sample 1 (seconds 1050) 90", OF _ _ _ _ _ a])
      (simp_all add: started_def fresh_smart_def NewSmartActive_def first_cohort_def cohort_def sample_def
        zero_history_def)
  ultimately show ?thesis ..
qed

section \<open>The memory of the last complete generation\<close>

text \<open>
  Later evidence can veto a saved candidate but never promote it. If an entry of the
  snapshot is eligible after the newer sample of its outbound has been laid over it, it was
  eligible before, and its score has not grown.
\<close>

theorem overlay_never_promotes:
  assumes "eligible now s t (Some (overlay_entry now False saved latest)) g"
    and "case latest of None \<Rightarrow> True
      | Some l \<Rightarrow> PolicyPenalty l \<le> 0 \<or> RussianServerPolicyPenalty \<le> PolicyPenalty l"
  shows "eligible now s t (Some saved) g
    \<and> getHealthScore now t (Some (overlay_entry now False saved latest)) \<le> getHealthScore now t (Some saved)"
proof -
  have "Success (overlay_entry now False saved latest)"
    using assms(1) by (simp add: eligible_iff)
  then have "overlay_entry now False saved latest = mergeSmartActiveWorseningEvidence saved latest"
    using overlay_cases by blast
  then show ?thesis
    using merge_worsens [OF assms(2), of saved] worsens_eligible worsens_score assms(1) by metis
qed

theorem overlay_never_promotes_witness:
  "eligible clock fresh_smart ''a'' (Some (sample 1 (seconds 1050) 90)) 1
    \<and> getHealthScore clock ''a'' (Some (overlay_entry clock False (sample 1 (seconds 1050) 90)
        (Some ((sample 1 (seconds 1050) 90)\<lparr> RuntimePenalty := 9 \<rparr>))))
      \<le> getHealthScore clock ''a'' (Some (sample 1 (seconds 1050) 90))"
proof (rule overlay_never_promotes)
  show "eligible clock fresh_smart ''a'' (Some (overlay_entry clock False (sample 1 (seconds 1050) 90)
        (Some ((sample 1 (seconds 1050) 90)\<lparr> RuntimePenalty := 9 \<rparr>)))) 1"
    by code_simp
qed (simp add: sample_def zero_history_def)

text \<open>
  The severity of the health state follows the evidence: with the same transport result and
  larger penalties the state is at least as severe and the score is no higher.
\<close>

theorem state_follows_evidence:
  assumes "worsens h h'"
  shows "smartActiveState now (Some h) \<le> smartActiveState now (Some h')
    \<and> getHealthScore now t (Some h') \<le> getHealthScore now t (Some h)"
  using worsens_state [OF assms] worsens_score [OF assms] by blast

theorem state_follows_evidence_witness:
  "smartActiveState clock (Some (sample 1 (seconds 1050) 90))
      \<le> smartActiveState clock (Some ((sample 1 (seconds 1050) 90)\<lparr> DegradationPoints := 60 \<rparr>))
    \<and> getHealthScore clock ''a'' (Some ((sample 1 (seconds 1050) 90)\<lparr> DegradationPoints := 60 \<rparr>))
      \<le> getHealthScore clock ''a'' (Some (sample 1 (seconds 1050) 90))"
  by (rule state_follows_evidence)
    (simp add: worsens_def sample_def zero_history_def getPolicyPenalty_def)

text \<open>
  C7: In every reachable state the snapshot is one complete generation: each outbound of the
  profile has a fresh terminal result of exactly that generation, which is not newer than the
  selected one; the active outbound is a member of the profile, it is confirmed exactly when it
  exists, and it exists once start-up is over.
\<close>

theorem reachable_states_are_consistent:
  assumes "smart_reachable start outbounds ipmode ttl s"
  shows "sa_lastFullGeneration s \<le> sa_selectionGeneration s
    \<and> (sa_lastFullGeneration s = 0 \<and> sa_lastFullHistory s = []
       \<or> generationSettled s (sa_lastFullHistory s) (sa_lastFullGeneration s))
    \<and> (\<forall>c. sa_active s = Some c \<longrightarrow> c \<in> set (sa_outbounds s))
    \<and> (sa_confirmed s \<longleftrightarrow> sa_active s \<noteq> None) \<and> (\<not> sa_bootstrap s \<longrightarrow> sa_active s \<noteq> None)"
  using reachable_wf [OF assms] by (auto simp: wf_smart_def memory_ok_def split: if_splits)

theorem reachable_states_are_consistent_witness:
  "sa_lastFullGeneration started \<le> sa_selectionGeneration started
    \<and> generationSettled started (sa_lastFullHistory started) (sa_lastFullGeneration started)"
  using reachable_states_are_consistent [OF started_reachable]
  by (auto simp: started_def)

text \<open>
  Generations never go back. Every step keeps the profile and never lowers the selected
  generation or the generation of the snapshot.
\<close>

theorem generations_never_go_back:
  assumes "smart_reachable start outbounds ipmode ttl s" "smart_step s s'"
  shows "sa_outbounds s' = sa_outbounds s \<and> sa_selectionGeneration s \<le> sa_selectionGeneration s'
    \<and> sa_lastFullGeneration s \<le> sa_lastFullGeneration s'"
  by (rule step_monotone [OF reachable_wf [OF assms(1)] assms(2)])

theorem generations_never_go_back_witness:
  "sa_selectionGeneration started \<le> sa_selectionGeneration warned"
  using generations_never_go_back [OF started_reachable probe [OF warned_run]] by simp

section \<open>Ranking\<close>

text \<open>
  The order of the profile has no effect: on a profile with distinct tags the start-up
  choice is the same for every permutation of the outbounds.
\<close>

theorem startup_choice_ignores_profile_order:
  assumes "mset outs = mset (sa_outbounds s)" "distinct (map Tag (sa_outbounds s))"
  shows "bestBootstrapCandidate now (s\<lparr> sa_outbounds := outs \<rparr>) history g = bestBootstrapCandidate now s history g"
  by (rule bestBootstrapCandidate_order [OF assms])

theorem startup_choice_ignores_profile_order_witness:
  "bestBootstrapCandidate clock (fresh_smart\<lparr> sa_outbounds := [server ''c'', server ''b'', server ''a''] \<rparr>)
      first_cohort 1
    = bestBootstrapCandidate clock fresh_smart first_cohort 1"
  by (rule startup_choice_ignores_profile_order)
    (simp_all add: fresh_smart_def NewSmartActive_def server_def)

section \<open>Recovery\<close>

text \<open>
  Recovery is earned. A failed outbound leaves the recovery quarantine only through a
  completed probe of a newer generation that is clean and fully \<open>GOOD\<close>, when the generation
  counted before it was clean too; until then the mark stays.
\<close>

theorem recovery_needs_two_good_generations:
  assumes "evidence_step now s t his e = (e', recovered)" "recoveryPending e" "0 \<le> successStreak e"
  shows "(recovered \<longleftrightarrow> \<not> recoveryPending e')
    \<and> (recovered \<longrightarrow> (\<exists>h. his = Some h \<and> 1 \<le> successStreak e
         \<and> (hasCompletedProbe e \<longrightarrow> lastProbeGeneration e < CheckGeneration h)
         \<and> cleanCompletedProbe now t (Some h) \<and> smartActiveState now (Some h) = GOOD))
    \<and> (his \<noteq> None \<and> smartActiveState now his \<ge> BAD \<and> isNewCompletedProbe s his e \<longrightarrow> successStreak e' = 0)"
proof (cases his)
  case None
  then show ?thesis
    using assms by (simp add: evidence_step_def)
next
  case (Some h)
  define e1 where "e1 = e\<lparr> lastScore := getHealthScore now t (Some h) \<rparr>"
  have e1: "recoveryPending e1" "successStreak e1 = successStreak e" "hasCompletedProbe e1 = hasCompletedProbe e"
    "lastProbeGeneration e1 = lastProbeGeneration e" "failureStreak e1 = failureStreak e"
    using assms(2) by (simp_all add: e1_def)
  have new: "isNewCompletedProbe s (Some h) e1 = isNewCompletedProbe s (Some h) e"
    by (simp add: isNewCompletedProbe_def e1_def)
  have bad: "smartActiveState now (Some h) \<ge> BAD \<longleftrightarrow> smartActiveState now (Some h) = BAD
      \<or> smartActiveState now (Some h) = CRITICAL"
    by (cases "smartActiveState now (Some h)") (simp_all add: less_eq_health_state_def)
  show ?thesis
    using assms(1) e1 new unfolding Some evidence_step_def Let_def option.case e1_def [symmetric] bad
    by (cases "isNewCompletedProbe s (Some h) e"; cases "smartActiveState now (Some h) = GOOD";
        cases "cleanCompletedProbe now t (Some h)")
      (auto split: if_splits)
qed

theorem recovery_needs_two_good_generations_witness:
  "\<exists>e'. evidence_step (seconds 1100) fresh_smart ''a'' (Some (sample 2 (seconds 1090) 90))
      ((clean_streak 1 1 (seconds 1050) 60)\<lparr> recoveryPending := True \<rparr>) = (e', True) \<and> \<not> recoveryPending e'"
proof -
  let ?e = "(clean_streak 1 1 (seconds 1050) 60)\<lparr> recoveryPending := True \<rparr>"
  obtain e' r where u: "evidence_step (seconds 1100) fresh_smart ''a'' (Some (sample 2 (seconds 1090) 90)) ?e
      = (e', r)" by fastforce
  have "snd (evidence_step (seconds 1100) fresh_smart ''a'' (Some (sample 2 (seconds 1090) 90)) ?e)"
    by code_simp
  then have r by (simp only: u snd_conv)
  have "recoveryPending ?e" "0 \<le> successStreak ?e"
    by (simp_all add: clean_streak_def zero_evidence_def)
  from recovery_needs_two_good_generations [OF u this] \<open>r\<close> u show ?thesis by auto
qed

end
