(* ===== verification/Claims_Health.thy ===== *)
theory Claims_Health
  imports Scenarios
begin

text \<open>
  The properties of scoring, classification and the IPv6 gate.
\<close>

text \<open>
  Every score lies between 0 and 100, a failed sample never scores more than the cap of its
  error, and no sample scores more than its delay alone would.
\<close>

theorem health_score_in_range:
  "0 \<le> getHealthScore now t his \<and> getHealthScore now t his \<le> 100
    \<and> (case his of None \<Rightarrow> getHealthScore now t his = 0
       | Some h \<Rightarrow> getHealthScore now t his \<le> delayScore (Delay h)
           \<and> (ErrorType h = [] \<or> Success h \<or> getHealthScore now t his \<le> errorScoreCap (ErrorType h)))"
proof (cases his)
  case None
  then show ?thesis by simp
next
  case (Some h)
  have "0 \<le> delayScore (Delay h)" "0 \<le> errorScoreCap (ErrorType h)"
    using delayScore_bounds [of "Delay h"] errorScoreCap_bounds [of "ErrorType h"] by auto
  then show ?thesis
    using getHealthScore_bounds [of now t "Some h"]
    by (cases "Success h")
      (auto simp: Some getHealthScore_def Let_def health_score_le_delayScore health_score_failure_cap)
qed

text \<open>
  Worse evidence never raises a score: a longer delay, a failure instead of a success, a
  cached or older sample and larger penalties can only lower it.
\<close>

theorem score_is_antitone:
  assumes "0 < d" "d \<le> d'" "ok' \<longrightarrow> ok" "c \<longrightarrow> c'" "now \<le> now'"
    and "rp \<le> rp'" "ru \<le> ru'" "vol \<le> vol'" "udp \<le> udp'" "pol \<le> pol'"
  shows "CalculateHealthScoreWithEvidence now' d' ok' e c' t rp' ru' vol' udp' pol'
    \<le> CalculateHealthScoreWithEvidence now d ok e c t rp ru vol udp pol"
  by (rule health_score_antitone) (use assms in simp_all)

theorem score_is_antitone_witness:
  "CalculateHealthScoreWithEvidence clock 300 False ErrorTypeEOF True (seconds 1000) 5 0 3 0 45
    \<le> CalculateHealthScoreWithEvidence clock 90 True ErrorTypeEOF False (seconds 1000) 0 0 0 0 0"
  by (rule score_is_antitone) simp_all

text \<open>
  Classification is total and bounded: exactly the nil error is \<open>none\<close>, every other error
  gets one of the twelve named types, and its text keeps at most 240 bytes.
\<close>

theorem classification_is_total:
  "(fst (ClassifyProbeError err) = ErrorTypeNone \<longleftrightarrow> err = None)
    \<and> fst (ClassifyProbeError err) \<in> insert ErrorTypeNone probe_error_types
    \<and> length (snd (ClassifyProbeError err)) \<le> maxErrorTextLength"
proof (cases err)
  case None
  then show ?thesis by (simp add: classify_nil)
next
  case (Some e)
  then show ?thesis
    using classify_some_type [of e] length_shortenErrorText [of "err_text e"] classify_some_text [of e] by auto
qed

text \<open>
  The increment that pushes cached delays behind measured ones never wraps around its 16
  bits: a cached sample always ranks at 20000 ms or more, a measured one at its own delay, and no
  sample ranks at zero.
\<close>

theorem modified_delay_never_wraps:
  "0 < unat (getModifiedDelay his)
    \<and> (case his of None \<Rightarrow> getModifiedDelay his = TimeoutDelay
       | Some h \<Rightarrow> (if IsFromCache h then 20000 \<le> unat (getModifiedDelay his)
                   \<and> unat (Delay h) \<le> unat (getModifiedDelay his)
                 else getModifiedDelay his = (if Delay h = 0 then TimeoutDelay else Delay h)))"
proof -
  have pos: "0 < unat (getModifiedDelay his)"
    using getModifiedDelay_positive [of his] by (simp add: word_less_nat_alt)
  have grows: "unat (Delay h) \<le> unat (getModifiedDelay (Some h))" if "IsFromCache h" for h
  proof (cases "(if Delay h = 0 then TimeoutDelay else Delay h) < 20000")
    case True
    then show ?thesis
      using delay_increment_no_wrap [of "Delay h"] that by (auto simp: getModifiedDelay_def Let_def split: if_splits)
  next
    case False
    then show ?thesis
      using that by (auto simp: getModifiedDelay_def Let_def)
  qed
  show ?thesis
  proof (cases his)
    case None
    then show ?thesis
      using pos by (simp add: getModifiedDelay_def)
  next
    case (Some h)
    then show ?thesis
      using pos cached_delay_no_wrap [of h] grows [of h]
      by (cases "IsFromCache h") (simp, simp add: getModifiedDelay_def)
  qed
qed

text \<open>
  The IPv6 gate fails closed. With the IPv6-only mode the group hands out an outbound only
  for a flow that is not IPv4, and only with a capability verdict that is not older than the
  time to live and in which every probe target answered; an IPv6 flow under any preference
  needs a fresh verdict, and the IPv4-only mode refuses it outright.
\<close>

theorem ipv6_gate_fails_closed:
  assumes "Select now s metadata = Some out"
  shows "(sa_ipv6Mode s = DomainStrategyIPv6Only \<longrightarrow> \<not> flow_is_v4 metadata
       \<and> (\<exists>h. pget (sa_latestHistory s) (Tag out) = Some h \<and> IPv6Status h = IPv6StatusSupported
            \<and> 0 < IPv6TargetCount h \<and> IPv6TargetSuccess h = IPv6TargetCount h
            \<and> IPv6CheckedAt h \<le> now \<and> now - IPv6CheckedAt h \<le> (if sa_ipv6CapabilityTTL s \<le> 0
                 then DefaultIPv6CapabilityTTL else sa_ipv6CapabilityTTL s)))
    \<and> (sa_ipv6Mode s = DomainStrategyIPv4Only \<longrightarrow> \<not> flow_is_v6 metadata)
    \<and> (flow_is_v6 metadata \<and> IPv6ModeRequiresCapability (sa_ipv6Mode s)
       \<longrightarrow> IPv6CapabilityFresh (pget (sa_latestHistory s) (Tag out)) now (sa_ipv6CapabilityTTL s))"
  using assms
  by (auto simp: Select_def IPv6TrafficAllowed_def Let_def IPv6CapabilityFreshForMode_def
      IPv6CapabilityFresh_def IPv6ModeRequiresCapability_def split: option.splits if_splits)

definition capable :: url_test_history where
  "capable = (sample 1 (seconds 1050) 90)\<lparr> IPv6Status := IPv6StatusSupported, IPv6CheckedAt := seconds 1050,
     IPv6TargetSuccess := 2, IPv6TargetCount := 2 \<rparr>"

theorem ipv6_gate_fails_closed_witness:
  "\<not> flow_is_v4 \<lparr> IPVersion = 6, Network = NetworkTCP, DestinationAddr = Addr6 1 [], RealOutbound = [] \<rparr>"
proof -
  let ?m = "\<lparr> IPVersion = 6, Network = NetworkTCP, DestinationAddr = Addr6 1 [], RealOutbound = [] \<rparr>"
  let ?s = "started\<lparr> sa_ipv6Mode := DomainStrategyIPv6Only, sa_latestHistory := [(''b'', Some capable)] \<rparr>"
  have "Select clock ?s ?m = Some (server ''b'')"
    by code_simp
  from ipv6_gate_fails_closed [OF this] show ?thesis by simp
qed

text \<open>
  One missed target is enough to deny the strict capability: the verdict of a probe counts
  as supported for the IPv6-only mode only when there was a target and every target answered.
\<close>

theorem strict_capability_needs_every_target:
  assumes "ipv6CapabilityStatusForMode (probeIPv6Capability label now ctx_err results) DomainStrategyIPv6Only
      = IPv6StatusSupported"
  shows "results \<noteq> [] \<and> list_all (\<lambda>r. snd r = None) results"
  by (rule strict_mode_needs_every_target [OF assms])

theorem strict_capability_needs_every_target_witness:
  "list_all (\<lambda>r. snd r = None) [(''t1'', None :: go_error option), (''t2'', None)]"
  by (rule strict_capability_needs_every_target
        [of id clock False "[(''t1'', None), (''t2'', None)]", THEN conjunct2]) code_simp

end
