(* ===== verification/Go_Float.thy ===== *)
theory Go_Float
  imports Go_Prelude Complex_Main "HOL-Library.Log_Nat"
begin

text \<open>
  The IEEE 754 arithmetic the sources use: \<open>float64\<close> values are rationals, and an operation
  rounds its exact result to 53 significant bits, ties to even. The values the sources compute
  stay far from overflow and underflow. A conversion to \<open>uint16\<close> drops the fraction; Go leaves
  the result open when the value is out of range, so it is the argument \<open>oor\<close> of the model.
\<close>

definition pow2 :: "int \<Rightarrow> rat" where
  "pow2 e = (if 0 \<le> e then 2 ^ nat e else 1 / 2 ^ nat (- e))"

function bit_length :: "int \<Rightarrow> int" where
  "bit_length n = (if 0 < n then bit_length (n div 2) + 1 else 0)"
  by pat_completeness auto
termination by (relation "measure nat") auto

declare bit_length.simps [simp del]

definition exponent :: "rat \<Rightarrow> int" where
  "exponent x = (let (n, d) = quotient_of x; e = bit_length n - bit_length d
     in if pow2 e \<le> x then e else e - 1)"

definition round_even :: "rat \<Rightarrow> int" where
  "round_even q = (let f = \<lfloor>q\<rfloor>; r = q - of_int f
     in if r < 1 / 2 then f else if r > 1 / 2 then f + 1 else if even f then f else f + 1)"

definition round_positive :: "rat \<Rightarrow> rat" where
  "round_positive x = (let ulp = pow2 (exponent x - 52) in of_int (round_even (x / ulp)) * ulp)"

definition float64 :: "rat \<Rightarrow> rat" where
  "float64 x = (if x = 0 then 0 else if x < 0 then - round_positive (- x) else round_positive x)"

definition uint16_of :: "(rat \<Rightarrow> u16) \<Rightarrow> rat \<Rightarrow> u16" where
  "uint16_of oor x = (if -1 < x \<and> x < 0 then 0
     else if 0 \<le> x \<and> x < 65536 then word_of_int \<lfloor>x\<rfloor> else oor x)"

section \<open>Rounding keeps integer lower bounds\<close>

lemma bit_length_floorlog: "bit_length n = int (floorlog 2 (nat n))"
proof (induction n rule: bit_length.induct)
  case (1 n)
  then show ?case
    by (subst bit_length.simps, subst compute_floorlog) (auto simp: nat_div_distrib)
qed

lemma pow2_add: "pow2 (a + b) = pow2 a * pow2 b"
proof -
  have "pow2 e = 2 powi e" for e
    unfolding pow2_def power_int_def by (auto simp: inverse_eq_divide power_one_over)
  then show ?thesis
    by (simp add: power_int_add)
qed

lemma pow2_pos [simp]: "0 < pow2 e"
  by (simp add: pow2_def)

lemma pow2_mono: "a \<le> b \<Longrightarrow> pow2 a \<le> pow2 b"
proof -
  assume "a \<le> b"
  then have "pow2 b = pow2 a * pow2 (b - a)"
    using pow2_add [of a "b - a"] by simp
  moreover have "1 \<le> pow2 (b - a)"
    using \<open>a \<le> b\<close> by (simp add: pow2_def)
  ultimately show ?thesis
    using mult_left_mono [of 1 "pow2 (b - a)" "pow2 a"] less_imp_le [OF pow2_pos] by simp
qed

lemma pow2_nat [simp]: "pow2 (int n) = 2 ^ n"
  by (simp add: pow2_def)

lemma exponent_lower:
  assumes "0 < x"
  shows "pow2 (exponent x) \<le> x"
proof -
  obtain n d where q: "quotient_of x = (n, d)" by fastforce
  have d: "0 < d" and x: "x = of_int n / of_int d"
    using quotient_of_denom_pos [OF q] quotient_of_div [OF q] by simp_all
  have n: "0 < n"
    using assms x d by (simp add: zero_less_divide_iff)
  define ln where "ln = floorlog 2 (nat n)"
  define ld where "ld = floorlog 2 (nat d)"
  have ln: "2 ^ (ln - 1) \<le> n" "0 < ln"
    using floorlog_bounds [of "nat n" 2] n by (auto simp: ln_def floorlog_def le_nat_iff)
  have ld: "d < 2 ^ ld"
  proof -
    have "nat d < 2 ^ ld"
      using floorlog_bounds [of "nat d" 2] d by (simp add: ld_def)
    then have "int (nat d) < int (2 ^ ld)"
      by (simp only: of_nat_less_iff)
    then show ?thesis
      using d by simp
  qed
  have "pow2 (int ln - int ld - 1) \<le> x"
  proof -
    have "pow2 (int ln - int ld - 1) * pow2 (int ld) = pow2 (int (ln - 1))"
      unfolding pow2_add [symmetric] by (rule arg_cong [where f = pow2]) (use ln(2) in simp)
    then have e: "pow2 (int ln - int ld - 1) * 2 ^ ld = 2 ^ (ln - 1)"
      by (simp only: pow2_nat)
    have "(2 :: rat) ^ (ln - 1) \<le> of_int n"
      using ln(1) by (metis of_int_le_iff of_int_numeral of_int_power)
    moreover have "of_int d \<le> (2 :: rat) ^ ld"
      using ld by (metis less_imp_le of_int_le_iff of_int_numeral of_int_power)
    ultimately have "pow2 (int ln - int ld - 1) * of_int d \<le> of_int n"
      using e mult_left_mono [of "of_int d" "2 ^ ld" "pow2 (int ln - int ld - 1)"] pow2_pos
      by (smt (verit) less_imp_le order_trans)
    then show ?thesis
      using d by (simp add: x pos_le_divide_eq)
  qed
  then show ?thesis
    by (simp add: exponent_def q Let_def bit_length_floorlog flip: ln_def ld_def)
qed

lemma round_even_ge: "of_int m \<le> q \<Longrightarrow> m \<le> round_even q"
  by (auto simp: round_even_def Let_def le_floor_iff) linarith+

lemma float64_ge_int:
  assumes "0 < m" "m \<le> 2 ^ 53" "of_int m \<le> x"
  shows "of_int m \<le> float64 x"
proof -
  have x: "0 < x"
    using assms by (metis of_int_0_less_iff order_less_le_trans)
  define e where "e = exponent x"
  define ulp where "ulp = pow2 (e - 52)"
  have u: "0 < ulp"
    by (simp add: ulp_def)
  have fl: "float64 x = of_int (round_even (x / ulp)) * ulp"
    using x by (simp add: float64_def round_positive_def Let_def ulp_def e_def)
  show ?thesis
  proof (cases "e \<le> 52")
    case True
    define k :: int where "k = m * 2 ^ nat (52 - e)"
    have "ulp * 2 ^ nat (52 - e) = 1"
      using True pow2_add [of "e - 52" "52 - e"] by (simp add: ulp_def pow2_def)
    then have k: "of_int k * ulp = of_int m"
      by (simp add: k_def mult.commute mult.left_commute)
    then have "of_int k \<le> x / ulp"
      using assms(3) u by (simp add: pos_le_divide_eq)
    then have "k \<le> round_even (x / ulp)"
      by (rule round_even_ge)
    then have "of_int k * ulp \<le> of_int (round_even (x / ulp)) * ulp"
      using u by simp
    then show ?thesis
      by (simp add: fl k)
  next
    case False
    have "pow2 52 * ulp = pow2 e"
      by (simp add: ulp_def flip: pow2_add)
    then have "pow2 52 \<le> x / ulp"
      using exponent_lower [OF x] u by (simp add: pos_le_divide_eq e_def)
    then have "2 ^ 52 \<le> round_even (x / ulp)"
      using round_even_ge [of "2 ^ 52"] by (simp add: pow2_def)
    then have "pow2 52 * ulp \<le> of_int (round_even (x / ulp)) * ulp"
      using u by (simp add: pow2_def)
    then have "pow2 e \<le> float64 x"
      by (simp add: fl \<open>pow2 52 * ulp = pow2 e\<close>)
    moreover have "of_int m \<le> pow2 e"
    proof -
      have "(of_int m :: rat) \<le> 2 ^ 53"
        using assms(2) by (metis of_int_le_iff of_int_numeral of_int_power)
      also have "\<dots> = pow2 53"
        by (simp add: pow2_def)
      also have "\<dots> \<le> pow2 e"
        using False by (intro pow2_mono) simp
      finally show ?thesis .
    qed
    ultimately show ?thesis by linarith
  qed
qed

section \<open>Rounding keeps integer upper bounds\<close>

lemma exponent_upper:
  assumes "0 < x"
  shows "x < pow2 (exponent x + 1)"
proof -
  obtain n d where q: "quotient_of x = (n, d)" by fastforce
  have d: "0 < d" and x: "x = of_int n / of_int d"
    using quotient_of_denom_pos [OF q] quotient_of_div [OF q] by simp_all
  have n: "0 < n"
    using assms x d by (simp add: zero_less_divide_iff)
  define ln where "ln = floorlog 2 (nat n)"
  define ld where "ld = floorlog 2 (nat d)"
  have ld: "2 ^ (ld - 1) \<le> d" "0 < ld"
    using floorlog_bounds [of "nat d" 2] d by (auto simp: ld_def floorlog_def le_nat_iff)
  have ln: "n < 2 ^ ln"
  proof -
    have "nat n < 2 ^ ln"
      using floorlog_bounds [of "nat n" 2] n by (simp add: ln_def)
    then have "int (nat n) < int (2 ^ ln)"
      by (simp only: of_nat_less_iff)
    then show ?thesis
      using n by simp
  qed
  have "x < pow2 (int ln - int ld + 1)"
  proof -
    have "pow2 (int ln - int ld + 1) * pow2 (int (ld - 1)) = pow2 (int ln)"
      unfolding pow2_add [symmetric] by (rule arg_cong [where f = pow2]) (use ld(2) in simp)
    then have e: "pow2 (int ln - int ld + 1) * 2 ^ (ld - 1) = 2 ^ ln"
      by (simp only: pow2_nat)
    have "(of_int n :: rat) < of_int (2 ^ ln)"
      using ln by (simp only: of_int_less_iff)
    also have "\<dots> = pow2 (int ln - int ld + 1) * of_int (2 ^ (ld - 1))"
      using e by simp
    also have "\<dots> \<le> pow2 (int ln - int ld + 1) * of_int d"
      by (rule mult_left_mono, simp only: of_int_le_iff ld(1)) (rule less_imp_le, rule pow2_pos)
    finally show ?thesis
      using d by (simp add: x pos_divide_less_eq)
  qed
  then show ?thesis
    by (simp add: exponent_def q Let_def bit_length_floorlog flip: ln_def ld_def)
qed

lemma round_even_le: "q \<le> of_int m \<Longrightarrow> round_even q \<le> m"
  by (auto simp: round_even_def Let_def) linarith+

lemma float64_le_int:
  assumes "0 < m" "m \<le> 2 ^ 53" "0 < x" "x \<le> of_int m"
  shows "float64 x \<le> of_int m"
proof -
  note x = assms(3)
  define e where "e = exponent x"
  define ulp where "ulp = pow2 (e - 52)"
  have u: "0 < ulp"
    by (simp add: ulp_def)
  have fl: "float64 x = of_int (round_even (x / ulp)) * ulp"
    using x by (simp add: float64_def round_positive_def Let_def ulp_def e_def)
  have bound: "\<exists>k :: int. of_int k * ulp = of_int m"
  proof (cases "e \<le> 52")
    case True
    have "ulp * 2 ^ nat (52 - e) = 1"
      using True pow2_add [of "e - 52" "52 - e"] by (simp add: ulp_def pow2_def)
    then have "of_int (m * 2 ^ nat (52 - e)) * ulp = of_int m"
      by (simp add: mult.commute mult.left_commute)
    then show ?thesis by blast
  next
    case False
    have "pow2 53 \<le> pow2 e"
      using False by (intro pow2_mono) simp
    also have "\<dots> \<le> x"
      unfolding e_def using x by (rule exponent_lower)
    also have "\<dots> \<le> of_int m"
      by (rule assms(4))
    also have "\<dots> \<le> 2 ^ 53"
      using assms(2) by (metis of_int_le_iff of_int_numeral of_int_power)
    also have "\<dots> = pow2 53"
      by (simp add: pow2_def)
    finally have m: "pow2 53 \<le> pow2 e" "pow2 e \<le> pow2 53" "of_int m = pow2 53"
      using \<open>pow2 53 \<le> pow2 e\<close> \<open>pow2 e \<le> x\<close> \<open>x \<le> of_int m\<close> \<open>of_int m \<le> 2 ^ 53\<close> \<open>2 ^ 53 = pow2 53\<close>
      by linarith+
    then have "pow2 (53 - 52 + 52) = pow2 (e - 52 + 52)"
      by simp
    then have "ulp * pow2 52 = of_int m"
      unfolding ulp_def m(3) pow2_add [symmetric] by simp
    then have "of_int (2 ^ 52) * ulp = of_int m"
      by (simp add: pow2_def mult.commute)
    then show ?thesis by blast
  qed
  then obtain k :: int where k: "of_int k * ulp = of_int m" by blast
  have "x / ulp \<le> of_int k"
    using assms(4) u k by (simp add: pos_divide_le_eq)
  then have "round_even (x / ulp) \<le> k"
    by (rule round_even_le)
  then have "of_int (round_even (x / ulp)) * ulp \<le> of_int k * ulp"
    using u by simp
  then show ?thesis
    by (simp add: fl k)
qed

lemma float64_int: "0 < m \<Longrightarrow> m \<le> 2 ^ 53 \<Longrightarrow> float64 (of_int m) = of_int m"
  by (intro antisym float64_le_int float64_ge_int) simp_all

end
