(* ===== verification/Strategies.thy ===== *)
theory Strategies
  imports Balancer_Common Go_Float
begin

text \<open>
  The strategy interface of \<open>protocol/group/balancer/strategy.go\<close> and two of its
  implementations: \<open>roundrobin.go\<close> and \<open>lowest_delay.go\<close>, with the sorting and the acceptable
  pool of \<open>common.go\<close>. A strategy works on the two candidate lists of \<open>convertOutbounds\<close>.
\<close>

section \<open>Sorting and the acceptable pool\<close>

definition pool_less :: "instant \<Rightarrow> bool \<Rightarrow> history_map \<Rightarrow> outbound \<Rightarrow> outbound \<Rightarrow> bool" where
  "pool_less now useHealth history i j =
     (let leftSuccess = getTagSuccess (Tag i) history;
          rightSuccess = getTagSuccess (Tag j) history;
          leftScore = getTagHealthScore now (Tag i) history;
          rightScore = getTagHealthScore now (Tag j) history
      in if useHealth \<and> leftSuccess \<noteq> rightSuccess then leftSuccess
         else if useHealth \<and> leftScore \<noteq> rightScore then leftScore > rightScore
         else getTagDelay (Tag i) history < getTagDelay (Tag j) history)"

definition sortOutboundsByDelay ::
  "instant \<Rightarrow> (string, outbound list) go_map \<Rightarrow> history_map \<Rightarrow> (string, outbound list) go_map" where
  "sortOutboundsByDelay now outbounds history =
     (let useHealth = hasUsableHealth now history
      in map (\<lambda>(net, outs). (net, slice_stable (pool_less now useHealth history) outs)) outbounds)"

text \<open>The loops that keep the last index whose outbound passes a test.\<close>

fun last_index :: "('a \<Rightarrow> bool) \<Rightarrow> 'a list \<Rightarrow> int \<Rightarrow> int \<Rightarrow> int" where
  "last_index p [] i maxAvailableIndex = maxAvailableIndex"
| "last_index p (x # xs) i maxAvailableIndex =
     last_index p xs (i + 1) (if p x then i else maxAvailableIndex)"

definition pool_member :: "instant \<Rightarrow> history_map \<Rightarrow> int \<Rightarrow> outbound \<Rightarrow> bool" where
  "pool_member now history bestScore out \<longleftrightarrow>
     getTagSuccess (Tag out) history \<and> minHealthyScore \<le> getTagHealthScore now (Tag out) history
     \<and> bestScore - healthAcceptableWindow \<le> getTagHealthScore now (Tag out) history"

definition acceptable_delay :: "(rat \<Rightarrow> u16) \<Rightarrow> u16 \<Rightarrow> rat \<Rightarrow> u16" where
  "acceptable_delay oor d ratio = uint16_of oor (float64 (max 100 (of_int (uint d)) * ratio))"

definition delay_index :: "(rat \<Rightarrow> u16) \<Rightarrow> history_map \<Rightarrow> rat \<Rightarrow> outbound list \<Rightarrow> int" where
  "delay_index oor history ratio outs =
     (let maxAcceptableDelay = acceptable_delay oor (getTagDelay (Tag (hd outs)) history) ratio
      in last_index (\<lambda>out. getTagDelay (Tag out) history \<le> maxAcceptableDelay) outs 0 0)"

definition acceptable_index ::
  "(rat \<Rightarrow> u16) \<Rightarrow> instant \<Rightarrow> bool \<Rightarrow> history_map \<Rightarrow> rat \<Rightarrow> outbound list \<Rightarrow> int" where
  "acceptable_index oor now useHealth history ratio outs =
     (if outs = [] then -1
      else if useHealth then
        (let bestScore = getTagHealthScore now (Tag (hd outs)) history
         in if minHealthyScore \<le> bestScore \<and> getTagSuccess (Tag (hd outs)) history
            then (let maxAvailableIndex = last_index (pool_member now history bestScore) outs 0 (-1)
                  in if 0 \<le> maxAvailableIndex then maxAvailableIndex
                     else delay_index oor history ratio outs)
            else delay_index oor history ratio outs)
      else delay_index oor history ratio outs)"

definition getAcceptableIndex ::
  "(rat \<Rightarrow> u16) \<Rightarrow> instant \<Rightarrow> (string, outbound list) go_map \<Rightarrow> history_map \<Rightarrow> rat \<Rightarrow> (string, int) go_map" where
  "getAcceptableIndex oor now sortedOutbounds history delayAcceptableRatio =
     (let useHealth = hasUsableHealth now history
      in map (\<lambda>(net, outs). (net, acceptable_index oor now useHealth history delayAcceptableRatio outs))
           sortedOutbounds)"

definition known_network :: "string \<Rightarrow> string" where
  "known_network net = (if net \<noteq> NetworkTCP \<and> net \<noteq> NetworkUDP then NetworkTCP else net)"

section \<open>Round robin\<close>

record round_robin =
  rr_outbounds :: "(string, outbound list) go_map"
  rr_sortedOutbounds :: "(string, outbound list) go_map"
  rr_maxAcceptableIndex :: "(string, int) go_map"
  rr_idx :: "(string, int) go_map"
  rr_lastSelected :: "(string, outbound) ptr_map"
  rr_delayAcceptableRatio :: rat

definition NewRoundRobin :: "outbound list \<Rightarrow> rat \<Rightarrow> round_robin" where
  "NewRoundRobin outbounds ratio =
     (let cOutbounds = convertOutbounds outbounds
      in \<lparr> rr_outbounds = cOutbounds, rr_sortedOutbounds = cOutbounds,
           rr_maxAcceptableIndex = map (\<lambda>(net, outs). (net, int (length outs) - 1)) cOutbounds,
           rr_idx = map (\<lambda>(net, outs). (net, 0)) cOutbounds,
           rr_lastSelected = map (\<lambda>(net, outs). (net, Some (hd outs)))
             (filter (\<lambda>(net, outs). outs \<noteq> []) cOutbounds),
           rr_delayAcceptableRatio = ratio \<rparr>)"

definition RoundRobin_Now :: "round_robin \<Rightarrow> tag" where
  "RoundRobin_Now s =
     (case pget (rr_lastSelected s) NetworkTCP of
        Some selected \<Rightarrow> Tag selected
      | None \<Rightarrow> (case get_or [] (rr_sortedOutbounds s) NetworkTCP of
          [] \<Rightarrow> [] | out # _ \<Rightarrow> Tag out))"

definition RoundRobin_Update ::
  "(rat \<Rightarrow> u16) \<Rightarrow> instant \<Rightarrow> round_robin \<Rightarrow> history_map \<Rightarrow> bool \<times> round_robin" where
  "RoundRobin_Update oor now s history =
     (let sortedOutbounds = sortOutboundsByDelay now (rr_outbounds s) history;
          acceptableIndex = getAcceptableIndex oor now sortedOutbounds history (rr_delayAcceptableRatio s);
          chg = list_ex (\<lambda>(net, ix). ix \<noteq> get_or 0 (rr_maxAcceptableIndex s) net) acceptableIndex
      in (chg, s\<lparr> rr_sortedOutbounds := sortedOutbounds, rr_maxAcceptableIndex := acceptableIndex \<rparr>))"

text \<open>The remainder of Go truncates; the index and the length are never negative.\<close>

definition RoundRobin_Select ::
  "round_robin \<Rightarrow> string \<Rightarrow> bool \<Rightarrow> outbound option outcome \<times> round_robin" where
  "RoundRobin_Select s net0 touch =
     (let net = known_network net0;
          len = get_or 0 (rr_maxAcceptableIndex s) net + 1
      in if len = 0 then (Returned None, s)
         else (let id = (get_or 0 (rr_idx s) net + 1) mod len
               in case index_at (get_or [] (rr_sortedOutbounds s) net) id of
                    Panicked \<Rightarrow> (Panicked, s)
                  | Returned proxy \<Rightarrow>
                      (Returned (Some proxy),
                       if touch then s\<lparr> rr_idx := AList.update net id (rr_idx s),
                           rr_lastSelected := AList.update net (Some proxy) (rr_lastSelected s) \<rparr>
                       else s)))"

section \<open>Lowest delay\<close>

record lowest_delay =
  ld_outbounds :: "(string, outbound list) go_map"
  ld_selectedOutbound :: "(string, outbound) ptr_map"

definition NewLowestDelay :: "outbound list \<Rightarrow> lowest_delay" where
  "NewLowestDelay outbounds =
     (let couts = convertOutbounds outbounds;
          initialTCP = firstPolicyPreferredOutbound (get_or [] couts NetworkTCP);
          initialUDP = firstPolicyPreferredOutbound (get_or [] couts NetworkUDP)
      in \<lparr> ld_outbounds = couts,
           ld_selectedOutbound = [(NetworkUDP, initialUDP), (NetworkTCP, initialTCP)] \<rparr>)"

text \<open>Calling \<open>Tag()\<close> on a nil outbound panics.\<close>

definition tag_of :: "outbound option \<Rightarrow> tag outcome" where
  "tag_of out = (case out of None \<Rightarrow> Panicked | Some x \<Rightarrow> Returned (Tag x))"

definition LowestDelay_Now :: "lowest_delay \<Rightarrow> tag outcome" where
  "LowestDelay_Now s = tag_of (pget (ld_selectedOutbound s) NetworkTCP)"

fun lowest_changed :: "(string, outbound) ptr_map \<Rightarrow> (string, outbound) ptr_map \<Rightarrow> bool \<Rightarrow> bool outcome" where
  "lowest_changed selected [] chg = Returned chg"
| "lowest_changed selected ((net, out) # best) chg =
     (if chg then lowest_changed selected best True
      else and_then (tag_of out) (\<lambda>t.
        and_then (tag_of (pget selected net)) (\<lambda>u.
          lowest_changed selected best (t \<noteq> u))))"

definition LowestDelay_Update ::
  "instant \<Rightarrow> lowest_delay \<Rightarrow> history_map \<Rightarrow> bool outcome \<times> lowest_delay" where
  "LowestDelay_Update now s history =
     (let best = fst (getMinDelay now (ld_outbounds s) history)
      in case lowest_changed (ld_selectedOutbound s) best False of
           Panicked \<Rightarrow> (Panicked, s)
         | Returned chg \<Rightarrow> (Returned chg, s\<lparr> ld_selectedOutbound := best \<rparr>))"

definition LowestDelay_Select :: "lowest_delay \<Rightarrow> string \<Rightarrow> bool \<Rightarrow> outbound option" where
  "LowestDelay_Select s net touch = pget (ld_selectedOutbound s) (known_network net)"

section \<open>Facts about the pool\<close>

lemma ranking_pool_less: "ranking (pool_less now useHealth history)"
proof (cases useHealth)
  case True
  have "pool_less now True history = by_key_desc (\<lambda>out. getTagSuccess (Tag out) history)
      (by_key_desc (\<lambda>out. getTagHealthScore now (Tag out) history)
        (\<lambda>x y. getTagDelay (Tag x) history < getTagDelay (Tag y) history))"
    by (intro ext) (auto simp: pool_less_def by_key_desc_def Let_def)
  then show ?thesis
    using True by (simp only: ranking_desc ranking_key)
next
  case False
  have "pool_less now False history = (\<lambda>x y. getTagDelay (Tag x) history < getTagDelay (Tag y) history)"
    by (intro ext) (simp add: pool_less_def)
  then show ?thesis
    using False by (simp only: ranking_key)
qed

interpretation pool: ranking "pool_less now useHealth history"
  by (rule ranking_pool_less)

lemma last_index_append:
  "last_index p (xs @ ys) i m = last_index p ys (i + int (length xs)) (last_index p xs i m)"
  by (induction xs arbitrary: i m) (simp_all add: algebra_simps)

lemma last_index_none: "\<forall>x \<in> set xs. \<not> p x \<Longrightarrow> last_index p xs i m = m"
  by (induction xs arbitrary: i) simp_all

lemma last_index_all: "\<forall>x \<in> set xs. p x \<Longrightarrow> last_index p xs i m = (if xs = [] then m else i + int (length xs) - 1)"
  by (induction xs arbitrary: i m) simp_all

lemma last_index_bounds: "last_index p xs i m = m \<or> i \<le> last_index p xs i m \<and> last_index p xs i m < i + int (length xs)"
proof (induction xs arbitrary: i m)
  case (Cons x xs)
  show ?case
    using Cons.IH [of "i + 1" i] Cons.IH [of "i + 1" m] by (cases "p x") (simp; linarith)+
qed simp

text \<open>A test that is closed under the order of a sorted list passes on a prefix of it.\<close>

lemma sorted_prefix:
  assumes "sorted_wrt R xs" "\<And>a b. R a b \<Longrightarrow> p b \<Longrightarrow> p a"
  shows "xs = filter p xs @ filter (\<lambda>x. \<not> p x) xs"
  using assms(1)
proof (induction xs)
  case (Cons x xs)
  show ?case
  proof (cases "p x")
    case False
    then have "\<forall>y \<in> set xs. \<not> p y"
      using Cons.prems assms(2) by auto
    then show ?thesis
      using False by (simp add: filter_id_conv filter_empty_conv)
  qed (use Cons in simp)
qed simp

lemma pool_member_closed:
  "\<not> pool_less now True history b a \<Longrightarrow> pool_member now history best b \<Longrightarrow> pool_member now history best a"
  by (auto simp: pool_less_def pool_member_def Let_def split: if_splits)

lemma acceptable_index_bounds:
  "outs \<noteq> [] \<Longrightarrow> 0 \<le> acceptable_index oor now useHealth history ratio outs
    \<and> acceptable_index oor now useHealth history ratio outs < int (length outs)"
  using last_index_bounds [of "pool_member now history (getTagHealthScore now (Tag (hd outs)) history)" outs 0 "-1"]
    last_index_bounds [of "\<lambda>out. getTagDelay (Tag out) history
      \<le> acceptable_delay oor (getTagDelay (Tag (hd outs)) history) ratio" outs 0 0]
  by (auto simp: acceptable_index_def delay_index_def Let_def simp flip: length_greater_0_conv)

lemma acceptable_pool:
  assumes "outs = slice_stable (pool_less now True history) xs" "x \<in> set xs"
    and "getTagSuccess (Tag x) history" "minHealthyScore \<le> getTagHealthScore now (Tag x) history"
  defines "best \<equiv> getTagHealthScore now (Tag (hd outs)) history"
  shows "take (nat (acceptable_index oor now True history ratio outs + 1)) outs = filter (pool_member now history best) outs"
    and "getTagSuccess (Tag (hd outs)) history"
    and "y \<in> set xs \<Longrightarrow> getTagSuccess (Tag y) history \<Longrightarrow> getTagHealthScore now (Tag y) history \<le> best"
proof -
  obtain z zs where outs: "outs = z # zs"
    using assms(1,2) by (metis list.exhaust empty_iff list.set(1) slice_stable_eq_Nil)
  have minimal: "\<not> pool_less now True history y z" if "y \<in> set xs" for y
    using that assms(1) pool.head_is_minimal outs by metis
  have success: "getTagSuccess (Tag z) history"
    using minimal [OF assms(2)] assms(3) by (auto simp: pool_less_def Let_def split: if_splits)
  then show "getTagSuccess (Tag (hd outs)) history"
    by (simp add: outs)
  show bound: "getTagHealthScore now (Tag y) history \<le> best" if "y \<in> set xs" "getTagSuccess (Tag y) history" for y
    using minimal [OF that(1)] that(2) success
    by (auto simp: pool_less_def Let_def best_def outs split: if_splits)
  have healthy: "minHealthyScore \<le> best"
    using bound [OF assms(2,3)] assms(4) by simp
  let ?p = "pool_member now history best"
  have split: "outs = filter ?p outs @ filter (\<lambda>x. \<not> ?p x) outs"
    by (rule sorted_prefix [of "\<lambda>a b. \<not> pool_less now True history b a"])
      (use assms(1) pool.sorted_slice_stable pool_member_closed in auto)
  have "?p z"
    using success healthy by (simp add: pool_member_def best_def outs)
  then have nonempty: "filter ?p outs \<noteq> []"
    by (simp add: outs)
  have "last_index ?p outs 0 (-1) = int (length (filter ?p outs)) - 1"
    using nonempty
    by (subst split) (simp add: last_index_append last_index_all last_index_none)
  moreover have "acceptable_index oor now True history ratio outs = last_index ?p outs 0 (-1)"
    using healthy success nonempty calculation
    by (simp add: acceptable_index_def Let_def best_def outs)
  ultimately have "nat (acceptable_index oor now True history ratio outs + 1) = length (filter ?p outs)"
    by simp
  then show "take (nat (acceptable_index oor now True history ratio outs + 1)) outs = filter ?p outs"
    by (subst (2) split) simp
qed

end
