(* ===== verification/Strategy_Contract.thy ===== *)
theory Strategy_Contract
  imports Strategies
begin

text \<open>
  The contract between a group and its strategy, as a locale, and the proofs that the strategies
  keep it: no call panics, and every outbound handed out is a candidate of the group.
\<close>

section \<open>What every strategy promises to its group\<close>

text \<open>
  A group calls a strategy in any order: it reports new histories and asks for an outbound. The
  results of the calls are collected; an update contributes whether it returned.
\<close>

datatype ('e, 'q) strategy_call = UpdateCall 'e history_map | SelectCall 'q

primrec strategy_run :: "('e \<Rightarrow> 's \<Rightarrow> history_map \<Rightarrow> bool outcome \<times> 's)
    \<Rightarrow> ('q \<Rightarrow> 's \<Rightarrow> outbound option outcome \<times> 's)
    \<Rightarrow> 's \<Rightarrow> ('e, 'q) strategy_call list \<Rightarrow> outbound option outcome list \<times> 's" where
  "strategy_run update select s [] = ([], s)"
| "strategy_run update select s (call # calls) =
     (case call of
        UpdateCall e history \<Rightarrow>
          (let (r, s1) = update e s history; (rs, s2) = strategy_run update select s1 calls
           in (and_then r (\<lambda>_. Returned None) # rs, s2))
      | SelectCall q \<Rightarrow>
          (let (r, s1) = select q s; (rs, s2) = strategy_run update select s1 calls
           in (r # rs, s2)))"

definition sound_result :: "outbound set \<Rightarrow> outbound option outcome \<Rightarrow> bool" where
  "sound_result M r \<longleftrightarrow> (\<exists>out. r = Returned out \<and> set_option out \<subseteq> M)"

locale strategy =
  fixes update :: "'e \<Rightarrow> 's \<Rightarrow> history_map \<Rightarrow> bool outcome \<times> 's"
    and select :: "'q \<Rightarrow> 's \<Rightarrow> outbound option outcome \<times> 's"
    and members :: "'s \<Rightarrow> outbound set"
    and inv :: "'s \<Rightarrow> bool"
  assumes update_ok: "inv s \<Longrightarrow> update e s history = (r, s') \<Longrightarrow>
      inv s' \<and> members s' = members s \<and> (\<exists>chg. r = Returned chg)"
    and select_ok: "inv s \<Longrightarrow> select q s = (p, s') \<Longrightarrow>
      inv s' \<and> members s' = members s \<and> sound_result (members s) p"
begin

lemma run_sound:
  "inv s \<Longrightarrow> strategy_run update select s calls = (rs, s') \<Longrightarrow>
     inv s' \<and> members s' = members s \<and> (\<forall>r \<in> set rs. sound_result (members s) r)"
proof (induction calls arbitrary: s rs)
  case Nil
  then show ?case by simp
next
  case (Cons call calls)
  show ?case
  proof (cases call)
    case (UpdateCall e history)
    obtain r s1 where u: "update e s history = (r, s1)" by fastforce
    obtain rs2 s2 where run: "strategy_run update select s1 calls = (rs2, s2)" by fastforce
    have "rs = and_then r (\<lambda>_. Returned None) # rs2" "s' = s2"
      using Cons.prems(2) u run by (simp_all add: UpdateCall)
    then show ?thesis
      using update_ok [OF Cons.prems(1) u] Cons.IH [of s1 rs2] run
      by (auto simp: sound_result_def)
  next
    case (SelectCall q)
    obtain r s1 where u: "select q s = (r, s1)" by fastforce
    obtain rs2 s2 where run: "strategy_run update select s1 calls = (rs2, s2)" by fastforce
    have "rs = r # rs2" "s' = s2"
      using Cons.prems(2) u run by (simp_all add: SelectCall)
    then show ?thesis
      using select_ok [OF Cons.prems(1) u] Cons.IH [of s1 rs2] run by auto
  qed
qed

end

section \<open>Round robin keeps the contract\<close>

definition two_networks :: "(string, 'v) go_map \<Rightarrow> bool" where
  "two_networks m \<longleftrightarrow> map fst m = [NetworkTCP, NetworkUDP]"

lemma known_network_cases: "known_network net = NetworkTCP \<or> known_network net = NetworkUDP"
  by (auto simp: known_network_def)

lemma two_networks_key: "two_networks m \<Longrightarrow> known_network net \<in> fst ` set m"
  using known_network_cases [of net] by (auto simp: two_networks_def simp flip: set_map)

lemma two_networks_get:
  assumes "two_networks m"
  shows "get_or z' (map (\<lambda>(net, v). (net, g v)) m) (known_network net) = g (get_or z m (known_network net))"
  using get_or_map_values [of "known_network net" m "\<lambda>k. g" z z'] two_networks_key [OF assms] by simp

lemma two_networks_map [simp]: "two_networks (map (\<lambda>(k, v). (k, f k v)) m) = two_networks m"
  by (simp add: two_networks_def case_prod_beta comp_def)

lemma two_networks_convert [simp]: "two_networks (convertOutbounds outs)"
  by (simp add: two_networks_def convertOutbounds_def)

definition candidates_for :: "(string, outbound list) go_map \<Rightarrow> string \<Rightarrow> outbound list" where
  "candidates_for m net = get_or [] m (known_network net)"

definition rr_members :: "round_robin \<Rightarrow> outbound set" where
  "rr_members s = set (candidates_for (rr_outbounds s) NetworkTCP) \<union> set (candidates_for (rr_outbounds s) NetworkUDP)"

definition rr_limit :: "round_robin \<Rightarrow> string \<Rightarrow> int" where
  "rr_limit s net = get_or 0 (rr_maxAcceptableIndex s) (known_network net) + 1"

definition rr_position :: "round_robin \<Rightarrow> string \<Rightarrow> int" where
  "rr_position s net = get_or 0 (rr_idx s) (known_network net)"

definition rr_sorted_for :: "round_robin \<Rightarrow> string \<Rightarrow> outbound list" where
  "rr_sorted_for s net = candidates_for (rr_sortedOutbounds s) net"

definition rr_ok :: "round_robin \<Rightarrow> bool" where
  "rr_ok s \<longleftrightarrow> two_networks (rr_outbounds s)
     \<and> (\<forall>net. mset (rr_sorted_for s net) = mset (candidates_for (rr_outbounds s) net)
         \<and> rr_limit s net \<le> int (length (rr_sorted_for s net)) \<and> 0 \<le> rr_position s net
         \<and> (if candidates_for (rr_outbounds s) net = [] then rr_limit s net = 0 else 0 < rr_limit s net))"

lemma rr_ok_new: "rr_ok (NewRoundRobin outs ratio)"
  unfolding rr_ok_def rr_sorted_for_def rr_limit_def rr_position_def candidates_for_def
  by (simp add: NewRoundRobin_def Let_def two_networks_get [OF two_networks_convert [of outs], where z = "[]"]
      Suc_le_eq flip: length_greater_0_conv)

lemma rr_update_facts:
  assumes "two_networks (rr_outbounds s)" "RoundRobin_Update oor now s history = (chg, s')"
  shows "rr_sorted_for s' net = slice_stable (pool_less now (hasUsableHealth now history) history)
      (candidates_for (rr_outbounds s) net)"
    and "rr_limit s' net = acceptable_index oor now (hasUsableHealth now history) history
      (rr_delayAcceptableRatio s) (rr_sorted_for s' net) + 1"
    and "rr_outbounds s' = rr_outbounds s" "rr_position s' net = rr_position s net"
proof -
  have s': "s' = s\<lparr> rr_sortedOutbounds := sortOutboundsByDelay now (rr_outbounds s) history,
      rr_maxAcceptableIndex := getAcceptableIndex oor now (sortOutboundsByDelay now (rr_outbounds s) history)
        history (rr_delayAcceptableRatio s) \<rparr>"
    using assms(2) by (simp add: RoundRobin_Update_def Let_def)
  have two: "two_networks (sortOutboundsByDelay now (rr_outbounds s) history)"
    using assms(1) by (simp add: sortOutboundsByDelay_def Let_def)
  show sorted: "rr_sorted_for s' net = slice_stable (pool_less now (hasUsableHealth now history) history)
      (candidates_for (rr_outbounds s) net)"
    unfolding rr_sorted_for_def candidates_for_def s'
    by (simp add: sortOutboundsByDelay_def Let_def two_networks_get [OF assms(1), where z = "[]"])
  show "rr_limit s' net = acceptable_index oor now (hasUsableHealth now history) history
      (rr_delayAcceptableRatio s) (rr_sorted_for s' net) + 1"
    unfolding rr_limit_def rr_sorted_for_def candidates_for_def s'
    by (simp add: getAcceptableIndex_def Let_def two_networks_get [OF two, where z = "[]"])
qed (use assms(2) in \<open>auto simp: RoundRobin_Update_def Let_def rr_position_def\<close>)

lemma rr_ok_update:
  assumes "rr_ok s" "RoundRobin_Update oor now s history = (chg, s')"
  shows "rr_ok s'"
proof -
  have two: "two_networks (rr_outbounds s)"
    using assms(1) by (simp add: rr_ok_def)
  note f = rr_update_facts [OF two assms(2)]
  have "rr_limit s' net \<le> int (length (rr_sorted_for s' net))
      \<and> (if candidates_for (rr_outbounds s) net = [] then rr_limit s' net = 0 else 0 < rr_limit s' net)" for net
    using acceptable_index_bounds [of "rr_sorted_for s' net" oor now "hasUsableHealth now history" history
        "rr_delayAcceptableRatio s"] f(1) [of net]
    by (auto simp: f(2) acceptable_index_def)
  moreover have "0 \<le> rr_position s net" for net
    using assms(1) by (simp add: rr_ok_def)
  moreover have "mset (rr_sorted_for s' net) = mset (candidates_for (rr_outbounds s) net)" for net
    by (simp add: f(1))
  ultimately show ?thesis
    using two unfolding rr_ok_def f(3,4) by blast
qed

lemma rr_select_facts:
  assumes "rr_ok s" "candidates_for (rr_outbounds s) net \<noteq> []"
    "i = (rr_position s net + 1) mod rr_limit s net"
  shows "0 \<le> i" "i < rr_limit s net" "rr_limit s net \<le> int (length (rr_sorted_for s net))"
    and "RoundRobin_Select s net touch = (Returned (Some (rr_sorted_for s net ! nat i)),
      if touch then s\<lparr> rr_idx := AList.update (known_network net) i (rr_idx s),
        rr_lastSelected := AList.update (known_network net) (Some (rr_sorted_for s net ! nat i)) (rr_lastSelected s) \<rparr>
      else s)"
proof -
  have lim: "0 < rr_limit s net" and len: "rr_limit s net \<le> int (length (rr_sorted_for s net))"
    using assms(1,2) unfolding rr_ok_def by metis+
  then show i: "0 \<le> i" "i < rr_limit s net" "rr_limit s net \<le> int (length (rr_sorted_for s net))"
    by (simp_all add: assms(3))
  have "index_at (rr_sorted_for s net) i = Returned (rr_sorted_for s net ! nat i)"
    using i by (intro index_at_defined) simp_all
  then show "RoundRobin_Select s net touch = (Returned (Some (rr_sorted_for s net ! nat i)),
      if touch then s\<lparr> rr_idx := AList.update (known_network net) i (rr_idx s),
        rr_lastSelected := AList.update (known_network net) (Some (rr_sorted_for s net ! nat i)) (rr_lastSelected s) \<rparr>
      else s)"
    using lim
    by (simp add: RoundRobin_Select_def Let_def rr_sorted_for_def candidates_for_def rr_limit_def rr_position_def assms(3))
qed

lemma rr_select_ok:
  assumes "rr_ok s" "RoundRobin_Select s net touch = (p, s')"
  shows "rr_ok s' \<and> rr_outbounds s' = rr_outbounds s
    \<and> sound_result (set (candidates_for (rr_outbounds s) net)) p"
proof (cases "candidates_for (rr_outbounds s) net = []")
  case True
  then have "rr_limit s net = 0"
    using assms(1) by (auto simp: rr_ok_def)
  then have "p = Returned None \<and> s' = s"
    using assms(2) by (simp add: RoundRobin_Select_def rr_limit_def Let_def)
  then show ?thesis
    using assms(1) by (simp add: sound_result_def)
next
  case False
  define i where "i = (rr_position s net + 1) mod rr_limit s net"
  note f = rr_select_facts [OF assms(1) False i_def]
  have set: "set (rr_sorted_for s net) = set (candidates_for (rr_outbounds s) net)"
    using assms(1) unfolding rr_ok_def by (metis set_mset_mset)
  have "rr_sorted_for s net ! nat i \<in> set (rr_sorted_for s net)"
    using f(1-3) by simp
  then have p: "sound_result (set (candidates_for (rr_outbounds s) net)) p"
    using assms(2) f(4) [of touch] set by (auto simp: sound_result_def)
  have "rr_sorted_for s' = rr_sorted_for s \<and> rr_limit s' = rr_limit s \<and> rr_outbounds s' = rr_outbounds s"
    using assms(2) f(4) [of touch]
    by (auto simp: rr_sorted_for_def rr_limit_def fun_eq_iff split: if_splits)
  moreover have "0 \<le> rr_position s' m" for m
    using assms f(1) f(4) [of touch] by (auto simp: rr_position_def rr_ok_def split: if_splits)
  ultimately show ?thesis
    using assms(1) p by (simp add: rr_ok_def)
qed

lemma candidates_in_members: "set (candidates_for (rr_outbounds s) net) \<subseteq> rr_members s"
  using known_network_cases [of net] by (auto simp: rr_members_def candidates_for_def known_network_def)

lemma sound_result_mono: "sound_result M r \<Longrightarrow> M \<subseteq> M' \<Longrightarrow> sound_result M' r"
  by (auto simp: sound_result_def)

interpretation round_robin: strategy
  "\<lambda>(oor, now) s history. apfst Returned (RoundRobin_Update oor now s history)"
  "\<lambda>(net, touch) s. RoundRobin_Select s net touch" rr_members rr_ok
proof
  fix s e history r s'
  assume ok: "rr_ok s" and u: "(case e of (oor, now) \<Rightarrow> \<lambda>s history. apfst Returned (RoundRobin_Update oor now s history)) s history = (r, s')"
  obtain oor now where e: "e = (oor, now)" by fastforce
  obtain chg where chg: "RoundRobin_Update oor now s history = (chg, s')" "r = Returned chg"
    using u by (cases "RoundRobin_Update oor now s history") (auto simp: e)
  have "rr_outbounds s' = rr_outbounds s"
    using rr_update_facts(3) [OF _ chg(1)] ok by (simp add: rr_ok_def)
  then show "rr_ok s' \<and> rr_members s' = rr_members s \<and> (\<exists>chg. r = Returned chg)"
    using rr_ok_update [OF ok chg(1)] chg(2) by (simp add: rr_members_def)
next
  fix s q p s'
  assume ok: "rr_ok s" and u: "(case q of (net, touch) \<Rightarrow> \<lambda>s. RoundRobin_Select s net touch) s = (p, s')"
  obtain net touch where q: "q = (net, touch)" by fastforce
  then have "RoundRobin_Select s net touch = (p, s')"
    using u by simp
  from rr_select_ok [OF ok this] show "rr_ok s' \<and> rr_members s' = rr_members s \<and> sound_result (rr_members s) p"
    using sound_result_mono candidates_in_members by (auto simp: rr_members_def)
qed

section \<open>Round robin is fair\<close>

primrec select_times :: "nat \<Rightarrow> round_robin \<Rightarrow> string \<Rightarrow> outbound option outcome list \<times> round_robin" where
  "select_times 0 s net = ([], s)"
| "select_times (Suc n) s net =
     (let (p, s1) = RoundRobin_Select s net True; (ps, s2) = select_times n s1 net in (p # ps, s2))"

lemma select_times_eq:
  assumes "rr_ok s" "candidates_for (rr_outbounds s) net \<noteq> []"
  shows "fst (select_times n s net) = map (\<lambda>k. Returned (Some (rr_sorted_for s net
      ! nat ((rr_position s net + 1 + int k) mod rr_limit s net)))) [0..<n]"
  using assms
proof (induction n arbitrary: s)
  case (Suc n)
  define i where "i = (rr_position s net + 1) mod rr_limit s net"
  note f = rr_select_facts [OF Suc.prems i_def]
  obtain p s1 where sel: "RoundRobin_Select s net True = (p, s1)" by fastforce
  have s1: "rr_sorted_for s1 = rr_sorted_for s" "rr_limit s1 = rr_limit s" "rr_outbounds s1 = rr_outbounds s"
    "rr_position s1 net = i"
    using sel f(4) [of True]
    by (auto simp: rr_sorted_for_def rr_limit_def rr_position_def fun_eq_iff)
  have "rr_ok s1"
    using rr_select_ok [OF Suc.prems(1) sel] by simp
  then have ih: "fst (select_times n s1 net) = map (\<lambda>k. Returned (Some (rr_sorted_for s net
      ! nat ((i + 1 + int k) mod rr_limit s net)))) [0..<n]"
    using Suc.IH [of s1] Suc.prems(2) by (simp add: s1)
  have "(i + 1 + int k) mod rr_limit s net = (rr_position s net + 1 + int (Suc k)) mod rr_limit s net" for k
  proof -
    have "((rr_position s net + 1) mod rr_limit s net + (1 + int k)) mod rr_limit s net
        = (rr_position s net + 1 + (1 + int k)) mod rr_limit s net"
      by (rule mod_add_left_eq)
    then show ?thesis
      by (simp add: i_def ac_simps)
  qed
  then have "fst (select_times n s1 net) = map (\<lambda>k. Returned (Some (rr_sorted_for s net
      ! nat ((rr_position s net + 1 + int k) mod rr_limit s net)))) (map Suc [0..<n])"
    using ih by simp
  moreover have "p = Returned (Some (rr_sorted_for s net ! nat i))"
    using sel f(4) [of True] by simp
  moreover obtain ps s2 where "select_times n s1 net = (ps, s2)" by fastforce
  ultimately show ?case
    using sel by (simp add: i_def upt_conv_Cons map_Suc_upt del: upt_Suc)
qed simp

lemma rotation:
  assumes "0 < m" "m \<le> int (length xs)" "0 \<le> j"
  shows "map (\<lambda>k. xs ! nat ((j + int k) mod m)) [0..<nat m] = rotate (nat j) (take (nat m) xs)"
proof (rule nth_equalityI)
  fix k assume "k < length (map (\<lambda>k. xs ! nat ((j + int k) mod m)) [0..<nat m])"
  then have k: "k < nat m" by simp
  have len: "length (take (nat m) xs) = nat m"
    using assms by simp
  have "nat ((j + int k) mod m) = (nat j + k) mod nat m"
    using assms by (simp add: nat_mod_distrib nat_add_distrib)
  then show "map (\<lambda>k. xs ! nat ((j + int k) mod m)) [0..<nat m] ! k = rotate (nat j) (take (nat m) xs) ! k"
    using k len assms(1) by (simp add: nth_rotate)
qed (use assms in simp)

lemma select_times_rotates:
  assumes "rr_ok s" "candidates_for (rr_outbounds s) net \<noteq> []"
  shows "fst (select_times (nat (rr_limit s net)) s net)
    = map (Returned \<circ> Some) (rotate (nat (rr_position s net + 1)) (take (nat (rr_limit s net)) (rr_sorted_for s net)))"
proof -
  have "0 < rr_limit s net" "rr_limit s net \<le> int (length (rr_sorted_for s net))" "0 \<le> rr_position s net"
    using assms unfolding rr_ok_def by metis+
  then show ?thesis
    by (simp add: select_times_eq [OF assms] flip: rotation)
qed

section \<open>Lowest delay keeps the contract\<close>

lemma fallback_loop_member:
  "fallback_loop now history outs (d, cur) = (d', best) \<Longrightarrow>
     (best = None \<longrightarrow> cur = None \<and> outs = []) \<and> (\<forall>b. best = Some b \<longrightarrow> b \<in> set outs \<or> cur = Some b)"
proof (induction outs arbitrary: d cur)
  case (Cons out outs)
  define acc where "acc = (if (case cur of None \<Rightarrow> True | Some c \<Rightarrow> preferFallbackOutbound now out c history)
        then (getTagDelay (Tag out) history, Some out) else (d, cur))"
  obtain d1 c1 where acc1: "acc = (d1, c1)" by fastforce
  have "fallback_loop now history outs (d1, c1) = (d', best)"
    using Cons.prems by (simp add: acc_def [symmetric] acc1)
  moreover have "c1 = Some out \<or> c1 = cur \<and> cur \<noteq> None"
    using acc1 by (auto simp: acc_def split: if_splits option.splits)
  ultimately show ?case
    using Cons.IH [of d1 c1] by (cases best; elim disjE conjE) auto
qed simp

lemma min_delay_loop_member:
  "min_delay_loop now useHealth history outs (d, sc, cur) = (d', sc', best) \<Longrightarrow>
     (\<forall>b. best = Some b \<longrightarrow> b \<in> set outs \<or> cur = Some b)"
proof (induction outs arbitrary: d sc cur)
  case (Cons out outs)
  obtain d1 s1 c1 where run: "min_delay_loop now useHealth history outs (d1, s1, c1) = (d', sc', best)"
    and c1: "c1 = Some out \<or> c1 = cur"
    using Cons.prems
    by (simp add: Let_def split: if_splits)
  then show ?case
    using Cons.IH [of d1 s1 c1] by auto
qed simp

lemma min_delay_of_member:
  assumes "outs \<noteq> []"
  shows "\<exists>out \<in> set outs. snd (min_delay_of now useHealth history outs) = Some out"
proof -
  obtain d sc best where loop: "min_delay_loop now useHealth history outs (TimeoutDelay, -1, None) = (d, sc, best)"
    by (metis prod_cases3)
  obtain d' best' where fall: "fallback_loop now history outs (TimeoutDelay, None) = (d', best')"
    by fastforce
  show ?thesis
    using min_delay_loop_member [OF loop] fallback_loop_member [OF fall] assms
    by (cases best; cases best') (auto simp: min_delay_of_def loop fall)
qed

definition ld_members :: "lowest_delay \<Rightarrow> outbound set" where
  "ld_members s = set (candidates_for (ld_outbounds s) NetworkTCP) \<union> set (candidates_for (ld_outbounds s) NetworkUDP)"

definition ld_ok :: "lowest_delay \<Rightarrow> bool" where
  "ld_ok s \<longleftrightarrow> two_networks (ld_outbounds s)
     \<and> (\<forall>net. \<exists>out \<in> set (candidates_for (ld_outbounds s) net).
          pget (ld_selectedOutbound s) (known_network net) = Some out)"

lemma two_networks_pget:
  assumes "two_networks m"
  shows "pget (map (\<lambda>(net, v). (net, g v)) m) (known_network net) = g (get_or z m (known_network net))"
  using two_networks_get [OF assms, of None g net z]
  by (simp add: pget_def get_or_def split: option.splits)

lemma lowest_changed_returns:
  "(\<forall>(net, out) \<in> set best. out \<noteq> None \<and> pget selected net \<noteq> None) \<Longrightarrow>
     \<exists>chg. lowest_changed selected best c = Returned chg"
  by (induction best arbitrary: c) (auto simp: tag_of_def split: option.splits)

lemma known_network_known [simp]: "known_network (known_network net) = known_network net"
  by (simp add: known_network_def)

lemma two_networks_shape: "two_networks m \<Longrightarrow> \<exists>a b. m = [(NetworkTCP, a), (NetworkUDP, b)]"
  by (cases m rule: remdups_adj.cases) (auto simp: two_networks_def)

lemma ld_update_ok:
  assumes "ld_ok s" "LowestDelay_Update now s history = (r, s')"
  shows "ld_ok s' \<and> ld_outbounds s' = ld_outbounds s \<and> (\<exists>chg. r = Returned chg)
    \<and> pget (ld_selectedOutbound s') (known_network net)
      = snd (min_delay_of now (hasUsableHealth now history) history (candidates_for (ld_outbounds s) net))"
proof -
  have two: "two_networks (ld_outbounds s)"
    using assms(1) by (simp add: ld_ok_def)
  then obtain a b where ab: "ld_outbounds s = [(NetworkTCP, a), (NetworkUDP, b)]"
    using two_networks_shape by blast
  let ?best = "fst (getMinDelay now (ld_outbounds s) history)"
  let ?pick = "\<lambda>outs. snd (min_delay_of now (hasUsableHealth now history) history outs)"
  have best: "?best = map (\<lambda>(net, outs). (net, ?pick outs)) (ld_outbounds s)"
    by (simp add: getMinDelay_def Let_def)
  have pick: "pget ?best (known_network net) = ?pick (candidates_for (ld_outbounds s) net)" for net
    unfolding best candidates_for_def by (rule two_networks_pget [OF two])
  have nonempty: "candidates_for (ld_outbounds s) net \<noteq> []" for net
    using assms(1) unfolding ld_ok_def by (metis empty_iff empty_set)
  have "a \<noteq> []" "b \<noteq> []"
    using nonempty [of NetworkTCP] nonempty [of NetworkUDP]
    by (simp_all add: candidates_for_def get_or_def known_network_def ab)
  moreover have sel: "pget (ld_selectedOutbound s) (known_network net) \<noteq> None" for net
    using assms(1) unfolding ld_ok_def by force
  moreover have "pget (ld_selectedOutbound s) NetworkTCP \<noteq> None" "pget (ld_selectedOutbound s) NetworkUDP \<noteq> None"
    using sel [of NetworkTCP] sel [of NetworkUDP] by (simp_all add: known_network_def)
  ultimately have "\<forall>(net, out) \<in> set ?best. out \<noteq> None \<and> pget (ld_selectedOutbound s) net \<noteq> None"
    using min_delay_of_member [of a now "hasUsableHealth now history" history]
      min_delay_of_member [of b now "hasUsableHealth now history" history]
    unfolding best unfolding ab by auto
  then obtain chg where chg: "lowest_changed (ld_selectedOutbound s) ?best False = Returned chg"
    using lowest_changed_returns by blast
  then have "r = Returned chg" "s' = s\<lparr> ld_selectedOutbound := ?best \<rparr>"
    using assms(2) by (simp_all add: LowestDelay_Update_def Let_def)
  moreover have "\<exists>out \<in> set (candidates_for (ld_outbounds s) net). pget ?best (known_network net) = Some out" for net
    unfolding pick by (rule min_delay_of_member [OF nonempty])
  ultimately show ?thesis
    using two pick by (simp add: ld_ok_def)
qed

lemma ld_ok_new:
  assumes "outs \<noteq> []"
  shows "ld_ok (NewLowestDelay outs)"
proof -
  have "\<exists>out. firstPolicyPreferredOutbound (filterOutbounds outs n) = Some out" for n
    by (rule firstPolicyPreferred_exists [OF filterOutbounds_nonempty [OF assms]])
  then show ?thesis
    using known_network_cases
    by (auto simp: ld_ok_def NewLowestDelay_def Let_def candidates_for_def get_or_def convertOutbounds_def
        two_networks_def known_network_def dest: firstPolicyPreferred_member) (metis firstPolicyPreferred_member)+
qed

lemma ld_candidates_in_members: "set (candidates_for (ld_outbounds s) net) \<subseteq> ld_members s"
  using known_network_cases [of net] by (auto simp: ld_members_def candidates_for_def known_network_def)

interpretation lowest_delay: strategy
  "\<lambda>now s history. LowestDelay_Update now s history"
  "\<lambda>(net, touch) s. (Returned (LowestDelay_Select s net touch), s)" ld_members ld_ok
proof
  fix s now history r s'
  assume "ld_ok s" "LowestDelay_Update now s history = (r, s')"
  from ld_update_ok [OF this] show "ld_ok s' \<and> ld_members s' = ld_members s \<and> (\<exists>chg. r = Returned chg)"
    by (simp add: ld_members_def)
next
  fix s q p s'
  assume ok: "ld_ok s" and u: "(case q of (net, touch) \<Rightarrow> \<lambda>s. (Returned (LowestDelay_Select s net touch), s)) s = (p, s')"
  obtain net touch where q: "q = (net, touch)" by fastforce
  obtain out where "out \<in> set (candidates_for (ld_outbounds s) net)"
      "pget (ld_selectedOutbound s) (known_network net) = Some out"
    using ok unfolding ld_ok_def by blast
  then show "ld_ok s' \<and> ld_members s' = ld_members s \<and> sound_result (ld_members s) p"
    using ok u ld_candidates_in_members [of s net] by (auto simp: q sound_result_def LowestDelay_Select_def)
qed

end
