(* ===== verification/Jump_Hash.thy ===== *)
theory Jump_Hash
  imports Go_Float
begin

text \<open>
  \<open>jumpHash\<close> of \<open>protocol/group/balancer/common.go\<close>: Lamping and Veach's jump consistent hash,
  with the 64-bit wrap-around of the key and the float64 roundings of the step. \<open>buckets\<close> is an
  \<open>int32\<close>; a jump stays below \<open>2 ^ 62\<close>, so the \<open>int64\<close> counters, which are never negative, are natural numbers here.
\<close>

type_synonym i32 = "32 word"

definition jump_key :: "u64 \<Rightarrow> u64" where
  "jump_key key = key * 2862933555777941757 + 1"

definition jump_next :: "u64 \<Rightarrow> nat \<Rightarrow> nat" where
  "jump_next key b =
     nat \<lfloor>float64 (float64 (of_nat b + 1)
        * float64 (float64 (2 ^ 31) / float64 (of_int (uint (drop_bit 33 key + 1)))))\<rfloor>"

section \<open>A jump goes forward\<close>

lemma jump_denominator:
  "0 < uint (drop_bit 33 (key :: u64) + 1) \<and> uint (drop_bit 33 key + 1) \<le> 2 ^ 31"
proof -
  have "uint key < 2 ^ 64"
    using uint_lt2p [of key] by simp
  moreover have "uint (drop_bit 33 key) = drop_bit 33 (uint key)"
    using uint_lt2p [of key] by (simp add: unsigned_drop_bit_eq take_bit_int_eq_self)
  ultimately have d: "uint (drop_bit 33 key) < 2 ^ 31"
    by (simp add: drop_bit_eq_div div_less_iff_less_mult)
  then have "uint (drop_bit 33 key + 1) = uint (drop_bit 33 key) + 1"
    by (simp add: uint_word_ariths)
  then show ?thesis
    using d by simp
qed

lemma jump_next_forward:
  assumes "b < 2 ^ 31"
  shows "b < jump_next key b"
proof -
  define k where "k = uint (drop_bit 33 key + 1)"
  have k: "0 < k" "k \<le> 2 ^ 31"
    using jump_denominator [of key] by (simp_all add: k_def)
  have fk: "float64 (of_int k) = of_int k"
    using k by (intro float64_int) simp_all
  have fb: "float64 (of_nat b + 1) = of_int (int b + 1)"
    using assms float64_int [of "int b + 1"] by simp
  have f31: "float64 (2 ^ 31) = 2 ^ 31"
    using float64_int [of "2 ^ 31"] by simp
  have "(of_int k :: rat) \<le> of_int (2 ^ 31)"
    using k(2) by (simp only: of_int_le_iff)
  then have "of_int 1 \<le> (2 ^ 31 / of_int k :: rat)"
    using k(1) by (simp add: pos_le_divide_eq)
  then have "of_int 1 \<le> float64 (2 ^ 31 / of_int k)"
    by (intro float64_ge_int) simp_all
  then have "of_int (int b + 1) \<le> of_int (int b + 1) * float64 (2 ^ 31 / of_int k)"
    using mult_left_mono [of 1 "float64 (2 ^ 31 / of_int k)" "of_int (int b + 1)"] by simp
  then have "of_int (int b + 1) \<le> float64 (of_int (int b + 1) * float64 (2 ^ 31 / of_int k))"
    using assms by (intro float64_ge_int) simp_all
  then have "int b + 1 \<le> \<lfloor>float64 (of_int (int b + 1) * float64 (2 ^ 31 / of_int k))\<rfloor>"
    by (simp only: le_floor_iff)
  then show ?thesis
    unfolding jump_next_def k_def [symmetric] fb fk f31 by linarith
qed

section \<open>The loop\<close>

lemma buckets_bound: "sint (buckets :: i32) < 2 ^ 31"
  using sint_lt [of buckets] by simp

function jump_loop :: "u64 \<Rightarrow> i32 \<Rightarrow> nat \<Rightarrow> nat \<Rightarrow> nat" where
  "jump_loop key buckets b j =
     (if int j < sint buckets
      then jump_loop (jump_key key) buckets j (jump_next (jump_key key) j) else b)"
  by pat_completeness auto
termination
proof (relation "measure (\<lambda>(key, buckets, b, j). nat (sint buckets - int j))", goal_cases)
  case (2 key buckets b j)
  then have "j < jump_next (jump_key key) j"
    using buckets_bound [of buckets] by (intro jump_next_forward) simp
  with 2 show ?case by simp
qed simp

declare jump_loop.simps [simp del]

definition jumpHash :: "u64 \<Rightarrow> i32 \<Rightarrow> i32" where
  "jumpHash key buckets = word_of_int (int (jump_loop key buckets 0 0))"

section \<open>The bucket\<close>

lemma jump_loop_range:
  "int b < sint buckets \<Longrightarrow> b < j \<Longrightarrow>
     b \<le> jump_loop key buckets b j \<and> int (jump_loop key buckets b j) < sint buckets"
proof (induction key buckets b j rule: jump_loop.induct)
  case (1 key buckets b j)
  show ?case
  proof (cases "int j < sint buckets")
    case True
    have "j < jump_next (jump_key key) j"
      using True buckets_bound [of buckets] by (intro jump_next_forward) simp
    then show ?thesis
      using 1 True by (subst (1 2) jump_loop.simps) fastforce
  next
    case False
    then show ?thesis
      using 1 by (simp add: jump_loop.simps)
  qed
qed

lemma jump_loop_start:
  assumes "0 < sint buckets"
  shows "int (jump_loop key buckets 0 0) < sint buckets"
proof -
  have "0 < jump_next (jump_key key) 0"
    by (rule jump_next_forward) simp
  then show ?thesis
    using jump_loop_range [of 0 buckets "jump_next (jump_key key) 0" "jump_key key"] assms
    by (simp add: jump_loop.simps [of key buckets 0 0])
qed

lemma sint_small: "0 \<le> i \<Longrightarrow> i < 2 ^ 31 \<Longrightarrow> sint (word_of_int i :: i32) = i"
  by (simp add: sint_sbintrunc' signed_take_bit_int_eq_self)

lemma sint_jumpHash: "0 < sint buckets \<Longrightarrow> sint (jumpHash key buckets) = int (jump_loop key buckets 0 0)"
  unfolding jumpHash_def
  by (rule sint_small) (use jump_loop_start [of buckets key] buckets_bound [of buckets] in simp_all)

text \<open>Adding a bucket moves a key to the new bucket or leaves it where it is.\<close>

lemma jump_loop_consistent:
  assumes more: "sint more = sint buckets + 1"
  shows "b < j \<Longrightarrow> int b < sint buckets \<Longrightarrow>
     jump_loop key more b j = jump_loop key buckets b j
     \<or> int (jump_loop key more b j) = sint buckets"
  using more
proof (induction key buckets b j rule: jump_loop.induct)
  case (1 key n b j)
  let ?k = "jump_key key" and ?next = "jump_next (jump_key key) j"
  have forward: "int j < sint more \<Longrightarrow> j < ?next"
    using buckets_bound [of more] by (intro jump_next_forward) simp
  show ?case
  proof (rule linorder_cases [of "int j" "sint n"])
    assume j: "int j < sint n"
    then have "jump_loop ?k more j ?next = jump_loop ?k n j ?next
        \<or> int (jump_loop ?k more j ?next) = sint n"
      using 1 forward by simp
    then show ?thesis
      using j 1(4) by (simp add: jump_loop.simps [of key])
  next
    assume j: "int j = sint n"
    then have "\<not> int ?next < sint more"
      using forward 1(4) by simp
    then show ?thesis
      using j 1(4) by (simp add: jump_loop.simps [of key] jump_loop.simps [of ?k])
  next
    assume j: "sint n < int j"
    then show ?thesis
      using 1(4) by (simp add: jump_loop.simps [of key])
  qed
qed

lemma jumpHash_range:
  "0 < sint buckets \<Longrightarrow> 0 \<le> sint (jumpHash key buckets) \<and> sint (jumpHash key buckets) < sint buckets"
  using jump_loop_start [of buckets key] by (simp add: sint_jumpHash)

lemma jumpHash_consistent:
  assumes "0 < sint buckets" "sint more = sint buckets + 1"
  shows "sint (jumpHash key more) = sint (jumpHash key buckets) \<or> sint (jumpHash key more) = sint buckets"
proof -
  have "0 < jump_next (jump_key key) 0"
    by (rule jump_next_forward) simp
  then have "jump_loop (jump_key key) more 0 (jump_next (jump_key key) 0)
        = jump_loop (jump_key key) buckets 0 (jump_next (jump_key key) 0)
      \<or> int (jump_loop (jump_key key) more 0 (jump_next (jump_key key) 0)) = sint buckets"
    using jump_loop_consistent [OF assms(2)] assms(1) by simp
  then show ?thesis
    using assms by (simp add: sint_jumpHash jump_loop.simps [of key _ 0 0])
qed

end
