(* ===== verification/Hash_Strategies.thy ===== *)
theory Hash_Strategies
  imports Strategy_Contract Jump_Hash
begin

text \<open>
  The strategies that hash the flow: \<open>consistent_hashing.go\<close> and \<open>sticky_session.go\<close> with the
  keys of \<open>common.go\<close>. The hash function, the LRU cache, the public suffix list and the methods of
  \<open>netip.Addr\<close> are not part of the repository and are arguments of the definitions. The readings
  of \<open>time.Now().UnixNano()\<close> within one call are the sequence \<open>nanos\<close>.
\<close>

section \<open>The key of a flow\<close>

record 'a flow =
  DestinationIsFqdn :: bool
  DestinationFqdn :: string
  Domain :: string
  DestinationAddresses :: "'a list"
  DestinationIP :: 'a
  SourceIP :: 'a

definition getKey :: "(string \<Rightarrow> bool) \<Rightarrow> (string \<Rightarrow> string option) \<Rightarrow> ('a \<Rightarrow> bool) \<Rightarrow> ('a \<Rightarrow> string)
    \<Rightarrow> 'a flow option \<Rightarrow> string" where
  "getKey parseIP effectiveTLDPlusOne isValid addrString metadata =
     (case metadata of
        None \<Rightarrow> []
      | Some m \<Rightarrow>
          (let metadataHost = (if DestinationIsFqdn m then DestinationFqdn m else Domain m);
               destinationAddr = (case DestinationAddresses m of a # _ \<Rightarrow> a | [] \<Rightarrow> DestinationIP m);
               byAddress = (if \<not> isValid destinationAddr then [] else addrString destinationAddr)
           in if metadataHost = [] then byAddress
              else if parseIP metadataHost then metadataHost
              else (case effectiveTLDPlusOne metadataHost of Some etld \<Rightarrow> etld | None \<Rightarrow> byAddress)))"

definition getKeyWithSrcAndDst :: "(string \<Rightarrow> bool) \<Rightarrow> (string \<Rightarrow> string option) \<Rightarrow> ('a \<Rightarrow> bool)
    \<Rightarrow> ('a \<Rightarrow> string) \<Rightarrow> 'a flow option \<Rightarrow> string" where
  "getKeyWithSrcAndDst parseIP effectiveTLDPlusOne isValid addrString metadata =
     (let dst = getKey parseIP effectiveTLDPlusOne isValid addrString metadata;
          src = (case metadata of None \<Rightarrow> [] | Some m \<Rightarrow> addrString (SourceIP m))
      in src @ dst)"

section \<open>Consistent hashing\<close>

record consistent_hashing =
  ch_outbounds :: "(string, outbound list) go_map"
  ch_delays :: "(tag, u16) go_map"
  ch_maxRetry :: int
  ch_maxAcceptableDelay :: "(string, u16) go_map"
  ch_delayAcceptableRatio :: rat

definition NewConsistentHashing :: "outbound list \<Rightarrow> int \<Rightarrow> rat \<Rightarrow> consistent_hashing" where
  "NewConsistentHashing outbounds retries ratio =
     \<lparr> ch_outbounds = convertOutbounds outbounds, ch_delays = [], ch_maxRetry = retries,
       ch_maxAcceptableDelay = [], ch_delayAcceptableRatio = ratio \<rparr>"

definition ConsistentHashing_Update ::
  "(rat \<Rightarrow> u16) \<Rightarrow> instant \<Rightarrow> consistent_hashing \<Rightarrow> history_map \<Rightarrow> bool \<times> consistent_hashing" where
  "ConsistentHashing_Update oor now s history =
     (let minDelay = snd (getMinDelay now (ch_outbounds s) history);
          delayMap = getDelayMap history;
          res = map (\<lambda>(net, d). (net, acceptable_delay oor d (ch_delayAcceptableRatio s))) minDelay
      in (True, s\<lparr> ch_delays := delayMap, ch_maxAcceptableDelay := res \<rparr>))"

definition alive_by :: "(tag, u16) go_map \<Rightarrow> (string, u16) go_map \<Rightarrow> outbound \<Rightarrow> string \<Rightarrow> bool" where
  "alive_by delays maxAcceptableDelay proxy net =
     (case map_of delays (Tag proxy) of
        Some delay \<Rightarrow> delay \<le> get_or 0 maxAcceptableDelay net
      | None \<Rightarrow> False)"

definition ConsistentHashing_Alive :: "consistent_hashing \<Rightarrow> outbound \<Rightarrow> string \<Rightarrow> bool" where
  "ConsistentHashing_Alive s proxy net = alive_by (ch_delays s) (ch_maxAcceptableDelay s) proxy net"

definition bucket_index :: "u64 \<Rightarrow> outbound list \<Rightarrow> int" where
  "bucket_index key outs = sint (jumpHash key (word_of_int (int (length outs))))"

text \<open>At most \<open>maxRetry\<close> probes of the hash, each with the next key.\<close>

primrec consistent_retry :: "nat \<Rightarrow> consistent_hashing \<Rightarrow> string \<Rightarrow> outbound list \<Rightarrow> u64
    \<Rightarrow> (outbound option \<times> u64) outcome" where
  "consistent_retry 0 s net outs key = Returned (None, key)"
| "consistent_retry (Suc n) s net outs key =
     and_then (index_at outs (bucket_index key outs)) (\<lambda>proxy.
       if ConsistentHashing_Alive s proxy net then Returned (Some proxy, key)
       else consistent_retry n s net outs (key + 1))"

definition ConsistentHashing_Select :: "consistent_hashing \<Rightarrow> u64 \<Rightarrow> string \<Rightarrow> outbound option outcome" where
  "ConsistentHashing_Select g key net0 =
     (let net = known_network net0; outs = get_or [] (ch_outbounds g) net
      in and_then (consistent_retry (nat (ch_maxRetry g)) g net outs key) (\<lambda>(found, key').
           case found of
             Some proxy \<Rightarrow> Returned (Some proxy)
           | None \<Rightarrow>
               (case find (\<lambda>proxy. ConsistentHashing_Alive g proxy net) outs of
                  Some proxy \<Rightarrow> Returned (Some proxy)
                | None \<Rightarrow> and_then (index_at outs (bucket_index key' outs)) (\<lambda>proxy. Returned (Some proxy)))))"

section \<open>Sticky sessions\<close>

record 'c sticky_session =
  ss_outbounds :: "(string, outbound list) go_map"
  ss_delays :: "(tag, u16) go_map"
  ss_maxRetry :: int
  ss_maxAcceptableDelay :: "(string, u16) go_map"
  ss_delayAcceptableRatio :: rat
  ss_lruCache :: 'c

definition NewStickySession :: "'c \<Rightarrow> outbound list \<Rightarrow> int \<Rightarrow> rat \<Rightarrow> 'c sticky_session" where
  "NewStickySession cache outbounds retries ratio =
     \<lparr> ss_outbounds = convertOutbounds outbounds, ss_delays = [], ss_maxRetry = retries,
       ss_maxAcceptableDelay = [], ss_delayAcceptableRatio = ratio, ss_lruCache = cache \<rparr>"

definition StickySession_Update ::
  "(rat \<Rightarrow> u16) \<Rightarrow> instant \<Rightarrow> 'c sticky_session \<Rightarrow> history_map \<Rightarrow> bool \<times> 'c sticky_session" where
  "StickySession_Update oor now s history =
     (let minDelay = snd (getMinDelay now (ss_outbounds s) history);
          delayMap = getDelayMap history;
          res = map (\<lambda>(net, d). (net, acceptable_delay oor d (ss_delayAcceptableRatio s))) minDelay
      in (True, s\<lparr> ss_delays := delayMap, ss_maxAcceptableDelay := res \<rparr>))"

definition StickySession_Alive :: "'c sticky_session \<Rightarrow> outbound \<Rightarrow> string \<Rightarrow> bool" where
  "StickySession_Alive s proxy net = alive_by (ss_delays s) (ss_maxAcceptableDelay s) proxy net"

text \<open>
  \<open>n\<close> is the number of attempts left, \<open>i\<close> the number of the attempt; the result is the outbound
  and the index to store, if one has to be stored.
\<close>

fun sticky_loop :: "(nat \<Rightarrow> u64) \<Rightarrow> 'c sticky_session \<Rightarrow> string \<Rightarrow> outbound list \<Rightarrow> u64 \<Rightarrow> bool \<Rightarrow> int
    \<Rightarrow> nat \<Rightarrow> nat \<Rightarrow> int \<Rightarrow> (outbound option outcome \<times> int option)" where
  "sticky_loop nanos s net outs key has idx i 0 nowIdx =
     (and_then (index_at outs nowIdx) (\<lambda>proxy. Returned (Some proxy)), Some nowIdx)"
| "sticky_loop nanos s net outs key has idx i (Suc n) nowIdx =
     (case index_at outs nowIdx of
        Panicked \<Rightarrow> (Panicked, None)
      | Returned proxy \<Rightarrow>
          if StickySession_Alive s proxy net
          then (Returned (Some proxy), if \<not> has \<or> nowIdx \<noteq> idx then Some nowIdx else None)
          else sticky_loop nanos s net outs key has idx (i + 1) n (bucket_index (key + nanos i) outs))"

definition StickySession_Select :: "('c \<Rightarrow> u64 \<Rightarrow> int option \<times> 'c) \<Rightarrow> ('c \<Rightarrow> u64 \<Rightarrow> int \<Rightarrow> 'c)
    \<Rightarrow> (nat \<Rightarrow> u64) \<Rightarrow> 'c sticky_session \<Rightarrow> u64 \<Rightarrow> string \<Rightarrow> outbound option outcome \<times> 'c sticky_session" where
  "StickySession_Select lruGet lruAdd nanos s key net0 =
     (let net = known_network net0; outs = get_or [] (ss_outbounds s) net;
          (cached, cache) = lruGet (ss_lruCache s) key;
          drawn = bucket_index (key + nanos 0) outs;
          idx = (case cached of None \<Rightarrow> drawn | Some i \<Rightarrow> if int (length outs) \<le> i then drawn else i);
          (result, store) = sticky_loop nanos s net outs key (cached \<noteq> None) idx 1
            (nat (ss_maxRetry s - 1)) idx
      in (result, s\<lparr> ss_lruCache := (case store of None \<Rightarrow> cache | Some i \<Rightarrow> lruAdd cache key i) \<rparr>))"

section \<open>Consistent hashing keeps the contract\<close>

definition small_list :: "'a list \<Rightarrow> bool" where
  "small_list xs \<longleftrightarrow> xs \<noteq> [] \<and> int (length xs) < 2 ^ 31"

lemma bucket_in_range:
  assumes "small_list outs"
  shows "0 \<le> bucket_index key outs \<and> bucket_index key outs < int (length outs)"
proof -
  have "sint (word_of_int (int (length outs)) :: i32) = int (length outs)"
    using assms by (intro sint_small) (simp_all add: small_list_def)
  then show ?thesis
    using jumpHash_range [of "word_of_int (int (length outs))" key] assms
    by (simp add: bucket_index_def small_list_def)
qed

lemma bucket_outbound:
  "small_list outs \<Longrightarrow> index_at outs (bucket_index key outs) = Returned (outs ! nat (bucket_index key outs))"
  using bucket_in_range [of outs key] by (intro index_at_defined) simp_all

lemma bucket_member: "small_list outs \<Longrightarrow> outs ! nat (bucket_index key outs) \<in> set outs"
  using bucket_in_range [of outs key] by (intro nth_mem) linarith

lemma consistent_retry_result:
  assumes "small_list outs"
  shows "\<exists>found key'. consistent_retry n s net outs key = Returned (found, key')
    \<and> (\<forall>p. found = Some p \<longrightarrow> p \<in> set outs \<and> ConsistentHashing_Alive s p net)"
proof (induction n arbitrary: key)
  case (Suc n)
  then show ?case
    using bucket_member [OF assms, of key] by (simp add: bucket_outbound [OF assms])
qed simp

lemma consistent_select_result:
  assumes "small_list (candidates_for (ch_outbounds s) net)"
  shows "\<exists>p \<in> set (candidates_for (ch_outbounds s) net). ConsistentHashing_Select s key net = Returned (Some p)
    \<and> ((\<exists>q \<in> set (candidates_for (ch_outbounds s) net). ConsistentHashing_Alive s q (known_network net))
       \<longrightarrow> ConsistentHashing_Alive s p (known_network net))"
proof -
  let ?outs = "candidates_for (ch_outbounds s) net" and ?net = "known_network net"
  obtain found key' where retry: "consistent_retry (nat (ch_maxRetry s)) s ?net ?outs key = Returned (found, key')"
    and found: "\<forall>p. found = Some p \<longrightarrow> p \<in> set ?outs \<and> ConsistentHashing_Alive s p ?net"
    using consistent_retry_result [OF assms] by blast
  have sel: "ConsistentHashing_Select s key net = (case found of Some proxy \<Rightarrow> Returned (Some proxy)
      | None \<Rightarrow> (case find (\<lambda>proxy. ConsistentHashing_Alive s proxy ?net) ?outs of
          Some proxy \<Rightarrow> Returned (Some proxy)
        | None \<Rightarrow> Returned (Some (?outs ! nat (bucket_index key' ?outs)))))"
    using retry bucket_outbound [OF assms, of key']
    by (simp add: ConsistentHashing_Select_def Let_def candidates_for_def split: option.splits)
  show ?thesis
  proof (cases found)
    case (Some p)
    then show ?thesis using found sel by auto
  next
    case None
    show ?thesis
    proof (cases "find (\<lambda>proxy. ConsistentHashing_Alive s proxy ?net) ?outs")
      case (Some p)
      then have "p \<in> set ?outs \<and> ConsistentHashing_Alive s p ?net"
        by (auto simp: find_Some_iff)
      then show ?thesis using sel \<open>found = None\<close> Some by auto
    next
      case n: None
      then have "\<forall>q \<in> set ?outs. \<not> ConsistentHashing_Alive s q ?net"
        by (auto simp: find_None_iff)
      then show ?thesis
        using sel \<open>found = None\<close> bucket_member [OF assms, of key'] by (simp add: n)
    qed
  qed
qed

definition ch_members :: "consistent_hashing \<Rightarrow> outbound set" where
  "ch_members s = set (candidates_for (ch_outbounds s) NetworkTCP) \<union> set (candidates_for (ch_outbounds s) NetworkUDP)"

definition ch_ok :: "consistent_hashing \<Rightarrow> bool" where
  "ch_ok s \<longleftrightarrow> (\<forall>net. small_list (candidates_for (ch_outbounds s) net))"

lemma ch_candidates_in_members: "set (candidates_for (ch_outbounds s) net) \<subseteq> ch_members s"
  using known_network_cases [of net] by (auto simp: ch_members_def candidates_for_def known_network_def)

interpretation consistent: strategy
  "\<lambda>(oor, now) s history. apfst Returned (ConsistentHashing_Update oor now s history)"
  "\<lambda>(key, net) s. (ConsistentHashing_Select s key net, s)" ch_members ch_ok
proof
  fix s e history r s'
  assume "ch_ok s" and u: "(case e of (oor, now) \<Rightarrow> \<lambda>s history. apfst Returned (ConsistentHashing_Update oor now s history)) s history = (r, s')"
  then show "ch_ok s' \<and> ch_members s' = ch_members s \<and> (\<exists>chg. r = Returned chg)"
    by (cases e) (auto simp: ConsistentHashing_Update_def Let_def ch_ok_def ch_members_def)
next
  fix s q p s'
  assume ok: "ch_ok s" and u: "(case q of (key, net) \<Rightarrow> \<lambda>s. (ConsistentHashing_Select s key net, s)) s = (p, s')"
  obtain key net where q: "q = (key, net)" by fastforce
  have "small_list (candidates_for (ch_outbounds s) net)"
    using ok by (simp add: ch_ok_def)
  from consistent_select_result [OF this, of key] show "ch_ok s' \<and> ch_members s' = ch_members s \<and> sound_result (ch_members s) p"
    using ok u ch_candidates_in_members [of s net] by (auto simp: q sound_result_def)
qed

lemma small_filter: "small_list outs \<Longrightarrow> small_list (filterOutbounds outs n)"
  by (auto simp: small_list_def filterOutbounds_def Let_def intro: le_less_trans [OF length_filter_le])

lemma ch_ok_new: "small_list outs \<Longrightarrow> ch_ok (NewConsistentHashing outs retries ratio)"
  using known_network_cases small_filter [of outs]
  by (auto simp: ch_ok_def NewConsistentHashing_def candidates_for_def get_or_def convertOutbounds_def known_network_def)

text \<open>Without retries the key only matters when nothing is alive.\<close>

lemma consistent_without_retries:
  assumes "ch_maxRetry s \<le> 0" "find (\<lambda>out. ConsistentHashing_Alive s out (known_network net))
      (candidates_for (ch_outbounds s) net) = Some out"
  shows "ConsistentHashing_Select s key net = Returned (Some out)"
  using assms by (simp add: ConsistentHashing_Select_def Let_def candidates_for_def)

section \<open>Sticky sessions\<close>

lemma sticky_loop_result:
  assumes "small_list outs" "0 \<le> nowIdx" "nowIdx < int (length outs)"
  shows "\<exists>p \<in> set outs. fst (sticky_loop nanos s net outs key has idx i n nowIdx) = Returned (Some p)"
    and "snd (sticky_loop nanos s net outs key has idx i n nowIdx) = Some j \<Longrightarrow> 0 \<le> j \<and> j < int (length outs)"
  using assms
proof (induction n arbitrary: i nowIdx)
  case 0
  {
    case 1
    then show ?case
      using index_at_defined [of nowIdx outs] by simp
  next
    case 2
    then show ?case by simp
  }
next
  case (Suc n)
  have at: "index_at outs nowIdx = Returned (outs ! nat nowIdx)" "outs ! nat nowIdx \<in> set outs"
    if "0 \<le> nowIdx" "nowIdx < int (length outs)" for nowIdx
    using that by (simp_all add: index_at_defined)
  {
    case 1
    then show ?case
      using at [OF 1(2,3)] Suc.IH(1) [of "bucket_index (key + nanos i) outs" "i + 1"] bucket_in_range [of outs] by simp
  next
    case 2
    then show ?case
      using at [OF 2(3,4)] Suc.IH(2) [of "i + 1" "bucket_index (key + nanos i) outs"] bucket_in_range [of outs]
      by (simp split: if_splits)
  }
qed

end
