(* ===== verification/Smart_Strategy.thy ===== *)
theory Smart_Strategy
  imports Hash_Strategies Smart_Invariant
begin

text \<open>
  \<open>SmartActive\<close> as a strategy of the group, and what the contract gives for a strategy that was
  just built: every outbound handed out is one the group was configured with.
\<close>

lemma update_keeps_profile:
  "wf_smart s \<Longrightarrow> updateOutboundsInfo now s history mode bg = (ch, s') \<Longrightarrow> sa_outbounds s' = sa_outbounds s"
  using step_monotone smart_step.update by blast

lemma probe_keeps_profile:
  "wf_smart s \<Longrightarrow> UpdateActiveProbe now s t p history = (u, s') \<Longrightarrow> sa_outbounds s' = sa_outbounds s"
  using step_monotone smart_step.probe by blast

interpretation smart_active: strategy
  "\<lambda>(now, mode, batchGeneration) s history. apfst Returned (updateOutboundsInfo now s history mode batchGeneration)"
  "\<lambda>(now, metadata) s. (Returned (Select now s metadata), s)" "\<lambda>s. set (sa_outbounds s)" wf_smart
proof
  fix s e history r s'
  assume wf: "wf_smart s" and u: "(case e of (now, mode, batchGeneration) \<Rightarrow> \<lambda>s history.
      apfst Returned (updateOutboundsInfo now s history mode batchGeneration)) s history = (r, s')"
  obtain now mode g where e: "e = (now, mode, g)" by (metis prod_cases3)
  obtain ch where up: "updateOutboundsInfo now s history mode g = (ch, s')" and r: "r = Returned ch"
    using u by (cases "updateOutboundsInfo now s history mode g") (auto simp: e)
  show "wf_smart s' \<and> set (sa_outbounds s') = set (sa_outbounds s) \<and> (\<exists>chg. r = Returned chg)"
    using wf_updateOutboundsInfo [OF wf up] update_keeps_profile [OF wf up] r by simp
next
  fix s q p s'
  assume wf: "wf_smart s" and u: "(case q of (now, metadata) \<Rightarrow> \<lambda>s. (Returned (Select now s metadata), s)) s = (p, s')"
  then show "wf_smart s' \<and> set (sa_outbounds s') = set (sa_outbounds s) \<and> sound_result (set (sa_outbounds s)) p"
    by (cases q) (auto simp: sound_result_def Select_def wf_smart_def split: option.splits if_splits)
qed

lemma convert_members: "set (candidates_for (convertOutbounds outs) net) \<subseteq> set outs"
  using filterOutbounds_subset [of outs] by (auto simp: candidates_for_def convertOutbounds_def get_or_def)

end
