(* ===== verification/Claims_Strategies.thy ===== *)
theory Claims_Strategies
  imports Smart_Strategy Scenarios
begin

text \<open>
  The properties of the strategies: the contract with the group, the acceptable pool and the
  fairness of round robin, the choice of lowest delay, and the hashing strategies.
\<close>

section \<open>Round robin\<close>

lemma mset_rotate [simp]: "mset (rotate n xs) = mset xs"
proof -
  have "mset (rotate n xs) = mset (take (n mod length xs) xs @ drop (n mod length xs) xs)"
    unfolding rotate_drop_take mset_append by (rule union_commute)
  then show ?thesis by simp
qed

abbreviation round_robin_run where
  "round_robin_run \<equiv> strategy_run
     (\<lambda>(oor, now) s history. apfst Returned (RoundRobin_Update oor now s history))
     (\<lambda>(net, touch) s. RoundRobin_Select s net touch)"

lemma round_robin_run_ok:
  "round_robin_run (NewRoundRobin outbounds ratio) calls = (rs, s) \<Longrightarrow> rr_ok s"
  using round_robin.run_sound [OF rr_ok_new] by blast

text \<open>
  C19: The acceptable pool of round robin. Whatever calls came before, when a candidate of the
  network works with a score of at least 30, the pool after an update is exactly the set of the
  working candidates with a score of at least 30 that lie within 15 points of the best one.
\<close>

theorem round_robin_pool:
  assumes "round_robin_run (NewRoundRobin outbounds ratio) calls = (rs, s)"
    and "out \<in> set (candidates_for (rr_outbounds s) net)"
    and "getTagSuccess (Tag out) history" "30 \<le> getTagHealthScore now (Tag out) history"
    and "RoundRobin_Update oor now s history = (chg, s')"
  shows "\<exists>best \<in> set (candidates_for (rr_outbounds s) net). getTagSuccess (Tag best) history
    \<and> (\<forall>x \<in> set (candidates_for (rr_outbounds s) net). getTagSuccess (Tag x) history
         \<longrightarrow> getTagHealthScore now (Tag x) history \<le> getTagHealthScore now (Tag best) history)
    \<and> set (take (nat (rr_limit s' net)) (rr_sorted_for s' net))
      = {x \<in> set (candidates_for (rr_outbounds s) net). getTagSuccess (Tag x) history
           \<and> 30 \<le> getTagHealthScore now (Tag x) history
           \<and> getTagHealthScore now (Tag best) history - 15 \<le> getTagHealthScore now (Tag x) history}"
proof -
  have two: "two_networks (rr_outbounds s)"
    using round_robin_run_ok [OF assms(1)] by (simp add: rr_ok_def)
  obtain h where h: "pget history (Tag out) = Some h" "Success h"
    using assms(3) by (auto simp: getTagSuccess_def split: option.splits)
  then have "(Tag out, Some h) \<in> set history"
    by (simp add: map_of_SomeD pget_Some_map_of)
  moreover have "0 < getHealthScore now (Tag out) (Some h)"
    using assms(4) h by (simp add: getTagHealthScore_eq)
  ultimately have use: "hasUsableHealth now history"
    using h(2) by (force simp: hasUsableHealth_def list_ex_iff)
  note f = rr_update_facts [OF two assms(5)]
  have sorted: "rr_sorted_for s' net
      = slice_stable (pool_less now True history) (candidates_for (rr_outbounds s) net)"
    using f(1) use by simp
  note p = acceptable_pool [OF sorted assms(2,3,4)]
  have nonempty: "rr_sorted_for s' net \<noteq> []"
    using assms(2) by (auto simp: sorted)
  have "hd (rr_sorted_for s' net) \<in> set (candidates_for (rr_outbounds s) net)"
    using hd_in_set [OF nonempty] by (simp add: sorted)
  moreover have "set (take (nat (rr_limit s' net)) (rr_sorted_for s' net))
      = {x \<in> set (candidates_for (rr_outbounds s) net).
          pool_member now history (getTagHealthScore now (Tag (hd (rr_sorted_for s' net))) history) x}"
    using p(1) [of oor "rr_delayAcceptableRatio s"] f(2) [of net] use by (simp add: sorted)
  ultimately show ?thesis
    using p(2,3) unfolding pool_member_def by blast
qed

theorem round_robin_pool_witness:
  "\<exists>best \<in> set [server ''a'', server ''b'', server ''c'']. getTagSuccess (Tag best) first_cohort
    \<and> getTagHealthScore clock (Tag (server ''a'')) first_cohort
      \<le> getTagHealthScore clock (Tag best) first_cohort"
proof -
  let ?outs = "[server ''a'', server ''b'', server ''c'']"
  let ?s = "NewRoundRobin ?outs 2"
  obtain chg s' where u: "RoundRobin_Update (\<lambda>_. 0) clock ?s first_cohort = (chg, s')" by fastforce
  have c: "candidates_for (rr_outbounds ?s) ''tcp'' = ?outs" by code_simp
  have "getTagSuccess (Tag (server ''a'')) first_cohort" by code_simp
  moreover have "30 \<le> getTagHealthScore clock (Tag (server ''a'')) first_cohort" by code_simp
  moreover have "server ''a'' \<in> set (candidates_for (rr_outbounds ?s) ''tcp'')"
    unfolding c by simp
  ultimately show ?thesis
    using round_robin_pool [OF _ _ _ _ u, of ?outs 2 "[]" "[]" "server ''a''" "''tcp''"] unfolding c by force
qed

text \<open>
  C20: Round robin is fair. Whatever calls came before, one round of selections on a network
  hands out each outbound of the acceptable pool exactly as often as the pool holds it.
\<close>

theorem round_robin_is_fair:
  assumes "round_robin_run (NewRoundRobin outbounds ratio) calls = (rs, s)"
    and "candidates_for (rr_outbounds s) net \<noteq> []"
  shows "mset (fst (select_times (nat (rr_limit s net)) s net))
    = image_mset (\<lambda>out. Returned (Some out)) (mset (take (nat (rr_limit s net)) (rr_sorted_for s net)))"
  using select_times_rotates [OF round_robin_run_ok [OF assms(1)] assms(2)]
  by (simp add: comp_def)

theorem round_robin_is_fair_witness:
  "mset (fst (select_times (nat (rr_limit (NewRoundRobin [server ''a'', server ''b''] 2) ''udp''))
      (NewRoundRobin [server ''a'', server ''b''] 2) ''udp''))
    = {#Returned (Some (server ''a'')), Returned (Some (server ''b''))#}"
proof -
  let ?s = "NewRoundRobin [server ''a'', server ''b''] 2"
  have "candidates_for (rr_outbounds ?s) ''udp'' \<noteq> []" by code_simp
  note fair = round_robin_is_fair [of "[server ''a'', server ''b'']" 2 "[]" "[]" ?s "''udp''", OF _ this]
  moreover have "take (nat (rr_limit ?s ''udp'')) (rr_sorted_for ?s ''udp'') = [server ''a'', server ''b'']"
    by code_simp
  ultimately show ?thesis by simp
qed

section \<open>Lowest delay\<close>

text \<open>
  Lowest delay picks the best. After an update, when some candidate of the network works,
  the outbound handed out is a working candidate with the highest score, and of those with the
  highest score one with the lowest delay.
\<close>

lemma min_delay_loop_best:
  "min_delay_loop now True history outs (d, sc, cur) = (d', sc', best) \<Longrightarrow>
     sc \<le> sc' \<and> (sc = sc' \<longrightarrow> d' \<le> d)
     \<and> (best = cur \<and> sc' = sc \<and> d' = d
        \<or> (\<exists>b \<in> set outs. best = Some b \<and> getTagSuccess (Tag b) history
             \<and> sc' = getTagHealthScore now (Tag b) history \<and> d' = getTagDelay (Tag b) history))
     \<and> (\<forall>x \<in> set outs. getTagSuccess (Tag x) history \<longrightarrow> getTagHealthScore now (Tag x) history \<le> sc'
          \<and> (getTagHealthScore now (Tag x) history = sc' \<longrightarrow> d' \<le> getTagDelay (Tag x) history))"
proof (induction outs arbitrary: d sc cur)
  case (Cons out outs)
  let ?d = "getTagDelay (Tag out) history" and ?sc = "getTagHealthScore now (Tag out) history"
  show ?case
  proof (cases "getTagSuccess (Tag out) history \<and> (?sc > sc \<or> ?sc = sc \<and> ?d \<le> d)")
    case True
    then have "min_delay_loop now True history outs (?d, ?sc, Some out) = (d', sc', best)"
      using Cons.prems by (simp add: Let_def)
    from Cons.IH [OF this] True show ?thesis
      by (auto intro: order_trans)
  next
    case False
    then have "min_delay_loop now True history outs (d, sc, cur) = (d', sc', best)"
      using Cons.prems by (auto simp: Let_def split: if_splits)
    from Cons.IH [OF this] False show ?thesis
      by (auto intro: order_trans less_imp_le simp: not_le not_less)
  qed
qed simp

abbreviation lowest_delay_run where
  "lowest_delay_run \<equiv> strategy_run (\<lambda>now s history. LowestDelay_Update now s history)
     (\<lambda>(net, touch) s. (Returned (LowestDelay_Select s net touch), s))"

theorem lowest_delay_picks_best:
  assumes "outbounds \<noteq> []" "lowest_delay_run (NewLowestDelay outbounds) calls = (rs, s)"
    and "x \<in> set (candidates_for (ld_outbounds s) net)"
    and "getTagSuccess (Tag x) history" "0 < getTagHealthScore now (Tag x) history"
    and "LowestDelay_Update now s history = (r, s')"
  shows "\<exists>out \<in> set (candidates_for (ld_outbounds s) net). LowestDelay_Select s' net touch = Some out
    \<and> getTagSuccess (Tag out) history
    \<and> (\<forall>y \<in> set (candidates_for (ld_outbounds s) net). getTagSuccess (Tag y) history \<longrightarrow>
         getTagHealthScore now (Tag y) history < getTagHealthScore now (Tag out) history
         \<or> getTagHealthScore now (Tag y) history = getTagHealthScore now (Tag out) history
           \<and> getTagDelay (Tag out) history \<le> getTagDelay (Tag y) history)"
proof -
  let ?outs = "candidates_for (ld_outbounds s) net"
  obtain h where h: "pget history (Tag x) = Some h" "Success h"
    using assms(4) by (auto simp: getTagSuccess_def split: option.splits)
  then have "(Tag x, Some h) \<in> set history" "0 < getHealthScore now (Tag x) (Some h)"
    using assms(5) by (simp_all add: map_of_SomeD pget_Some_map_of getTagHealthScore_eq)
  then have use: "hasUsableHealth now history"
    using h(2) by (force simp: hasUsableHealth_def list_ex_iff)
  have ok: "ld_ok s"
    using lowest_delay.run_sound [OF ld_ok_new [OF assms(1)] assms(2)] by simp
  obtain d sc best where loop: "min_delay_loop now True history ?outs (TimeoutDelay, -1, None) = (d, sc, best)"
    by (metis prod_cases3)
  note b = min_delay_loop_best [OF loop]
  have "0 < sc"
    using b assms(3-5) by auto
  then obtain out where out: "out \<in> set ?outs" "best = Some out" "getTagSuccess (Tag out) history"
      "sc = getTagHealthScore now (Tag out) history" "d = getTagDelay (Tag out) history"
    using b by auto
  have "LowestDelay_Select s' net touch = Some out"
    using ld_update_ok [OF ok assms(6), of net] use
    by (simp add: LowestDelay_Select_def min_delay_of_def loop out(2))
  moreover have "\<forall>y \<in> set ?outs. getTagSuccess (Tag y) history \<longrightarrow>
      getTagHealthScore now (Tag y) history < getTagHealthScore now (Tag out) history
      \<or> getTagHealthScore now (Tag y) history = getTagHealthScore now (Tag out) history
        \<and> getTagDelay (Tag out) history \<le> getTagDelay (Tag y) history"
    using b out(4,5) by (auto simp: le_less)
  ultimately show ?thesis
    using out(1,3) by blast
qed

theorem lowest_delay_picks_best_witness:
  "\<exists>r s' out. LowestDelay_Update clock (NewLowestDelay [server ''a'', server ''b'']) first_cohort = (r, s')
    \<and> LowestDelay_Select s' ''tcp'' True = Some out \<and> getTagSuccess (Tag out) first_cohort"
proof -
  let ?outs = "[server ''a'', server ''b'']"
  let ?s = "NewLowestDelay ?outs"
  obtain r s' where u: "LowestDelay_Update clock ?s first_cohort = (r, s')" by fastforce
  have c: "candidates_for (ld_outbounds ?s) ''tcp'' = ?outs" by code_simp
  have "getTagSuccess (Tag (server ''a'')) first_cohort" by code_simp
  moreover have "0 < getTagHealthScore clock (Tag (server ''a'')) first_cohort" by code_simp
  moreover have "server ''a'' \<in> set (candidates_for (ld_outbounds ?s) ''tcp'')"
    unfolding c by simp
  ultimately show ?thesis
    using lowest_delay_picks_best [OF _ _ _ _ _ u, of ?outs "[]" "[]" "server ''a''" "''tcp''" True] u by auto
qed

section \<open>Consistent hashing\<close>

text \<open>
  C21: The jump hash always ends in a bucket, and growing the list of outbounds by one moves a
  key to the new bucket or leaves it where it is.
\<close>

theorem jump_hash_is_consistent:
  assumes "0 < sint buckets" "sint bigger = sint buckets + 1"
  shows "0 \<le> sint (jumpHash key buckets) \<and> sint (jumpHash key buckets) < sint buckets
    \<and> (sint (jumpHash key bigger) = sint (jumpHash key buckets) \<or> sint (jumpHash key bigger) = sint buckets)"
  using jumpHash_range [OF assms(1)] jumpHash_consistent [OF assms] by blast

theorem jump_hash_is_consistent_witness:
  "sint (jumpHash 7 (4 :: i32)) = sint (jumpHash 7 (3 :: i32)) \<or> sint (jumpHash 7 (4 :: i32)) = 3"
  using jump_hash_is_consistent [of 3 4 7] by simp

text \<open>
  Consistent hashing never hands out a dead outbound while a candidate of the network is
  alive, it always hands out a candidate, and it does so for every key, every number of retries and
  every history, as long as the list of candidates is not empty and fits an \<open>int32\<close>.
\<close>

theorem consistent_hashing_prefers_alive:
  assumes "small_list (candidates_for (ch_outbounds s) net)"
  shows "\<exists>p \<in> set (candidates_for (ch_outbounds s) net). ConsistentHashing_Select s key net = Returned (Some p)
    \<and> ((\<exists>q \<in> set (candidates_for (ch_outbounds s) net). ConsistentHashing_Alive s q (known_network net))
       \<longrightarrow> ConsistentHashing_Alive s p (known_network net))"
  by (rule consistent_select_result [OF assms])

theorem consistent_hashing_prefers_alive_witness:
  "\<exists>p \<in> {server ''a'', server ''b''}.
     ConsistentHashing_Select (NewConsistentHashing [server ''a'', server ''b''] 3 2) 5 ''tcp'' = Returned (Some p)"
proof -
  let ?s = "NewConsistentHashing [server ''a'', server ''b''] 3 2"
  have c: "candidates_for (ch_outbounds ?s) ''tcp'' = [server ''a'', server ''b'']" by code_simp
  have "small_list (candidates_for (ch_outbounds ?s) ''tcp'')"
    unfolding c by (simp add: small_list_def)
  from consistent_hashing_prefers_alive [OF this, of 5] show ?thesis
    unfolding c by auto
qed

text \<open>
  With \<open>max_retry\<close> left at its default 0 the key of the flow has no influence as long as any
  outbound is alive: every flow goes to the first one alive.
\<close>

theorem hashing_without_retries_ignores_key:
  assumes "\<exists>q \<in> set (candidates_for (ch_outbounds s) net). ConsistentHashing_Alive s q (known_network net)"
    and "ch_maxRetry s \<le> 0"
  shows "ConsistentHashing_Select s key net = ConsistentHashing_Select s key' net"
proof -
  obtain out where "find (\<lambda>out. ConsistentHashing_Alive s out (known_network net))
      (candidates_for (ch_outbounds s) net) = Some out"
    using assms(1) by (cases "find (\<lambda>out. ConsistentHashing_Alive s out (known_network net))
      (candidates_for (ch_outbounds s) net)") (auto simp: find_None_iff)
  then show ?thesis
    by (simp add: consistent_without_retries [OF assms(2)])
qed

theorem hashing_without_retries_ignores_key_witness:
  "ConsistentHashing_Select (snd (ConsistentHashing_Update (\<lambda>_. 0) clock
      (NewConsistentHashing [server ''a'', server ''b''] 0 2) first_cohort)) 1 ''tcp''
    = ConsistentHashing_Select (snd (ConsistentHashing_Update (\<lambda>_. 0) clock
      (NewConsistentHashing [server ''a'', server ''b''] 0 2) first_cohort)) 2 ''tcp''"
proof (rule hashing_without_retries_ignores_key)
  let ?s = "snd (ConsistentHashing_Update (\<lambda>_. 0) clock
      (NewConsistentHashing [server ''a'', server ''b''] 0 2) first_cohort)"
  show "\<exists>q \<in> set (candidates_for (ch_outbounds ?s) ''tcp''). ConsistentHashing_Alive ?s q (known_network ''tcp'')"
    by code_simp
  show "ch_maxRetry ?s \<le> 0" by code_simp
qed

section \<open>Sticky sessions\<close>

text \<open>
  A sticky session sticks. With at least two attempts configured, a flow whose cached index is in
  range and whose outbound is alive gets that very outbound, and the cache is not written.
\<close>

theorem sticky_session_sticks:
  assumes "2 \<le> ss_maxRetry s" "lruGet (ss_lruCache s) key = (Some i, cache)"
    and "0 \<le> i" "i < int (length (candidates_for (ss_outbounds s) net))"
    and "StickySession_Alive s (candidates_for (ss_outbounds s) net ! nat i) (known_network net)"
  shows "StickySession_Select lruGet lruAdd nanos s key net
    = (Returned (Some (candidates_for (ss_outbounds s) net ! nat i)), s\<lparr> ss_lruCache := cache \<rparr>)"
proof -
  obtain n where "nat (ss_maxRetry s - 1) = Suc n"
    using assms(1) by (cases "nat (ss_maxRetry s - 1)") auto
  then show ?thesis
    using assms(2-5) index_at_defined [OF assms(3,4)]
    by (simp add: StickySession_Select_def Let_def candidates_for_def)
qed

theorem sticky_session_sticks_witness:
  "\<exists>s. ss_lruCache s = [(9, 1)]
    \<and> fst (StickySession_Select (\<lambda>c k. (map_of c k, c)) (\<lambda>c k i. (k, i) # c) (\<lambda>_. 0) s 9 ''tcp'')
      = Returned (Some (server ''b''))"
proof -
  let ?s = "snd (StickySession_Update (\<lambda>_. 0) clock
      (NewStickySession [(9, 1)] [server ''a'', server ''b''] 2 2) first_cohort)"
  have c: "candidates_for (ss_outbounds ?s) ''tcp'' = [server ''a'', server ''b'']" by code_simp
  have "2 \<le> ss_maxRetry ?s" "(\<lambda>c k. (map_of c k, c)) (ss_lruCache ?s) 9 = (Some 1, [(9, 1)])"
    "ss_lruCache ?s = [(9, 1)]"
    by (simp_all add: StickySession_Update_def NewStickySession_def Let_def)
  moreover have "StickySession_Alive ?s (server ''b'') (known_network ''tcp'')" by code_simp
  ultimately have "StickySession_Select (\<lambda>c k. (map_of c k, c)) (\<lambda>c k i. (k, i) # c) (\<lambda>_. 0) ?s 9 ''tcp''
      = (Returned (Some (server ''b'')), ?s\<lparr> ss_lruCache := [(9, 1)] \<rparr>)"
    using sticky_session_sticks [of ?s "\<lambda>c k. (map_of c k, c)" 9 1 "[(9, 1)]" "''tcp''"] by (simp add: c)
  then show ?thesis
    using \<open>ss_lruCache ?s = [(9, 1)]\<close> by (intro exI [of _ ?s]) simp
qed

end
