(* ===== verification/Switch_Policy.thy ===== *)
theory Switch_Policy
  imports Smart_Probe
begin

text \<open>
  \<open>protocol/group/balancer/switch_policy.go\<close> and \<open>common/interrupt/group.go\<close>: what a change of
  the active outbound does to the connections that already run over the old one. An opaque id
  (the hash of a tag) only appears in the log and is left out.
\<close>

section \<open>The interruption policy\<close>

datatype switch_type =
  SwitchRegular | SwitchRegularSmart | SwitchBetterScore | SwitchDegraded | SwitchConfirmedEmergency

record interruption_policy =
  switchType :: switch_type
  policyReason :: string
  interruptExternal :: bool

definition preserveSwitchPolicy :: "switch_type \<Rightarrow> string \<Rightarrow> interruption_policy" where
  "preserveSwitchPolicy st r = \<lparr> switchType = st, policyReason = r, interruptExternal = False \<rparr>"

definition confirmedOutboundFailure :: "url_test_history option \<Rightarrow> bool" where
  "confirmedOutboundFailure history =
     (case history of
        None \<Rightarrow> False
      | Some h \<Rightarrow>
          if Success h \<or> IsFromCache h \<or> CheckGeneration h = 0 \<or> IsZero (Time h)
             \<or> \<not> CombinedReady h \<or> URLTestStatus h \<noteq> StatusFailed
          then False
          else ErrorType h \<in> {ErrorTypeRefused, ErrorTypeTLSHandshakeFailed, ErrorTypeUnsupportedCurve})"

definition smartSwitchInterruptionPolicy ::
  "smart_decision \<Rightarrow> url_test_history option \<Rightarrow> int \<Rightarrow> interruption_policy" where
  "smartSwitchInterruptionPolicy decision activeHistory streak =
     (let st = (if dmode decision = ModeUserRefresh then SwitchBetterScore
                else if str_contains ''better'' (reason decision) \<or> str_contains ''stably'' (reason decision)
                        \<or> prefix ''completed_batch_'' (reason decision) then SwitchBetterScore
                else if dstate decision = SUSPECT \<or> dstate decision = DEGRADED \<or> dstate decision = BAD
                then SwitchDegraded else SwitchRegularSmart);
          policy = preserveSwitchPolicy st (reason decision)
      in if action decision \<noteq> Switch then policy
         else
           (let confirmedByActiveProbe = (reason decision = ''active_probe_confirmed_connection_failure'');
                confirmedByCohort = (dstate decision = CRITICAL \<and> streak \<ge> smartActiveProbeConfirmations)
            in if (confirmedByActiveProbe \<or> confirmedByCohort) \<and> confirmedOutboundFailure activeHistory
               then policy\<lparr> switchType := SwitchConfirmedEmergency, interruptExternal := True \<rparr>
               else policy))"

text \<open>\<open>SmartActive.switchInterruptionPolicy\<close> reads the decision, its diagnostics and the streak.\<close>

definition smartInterruptionPolicy :: "smart_active \<Rightarrow> interruption_policy" where
  "smartInterruptionPolicy s =
     (let decision = sa_decision s;
          history = pget (sa_diagnosticHistory s) (dfrom decision);
          streak = (case map_of (sa_evidence s) (dfrom decision) of
            None \<Rightarrow> 0 | Some e \<Rightarrow> failureStreak e)
      in smartSwitchInterruptionPolicy decision history streak)"

text \<open>\<open>current\<close> is the value of the environment variable \<open>ZEON_SESSION_GENERATION\<close>.\<close>

definition sessionGenerationMatches :: "string \<Rightarrow> string \<Rightarrow> bool" where
  "sessionGenerationMatches captured current \<longleftrightarrow> captured = [] \<or> current = [] \<or> captured = current"

section \<open>The group of running connections\<close>

text \<open>A connection is an identifier; closing it is being removed from the group and counted.\<close>

record 'c group_conn =
  conn :: 'c
  isExternal :: bool
  network :: string

record interrupt_result =
  ClosedTCP :: int
  ClosedUDP :: int
  ClosedExternal :: int

definition NewConn :: "'c group_conn list \<Rightarrow> 'c \<Rightarrow> bool \<Rightarrow> 'c group_conn list" where
  "NewConn g c external = g @ [\<lparr> conn = c, isExternal = external, network = NetworkTCP \<rparr>]"

definition NewPacketConn :: "'c group_conn list \<Rightarrow> 'c \<Rightarrow> bool \<Rightarrow> 'c group_conn list" where
  "NewPacketConn g c external = g @ [\<lparr> conn = c, isExternal = external, network = NetworkUDP \<rparr>]"

definition to_close :: "bool \<Rightarrow> 'c group_conn \<Rightarrow> bool" where
  "to_close interruptExternalConnections item \<longleftrightarrow> \<not> isExternal item \<or> interruptExternalConnections"

fun interrupt_loop :: "bool \<Rightarrow> 'c group_conn list \<Rightarrow> interrupt_result \<Rightarrow> 'c group_conn list
    \<Rightarrow> interrupt_result \<times> 'c group_conn list" where
  "interrupt_loop ext [] result toDelete = (result, toDelete)"
| "interrupt_loop ext (item # items) result toDelete =
     (if to_close ext item
      then interrupt_loop ext items
        (let result = (if network item = NetworkUDP then result\<lparr> ClosedUDP := ClosedUDP result + 1 \<rparr>
                       else result\<lparr> ClosedTCP := ClosedTCP result + 1 \<rparr>)
         in if isExternal item then result\<lparr> ClosedExternal := ClosedExternal result + 1 \<rparr> else result)
        (toDelete @ [item])
      else interrupt_loop ext items result toDelete)"

text \<open>The deleted elements are list cells of the group, so removing them is filtering them out.\<close>

definition Interrupt :: "'c group_conn list \<Rightarrow> bool \<Rightarrow> interrupt_result \<times> 'c group_conn list \<times> 'c group_conn list" where
  "Interrupt g interruptExternalConnections =
     (let (result, closed) = interrupt_loop interruptExternalConnections g
            \<lparr> ClosedTCP = 0, ClosedUDP = 0, ClosedExternal = 0 \<rparr> []
      in (result, closed, filter (\<lambda>item. \<not> to_close interruptExternalConnections item) g))"

text \<open>\<open>applySwitchInterruption\<close>: the option of the group limits the policy.\<close>

definition applySwitchInterruption ::
  "bool \<Rightarrow> 'c group_conn list \<Rightarrow> interruption_policy \<Rightarrow> interrupt_result \<times> 'c group_conn list \<times> 'c group_conn list" where
  "applySwitchInterruption interruptExternalConnections g policy =
     Interrupt g (interruptExternal policy \<and> interruptExternalConnections)"

section \<open>Facts\<close>

lemma interrupt_loop_closed:
  "snd (interrupt_loop ext g result acc) = acc @ filter (to_close ext) g"
  by (induction g arbitrary: result acc) (simp_all add: Let_def)

lemma interrupt_loop_counts:
  "fst (interrupt_loop ext g result acc) =
     \<lparr> ClosedTCP = ClosedTCP result + int (length (filter (\<lambda>i. to_close ext i \<and> network i \<noteq> NetworkUDP) g)),
       ClosedUDP = ClosedUDP result + int (length (filter (\<lambda>i. to_close ext i \<and> network i = NetworkUDP) g)),
       ClosedExternal = ClosedExternal result + int (length (filter (\<lambda>i. to_close ext i \<and> isExternal i) g)) \<rparr>"
  by (induction g arbitrary: result acc) (auto simp: Let_def)

lemma Interrupt_partition:
  assumes "Interrupt g ext = (result, shut, rest)"
  shows "mset shut + mset rest = mset g" "shut = filter (to_close ext) g"
    "rest = filter (\<lambda>i. \<not> to_close ext i) g"
    "ClosedTCP result + ClosedUDP result = int (length shut)"
    "ClosedExternal result = int (length (filter isExternal shut))"
proof -
  have c: "shut = filter (to_close ext) g" and r: "rest = filter (\<lambda>i. \<not> to_close ext i) g"
    using assms interrupt_loop_closed [of ext g "\<lparr> ClosedTCP = 0, ClosedUDP = 0, ClosedExternal = 0 \<rparr>" "[]"]
    by (auto simp: Interrupt_def split: prod.splits)
  then show "shut = filter (to_close ext) g" "rest = filter (\<lambda>i. \<not> to_close ext i) g" by simp_all
  show "mset shut + mset rest = mset g"
    by (simp add: c r)
  have res: "result = fst (interrupt_loop ext g \<lparr> ClosedTCP = 0, ClosedUDP = 0, ClosedExternal = 0 \<rparr> [])"
    using assms by (auto simp: Interrupt_def split: prod.splits)
  have split: "length (filter (\<lambda>i. P i \<and> \<not> Q i) xs) + length (filter (\<lambda>i. P i \<and> Q i) xs) = length (filter P xs)"
    for P Q :: "'a group_conn \<Rightarrow> bool" and xs
    by (induction xs) auto
  show "ClosedTCP result + ClosedUDP result = int (length shut)"
    using split [of "to_close ext" "\<lambda>i. network i = NetworkUDP" g]
    by (simp add: res interrupt_loop_counts c flip: of_nat_add)
  show "ClosedExternal result = int (length (filter isExternal shut))"
    by (simp add: res interrupt_loop_counts c conj_commute)
qed

lemma interrupts_external_only_confirmed:
  assumes "interruptExternal (smartSwitchInterruptionPolicy decision history streak)"
  shows "action decision = Switch" "confirmedOutboundFailure history"
    "reason decision = ''active_probe_confirmed_connection_failure'' \<or> dstate decision = CRITICAL \<and> 2 \<le> streak"
  using assms
  by (auto simp: smartSwitchInterruptionPolicy_def preserveSwitchPolicy_def Let_def split: if_splits)

end
