(* ===== verification/Probe_Schedule.thy ===== *)
theory Probe_Schedule
  imports Smart_Probe
begin

text \<open>
  \<open>protocol/group/balancer/active_monitor.go\<close>: the schedule of the probes of the active outbound
  and the test that drops a probe the ranking has overtaken. The monitor loop is the step
  relation \<open>monitor_step\<close>: the clock may advance by any amount between two reads, and the
  active outbound may change at any time.
\<close>

abbreviation (input) smartActiveProbeRetryDelay :: duration where "smartActiveProbeRetryDelay \<equiv> millis 350"

definition smartActiveProbeStartupOffsets :: "duration list" where
  "smartActiveProbeStartupOffsets =
     [0, seconds 10, seconds 20, seconds 30, seconds 40, seconds 50, seconds 60]"

text \<open>Measured from the moment a server becomes active.\<close>

definition smartActiveProbeOffset :: "int \<Rightarrow> duration" where
  "smartActiveProbeOffset index =
     (if index \<le> 0 then 0
      else if index < int (length smartActiveProbeStartupOffsets)
        then smartActiveProbeStartupOffsets ! nat index
      else smartActiveProbeStartupOffsets ! (length smartActiveProbeStartupOffsets - 1)
        + minutes (index - int (length smartActiveProbeStartupOffsets) + 1))"

record probe_schedule =
  activeTag :: tag
  activeSince :: instant
  probeIndex :: int

definition zero_schedule :: probe_schedule where
  "zero_schedule = \<lparr> activeTag = [], activeSince = 0, probeIndex = 0 \<rparr>"

definition observe :: "probe_schedule \<Rightarrow> tag \<Rightarrow> instant \<Rightarrow> bool \<times> probe_schedule" where
  "observe s t now =
     (if t = [] \<or> t = activeTag s then (False, s)
      else (True, \<lparr> activeTag = t, activeSince = now, probeIndex = 0 \<rparr>))"

definition deadline :: "probe_schedule \<Rightarrow> instant" where
  "deadline s = activeSince s + smartActiveProbeOffset (probeIndex s)"

definition complete :: "probe_schedule \<Rightarrow> probe_schedule" where
  "complete s = s\<lparr> probeIndex := probeIndex s + 1 \<rparr>"

definition activeProbeSupersededByRanking ::
  "url_test_history option \<Rightarrow> url_test_history option \<Rightarrow> bool" where
  "activeProbeSupersededByRanking probe rank =
     (case (probe, rank) of
        (Some p, Some r) \<Rightarrow> After (Time r) (Time p)
          \<or> CheckGeneration p > 0 \<and> CheckGeneration r > CheckGeneration p
      | _ \<Rightarrow> False)"

section \<open>The monitor loop\<close>

text \<open>
  One pass of \<open>monitorActiveServer\<close>. \<open>current\<close> is what \<open>Now()\<close> returned at the top of the loop at
  clock \<open>now\<close>; the wait ended at \<open>woke\<close>, by the timer or by a wake-up; \<open>at_deadline\<close> and
  \<open>after_probe\<close> are the active tags read then and after the probe. The result tells whether a
  probe of the scheduled outbound ran.
\<close>

definition monitor_pass :: "probe_schedule \<Rightarrow> tag \<Rightarrow> instant \<Rightarrow> tag \<Rightarrow> tag \<Rightarrow> bool \<times> probe_schedule" where
  "monitor_pass s current now at_deadline after_probe =
     (if current = [] then (False, s)
      else (let s = snd (observe s current now)
            in if at_deadline \<noteq> activeTag s then (False, s)
               else if after_probe \<noteq> activeTag s then (True, s)
               else (True, complete s)))"

inductive monitor_step :: "probe_schedule \<Rightarrow> probe_schedule \<Rightarrow> bool" where
  "monitor_pass s current now at_deadline after_probe = (probed, s') \<Longrightarrow> monitor_step s s'"

inductive_cases monitor_step_cases [elim!]: "monitor_step s s'"

section \<open>Facts\<close>

lemma probe_offset_cases:
  "smartActiveProbeOffset i =
     (if i \<le> 0 then 0 else if i \<le> 6 then seconds (10 * i) else seconds 60 + minutes (i - 6))"
proof -
  have "i \<le> 0 \<or> i = 1 \<or> i = 2 \<or> i = 3 \<or> i = 4 \<or> i = 5 \<or> i = 6 \<or> 7 \<le> i" by arith
  then show ?thesis
    by (elim disjE) (simp_all add: smartActiveProbeOffset_def smartActiveProbeStartupOffsets_def)
qed

lemma probe_offset_mono: "i \<le> j \<Longrightarrow> smartActiveProbeOffset i \<le> smartActiveProbeOffset j"
  by (simp add: probe_offset_cases)

lemma probe_offset_gap:
  "0 \<le> i \<Longrightarrow> smartActiveProbeOffset (i + 1) - smartActiveProbeOffset i = (if i < 6 then seconds 10 else minutes 1)"
  by (simp add: probe_offset_cases)

lemma monitor_pass_index:
  "monitor_pass s current now d a = (probed, s') \<Longrightarrow> 0 \<le> probeIndex s \<Longrightarrow> 0 \<le> probeIndex s'"
  by (auto simp: monitor_pass_def observe_def complete_def Let_def split: if_splits)

end
