(* ===== verification/Balancer.thy ===== *)
theory Balancer
  imports Hash_Strategies Smart_Update Switch_Policy Probe_Schedule
begin

text \<open>
  The group outbound of \<open>protocol/group/balancer/balancer.go\<close> around its strategy, and the part of
  \<open>active_monitor.go\<close> that applies the result of an active probe. The monitoring service is seen
  through the values it returns (rankings, histories, the answer to a publication); the calls the
  group makes to it are counted or listed in the state. Logging is left out.
\<close>

section \<open>The state of a group\<close>

datatype 'c strategy_state =
  StrategyRoundRobin round_robin
| StrategyConsistentHashing consistent_hashing
| StrategyStickySessions "'c sticky_session"
| StrategyLowestDelay lowest_delay
| StrategySmartActiveAuto smart_active

record ('c, 'n) balancer =
  b_tags :: "tag list"
  b_strategy :: "'c strategy_state"
  b_interruptExternalConnections :: bool
  b_sessionGeneration :: string
  b_availableOutbounds :: "outbound list"
  b_interruptGroup :: "'n group_conn list"
  b_lastHandledBatchGeneration :: u64
  b_lastHandledBatchNumber :: int
  b_failedActiveRefreshPending :: bool
  b_ipv6Mode :: domain_strategy
  b_ipv6CapabilityTTL :: duration
  b_activeMonitorWake :: bool
  b_fullCycleRequests :: nat
  b_runtimeErrors :: "tag list"

text \<open>
  The environment of one call: the clock, the out-of-range conversion of the platform, the hash of the
  flow, the LRU cache and the readings of the nanosecond clock.
\<close>

record 'c call_env =
  env_now :: instant
  env_oor :: "rat \<Rightarrow> u16"
  env_key :: u64
  env_lruGet :: "'c \<Rightarrow> u64 \<Rightarrow> int option \<times> 'c"
  env_lruAdd :: "'c \<Rightarrow> u64 \<Rightarrow> int \<Rightarrow> 'c"
  env_nanos :: "nat \<Rightarrow> u64"

text \<open>
  \<open>Start\<close>: every tag has to name an outbound and the strategy has to be known. The hash options are
  the retries, the ratio and the empty cache; the clock reading is the start of \<open>SmartActive\<close>.
\<close>

definition new_strategy :: "'c call_env \<Rightarrow> 'c \<Rightarrow> int \<Rightarrow> rat \<Rightarrow> domain_strategy \<Rightarrow> duration
    \<Rightarrow> string \<Rightarrow> outbound list \<Rightarrow> 'c strategy_state option" where
  "new_strategy env cache retries ratio mode ttl name outbounds =
     (if name = ''round-robin'' then Some (StrategyRoundRobin (NewRoundRobin outbounds ratio))
      else if name = ''consistent-hashing''
        then Some (StrategyConsistentHashing (NewConsistentHashing outbounds retries ratio))
      else if name = ''sticky-sessions''
        then Some (StrategyStickySessions (NewStickySession cache outbounds retries ratio))
      else if name = ''lowest-delay'' then Some (StrategyLowestDelay (NewLowestDelay outbounds))
      else if name = ''smart-active-auto''
        then Some (StrategySmartActiveAuto (NewSmartActive (env_now env) outbounds mode ttl))
      else None)"

fun resolve_tags :: "(tag \<Rightarrow> outbound option) \<Rightarrow> tag list \<Rightarrow> tag + outbound list" where
  "resolve_tags manager [] = Inr []"
| "resolve_tags manager (t # ts) =
     (case manager t of
        None \<Rightarrow> Inl t
      | Some detour \<Rightarrow> (case resolve_tags manager ts of Inl e \<Rightarrow> Inl e | Inr outs \<Rightarrow> Inr (detour # outs)))"

datatype start_error = MissingTags | OutboundNotFound tag | UnknownStrategy string

definition Start :: "'c call_env \<Rightarrow> 'c \<Rightarrow> int \<Rightarrow> rat \<Rightarrow> domain_strategy \<Rightarrow> duration \<Rightarrow> string \<Rightarrow> bool
    \<Rightarrow> string \<Rightarrow> (tag \<Rightarrow> outbound option) \<Rightarrow> tag list \<Rightarrow> start_error + ('c, 'n) balancer" where
  "Start env cache retries ratio mode ttl name interruptExt session manager tags =
     (if tags = [] then Inl MissingTags
      else (case resolve_tags manager tags of
        Inl t \<Rightarrow> Inl (OutboundNotFound t)
      | Inr outbounds \<Rightarrow>
          (case new_strategy env cache retries ratio mode ttl name outbounds of
             None \<Rightarrow> Inl (UnknownStrategy name)
           | Some st \<Rightarrow> Inr \<lparr> b_tags = tags, b_strategy = st,
               b_interruptExternalConnections = interruptExt, b_sessionGeneration = session,
               b_availableOutbounds = outbounds, b_interruptGroup = [],
               b_lastHandledBatchGeneration = 0, b_lastHandledBatchNumber = 0,
               b_failedActiveRefreshPending = False, b_ipv6Mode = mode, b_ipv6CapabilityTTL = ttl,
               b_activeMonitorWake = False, b_fullCycleRequests = 0, b_runtimeErrors = [] \<rparr>)))"

section \<open>The strategy interface\<close>

definition strategy_now :: "'c strategy_state \<Rightarrow> tag outcome" where
  "strategy_now st =
     (case st of
        StrategyRoundRobin s \<Rightarrow> Returned (RoundRobin_Now s)
      | StrategyConsistentHashing s \<Rightarrow> Returned []
      | StrategyStickySessions s \<Rightarrow> Returned []
      | StrategyLowestDelay s \<Rightarrow> LowestDelay_Now s
      | StrategySmartActiveAuto s \<Rightarrow> Returned (Now s))"

definition strategy_update ::
  "'c call_env \<Rightarrow> 'c strategy_state \<Rightarrow> history_map \<Rightarrow> bool outcome \<times> 'c strategy_state" where
  "strategy_update env st history =
     (case st of
        StrategyRoundRobin s \<Rightarrow>
          (let (chg, s) = RoundRobin_Update (env_oor env) (env_now env) s history
           in (Returned chg, StrategyRoundRobin s))
      | StrategyConsistentHashing s \<Rightarrow>
          (let (chg, s) = ConsistentHashing_Update (env_oor env) (env_now env) s history
           in (Returned chg, StrategyConsistentHashing s))
      | StrategyStickySessions s \<Rightarrow>
          (let (chg, s) = StickySession_Update (env_oor env) (env_now env) s history
           in (Returned chg, StrategyStickySessions s))
      | StrategyLowestDelay s \<Rightarrow>
          (let (chg, s) = LowestDelay_Update (env_now env) s history
           in (chg, StrategyLowestDelay s))
      | StrategySmartActiveAuto s \<Rightarrow>
          (let (chg, s) = UpdateOutboundsInfo (env_now env) s history
           in (Returned chg, StrategySmartActiveAuto s)))"

definition strategy_select :: "'c call_env \<Rightarrow> 'c strategy_state \<Rightarrow> inbound_context \<Rightarrow> string
    \<Rightarrow> outbound option outcome \<times> 'c strategy_state" where
  "strategy_select env st metadata net =
     (case st of
        StrategyRoundRobin s \<Rightarrow>
          (let (r, s) = RoundRobin_Select s net True in (r, StrategyRoundRobin s))
      | StrategyConsistentHashing s \<Rightarrow> (ConsistentHashing_Select s (env_key env) net, st)
      | StrategyStickySessions s \<Rightarrow>
          (let (r, s) = StickySession_Select (env_lruGet env) (env_lruAdd env) (env_nanos env) s
             (env_key env) net in (r, StrategyStickySessions s))
      | StrategyLowestDelay s \<Rightarrow> (Returned (LowestDelay_Select s net True), st)
      | StrategySmartActiveAuto s \<Rightarrow> (Returned (Select (env_now env) s metadata), st))"

section \<open>Monitoring updates\<close>

definition SelectionDiagnostics :: "smart_active \<Rightarrow> u64 \<times> history_map \<times> history_source" where
  "SelectionDiagnostics s = (sa_diagnosticGeneration s, sa_diagnosticHistory s, sa_diagnosticSource s)"

definition consumeCompletedBatch ::
  "('c, 'n) balancer \<Rightarrow> u64 \<Rightarrow> int \<Rightarrow> bool \<times> ('c, 'n) balancer" where
  "consumeCompletedBatch b generation batch =
     (if generation = 0 then (False, b)
      else if generation < b_lastHandledBatchGeneration b
          \<or> generation = b_lastHandledBatchGeneration b \<and> batch \<le> b_lastHandledBatchNumber b
        then (False, b)
      else (True, b\<lparr> b_lastHandledBatchGeneration := generation, b_lastHandledBatchNumber := batch \<rparr>))"

definition requestFailedActiveRefresh :: "instant \<Rightarrow> ('c, 'n) balancer \<Rightarrow> ('c, 'n) balancer" where
  "requestFailedActiveRefresh now b =
     (case b_strategy b of
        StrategySmartActiveAuto s \<Rightarrow>
          (let (generation, history, source) = SelectionDiagnostics s;
               current = Now s;
               currentHistory = pget history current;
               status = candidateStatus now s current currentHistory generation
           in if current = [] then b
              else if status_ok status then b\<lparr> b_failedActiveRefreshPending := False \<rparr>
              else if currentCheckInProgress currentHistory \<or> source = SourceCache
                  \<or> b_failedActiveRefreshPending b then b
              else b\<lparr> b_failedActiveRefreshPending := True,
                      b_fullCycleRequests := b_fullCycleRequests b + 1 \<rparr>)
      | _ \<Rightarrow> b)"

text \<open>The switch itself: close the connections the policy allows to close and wake the monitor.\<close>

definition announce_switch ::
  "('c, 'n) balancer \<Rightarrow> interruption_policy \<Rightarrow> interrupt_result \<times> 'n group_conn list \<times> ('c, 'n) balancer" where
  "announce_switch b policy =
     (let (result, shut, rest) = applySwitchInterruption (b_interruptExternalConnections b)
            (b_interruptGroup b) policy
      in (result, shut, b\<lparr> b_interruptGroup := rest, b_activeMonitorWake := True \<rparr>))"

definition switch_policy_of :: "'c strategy_state \<Rightarrow> interruption_policy" where
  "switch_policy_of st =
     (case st of
        StrategySmartActiveAuto s \<Rightarrow> smartInterruptionPolicy s
      | StrategyLowestDelay s \<Rightarrow> preserveSwitchPolicy SwitchBetterScore ''lowest_delay_update''
      | StrategyRoundRobin s \<Rightarrow> preserveSwitchPolicy SwitchRegular ''round-robin''
      | StrategyConsistentHashing s \<Rightarrow> preserveSwitchPolicy SwitchRegular ''consistent-hashing''
      | StrategyStickySessions s \<Rightarrow> preserveSwitchPolicy SwitchRegular ''sticky-sessions'')"

definition updated_strategy :: "'c call_env \<Rightarrow> 'c strategy_state \<Rightarrow> history_map \<Rightarrow> bool \<Rightarrow> u64
    \<Rightarrow> bool outcome \<times> 'c strategy_state" where
  "updated_strategy env st history manualRefresh batchGeneration =
     (case st of
        StrategySmartActiveAuto s \<Rightarrow>
          (let (chg, s) =
             (if manualRefresh then UpdateOutboundsInfoForManualRefresh (env_now env) s history
              else if batchGeneration > 0
                then UpdateOutboundsInfoForCompletedBatch (env_now env) s history batchGeneration
              else UpdateOutboundsInfo (env_now env) s history)
           in (Returned chg, StrategySmartActiveAuto s))
      | _ \<Rightarrow> strategy_update env st history)"

text \<open>
  \<open>history\<close> is what \<open>OutboundsRankingHistory\<close> returned, after the fault injection of a debug build
  if there is one; \<open>session\<close> is the value of the environment variable. The result lists the
  connections that were closed.
\<close>

definition applyMonitoringUpdate :: "'c call_env \<Rightarrow> string \<Rightarrow> ('c, 'n) balancer \<Rightarrow> history_map \<Rightarrow> bool \<Rightarrow> u64
    \<Rightarrow> 'n group_conn list outcome \<times> ('c, 'n) balancer" where
  "applyMonitoringUpdate env session b history manualRefresh batchGeneration =
     (if \<not> sessionGenerationMatches (b_sessionGeneration b) session then (Returned [], b)
      else (case strategy_now (b_strategy b) of
        Panicked \<Rightarrow> (Panicked, b)
      | Returned previous \<Rightarrow>
          (case updated_strategy env (b_strategy b) history manualRefresh batchGeneration of
             (Panicked, st) \<Rightarrow> (Panicked, b\<lparr> b_strategy := st \<rparr>)
           | (Returned chg, st) \<Rightarrow>
               (let b = requestFailedActiveRefresh (env_now env) (b\<lparr> b_strategy := st \<rparr>)
                in if chg then (let (result, shut, b) = announce_switch b (switch_policy_of st)
                                in (Returned shut, b))
                   else (Returned [], b)))))"

text \<open>One event of \<open>worker\<close>: a group update with the batch it completes, if any.\<close>

definition worker_event :: "'c call_env \<Rightarrow> string \<Rightarrow> ('c, 'n) balancer \<Rightarrow> group_event \<Rightarrow> history_map \<Rightarrow> bool
    \<Rightarrow> 'n group_conn list outcome \<times> ('c, 'n) balancer" where
  "worker_event env session b event history recentManualRefresh =
     (let manualRefresh = (case b_strategy b of StrategySmartActiveAuto _ \<Rightarrow> recentManualRefresh | _ \<Rightarrow> False);
          (accepted, b) = (if BatchCompleted event
             then consumeCompletedBatch b (Generation event) (BatchNumber event) else (False, b));
          batchGeneration = (if accepted then Generation event else 0)
      in applyMonitoringUpdate env session b history manualRefresh batchGeneration)"

section \<open>The active probe\<close>

text \<open>
  \<open>published\<close> is the answer of \<open>PublishActiveProbePresentation\<close>, \<open>probe\<close> the sample of the result
  and \<open>rankingHistory\<close> the rankings read after the publication.
\<close>

definition applyActiveProbe :: "'c call_env \<Rightarrow> string \<Rightarrow> ('c, 'n) balancer \<Rightarrow> tag \<Rightarrow> url_test_history \<Rightarrow> bool
    \<Rightarrow> history_map \<Rightarrow> smart_probe_update \<times> 'n group_conn list \<times> ('c, 'n) balancer" where
  "applyActiveProbe env session b t probe published rankingHistory =
     (if \<not> sessionGenerationMatches (b_sessionGeneration b) session then (no_update, [], b)
      else (case b_strategy b of
        StrategySmartActiveAuto s \<Rightarrow>
          if Now s \<noteq> t then (no_update, [], b)
          else if \<not> published then (no_update, [], b)
          else if activeProbeSupersededByRanking (Some probe) (pget rankingHistory t) then (no_update, [], b)
          else (let (update, s) = UpdateActiveProbe (env_now env) s t (Some probe) rankingHistory;
                    b = b\<lparr> b_strategy := StrategySmartActiveAuto s \<rparr>;
                    (shut, b) = (if changed update
                      then (let (result, shut, b) = announce_switch b (smartInterruptionPolicy s) in (shut, b))
                      else ([], b));
                    b = (if refreshCandidates update
                      then b\<lparr> b_fullCycleRequests := b_fullCycleRequests b + 1 \<rparr> else b)
                in (update, shut, b))
      | _ \<Rightarrow> (no_update, [], b)))"

section \<open>Connections\<close>

definition selectOutbound :: "'c call_env \<Rightarrow> ('c, 'n) balancer \<Rightarrow> bool \<Rightarrow> inbound_context \<Rightarrow> string
    \<Rightarrow> (outbound option \<times> bool) outcome \<times> ('c, 'n) balancer" where
  "selectOutbound env b capabilityBootstrap metadata net =
     (if \<not> capabilityBootstrap
      then (let (r, st) = strategy_select env (b_strategy b) metadata net
            in (and_then r (\<lambda>out. Returned (out, False)), b\<lparr> b_strategy := st \<rparr>))
      else (and_then (strategy_now (b_strategy b)) (\<lambda>current.
              case find (\<lambda>candidate. current \<noteq> [] \<and> Tag candidate = current) (b_availableOutbounds b) of
                Some candidate \<Rightarrow> Returned (Some candidate, True)
              | None \<Rightarrow>
                  (case b_availableOutbounds b of
                     candidate # _ \<Rightarrow> Returned (Some candidate, True)
                   | [] \<Rightarrow> Returned (None, True))), b))"

text \<open>
  The gate of the group reads the history of the outbound that really carries the flow:
  \<open>real_tag\<close> is the tag, or \<open>Now()\<close> of a nested group; without a monitor there is no history.
\<close>

definition ipv6TrafficAllowed :: "instant \<Rightarrow> ('c, 'n) balancer \<Rightarrow> (tag \<Rightarrow> url_test_history option) option
    \<Rightarrow> (outbound \<Rightarrow> tag) \<Rightarrow> inbound_context \<Rightarrow> outbound \<Rightarrow> bool" where
  "ipv6TrafficAllowed now b monitor real_tag metadata selected =
     (case monitor of
        None \<Rightarrow> IPv6TrafficAllowed (b_ipv6Mode b) metadata None now (b_ipv6CapabilityTTL b)
      | Some outboundHistory \<Rightarrow> IPv6TrafficAllowed (b_ipv6Mode b) metadata
          (outboundHistory (real_tag selected)) now (b_ipv6CapabilityTTL b))"

datatype missing_error = NoIPv6OnlyOutbound | NoVerifiedIPv6Egress | NoSupportedOutbound

definition missingOutboundError :: "('c, 'n) balancer \<Rightarrow> inbound_context \<Rightarrow> missing_error" where
  "missingOutboundError b metadata =
     (if b_ipv6Mode b = DomainStrategyIPv6Only then NoIPv6OnlyOutbound
      else if IPVersion metadata = 6
          \<or> Is6 (DestinationAddr metadata) \<and> \<not> Is4In6 (DestinationAddr metadata) then NoVerifiedIPv6Egress
      else NoSupportedOutbound)"

datatype 'n dial_result = Missing missing_error | DialFailed tag | Connected 'n tag

text \<open>
  \<open>DialContext\<close> and \<open>ListenPacket\<close> differ in the network they select for and in the method of the
  group that registers the connection; \<open>dial\<close> is the call to the selected outbound.
\<close>

definition dial_with :: "'c call_env \<Rightarrow> ('c, 'n) balancer \<Rightarrow> (tag \<Rightarrow> url_test_history option) option
    \<Rightarrow> (outbound \<Rightarrow> tag) \<Rightarrow> bool \<Rightarrow> inbound_context \<Rightarrow> string
    \<Rightarrow> ('n group_conn list \<Rightarrow> 'n \<Rightarrow> bool \<Rightarrow> 'n group_conn list) \<Rightarrow> bool \<Rightarrow> (outbound \<Rightarrow> 'n option)
    \<Rightarrow> 'n dial_result outcome \<times> ('c, 'n) balancer" where
  "dial_with env b monitor real_tag capabilityBootstrap metadata net register external dial =
     (case selectOutbound env b capabilityBootstrap metadata net of
        (Panicked, b) \<Rightarrow> (Panicked, b)
      | (Returned (None, boot), b) \<Rightarrow> (Returned (Missing (missingOutboundError b metadata)), b)
      | (Returned (Some out, boot), b) \<Rightarrow>
          if \<not> boot \<and> \<not> ipv6TrafficAllowed (env_now env) b monitor real_tag metadata out
          then (Returned (Missing (missingOutboundError b metadata)), b)
          else (case dial out of
            Some c \<Rightarrow> (Returned (Connected c (Tag out)),
              b\<lparr> b_interruptGroup := register (b_interruptGroup b) c external \<rparr>)
          | None \<Rightarrow> (Returned (DialFailed (Tag out)),
              if monitor \<noteq> None then b\<lparr> b_runtimeErrors := b_runtimeErrors b @ [Tag out] \<rparr> else b)))"

definition DialContext where
  "DialContext env b monitor real_tag capabilityBootstrap metadata net external dial =
     dial_with env b monitor real_tag capabilityBootstrap metadata net NewConn external dial"

definition ListenPacket where
  "ListenPacket env b monitor real_tag capabilityBootstrap metadata external dial =
     dial_with env b monitor real_tag capabilityBootstrap metadata NetworkUDP NewPacketConn external dial"

end
