(* ===== verification/Balancer_Invariant.thy ===== *)
theory Balancer_Invariant
  imports Balancer Smart_Strategy
begin

text \<open>
  The group as a transition system: the events of its worker, the results of the active probe and
  the connections it opens, in any order. The invariant ties the strategy to the outbounds the
  group was started with.
\<close>

section \<open>Reachable groups\<close>

inductive group_step :: "('c, 'n) balancer \<Rightarrow> ('c, 'n) balancer \<Rightarrow> bool" where
  event: "worker_event env session b event history recentManualRefresh = (r, b') \<Longrightarrow> group_step b b'"
| probe: "applyActiveProbe env session b t p published rankingHistory = (u, shut, b') \<Longrightarrow> group_step b b'"
| dial: "DialContext env b monitor real_tag boot metadata net external dialer = (d, b') \<Longrightarrow> group_step b b'"
| packet: "ListenPacket env b monitor real_tag boot metadata external dialer = (d, b') \<Longrightarrow> group_step b b'"

inductive group_reachable :: "outbound list \<Rightarrow> ('c, 'n) balancer \<Rightarrow> bool" for outbounds where
  started: "Start env cache retries ratio mode ttl name ext session manager tags = Inr b
    \<Longrightarrow> resolve_tags manager tags = Inr outbounds \<Longrightarrow> group_reachable outbounds b"
| stepped: "group_reachable outbounds b \<Longrightarrow> group_step b b' \<Longrightarrow> group_reachable outbounds b'"

section \<open>The strategy stays inside the profile\<close>

definition on_profile :: "outbound list \<Rightarrow> (string, outbound list) go_map \<Rightarrow> bool" where
  "on_profile outs m \<longleftrightarrow> m = convertOutbounds outs"

definition strategy_ok :: "outbound list \<Rightarrow> 'c strategy_state \<Rightarrow> bool" where
  "strategy_ok outs st \<longleftrightarrow>
     (case st of
        StrategyRoundRobin s \<Rightarrow> rr_ok s \<and> on_profile outs (rr_outbounds s)
      | StrategyConsistentHashing s \<Rightarrow> on_profile outs (ch_outbounds s)
      | StrategyStickySessions s \<Rightarrow> on_profile outs (ss_outbounds s)
      | StrategyLowestDelay s \<Rightarrow> ld_ok s \<and> on_profile outs (ld_outbounds s)
      | StrategySmartActiveAuto s \<Rightarrow> wf_smart s \<and> sa_outbounds s = outs)"

lemma new_profiles:
  "rr_outbounds (NewRoundRobin outs ratio) = convertOutbounds outs"
  "ch_outbounds (NewConsistentHashing outs retries ratio) = convertOutbounds outs"
  "ss_outbounds (NewStickySession cache outs retries ratio) = convertOutbounds outs"
  "ld_outbounds (NewLowestDelay outs) = convertOutbounds outs"
  "sa_outbounds (NewSmartActive now outs mode ttl) = outs"
  by (simp_all add: NewRoundRobin_def NewConsistentHashing_def NewStickySession_def NewLowestDelay_def
      NewSmartActive_def Let_def)

lemma strategy_ok_new:
  "outs \<noteq> [] \<Longrightarrow> new_strategy env cache retries ratio mode ttl name outs = Some st \<Longrightarrow> strategy_ok outs st"
  by (auto simp: new_strategy_def strategy_ok_def on_profile_def new_profiles rr_ok_new ld_ok_new
      wf_NewSmartActive split: if_splits)

lemma strategy_ok_update:
  assumes "strategy_ok outs st" "strategy_update env st history = (r, st')"
  shows "strategy_ok outs st' \<and> (\<exists>chg. r = Returned chg)"
proof (cases st)
  case (StrategyRoundRobin s)
  obtain chg s' where u: "RoundRobin_Update (env_oor env) (env_now env) s history = (chg, s')" by fastforce
  have ok: "rr_ok s" "on_profile outs (rr_outbounds s)"
    using assms(1) by (simp_all add: StrategyRoundRobin strategy_ok_def)
  have "rr_outbounds s' = rr_outbounds s"
    using rr_update_facts(3) [OF _ u] ok(1) by (simp add: rr_ok_def)
  then show ?thesis
    using assms(2) ok rr_ok_update [OF ok(1) u]
    by (auto simp: StrategyRoundRobin strategy_ok_def strategy_update_def u)
next
  case (StrategyLowestDelay s)
  obtain r0 s' where u: "LowestDelay_Update (env_now env) s history = (r0, s')" by fastforce
  have ok: "ld_ok s" "on_profile outs (ld_outbounds s)"
    using assms(1) by (simp_all add: StrategyLowestDelay strategy_ok_def)
  show ?thesis
    using assms(2) ok ld_update_ok [OF ok(1) u]
    by (auto simp: StrategyLowestDelay strategy_ok_def strategy_update_def u)
next
  case (StrategySmartActiveAuto s)
  obtain chg s' where u: "updateOutboundsInfo (env_now env) s history ModeNone 0 = (chg, s')" by fastforce
  show ?thesis
    using assms wf_updateOutboundsInfo [OF _ u] update_keeps_profile [OF _ u]
    by (auto simp: StrategySmartActiveAuto strategy_ok_def strategy_update_def UpdateOutboundsInfo_def u)
qed (use assms in \<open>auto simp: strategy_ok_def strategy_update_def Let_def
       ConsistentHashing_Update_def StickySession_Update_def\<close>)

lemma strategy_ok_updated:
  assumes "strategy_ok outs st" "updated_strategy env st history manualRefresh bg = (r, st')"
  shows "strategy_ok outs st' \<and> (\<exists>chg. r = Returned chg)"
proof (cases st)
  case (StrategySmartActiveAuto s)
  define m where "m = (if manualRefresh then ModeUserRefresh else if bg > 0 then ModeCompletedBatch else ModeNone)"
  define g where "g = (if manualRefresh \<or> \<not> bg > 0 then 0 else bg)"
  have "updated_strategy env st history manualRefresh bg
      = (let (chg, s) = updateOutboundsInfo (env_now env) s history m g
         in (Returned chg, StrategySmartActiveAuto s))"
    by (simp add: StrategySmartActiveAuto updated_strategy_def UpdateOutboundsInfo_def m_def g_def
        UpdateOutboundsInfoForManualRefresh_def UpdateOutboundsInfoForCompletedBatch_def)
  moreover obtain chg s' where u: "updateOutboundsInfo (env_now env) s history m g = (chg, s')" by fastforce
  ultimately show ?thesis
    using assms wf_updateOutboundsInfo [OF _ u] update_keeps_profile [OF _ u]
    by (auto simp: StrategySmartActiveAuto strategy_ok_def)
qed (use assms strategy_ok_update in \<open>force simp: updated_strategy_def\<close>)+

text \<open>What the strategy hands out; it cannot panic when the profile fits an \<open>int32\<close>.\<close>

definition cache_ok :: "'c call_env \<Rightarrow> bool" where
  "cache_ok env \<longleftrightarrow> (\<forall>c k i c'. env_lruGet env c k = (Some i, c') \<longrightarrow> 0 \<le> i)"

lemma sticky_select_result:
  assumes "small_list (candidates_for (ss_outbounds s) net)"
    and "\<And>i c'. lruGet (ss_lruCache s) key = (Some i, c') \<Longrightarrow> 0 \<le> i"
    and "StickySession_Select lruGet lruAdd nanos s key net = (r, s')"
  shows "(\<exists>p \<in> set (candidates_for (ss_outbounds s) net). r = Returned (Some p)) \<and> ss_outbounds s' = ss_outbounds s"
proof -
  let ?outs = "candidates_for (ss_outbounds s) net"
  obtain cached cache where get: "lruGet (ss_lruCache s) key = (cached, cache)" by fastforce
  define idx where "idx = (case cached of None \<Rightarrow> bucket_index (key + nanos 0) ?outs
      | Some i \<Rightarrow> if int (length ?outs) \<le> i then bucket_index (key + nanos 0) ?outs else i)"
  have "0 \<le> idx \<and> idx < int (length ?outs)"
    using bucket_in_range [OF assms(1)] assms(2) get by (auto simp: idx_def split: option.splits)
  then have "\<exists>p \<in> set ?outs. fst (sticky_loop nanos s (known_network net) ?outs key has idx i n idx)
      = Returned (Some p)" for has i n
    using sticky_loop_result(1) [OF assms(1)] by blast
  moreover obtain r0 store where l: "sticky_loop nanos s (known_network net) ?outs key (cached \<noteq> None) idx 1
      (nat (ss_maxRetry s - 1)) idx = (r0, store)" by fastforce
  have "r = r0" "ss_outbounds s' = ss_outbounds s"
    using assms(3)
    unfolding StickySession_Select_def Let_def get prod.case candidates_for_def [symmetric] idx_def [symmetric] l
    by auto
  ultimately show ?thesis
    using l by (metis fst_conv)
qed

lemma convert_small: "small_list outs \<Longrightarrow> small_list (candidates_for (convertOutbounds outs) net)"
  using known_network_cases [of net] small_filter [of outs]
  by (auto simp: candidates_for_def get_or_def convertOutbounds_def)

lemma strategy_select_ok:
  assumes "strategy_ok outs st" "small_list outs" "cache_ok env"
    and "strategy_select env st metadata net = (r, st')"
  shows "strategy_ok outs st' \<and> sound_result (set outs) r"
proof (cases st)
  case (StrategyRoundRobin s)
  obtain p s' where u: "RoundRobin_Select s net True = (p, s')" by fastforce
  have ok: "rr_ok s" "rr_outbounds s = convertOutbounds outs"
    using assms(1) by (simp_all add: StrategyRoundRobin strategy_ok_def on_profile_def)
  from rr_select_ok [OF ok(1) u] show ?thesis
    using assms(4) ok sound_result_mono [OF _ convert_members]
    by (auto simp: StrategyRoundRobin strategy_ok_def strategy_select_def on_profile_def u)
next
  case (StrategyConsistentHashing s)
  have out: "ch_outbounds s = convertOutbounds outs"
    using assms(1) by (simp add: StrategyConsistentHashing strategy_ok_def on_profile_def)
  obtain p where p: "p \<in> set (candidates_for (convertOutbounds outs) net)"
      "ConsistentHashing_Select s (env_key env) net = Returned (Some p)"
    using consistent_select_result [of s net "env_key env"] convert_small [OF assms(2), of net] by (auto simp: out)
  then have "r = Returned (Some p)" "st' = st"
    using assms(4) by (simp_all add: StrategyConsistentHashing strategy_select_def)
  then show ?thesis
    using assms(1) p(1) convert_members [of outs net] by (auto simp: sound_result_def)
next
  case (StrategyStickySessions s)
  have out: "ss_outbounds s = convertOutbounds outs"
    using assms(1) by (simp add: StrategyStickySessions strategy_ok_def on_profile_def)
  obtain p s' where u: "StickySession_Select (env_lruGet env) (env_lruAdd env) (env_nanos env) s
      (env_key env) net = (p, s')" by fastforce
  have "\<And>i c'. env_lruGet env (ss_lruCache s) (env_key env) = (Some i, c') \<Longrightarrow> 0 \<le> i"
    using assms(3) unfolding cache_ok_def by blast
  from sticky_select_result [OF _ this u] have "(\<exists>q \<in> set (candidates_for (convertOutbounds outs) net). p = Returned (Some q))
      \<and> ss_outbounds s' = ss_outbounds s"
    using convert_small [OF assms(2), of net] by (simp add: out)
  then show ?thesis
    using assms(4) convert_members [of outs net]
    by (auto simp: StrategyStickySessions strategy_select_def sound_result_def u strategy_ok_def on_profile_def out)
next
  case (StrategyLowestDelay s)
  have ok: "ld_ok s" "ld_outbounds s = convertOutbounds outs"
    using assms(1) by (simp_all add: StrategyLowestDelay strategy_ok_def on_profile_def)
  then obtain p where "p \<in> set (candidates_for (convertOutbounds outs) net)"
      "pget (ld_selectedOutbound s) (known_network net) = Some p"
    unfolding ld_ok_def by metis
  then show ?thesis
    using assms(1,4) convert_members [of outs net]
    by (auto simp: StrategyLowestDelay strategy_select_def sound_result_def LowestDelay_Select_def)
next
  case (StrategySmartActiveAuto s)
  then show ?thesis
    using assms(1,4)
    by (auto simp: strategy_select_def sound_result_def Select_def strategy_ok_def wf_smart_def
        split: option.splits if_splits)
qed

lemma strategy_select_keeps:
  assumes "strategy_ok outs st" "strategy_select env st metadata net = (r, st')"
  shows "strategy_ok outs st'"
proof (cases st)
  case (StrategyRoundRobin s)
  obtain p s' where u: "RoundRobin_Select s net True = (p, s')" by fastforce
  have ok: "rr_ok s"
    using assms(1) by (simp add: StrategyRoundRobin strategy_ok_def)
  from rr_select_ok [OF ok u] show ?thesis
    using assms by (auto simp: StrategyRoundRobin strategy_ok_def strategy_select_def on_profile_def u)
qed (use assms in \<open>auto simp: strategy_select_def strategy_ok_def StickySession_Select_def Let_def
       split: prod.splits\<close>)

section \<open>Every step keeps the group on its profile\<close>

definition group_ok :: "outbound list \<Rightarrow> ('c, 'n) balancer \<Rightarrow> bool" where
  "group_ok outs b \<longleftrightarrow> b_availableOutbounds b = outs \<and> strategy_ok outs (b_strategy b)"

lemma refresh_frame [frame_simps]:
  "b_strategy (requestFailedActiveRefresh now b) = b_strategy b"
  "b_availableOutbounds (requestFailedActiveRefresh now b) = b_availableOutbounds b"
  "b_interruptGroup (requestFailedActiveRefresh now b) = b_interruptGroup b"
  "b_interruptExternalConnections (requestFailedActiveRefresh now b) = b_interruptExternalConnections b"
  "b_lastHandledBatchGeneration (requestFailedActiveRefresh now b) = b_lastHandledBatchGeneration b"
  "b_lastHandledBatchNumber (requestFailedActiveRefresh now b) = b_lastHandledBatchNumber b"
  "b_ipv6Mode (requestFailedActiveRefresh now b) = b_ipv6Mode b"
  by (auto simp: requestFailedActiveRefresh_def Let_def split: strategy_state.splits prod.splits)

lemma announce_frame:
  assumes "announce_switch b policy = (result, shut, b')"
  shows "b_strategy b' = b_strategy b" "b_availableOutbounds b' = b_availableOutbounds b"
    "b_interruptExternalConnections b' = b_interruptExternalConnections b"
    "applySwitchInterruption (b_interruptExternalConnections b) (b_interruptGroup b) policy
      = (result, shut, b_interruptGroup b')"
  using assms by (auto simp: announce_switch_def split: prod.splits)

lemma consume_frame:
  assumes "consumeCompletedBatch b g n = (ok, b')"
  shows "b_strategy b' = b_strategy b" "b_availableOutbounds b' = b_availableOutbounds b"
    "b_interruptExternalConnections b' = b_interruptExternalConnections b"
    "b_interruptGroup b' = b_interruptGroup b"
  using assms by (auto simp: consumeCompletedBatch_def split: if_splits)

lemma update_group_ok:
  assumes "group_ok outs b" "applyMonitoringUpdate env session b history m bg = (r, b')"
  shows "group_ok outs b'"
proof (cases "strategy_now (b_strategy b) = Panicked \<or> \<not> sessionGenerationMatches (b_sessionGeneration b) session")
  case True
  then show ?thesis
    using assms by (auto simp: applyMonitoringUpdate_def split: if_splits)
next
  case False
  then obtain previous where now: "strategy_now (b_strategy b) = Returned previous"
    by (cases "strategy_now (b_strategy b)") auto
  obtain r0 st where u: "updated_strategy env (b_strategy b) history m bg = (r0, st)" by fastforce
  have ok: "strategy_ok outs st" and "\<exists>chg. r0 = Returned chg"
    using strategy_ok_updated [OF _ u, of outs] assms(1) by (simp_all add: group_ok_def)
  then obtain chg where r0: "r0 = Returned chg" by blast
  obtain result shut b2 where ann: "announce_switch (requestFailedActiveRefresh (env_now env)
      (b\<lparr> b_strategy := st \<rparr>)) (switch_policy_of st) = (result, shut, b2)"
    by (metis prod_cases3)
  have "b' = (if chg then b2 else requestFailedActiveRefresh (env_now env) (b\<lparr> b_strategy := st \<rparr>))"
    using assms(2) False by (simp add: applyMonitoringUpdate_def now u r0 Let_def ann split: if_splits)
  then show ?thesis
    using ok assms(1) announce_frame [OF ann] by (simp add: group_ok_def frame_simps)
qed

lemma probe_group_ok:
  assumes "group_ok outs b" "applyActiveProbe env session b t p published rankingHistory = (u, shut, b')"
  shows "group_ok outs b'"
proof (cases "b_strategy b")
  case (StrategySmartActiveAuto s)
  obtain up s' where pr: "UpdateActiveProbe (env_now env) s t (Some p) rankingHistory = (up, s')" by fastforce
  have wf: "wf_smart s" "sa_outbounds s = outs"
    using assms(1) by (simp_all add: group_ok_def strategy_ok_def StrategySmartActiveAuto)
  have ok: "strategy_ok outs (StrategySmartActiveAuto s' :: 'a strategy_state)"
    using wf_UpdateActiveProbe [OF wf(1) pr] probe_keeps_profile [OF wf(1) pr] wf(2) by (simp add: strategy_ok_def)
  obtain result shut2 b2 where ann: "announce_switch (b\<lparr> b_strategy := StrategySmartActiveAuto s' \<rparr>)
      (smartInterruptionPolicy s') = (result, shut2, b2)"
    by (metis prod_cases3)
  have "b' = b \<or> b_strategy b' = StrategySmartActiveAuto s' \<and> b_availableOutbounds b' = b_availableOutbounds b"
    using assms(2) announce_frame [OF ann]
    by (auto simp: applyActiveProbe_def StrategySmartActiveAuto pr ann Let_def split: if_splits)
  then show ?thesis
    using ok assms(1) by (auto simp: group_ok_def)
qed (use assms in \<open>auto simp: applyActiveProbe_def split: if_splits\<close>)

lemma dial_group_ok:
  assumes "group_ok outs b"
    "dial_with env b monitor real_tag boot metadata net register external dialer = (r, b')"
  shows "group_ok outs b'"
proof -
  obtain sel b1 where s: "selectOutbound env b boot metadata net = (sel, b1)" by fastforce
  have "group_ok outs b1"
    using s assms(1) strategy_select_keeps [of outs "b_strategy b" env metadata net]
    by (auto simp: selectOutbound_def group_ok_def split: if_splits prod.splits)
  then show ?thesis
    using assms(2) by (auto simp: dial_with_def s group_ok_def split: outcome.splits option.splits prod.splits if_splits)
qed

lemma step_group_ok:
  assumes "group_step b b'" "group_ok outs b"
  shows "group_ok outs b'"
  using assms(1)
proof cases
  case (event env session event history recent r)
  then obtain accepted b1 m bg where b1: "(accepted, b1) = (if BatchCompleted event
      then consumeCompletedBatch b (Generation event) (BatchNumber event) else (False, b))"
    and up: "applyMonitoringUpdate env session b1 history m bg = (r, b')"
    by (auto simp: worker_event_def Let_def split: prod.splits if_splits)
  have "group_ok outs b1"
    using b1 assms(2) consume_frame [of b "Generation event" "BatchNumber event" accepted b1]
    by (auto simp: group_ok_def split: if_splits)
  then show ?thesis
    by (rule update_group_ok) (rule up)
next
  case (probe env session t p published rankingHistory u shut)
  show ?thesis by (rule probe_group_ok [OF assms(2) probe])
next
  case (dial env monitor real_tag boot metadata net external dialer d)
  show ?thesis by (rule dial_group_ok [OF assms(2) dial [unfolded DialContext_def]])
next
  case (packet env monitor real_tag boot metadata external dialer d)
  show ?thesis by (rule dial_group_ok [OF assms(2) packet [unfolded ListenPacket_def]])
qed

lemma start_group_ok:
  assumes "Start env cache retries ratio mode ttl name ext session manager tags = Inr b"
    and "resolve_tags manager tags = Inr outbounds"
  shows "group_ok outbounds b"
proof -
  have "tags \<noteq> []"
    using assms(1) by (auto simp: Start_def)
  then have "outbounds \<noteq> []"
    using assms(2) by (cases tags) (auto split: option.splits sum.splits)
  then show ?thesis
    using assms strategy_ok_new [of outbounds env cache retries ratio mode ttl name]
    by (auto simp: Start_def group_ok_def split: if_splits option.splits)
qed

lemma reachable_group_ok: "group_reachable outbounds b \<Longrightarrow> group_ok outbounds b"
  by (induction rule: group_reachable.induct) (auto intro: start_group_ok step_group_ok)

end
