(* ===== verification/Claims_Traffic.thy ===== *)
theory Claims_Traffic
  imports Balancer_Invariant Scenarios
begin

text \<open>
  The properties of the group around its strategy: what it hands out, what it closes, which
  results it ignores, and when the active outbound is probed.
\<close>

section \<open>Example groups\<close>

definition refused :: "u64 \<Rightarrow> instant \<Rightarrow> url_test_history" where
  "refused g t = (failure g t)\<lparr> ErrorType := ErrorTypeRefused \<rparr>"

definition refused_cohort :: history_map where
  "refused_cohort = [(''b'', Some (refused 2 (seconds 1070))), (''c'', Some (sample 2 (seconds 1070) 120))]"

text \<open>An environment without a cache, a group on \<open>started\<close>, and one with two servers whose active has failed once.\<close>

definition unit_env :: "unit call_env" where
  "unit_env = \<lparr> env_now = seconds 1080, env_oor = (\<lambda>_. 0), env_key = 0, env_lruGet = (\<lambda>c k. (None, c)),
     env_lruAdd = (\<lambda>c k i. c), env_nanos = (\<lambda>_. 0) \<rparr>"

definition group_on :: "unit strategy_state \<Rightarrow> (unit, nat) balancer" where
  "group_on st = \<lparr> b_tags = [''a'', ''b'', ''c''], b_strategy = st,
     b_interruptExternalConnections = True, b_sessionGeneration = ''7'',
     b_availableOutbounds = [server ''a'', server ''b'', server ''c''], b_interruptGroup = [],
     b_lastHandledBatchGeneration = 0, b_lastHandledBatchNumber = 0,
     b_failedActiveRefreshPending = False, b_ipv6Mode = DomainStrategyAsIS, b_ipv6CapabilityTTL = 0,
     b_activeMonitorWake = False, b_fullCycleRequests = 0, b_runtimeErrors = [] \<rparr>"

definition sick_group :: "(unit, nat) balancer" where
  "sick_group = (group_on (StrategySmartActiveAuto (started\<lparr> sa_outbounds := [server ''b'', server ''c''],
       sa_lastFullHistory := [], sa_lastFullGeneration := 0, sa_evidence := [(''b'', zero_evidence\<lparr> failureStreak := 1 \<rparr>),
        (''c'', clean_streak 1 1 (seconds 1050) 90)] \<rparr>)))
     \<lparr> b_interruptGroup := [\<lparr> conn = 1, isExternal = True, network = NetworkTCP \<rparr>] \<rparr>"

lemma sick_group_run:
  "fst (applyMonitoringUpdate unit_env ''7'' sick_group refused_cohort False 0)
    = Returned [\<lparr> conn = 1, isExternal = True, network = NetworkTCP \<rparr>]"
  by code_simp

section \<open>Connections\<close>

text \<open>What a monitoring update closes is what one interruption of the group closes.\<close>

lemma update_closes:
  assumes "applyMonitoringUpdate env session b history m bg = (Returned shut, b')"
  shows "shut = [] \<and> b_interruptGroup b' = b_interruptGroup b
    \<or> (\<exists>result. Interrupt (b_interruptGroup b) (interruptExternal (switch_policy_of (b_strategy b'))
          \<and> b_interruptExternalConnections b) = (result, shut, b_interruptGroup b') \<and> b_activeMonitorWake b')"
proof (cases "sessionGenerationMatches (b_sessionGeneration b) session")
  case False
  then show ?thesis
    using assms by (simp add: applyMonitoringUpdate_def)
next
  case True
  obtain previous where now: "strategy_now (b_strategy b) = Returned previous"
    using assms True by (cases "strategy_now (b_strategy b)") (auto simp: applyMonitoringUpdate_def)
  obtain r0 st where u: "updated_strategy env (b_strategy b) history m bg = (r0, st)" by fastforce
  obtain chg where r0: "r0 = Returned chg"
    using assms True now u by (cases r0) (auto simp: applyMonitoringUpdate_def)
  obtain result closed_by b2 where ann: "announce_switch (requestFailedActiveRefresh (env_now env)
      (b\<lparr> b_strategy := st \<rparr>)) (switch_policy_of st) = (result, closed_by, b2)"
    by (metis prod_cases3)
  have "if chg then shut = closed_by \<and> b' = b2
      else shut = [] \<and> b' = requestFailedActiveRefresh (env_now env) (b\<lparr> b_strategy := st \<rparr>)"
    using assms True by (simp add: applyMonitoringUpdate_def now u r0 Let_def ann split: if_splits)
  moreover have "b_activeMonitorWake b2"
    using ann by (auto simp: announce_switch_def split: prod.splits)
  ultimately show ?thesis
    using announce_frame [OF ann]
    by (auto simp: frame_simps applySwitchInterruption_def split: if_splits)
qed

text \<open>
  C8: In every reachable group a new connection is carried by an outbound of the profile, through
  the very dialer of that outbound, and unless it is a capability probe only when the IP family gate
  allows the flow for the history of the outbound that carries it. No choice panics, as long as
  the profile fits an \<open>int32\<close> and the LRU cache returns indices that are not negative.
\<close>

theorem group_serves_its_profile:
  assumes "group_reachable outbounds b" "small_list outbounds" "cache_ok env"
    and "DialContext env b monitor real_tag boot metadata net external dialer = (r, b')"
  shows "r \<noteq> Panicked
    \<and> (\<forall>c t. r = Returned (Connected c t) \<longrightarrow>
         (\<exists>out \<in> set outbounds. Tag out = t \<and> dialer out = Some c
            \<and> (boot \<or> IPv6TrafficAllowed (b_ipv6Mode b) metadata
                 (case monitor of None \<Rightarrow> None | Some lookup \<Rightarrow> lookup (real_tag out))
                 (env_now env) (b_ipv6CapabilityTTL b))))"
proof -
  have ok: "strategy_ok outbounds (b_strategy b)" and avail: "b_availableOutbounds b = outbounds"
    using reachable_group_ok [OF assms(1)] by (simp_all add: group_ok_def)
  obtain sel b1 where s: "selectOutbound env b boot metadata net = (sel, b1)" by fastforce
  have frame: "b_ipv6Mode b1 = b_ipv6Mode b" "b_ipv6CapabilityTTL b1 = b_ipv6CapabilityTTL b"
    using s by (auto simp: selectOutbound_def split: if_splits prod.splits)
  have "\<exists>choice. sel = Returned (choice, boot) \<and> set_option choice \<subseteq> set outbounds"
  proof (cases boot)
    case False
    obtain r0 st where sel: "strategy_select env (b_strategy b) metadata net = (r0, st)" by fastforce
    from strategy_select_ok [OF ok assms(2,3) sel] show ?thesis
      using s False by (auto simp: selectOutbound_def sel sound_result_def)
  next
    case True
    have "\<exists>t. strategy_now (b_strategy b) = Returned t"
      using ok by (force simp: strategy_now_def strategy_ok_def ld_ok_def LowestDelay_Now_def tag_of_def
          known_network_def split: strategy_state.splits dest: spec [of _ NetworkTCP])
    then show ?thesis
      using s True avail by (auto simp: selectOutbound_def find_Some_iff split: option.splits list.splits)
  qed
  then obtain choice where c: "sel = Returned (choice, boot)" "set_option choice \<subseteq> set outbounds" by blast
  show ?thesis
    using assms(4) c(2)
    by (cases choice) (auto simp: DialContext_def dial_with_def s c(1) ipv6TrafficAllowed_def frame
        split: if_splits option.splits)
qed

theorem group_serves_its_profile_witness:
  "\<exists>r b'. DialContext unit_env (group_on (StrategyLowestDelay (NewLowestDelay [server ''a'', server ''b'', server ''c''])))
      None Tag False \<lparr> IPVersion = 4, Network = NetworkTCP, DestinationAddr = Addr4 1, RealOutbound = [] \<rparr>
      NetworkTCP False (\<lambda>_. Some 9) = (r, b') \<and> r \<noteq> Panicked"
proof -
  let ?outs = "[server ''a'', server ''b'', server ''c'']"
  let ?b = "group_on (StrategyLowestDelay (NewLowestDelay ?outs))"
  let ?m = "\<lparr> IPVersion = 4, Network = NetworkTCP, DestinationAddr = Addr4 1, RealOutbound = [] \<rparr>"
  let ?manager = "\<lambda>t. Some (server t)"
  have tags: "resolve_tags ?manager [''a'', ''b'', ''c''] = Inr ?outs"
    by simp
  have "Start unit_env () 0 2 DomainStrategyAsIS 0 ''lowest-delay'' True ''7'' ?manager [''a'', ''b'', ''c''] = Inr ?b"
    by (simp add: Start_def new_strategy_def group_on_def)
  from group_reachable.started [OF this tags] have reach: "group_reachable ?outs ?b" .
  obtain r b' where d: "DialContext unit_env ?b None Tag False ?m NetworkTCP False (\<lambda>_. Some 9) = (r, b')"
    by fastforce
  have "small_list ?outs" "cache_ok unit_env"
    by (simp_all add: small_list_def cache_ok_def unit_env_def)
  from group_serves_its_profile [OF reach this d] d show ?thesis by blast
qed

text \<open>
  C15: Users keep their connections. A monitoring update closes a connection that came from outside
  only when the option of the group allows it and Smart Active has just switched away from
  an outbound whose newest sample is a completed, uncached, outbound-specific failure, confirmed by the
  active probe or by a critical state with two failures in a row.
\<close>

theorem external_connections_survive:
  assumes "applyMonitoringUpdate env session b history manualRefresh bg = (Returned shut, b')"
    and "item \<in> set shut" "isExternal item"
  shows "b_interruptExternalConnections b
    \<and> (\<exists>s. b_strategy b' = StrategySmartActiveAuto s \<and> action (sa_decision s) = Switch
         \<and> confirmedOutboundFailure (pget (sa_diagnosticHistory s) (dfrom (sa_decision s)))
         \<and> (reason (sa_decision s) = ''active_probe_confirmed_connection_failure''
            \<or> dstate (sa_decision s) = CRITICAL
              \<and> (\<exists>e. map_of (sa_evidence s) (dfrom (sa_decision s)) = Some e \<and> 2 \<le> failureStreak e)))"
proof -
  obtain result where i: "Interrupt (b_interruptGroup b) (interruptExternal (switch_policy_of (b_strategy b'))
      \<and> b_interruptExternalConnections b) = (result, shut, b_interruptGroup b')"
    using update_closes [OF assms(1)] assms(2) by auto
  have ext: "interruptExternal (switch_policy_of (b_strategy b'))" "b_interruptExternalConnections b"
    using Interrupt_partition(2) [OF i] assms(2,3) by (auto simp: to_close_def)
  then obtain s where s: "b_strategy b' = StrategySmartActiveAuto s"
      "interruptExternal (smartInterruptionPolicy s)"
    by (cases "b_strategy b'") (simp_all add: switch_policy_of_def preserveSwitchPolicy_def)
  from interrupts_external_only_confirmed [OF s(2) [unfolded smartInterruptionPolicy_def Let_def]]
  show ?thesis
    using ext(2) s(1) by (auto split: option.splits)
qed

theorem external_connections_survive_witness:
  "\<exists>s. b_strategy (snd (applyMonitoringUpdate unit_env ''7'' sick_group refused_cohort False 0))
      = StrategySmartActiveAuto s \<and> action (sa_decision s) = Switch"
proof -
  obtain b' where "applyMonitoringUpdate unit_env ''7'' sick_group refused_cohort False 0
      = (Returned [\<lparr> conn = 1, isExternal = True, network = NetworkTCP \<rparr>], b')"
    using sick_group_run by (metis prod.collapse)
  from external_connections_survive [OF this] this show ?thesis by auto
qed

text \<open>
  A monitoring update loses no connection and closes each at most once: what it closes and
  what the group keeps are together what the group had, every kept connection came from outside, and when
  nothing was switched nothing is closed.
\<close>

theorem interruption_partitions_connections:
  assumes "applyMonitoringUpdate env session b history manualRefresh bg = (Returned shut, b')"
  shows "mset shut + mset (b_interruptGroup b') = mset (b_interruptGroup b)
    \<and> (b_interruptGroup b' = b_interruptGroup b \<and> shut = []
       \<or> b_activeMonitorWake b' \<and> list_all isExternal (b_interruptGroup b'))"
  using update_closes [OF assms]
proof
  assume "\<exists>result. Interrupt (b_interruptGroup b) (interruptExternal (switch_policy_of (b_strategy b'))
          \<and> b_interruptExternalConnections b) = (result, shut, b_interruptGroup b') \<and> b_activeMonitorWake b'"
  then obtain result where i: "Interrupt (b_interruptGroup b) (interruptExternal (switch_policy_of (b_strategy b'))
          \<and> b_interruptExternalConnections b) = (result, shut, b_interruptGroup b')" and w: "b_activeMonitorWake b'"
    by blast
  have "list_all isExternal (b_interruptGroup b')"
    using Interrupt_partition(3) [OF i] by (auto simp: list_all_iff to_close_def)
  then show ?thesis
    using Interrupt_partition(1) [OF i] w by simp
qed simp

theorem interruption_partitions_connections_witness:
  "\<exists>b'. applyMonitoringUpdate unit_env ''7'' sick_group refused_cohort False 0
      = (Returned [\<lparr> conn = 1, isExternal = True, network = NetworkTCP \<rparr>], b')
    \<and> mset (b_interruptGroup b') = {#}"
proof -
  obtain b' where u: "applyMonitoringUpdate unit_env ''7'' sick_group refused_cohort False 0
      = (Returned [\<lparr> conn = 1, isExternal = True, network = NetworkTCP \<rparr>], b')"
    using sick_group_run by (metis prod.collapse)
  from interruption_partitions_connections [OF u] u show ?thesis
    by (auto simp: sick_group_def)
qed

section \<open>Results that come too late\<close>

text \<open>
  Late results change nothing. A monitoring update of another session, and a probe result of
  another session, of an outbound that is no longer active, that the monitor did not publish
  or that the ranking has overtaken, leave the whole group as it was.
\<close>

theorem late_results_are_inert:
  assumes "\<not> sessionGenerationMatches (b_sessionGeneration b) session
    \<or> (\<forall>s. b_strategy b = StrategySmartActiveAuto s \<longrightarrow> Now s \<noteq> t)
    \<or> \<not> published
    \<or> (\<exists>h. pget rankingHistory t = Some h \<and> (Time p < Time h
         \<or> 0 < CheckGeneration p \<and> CheckGeneration p < CheckGeneration h))"
  shows "applyActiveProbe env session b t p published rankingHistory = (no_update, [], b)
    \<and> (\<not> sessionGenerationMatches (b_sessionGeneration b) session
       \<longrightarrow> applyMonitoringUpdate env session b history manualRefresh bg = (Returned [], b))"
  using assms
  by (auto simp: applyActiveProbe_def applyMonitoringUpdate_def activeProbeSupersededByRanking_def
      split: strategy_state.splits)

theorem late_results_are_inert_witness:
  "applyActiveProbe unit_env ''8'' sick_group ''b'' (failure 0 (seconds 1070)) True first_cohort
      = (no_update, [], sick_group)
    \<and> applyMonitoringUpdate unit_env ''8'' sick_group first_cohort False 0 = (Returned [], sick_group)"
proof -
  have "\<not> sessionGenerationMatches (b_sessionGeneration sick_group) ''8''"
    by (simp add: sick_group_def group_on_def sessionGenerationMatches_def)
  note stale = this
  show ?thesis
    using late_results_are_inert [OF disjI1, OF stale] stale by simp
qed

section \<open>Batches\<close>

primrec consume_all :: "('c, 'n) balancer \<Rightarrow> (u64 \<times> int) list \<Rightarrow> (u64 \<times> int) list" where
  "consume_all b [] = []"
| "consume_all b (e # es) =
     (let (accepted, b1) = consumeCompletedBatch b (fst e) (snd e)
      in if accepted then e # consume_all b1 es else consume_all b1 es)"

definition earlier_batch :: "u64 \<times> int \<Rightarrow> u64 \<times> int \<Rightarrow> bool" where
  "earlier_batch x y \<longleftrightarrow> fst x < fst y \<or> fst x = fst y \<and> snd x < snd y"

lemma consume_step:
  "consumeCompletedBatch b g n = (ok, b') \<Longrightarrow>
     ok = (g \<noteq> 0 \<and> earlier_batch (b_lastHandledBatchGeneration b, b_lastHandledBatchNumber b) (g, n))
     \<and> (b_lastHandledBatchGeneration b', b_lastHandledBatchNumber b')
       = (if ok then (g, n) else (b_lastHandledBatchGeneration b, b_lastHandledBatchNumber b))"
  by (auto simp: consumeCompletedBatch_def earlier_batch_def split: if_splits)

text \<open>
  A completed batch takes the fast path at most once. Whatever sequence of events a worker sees,
  the accepted batches are strictly increasing, generation first, all later than the last one handled before,
  and none has generation 0; an event later than everything before it is accepted.
\<close>

theorem batches_are_consumed_once:
  "sorted_wrt earlier_batch (consume_all b events)
    \<and> (\<forall>e \<in> set (consume_all b events). fst e \<noteq> 0
         \<and> earlier_batch (b_lastHandledBatchGeneration b, b_lastHandledBatchNumber b) e)
    \<and> (\<forall>e \<in> set events. fst e = 0 \<or> (\<exists>d \<in> set (consume_all b events). \<not> earlier_batch d e)
         \<or> \<not> earlier_batch (b_lastHandledBatchGeneration b, b_lastHandledBatchNumber b) e)"
proof (induction events arbitrary: b)
  case (Cons e es)
  obtain ok b1 where c: "consumeCompletedBatch b (fst e) (snd e) = (ok, b1)" by fastforce
  note step = consume_step [OF c]
  have trans: "earlier_batch x y \<Longrightarrow> earlier_batch y z \<Longrightarrow> earlier_batch x z" for x y z
    by (auto simp: earlier_batch_def)
  have irrefl: "\<not> earlier_batch x x" for x
    by (simp add: earlier_batch_def)
  show ?case
  proof (cases ok)
    case True
    then have last: "(b_lastHandledBatchGeneration b1, b_lastHandledBatchNumber b1) = e"
      using step by simp
    have "earlier_batch (b_lastHandledBatchGeneration b, b_lastHandledBatchNumber b) e" "fst e \<noteq> 0"
      using step True by simp_all
    then show ?thesis
      using Cons.IH [of b1] True unfolding last by (auto simp: c irrefl intro: trans)
  next
    case False
    then have "(b_lastHandledBatchGeneration b1, b_lastHandledBatchNumber b1)
        = (b_lastHandledBatchGeneration b, b_lastHandledBatchNumber b)"
      using step [THEN conjunct2] by simp
    moreover have "fst e = 0 \<or> \<not> earlier_batch (b_lastHandledBatchGeneration b, b_lastHandledBatchNumber b) e"
      using False step [THEN conjunct1] by auto
    ultimately show ?thesis
      using Cons.IH [of b1] False by (auto simp: c)
  qed
qed simp

theorem batches_are_consumed_once_witness:
  "sorted_wrt earlier_batch (consume_all sick_group [(1, 1), (1, 1), (2, 1), (1, 2)])
    \<and> set (consume_all sick_group [(1, 1), (1, 1), (2, 1), (1, 2)]) = {(1, 1), (2, 1)}"
proof -
  have "consume_all sick_group [(1, 1), (1, 1), (2, 1), (1, 2)] = [(1, 1), (2, 1)]"
    by (simp add: sick_group_def group_on_def consumeCompletedBatch_def)
  then show ?thesis
    using batches_are_consumed_once [of sick_group "[(1, 1), (1, 1), (2, 1), (1, 2)]"] by simp
qed

section \<open>The schedule of the active probe\<close>

lemma monitor_pass_progress:
  assumes "monitor_pass s t now at_deadline after_probe = (probed, s')" "activeTag s' = activeTag s" "s' \<noteq> s"
  shows "probed \<and> after_probe = activeTag s \<and> at_deadline = activeTag s \<and> s' = complete s"
proof -
  define s1 where "s1 = snd (observe s t now)"
  have t: "t \<noteq> []"
    using assms(1,3) by (auto simp: monitor_pass_def)
  have pass: "(if at_deadline \<noteq> activeTag s1 then (False, s1)
      else if after_probe \<noteq> activeTag s1 then (True, s1) else (True, complete s1)) = (probed, s')"
    using assms(1) t by (simp only: monitor_pass_def Let_def s1_def if_False)
  then have "activeTag s' = activeTag s1"
    by (auto simp: complete_def split: if_splits)
  then have same: "activeTag s1 = activeTag s"
    using assms(2) by metis
  have "s1 = s"
  proof (cases "t = activeTag s")
    case False
    then show ?thesis
      using same t by (simp add: s1_def observe_def)
  qed (simp add: s1_def observe_def)
  then show ?thesis
    using pass assms(3) by (simp split: if_splits)
qed

text \<open>
  The active outbound is always probed on schedule. In every reachable state of the monitor
  the next probe is due ten seconds after the last one, or one minute after it from the seventh on,
  an outbound that has just become active is due at once, and the schedule only advances after a
  probe of the outbound that is still active.
\<close>

theorem active_probe_schedule:
  assumes "monitor_step\<^sup>*\<^sup>* zero_schedule s"
  shows "deadline (complete s) - deadline s = (if probeIndex s < 6 then seconds 10 else minutes 1)
    \<and> (t \<noteq> [] \<and> t \<noteq> activeTag s \<longrightarrow> deadline (snd (observe s t now)) = now)
    \<and> (monitor_pass s t now at_deadline after_probe = (probed, s') \<and> activeTag s' = activeTag s \<and> s' \<noteq> s
       \<longrightarrow> probed \<and> after_probe = activeTag s \<and> at_deadline = activeTag s \<and> s' = complete s)"
proof -
  have "0 \<le> probeIndex s"
    using assms by (induction rule: rtranclp_induct) (auto simp: zero_schedule_def dest: monitor_pass_index)
  from probe_offset_gap [OF this] have "deadline (complete s) - deadline s
      = (if probeIndex s < 6 then seconds 10 else minutes 1)"
    by (simp add: deadline_def complete_def)
  moreover have "t \<noteq> [] \<and> t \<noteq> activeTag s \<longrightarrow> deadline (snd (observe s t now)) = now"
    by (simp add: deadline_def observe_def smartActiveProbeOffset_def)
  ultimately show ?thesis
    using monitor_pass_progress by blast
qed

theorem active_probe_schedule_witness:
  "deadline (complete \<lparr> activeTag = ''b'', activeSince = 5, probeIndex = 0 \<rparr>)
    = deadline \<lparr> activeTag = ''b'', activeSince = 5, probeIndex = 0 \<rparr> + seconds 10"
proof -
  have "monitor_pass zero_schedule ''b'' 5 ''c'' ''b'' = (False, \<lparr> activeTag = ''b'', activeSince = 5, probeIndex = 0 \<rparr>)"
    by (simp add: monitor_pass_def observe_def zero_schedule_def)
  then have "monitor_step\<^sup>*\<^sup>* zero_schedule \<lparr> activeTag = ''b'', activeSince = 5, probeIndex = 0 \<rparr>"
    by (rule r_into_rtranclp [of monitor_step, OF monitor_step.intros])
  from active_probe_schedule [OF this, THEN conjunct1] show ?thesis by simp
qed

end
