(* ===== verification/Balancer_Report.thy ===== *)
theory Balancer_Report
  imports Smart_Ranking "HOL-Library.Signed_Division"
begin

text \<open>
  What \<open>balancer.go\<close> reports about its candidates: the order of \<open>topSmartActiveCandidates\<close>, the
  bucket, freshness and exclusion reason of one candidate, and the best candidate of
  \<open>logAutoDecision\<close>. The texts are strings because they are concatenated from error types.
\<close>

definition report_less :: "instant \<Rightarrow> history_map \<Rightarrow> tag \<Rightarrow> tag \<Rightarrow> bool" where
  "report_less now history left right =
     (let leftSuccess = getTagSuccess left history; rightSuccess = getTagSuccess right history;
          leftScore = getTagHealthScore now left history; rightScore = getTagHealthScore now right history
      in if leftSuccess \<noteq> rightSuccess then leftSuccess
         else if leftScore \<noteq> rightScore then leftScore > rightScore
         else getTagDelay left history < getTagDelay right history)"

definition topSmartActiveCandidates :: "instant \<Rightarrow> tag list \<Rightarrow> history_map \<Rightarrow> int \<Rightarrow> tag list" where
  "topSmartActiveCandidates now candidates history limit =
     (let tags = slice_stable (report_less now history) candidates
      in if limit > 0 \<and> int (length tags) > limit then take (nat limit) tags else tags)"

definition smartActiveQualityScore :: "instant \<Rightarrow> tag \<Rightarrow> url_test_history option \<Rightarrow> int" where
  "smartActiveQualityScore now t history = getHealthScore now t history"

definition smartActiveRealUserScore :: "url_test_history option \<Rightarrow> int" where
  "smartActiveRealUserScore history =
     (case history of
        None \<Rightarrow> 0
      | Some h \<Rightarrow>
          (let score = 100 - RealUserPenalty h - DegradationPoints h sdiv 2
           in if score < 0 then 0 else score))"

definition smartActiveFreshness :: "url_test_history option \<Rightarrow> string" where
  "smartActiveFreshness history =
     (case history of
        None \<Rightarrow> ''missing''
      | Some h \<Rightarrow> if IsFromCache h then ''cached'' else if IsZero (Time h) then ''unknown'' else ''fresh'')"

definition smartActiveBucket :: "instant \<Rightarrow> tag \<Rightarrow> url_test_history option \<Rightarrow> string" where
  "smartActiveBucket now t history =
     (case history of
        None \<Rightarrow> ''unknown''
      | Some h \<Rightarrow>
          if \<not> Success h then (if ErrorType h = [] then ''unknown'' else ''bad'')
          else (let score = getHealthScore now t (Some h)
                in if score \<ge> 90 then ''excellent'' else if score \<ge> 75 then ''good''
                   else if score \<ge> 60 then ''medium'' else if score \<ge> 35 then ''weak'' else ''bad''))"

definition smartActiveUDPHealth :: "url_test_history option \<Rightarrow> string" where
  "smartActiveUDPHealth history =
     (case history of
        None \<Rightarrow> ''unknown''
      | Some h \<Rightarrow> if \<not> UDPProbeAvailable h then ''unknown'' else if UDPPenalty h > 0 then ''penalized'' else ''ok'')"

definition smartActiveExcludeReason :: "instant \<Rightarrow> tag \<Rightarrow> url_test_history option \<Rightarrow> string" where
  "smartActiveExcludeReason now t history =
     (case history of
        None \<Rightarrow> ''missing_history''
      | Some h \<Rightarrow>
          if CheckGeneration h = 0 then ''missing_generation''
          else if IsFromCache h then ''stale_cached''
          else if URLTestStatus h = StatusChecking then ''checking''
          else if CheckGeneration h > 0 \<and> \<not> CombinedReady h then ''not_ready_current_generation''
          else if \<not> Success h then
            (if ErrorType h = [] then ''failed_unknown'' else ''failed_'' @ ErrorType h)
          else if smartActiveState now (Some h) = BAD \<or> smartActiveState now (Some h) = CRITICAL
            then ''bad_health_state''
          else if RuntimePenalty h > 0 \<or> RealUserPenalty h > 0 \<or> DegradationPoints h > 0 \<or> UDPPenalty h > 0
            then ''penalized''
          else if getHealthScore now t (Some h) < 35 then ''score_below_minimum''
          else [])"

definition smartActiveFinalRankingScore :: "instant \<Rightarrow> tag \<Rightarrow> url_test_history option \<Rightarrow> int" where
  "smartActiveFinalRankingScore now t history =
     (if smartActiveExcludeReason now t history \<noteq> [] then 0 else getHealthScore now t history)"

text \<open>The loop of \<open>logAutoDecision\<close> over the sorted tags.\<close>

fun auto_best_loop :: "instant \<Rightarrow> history_map \<Rightarrow> tag list \<Rightarrow> tag \<times> int \<times> u16 \<Rightarrow> tag \<times> int \<times> u16" where
  "auto_best_loop now history [] acc = acc"
| "auto_best_loop now history (t # ts) (bestTag, bestScore, bestDelay) =
     (let delay = getTagDelay t history; success = getTagSuccess t history;
          score = getTagHealthScore now t history
      in auto_best_loop now history ts
           (if success \<and> (score > bestScore \<or> score = bestScore \<and> delay < bestDelay)
            then (t, score, delay) else (bestTag, bestScore, bestDelay)))"

definition auto_decision_best :: "instant \<Rightarrow> tag list \<Rightarrow> history_map \<Rightarrow> tag \<times> int \<times> u16" where
  "auto_decision_best now candidates history =
     auto_best_loop now history (slice_stable (\<lambda>x y. x < y) candidates) ([], -1, TimeoutDelay)"

section \<open>Facts\<close>

lemma ranking_report_less: "ranking (report_less now history)"
proof -
  have "report_less now history = by_key_desc (\<lambda>t. getTagSuccess t history)
      (by_key_desc (\<lambda>t. getTagHealthScore now t history)
        (\<lambda>x y. getTagDelay x history < getTagDelay y history))"
    by (intro ext) (auto simp: report_less_def by_key_desc_def Let_def)
  then show ?thesis
    by (simp only: ranking_desc ranking_key)
qed

interpretation report: ranking "report_less now history"
  by (rule ranking_report_less)

text \<open>A candidate the report does not exclude is eligible where the report cannot see an obstacle.\<close>

lemma not_excluded_eligible:
  assumes "smartActiveExcludeReason now t (Some h) = []"
    and "t \<noteq> []" "hasOutbound s t" "sa_startedAt s \<le> Time h" "Time h \<noteq> 0"
    and "ErrorType h = [] \<or> ErrorType h = ErrorTypeNone" "URLTestStatus h = [] \<or> URLTestStatus h = StatusSuccess"
    and "getPolicyPenalty t (Some h) < 50" "sa_ipv6Mode s \<noteq> DomainStrategyIPv6Only"
  shows "eligible now s t (Some h) (CheckGeneration h)"
proof -
  have "smartActiveState now (Some h) \<noteq> BAD" "smartActiveState now (Some h) \<noteq> CRITICAL"
    using assms(1) by (auto simp: smartActiveExcludeReason_def split: if_splits)
  then have "smartActiveState now (Some h) < BAD"
    by (cases "smartActiveState now (Some h)") (simp_all add: less_health_state_def)
  then show ?thesis
    using assms by (auto simp: eligible_iff smartActiveExcludeReason_def word_neq_0_conv split: if_splits)
qed

lemma eligible_exclusion:
  assumes "eligible now s t (Some h) g"
  shows "smartActiveExcludeReason now t (Some h) \<in> {[], ''penalized''}
    \<and> (smartActiveExcludeReason now t (Some h) = ''penalized'' \<longleftrightarrow>
        RuntimePenalty h > 0 \<or> RealUserPenalty h > 0 \<or> DegradationPoints h > 0 \<or> UDPPenalty h > 0)"
proof -
  have "smartActiveState now (Some h) \<noteq> BAD \<and> smartActiveState now (Some h) \<noteq> CRITICAL"
    using assms by (auto simp: eligible_iff less_health_state_def)
  then show ?thesis
    using assms by (auto simp: eligible_iff smartActiveExcludeReason_def)
qed

end
