(* ===== verification/Debug_Fault.thy ===== *)
theory Debug_Fault
  imports Smart_Types
begin

text \<open>
  \<open>smart_active_debug_fault.go\<close> and \<open>smart_active_debug_fault_enabled.go\<close>: the fault injection of debug
  builds, which rewrites the copy of the rankings one update works on. The stub of release builds
  never builds a fault. \<open>strings.ToUpper\<close> is an argument: the sources only use it on the
  configured status.
\<close>

record debug_fault =
  targetActive :: tag
  forceStatus :: string
  forceError :: string
  forceDegradation :: int
  faultRuntimePenalty :: int
  faultRealUserPenalty :: int
  forceCandidate :: tag
  candidateScore :: int

record debug_options =
  SmartActiveDebugForceStatus :: string
  SmartActiveDebugForceError :: string
  SmartActiveDebugForceDegradation :: int
  SmartActiveDebugRuntimePenalty :: int
  SmartActiveDebugRealUserPenalty :: int
  SmartActiveDebugForceCandidate :: string
  SmartActiveDebugCandidateScore :: int

definition fault_empty :: "debug_fault \<Rightarrow> bool" where
  "fault_empty f \<longleftrightarrow> forceStatus f = [] \<and> forceError f = [] \<and> forceDegradation f = 0
     \<and> faultRuntimePenalty f = 0 \<and> faultRealUserPenalty f = 0 \<and> forceCandidate f = []
     \<and> candidateScore f = 0"

definition newSmartActiveDebugFault :: "(string \<Rightarrow> string) \<Rightarrow> debug_options \<Rightarrow> debug_fault option" where
  "newSmartActiveDebugFault toUpper opts =
     (let fault = \<lparr> targetActive = [],
            forceStatus = toUpper (TrimSpace (SmartActiveDebugForceStatus opts)),
            forceError = go_lower (TrimSpace (SmartActiveDebugForceError opts)),
            forceDegradation = SmartActiveDebugForceDegradation opts,
            faultRuntimePenalty = SmartActiveDebugRuntimePenalty opts,
            faultRealUserPenalty = SmartActiveDebugRealUserPenalty opts,
            forceCandidate = TrimSpace (SmartActiveDebugForceCandidate opts),
            candidateScore = SmartActiveDebugCandidateScore opts \<rparr>
      in if fault_empty fault then None else Some fault)"

definition debugErrorDegradation :: "string \<Rightarrow> int" where
  "debugErrorDegradation errorType =
     (if errorType = ErrorTypeEOF then 5
      else if errorType = ErrorTypeReset then 10
      else if errorType \<in> {ErrorTypeTimeout, ErrorTypeDeadline} then 16
      else 28)"

definition debugErrorRuntimePenalty :: "string \<Rightarrow> int" where
  "debugErrorRuntimePenalty errorType =
     (if errorType = ErrorTypeEOF then 2
      else if errorType = ErrorTypeRefused then 4
      else if errorType = ErrorTypeReset then 5
      else if errorType \<in> {ErrorTypeTimeout, ErrorTypeDeadline, ErrorTypeQUICTimeout} then 7
      else 8)"

definition makeHealthy :: "instant \<Rightarrow> url_test_history \<Rightarrow> url_test_history" where
  "makeHealthy now h = h\<lparr> Time := now, Delay := 80, IsFromCache := False, Success := True,
     ErrorType := ErrorTypeNone, ErrorText := [], URLTestStatus := StatusSuccess,
     RuntimePenalty := 0, RealUserPenalty := 0, FreshnessPenalty := 0, VolatilityPenalty := 0,
     DegradationPoints := 0, PolicyPenalty := 0, UDPPenalty := 0, StabilityPoints := 40 \<rparr>"

definition applyForcedError :: "instant \<Rightarrow> string \<Rightarrow> url_test_history \<Rightarrow> url_test_history" where
  "applyForcedError now errorType h =
     (let h = h\<lparr> Success := False, ErrorType := errorType,
            ErrorText := ''smart_active_debug fault injection'', URLTestStatus := StatusFailed,
            Delay := 65535, Time := now \<rparr>
      in h\<lparr> DegradationPoints := max (DegradationPoints h) (debugErrorDegradation errorType),
            RuntimePenalty := max (RuntimePenalty h) (debugErrorRuntimePenalty errorType) \<rparr>)"

definition applyForcedStatus :: "instant \<Rightarrow> string \<Rightarrow> url_test_history \<Rightarrow> bool \<times> url_test_history" where
  "applyForcedStatus now status h =
     (if status = ''GOOD'' then (True, makeHealthy now h)
      else if status = ''SUSPECT'' then (True, (makeHealthy now h)\<lparr> DegradationPoints := 12 \<rparr>)
      else if status = ''DEGRADED''
        then (True, (makeHealthy now h)\<lparr> DegradationPoints := 35, RuntimePenalty := 20 \<rparr>)
      else if status = ''BAD''
        then (True, (applyForcedError now ErrorTypeReset (makeHealthy now h))\<lparr> DegradationPoints := 55 \<rparr>)
      else if status = ''CRITICAL''
        then (True, applyForcedError now ErrorTypeTimeout (makeHealthy now h))
      else (False, h))"

text \<open>The delay band of the requested score and the score the band starts from.\<close>

definition score_band :: "int \<Rightarrow> int \<times> u16" where
  "score_band score =
     (if 90 \<le> score then (100, 80) else if 75 \<le> score then (90, 90)
      else if 60 \<le> score then (75, 200) else if 40 \<le> score then (60, 350)
      else if 25 \<le> score then (40, 600) else if 10 \<le> score then (25, 900)
      else (10, 1200))"

text \<open>\<open>applyPenalty\<close>: one penalty field takes what it can of the penalty that is left.\<close>

definition apply_penalty :: "int \<Rightarrow> int \<Rightarrow> int \<times> int" where
  "apply_penalty penalty maximum =
     (let value = (if penalty > maximum then maximum else penalty) in (value, penalty - value))"

definition setSyntheticScore :: "url_test_history \<Rightarrow> int \<Rightarrow> url_test_history" where
  "setSyntheticScore h score0 =
     (let score = (if score0 < 1 then 1 else score0);
          score = (if score > 100 then 100 else score);
          (baseScore, delay) = score_band score;
          penalty = baseScore - score;
          (runtime, penalty) = apply_penalty penalty 14;
          (realUser, penalty) = apply_penalty penalty 14;
          (volatility, penalty) = apply_penalty penalty 14;
          (udp, penalty) = apply_penalty penalty 15;
          (policy, penalty) = apply_penalty penalty 25
      in h\<lparr> Delay := delay, RuntimePenalty := runtime, RealUserPenalty := realUser,
            VolatilityPenalty := volatility, UDPPenalty := udp, PolicyPenalty := policy \<rparr>)"

definition isDebugProbeError :: "string \<Rightarrow> bool" where
  "isDebugProbeError errorType \<longleftrightarrow>
     errorType \<in> {ErrorTypeTimeout, ErrorTypeDeadline, ErrorTypeRefused, ErrorTypeReset, ErrorTypeEOF,
       ErrorTypeDNSTimeout, ErrorTypeTLSHandshakeFailed, ErrorTypeQUICTimeout}"

text \<open>The history of the target after the injection, and whether anything was injected.\<close>

definition fault_target :: "instant \<Rightarrow> debug_fault \<Rightarrow> url_test_history \<Rightarrow> bool \<times> url_test_history" where
  "fault_target now f h =
     (let (chg, h) = (if forceStatus f \<noteq> [] then applyForcedStatus now (forceStatus f) h else (False, h));
          (chg, h) = (if forceError f \<noteq> [] \<and> isDebugProbeError (forceError f)
            then (True, applyForcedError now (forceError f) h) else (chg, h));
          (chg, h) = (if forceDegradation f > 0
            then (True, h\<lparr> DegradationPoints := forceDegradation f \<rparr>) else (chg, h));
          (chg, h) = (if faultRuntimePenalty f > 0
            then (True, h\<lparr> RuntimePenalty := faultRuntimePenalty f \<rparr>) else (chg, h))
      in if faultRealUserPenalty f > 0
         then (True, h\<lparr> RealUserPenalty := faultRealUserPenalty f \<rparr>) else (chg, h))"

definition fault_candidate :: "instant \<Rightarrow> debug_fault \<Rightarrow> url_test_history \<Rightarrow> url_test_history" where
  "fault_candidate now f h =
     (let h = makeHealthy now h
      in if candidateScore f > 0 then setSyntheticScore h (candidateScore f) else h)"

text \<open>\<open>Apply\<close>: the first active outbound it sees stays its target.\<close>

definition Apply :: "instant \<Rightarrow> debug_fault \<Rightarrow> tag \<Rightarrow> history_map \<Rightarrow> bool \<times> debug_fault \<times> history_map" where
  "Apply now f activeTag history =
     (let f = (if targetActive f = [] then f\<lparr> targetActive := activeTag \<rparr> else f)
      in case pget history (targetActive f) of
           None \<Rightarrow> (False, f, history)
         | Some h \<Rightarrow>
             (let (chg, h) = fault_target now f h;
                  history = AList.update (targetActive f) (Some h) history;
                  (chg, history) =
                    (if forceCandidate f \<noteq> [] \<and> forceCandidate f \<noteq> targetActive f then
                       (case pget history (forceCandidate f) of
                          None \<Rightarrow> (chg, history)
                        | Some c \<Rightarrow> (True, AList.update (forceCandidate f)
                            (Some (fault_candidate now f c)) history))
                     else (chg, history))
              in (chg \<and> activeTag = targetActive f, f, history)))"

section \<open>The synthetic score\<close>

lemma score_band_penalty:
  assumes "1 \<le> score" "score \<le> 100"
  shows "0 \<le> fst (score_band score) - score \<and> fst (score_band score) - score \<le> 20
    \<and> delayScore (snd (score_band score)) = fst (score_band score)
    \<and> 0 < snd (score_band score) \<and> snd (score_band score) < TimeoutDelay"
  using assms by (simp add: score_band_def delayScore_def)

lemma synthetic_fields:
  assumes "1 \<le> score" "score \<le> 100"
  obtains runtime real_user where
    "setSyntheticScore h score = h\<lparr> Delay := snd (score_band score), RuntimePenalty := runtime,
       RealUserPenalty := real_user, VolatilityPenalty := 0, UDPPenalty := 0, PolicyPenalty := 0 \<rparr>"
    "runtime + real_user = fst (score_band score) - score"
    "0 \<le> runtime" "runtime \<le> 14" "0 \<le> real_user" "real_user \<le> 14"
proof -
  define penalty where "penalty = fst (score_band score) - score"
  have p: "0 \<le> penalty" "penalty \<le> 20"
    using score_band_penalty [OF assms] by (simp_all add: penalty_def)
  define runtime where "runtime = (if penalty > 14 then 14 else penalty)"
  have "setSyntheticScore h score = h\<lparr> Delay := snd (score_band score), RuntimePenalty := runtime,
       RealUserPenalty := penalty - runtime, VolatilityPenalty := 0, UDPPenalty := 0, PolicyPenalty := 0 \<rparr>"
    using assms p
    by (cases "score_band score") (simp add: setSyntheticScore_def apply_penalty_def Let_def penalty_def runtime_def)
  then show ?thesis
    by (rule that) (use p in \<open>auto simp: runtime_def penalty_def\<close>)
qed

lemma synthetic_score:
  assumes "1 \<le> score" "score \<le> 100" "now \<noteq> 0" "CheckGeneration h = 0 \<or> CombinedReady h"
  shows "getHealthScore now t (Some (setSyntheticScore (makeHealthy now h) score))
    = max 0 (score - CalculatePolicyPenalty t (case IpInfo h of None \<Rightarrow> [] | Some i \<Rightarrow> CountryCode i))"
proof -
  note band = score_band_penalty [OF assms(1,2)]
  obtain runtime real_user where f: "setSyntheticScore (makeHealthy now h) score
      = (makeHealthy now h)\<lparr> Delay := snd (score_band score), RuntimePenalty := runtime,
       RealUserPenalty := real_user, VolatilityPenalty := 0, UDPPenalty := 0, PolicyPenalty := 0 \<rparr>"
    and sum: "runtime + real_user = fst (score_band score) - score"
      "0 \<le> runtime" "runtime \<le> 14" "0 \<le> real_user" "real_user \<le> 14"
    by (rule synthetic_fields [OF assms(1,2)])
  have policy: "CalculatePolicyPenalty t c = 0 \<or> CalculatePolicyPenalty t c = 45" for c
    by (simp add: CalculatePolicyPenalty_def)
  have fresh: "CalculateFreshnessPenalty now False now = 0"
    using assms(3) by (simp add: CalculateFreshnessPenalty_def clamp_def)
  let ?policy = "CalculatePolicyPenalty t (case IpInfo h of None \<Rightarrow> [] | Some i \<Rightarrow> CountryCode i)"
  have "getHealthScore now t (Some (setSyntheticScore (makeHealthy now h) score))
      = CalculateHealthScoreWithEvidence now (snd (score_band score)) True ErrorTypeNone False now
          runtime real_user 0 0 ?policy"
    using assms(4) unfolding f by (auto simp: getHealthScore_def makeHealthy_def getPolicyPenalty_def Let_def)
  also have "\<dots> = clamp (fst (score_band score) - (runtime + real_user + ?policy)) 0 100"
    using sum band policy [of "case IpInfo h of None \<Rightarrow> [] | Some i \<Rightarrow> CountryCode i"]
    unfolding CalculateHealthScoreWithEvidence_def Let_def fresh
    by (elim disjE conjE) (simp_all add: clamp_def algebra_simps)
  finally have "getHealthScore now t (Some (setSyntheticScore (makeHealthy now h) score))
      = clamp (fst (score_band score) - (runtime + real_user + ?policy)) 0 100" .
  then show ?thesis
    using sum(1) assms(1,2) policy [of "case IpInfo h of None \<Rightarrow> [] | Some i \<Rightarrow> CountryCode i"]
    by (auto simp: clamp_def)
qed

section \<open>The target\<close>

lemma Apply_target:
  assumes "Apply now f activeTag history = (reported, f', history')"
  shows "targetActive f' = (if targetActive f = [] then activeTag else targetActive f)
    \<and> (reported \<longrightarrow> activeTag = targetActive f')
    \<and> (\<forall>x. x \<noteq> targetActive f' \<and> x \<noteq> forceCandidate f \<longrightarrow> pget history' x = pget history x)"
  using assms by (auto simp: Apply_def Let_def split: option.splits if_splits prod.splits)

end
