(* ===== verification/Claims_Report.thy ===== *)
theory Claims_Report
  imports Balancer_Report Debug_Fault Scenarios
begin

text \<open>
  The properties of the report and of the fault injection of debug builds.
\<close>

text \<open>
  The report agrees with the selection. The only reason the report can give to exclude a
  candidate that the selection accepts is that it carries a penalty, and then it does carry one; a candidate
  accepted and not penalized is ranked with its health score.
\<close>

theorem report_agrees_with_selection:
  assumes "eligible now s t (Some h) g"
  shows "smartActiveExcludeReason now t (Some h)
      = (if RuntimePenalty h > 0 \<or> RealUserPenalty h > 0 \<or> DegradationPoints h > 0 \<or> UDPPenalty h > 0
         then ''penalized'' else [])
    \<and> smartActiveFinalRankingScore now t (Some h)
      = (if RuntimePenalty h > 0 \<or> RealUserPenalty h > 0 \<or> DegradationPoints h > 0 \<or> UDPPenalty h > 0
         then 0 else getHealthScore now t (Some h))
    \<and> 35 \<le> getHealthScore now t (Some h) \<and> smartActiveBucket now t (Some h) \<noteq> ''bad''
    \<and> smartActiveFreshness (Some h) = ''fresh''"
  using assms eligible_exclusion [OF assms]
  by (auto simp: smartActiveFinalRankingScore_def smartActiveBucket_def smartActiveFreshness_def
      eligible_iff Let_def)

theorem report_agrees_with_selection_witness:
  "smartActiveFinalRankingScore clock ''b'' (Some (sample 1 (seconds 1050) 90))
    = getHealthScore clock ''b'' (Some (sample 1 (seconds 1050) 90))"
proof -
  have "eligible clock fresh_smart ''b'' (Some (sample 1 (seconds 1050) 90)) 1" by code_simp
  from report_agrees_with_selection [OF this] show ?thesis
    by (simp add: sample_def zero_history_def)
qed

text \<open>
  A synthetic score is exact up to the country of the server. Forcing a candidate to a score between
  1 and 100 makes the normal scoring give that score, minus the policy penalty the tag or the country
  earns, because the injection cannot clear a penalty that is computed from the name.
\<close>

theorem synthetic_score_meets_request:
  assumes "0 < candidateScore f" "candidateScore f \<le> 100" "now \<noteq> 0"
    and "CheckGeneration h = 0 \<or> CombinedReady h"
  shows "getHealthScore now t (Some (fault_candidate now f h))
    = max 0 (candidateScore f - CalculatePolicyPenalty t (case IpInfo h of None \<Rightarrow> [] | Some i \<Rightarrow> CountryCode i))"
  using synthetic_score [of "candidateScore f" now h t] assms by (simp add: fault_candidate_def)

theorem synthetic_score_meets_request_witness:
  "getHealthScore clock ''c'' (Some (fault_candidate clock
      \<lparr> targetActive = [], forceStatus = [], forceError = [], forceDegradation = 0, faultRuntimePenalty = 0,
        faultRealUserPenalty = 0, forceCandidate = ''c'', candidateScore = 77 \<rparr> (failure 0 5))) = 77"
proof -
  let ?f = "\<lparr> targetActive = [], forceStatus = [], forceError = [], forceDegradation = 0, faultRuntimePenalty = 0,
        faultRealUserPenalty = 0, forceCandidate = ''c'', candidateScore = 77 \<rparr>"
  have "CalculatePolicyPenalty ''c'' [] = 0" by code_simp
  then show ?thesis
    using synthetic_score_meets_request [of ?f clock "failure 0 5" "''c''"]
    by (simp add: clock_def failure_def zero_history_def)
qed

end
