(* ===== verification/Go_Sha256.thy ===== *)
theory Go_Sha256
  imports Go_Prelude
begin

unbundle bit_operations_syntax

text \<open>
  Go's \<open>crypto/sha256\<close> and \<open>crypto/hmac\<close>, and the big-endian integers of
  \<open>encoding/binary\<close>, on lists of bytes: what the authenticated packets of the UDP probe use
  of the standard library.
\<close>

type_synonym u8 = "8 word"
type_synonym u32 = "32 word"

section \<open>Big-endian integers\<close>

text \<open>\<open>be_bytes n v\<close> is the low \<open>n\<close> bytes of \<open>v\<close>, most significant first.\<close>

primrec be_bytes :: "nat \<Rightarrow> int \<Rightarrow> u8 list" where
  "be_bytes 0 v = []"
| "be_bytes (Suc n) v = be_bytes n (v div 256) @ [word_of_int v]"

definition be_value :: "u8 list \<Rightarrow> int" where
  "be_value bs = fold (\<lambda>b v. 256 * v + uint b) bs 0"

lemma length_be_bytes [simp]: "length (be_bytes n v) = n"
  by (induction n arbitrary: v) simp_all

lemma be_value_snoc [simp]: "be_value (bs @ [b]) = 256 * be_value bs + uint b"
  by (simp add: be_value_def)

lemma be_value_bytes: "be_value (be_bytes n v) = v mod 256 ^ n"
proof (induction n arbitrary: v)
  case 0
  then show ?case by (simp add: be_value_def)
next
  case (Suc n)
  have "v mod 256 ^ Suc n = 256 * (v div 256 mod 256 ^ n) + v mod 256"
    by (simp add: mod_mult2_eq' [symmetric] zmod_zmult2_eq)
  then show ?case
    by (simp add: Suc.IH uint_word_of_int)
qed

section \<open>SHA-256\<close>

definition sha_constants :: "u32 list" where
  "sha_constants =
     [0x428A2F98, 0x71374491, 0xB5C0FBCF, 0xE9B5DBA5, 0x3956C25B, 0x59F111F1, 0x923F82A4, 0xAB1C5ED5,
      0xD807AA98, 0x12835B01, 0x243185BE, 0x550C7DC3, 0x72BE5D74, 0x80DEB1FE, 0x9BDC06A7, 0xC19BF174,
      0xE49B69C1, 0xEFBE4786, 0x0FC19DC6, 0x240CA1CC, 0x2DE92C6F, 0x4A7484AA, 0x5CB0A9DC, 0x76F988DA,
      0x983E5152, 0xA831C66D, 0xB00327C8, 0xBF597FC7, 0xC6E00BF3, 0xD5A79147, 0x06CA6351, 0x14292967,
      0x27B70A85, 0x2E1B2138, 0x4D2C6DFC, 0x53380D13, 0x650A7354, 0x766A0ABB, 0x81C2C92E, 0x92722C85,
      0xA2BFE8A1, 0xA81A664B, 0xC24B8B70, 0xC76C51A3, 0xD192E819, 0xD6990624, 0xF40E3585, 0x106AA070,
      0x19A4C116, 0x1E376C08, 0x2748774C, 0x34B0BCB5, 0x391C0CB3, 0x4ED8AA4A, 0x5B9CCA4F, 0x682E6FF3,
      0x748F82EE, 0x78A5636F, 0x84C87814, 0x8CC70208, 0x90BEFFFA, 0xA4506CEB, 0xBEF9A3F7, 0xC67178F2]"

definition sha_initial :: "u32 list" where
  "sha_initial = [0x6A09E667, 0xBB67AE85, 0x3C6EF372, 0xA54FF53A,
     0x510E527F, 0x9B05688C, 0x1F83D9AB, 0x5BE0CD19]"

definition sha_rotate :: "nat \<Rightarrow> u32 \<Rightarrow> u32" where
  "sha_rotate n x = drop_bit n x OR push_bit (32 - n) x"

text \<open>The message schedule, latest word first.\<close>

definition sha_next :: "u32 list \<Rightarrow> u32" where
  "sha_next w =
     (let x = w ! 14; y = w ! 1;
          s0 = sha_rotate 7 x XOR sha_rotate 18 x XOR drop_bit 3 x;
          s1 = sha_rotate 17 y XOR sha_rotate 19 y XOR drop_bit 10 y
      in w ! 15 + s0 + w ! 6 + s1)"

primrec sha_extend :: "nat \<Rightarrow> u32 list \<Rightarrow> u32 list" where
  "sha_extend 0 w = w"
| "sha_extend (Suc n) w = sha_extend n (sha_next w # w)"

definition sha_schedule :: "u32 list \<Rightarrow> u32 list" where
  "sha_schedule block = rev (sha_extend 48 (rev block))"

fun sha_round :: "u32 \<times> u32 \<Rightarrow> u32 list \<Rightarrow> u32 list" where
  "sha_round (k, w) [a, b, c, d, e, f, g, h] =
     (let s1 = sha_rotate 6 e XOR sha_rotate 11 e XOR sha_rotate 25 e;
          ch = (e AND f) XOR (NOT e AND g);
          t1 = h + s1 + ch + k + w;
          s0 = sha_rotate 2 a XOR sha_rotate 13 a XOR sha_rotate 22 a;
          maj = (a AND b) XOR (a AND c) XOR (b AND c)
      in [t1 + (s0 + maj), a, b, c, d + t1, e, f, g])"
| "sha_round kw hs = hs"

definition sha_block :: "u32 list \<Rightarrow> u32 list \<Rightarrow> u32 list" where
  "sha_block block hs = map2 (+) hs (fold sha_round (zip sha_constants (sha_schedule block)) hs)"

fun sha_words :: "u8 list \<Rightarrow> u32 list" where
  "sha_words (a # b # c # d # bs) = word_of_int (be_value [a, b, c, d]) # sha_words bs"
| "sha_words bs = []"

function sha_blocks :: "u32 list \<Rightarrow> u32 list list" where
  "sha_blocks ws = (if length ws < 16 then [] else take 16 ws # sha_blocks (drop 16 ws))"
  by pat_completeness auto
termination by (relation "measure length") auto

declare sha_blocks.simps [simp del]

definition sha_pad :: "u8 list \<Rightarrow> u8 list" where
  "sha_pad bs = bs @ [0x80] @ replicate ((119 - length bs mod 64) mod 64) 0
     @ be_bytes 8 (8 * int (length bs))"

definition sha256 :: "u8 list \<Rightarrow> u8 list" where
  "sha256 bs = concat (map (\<lambda>h. be_bytes 4 (uint h))
     (fold sha_block (sha_blocks (sha_words (sha_pad bs))) sha_initial))"

lemma length_sha_round [simp]: "length (sha_round kw hs) = length hs"
  by (induction kw hs rule: sha_round.induct) (simp_all add: Let_def)

lemma length_sha_rounds: "length (fold sha_round kws hs) = length hs"
  by (induction kws arbitrary: hs) simp_all

lemma length_sha_block [simp]: "length (sha_block block hs) = length hs"
  by (simp add: sha_block_def length_sha_rounds)

lemma length_fold_sha_block: "length (fold sha_block blocks hs) = length hs"
  by (induction blocks arbitrary: hs) simp_all

lemma length_sha256 [simp]: "length (sha256 bs) = 32"
proof -
  have "length (concat (map (\<lambda>h. be_bytes 4 (uint h)) hs)) = 4 * length hs" for hs :: "u32 list"
    by (induction hs) simp_all
  then show ?thesis
    by (simp add: sha256_def length_fold_sha_block sha_initial_def)
qed

section \<open>HMAC\<close>

definition hmac_key :: "u8 list \<Rightarrow> u8 list" where
  "hmac_key key = (let k = (if 64 < length key then sha256 key else key)
     in k @ replicate (64 - length k) 0)"

definition hmac_sha256 :: "u8 list \<Rightarrow> u8 list \<Rightarrow> u8 list" where
  "hmac_sha256 key body =
     (let k = hmac_key key
      in sha256 (map (\<lambda>b. b XOR 0x5C) k @ sha256 (map (\<lambda>b. b XOR 0x36) k @ body)))"

lemma length_hmac_sha256 [simp]: "length (hmac_sha256 key body) = 32"
  by (simp add: hmac_sha256_def Let_def)

end
