(* ===== verification/Udp_Packet.thy ===== *)
theory Udp_Packet
  imports Url_Health Go_Sha256
begin

text \<open>
  The packets of the UDP probe (\<open>common/urltest/udp_probe.go\<close>): a header of 48 bytes, the
  payload and an HMAC over both; the probe secret and the endpoint of the probe server. A
  \<open>[]byte\<close> is a list of 8-bit words, and the arrays the source fills by \<open>copy\<close> and
  \<open>PutUint\<close> are filled here by the same writes, one after the other.
\<close>

definition UDPProbeErrorUnsupported :: string where "UDPProbeErrorUnsupported = ''udp_not_supported''"
definition UDPProbeErrorBadResponse :: string where "UDPProbeErrorBadResponse = ''bad_response''"

definition bytes_of :: "string \<Rightarrow> u8 list" where "bytes_of s = map of_char s"

definition udpProbeMagic :: "u8 list" where "udpProbeMagic = bytes_of ''ZEONUDP1''"
definition udpProbeVersion :: u8 where "udpProbeVersion = 1"
definition udpProbeTypeRequest :: u8 where "udpProbeTypeRequest = 1"
definition udpProbeTypeResponse :: u8 where "udpProbeTypeResponse = 2"
definition udpProbeHeaderLen :: nat where "udpProbeHeaderLen = 48"
definition udpProbeHMACLen :: nat where "udpProbeHMACLen = 32"
definition udpProbeMinPacket :: nat where "udpProbeMinPacket = 96"
definition udpProbeMaxPacket :: nat where "udpProbeMaxPacket = 1200"
definition udpProbeMaxSkew :: duration where "udpProbeMaxSkew = seconds 30"

lemmas udp_constants = udpProbeVersion_def udpProbeHeaderLen_def udpProbeHMACLen_def
  udpProbeMinPacket_def udpProbeMaxPacket_def

record udp_probe_header =
  Version :: u8
  PacketType :: u8
  TimestampNS :: int
  SessionID :: "u8 list"
  HeaderSeq :: u32
  HeaderCount :: u32
  PayloadLen :: u16

definition zero_header :: udp_probe_header where
  "zero_header = \<lparr> Version = 0, PacketType = 0, TimestampNS = 0, SessionID = replicate 16 0,
     HeaderSeq = 0, HeaderCount = 0, PayloadLen = 0 \<rparr>"

section \<open>Writing a packet\<close>

text \<open>\<open>copy_at i n src p\<close> is \<open>copy(p[i:i+n], src)\<close>; \<open>subslice i j p\<close> is \<open>p[i:j]\<close>.\<close>

definition copy_at :: "nat \<Rightarrow> nat \<Rightarrow> u8 list \<Rightarrow> u8 list \<Rightarrow> u8 list" where
  "copy_at i n src p = take i p @ take n src @ drop (i + min n (length src)) p"

definition subslice :: "nat \<Rightarrow> nat \<Rightarrow> u8 list \<Rightarrow> u8 list" where
  "subslice i j p = take (j - i) (drop i p)"

definition udpProbeMAC :: "u8 list \<Rightarrow> u8 list \<Rightarrow> u8 list" where
  "udpProbeMAC secret body = hmac_sha256 secret body"

definition buildUDPProbePacket ::
  "u8 \<Rightarrow> int \<Rightarrow> u8 list \<Rightarrow> u32 \<Rightarrow> u32 \<Rightarrow> u8 list \<Rightarrow> u8 list \<Rightarrow> u8 list" where
  "buildUDPProbePacket packetType timestampNS session seq cnt payload secret =
     (let packet = replicate (udpProbeHeaderLen + length payload + udpProbeHMACLen) 0;
          packet = copy_at 0 8 udpProbeMagic packet;
          packet = packet[8 := udpProbeVersion];
          packet = packet[9 := packetType];
          packet = copy_at 10 2 (be_bytes 2 (int udpProbeHeaderLen)) packet;
          packet = copy_at 12 8 (be_bytes 8 timestampNS) packet;
          packet = copy_at 20 16 session packet;
          packet = copy_at 36 4 (be_bytes 4 (uint seq)) packet;
          packet = copy_at 40 4 (be_bytes 4 (uint cnt)) packet;
          packet = copy_at 44 2 (be_bytes 2 (int (length payload))) packet;
          packet = copy_at udpProbeHeaderLen (length payload) payload packet
      in copy_at (length packet - udpProbeHMACLen) udpProbeHMACLen
           (udpProbeMAC secret (take (length packet - udpProbeHMACLen) packet)) packet)"

section \<open>Reading a packet\<close>

text \<open>\<open>fmt.Errorf\<close> with a decimal number; Unix time 0 as an instant.\<close>

fun decimal :: "nat \<Rightarrow> string" where
  "decimal n = (if n < 10 then [] else decimal (n div 10)) @ [char_of (48 + n mod 10)]"

declare decimal.simps [simp del]

definition unix_epoch :: instant where "unix_epoch = seconds 62135596800"

definition parseUDPProbePacket ::
  "u8 list \<Rightarrow> u8 list \<Rightarrow> instant \<Rightarrow> u8 \<Rightarrow> string + udp_probe_header \<times> u8 list" where
  "parseUDPProbePacket packet secret now wantType =
     (if length packet < udpProbeMinPacket \<or> length packet > udpProbeMaxPacket
      then Inl (''invalid packet size '' @ decimal (length packet))
      else if drop (length packet - udpProbeHMACLen) packet
                \<noteq> udpProbeMAC secret (take (length packet - udpProbeHMACLen) packet)
      then Inl ''invalid hmac''
      else if take 8 packet \<noteq> udpProbeMagic then Inl ''invalid magic''
      else (let header = zero_header\<lparr> Version := packet ! 8, PacketType := packet ! 9 \<rparr>
        in if Version header \<noteq> udpProbeVersion
           then Inl (''unsupported version '' @ decimal (unat (Version header)))
           else if PacketType header \<noteq> wantType
           then Inl (''unexpected packet type '' @ decimal (unat (PacketType header)))
           else if be_value (subslice 10 12 packet) \<noteq> int udpProbeHeaderLen
           then Inl ''invalid header length''
           else (let header = header\<lparr>
                       TimestampNS := sint (word_of_int (be_value (subslice 12 20 packet)) :: u64),
                       SessionID := subslice 20 36 packet,
                       HeaderSeq := word_of_int (be_value (subslice 36 40 packet)),
                       HeaderCount := word_of_int (be_value (subslice 40 44 packet)),
                       PayloadLen := word_of_int (be_value (subslice 44 46 packet)) \<rparr>;
                     payloadStart = udpProbeHeaderLen;
                     payloadEnd = length packet - udpProbeHMACLen
                 in if uint (PayloadLen header) \<noteq> int payloadEnd - int payloadStart
                    then Inl ''payload length mismatch''
                    else (let age = now - (unix_epoch + TimestampNS header)
                          in if age < - udpProbeMaxSkew \<or> age > udpProbeMaxSkew
                             then Inl ''stale timestamp''
                             else Inr (header, subslice payloadStart payloadEnd packet)))))"

section \<open>The secret and the endpoint\<close>

text \<open>\<open>hex.DecodeString\<close>: pairs of hexadecimal digits, or an error.\<close>

definition hex_digit :: "char \<Rightarrow> nat option" where
  "hex_digit c = (let b = byte c
     in if 0x30 \<le> b \<and> b \<le> 0x39 then Some (b - 0x30)
        else if 0x61 \<le> b \<and> b \<le> 0x66 then Some (b - 0x61 + 10)
        else if 0x41 \<le> b \<and> b \<le> 0x46 then Some (b - 0x41 + 10)
        else None)"

fun hex_decode :: "string \<Rightarrow> u8 list option" where
  "hex_decode [] = Some []"
| "hex_decode [c] = None"
| "hex_decode (c # d # s) =
     (case (hex_digit c, hex_digit d) of
        (Some h, Some l) \<Rightarrow> map_option ((#) (of_nat (16 * h + l))) (hex_decode s)
      | _ \<Rightarrow> None)"

definition ParseUDPProbeSecret :: "string \<Rightarrow> string + u8 list" where
  "ParseUDPProbeSecret raw =
     (let raw = TrimSpace raw
      in if raw = [] then Inl ''udp probe secret is empty''
         else case hex_decode raw of
           Some decoded \<Rightarrow>
             if length decoded \<ge> 16 then Inr decoded
             else if length raw < 16 then Inl ''udp probe secret must be at least 16 bytes''
             else Inr (bytes_of raw)
         | None \<Rightarrow>
             if length raw < 16 then Inl ''udp probe secret must be at least 16 bytes''
             else Inr (bytes_of raw))"

text \<open>\<open>net.SplitHostPort\<close>; \<open>Inl\<close> carries the reason of its \<open>AddrError\<close>.\<close>

fun index_of :: "char \<Rightarrow> string \<Rightarrow> nat option" where
  "index_of c [] = None"
| "index_of c (x # s) = (if x = c then Some 0 else map_option Suc (index_of c s))"

definition last_index_of :: "char \<Rightarrow> string \<Rightarrow> nat option" where
  "last_index_of c s = map_option (\<lambda>i. length s - 1 - i) (index_of c (rev s))"

definition SplitHostPort :: "string \<Rightarrow> string + string \<times> string" where
  "SplitHostPort hostport =
     (let brackets = (\<lambda>j k host i.
            if index_of CHR ''['' (drop j hostport) \<noteq> None then Inl ''unexpected '[' in address''
            else if index_of CHR '']'' (drop k hostport) \<noteq> None then Inl ''unexpected ']' in address''
            else Inr (host, drop (i + 1) hostport))
      in case last_index_of CHR '':'' hostport of
           None \<Rightarrow> Inl ''missing port in address''
         | Some i \<Rightarrow>
             if hostport ! 0 = CHR ''[''
             then (case index_of CHR '']'' hostport of
                     None \<Rightarrow> Inl ''missing ']' in address''
                   | Some e \<Rightarrow>
                       if e + 1 = length hostport then Inl ''missing port in address''
                       else if e + 1 = i
                       then brackets 1 (e + 1) (take (e - 1) (drop 1 hostport)) i
                       else if hostport ! (e + 1) = CHR '':'' then Inl ''too many colons in address''
                       else Inl ''missing port in address'')
             else if index_of CHR '':'' (take i hostport) \<noteq> None
             then Inl ''too many colons in address''
             else brackets 0 0 (take i hostport) i)"

text \<open>
  \<open>M.ParseSocksaddrHostPortStr\<close> and \<open>IsValid\<close> belong to a library: the parameter
  \<open>socksaddr\<close> gives the address and its port, or \<open>None\<close> for an address that is not valid.
  The text of an \<open>AddrError\<close> is \<open>address <address>: <reason>\<close>.
\<close>

definition parseUDPProbeEndpoint ::
  "(string \<Rightarrow> string \<Rightarrow> ('a \<times> u16) option) \<Rightarrow> string \<Rightarrow> string + 'a \<times> u16" where
  "parseUDPProbeEndpoint socksaddr endpoint =
     (let endpoint = (if endpoint = [] then ''udp-probe.zeon-vps.link:8443'' else endpoint);
          parse = (\<lambda>host port. case socksaddr host port of
              None \<Rightarrow> Inl (''invalid udp probe endpoint: '' @ endpoint)
            | Some destination \<Rightarrow>
                if snd destination = 0 then Inl (''invalid udp probe endpoint: '' @ endpoint)
                else Inr destination)
      in case SplitHostPort endpoint of
           Inr (host, port) \<Rightarrow> parse host port
         | Inl why \<Rightarrow>
             if length (filter (\<lambda>c. c = CHR '':'') endpoint) = 0 then parse endpoint ''8443''
             else Inl (''address '' @ endpoint @ '': '' @ why))"

section \<open>The layout of a packet\<close>

definition packet_body :: "u8 \<Rightarrow> int \<Rightarrow> u8 list \<Rightarrow> u32 \<Rightarrow> u32 \<Rightarrow> u8 list \<Rightarrow> u8 list" where
  "packet_body packetType timestampNS session seq cnt payload =
     udpProbeMagic @ [udpProbeVersion, packetType] @ be_bytes 2 48 @ be_bytes 8 timestampNS
       @ session @ be_bytes 4 (uint seq) @ be_bytes 4 (uint cnt)
       @ be_bytes 2 (int (length payload)) @ [0, 0] @ payload"

lemma copy_at_blank:
  "length a = i \<Longrightarrow> length src = n \<Longrightarrow> n \<le> k
    \<Longrightarrow> copy_at i n src (a @ replicate k 0) = (a @ src) @ replicate (k - n) 0"
  by (simp add: copy_at_def)

lemma update_blank:
  "length a = i \<Longrightarrow> 0 < k \<Longrightarrow> (a @ replicate k 0)[i := x] = (a @ [x]) @ replicate (k - 1) (0 :: u8)"
  by (cases k) (simp_all add: list_update_append)

lemma skip_blank: "2 \<le> k \<Longrightarrow> a @ replicate k 0 = (a @ [0, 0]) @ replicate (k - 2) (0 :: u8)"
  by (cases k) (auto simp: numeral_2_eq_2 Suc_le_eq gr0_conv_Suc)

lemma length_magic [simp]: "length udpProbeMagic = 8"
  by (simp add: udpProbeMagic_def bytes_of_def)

lemma build_layout:
  assumes "length session = 16"
  shows "buildUDPProbePacket packetType timestampNS session seq cnt payload secret =
     packet_body packetType timestampNS session seq cnt payload
       @ udpProbeMAC secret (packet_body packetType timestampNS session seq cnt payload)"
proof -
  define n where "n = length payload"
  define a1 where "a1 = udpProbeMagic @ [udpProbeVersion]"
  define a2 where "a2 = a1 @ [packetType]"
  define a3 where "a3 = a2 @ be_bytes 2 48"
  define a4 where "a4 = a3 @ be_bytes 8 timestampNS"
  define a5 where "a5 = a4 @ session"
  define a6 where "a6 = a5 @ be_bytes 4 (uint seq)"
  define a7 where "a7 = a6 @ be_bytes 4 (uint cnt)"
  define a8 where "a8 = a7 @ be_bytes 2 (int n)"
  define a9 where "a9 = (a8 @ [0, 0]) @ payload"
  note a = a1_def a2_def a3_def a4_def a5_def a6_def a7_def a8_def a9_def
  have len: "length a1 = 9" "length a2 = 10" "length a3 = 12" "length a4 = 20" "length a5 = 36"
    "length a6 = 40" "length a7 = 44" "length a8 = 46" "length a9 = n + 48"
    by (simp_all add: a assms n_def)
  have 1: "copy_at 0 8 udpProbeMagic (replicate (n + 80) 0) = udpProbeMagic @ replicate (n + 72) 0"
    using copy_at_blank [of "[]" 0 udpProbeMagic 8 "n + 80"] by simp
  have 2: "(udpProbeMagic @ replicate (n + 72) 0)[8 := udpProbeVersion] = a1 @ replicate (n + 71) 0"
    using update_blank [of udpProbeMagic 8 "n + 72" udpProbeVersion] by (simp add: a1_def)
  have 3: "(a1 @ replicate (n + 71) 0)[9 := packetType] = a2 @ replicate (n + 70) 0"
    using update_blank [of a1 9 "n + 71" packetType] len by (simp add: a2_def)
  have 4: "copy_at 10 2 (be_bytes 2 48) (a2 @ replicate (n + 70) 0) = a3 @ replicate (n + 68) 0"
    using copy_at_blank [of a2 10 "be_bytes 2 48" 2 "n + 70"] len by (simp add: a3_def)
  have 5: "copy_at 12 8 (be_bytes 8 timestampNS) (a3 @ replicate (n + 68) 0) = a4 @ replicate (n + 60) 0"
    using copy_at_blank [of a3 12 "be_bytes 8 timestampNS" 8 "n + 68"] len by (simp add: a4_def)
  have 6: "copy_at 20 16 session (a4 @ replicate (n + 60) 0) = a5 @ replicate (n + 44) 0"
    using copy_at_blank [of a4 20 session 16 "n + 60"] len assms by (simp add: a5_def)
  have 7: "copy_at 36 4 (be_bytes 4 (uint seq)) (a5 @ replicate (n + 44) 0) = a6 @ replicate (n + 40) 0"
    using copy_at_blank [of a5 36 "be_bytes 4 (uint seq)" 4 "n + 44"] len by (simp add: a6_def)
  have 8: "copy_at 40 4 (be_bytes 4 (uint cnt)) (a6 @ replicate (n + 40) 0) = a7 @ replicate (n + 36) 0"
    using copy_at_blank [of a6 40 "be_bytes 4 (uint cnt)" 4 "n + 40"] len by (simp add: a7_def)
  have 9: "copy_at 44 2 (be_bytes 2 (int n)) (a7 @ replicate (n + 36) 0) = a8 @ replicate (n + 34) 0"
    using copy_at_blank [of a7 44 "be_bytes 2 (int n)" 2 "n + 36"] len by (simp add: a8_def)
  have 10: "copy_at 48 n payload (a8 @ replicate (n + 34) 0) = a9 @ replicate 32 0"
    using copy_at_blank [of "a8 @ [0, 0]" 48 payload n "n + 32"] skip_blank [of "n + 34" a8] len
    by (simp add: a9_def n_def add.commute)
  have 11: "copy_at (48 + n) 32 mac (a9 @ replicate 32 0) = a9 @ mac" if "length mac = 32" for mac
    using copy_at_blank [of a9 "48 + n" mac 32 32] len that by simp
  have body: "a9 = packet_body packetType timestampNS session seq cnt payload"
    by (simp add: a packet_body_def n_def)
  have total: "udpProbeHeaderLen + length payload + udpProbeHMACLen = n + 80"
    by (simp add: udp_constants n_def)
  show ?thesis
    unfolding buildUDPProbePacket_def Let_def total
    unfolding udp_constants(2,3) of_nat_numeral n_def [symmetric] 1
    by (simp only: 2 3 4 5 6 7 8 9 10)
      (simp add: len 11 udpProbeMAC_def body [symmetric])
qed

lemma length_packet_body:
  "length session = 16
    \<Longrightarrow> length (packet_body packetType timestampNS session seq cnt payload) = 48 + length payload"
  by (simp add: packet_body_def)

lemma subslice_append:
  "length a = i \<Longrightarrow> i + length b = j \<Longrightarrow> subslice i j (a @ b @ c) = b"
  by (auto simp: subslice_def)

text \<open>The fields of a packet, read back at the offsets of the source.\<close>

lemma body_fields:
  assumes "length session = 16" and p: "p = packet_body t ts session seq cnt payload @ mac"
  shows "take 8 p = udpProbeMagic" and "p ! 8 = udpProbeVersion" and "p ! 9 = t"
    and "subslice 10 12 p = be_bytes 2 48" and "subslice 12 20 p = be_bytes 8 ts"
    and "subslice 20 36 p = session" and "subslice 36 40 p = be_bytes 4 (uint seq)"
    and "subslice 40 44 p = be_bytes 4 (uint cnt)"
    and "subslice 44 46 p = be_bytes 2 (int (length payload))"
    and "subslice 46 48 p = [0, 0]"
    and "subslice 48 (48 + length payload) p = payload"
  using assms(1) by (simp_all add: p packet_body_def nth_append subslice_def)

lemma be_bytes_value: "be_bytes (length bs) (be_value bs) = bs"
proof (induction bs rule: rev_induct)
  case Nil
  then show ?case by simp
next
  case (snoc b bs)
  have "(256 * be_value bs + uint b) div 256 = be_value bs"
    using uint_bounded [of b] by simp
  moreover have "word_of_int (256 * be_value bs + uint b) = b"
  proof -
    have zero: "(256 :: u8) = 0"
      by code_simp
    have "word_of_int (256 * be_value bs + uint b) = (256 :: u8) * word_of_int (be_value bs) + b"
      by simp
    then show ?thesis
      unfolding zero by simp
  qed
  ultimately show ?case
    using snoc.IH by simp
qed

lemma be_value_nonneg: "0 \<le> be_value bs"
  by (induction bs rule: rev_induct) (simp_all add: be_value_def)

lemma be_value_bound: "be_value bs < 256 ^ length bs"
proof -
  have "be_value bs = be_value bs mod 256 ^ length bs"
    using be_value_bytes [of "length bs" "be_value bs"] by (simp add: be_bytes_value)
  then show ?thesis
    by (metis pos_mod_bound zero_less_numeral zero_less_power)
qed

lemma be_bytes_mod: "v mod 256 ^ n = w mod 256 ^ n \<Longrightarrow> be_bytes n v = be_bytes n w"
  by (metis be_bytes_value be_value_bytes length_be_bytes)

lemma timestamp_round_trip:
  assumes "- (2 ^ 63) \<le> ts" and "ts < 2 ^ 63"
  shows "sint (word_of_int (be_value (be_bytes 8 ts)) :: u64) = ts"
proof -
  have "word_of_int (be_value (be_bytes 8 ts)) = (word_of_int ts :: u64)"
    by (simp add: be_value_bytes word_of_int_eq_iff take_bit_eq_mod)
  then show ?thesis
    using assms by (simp add: sint_sbintrunc' signed_take_bit_int_eq_self)
qed

lemma word32_round_trip: "word_of_int (be_value (be_bytes 4 (uint w))) = (w :: u32)"
  using uint_bounded [of w] by (simp add: be_value_bytes)

lemma length_round_trip:
  "n < 65536 \<Longrightarrow> word_of_int (be_value (be_bytes 2 (int n))) = (word_of_nat n :: u16)"
  "n < 65536 \<Longrightarrow> uint (word_of_nat n :: u16) = int n"
  by (simp_all add: be_value_bytes unsigned_of_nat take_bit_nat_eq_self)

text \<open>A packet is the concatenation of its fields.\<close>

lemma subslice_glue:
  assumes "i \<le> j" and "j \<le> k"
  shows "subslice i j p @ subslice j k p @ rest = subslice i k p @ rest"
proof -
  have "take (k - i) (drop i p) = take (j - i) (drop i p) @ take (k - j) (drop (j - i) (drop i p))"
    using take_add [of "j - i" "k - j" "drop i p"] assms by simp
  then show ?thesis
    using assms by (simp add: subslice_def)
qed

lemma subslice_nth: "i < length p \<Longrightarrow> p ! i # rest = subslice i (Suc i) p @ rest"
  by (simp add: subslice_def take_Suc hd_drop_conv_nth)

lemma length_subslice: "j \<le> length p \<Longrightarrow> length (subslice i j p) = j - i"
  by (simp add: subslice_def)

lemma be_bytes_subslice:
  "j \<le> length p \<Longrightarrow> be_value (subslice i j p) mod 256 ^ (j - i) = v mod 256 ^ (j - i)
    \<Longrightarrow> be_bytes (j - i) v = subslice i j p"
  by (metis be_bytes_mod be_bytes_value length_subslice)

section \<open>Round trip\<close>

lemma packet_round_trip:
  assumes session: "length session = 16"
    and payload: "16 \<le> length payload" "length payload \<le> 1120"
    and ts: "- (2 ^ 63) \<le> ts" "ts < 2 ^ 63"
    and skew: "\<bar>now - (unix_epoch + ts)\<bar> \<le> udpProbeMaxSkew"
  shows "parseUDPProbePacket (buildUDPProbePacket t ts session seq cnt payload secret) secret now t
    = Inr (\<lparr> Version = udpProbeVersion, PacketType = t, TimestampNS = ts, SessionID = session,
        HeaderSeq = seq, HeaderCount = cnt, PayloadLen = word_of_nat (length payload) \<rparr>, payload)"
proof -
  define body where "body = packet_body t ts session seq cnt payload"
  define p where "p = body @ udpProbeMAC secret body"
  have build: "buildUDPProbePacket t ts session seq cnt payload secret = p"
    by (simp add: build_layout [OF session] p_def body_def)
  have len: "length body = 48 + length payload" "length p = 80 + length payload"
    by (simp_all add: p_def body_def length_packet_body [OF session] udpProbeMAC_def)
  have mac: "drop (length p - 32) p = udpProbeMAC secret (take (length p - 32) p)"
    by (simp add: len) (simp add: p_def len)
  have header: "be_value (be_bytes 2 48) = 48"
    by (simp add: be_value_bytes)
  have age: "\<not> now - (unix_epoch + ts) < - udpProbeMaxSkew" "\<not> udpProbeMaxSkew < now - (unix_epoch + ts)"
    using skew by linarith+
  have n: "length payload < 65536"
    using payload by simp
  note fields = body_fields [OF session p_def [unfolded body_def]]
  show ?thesis
    unfolding build parseUDPProbePacket_def udp_constants(2-5) Let_def
    using payload age mac
    by (simp add: len fields header zero_header_def timestamp_round_trip [OF ts] word32_round_trip
        length_round_trip n)
qed

lemma accepted_packet:
  assumes ok: "parseUDPProbePacket p secret now t = Inr (h, payload)"
    and reserved: "subslice 46 48 p = [0, 0]"
  shows "p = buildUDPProbePacket t (TimestampNS h) (SessionID h) (HeaderSeq h) (HeaderCount h) payload secret"
proof -
  define v where "v = be_value (subslice 12 20 p)"
  from ok have len: "96 \<le> length p"
    and mac: "drop (length p - 32) p = udpProbeMAC secret (take (length p - 32) p)"
    and magic: "take 8 p = udpProbeMagic" and version: "p ! 8 = udpProbeVersion" and type: "p ! 9 = t"
    and header: "be_value (subslice 10 12 p) = 48"
    and h: "TimestampNS h = sint (word_of_int v :: u64)" "SessionID h = subslice 20 36 p"
      "HeaderSeq h = word_of_int (be_value (subslice 36 40 p))"
      "HeaderCount h = word_of_int (be_value (subslice 40 44 p))"
    and plen: "uint (word_of_int (be_value (subslice 44 46 p)) :: u16) = int (length p) - 80"
    and payload: "payload = subslice 48 (length p - 32) p"
    by (auto simp: parseUDPProbePacket_def udp_constants(2-5) zero_header_def Let_def v_def split: if_splits)
  have n: "length payload = length p - 80"
    using len by (simp add: payload length_subslice)
  have slices: "length (subslice i j p) = j - i" if "j \<le> 48" for i j
    using that len by (simp add: length_subslice)
  have ts: "be_bytes 8 (TimestampNS h) = subslice 12 20 p"
  proof -
    have "take_bit 64 (sint (word_of_int v :: u64)) = take_bit 64 v"
      by (simp add: sint_sbintrunc' take_bit_signed_take_bit)
    then have "sint (word_of_int v :: u64) mod 2 ^ 64 = v mod 2 ^ 64"
      by (simp only: take_bit_eq_mod)
    then show ?thesis
      using len be_bytes_subslice [of 20 p 12 "TimestampNS h"] by (simp add: h v_def)
  qed
  have w32: "be_bytes 4 (uint (word_of_int (be_value (subslice i (i + 4) p)) :: u32)) = subslice i (i + 4) p"
    if "i \<le> 44" for i
    using len that be_bytes_subslice [of "i + 4" p i] by (simp add: uint_word_of_int)
  have pl: "be_bytes 2 (int (length payload)) = subslice 44 46 p"
    using len plen be_bytes_subslice [of 46 p 44 "int (length payload)"] 
    by (simp add: uint_word_of_int n)
  have "be_bytes 2 48 = subslice 10 12 p"
    using len header be_bytes_subslice [of 12 p 10 48] by simp
  then have "packet_body t (TimestampNS h) (SessionID h) (HeaderSeq h) (HeaderCount h) payload
    = subslice 0 8 p @ subslice 8 9 p @ subslice 9 10 p @ subslice 10 12 p @ subslice 12 20 p
      @ subslice 20 36 p @ subslice 36 40 p @ subslice 40 44 p @ subslice 44 46 p
      @ subslice 46 48 p @ subslice 48 (length p - 32) p @ []"
    using len w32 [of 36] w32 [of 40] magic version type reserved
      subslice_nth [of 8 p "[]"] subslice_nth [of 9 p "[]"]
    by (simp add: packet_body_def ts pl h(2-4) payload [symmetric])
      (simp add: subslice_def)
  also have "\<dots> = take (length p - 32) p"
    using len by (simp only: subslice_glue) (simp add: subslice_def)
  finally have "packet_body t (TimestampNS h) (SessionID h) (HeaderSeq h) (HeaderCount h) payload
    = take (length p - 32) p" .
  moreover have "take (length p - 32) p @ udpProbeMAC secret (take (length p - 32) p) = p"
    by (simp add: mac [symmetric])
  ultimately show ?thesis
    using slices [of 36 20] by (simp add: build_layout h)
qed

end
