(* ===== verification/Udp_Probe.thy ===== *)
theory Udp_Probe
  imports Udp_Packet Go_Float Go_Sort
begin

text \<open>
  The UDP probe of one outbound (\<open>common/urltest/udp_probe.go\<close>): the options, the exchange of
  the numbered packets, the summary of the round-trip times and the penalty. The socket is the
  argument \<open>exchange\<close> of the loop: what the write, the read and the wait after packet
  \<open>seq\<close> return. Durations are mathematical integers.
\<close>

record udp_probe_options =
  ProbeCount :: int
  ProbeSize :: int
  ProbeInterval :: duration
  ProbeTimeout :: duration

record udp_probe_result =
  Available :: bool
  Sent :: int
  Received :: int
  Loss :: rat
  RTTMinMs :: int
  RTTAvgMs :: int
  RTTMaxMs :: int
  JitterMs :: int
  ProbePenalty :: int
  ProbeErrorType :: string
  ProbeErrorText :: string
  UpdatedAt :: instant

section \<open>Options\<close>

definition DefaultUDPProbeOptions :: udp_probe_options where
  "DefaultUDPProbeOptions = \<lparr> ProbeCount = 10, ProbeSize = 160, ProbeInterval = millis 40,
     ProbeTimeout = millis 1000 \<rparr>"

definition normalizeUDPProbeOptions :: "udp_probe_options \<Rightarrow> udp_probe_options" where
  "normalizeUDPProbeOptions options =
     (let defaults = DefaultUDPProbeOptions;
          options = (if ProbeCount options \<le> 0 then options\<lparr> ProbeCount := ProbeCount defaults \<rparr>
                     else options);
          options = (if ProbeCount options > 20 then options\<lparr> ProbeCount := 20 \<rparr> else options);
          options = (if ProbeSize options \<le> 0 then options\<lparr> ProbeSize := ProbeSize defaults \<rparr>
                     else options);
          options = (if ProbeSize options < int udpProbeMinPacket
                     then options\<lparr> ProbeSize := int udpProbeMinPacket \<rparr> else options);
          options = (if ProbeSize options > int udpProbeMaxPacket
                     then options\<lparr> ProbeSize := int udpProbeMaxPacket \<rparr> else options);
          options = (if ProbeInterval options \<le> 0
                     then options\<lparr> ProbeInterval := ProbeInterval defaults \<rparr> else options);
          options = (if ProbeTimeout options \<le> 0
                     then options\<lparr> ProbeTimeout := ProbeTimeout defaults \<rparr> else options)
      in options)"

section \<open>Penalty and summary\<close>

definition CalculateUDPPenalty :: "rat \<Rightarrow> int \<Rightarrow> int" where
  "CalculateUDPPenalty loss jitterMs =
     (let penalty = 0;
          penalty = (if loss \<le> 0 then penalty
                     else if loss \<le> 5 then penalty + 4
                     else if loss \<le> 15 then penalty + 9
                     else penalty + 14);
          penalty = (if jitterMs < 30 then penalty
                     else if jitterMs \<le> 80 then penalty + 4
                     else penalty + 9)
      in if penalty > 15 then 15 else penalty)"

text \<open>\<open>Duration.Round\<close> for a positive duration: to the nearest multiple, halves up.\<close>

definition round_duration :: "duration \<Rightarrow> duration \<Rightarrow> duration" where
  "round_duration d m = (let r = d mod m in if r + r < m then d - r else d + m - r)"

definition durationMs :: "duration \<Rightarrow> int" where
  "durationMs v =
     (if v \<le> 0 then 0
      else (let ms = round_duration v (millis 1) div millis 1 in if ms = 0 then 1 else ms))"

text \<open>
  \<open>sort.Slice\<close> on durations; equal durations are the same value, so any sort gives the
  same slice. The quotient of a sum of round-trip times, which are not negative, rounds down.
\<close>

definition summarizeRTT :: "duration list \<Rightarrow> int \<times> int \<times> int" where
  "summarizeRTT rtts =
     (if rtts = [] then (0, 0, 0)
      else (let sorted = sort rtts; total = sum_list rtts
            in (durationMs (sorted ! 0), durationMs (total div int (length rtts)),
                durationMs (sorted ! (length sorted - 1)))))"

primrec jitter_total :: "duration \<Rightarrow> duration list \<Rightarrow> duration" where
  "jitter_total previous [] = 0"
| "jitter_total previous (rtt # rtts) =
     (let diff = rtt - previous; diff = (if diff < 0 then - diff else diff)
      in diff + jitter_total rtt rtts)"

definition calculateJitterMs :: "duration list \<Rightarrow> int" where
  "calculateJitterMs rtts =
     (if length rtts < 2 then 0
      else durationMs (jitter_total (hd rtts) (tl rtts) div int (length rtts - 1)))"

section \<open>Errors\<close>

text \<open>\<open>wasClosed\<close> is \<open>errors.Is(err, net.ErrClosed)\<close>.\<close>

definition classifyUDPProbeError :: "bool \<Rightarrow> go_error \<Rightarrow> string \<times> string" where
  "classifyUDPProbeError wasClosed err =
     (let (errorType, errorText) = ClassifyProbeError (Some err);
          lower = go_lower errorText
      in if wasClosed \<or> str_contains ''invalid argument'' lower \<or>
            str_contains ''operation not supported'' lower \<or>
            str_contains ''unsupported network'' lower \<or>
            str_contains ''missing supported outbound'' lower \<or>
            str_contains ''domain destination is not supported'' lower
         then (UDPProbeErrorUnsupported, errorText)
         else (errorType, errorText))"

section \<open>The exchange\<close>

record udp_step =
  write_error :: "go_error option"
  reply :: "go_error + u8 list"
  reply_at :: instant
  rtt :: duration
  cancelled :: "go_error option"

record udp_progress =
  res :: udp_probe_result
  rtts_by_seq :: "(u32, duration) go_map"
  rtts_in_order :: "duration list"

definition probe_payload :: "nat \<Rightarrow> int \<Rightarrow> u8 list" where
  "probe_payload payloadSize seq =
     (let payload = copy_at 0 4 (be_bytes 4 seq) (replicate payloadSize 0)
      in take 4 payload @ map (\<lambda>i. word_of_int (seq + int i)) [4..<payloadSize])"

definition set_probe_error :: "string \<times> string \<Rightarrow> udp_probe_result \<Rightarrow> udp_probe_result" where
  "set_probe_error e r = r\<lparr> ProbeErrorType := fst e, ProbeErrorText := snd e \<rparr>"

definition read_reply ::
  "u8 list \<Rightarrow> u8 list \<Rightarrow> nat \<Rightarrow> udp_step \<Rightarrow> udp_progress \<Rightarrow> udp_progress" where
  "read_reply secret session seq step st =
     (case reply step of
        Inl readErr \<Rightarrow>
          if ProbeErrorType (res st) = ErrorTypeNone
          then st\<lparr> res := set_probe_error (ClassifyProbeError (Some readErr)) (res st) \<rparr> else st
      | Inr buffer \<Rightarrow>
          (case parseUDPProbePacket buffer secret (reply_at step) udpProbeTypeResponse of
             Inl parseErr \<Rightarrow>
               st\<lparr> res := set_probe_error (UDPProbeErrorBadResponse, shortenErrorText parseErr)
                            (res st) \<rparr>
           | Inr (response, _) \<Rightarrow>
               if SessionID response = session \<and> HeaderSeq response = word_of_nat seq
               then st\<lparr> rtts_by_seq := AList.update (word_of_nat seq) (rtt step) (rtts_by_seq st),
                        rtts_in_order := rtts_in_order st @ [rtt step] \<rparr>
               else st))"

text \<open>
  \<open>udp_loop n seq\<close> runs the loop for the last \<open>n\<close> packets, from \<open>seq\<close>. \<open>clock seq\<close> is the
  \<open>UnixNano\<close> the packet is stamped with.
\<close>

primrec udp_loop ::
  "(nat \<Rightarrow> int) \<Rightarrow> (nat \<Rightarrow> u8 list \<Rightarrow> udp_step) \<Rightarrow> u8 list \<Rightarrow> u8 list \<Rightarrow> int \<Rightarrow> nat \<Rightarrow>
   nat \<Rightarrow> nat \<Rightarrow> udp_progress \<Rightarrow> udp_progress" where
  "udp_loop clock exchange secret session cnt payloadSize 0 seq st = st"
| "udp_loop clock exchange secret session cnt payloadSize (Suc n) seq st =
     (let packet = buildUDPProbePacket udpProbeTypeRequest (clock seq) session (word_of_nat seq)
            (word_of_int cnt) (probe_payload payloadSize (int seq)) secret;
          step = exchange seq packet
      in case write_error step of
           Some err \<Rightarrow> st\<lparr> res := set_probe_error (ClassifyProbeError (Some err)) (res st) \<rparr>
         | None \<Rightarrow>
             (let st = read_reply secret session seq step st
              in if int seq \<noteq> cnt - 1
                 then (case cancelled step of
                         Some err \<Rightarrow>
                           st\<lparr> res := set_probe_error (ClassifyProbeError (Some err)) (res st) \<rparr>
                       | None \<Rightarrow> udp_loop clock exchange secret session cnt payloadSize n (Suc seq) st)
                 else udp_loop clock exchange secret session cnt payloadSize n (Suc seq) st))"

definition summarize :: "udp_probe_options \<Rightarrow> instant \<Rightarrow> udp_progress \<Rightarrow> udp_probe_result" where
  "summarize options finished st =
     (let result = (res st)\<lparr> Received := int (length (rtts_by_seq st)) \<rparr>;
          result = (if Sent result \<le> 0 then result\<lparr> Sent := ProbeCount options \<rparr> else result);
          result = result\<lparr> Loss := float64 (float64 (of_int (Sent result - Received result) * 100)
                                             / of_int (Sent result)) \<rparr>;
          (rttMin, rttAvg, rttMax) = summarizeRTT (rtts_in_order st);
          result = result\<lparr> RTTMinMs := rttMin, RTTAvgMs := rttAvg, RTTMaxMs := rttMax \<rparr>;
          result = result\<lparr> JitterMs := calculateJitterMs (rtts_in_order st) \<rparr>;
          result = result\<lparr> ProbePenalty := CalculateUDPPenalty (Loss result) (JitterMs result) \<rparr>;
          result = (if Received result = 0 \<and> ProbeErrorType result = ErrorTypeNone
                    then result\<lparr> ProbeErrorType := ErrorTypeTimeout \<rparr> else result);
          result = (if Received result > 0
                    then result\<lparr> ProbeErrorType := ErrorTypeNone, ProbeErrorText := [] \<rparr> else result)
      in result\<lparr> UpdatedAt := finished \<rparr>)"

text \<open>
  \<open>listen\<close> is the result of \<open>ListenPacket\<close> (with the \<open>net.ErrClosed\<close> flag of an error),
  \<open>random\<close> the 16 bytes of \<open>rand.Read\<close>.
\<close>

definition RunUDPProbeThroughOutbound ::
  "(string \<Rightarrow> string \<Rightarrow> ('a \<times> u16) option) \<Rightarrow> ('a \<times> u16 \<Rightarrow> (go_error \<times> bool) option) \<Rightarrow>
   go_error + u8 list \<Rightarrow> (nat \<Rightarrow> int) \<Rightarrow> (nat \<Rightarrow> u8 list \<Rightarrow> udp_step) \<Rightarrow> instant \<Rightarrow> instant \<Rightarrow>
   bool \<Rightarrow> string \<Rightarrow> u8 list \<Rightarrow> udp_probe_options \<Rightarrow> udp_probe_result" where
  "RunUDPProbeThroughOutbound socksaddr listen random clock exchange now finished outbound
       endpoint secret options =
     (let result = \<lparr> Available = False, Sent = 0, Received = 0, Loss = 0, RTTMinMs = 0,
            RTTAvgMs = 0, RTTMaxMs = 0, JitterMs = 0, ProbePenalty = 0,
            ProbeErrorType = UDPProbeErrorUnsupported, ProbeErrorText = [], UpdatedAt = now \<rparr>
      in if \<not> outbound then result\<lparr> ProbeErrorText := ''outbound is nil'' \<rparr>
         else if secret = [] then result\<lparr> ProbeErrorText := ''missing secret'' \<rparr>
         else (let options = normalizeUDPProbeOptions options
           in case parseUDPProbeEndpoint socksaddr endpoint of
                Inl err \<Rightarrow> set_probe_error (ClassifyProbeError (Some (plain_error err))) result
              | Inr destination \<Rightarrow>
                  (case listen destination of
                     Some (err, wasClosed) \<Rightarrow>
                       (let result = set_probe_error (classifyUDPProbeError wasClosed err) result
                        in if ProbeErrorType result = UDPProbeErrorUnsupported
                           then result\<lparr> Available := False, ProbePenalty := 0 \<rparr>
                           else result\<lparr> Available := True, ProbePenalty := 12 \<rparr>)
                   | None \<Rightarrow>
                       (let result = result\<lparr> Available := True, Sent := ProbeCount options,
                              ProbeErrorType := ErrorTypeNone \<rparr>
                        in case random of
                             Inl err \<Rightarrow> (set_probe_error (ClassifyProbeError (Some err)) result)
                                          \<lparr> ProbePenalty := 0 \<rparr>
                           | Inr session \<Rightarrow>
                               summarize options finished
                                 (udp_loop clock exchange secret session (ProbeCount options)
                                    (nat (ProbeSize options - int udpProbeHeaderLen
                                          - int udpProbeHMACLen))
                                    (nat (ProbeCount options)) 0
                                    \<lparr> res = result, rtts_by_seq = [], rtts_in_order = [] \<rparr>)))))"

section \<open>Bounds\<close>

lemma udp_penalty_bounds: "0 \<le> CalculateUDPPenalty loss jitter \<and> CalculateUDPPenalty loss jitter \<le> 15"
  by (simp add: CalculateUDPPenalty_def Let_def)

lemma normalized_options:
  "1 \<le> ProbeCount (normalizeUDPProbeOptions options)"
  "ProbeCount (normalizeUDPProbeOptions options) \<le> 20"
  "96 \<le> ProbeSize (normalizeUDPProbeOptions options)"
  "ProbeSize (normalizeUDPProbeOptions options) \<le> 1200"
  by (simp_all add: normalizeUDPProbeOptions_def DefaultUDPProbeOptions_def udp_constants Let_def)

lemma rounded_milliseconds:
  assumes "0 < x"
  shows "round_duration x (millis 1) div millis 1 = (x + 500000) div 1000000"
proof -
  define q where "q = x div 1000000"
  define r where "r = x mod 1000000"
  have x: "x = 1000000 * q + r" and r: "0 \<le> r" "r < 1000000"
    by (simp_all add: q_def r_def)
  have m: "x mod 1000000 = r"
    by (simp add: r_def)
  show ?thesis
  proof (cases "r + r < 1000000")
    case True
    have "(x + 500000) div 1000000 = q"
      by (rule int_div_pos_eq [where r = "r + 500000"]) (use x r True in simp_all)
    moreover have "x - r = 1000000 * q"
      using x by simp
    ultimately show ?thesis
      using True by (simp add: round_duration_def Let_def m)
  next
    case False
    have "(x + 500000) div 1000000 = q + 1"
      by (rule int_div_pos_eq [where r = "r - 500000"]) (use x r False in simp_all)
    moreover have "x + 1000000 - r = 1000000 * (q + 1)"
      using x by simp
    ultimately show ?thesis
      using False by (simp add: round_duration_def Let_def m)
  qed
qed

lemma durationMs_eq:
  "durationMs d = (if d \<le> 0 then 0 else max 1 ((d + 500000) div 1000000))"
proof -
  have "0 \<le> (d + 500000) div 1000000" if "0 < d"
    using that by (simp add: pos_imp_zdiv_nonneg_iff)
  then show ?thesis
    unfolding durationMs_def Let_def using rounded_milliseconds [of d] by auto
qed

lemma durationMs_nonneg: "0 \<le> durationMs d"
  by (auto simp: durationMs_eq max_def)

lemma durationMs_mono: "d \<le> e \<Longrightarrow> durationMs d \<le> durationMs e"
  using zdiv_mono1 [of "d + 500000" "e + 500000" 1000000] by (auto simp: durationMs_eq)

lemma sum_list_between:
  "\<forall>x \<in> set xs. a \<le> x \<and> x \<le> b
    \<Longrightarrow> a * int (length xs) \<le> sum_list xs \<and> sum_list xs \<le> b * int (length xs)"
  by (induction xs) (auto simp: algebra_simps)

lemma summary_ordered:
  assumes "summarizeRTT rtts = (lo, avg, hi)"
  shows "0 \<le> lo" and "lo \<le> avg" and "avg \<le> hi"
proof -
  have ordered: "0 \<le> lo \<and> lo \<le> avg \<and> avg \<le> hi"
  proof (cases "rtts = []")
    case True
    then show ?thesis using assms by (simp add: summarizeRTT_def)
  next
    case False
    let ?s = "sort rtts" and ?n = "int (length rtts)"
    have n: "0 < ?n" using False by simp
    have ends: "\<forall>x \<in> set rtts. ?s ! 0 \<le> x \<and> x \<le> ?s ! (length ?s - 1)"
    proof
      fix x assume "x \<in> set rtts"
      then obtain i where i: "i < length ?s" "?s ! i = x"
        by (metis in_set_conv_nth set_sort)
      show "?s ! 0 \<le> x \<and> x \<le> ?s ! (length ?s - 1)"
        using i sorted_nth_mono [of ?s 0 i] sorted_nth_mono [of ?s i "length ?s - 1"] by auto
    qed
    note between = sum_list_between [OF ends]
    have "?s ! 0 \<le> sum_list rtts div ?n"
      using between n zdiv_mono1 [of "?s ! 0 * ?n" "sum_list rtts" ?n] by simp
    moreover have "sum_list rtts div ?n \<le> ?s ! (length ?s - 1)"
      using between n zdiv_mono1 [of "sum_list rtts" "?s ! (length ?s - 1) * ?n" ?n] by simp
    ultimately show ?thesis
      using assms False durationMs_nonneg durationMs_mono by (auto simp: summarizeRTT_def Let_def)
  qed
  then show "0 \<le> lo" "lo \<le> avg" "avg \<le> hi" by auto
qed

section \<open>The state of the exchange\<close>

text \<open>
  Before packet \<open>seq\<close> every recorded round trip belongs to an earlier packet, each at most
  once, and the two containers have the same number of entries.
\<close>

definition progress_ok :: "nat \<Rightarrow> udp_progress \<Rightarrow> bool" where
  "progress_ok seq st \<longleftrightarrow>
     fst ` set (rtts_by_seq st) \<subseteq> word_of_nat ` {..<seq} \<and>
     length (rtts_by_seq st) \<le> seq \<and>
     length (rtts_in_order st) = length (rtts_by_seq st)"

definition same_result :: "udp_probe_result \<Rightarrow> udp_probe_result \<Rightarrow> bool" where
  "same_result r r' \<longleftrightarrow> Available r' = Available r \<and> Sent r' = Sent r"

lemma word_seq_fresh:
  assumes "seq < 2 ^ 32"
  shows "(word_of_nat seq :: u32) \<notin> word_of_nat ` {..<seq}"
proof
  assume "(word_of_nat seq :: u32) \<in> word_of_nat ` {..<seq}"
  then obtain i where i: "i < seq" "(word_of_nat seq :: u32) = word_of_nat i" by auto
  have "unat (word_of_nat seq :: u32) = seq" "unat (word_of_nat i :: u32) = i"
    using assms i(1) by (simp_all add: unsigned_of_nat take_bit_nat_eq_self)
  then show False
    using i by simp
qed

lemma length_update_fresh: "k \<notin> fst ` set m \<Longrightarrow> length (AList.update k v m) = Suc (length m)"
  by (induction m) auto

lemma read_reply_ok:
  assumes ok: "progress_ok seq st" and small: "seq < 2 ^ 32"
  shows "progress_ok (Suc seq) (read_reply secret session seq step st)"
    and "same_result (res st) (res (read_reply secret session seq step st))"
proof -
  have keep: "progress_ok (Suc seq) (st\<lparr> res := r \<rparr>)" for r
    using ok by (auto simp: progress_ok_def lessThan_Suc)
  then have same: "progress_ok (Suc seq) st"
    by (metis udp_progress.surjective udp_progress.update_convs(1))
  have fresh: "(word_of_nat seq :: u32) \<notin> fst ` set (rtts_by_seq st)"
    using ok word_seq_fresh [OF small] by (auto simp: progress_ok_def)
  have "progress_ok (Suc seq) (st\<lparr> rtts_by_seq := AList.update (word_of_nat seq) d (rtts_by_seq st),
      rtts_in_order := rtts_in_order st @ [d] \<rparr>)" for d
    using ok length_update_fresh [OF fresh]
    by (auto simp: progress_ok_def lessThan_Suc dom_update)
  then show "progress_ok (Suc seq) (read_reply secret session seq step st)"
    using keep same by (auto simp: read_reply_def split: sum.splits)
  show "same_result (res st) (res (read_reply secret session seq step st))"
    by (auto simp: read_reply_def same_result_def set_probe_error_def split: sum.splits)
qed

lemma progress_later: "progress_ok seq st \<Longrightarrow> seq \<le> n \<Longrightarrow> progress_ok n (st\<lparr> res := r \<rparr>)"
  by (force simp: progress_ok_def)

lemma udp_loop_ok_aux:
  assumes "progress_ok seq st" and "seq + n < 2 ^ 32"
  shows "progress_ok (seq + n) (udp_loop clock exchange secret session cnt psize n seq st)
    \<and> same_result (res st) (res (udp_loop clock exchange secret session cnt psize n seq st))"
  using assms
proof (induction n arbitrary: seq st)
  case 0
  then show ?case by (simp add: same_result_def)
next
  case (Suc n)
  let ?st = "\<lambda>step. read_reply secret session seq step st"
  have next_ok: "progress_ok (Suc seq) (?st step)" "same_result (res st) (res (?st step))" for step
    using Suc.prems read_reply_ok [of seq st] by simp_all
  have tail: "progress_ok (seq + Suc n)
        (udp_loop clock exchange secret session cnt psize n (Suc seq) (?st step))"
      "same_result (res st)
        (res (udp_loop clock exchange secret session cnt psize n (Suc seq) (?st step)))" for step
    using Suc.IH [OF next_ok(1), of step] next_ok(2) [of step] Suc.prems(2)
    by (simp_all add: same_result_def)
  have stop: "progress_ok (seq + Suc n) (st\<lparr> res := r \<rparr>)"
    "progress_ok (seq + Suc n) ((?st step)\<lparr> res := r \<rparr>)" for r step
    using progress_later [OF Suc.prems(1)] progress_later [OF next_ok(1)] by simp_all
  have errors: "same_result (res st) (set_probe_error e (res st))"
    "same_result (res st) (set_probe_error e (res (?st step)))" for e step
    using next_ok(2) [of step] by (simp_all add: same_result_def set_probe_error_def)
  show ?case
    by (simp only: udp_loop.simps Let_def tail stop errors udp_progress.simps
        split: option.split if_split) (simp add: errors)
qed

lemmas udp_loop_ok = udp_loop_ok_aux [THEN conjunct1] and udp_loop_result = udp_loop_ok_aux [THEN conjunct2]

section \<open>The result\<close>

text \<open>What holds of every result, whatever the network does.\<close>

definition result_ok :: "udp_probe_result \<Rightarrow> bool" where
  "result_ok r \<longleftrightarrow> 0 \<le> Received r \<and> Received r \<le> Sent r \<and> Sent r \<le> 20 \<and>
     0 \<le> ProbePenalty r \<and> ProbePenalty r \<le> 15 \<and> 0 \<le> Loss r \<and> Loss r \<le> 100 \<and>
     0 \<le> RTTMinMs r \<and> RTTMinMs r \<le> RTTAvgMs r \<and> RTTAvgMs r \<le> RTTMaxMs r \<and>
     0 \<le> JitterMs r \<and> (0 < Received r \<longleftrightarrow> ProbeErrorType r = ErrorTypeNone)"

lemma float64_nonneg: "0 \<le> x \<Longrightarrow> 0 \<le> float64 x"
proof -
  assume x: "0 \<le> x"
  have "0 \<le> round_even (x / pow2 e)" for e
    using round_even_ge [of 0 "x / pow2 e"] x pow2_pos [of e] by (simp add: less_imp_le)
  then show ?thesis
    using x pow2_pos by (auto simp: float64_def round_positive_def Let_def less_imp_le)
qed

lemma loss_bounds:
  assumes "0 \<le> received" and "received \<le> sent" and "0 < sent" and "sent \<le> 20"
  shows "0 \<le> float64 (float64 (of_int (sent - received) * 100) / of_int sent)"
    and "float64 (float64 (of_int (sent - received) * 100) / of_int sent) \<le> 100"
proof -
  have exact: "float64 (of_int (sent - received) * 100) = of_int ((sent - received) * 100)"
    using float64_int [of "(sent - received) * 100"] assms
    by (cases "received = sent") (simp_all add: float64_def [of 0])
  define x where "x = of_int ((sent - received) * 100) / (of_int sent :: rat)"
  have ratio: "x \<le> 100"
    using assms by (simp add: x_def pos_divide_le_eq)
  have pos: "0 \<le> x"
    using assms by (simp add: x_def)
  show "0 \<le> float64 (float64 (of_int (sent - received) * 100) / of_int sent)"
    unfolding exact x_def [symmetric] using pos by (rule float64_nonneg)
  show "float64 (float64 (of_int (sent - received) * 100) / of_int sent) \<le> 100"
    unfolding exact x_def [symmetric] using float64_le_int [of 100 x] ratio pos
    by (cases "x = 0") (simp_all add: float64_def)
qed

lemma calculateJitterMs_nonneg: "0 \<le> calculateJitterMs rtts"
  by (simp add: calculateJitterMs_def durationMs_nonneg)

lemma classified_not_none: "fst (ClassifyProbeError (Some e)) \<noteq> ErrorTypeNone"
  using classify_some_type [of e] by auto

lemma classified_udp_not_none: "fst (classifyUDPProbeError c e) \<noteq> ErrorTypeNone"
  using classified_not_none [of e]
  by (auto simp: classifyUDPProbeError_def UDPProbeErrorUnsupported_def Let_def split: prod.splits)

lemma summarize_ok:
  assumes "progress_ok n st" and "int n = Sent (res st)" and "0 < n" and "n \<le> 20"
  shows "result_ok (summarize options finished st)"
proof -
  obtain lo avg hi where rtt: "summarizeRTT (rtts_in_order st) = (lo, avg, hi)"
    using prod_cases3 by blast
  define k where "k = int (length (rtts_by_seq st))"
  have received: "0 \<le> k" "k \<le> Sent (res st)"
    using assms by (simp_all add: progress_ok_def k_def flip: assms(2))
  have sent: "0 < Sent (res st)" "Sent (res st) \<le> 20"
    using assms by (simp_all flip: assms(2))
  note facts = summary_ordered [OF rtt] udp_penalty_bounds
    calculateJitterMs_nonneg
  show ?thesis
    using received sent loss_bounds [OF received sent]
    by (cases "k = 0") (simp_all add: summarize_def rtt Let_def result_ok_def facts flip: k_def)
qed

text \<open>The results that come before the first packet: nothing received, an error type set.\<close>

lemma early_result_ok:
  assumes "ProbeErrorType r \<noteq> ErrorTypeNone" and "Received r = 0" and "0 \<le> Sent r" and "Sent r \<le> 20"
    and "Loss r = 0" and "RTTMinMs r = 0" and "RTTAvgMs r = 0" and "RTTMaxMs r = 0" and "JitterMs r = 0"
    and "ProbePenalty r \<in> {0, 12}"
  shows "result_ok r"
  using assms by (auto simp: result_ok_def)

end
