(* ===== verification/Claims_Udp.thy ===== *)
theory Claims_Udp
  imports Udp_Probe
begin

text \<open>
  Properties of the UDP probe: its packets are read back as they were written and nothing else
  is accepted, every result is within its bounds, and an honest server and network give a
  full, loss-free result.
\<close>

text \<open>
  C22: udp_packets_round_trip. A packet of a legal size and a fresh time stamp is accepted and
  gives back every field and the payload it was built from. Conversely an accepted packet
  whose two reserved bytes are zero is byte for byte the packet built from the fields read
  with the shared secret, so no other bytes are accepted in its place.
\<close>

theorem udp_packets_round_trip:
  assumes "length session = 16" and "16 \<le> length payload" and "length payload \<le> 1120"
    and "- (2 ^ 63) \<le> ts" and "ts < 2 ^ 63" and "\<bar>now - (unix_epoch + ts)\<bar> \<le> udpProbeMaxSkew"
    and "parseUDPProbePacket p secret' now' t' = Inr (h, payload')" and "subslice 46 48 p = [0, 0]"
  shows "parseUDPProbePacket (buildUDPProbePacket t ts session seq cnt payload secret) secret now t
      = Inr (\<lparr> Version = udpProbeVersion, PacketType = t, TimestampNS = ts, SessionID = session,
          HeaderSeq = seq, HeaderCount = cnt, PayloadLen = word_of_nat (length payload) \<rparr>, payload)
    \<and> p = buildUDPProbePacket t' (TimestampNS h) (SessionID h) (HeaderSeq h) (HeaderCount h)
          payload' secret'"
  using packet_round_trip [OF assms(1-6)] accepted_packet [OF assms(7,8)] by simp

abbreviation (input) sample_packet :: "u8 list" where
  "sample_packet \<equiv> buildUDPProbePacket 2 0 (replicate 16 7) 3 10 (replicate 20 1) [9]"

lemma sample_packet_accepted:
  "parseUDPProbePacket sample_packet [9] unix_epoch 2
    = Inr (\<lparr> Version = udpProbeVersion, PacketType = 2, TimestampNS = 0, SessionID = replicate 16 7,
        HeaderSeq = 3, HeaderCount = 10, PayloadLen = word_of_nat 20 \<rparr>, replicate 20 1)"
  using packet_round_trip [of "replicate 16 7" "replicate 20 1" 0 unix_epoch 2 3 10 "[9]"]
  by (simp add: udpProbeMaxSkew_def)

lemma sample_packet_reserved: "subslice 46 48 sample_packet = [0, 0]"
  using body_fields(10) [of "replicate 16 7" _ 2 0 3 10 "replicate 20 1"]
  by (simp add: build_layout)

theorem udp_packets_round_trip_witness:
  "parseUDPProbePacket sample_packet [9] unix_epoch 2
    = Inr (\<lparr> Version = udpProbeVersion, PacketType = 2, TimestampNS = 0, SessionID = replicate 16 7,
        HeaderSeq = 3, HeaderCount = 10, PayloadLen = word_of_nat (length (replicate 20 (1 :: u8))) \<rparr>,
       replicate 20 1)"
  using udp_packets_round_trip [of "replicate 16 7" "replicate 20 1" 0 unix_epoch sample_packet "[9]"
      unix_epoch 2 _ _ 2 3 10 "[9]", OF _ _ _ _ _ _ sample_packet_accepted sample_packet_reserved]
  by (simp add: udpProbeMaxSkew_def)

text \<open>
  C23: udp_result_in_bounds. Whatever the outbound, the server and the clocks do, a probe
  never reports more replies than packets, sends at most 20, keeps the loss within 0 and 100
  percent and the penalty within 0 and 15, orders the smallest, mean and largest round trip,
  and reports no error exactly when some reply was accepted.
\<close>

theorem udp_result_in_bounds:
  "result_ok (RunUDPProbeThroughOutbound socksaddr listen random clock exchange now finished outbound
     endpoint secret options)"
proof -
  define n where "n = nat (ProbeCount (normalizeUDPProbeOptions options))"
  have n: "int n = ProbeCount (normalizeUDPProbeOptions options)" "0 < n" "n \<le> 20"
    using normalized_options(1,2) [of options] by (auto simp: n_def)
  have loop: "result_ok (summarize opts finished (udp_loop clock exchange secret session cnt psize n 0
      \<lparr> res = r, rtts_by_seq = [], rtts_in_order = [] \<rparr>))"
    if "Sent r = int n" for opts session cnt psize r
    using that n udp_loop_ok [of 0 "\<lparr> res = r, rtts_by_seq = [], rtts_in_order = [] \<rparr>" n]
      udp_loop_result [of 0 "\<lparr> res = r, rtts_by_seq = [], rtts_in_order = [] \<rparr>" n]
    by (intro summarize_ok) (simp_all add: progress_ok_def same_result_def)
  show ?thesis
    unfolding RunUDPProbeThroughOutbound_def Let_def n_def [symmetric]
    using n classified_not_none classified_udp_not_none
    by (auto simp: loop set_probe_error_def UDPProbeErrorUnsupported_def split: sum.split option.split
        intro!: early_result_ok)
qed

text \<open>
  A server that answers every request it accepts and a network that delivers both packets.
\<close>

definition echo_server :: "u8 list \<Rightarrow> instant \<Rightarrow> int \<Rightarrow> u8 list \<Rightarrow> go_error + u8 list" where
  "echo_server secret arrived stamp packet =
     (case parseUDPProbePacket packet secret arrived udpProbeTypeRequest of
        Inl err \<Rightarrow> Inl (plain_error err)
      | Inr (h, payload) \<Rightarrow> Inr (buildUDPProbePacket udpProbeTypeResponse stamp (SessionID h)
          (HeaderSeq h) (HeaderCount h) payload secret))"

definition honest_network ::
  "u8 list \<Rightarrow> (nat \<Rightarrow> instant) \<Rightarrow> (nat \<Rightarrow> int) \<Rightarrow> (nat \<Rightarrow> instant) \<Rightarrow> (nat \<Rightarrow> duration) \<Rightarrow>
   nat \<Rightarrow> u8 list \<Rightarrow> udp_step" where
  "honest_network secret arrived stamp received d seq packet =
     \<lparr> write_error = None, reply = echo_server secret (arrived seq) (stamp seq) packet,
       reply_at = received seq, rtt = d seq, cancelled = None \<rparr>"

text \<open>The clocks of both ends agree to within the skew the protocol allows.\<close>

definition clocks_agree ::
  "(nat \<Rightarrow> int) \<Rightarrow> (nat \<Rightarrow> instant) \<Rightarrow> (nat \<Rightarrow> int) \<Rightarrow> (nat \<Rightarrow> instant) \<Rightarrow> bool" where
  "clocks_agree sent arrived stamp received \<longleftrightarrow>
     (\<forall>seq. \<bar>sent seq\<bar> < 2 ^ 63 \<and> \<bar>stamp seq\<bar> < 2 ^ 63 \<and>
        \<bar>arrived seq - (unix_epoch + sent seq)\<bar> \<le> udpProbeMaxSkew \<and>
        \<bar>received seq - (unix_epoch + stamp seq)\<bar> \<le> udpProbeMaxSkew)"

lemma length_probe_payload: "4 \<le> n \<Longrightarrow> length (probe_payload n seq) = n"
  by (simp add: probe_payload_def copy_at_def)

lemma honest_reply:
  assumes "clocks_agree sent arrived stamp received" and "length session = 16"
    and "16 \<le> psize" "psize \<le> 1120" and "seq < 2 ^ 32" and "progress_ok seq st"
    and packet: "packet = buildUDPProbePacket udpProbeTypeRequest (sent seq) session (word_of_nat seq)
      cnt (probe_payload psize (int seq)) secret"
  shows "read_reply secret session seq (honest_network secret arrived stamp received d seq packet) st
    = st\<lparr> rtts_by_seq := AList.update (word_of_nat seq) (d seq) (rtts_by_seq st),
          rtts_in_order := rtts_in_order st @ [d seq] \<rparr>"
proof -
  have clocks: "- (2 ^ 63) \<le> sent seq" "sent seq < 2 ^ 63" "- (2 ^ 63) \<le> stamp seq" "stamp seq < 2 ^ 63"
    "\<bar>arrived seq - (unix_epoch + sent seq)\<bar> \<le> udpProbeMaxSkew"
    "\<bar>received seq - (unix_epoch + stamp seq)\<bar> \<le> udpProbeMaxSkew"
    using assms(1) [unfolded clocks_agree_def, rule_format, of seq] by linarith+
  let ?pl = "probe_payload psize (int seq)"
  have len: "length ?pl = psize"
    using assms(3) by (simp add: length_probe_payload)
  note request = packet_round_trip [of session ?pl, OF assms(2) _ _ clocks(1,2,5), unfolded len, OF assms(3,4)]
  note response = packet_round_trip [of session ?pl, OF assms(2) _ _ clocks(3,4,6), unfolded len, OF assms(3,4)]
  show ?thesis
    by (simp add: read_reply_def honest_network_def echo_server_def packet request response)
qed

lemma honest_loop:
  assumes "clocks_agree sent arrived stamp received" and "length session = 16"
    and "16 \<le> psize" "psize \<le> 1120"
  shows "seq + n < 2 ^ 32 \<Longrightarrow> progress_ok seq st \<Longrightarrow> length (rtts_by_seq st) = seq \<Longrightarrow>
    \<exists>m. length m = seq + n \<and>
      udp_loop sent (honest_network secret arrived stamp received d) secret session cnt psize n seq st
        = st\<lparr> rtts_by_seq := m, rtts_in_order := rtts_in_order st @ map d [seq..<seq + n] \<rparr>"
proof (induction n arbitrary: seq st)
  case 0
  then show ?case by (intro exI [of _ "rtts_by_seq st"]) simp
next
  case (Suc n)
  let ?m = "AList.update (word_of_nat seq) (d seq) (rtts_by_seq st)"
  let ?st = "st\<lparr> rtts_by_seq := ?m, rtts_in_order := rtts_in_order st @ [d seq] \<rparr>"
  have small: "seq < 2 ^ 32" using Suc.prems by simp
  note reply = honest_reply [OF assms small Suc.prems(2) refl]
  have "length ?m = Suc seq"
    using Suc.prems word_seq_fresh [OF small] by (auto simp: progress_ok_def intro!: length_update_fresh)
  moreover have "progress_ok (Suc seq) ?st"
    using read_reply_ok(1) [OF Suc.prems(2) small] reply by metis
  ultimately obtain m where m: "length m = Suc seq + n"
    "udp_loop sent (honest_network secret arrived stamp received d) secret session cnt psize n (Suc seq) ?st
        = ?st\<lparr> rtts_by_seq := m, rtts_in_order := rtts_in_order ?st @ map d [Suc seq..<Suc seq + n] \<rparr>"
    using Suc.IH [of "Suc seq" ?st] Suc.prems by auto
  have idle: "write_error (honest_network secret arrived stamp received d seq packet) = None"
    "cancelled (honest_network secret arrived stamp received d seq packet) = None" for packet
    by (simp_all add: honest_network_def)
  have step: "udp_loop sent (honest_network secret arrived stamp received d) secret session cnt psize
      (Suc n) seq st
    = udp_loop sent (honest_network secret arrived stamp received d) secret session cnt psize n
      (Suc seq) ?st"
    by (simp only: udp_loop.simps Let_def reply idle option.case if_cancel)
  show ?case
    by (rule exI [of _ m]) (use m in \<open>simp add: step upt_conv_Cons del: udp_loop.simps upt_Suc\<close>)
qed

text \<open>
  honest_probe_is_loss_free. With a server that echoes what it accepts, a network that
  delivers every packet and clocks within the allowed skew, a probe reports the outbound
  available, one reply for each packet, no loss and no error, the summary of exactly the
  round trips measured, and a penalty that comes from their jitter alone.
\<close>

theorem honest_probe_is_loss_free:
  assumes "parseUDPProbeEndpoint socksaddr endpoint = Inr destination" and "listen destination = None"
    and "secret \<noteq> []" and "length session = 16" and "clocks_agree sent arrived stamp received"
    and n: "n = ProbeCount (normalizeUDPProbeOptions options)"
    and r: "r = RunUDPProbeThroughOutbound socksaddr listen (Inr session) sent
      (honest_network secret arrived stamp received d) now finished True endpoint secret options"
  shows "Available r \<and> Sent r = n \<and> Received r = n \<and> Loss r = 0 \<and> ProbeErrorType r = ErrorTypeNone
    \<and> (RTTMinMs r, RTTAvgMs r, RTTMaxMs r) = summarizeRTT (map d [0..<nat n])
    \<and> ProbePenalty r = CalculateUDPPenalty 0 (calculateJitterMs (map d [0..<nat n]))"
proof -
  let ?o = "normalizeUDPProbeOptions options"
  note bounds = normalized_options [of options]
  have size: "16 \<le> nat (ProbeSize ?o - int udpProbeHeaderLen - int udpProbeHMACLen)"
    "nat (ProbeSize ?o - int udpProbeHeaderLen - int udpProbeHMACLen) \<le> 1120"
    using bounds(3,4) by (simp_all add: udp_constants)
  have count: "1 \<le> n" "n \<le> 20"
    using bounds(1,2) by (simp_all add: n)
  have start: "progress_ok 0 \<lparr> res = q, rtts_by_seq = [], rtts_in_order = [] \<rparr>" for q
    by (simp add: progress_ok_def)
  have small: "0 + nat n < 2 ^ 32"
    using count by simp
  obtain rttMin rttAvg rttMax where
    rtt: "summarizeRTT (map d [0..<nat n]) = (rttMin, rttAvg, rttMax)"
    using prod_cases3 by blast
  have zero: "float64 (float64 0 / q) = 0" for q
    by (simp add: float64_def)
  let ?r0 = "\<lparr> Available = True, Sent = n, Received = 0, Loss = 0, RTTMinMs = 0, RTTAvgMs = 0,
    RTTMaxMs = 0, JitterMs = 0, ProbePenalty = 0, ProbeErrorType = ErrorTypeNone,
    ProbeErrorText = [], UpdatedAt = now \<rparr>"
  obtain m where m: "length m = nat n" and
    loop: "udp_loop sent (honest_network secret arrived stamp received d) secret session n
        (nat (ProbeSize ?o - int udpProbeHeaderLen - int udpProbeHMACLen)) (nat n) 0
        \<lparr> res = ?r0, rtts_by_seq = [], rtts_in_order = [] \<rparr>
      = \<lparr> res = ?r0, rtts_by_seq = m, rtts_in_order = map d [0..<nat n] \<rparr>"
    using honest_loop [OF assms(5,4) size, of 0 "nat n"
        "\<lparr> res = ?r0, rtts_by_seq = [], rtts_in_order = [] \<rparr>" secret d n] small start by auto
  have "r = summarize ?o finished \<lparr> res = ?r0, rtts_by_seq = m, rtts_in_order = map d [0..<nat n] \<rparr>"
    unfolding r RunUDPProbeThroughOutbound_def Let_def n [symmetric]
    using assms(1-3) by (simp add: loop)
  then show ?thesis
    using count m by (simp add: summarize_def Let_def rtt zero)
qed

definition sample_socksaddr :: "string \<Rightarrow> string \<Rightarrow> ((string \<times> string) \<times> u16) option" where
  "sample_socksaddr host port = Some ((host, port), 8443)"

theorem honest_probe_is_loss_free_witness:
  "Received (RunUDPProbeThroughOutbound sample_socksaddr (\<lambda>_. None) (Inr (replicate 16 7)) (\<lambda>_. 0)
      (honest_network [9] (\<lambda>_. unix_epoch) (\<lambda>_. 0) (\<lambda>_. unix_epoch) (\<lambda>seq. millis 40)) 0 0 True
      [] [9] DefaultUDPProbeOptions) = 10"
proof -
  have endpoint: "parseUDPProbeEndpoint sample_socksaddr []
      = Inr ((''udp-probe.zeon-vps.link'', ''8443''), 8443)"
    by code_simp
  have clocks: "clocks_agree (\<lambda>_. 0) (\<lambda>_. unix_epoch) (\<lambda>_. 0) (\<lambda>_. unix_epoch)"
    by (simp add: clocks_agree_def udpProbeMaxSkew_def)
  have options: "10 = ProbeCount (normalizeUDPProbeOptions DefaultUDPProbeOptions)"
    by code_simp
  show ?thesis
    using honest_probe_is_loss_free [OF endpoint _ _ _ clocks options refl, of "\<lambda>_. None" "[9]"
        "replicate 16 7" "\<lambda>seq. millis 40" 0 0] by simp
qed

end
