(* ===== verification/Runtime_Health.thy ===== *)
theory Runtime_Health
  imports Url_Health
begin

text \<open>
  The weights and counters of real-user evidence
  (\<open>common/monitoring/outbound_monitoring.go\<close>, from \<open>degradationForError\<close> on, and the
  records of \<open>adapter/experimental.go\<close>). Counters are Go \<open>int\<close>s that one event raises by at
  most three; they are mathematical integers here.
\<close>

abbreviation (input) runtimePenaltyTTL :: duration where "runtimePenaltyTTL \<equiv> seconds 90"
abbreviation (input) runtimeBurstWindow :: duration where "runtimeBurstWindow \<equiv> seconds 20"
abbreviation (input) runtimeTrafficStallMinUploadBytes :: int where
  "runtimeTrafficStallMinUploadBytes \<equiv> 1024"
abbreviation (input) runtimeTrafficStallNoDownloadWindow :: duration where
  "runtimeTrafficStallNoDownloadWindow \<equiv> seconds 8"
abbreviation (input) runtimeTrafficStallEvidenceThreshold :: int where
  "runtimeTrafficStallEvidenceThreshold \<equiv> 2"
abbreviation (input) runtimeTrafficValidationProbeCooldown :: duration where
  "runtimeTrafficValidationProbeCooldown \<equiv> seconds 30"
abbreviation (input) runtimeTrafficTTL :: duration where "runtimeTrafficTTL \<equiv> minutes 10"

section \<open>Clamps\<close>

definition clampHealthPoints :: "int \<Rightarrow> int" where "clampHealthPoints v = min 100 (max 0 v)"
definition clampHealthPenalty :: "int \<Rightarrow> int" where "clampHealthPenalty v = min 30 (max 0 v)"
definition clampStability :: "int \<Rightarrow> int" where "clampStability v = min 100 (max 0 v)"
definition absInt :: "int \<Rightarrow> int" where "absInt v = (if v < 0 then - v else v)"

section \<open>Weights of an error type\<close>

definition degradationForError :: "string \<Rightarrow> int" where
  "degradationForError errorType =
     (if errorType = ErrorTypeEOF then 5
      else if errorType \<in> {ErrorTypeReset, ErrorTypeBrokenPipe} then 10
      else if errorType \<in> {ErrorTypeTimeout, ErrorTypeDeadline} then 16
      else if errorType \<in> {ErrorTypeRefused, ErrorTypeDNSTimeout, ErrorTypeTLSHandshakeFailed,
                           ErrorTypeUnsupportedCurve, ErrorTypeQUICTimeout} then 28
      else 10)"

definition realUserPenaltyForError :: "string \<Rightarrow> int" where
  "realUserPenaltyForError errorType =
     (if IsCriticalProbeError errorType then 12
      else if errorType = ErrorTypeEOF then 3
      else 6)"

definition stabilityLossForError :: "string \<Rightarrow> int" where
  "stabilityLossForError errorType = (if IsCriticalProbeError errorType then 18 else 8)"

definition runtimeDegradationForError :: "string \<Rightarrow> int" where
  "runtimeDegradationForError errorType =
     (if errorType = ErrorTypeEOF then 5
      else if errorType \<in> {ErrorTypeReset, ErrorTypeBrokenPipe} then 14
      else if errorType \<in> {ErrorTypeTimeout, ErrorTypeDeadline} then 24
      else if errorType \<in> {ErrorTypeRefused, ErrorTypeDNSTimeout, ErrorTypeQUICTimeout} then 38
      else if errorType \<in> {ErrorTypeTLSHandshakeFailed, ErrorTypeUnsupportedCurve} then 55
      else degradationForError errorType)"

definition runtimeRealUserPenaltyForError :: "string \<Rightarrow> int" where
  "runtimeRealUserPenaltyForError errorType =
     (if errorType = ErrorTypeEOF then 2
      else if errorType \<in> {ErrorTypeReset, ErrorTypeBrokenPipe} then 5
      else if errorType \<in> {ErrorTypeTimeout, ErrorTypeDeadline, ErrorTypeRefused,
                           ErrorTypeDNSTimeout, ErrorTypeQUICTimeout} then 8
      else if errorType \<in> {ErrorTypeTLSHandshakeFailed, ErrorTypeUnsupportedCurve} then 12
      else realUserPenaltyForError errorType)"

definition runtimeStabilityLossForError :: "string \<Rightarrow> int" where
  "runtimeStabilityLossForError errorType =
     (if errorType = ErrorTypeEOF then 5
      else if errorType \<in> {ErrorTypeReset, ErrorTypeBrokenPipe} then 10
      else if errorType \<in> {ErrorTypeTimeout, ErrorTypeDeadline, ErrorTypeRefused,
                           ErrorTypeDNSTimeout, ErrorTypeQUICTimeout} then 16
      else if errorType \<in> {ErrorTypeTLSHandshakeFailed, ErrorTypeUnsupportedCurve} then 22
      else stabilityLossForError errorType)"

definition runtimeBurstWeight :: "string \<Rightarrow> int" where
  "runtimeBurstWeight errorType =
     (if errorType = ErrorTypeEOF then 0
      else if errorType \<in> {ErrorTypeReset, ErrorTypeBrokenPipe} then 1
      else if errorType \<in> {ErrorTypeTimeout, ErrorTypeDeadline, ErrorTypeRefused,
                           ErrorTypeDNSTimeout, ErrorTypeQUICTimeout} then 2
      else if errorType \<in> {ErrorTypeTLSHandshakeFailed, ErrorTypeUnsupportedCurve} then 3
      else 1)"

definition runtimeBurstDegradationBoost :: "int \<Rightarrow> int" where
  "runtimeBurstDegradationBoost burstScore =
     (if burstScore \<ge> 6 then 18 else if burstScore \<ge> 4 then 12 else if burstScore \<ge> 3 then 6 else 0)"

definition runtimeBurstRealUserBoost :: "int \<Rightarrow> int" where
  "runtimeBurstRealUserBoost burstScore =
     (if burstScore \<ge> 6 then 6 else if burstScore \<ge> 4 then 4 else if burstScore \<ge> 3 then 2 else 0)"

section \<open>The statistics of one outbound\<close>

record runtime_penalty_stats =
  TimeoutCount :: int
  ResetCount :: int
  RefusedCount :: int
  EOFCount :: int
  BrokenPipeCount :: int
  DNSErrorCount :: int
  TLSErrorCount :: int
  QUICErrorCount :: int
  WindowStartedAt :: instant
  BurstScore :: int
  StatsUpdatedAt :: instant
  Penalty :: int

definition zero_stats :: runtime_penalty_stats where
  "zero_stats = \<lparr> TimeoutCount = 0, ResetCount = 0, RefusedCount = 0, EOFCount = 0,
     BrokenPipeCount = 0, DNSErrorCount = 0, TLSErrorCount = 0, QUICErrorCount = 0,
     WindowStartedAt = 0, BurstScore = 0, StatsUpdatedAt = 0, Penalty = 0 \<rparr>"

record runtime_traffic_stats =
  UploadBytes :: int
  DownloadBytes :: int
  LastUploadAt :: instant
  LastDownloadAt :: instant
  TrafficUpdatedAt :: instant
  LastProbeAt :: instant
  UploadOnlySamples :: int
  CleanSamples :: int

definition zero_traffic :: runtime_traffic_stats where
  "zero_traffic = \<lparr> UploadBytes = 0, DownloadBytes = 0, LastUploadAt = 0, LastDownloadAt = 0,
     TrafficUpdatedAt = 0, LastProbeAt = 0, UploadOnlySamples = 0, CleanSamples = 0 \<rparr>"

definition updateRuntimeBurst ::
  "runtime_penalty_stats \<Rightarrow> string \<Rightarrow> instant \<Rightarrow> runtime_penalty_stats \<times> int" where
  "updateRuntimeBurst stats errorType now =
     (let stats = (if IsZero (WindowStartedAt stats)
                      \<or> now - WindowStartedAt stats > runtimeBurstWindow
                   then stats\<lparr> WindowStartedAt := now, BurstScore := 0 \<rparr> else stats);
          stats = stats\<lparr> BurstScore := BurstScore stats + runtimeBurstWeight errorType \<rparr>
      in (stats, BurstScore stats))"

definition incrementRuntimeStats :: "runtime_penalty_stats \<Rightarrow> string \<Rightarrow> runtime_penalty_stats" where
  "incrementRuntimeStats stats errorType =
     (if errorType \<in> {ErrorTypeTimeout, ErrorTypeDeadline}
      then stats\<lparr> TimeoutCount := TimeoutCount stats + 1 \<rparr>
      else if errorType = ErrorTypeReset then stats\<lparr> ResetCount := ResetCount stats + 1 \<rparr>
      else if errorType = ErrorTypeRefused then stats\<lparr> RefusedCount := RefusedCount stats + 1 \<rparr>
      else if errorType = ErrorTypeEOF then stats\<lparr> EOFCount := EOFCount stats + 1 \<rparr>
      else if errorType = ErrorTypeBrokenPipe
      then stats\<lparr> BrokenPipeCount := BrokenPipeCount stats + 1 \<rparr>
      else if errorType = ErrorTypeDNSTimeout then stats\<lparr> DNSErrorCount := DNSErrorCount stats + 1 \<rparr>
      else if errorType \<in> {ErrorTypeTLSHandshakeFailed, ErrorTypeUnsupportedCurve}
      then stats\<lparr> TLSErrorCount := TLSErrorCount stats + 1 \<rparr>
      else if errorType = ErrorTypeQUICTimeout
      then stats\<lparr> QUICErrorCount := QUICErrorCount stats + 1 \<rparr>
      else stats)"

definition calculateRuntimePenalty :: "runtime_penalty_stats \<Rightarrow> int" where
  "calculateRuntimePenalty stats =
     (let penalty = min (EOFCount stats * 2) 6 + min (RefusedCount stats * 4) 10
            + min (ResetCount stats * 5) 15 + min (BrokenPipeCount stats * 5) 15
            + min (TimeoutCount stats * 7) 20 + min (DNSErrorCount stats * 8) 20
            + min (TLSErrorCount stats * 8) 20 + min (QUICErrorCount stats * 7) 20
      in if penalty > 25 then 25 else penalty)"

section \<open>Bounds\<close>

lemma clampHealthPoints_range: "0 \<le> clampHealthPoints v \<and> clampHealthPoints v \<le> 100"
  by (simp add: clampHealthPoints_def)

lemma clampHealthPenalty_range: "0 \<le> clampHealthPenalty v \<and> clampHealthPenalty v \<le> 30"
  by (simp add: clampHealthPenalty_def)

lemma clampStability_range: "0 \<le> clampStability v \<and> clampStability v \<le> 100"
  by (simp add: clampStability_def)

lemma clampHealthPoints_mono: "v \<le> w \<Longrightarrow> clampHealthPoints v \<le> clampHealthPoints w"
  by (simp add: clampHealthPoints_def)

lemma clampHealthPenalty_mono: "v \<le> w \<Longrightarrow> clampHealthPenalty v \<le> clampHealthPenalty w"
  by (simp add: clampHealthPenalty_def)

lemma clampStability_mono: "v \<le> w \<Longrightarrow> clampStability v \<le> clampStability w"
  by (simp add: clampStability_def)

lemma weights_positive:
  "0 < runtimeDegradationForError e" "0 < runtimeRealUserPenaltyForError e"
  "0 < runtimeStabilityLossForError e" "0 \<le> runtimeBurstDegradationBoost b"
  "0 \<le> runtimeBurstRealUserBoost b" "0 < degradationForError e" "0 < stabilityLossForError e"
  by (simp_all add: runtimeDegradationForError_def runtimeRealUserPenaltyForError_def
      runtimeStabilityLossForError_def runtimeBurstDegradationBoost_def
      runtimeBurstRealUserBoost_def degradationForError_def realUserPenaltyForError_def
      stabilityLossForError_def)

text \<open>Counters never go below 0, so the penalty is between 0 and 25.\<close>

definition stats_ok :: "runtime_penalty_stats \<Rightarrow> bool" where
  "stats_ok s \<longleftrightarrow> 0 \<le> TimeoutCount s \<and> 0 \<le> ResetCount s \<and> 0 \<le> RefusedCount s \<and> 0 \<le> EOFCount s
     \<and> 0 \<le> BrokenPipeCount s \<and> 0 \<le> DNSErrorCount s \<and> 0 \<le> TLSErrorCount s \<and> 0 \<le> QUICErrorCount s
     \<and> 0 \<le> Penalty s \<and> Penalty s \<le> 25"

lemma stats_ok_zero [simp]: "stats_ok zero_stats"
  by (simp add: stats_ok_def zero_stats_def)

lemma runtime_penalty_bounds: "stats_ok s \<Longrightarrow> 0 \<le> calculateRuntimePenalty s \<and> calculateRuntimePenalty s \<le> 25"
proof -
  assume ok: "stats_ok s"
  have part: "0 \<le> min (c * k) u" if "0 \<le> c" "0 \<le> k" "0 \<le> u" for c k u :: int
    using that by simp
  have cap: "0 \<le> (if p > 25 then 25 else p) \<and> (if p > 25 then 25 else p) \<le> 25" if "0 \<le> p" for p :: int
    using that by simp
  have "0 \<le> min (EOFCount s * 2) 6 + min (RefusedCount s * 4) 10
            + min (ResetCount s * 5) 15 + min (BrokenPipeCount s * 5) 15
            + min (TimeoutCount s * 7) 20 + min (DNSErrorCount s * 8) 20
            + min (TLSErrorCount s * 8) 20 + min (QUICErrorCount s * 7) 20"
    using ok by (intro add_nonneg_nonneg part) (simp_all add: stats_ok_def)
  then show ?thesis
    unfolding calculateRuntimePenalty_def Let_def by (rule cap)
qed

lemma stats_ok_increment: "stats_ok s \<Longrightarrow> stats_ok (incrementRuntimeStats s e)"
  by (simp add: stats_ok_def incrementRuntimeStats_def)

lemma stats_ok_burst: "stats_ok s \<Longrightarrow> stats_ok (fst (updateRuntimeBurst s e now))"
  by (simp add: stats_ok_def updateRuntimeBurst_def Let_def)

lemma stats_ok_penalty: "stats_ok s \<Longrightarrow> stats_ok (s\<lparr> StatsUpdatedAt := t, Penalty := calculateRuntimePenalty s' \<rparr>)"
  if "stats_ok s'"
  using that runtime_penalty_bounds [of s'] by (simp add: stats_ok_def)

end
