(* ===== verification/Probe_Evidence.thy ===== *)
theory Probe_Evidence
  imports Runtime_Health IPv6_Gate Udp_Probe
begin

text \<open>
  What \<open>common/monitoring\<close> computes about one probe result, without the monitor's state: the
  score refresh, the evidence a result adds, the terminal form of a result, the view of an
  unfinished check and the isolated active probe (\<open>outbound_monitoring.go\<close> and
  \<open>active_probe.go\<close>). \<open>now\<close> is the clock reading of the freshness penalty.
\<close>

abbreviation (input) TimeoutDelay :: u16 where "TimeoutDelay \<equiv> 65535"

section \<open>Score and evidence\<close>

definition refreshHealthScore ::
  "instant \<Rightarrow> tag \<Rightarrow> url_test_history \<Rightarrow> bool \<Rightarrow> url_test_history" where
  "refreshHealthScore now t history isFromCache =
     (let countryCode = (case IpInfo history of None \<Rightarrow> [] | Some info \<Rightarrow> CountryCode info);
          history = history\<lparr> FreshnessPenalty := CalculateFreshnessPenalty now isFromCache (Time history) \<rparr>;
          history = history\<lparr> PolicyPenalty := CalculatePolicyPenalty t countryCode \<rparr>
      in history\<lparr> HealthScore := CalculateHealthScoreWithEvidence now (Delay history)
           (Success history) (ErrorType history) isFromCache (Time history)
           (RuntimePenalty history) (RealUserPenalty history) (VolatilityPenalty history)
           (UDPPenalty history) (PolicyPenalty history) \<rparr>)"

definition applyProbeEvidenceWithRecovery ::
  "instant \<Rightarrow> tag \<Rightarrow> url_test_history \<Rightarrow> url_test_history \<Rightarrow> bool \<Rightarrow> url_test_history" where
  "applyProbeEvidenceWithRecovery now t history previous allowRealUserRecovery =
     (let history = history\<lparr> RealUserPenalty := RealUserPenalty previous,
            VolatilityPenalty := VolatilityPenalty previous,
            StabilityPoints := StabilityPoints previous,
            DegradationPoints := DegradationPoints previous \<rparr>
      in if \<not> Success history
         then (let history = history\<lparr>
                 DegradationPoints := clampHealthPoints (DegradationPoints history
                                        + degradationForError (ErrorType history)),
                 StabilityPoints := clampStability (StabilityPoints history
                                        - stabilityLossForError (ErrorType history)),
                 VolatilityPenalty := clampHealthPenalty (VolatilityPenalty history + 4) \<rparr>
               in refreshHealthScore now t history (IsFromCache history))
         else (let history = history\<lparr>
                 DegradationPoints := clampHealthPoints (DegradationPoints history - 6),
                 VolatilityPenalty := clampHealthPenalty (VolatilityPenalty history - 2) \<rparr>;
               history = (if allowRealUserRecovery
                 then history\<lparr> RealUserPenalty := clampHealthPenalty (RealUserPenalty history - 2) \<rparr>
                 else history);
               history = (if Success previous \<and> Delay previous > 0 \<and> Delay previous < TimeoutDelay
                 then (let delta = absInt (uint (Delay history) - uint (Delay previous));
                           stableLimit = max 25 (uint (Delay previous) div 3)
                       in if delta \<le> stableLimit
                          then history\<lparr> StabilityPoints := clampStability (StabilityPoints history + 6) \<rparr>
                          else history\<lparr> StabilityPoints := clampStability (StabilityPoints history - 3),
                                 VolatilityPenalty := clampHealthPenalty (VolatilityPenalty history
                                   + min 8 (delta div 100 + 2)) \<rparr>)
                 else history\<lparr> StabilityPoints := clampStability (StabilityPoints history + 4) \<rparr>)
               in refreshHealthScore now t history (IsFromCache history)))"

definition applyProbeEvidence ::
  "instant \<Rightarrow> tag \<Rightarrow> url_test_history \<Rightarrow> url_test_history \<Rightarrow> url_test_history" where
  "applyProbeEvidence now t history previous = applyProbeEvidenceWithRecovery now t history previous True"

definition normalizeTerminalHistory ::
  "instant \<Rightarrow> tag \<Rightarrow> url_test_history \<Rightarrow> go_error option \<Rightarrow> url_test_history" where
  "normalizeTerminalHistory now t history resultErr =
     (let statusSuccess = (URLTestStatus history = [] \<or> URLTestStatus history = StatusSuccess);
          errorFree = (ErrorType history = [] \<or> ErrorType history = ErrorTypeNone);
          validDelay = (Delay history > 0 \<and> Delay history < TimeoutDelay)
      in if resultErr = None \<and> Success history \<and> statusSuccess \<and> errorFree \<and> validDelay
         then history\<lparr> Success := True, ErrorType := ErrorTypeNone, ErrorText := [],
                URLTestStatus := StatusSuccess \<rparr>
         else (let history = history\<lparr> Success := False, URLTestStatus := StatusFailed,
                     Delay := TimeoutDelay \<rparr>;
                   history = (if ErrorType history = [] \<or> ErrorType history = ErrorTypeNone
                     then (let (errorType, errorText) = ClassifyProbeError resultErr;
                               errorType = (if errorType = [] \<or> errorType = ErrorTypeNone
                                            then ErrorTypeUnknown else errorType);
                               history = history\<lparr> ErrorType := errorType \<rparr>
                           in if ErrorText history = [] then history\<lparr> ErrorText := errorText \<rparr>
                              else history)
                     else history)
               in refreshHealthScore now t history False))"

definition mergeIpInfo :: "ip_info option \<Rightarrow> ip_info option \<Rightarrow> ip_info option" where
  "mergeIpInfo old new =
     (case (old, new) of
        (None, _) \<Rightarrow> new
      | (Some _, None) \<Rightarrow> old
      | (Some o', Some n) \<Rightarrow>
          (let n = (if CountryCode n = [] then n\<lparr> CountryCode := CountryCode o' \<rparr> else n)
           in Some (if Org n = [] then n\<lparr> Org := Org o' \<rparr> else n)))"

definition preferHistory :: "url_test_history option \<Rightarrow> url_test_history option \<Rightarrow> bool" where
  "preferHistory candidate current =
     (case current of
        None \<Rightarrow> True
      | Some cur \<Rightarrow>
          (case candidate of
             None \<Rightarrow> False
           | Some cand \<Rightarrow>
               (let candidateScore = HealthScore cand; currentScore = HealthScore cur
                in if (candidateScore > 0 \<or> currentScore > 0) \<and> Success cand \<noteq> Success cur
                   then Success cand
                   else if (candidateScore > 0 \<or> currentScore > 0) \<and> candidateScore \<noteq> currentScore
                   then candidateScore > currentScore
                   else Delay cand < Delay cur)))"

definition inferURLTestStatus :: "url_test_history \<Rightarrow> string" where
  "inferURLTestStatus history =
     (if IsZero (Time history) \<and> Delay history = 0 \<and> ErrorType history = [] then StatusNotTested
      else if Success history \<and> Delay history > 0 \<and> Delay history < TimeoutDelay
              \<and> (ErrorType history = [] \<or> ErrorType history = ErrorTypeNone)
      then StatusSuccess
      else StatusFailed)"

text \<open>
  \<open>applyDynamicHealth\<close> on one copy; \<open>penalty\<close> is \<open>m.runtimePenaltyForTag(tag)\<close>, which is read
  only on the second path.
\<close>

definition applyDynamicHealth ::
  "instant \<Rightarrow> int \<Rightarrow> tag \<Rightarrow> url_test_history \<Rightarrow> url_test_history" where
  "applyDynamicHealth now penalty t his =
     (if CheckGeneration his > 0 \<and> \<not> CombinedReady his
      then his\<lparr> Delay := 0, Success := False, ErrorType := [], ErrorText := [], HealthScore := 0,
             UDPProbeAvailable := False, UDPPenalty := 0, UDPLoss := 0, UDPJitterMs := 0 \<rparr>
      else (let his = (if Delay his > 0 \<and> Delay his < TimeoutDelay \<and> ErrorType his = []
                       then his\<lparr> Success := True, ErrorType := ErrorTypeNone \<rparr> else his);
                his = (if ErrorType his = [] then his\<lparr> ErrorType := ErrorTypeUnknown \<rparr> else his);
                his = his\<lparr> RuntimePenalty := penalty \<rparr>
            in refreshHealthScore now t his (IsFromCache his)))"

section \<open>Results of tasks\<close>

record test_outcome =
  outcomeTag :: tag
  outcomeUrl :: string
  outcomeHistory :: url_test_history
  outcomeErr :: "go_error option"
  outcomeCycle :: u64
  outcomePriority :: bool
  outcomeFull :: bool
  outcomeDefer :: bool

definition newTaskErrorOutcome ::
  "instant \<Rightarrow> int \<Rightarrow> tag \<Rightarrow> u64 \<Rightarrow> bool \<Rightarrow> bool \<Rightarrow> go_error option \<Rightarrow> test_outcome" where
  "newTaskErrorOutcome now penalty t cycleID priority fullGeneration err =
     (let err = (case err of None \<Rightarrow> plain_error ''URL test failed'' | Some e \<Rightarrow> e);
          (errorType, errorText) = ClassifyProbeError (Some err);
          errorType = (if errorType = [] \<or> errorType = ErrorTypeNone then ErrorTypeUnknown
                       else errorType);
          history = zero_history\<lparr> Time := now, Delay := TimeoutDelay, Success := False,
            ErrorType := errorType, ErrorText := errorText, RuntimePenalty := penalty,
            URLTestStatus := StatusFailed \<rparr>;
          history = refreshHealthScore now t history False
      in \<lparr> outcomeTag = t, outcomeUrl = [], outcomeHistory = history, outcomeErr = Some err,
           outcomeCycle = cycleID, outcomePriority = priority, outcomeFull = fullGeneration,
           outcomeDefer = False \<rparr>)"

text \<open>
  The worker's test of one outbound. \<open>delay\<close> and \<open>err\<close> are the result of \<open>urltest.URLTest\<close>,
  \<open>capability\<close> the verdict of the IPv6 probe when the mode asks for one, \<open>gone\<close> the error of
  the parent context when it ended meanwhile, \<open>lookup\<close> the IP metadata and its delay.
\<close>

definition tester ::
  "instant \<Rightarrow> int \<Rightarrow> domain_strategy \<Rightarrow> url_test_history \<Rightarrow> bool \<Rightarrow> tag \<Rightarrow> u16 \<Rightarrow> go_error option \<Rightarrow>
   ipv6_probe_result \<Rightarrow> go_error option \<Rightarrow> (ip_info \<times> u16) option \<Rightarrow>
   url_test_history \<times> go_error option" where
  "tester now penalty ipv6Mode previous fromCache t delay err capability gone lookup =
     (let err = (if err = None \<and> delay = 0
                 then Some (plain_error ''URL test returned empty delay'') else err);
          (errorType, errorText) = ClassifyProbeError err;
          success = (err = None \<and> delay > 0 \<and> delay < TimeoutDelay);
          his = zero_history\<lparr> Time := now, Delay := delay, Success := success,
            ErrorType := errorType, ErrorText := errorText, RuntimePenalty := penalty,
            URLTestStatus := ResultStatus success \<rparr>;
          his = (if IPv6ModeRequiresCapability ipv6Mode
            then his\<lparr> IPv6Status := ipv6CapabilityStatusForMode capability ipv6Mode,
                   IPv6CheckedAt := probe_checkedAt capability,
                   IPv6TargetSuccess := probe_successes capability,
                   IPv6TargetCount := probe_attempts capability,
                   IPv6ErrorType := probe_errorType capability,
                   IPv6ErrorText := probe_errorText capability \<rparr>
            else his\<lparr> IPv6Status := IPv6StatusNotTested \<rparr>)
      in if err \<noteq> None \<or> delay = 0 \<or> delay \<ge> TimeoutDelay
         then (let his = his\<lparr> Delay := TimeoutDelay, Success := False \<rparr>;
                   his = (if ErrorType his = [] \<or> ErrorType his = ErrorTypeNone
                          then his\<lparr> ErrorType := ErrorTypeTimeout \<rparr> else his)
               in (refreshHealthScore now t his False, err))
         else case gone of
           Some ended \<Rightarrow> (his, Some ended)
         | None \<Rightarrow>
             (let his = (if IpInfo previous = None \<or> fromCache
                then (case lookup of
                        None \<Rightarrow> his
                      | Some (newip, d) \<Rightarrow>
                          (let his = his\<lparr> IpInfo := mergeIpInfo (IpInfo previous) (Some newip) \<rparr>
                           in if d < Delay his then his\<lparr> Delay := d \<rparr> else his))
                else his)
              in (refreshHealthScore now t his False, None)))"

section \<open>The isolated probe of the active outbound\<close>

record active_probe_result =
  ProbedTag :: tag
  ProbedHistory :: url_test_history
  UDPAttempted :: bool
  UDPErrorType :: string
  ProbedRevision :: u64

definition lightweightActiveUDPOptions :: "udp_probe_options \<Rightarrow> udp_probe_options" where
  "lightweightActiveUDPOptions options =
     (let defaults = DefaultUDPProbeOptions;
          options = (if ProbeCount options \<le> 0 then options\<lparr> ProbeCount := ProbeCount defaults \<rparr>
                     else options);
          options = (if ProbeCount options > 3 then options\<lparr> ProbeCount := 3 \<rparr> else options);
          options = (if ProbeSize options \<le> 0 then options\<lparr> ProbeSize := ProbeSize defaults \<rparr>
                     else options);
          options = (if ProbeSize options > 128 then options\<lparr> ProbeSize := 128 \<rparr> else options);
          options = (if ProbeInterval options \<le> 0 \<or> ProbeInterval options > millis 40
                     then options\<lparr> ProbeInterval := millis 40 \<rparr> else options)
      in if ProbeTimeout options \<le> 0 \<or> ProbeTimeout options > millis 750
         then options\<lparr> ProbeTimeout := millis 750 \<rparr> else options)"

definition newActiveProbeFailure ::
  "instant \<Rightarrow> int \<Rightarrow> tag \<Rightarrow> url_test_history \<Rightarrow> go_error \<Rightarrow> url_test_history" where
  "newActiveProbeFailure now penalty t previous err =
     (let (errorType, errorText) = ClassifyProbeError (Some err);
          errorType = (if errorType = [] \<or> errorType = ErrorTypeNone then ErrorTypeUnknown
                       else errorType);
          history = zero_history\<lparr> Time := now, Delay := TimeoutDelay, IpInfo := IpInfo previous,
            Success := False, ErrorType := errorType, ErrorText := errorText,
            URLTestStatus := StatusFailed, RuntimePenalty := penalty,
            RealUserPenalty := RealUserPenalty previous,
            VolatilityPenalty := VolatilityPenalty previous,
            StabilityPoints := StabilityPoints previous,
            DegradationPoints := DegradationPoints previous,
            PolicyPenalty := PolicyPenalty previous,
            CheckGeneration := CheckGeneration previous,
            PingReady := True, QualityReady := True, SpeedReady := True, CombinedReady := True \<rparr>
      in refreshHealthScore now t history False)"

text \<open>The successful sample; \<open>udp\<close> is the result of the UDP probe when one was attempted.\<close>

definition activeProbeSuccess ::
  "instant \<Rightarrow> int \<Rightarrow> tag \<Rightarrow> url_test_history \<Rightarrow> u16 \<Rightarrow> udp_probe_result option \<Rightarrow> url_test_history" where
  "activeProbeSuccess now penalty t previous delay udp =
     (let history = zero_history\<lparr> Time := now, Delay := delay, IpInfo := IpInfo previous,
            Success := True, ErrorType := ErrorTypeNone, URLTestStatus := StatusSuccess,
            RuntimePenalty := penalty, RealUserPenalty := RealUserPenalty previous,
            VolatilityPenalty := VolatilityPenalty previous,
            StabilityPoints := StabilityPoints previous,
            DegradationPoints := DegradationPoints previous,
            PolicyPenalty := PolicyPenalty previous,
            CheckGeneration := CheckGeneration previous,
            PingReady := True, QualityReady := True, SpeedReady := True, CombinedReady := True \<rparr>;
          history = (case udp of None \<Rightarrow> history
            | Some r \<Rightarrow> history\<lparr> UDPProbeAvailable := Available r, UDPPenalty := ProbePenalty r,
                UDPLoss := Loss r, UDPJitterMs := JitterMs r, UDPReady := True \<rparr>)
      in refreshHealthScore now t history False)"

definition mergeActiveProbePresentation ::
  "url_test_history \<Rightarrow> url_test_history \<Rightarrow> url_test_history" where
  "mergeActiveProbePresentation probe ranked =
     (let presentation = probe;
          presentation = (if IpInfo presentation = None
                          then presentation\<lparr> IpInfo := IpInfo ranked \<rparr> else presentation)
      in presentation\<lparr> IsFromCache := False, RealUserPenalty := RealUserPenalty ranked,
           VolatilityPenalty := VolatilityPenalty ranked,
           StabilityPoints := StabilityPoints ranked,
           DegradationPoints := DegradationPoints ranked,
           IPv6Status := IPv6Status ranked, IPv6CheckedAt := IPv6CheckedAt ranked,
           IPv6Generation := IPv6Generation ranked,
           IPv6TargetSuccess := IPv6TargetSuccess ranked,
           IPv6TargetCount := IPv6TargetCount ranked,
           IPv6ErrorType := IPv6ErrorType ranked, IPv6ErrorText := IPv6ErrorText ranked,
           CheckGeneration := 0, PingReady := True, QualityReady := True, SpeedReady := True,
           CombinedReady := True \<rparr>)"

end
