(* ===== verification/History_Storage.thy ===== *)
theory History_Storage
  imports Url_Health
begin

text \<open>
  \<open>HistoryStorage\<close> of \<open>common/urltest/urltest.go\<close>: the store the monitor publishes to and
  every reader outside the monitor loads from. Loads and stores copy the sample and its IP
  metadata, so a value of the model is what a reader holds. The update hook is a wake-up of the
  readers and is left out.
\<close>

definition LoadURLTestHistory :: "history_map \<Rightarrow> tag \<Rightarrow> url_test_history option" where
  "LoadURLTestHistory s t = pget s t"

text \<open>\<open>mergeURLTestHistory\<close> copies every field but the IP metadata.\<close>

definition mergeURLTestHistory :: "url_test_history \<Rightarrow> url_test_history \<Rightarrow> url_test_history" where
  "mergeURLTestHistory old new =
     old\<lparr> Delay := Delay new, Time := Time new, IsFromCache := IsFromCache new,
       Success := Success new, ErrorType := ErrorType new, ErrorText := ErrorText new,
       URLTestStatus := URLTestStatus new, HealthScore := HealthScore new,
       RuntimePenalty := RuntimePenalty new, RealUserPenalty := RealUserPenalty new,
       FreshnessPenalty := FreshnessPenalty new, VolatilityPenalty := VolatilityPenalty new,
       StabilityPoints := StabilityPoints new, DegradationPoints := DegradationPoints new,
       PolicyPenalty := PolicyPenalty new, UDPProbeAvailable := UDPProbeAvailable new,
       UDPPenalty := UDPPenalty new, UDPLoss := UDPLoss new, UDPJitterMs := UDPJitterMs new,
       CheckGeneration := CheckGeneration new, PingReady := PingReady new,
       QualityReady := QualityReady new, SpeedReady := SpeedReady new, UDPReady := UDPReady new,
       CombinedReady := CombinedReady new, IPv6Status := IPv6Status new,
       IPv6CheckedAt := IPv6CheckedAt new, IPv6Generation := IPv6Generation new,
       IPv6TargetSuccess := IPv6TargetSuccess new, IPv6TargetCount := IPv6TargetCount new,
       IPv6ErrorType := IPv6ErrorType new, IPv6ErrorText := IPv6ErrorText new \<rparr>"

text \<open>
  A nil pointer stored under a key that exists makes the source dereference it; the
  condition \<open>history != nil\<close> of the first branch only guards the argument.
\<close>

definition StoreURLTestHistory ::
  "history_map \<Rightarrow> tag \<Rightarrow> url_test_history option \<Rightarrow> history_map outcome" where
  "StoreURLTestHistory s t history =
     (case (map_of s t, history) of
        (Some (Some old), Some new) \<Rightarrow>
          (let updated = mergeURLTestHistory old new;
               updated = (if IpInfo new \<noteq> None then updated\<lparr> IpInfo := IpInfo new \<rparr> else updated)
           in Returned (AList.update t (Some updated) s))
      | (Some None, Some new) \<Rightarrow> Panicked
      | _ \<Rightarrow> Returned (AList.update t history s))"

definition AddOnlyIpToHistory ::
  "history_map \<Rightarrow> tag \<Rightarrow> url_test_history option \<Rightarrow> history_map outcome" where
  "AddOnlyIpToHistory s t history =
     (case (map_of s t, history) of
        (Some (Some old), Some new) \<Rightarrow>
          Returned (AList.update t (Some (old\<lparr> IpInfo := IpInfo new \<rparr>)) s)
      | (Some None, Some new) \<Rightarrow> Panicked
      | _ \<Rightarrow> Returned (AList.update t history s))"

definition DeleteURLTestHistory :: "instant \<Rightarrow> history_map \<Rightarrow> tag \<Rightarrow> history_map outcome" where
  "DeleteURLTestHistory now s t = StoreURLTestHistory s t (Some (zero_history\<lparr> Delay := 65535,
     Time := now, Success := False, ErrorType := ErrorTypeUnknown, URLTestStatus := StatusFailed,
     HealthScore := 0 \<rparr>))"

text \<open>What a store leaves for a reader: the new sample with the best known IP metadata.\<close>

definition stored :: "url_test_history option \<Rightarrow> url_test_history \<Rightarrow> url_test_history" where
  "stored old new = (case old of
     None \<Rightarrow> new
   | Some o' \<Rightarrow> new\<lparr> IpInfo := (if IpInfo new \<noteq> None then IpInfo new else IpInfo o') \<rparr>)"

lemma merge_is_new: "mergeURLTestHistory old new = new\<lparr> IpInfo := IpInfo old \<rparr>"
  by (simp add: mergeURLTestHistory_def)

lemma merge_with_ip: "(mergeURLTestHistory old new)\<lparr> IpInfo := IpInfo new \<rparr> = new"
  by (simp add: merge_is_new)

text \<open>The storage never holds a nil pointer as long as none is stored.\<close>

definition no_nil :: "history_map \<Rightarrow> bool" where
  "no_nil s \<longleftrightarrow> (\<forall>(t, h) \<in> set s. h \<noteq> None)"

lemma no_nil_lookup: "no_nil s \<Longrightarrow> map_of s t = Some h \<Longrightarrow> h \<noteq> None"
  by (auto simp: no_nil_def dest!: map_of_SomeD)

lemma no_nil_update: "no_nil s \<Longrightarrow> no_nil (AList.update t (Some h) s)"
  by (induction s) (auto simp: no_nil_def)

lemma store_result:
  assumes "no_nil s"
  shows "StoreURLTestHistory s t (Some h) = Returned (AList.update t (Some (stored (pget s t) h)) s)"
proof (cases "map_of s t")
  case None
  then show ?thesis by (simp add: StoreURLTestHistory_def stored_def pget_def)
next
  case (Some p)
  then obtain o' where "p = Some o'"
    using no_nil_lookup [OF assms Some] by auto
  then show ?thesis
    using Some by (simp add: StoreURLTestHistory_def stored_def pget_def merge_is_new)
qed

lemma store_no_nil:
  assumes "no_nil s" and "StoreURLTestHistory s t (Some h) = Returned s'"
  shows "no_nil s'"
  using assms by (auto simp: store_result no_nil_update)

lemma load_after_store:
  assumes "no_nil s" and "StoreURLTestHistory s t (Some h) = Returned s'"
  shows "LoadURLTestHistory s' u = (if u = t then Some (stored (LoadURLTestHistory s t) h)
    else LoadURLTestHistory s u)"
  using assms by (auto simp: store_result LoadURLTestHistory_def)

end
