(* ===== verification/Monitor_State.thy ===== *)
theory Monitor_State
  imports Probe_Evidence History_Storage Balancer_Common
begin

text \<open>
  The state of \<open>OutboundMonitoring\<close> (\<open>common/monitoring/outbound_monitoring.go\<close>) and its
  critical sections: every definition is what one goroutine does between taking and releasing
  the locks of an outbound, so a run of the monitor is a sequence of these operations in any
  order. Log lines are left out. Waking a group notifier through its one-slot channel is the
  flag \<open>notify\<close> of the group; the queues are lists with the capacities of the channels.
\<close>

record mon_outbound = outbound +
  OutType :: string

record outbound_state =
  st_outbound :: mon_outbound
  groupTags :: "tag list"
  dependenciesInverse :: "tag list"
  dependencies :: "tag list"
  lastURL :: string
  invalid :: bool
  queued :: bool
  priorityQueued :: bool
  testing :: bool
  testingCycle :: u64
  enqueuedCycle :: u64
  from_cache :: bool
  lastResultFromFullGeneration :: bool
  lastResultSourceKnown :: bool
  udpProbeRunning :: bool
  udpProbeLast :: instant
  activeProbeRunning :: bool
  st_history :: url_test_history
  rankingRevision :: u64
  activeProbePresentation :: "(url_test_history \<times> u64) option"

record group_state =
  grp_outbounds :: "tag list"
  notify :: bool
  completedGeneration :: u64
  completedBatch :: int

record test_task =
  taskTag :: tag
  taskCycle :: u64
  taskPriority :: bool
  taskFull :: bool
  taskDefer :: bool

record mon_config =
  mc_ipv6Mode :: domain_strategy
  mc_ipv6CapabilityTTL :: duration
  mc_mainInterval :: duration
  mc_workersCount :: int
  mc_udpProbeEnabled :: bool
  mc_udpProbeCooldown :: duration
  mc_udpProbeTopN :: nat
  mc_urls :: "string list"

record monitoring =
  cfg :: mon_config
  ctx_done :: bool
  mon_outbounds :: "(tag, outbound_state) go_map"
  mon_groups :: "(tag, group_state) go_map"
  storage :: history_map
  priorityQueue :: "test_task list"
  normalQueue :: "test_task list"
  cycleSeq :: u64
  fullCycleRequested :: bool
  currentLinkIndex :: nat
  cacheDirty :: bool
  runtimeStats :: "(tag, runtime_penalty_stats) go_map"
  runtimeTraffic :: "(tag, runtime_traffic_stats) go_map"
  manualRefreshAt :: "(tag, instant) go_map"
  udpProbeQueued :: "(tag, bool) go_map"
  udpProbeQueue :: "(tag \<times> u64) list"
  published_events :: "group_event list"

section \<open>Access\<close>

definition getState :: "monitoring \<Rightarrow> tag \<Rightarrow> outbound_state option" where
  "getState m t = map_of (mon_outbounds m) t"

definition set_state :: "tag \<Rightarrow> outbound_state \<Rightarrow> monitoring \<Rightarrow> monitoring" where
  "set_state t st m = m\<lparr> mon_outbounds := AList.update t st (mon_outbounds m) \<rparr>"

definition emitGroupEvent :: "tag list \<Rightarrow> monitoring \<Rightarrow> monitoring" where
  "emitGroupEvent tags m = fold (\<lambda>g m.
     m\<lparr> mon_groups := map (\<lambda>(k, grp). (k, if k = g then grp\<lparr> notify := True \<rparr> else grp)) (mon_groups m) \<rparr>)
     tags m"

text \<open>
  \<open>m.history.StoreURLTestHistory\<close>. The monitor stores no nil pointer, so the panic of a nil
  entry does not happen (\<open>no_nil\<close> is part of the invariant).
\<close>

definition publish :: "tag \<Rightarrow> url_test_history \<Rightarrow> monitoring \<Rightarrow> monitoring" where
  "publish t h m = (case StoreURLTestHistory (storage m) t (Some h) of
     Returned s \<Rightarrow> m\<lparr> storage := s \<rparr> | Panicked \<Rightarrow> m)"

definition advanceRankingRevision :: "outbound_state \<Rightarrow> outbound_state" where
  "advanceRankingRevision s = s\<lparr> rankingRevision := rankingRevision s + 1,
     activeProbePresentation := None \<rparr>"

text \<open>Reading the penalty drops an expired entry.\<close>

definition runtimePenaltyForTag :: "instant \<Rightarrow> tag \<Rightarrow> monitoring \<Rightarrow> int \<times> monitoring" where
  "runtimePenaltyForTag now t m =
     (case map_of (runtimeStats m) t of
        None \<Rightarrow> (0, m)
      | Some stats \<Rightarrow>
          if now - StatsUpdatedAt stats > runtimePenaltyTTL
          then (0, m\<lparr> runtimeStats := AList.delete t (runtimeStats m) \<rparr>)
          else (Penalty stats, m))"

section \<open>Generations\<close>

definition reset_history ::
  "mon_config \<Rightarrow> instant \<Rightarrow> u64 \<Rightarrow> url_test_history \<Rightarrow> url_test_history" where
  "reset_history c now generation previous =
     (let h = zero_history\<lparr> Time := now, IpInfo := IpInfo previous, URLTestStatus := StatusChecking,
            RuntimePenalty := RuntimePenalty previous, RealUserPenalty := RealUserPenalty previous,
            DegradationPoints := DegradationPoints previous,
            StabilityPoints := StabilityPoints previous,
            VolatilityPenalty := VolatilityPenalty previous,
            PolicyPenalty := PolicyPenalty previous, CheckGeneration := generation,
            IPv6Status := IPv6Status previous, IPv6CheckedAt := IPv6CheckedAt previous,
            IPv6Generation := IPv6Generation previous,
            IPv6TargetSuccess := IPv6TargetSuccess previous,
            IPv6TargetCount := IPv6TargetCount previous,
            IPv6ErrorType := IPv6ErrorType previous, IPv6ErrorText := IPv6ErrorText previous \<rparr>
      in if mc_ipv6Mode c \<noteq> DomainStrategyIPv4Only
            \<and> \<not> IPv6CapabilityFresh (Some previous) now (mc_ipv6CapabilityTTL c)
         then h\<lparr> IPv6Status := IPv6StatusChecking \<rparr> else h)"

definition resetOutboundCheckState :: "instant \<Rightarrow> u64 \<Rightarrow> tag \<Rightarrow> monitoring \<Rightarrow> monitoring" where
  "resetOutboundCheckState now generation t m =
     (case getState m t of
        None \<Rightarrow> m
      | Some st \<Rightarrow>
          (let st = st\<lparr> st_history := reset_history (cfg m) now generation (st_history st),
                 lastResultFromFullGeneration := False, lastResultSourceKnown := True \<rparr>;
               st = (advanceRankingRevision st)\<lparr> from_cache := False, invalid := False, queued := False,
                 priorityQueued := False, enqueuedCycle := 0, udpProbeLast := 0 \<rparr>;
               m = set_state t st m;
               m = m\<lparr> udpProbeQueued := AList.delete t (udpProbeQueued m) \<rparr>;
               m = publish t (st_history st) m
           in emitGroupEvent (groupTags st) m))"

definition beginCheckGeneration :: "instant \<Rightarrow> u64 \<Rightarrow> tag list \<Rightarrow> monitoring \<Rightarrow> monitoring" where
  "beginCheckGeneration now generation tags m = fold (resetOutboundCheckState now generation) tags m"

section \<open>Tasks\<close>

abbreviation (input) priorityCapacity :: nat where "priorityCapacity \<equiv> 1000"
abbreviation (input) normalCapacity :: nat where "normalCapacity \<equiv> 10000"

definition enqueueTask :: "instant \<Rightarrow> test_task \<Rightarrow> monitoring \<Rightarrow> bool \<times> monitoring" where
  "enqueueTask now task m =
     (if ctx_done m then (False, m)
      else case getState m (taskTag task) of
        None \<Rightarrow> (False, m)
      | Some st \<Rightarrow>
          (let his = st_history st in
           if CheckGeneration his > 0 \<and> CheckGeneration his \<noteq> taskCycle task then (False, m)
           else if taskPriority task \<and> priorityQueued st then (False, m)
           else if \<not> taskPriority task \<and> enqueuedCycle st = taskCycle task then (False, m)
           else
             (let st1 = (if taskPriority task then st\<lparr> priorityQueued := True \<rparr>
                    else st\<lparr> enqueuedCycle := taskCycle task, queued := True \<rparr>);
                  preserve = (URLTestStatus his = StatusFailed
                    \<or> (\<not> taskFull task \<and> lastResultSourceKnown st \<and> lastResultFromFullGeneration st));
                  st2 = (if preserve then st1
                    else st1\<lparr> st_history := his\<lparr> URLTestStatus := StatusChecking, Time := now,
                           CheckGeneration := taskCycle task \<rparr> \<rparr>)
              in if taskPriority task \<and> length (priorityQueue m) < priorityCapacity
                 then (let m = set_state (taskTag task) st2
                                 (m\<lparr> priorityQueue := priorityQueue m @ [task] \<rparr>)
                       in (True, if taskDefer task then m else emitGroupEvent (groupTags st) m))
                 else if \<not> taskPriority task \<and> length (normalQueue m) < normalCapacity
                 then (let m = set_state (taskTag task) st2
                                 (m\<lparr> normalQueue := normalQueue m @ [task] \<rparr>)
                       in (True, if taskDefer task then m else emitGroupEvent (groupTags st) m))
                 else (let st3 = st2\<lparr> st_history := (st_history st2)\<lparr>
                              URLTestStatus := URLTestStatus his, Time := Time his,
                              CheckGeneration := CheckGeneration his \<rparr> \<rparr>;
                           st3 = (if taskPriority task then st3\<lparr> priorityQueued := False \<rparr>
                                  else st3\<lparr> queued := False, enqueuedCycle := 0 \<rparr>)
                       in (False, set_state (taskTag task) st3 m)))))"

text \<open>
  A worker takes a task, marks the outbound, tests it and clears the mark; the result is
  committed by \<open>applyResult\<close> before the mark is cleared.
\<close>

definition take_task :: "monitoring \<Rightarrow> (test_task \<times> monitoring) option" where
  "take_task m = (case priorityQueue m of
     task # rest \<Rightarrow> Some (task, m\<lparr> priorityQueue := rest \<rparr>)
   | [] \<Rightarrow> (case normalQueue m of
        task # rest \<Rightarrow> Some (task, m\<lparr> normalQueue := rest \<rparr>)
      | [] \<Rightarrow> None))"

definition mark_testing :: "tag \<Rightarrow> u64 \<Rightarrow> monitoring \<Rightarrow> monitoring" where
  "mark_testing t cycleID m = (case getState m t of None \<Rightarrow> m
     | Some st \<Rightarrow> set_state t (st\<lparr> testing := True, testingCycle := cycleID \<rparr>) m)"

definition clear_testing :: "tag \<Rightarrow> u64 \<Rightarrow> monitoring \<Rightarrow> monitoring" where
  "clear_testing t cycleID m = (case getState m t of None \<Rightarrow> m
     | Some st \<Rightarrow> if testingCycle st = cycleID
         then set_state t (st\<lparr> testing := False, testingCycle := 0 \<rparr>) m else m)"

definition committed_history ::
  "instant \<Rightarrow> duration \<Rightarrow> outbound_state \<Rightarrow> test_outcome \<Rightarrow> url_test_history \<Rightarrow> url_test_history" where
  "committed_history now cooldown st outcome new =
     (let previous = st_history st;
          h = previous\<lparr> Delay := Delay new, Time := Time new, IsFromCache := False,
            Success := Success new, ErrorType := ErrorType new, ErrorText := ErrorText new,
            URLTestStatus := ResultStatus (Success new), HealthScore := HealthScore new,
            RuntimePenalty := RuntimePenalty new, FreshnessPenalty := FreshnessPenalty new,
            PolicyPenalty := PolicyPenalty new, CheckGeneration := outcomeCycle outcome,
            PingReady := True, QualityReady := True, SpeedReady := True, CombinedReady := True,
            IPv6Status := IPv6Status new, IPv6CheckedAt := IPv6CheckedAt new,
            IPv6Generation := outcomeCycle outcome,
            IPv6TargetSuccess := IPv6TargetSuccess new, IPv6TargetCount := IPv6TargetCount new,
            IPv6ErrorType := IPv6ErrorType new, IPv6ErrorText := IPv6ErrorText new \<rparr>;
          h = applyProbeEvidenceWithRecovery now (outcomeTag outcome) h previous (outcomeFull outcome);
          h = (if IsZero (udpProbeLast st) \<or> now - udpProbeLast st > cooldown * 3
               then h\<lparr> UDPProbeAvailable := False, UDPPenalty := 0, UDPLoss := 0, UDPJitterMs := 0,
                      UDPReady := False \<rparr>
               else refreshHealthScore now (outcomeTag outcome)
                      (h\<lparr> UDPProbeAvailable := UDPProbeAvailable previous,
                         UDPPenalty := UDPPenalty previous, UDPLoss := UDPLoss previous,
                         UDPJitterMs := UDPJitterMs previous, UDPReady := True \<rparr>) False)
      in if IpInfo new \<noteq> None then h\<lparr> IpInfo := IpInfo new \<rparr> else h)"

definition applyResult ::
  "instant \<Rightarrow> test_outcome \<Rightarrow> monitoring \<Rightarrow> url_test_history option \<times> monitoring" where
  "applyResult now outcome m =
     (if ctx_done m then (None, m)
      else case getState m (outcomeTag outcome) of
        None \<Rightarrow> (None, m)
      | Some st \<Rightarrow>
          (let his = st_history st; t = outcomeTag outcome in
           if CheckGeneration his > 0 \<and> outcomeCycle outcome \<noteq> CheckGeneration his then (None, m)
           else if \<not> outcomeFull outcome \<and> Success (outcomeHistory outcome)
                   \<and> (lastResultFromFullGeneration st \<or> URLTestStatus his = StatusFailed)
           then (let st = (if outcomePriority outcome then st\<lparr> priorityQueued := False \<rparr>
                           else st\<lparr> queued := False, enqueuedCycle := 0 \<rparr>)
                 in (Some his, set_state t st m))
           else
             (let new = normalizeTerminalHistory now t (outcomeHistory outcome) (outcomeErr outcome);
                  dirty = (Delay new \<noteq> Delay his \<or> IpInfo his = None \<or> IpInfo new \<noteq> None
                    \<or> HealthScore new \<noteq> HealthScore his \<or> ErrorType new \<noteq> ErrorType his);
                  h = committed_history now (mc_udpProbeCooldown (cfg m)) st outcome new;
                  st = st\<lparr> queued := False, priorityQueued := False, enqueuedCycle := 0,
                    invalid := (outcomeErr outcome \<noteq> None), lastURL := outcomeUrl outcome,
                    lastResultFromFullGeneration := outcomeFull outcome,
                    lastResultSourceKnown := True, from_cache := False, st_history := h \<rparr>;
                  st = advanceRankingRevision st;
                  m = set_state t st (m\<lparr> cacheDirty := (cacheDirty m \<or> dirty) \<rparr>);
                  m = publish t h m
              in (Some h, if outcomeDefer outcome then m else emitGroupEvent (groupTags st) m))))"

definition InvalidateTest :: "instant \<Rightarrow> tag \<Rightarrow> monitoring \<Rightarrow> bool \<times> monitoring" where
  "InvalidateTest now t m =
     (case getState m t of
        None \<Rightarrow> (False, m)
      | Some st \<Rightarrow>
          (let m = set_state t (st\<lparr> invalid := True \<rparr>) m
           in (True, snd (enqueueTask now \<lparr> taskTag = t, taskCycle = cycleSeq m, taskPriority = True,
                taskFull = False, taskDefer = False \<rparr> m))))"

definition invalidateIPv6 :: "url_test_history \<Rightarrow> url_test_history" where
  "invalidateIPv6 h = h\<lparr> IPv6Status := IPv6StatusNotTested, IPv6CheckedAt := 0, IPv6Generation := 0,
     IPv6TargetSuccess := 0, IPv6TargetCount := 0, IPv6ErrorType := [], IPv6ErrorText := [] \<rparr>"

definition invalidateIPv6Capabilities :: "monitoring \<Rightarrow> monitoring" where
  "invalidateIPv6Capabilities m =
     (let m = fold (\<lambda>(t, _) m.
            if map_of (mon_groups m) t \<noteq> None then m
            else (case getState m t of None \<Rightarrow> m
              | Some st \<Rightarrow>
                  (let h = invalidateIPv6 (st_history st);
                       m = set_state t (st\<lparr> st_history := h \<rparr>) m;
                       m = publish t h m
                   in emitGroupEvent (groupTags st) m))) (mon_outbounds m) m
      in m\<lparr> cacheDirty := True \<rparr>)"

end
