(* ===== verification/Monitor_Evidence.thy ===== *)
theory Monitor_Evidence
  imports Monitor_State
begin

text \<open>
  The evidence that reaches an outbound outside the checks of a generation: errors, successes
  and byte counts of user traffic, the UDP probe, and the isolated probe of the active outbound
  (\<open>RecordRuntimeError\<close>, \<open>RecordRuntimeSuccess\<close>, \<open>RecordRuntimeTraffic\<close>, the UDP queue and
  \<open>PublishActiveProbePresentation\<close>).
\<close>

section \<open>User traffic\<close>

definition pruneRuntimeTraffic :: "instant \<Rightarrow> monitoring \<Rightarrow> monitoring" where
  "pruneRuntimeTraffic now m = m\<lparr> runtimeTraffic := range_delete (\<lambda>t stats.
     now - TrafficUpdatedAt stats > runtimeTrafficTTL \<or> map_of (mon_outbounds m) t = None)
     (runtimeTraffic m) \<rparr>"

definition traffic_of :: "monitoring \<Rightarrow> tag \<Rightarrow> runtime_traffic_stats" where
  "traffic_of m t = get_or zero_traffic (runtimeTraffic m) t"

definition maybeQueueRuntimeValidationProbe :: "instant \<Rightarrow> tag \<Rightarrow> monitoring \<Rightarrow> monitoring" where
  "maybeQueueRuntimeValidationProbe now t m =
     (if t = [] \<or> ctx_done m then m
      else
        (let m = pruneRuntimeTraffic now m;
             traffic = (traffic_of m t)\<lparr> TrafficUpdatedAt := now \<rparr>
         in if \<not> IsZero (LastProbeAt traffic)
               \<and> now - LastProbeAt traffic < runtimeTrafficValidationProbeCooldown
            then m\<lparr> runtimeTraffic := AList.update t traffic (runtimeTraffic m) \<rparr>
            else (let traffic = traffic\<lparr> LastProbeAt := now \<rparr>;
                      m = m\<lparr> runtimeTraffic := AList.update t traffic (runtimeTraffic m) \<rparr>
                  in snd (InvalidateTest now t m))))"

text \<open>The statistics after one more error of a type, with the burst score of the window.\<close>

definition record_error_stats ::
  "instant \<Rightarrow> string \<Rightarrow> runtime_penalty_stats option \<Rightarrow> runtime_penalty_stats \<times> int" where
  "record_error_stats now errorType old =
     (let stats = (case old of None \<Rightarrow> zero_stats
            | Some s \<Rightarrow> if now - StatsUpdatedAt s > runtimePenaltyTTL then zero_stats else s);
          stats = incrementRuntimeStats stats errorType;
          (stats, burstScore) = updateRuntimeBurst stats errorType now;
          stats = stats\<lparr> StatsUpdatedAt := now \<rparr>;
          stats = stats\<lparr> Penalty := calculateRuntimePenalty stats \<rparr>
      in (stats, burstScore))"

definition runtime_error_history ::
  "instant \<Rightarrow> tag \<Rightarrow> bool \<Rightarrow> string \<Rightarrow> int \<Rightarrow> int \<Rightarrow> url_test_history \<Rightarrow> url_test_history" where
  "runtime_error_history now t fromCache errorType burstScore penalty h =
     (let degradationDelta = runtimeDegradationForError errorType
            + runtimeBurstDegradationBoost burstScore;
          realUserDelta = runtimeRealUserPenaltyForError errorType
            + runtimeBurstRealUserBoost burstScore;
          h = h\<lparr> DegradationPoints := clampHealthPoints (DegradationPoints h + degradationDelta),
            RealUserPenalty := clampHealthPenalty (RealUserPenalty h + realUserDelta),
            StabilityPoints := clampStability (StabilityPoints h
                                 - runtimeStabilityLossForError errorType),
            VolatilityPenalty := clampHealthPenalty (VolatilityPenalty h + 2),
            RuntimePenalty := penalty \<rparr>
      in refreshHealthScore now t h fromCache)"

definition RecordRuntimeError :: "instant \<Rightarrow> tag \<Rightarrow> go_error option \<Rightarrow> monitoring \<Rightarrow> monitoring" where
  "RecordRuntimeError now t err m =
     (if t = [] \<or> err = None then m
      else
        (let (errorType, errorText) = ClassifyProbeError err
         in if \<not> ShouldApplyRuntimePenalty errorType False then m
            else case getState m t of
              None \<Rightarrow> m
            | Some st \<Rightarrow>
                (let (stats, burstScore) = record_error_stats now errorType (map_of (runtimeStats m) t);
                     m = m\<lparr> runtimeStats := AList.update t stats (runtimeStats m) \<rparr>;
                     h = runtime_error_history now t (from_cache st) errorType burstScore
                           (Penalty stats) (st_history st);
                     m = set_state t (st\<lparr> st_history := h, invalid := True \<rparr>) m;
                     m = publish t h m;
                     m = emitGroupEvent (groupTags st) m
                 in maybeQueueRuntimeValidationProbe now t m)))"

definition publish_if_changed ::
  "tag \<Rightarrow> url_test_history \<Rightarrow> url_test_history \<Rightarrow> tag list \<Rightarrow> monitoring \<Rightarrow> monitoring" where
  "publish_if_changed t old new gs m =
     (if RealUserPenalty old = RealUserPenalty new \<and> DegradationPoints old = DegradationPoints new
      then m else emitGroupEvent gs (publish t new m))"

definition RecordRuntimeSuccess :: "instant \<Rightarrow> tag \<Rightarrow> monitoring \<Rightarrow> monitoring" where
  "RecordRuntimeSuccess now t m =
     (if t = [] then m
      else case getState m t of
        None \<Rightarrow> m
      | Some st \<Rightarrow>
          (let h = st_history st;
               h = h\<lparr> RealUserPenalty := clampHealthPenalty (RealUserPenalty h - 2),
                 DegradationPoints := clampHealthPoints (DegradationPoints h - 3),
                 StabilityPoints := clampStability (StabilityPoints h + 2),
                 VolatilityPenalty := clampHealthPenalty (VolatilityPenalty h - 1) \<rparr>;
               h = refreshHealthScore now t h (from_cache st);
               m = set_state t (st\<lparr> st_history := h \<rparr>) m
           in publish_if_changed t (st_history st) h (groupTags st) m))"

text \<open>The traffic counters after one sample, and whether the upload looks stalled.\<close>

definition traffic_sample ::
  "instant \<Rightarrow> int \<Rightarrow> bool \<Rightarrow> runtime_traffic_stats \<Rightarrow> runtime_traffic_stats \<times> bool" where
  "traffic_sample now bytes download traffic =
     (let traffic = traffic\<lparr> TrafficUpdatedAt := now \<rparr>
      in if download
         then (traffic\<lparr> DownloadBytes := DownloadBytes traffic + bytes, LastDownloadAt := now,
                 UploadOnlySamples := 0, CleanSamples := CleanSamples traffic + 1 \<rparr>, False)
         else (let traffic = traffic\<lparr> UploadBytes := UploadBytes traffic + bytes, LastUploadAt := now \<rparr>
               in if bytes \<ge> runtimeTrafficStallMinUploadBytes
                     \<and> (IsZero (LastDownloadAt traffic)
                        \<or> now - LastDownloadAt traffic \<ge> runtimeTrafficStallNoDownloadWindow)
                  then (let traffic = traffic\<lparr> UploadOnlySamples := UploadOnlySamples traffic + 1 \<rparr>
                        in (traffic, UploadOnlySamples traffic \<ge> runtimeTrafficStallEvidenceThreshold))
                  else (traffic, False)))"

definition RecordRuntimeTraffic ::
  "instant \<Rightarrow> tag \<Rightarrow> int \<Rightarrow> bool \<Rightarrow> monitoring \<Rightarrow> monitoring" where
  "RecordRuntimeTraffic now t bytes download m =
     (if t = [] \<or> bytes \<le> 0 then m
      else case getState m t of
        None \<Rightarrow> m
      | Some st \<Rightarrow>
          (let m = pruneRuntimeTraffic now m;
               (traffic, shouldValidate) = traffic_sample now bytes download (traffic_of m t);
               m = m\<lparr> runtimeTraffic := AList.update t traffic (runtimeTraffic m) \<rparr>
           in if \<not> download \<and> shouldValidate
              then (let h = st_history st;
                        h = h\<lparr> DegradationPoints := clampHealthPoints (DegradationPoints h + 12),
                          RealUserPenalty := clampHealthPenalty (RealUserPenalty h + 6),
                          VolatilityPenalty := clampHealthPenalty (VolatilityPenalty h + 2) \<rparr>;
                        h = refreshHealthScore now t h (from_cache st);
                        m = set_state t (st\<lparr> invalid := True, st_history := h \<rparr>) m;
                        m = publish t h m;
                        m = emitGroupEvent (groupTags st) m
                    in maybeQueueRuntimeValidationProbe now t m)
              else if \<not> download then m
              else (let h = st_history st;
                        h = h\<lparr> RealUserPenalty := clampHealthPenalty (RealUserPenalty h - 2),
                          DegradationPoints := clampHealthPoints (DegradationPoints h - 2),
                          StabilityPoints := clampStability (StabilityPoints h + 1) \<rparr>;
                        h = refreshHealthScore now t h (from_cache st);
                        m = set_state t (st\<lparr> st_history := h \<rparr>) m
                    in publish_if_changed t (st_history st) h (groupTags st) m)))"

definition getRuntimeHistoryScore :: "outbound_state option \<Rightarrow> int" where
  "getRuntimeHistoryScore st = (case st of None \<Rightarrow> 0 | Some st \<Rightarrow> HealthScore (st_history st))"

section \<open>The UDP probe queue\<close>

definition isUDPProbeCandidate :: "mon_outbound \<Rightarrow> bool" where
  "isUDPProbeCandidate out \<longleftrightarrow> OutType out \<notin> {''direct'', ''block'', ''dns''}
     \<and> NetworkUDP \<in> set (Networks out)"

definition clearUDPProbeQueued :: "tag \<Rightarrow> monitoring \<Rightarrow> monitoring" where
  "clearUDPProbeQueued t m =
     (let m = m\<lparr> udpProbeQueued := AList.delete t (udpProbeQueued m) \<rparr>
      in case getState m t of None \<Rightarrow> m | Some st \<Rightarrow> set_state t (st\<lparr> udpProbeRunning := False \<rparr>) m)"

text \<open>The \<open>select\<close> of the source may take the branch of a done context or send; it sends here.\<close>

definition enqueueUDPProbe :: "instant \<Rightarrow> tag \<Rightarrow> u64 \<Rightarrow> monitoring \<Rightarrow> monitoring" where
  "enqueueUDPProbe now t generation m =
     (case getState m t of
        None \<Rightarrow> m
      | Some st \<Rightarrow>
          if CheckGeneration (st_history st) \<noteq> generation then m
          else if udpProbeRunning st \<or> (\<not> IsZero (udpProbeLast st)
                  \<and> now - udpProbeLast st < mc_udpProbeCooldown (cfg m)) then m
          else
            (let m = set_state t (st\<lparr> udpProbeRunning := True \<rparr>) m
             in if get_or False (udpProbeQueued m) t
                then set_state t (st\<lparr> udpProbeRunning := False \<rparr>) m
                else (let m = m\<lparr> udpProbeQueued := AList.update t True (udpProbeQueued m) \<rparr>
                      in if length (udpProbeQueue m) < 64
                         then m\<lparr> udpProbeQueue := udpProbeQueue m @ [(t, generation)] \<rparr>
                         else clearUDPProbeQueued t m)))"

definition udp_candidate_less :: "test_outcome \<Rightarrow> test_outcome \<Rightarrow> bool" where
  "udp_candidate_less a b =
     (let left = HealthScore (outcomeHistory a); right = HealthScore (outcomeHistory b)
      in if left \<noteq> right then left > right else Delay (outcomeHistory a) < Delay (outcomeHistory b))"

definition scheduleUDPProbesFromOutcomes ::
  "instant \<Rightarrow> test_outcome list \<Rightarrow> monitoring \<Rightarrow> monitoring" where
  "scheduleUDPProbesFromOutcomes now outcomes m =
     (if \<not> mc_udpProbeEnabled (cfg m) \<or> outcomes = [] then m
      else
        (let candidates = filter (\<lambda>out.
               outcomeErr out = None \<and> Success (outcomeHistory out) \<and>
               (case getState m (outcomeTag out) of
                  None \<Rightarrow> False
                | Some st \<Rightarrow> isUDPProbeCandidate (st_outbound st)
                    \<and> CheckGeneration (st_history st) = outcomeCycle out
                    \<and> CombinedReady (st_history st))) outcomes;
             candidates = take (mc_udpProbeTopN (cfg m)) (slice_stable udp_candidate_less candidates)
         in fold (\<lambda>c. enqueueUDPProbe now (outcomeTag c) (outcomeCycle c)) candidates m))"

text \<open>The loop takes a task; the run looks at the generation before and after the exchange.\<close>

definition take_udp_task :: "monitoring \<Rightarrow> ((tag \<times> u64) \<times> monitoring) option" where
  "take_udp_task m = (case udpProbeQueue m of [] \<Rightarrow> None
     | (t, g) # rest \<Rightarrow> Some ((t, g), m\<lparr> udpProbeQueue := rest,
         udpProbeQueued := AList.delete t (udpProbeQueued m) \<rparr>))"

definition start_udp_probe :: "tag \<times> u64 \<Rightarrow> monitoring \<Rightarrow> bool \<times> monitoring" where
  "start_udp_probe task m =
     (case getState m (fst task) of
        None \<Rightarrow> (False, m)
      | Some st \<Rightarrow> if CheckGeneration (st_history st) \<noteq> snd task
          then (False, set_state (fst task) (st\<lparr> udpProbeRunning := False \<rparr>) m)
          else (True, m))"

definition udp_probed_history ::
  "instant \<Rightarrow> tag \<Rightarrow> bool \<Rightarrow> udp_probe_result \<Rightarrow> url_test_history \<Rightarrow> url_test_history" where
  "udp_probed_history now t fromCache r h =
     refreshHealthScore now t (h\<lparr> UDPProbeAvailable := Available r, UDPPenalty := ProbePenalty r,
       UDPLoss := Loss r, UDPJitterMs := JitterMs r, UDPReady := True \<rparr>) fromCache"

definition finish_udp_probe ::
  "instant \<Rightarrow> tag \<times> u64 \<Rightarrow> udp_probe_result \<Rightarrow> monitoring \<Rightarrow> monitoring" where
  "finish_udp_probe now task r m =
     (case getState m (fst task) of
        None \<Rightarrow> m
      | Some st \<Rightarrow>
          if CheckGeneration (st_history st) \<noteq> snd task
          then set_state (fst task) (st\<lparr> udpProbeRunning := False \<rparr>) m
          else
            (let h = udp_probed_history now (fst task) (from_cache st) r (st_history st);
                 st = advanceRankingRevision (st\<lparr> udpProbeRunning := False,
                   udpProbeLast := UpdatedAt r, st_history := h \<rparr>);
                 m = set_state (fst task) st m;
                 m = publish (fst task) h m;
                 m = m\<lparr> cacheDirty := True \<rparr>
             in emitGroupEvent (groupTags st) m))"

section \<open>The isolated probe of the active outbound\<close>

text \<open>
  The probe reads the state it is bound to under the lock, runs without it and clears the
  mark. \<open>ready\<close> tells that the outbound is ready, \<open>delay\<close> and \<open>err\<close> are the outcome of the
  bounded URL test (a timeout is \<open>context.DeadlineExceeded\<close>) and \<open>udp\<close> that of the UDP probe.
\<close>

definition begin_active_probe ::
  "tag \<Rightarrow> monitoring \<Rightarrow> (outbound_state option) option \<times> monitoring" where
  "begin_active_probe t m =
     (case getState m t of
        None \<Rightarrow> (Some None, m)
      | Some st \<Rightarrow> if activeProbeRunning st then (None, m)
          else (Some (Some st), set_state t (st\<lparr> activeProbeRunning := True \<rparr>) m))"

definition end_active_probe :: "tag \<Rightarrow> monitoring \<Rightarrow> monitoring" where
  "end_active_probe t m = (case getState m t of None \<Rightarrow> m
     | Some st \<Rightarrow> set_state t (st\<lparr> activeProbeRunning := False \<rparr>) m)"

definition active_probe_sample ::
  "instant \<Rightarrow> int \<Rightarrow> bool \<Rightarrow> tag \<Rightarrow> outbound_state \<Rightarrow> bool \<Rightarrow> u16 \<Rightarrow> go_error option \<Rightarrow>
   udp_probe_result \<Rightarrow> active_probe_result \<times> go_error option" where
  "active_probe_sample now penalty udpEnabled t st ready delay err udp =
     (let previous = st_history st;
          result = \<lparr> ProbedTag = t, ProbedHistory = zero_history, UDPAttempted = False,
            UDPErrorType = [], ProbedRevision = rankingRevision st \<rparr>;
          failed = (\<lambda>e. (result\<lparr> ProbedHistory := newActiveProbeFailure now penalty t previous e \<rparr>, Some e))
      in if \<not> ready then failed (plain_error ''outbound is not ready'')
         else (let err = (if err = None \<and> (delay = 0 \<or> delay \<ge> TimeoutDelay)
                   then Some (plain_error ''active outbound URL test returned invalid delay'') else err)
               in case err of
                    Some e \<Rightarrow> failed e
                  | None \<Rightarrow>
                      if udpEnabled \<and> isUDPProbeCandidate (st_outbound st)
                      then (result\<lparr> UDPAttempted := True, UDPErrorType := ProbeErrorType udp,
                              ProbedHistory := activeProbeSuccess now penalty t previous delay (Some udp) \<rparr>,
                            None)
                      else (result\<lparr> ProbedHistory := activeProbeSuccess now penalty t previous delay None \<rparr>,
                            None)))"

definition PublishActiveProbePresentation ::
  "instant \<Rightarrow> active_probe_result \<Rightarrow> monitoring \<Rightarrow> bool \<times> monitoring" where
  "PublishActiveProbePresentation now result m =
     (let t = ProbedTag result; sample = ProbedHistory result in
      if t = [] \<or> IsZero (Time sample) then (False, m)
      else case getState m t of
        None \<Rightarrow> (False, m)
      | Some st \<Rightarrow>
          if ProbedRevision result \<noteq> rankingRevision st then (False, m)
          else if (case activeProbePresentation st of None \<Rightarrow> False
                   | Some (current, _) \<Rightarrow> \<not> After (Time sample) (Time current)) then (False, m)
          else
            (let m = set_state t (st\<lparr> activeProbePresentation :=
                       Some (sample, ProbedRevision result) \<rparr>) m;
                 presentation = mergeActiveProbePresentation sample (st_history st);
                 (penalty, m) = (if CheckGeneration presentation > 0 \<and> \<not> CombinedReady presentation
                   then (0, m) else runtimePenaltyForTag now t m);
                 presentation = applyDynamicHealth now penalty t presentation;
                 m = publish t presentation m
             in (True, emitGroupEvent (groupTags st) m)))"

text \<open>A refresh of one server: the isolated probe, published unless one was running.\<close>

definition testSingleOutbound ::
  "instant \<Rightarrow> tag \<Rightarrow> bool \<Rightarrow> u16 \<Rightarrow> go_error option \<Rightarrow> udp_probe_result \<Rightarrow> monitoring \<Rightarrow>
   go_error option \<times> monitoring" where
  "testSingleOutbound now t ready delay err udp m =
     (case begin_active_probe t m of
        (None, m) \<Rightarrow> (None, m)
      | (Some None, m) \<Rightarrow> (Some (plain_error ''outbound not registered''), m)
      | (Some (Some st), m) \<Rightarrow>
          (let (penalty, m) = runtimePenaltyForTag now t m;
               (result, failure) = active_probe_sample now penalty (mc_udpProbeEnabled (cfg m)) t st
                 ready delay err udp;
               m = end_active_probe t m
           in (failure, snd (PublishActiveProbePresentation now result m))))"

end
