(* ===== verification/Monitor_View.thy ===== *)
theory Monitor_View
  imports Monitor_Evidence
begin

text \<open>
  The two views of a history the monitor gives out: the presentation view, which a fresh
  isolated probe may overlay, and the ranking view the selection reads
  (\<open>getURLTest\<close>, \<open>getMinGroupOutboundHistory\<close>, \<open>OutboundsHistory\<close>, \<open>OutboundsRankingHistory\<close>).
  Reading a view drops expired runtime statistics; \<open>expired_drop_unobservable\<close> shows that no
  later reading can tell, so the views return the history alone.
\<close>

definition dynamic_view :: "instant \<Rightarrow> monitoring \<Rightarrow> tag \<Rightarrow> url_test_history \<Rightarrow> url_test_history" where
  "dynamic_view now m t his = applyDynamicHealth now (fst (runtimePenaltyForTag now t m)) t his"

definition leaf_view ::
  "instant \<Rightarrow> monitoring \<Rightarrow> tag \<Rightarrow> outbound_state \<Rightarrow> bool \<Rightarrow> url_test_history" where
  "leaf_view now m t st includeActiveProbe =
     (let his = st_history st;
          his = (if \<not> includeActiveProbe \<and> lastResultSourceKnown st
                    \<and> \<not> lastResultFromFullGeneration st \<and> CheckGeneration his > 0
                 then (let his = his\<lparr> CombinedReady := False \<rparr>
                       in if Success his then his\<lparr> URLTestStatus := StatusChecking \<rparr> else his)
                 else his);
          overlaid = (case activeProbePresentation st of
              None \<Rightarrow> None
            | Some (h, revision) \<Rightarrow>
                if includeActiveProbe \<and> revision = rankingRevision st then Some h else None);
          his = (case overlaid of None \<Rightarrow> his | Some h \<Rightarrow> mergeActiveProbePresentation h his);
          his = (if URLTestStatus his = [] then his\<lparr> URLTestStatus := inferURLTestStatus his \<rparr> else his);
          his = (if overlaid = None then his\<lparr> IsFromCache := from_cache st \<rparr> else his)
      in dynamic_view now m t his)"

text \<open>The best history of a group; a nil history or a delay of 0 is skipped.\<close>

definition improve ::
  "url_test_history option \<Rightarrow> url_test_history \<Rightarrow> url_test_history option" where
  "improve best his =
     (case best of
        None \<Rightarrow> Some his
      | Some b \<Rightarrow> if preferHistory (Some his) (Some b) then Some his
          else if IpInfo b = None then Some (b\<lparr> IpInfo := IpInfo his \<rparr>) else Some b)"

definition min_group_step ::
  "url_test_history option \<Rightarrow> url_test_history option \<times> url_test_history option
    \<Rightarrow> url_test_history option \<times> url_test_history option" where
  "min_group_step his acc =
     (case his of
        None \<Rightarrow> acc
      | Some h \<Rightarrow> if Delay h = 0 then acc
          else if \<not> IsFromCache h then (improve (fst acc) h, snd acc)
          else (fst acc, improve (snd acc) h))"

definition min_group_history :: "url_test_history option list \<Rightarrow> url_test_history option" where
  "min_group_history hs =
     (let (minHis, minHisFromCache) = fold min_group_step hs (None, None)
      in case minHis of
           None \<Rightarrow> minHisFromCache
         | Some h \<Rightarrow>
             if Delay h \<ge> TimeoutDelay then minHisFromCache
             else (case minHisFromCache of
                     Some c \<Rightarrow> if IpInfo h = None then Some (h\<lparr> IpInfo := IpInfo c \<rparr>) else Some h
                   | None \<Rightarrow> Some h))"

text \<open>
  Groups may contain groups. \<open>real_of\<close> is \<open>RealTag\<close>, the current choice of a group outbound. The
  first argument bounds the depth; \<open>None\<close> is a depth that did not suffice, which
  \<open>view_returns\<close> excludes for every profile without a cycle.
\<close>

fun getURLTest ::
  "nat \<Rightarrow> instant \<Rightarrow> (mon_outbound \<Rightarrow> tag) \<Rightarrow> monitoring \<Rightarrow> bool \<Rightarrow> tag \<Rightarrow> url_test_history option option" where
  "getURLTest 0 now real_of m includeActiveProbe t = None"
| "getURLTest (Suc n) now real_of m includeActiveProbe t =
     (case getState m t of
        None \<Rightarrow> Some None
      | Some st \<Rightarrow>
          (case map_of (mon_groups m) t of
             None \<Rightarrow> Some (Some (leaf_view now m t st includeActiveProbe))
           | Some grp \<Rightarrow>
               (let realtag = real_of (st_outbound st)
                in if realtag \<noteq> [] \<and> realtag \<noteq> t
                   then getURLTest n now real_of m includeActiveProbe realtag
                   else map_option min_group_history
                          (those (map (getURLTest n now real_of m includeActiveProbe)
                                   (grp_outbounds grp))))))"

definition outboundsHistory ::
  "nat \<Rightarrow> instant \<Rightarrow> (mon_outbound \<Rightarrow> tag) \<Rightarrow> monitoring \<Rightarrow> bool \<Rightarrow> tag \<Rightarrow> history_map option" where
  "outboundsHistory n now real_of m includeActiveProbe groupTag =
     (case map_of (mon_groups m) groupTag of
        None \<Rightarrow> Some []
      | Some grp \<Rightarrow> those (map (\<lambda>t. map_option (Pair t) (getURLTest n now real_of m includeActiveProbe t))
                           (grp_outbounds grp)))"

definition OutboundsHistory ::
  "nat \<Rightarrow> instant \<Rightarrow> (mon_outbound \<Rightarrow> tag) \<Rightarrow> monitoring \<Rightarrow> tag \<Rightarrow> history_map option" where
  "OutboundsHistory n now real_of m groupTag = outboundsHistory n now real_of m True groupTag"

definition OutboundsRankingHistory ::
  "nat \<Rightarrow> instant \<Rightarrow> (mon_outbound \<Rightarrow> tag) \<Rightarrow> monitoring \<Rightarrow> tag \<Rightarrow> history_map option" where
  "OutboundsRankingHistory n now real_of m groupTag = outboundsHistory n now real_of m False groupTag"

definition OutboundHistory ::
  "nat \<Rightarrow> instant \<Rightarrow> (mon_outbound \<Rightarrow> tag) \<Rightarrow> monitoring \<Rightarrow> tag \<Rightarrow> url_test_history option option" where
  "OutboundHistory n now real_of m t = getURLTest n now real_of m True t"

section \<open>Depth\<close>

text \<open>A profile without a cycle: every group lies above its members and its current choice.\<close>

definition acyclic_profile :: "(tag \<Rightarrow> nat) \<Rightarrow> (mon_outbound \<Rightarrow> tag) \<Rightarrow> monitoring \<Rightarrow> bool" where
  "acyclic_profile level real_of m \<longleftrightarrow>
     (\<forall>t st grp. getState m t = Some st \<and> map_of (mon_groups m) t = Some grp \<longrightarrow>
        (\<forall>c \<in> set (grp_outbounds grp). level c < level t) \<and>
        (real_of (st_outbound st) \<noteq> [] \<and> real_of (st_outbound st) \<noteq> t \<longrightarrow> level (real_of (st_outbound st)) < level t))"

lemma those_map_cong:
  "(\<And>x. x \<in> set xs \<Longrightarrow> f x \<noteq> None) \<Longrightarrow> those (map f xs) = Some (map (the \<circ> f) xs)"
proof (induction xs)
  case (Cons a xs)
  moreover obtain y where "f a = Some y"
    using Cons.prems by fastforce
  ultimately show ?case by simp
qed simp

lemma view_returns:
  assumes "acyclic_profile level real_of m"
  shows "level t < n \<Longrightarrow> getURLTest n now real_of m incl t \<noteq> None"
proof (induction n arbitrary: t)
  case 0
  then show ?case by simp
next
  case (Suc n)
  have members: "getURLTest n now real_of m incl c \<noteq> None"
    if "getState m t = Some st" "map_of (mon_groups m) t = Some grp" "c \<in> set (grp_outbounds grp)" for st grp c
    using that assms Suc.IH [of c] Suc.prems unfolding acyclic_profile_def
    by (metis less_Suc_eq_le order_less_le_trans)
  have choice: "getURLTest n now real_of m incl (real_of (st_outbound st)) \<noteq> None"
    if "getState m t = Some st" "map_of (mon_groups m) t = Some grp"
      "real_of (st_outbound st) \<noteq> []" "real_of (st_outbound st) \<noteq> t" for st grp
    using that assms Suc.IH [of "real_of (st_outbound st)"] Suc.prems unfolding acyclic_profile_def
    by (metis less_Suc_eq_le order_less_le_trans)
  show ?case
    using members choice those_map_cong [where f = "getURLTest n now real_of m incl"]
    by (auto simp: Let_def simp del: not_None_eq split: option.split)
qed

section \<open>What the views depend on\<close>

lemma expired_drop_unobservable:
  assumes "snd (runtimePenaltyForTag now t m) = m'" and "now \<le> later"
  shows "fst (runtimePenaltyForTag later u m') = fst (runtimePenaltyForTag later u m)"
  using assms by (auto simp: runtimePenaltyForTag_def delete_conv split: option.splits if_splits)

lemma expired_drop_stats:
  "map_of (runtimeStats m) t = Some s \<Longrightarrow> now - StatsUpdatedAt s > runtimePenaltyTTL \<Longrightarrow> now \<le> later
    \<Longrightarrow> record_error_stats later e (Some s) = record_error_stats later e None"
  by (simp add: record_error_stats_def)

text \<open>Two monitors that agree on what a view reads give the same view.\<close>

definition same_ranking :: "monitoring \<Rightarrow> monitoring \<Rightarrow> bool" where
  "same_ranking m m' \<longleftrightarrow>
     (\<forall>t. rel_option (\<lambda>g g'. grp_outbounds g' = grp_outbounds g)
       (map_of (mon_groups m) t) (map_of (mon_groups m') t)) \<and>
     (\<forall>t. rel_option (\<lambda>s s'. st_outbound s' = st_outbound s \<and> st_history s' = st_history s \<and>
        lastResultSourceKnown s' = lastResultSourceKnown s \<and> from_cache s' = from_cache s \<and>
        lastResultFromFullGeneration s' = lastResultFromFullGeneration s)
      (getState m t) (getState m' t))"

lemma leaf_view_cong:
  assumes "fst (runtimePenaltyForTag now t m') = fst (runtimePenaltyForTag now t m)"
    and "st_history s' = st_history s" "lastResultSourceKnown s' = lastResultSourceKnown s"
      "from_cache s' = from_cache s"
      "lastResultFromFullGeneration s' = lastResultFromFullGeneration s"
  shows "leaf_view now m' t s' False = leaf_view now m t s False"
proof -
  have "(case p of None \<Rightarrow> None | Some (h, r) \<Rightarrow> if False \<and> r = v then Some h else None) = None"
    for p :: "(url_test_history \<times> u64) option" and v :: u64
    by (cases p) auto
  then show ?thesis
    unfolding leaf_view_def dynamic_view_def assms by simp
qed

lemma same_ranking_view:
  assumes same: "same_ranking m m'"
    and penalty: "\<And>t. fst (runtimePenaltyForTag now t m') = fst (runtimePenaltyForTag now t m)"
  shows "getURLTest n now real_of m' False t = getURLTest n now real_of m False t"
proof (induction n arbitrary: t)
  case 0
  then show ?case by simp
next
  case (Suc n)
  have s: "rel_option (\<lambda>s s'. st_outbound s' = st_outbound s \<and> st_history s' = st_history s \<and>
        lastResultSourceKnown s' = lastResultSourceKnown s \<and> from_cache s' = from_cache s \<and>
        lastResultFromFullGeneration s' = lastResultFromFullGeneration s) (getState m t) (getState m' t)"
    and g: "rel_option (\<lambda>g g'. grp_outbounds g' = grp_outbounds g)
       (map_of (mon_groups m) t) (map_of (mon_groups m') t)"
    using same by (simp_all add: same_ranking_def)
  have ih: "getURLTest n now real_of m' False = getURLTest n now real_of m False"
    using Suc.IH by (rule ext)
  show ?case
  proof (cases "getState m t")
    case None
    then show ?thesis using s by (cases "getState m' t") simp_all
  next
    case (Some st)
    then obtain st' where st': "getState m' t = Some st'" "st_outbound st' = st_outbound st"
      and same_fields: "st_history st' = st_history st"
        "lastResultSourceKnown st' = lastResultSourceKnown st" "from_cache st' = from_cache st"
        "lastResultFromFullGeneration st' = lastResultFromFullGeneration st"
      using s by (cases "getState m' t") simp_all
    have leaf: "leaf_view now m' t st' False = leaf_view now m t st False"
      by (rule leaf_view_cong [OF penalty same_fields])
    show ?thesis
      using g by (cases "map_of (mon_groups m) t"; cases "map_of (mon_groups m') t")
        (simp_all add: Some st' leaf ih Let_def)
  qed
qed

lemma same_ranking_histories:
  assumes "same_ranking m m'"
    and "\<And>t. fst (runtimePenaltyForTag now t m') = fst (runtimePenaltyForTag now t m)"
  shows "OutboundsRankingHistory n now real_of m' groupTag = OutboundsRankingHistory n now real_of m groupTag"
proof -
  have g: "rel_option (\<lambda>g g'. grp_outbounds g' = grp_outbounds g)
       (map_of (mon_groups m) groupTag) (map_of (mon_groups m') groupTag)"
    using assms(1) by (simp add: same_ranking_def)
  then show ?thesis
    unfolding OutboundsRankingHistory_def outboundsHistory_def same_ranking_view [OF assms]
    by (cases "map_of (mon_groups m) groupTag"; cases "map_of (mon_groups m') groupTag") simp_all
qed

end
