(* ===== verification/Monitor_Cycle.thy ===== *)
theory Monitor_Cycle
  imports Monitor_View "HOL-Library.List_Lexorder" "HOL-Library.Char_ord"
begin

text \<open>
  How the monitor runs its checks: the targets of a cycle and of a manual refresh, the batches
  of a stage, the events a completed batch publishes, the marks of a manual refresh, and what
  is restored from the cache at the start.
\<close>

section \<open>The regular cycle\<close>

definition cycle_target :: "instant \<Rightarrow> bool \<Rightarrow> monitoring \<Rightarrow> tag \<Rightarrow> outbound_state \<Rightarrow> bool" where
  "cycle_target now forceAll m t st \<longleftrightarrow>
     map_of (mon_groups m) t = None \<and> \<not> (testing st \<or> queued st \<or> priorityQueued st) \<and>
     (forceAll \<or> invalid st \<or> now - Time (st_history st) \<ge> mc_mainInterval (cfg m))"

definition collectCycleTargets :: "instant \<Rightarrow> bool \<Rightarrow> monitoring \<Rightarrow> tag list" where
  "collectCycleTargets now forceAll m =
     map fst (slice_stable (\<lambda>a b. Delay (st_history (snd a)) < Delay (st_history (snd b)))
       (filter (\<lambda>(t, st). cycle_target now forceAll m t st) (mon_outbounds m)))"

text \<open>\<open>atomic.AddUint64(&m.cycleSeq, 1)\<close>.\<close>

definition allocate_cycle :: "monitoring \<Rightarrow> u64 \<times> monitoring" where
  "allocate_cycle m = (let c = cycleSeq m + 1 in (c, m\<lparr> cycleSeq := c \<rparr>))"

text \<open>The head of \<open>runCycle\<close>: the generation, the targets and the reset.\<close>

definition start_cycle :: "instant \<Rightarrow> monitoring \<Rightarrow> u64 \<times> tag list \<times> monitoring" where
  "start_cycle now m =
     (let (cycleID, m) = allocate_cycle m;
          forceAll = fullCycleRequested m;
          m = m\<lparr> fullCycleRequested := False \<rparr>;
          tags = collectCycleTargets now forceAll m
      in if tags = [] then (cycleID, [], m)
         else (cycleID, tags, beginCheckGeneration now cycleID tags m))"

function batches :: "nat \<Rightarrow> 'a list \<Rightarrow> 'a list list" where
  "batches n xs = (if xs = [] \<or> n = 0 then [] else take n xs # batches n (drop n xs))"
  by pat_completeness auto
termination by (relation "measure (length \<circ> snd)") auto

declare batches.simps [simp del]

definition workers :: "monitoring \<Rightarrow> nat" where
  "workers m = (if mc_workersCount (cfg m) \<le> 0 then 10 else nat (mc_workersCount (cfg m)))"

definition stage_batches :: "monitoring \<Rightarrow> tag list \<Rightarrow> tag list list" where
  "stage_batches m tags = batches (workers m) tags"

text \<open>One batch of \<open>runStage\<close>: the tags of the tasks whose results it waits for.\<close>

definition enqueue_batch :: "instant \<Rightarrow> u64 \<Rightarrow> tag list \<Rightarrow> monitoring \<Rightarrow> tag list \<times> monitoring" where
  "enqueue_batch now cycleID batch m = fold (\<lambda>t (expected, m).
     if getState m t = None then (expected, m)
     else (let (ok, m) = enqueueTask now \<lparr> taskTag = t, taskCycle = cycleID, taskPriority = False,
                 taskFull = True, taskDefer = True \<rparr> m
           in (if ok then expected @ [t] else expected, m))) batch ([], m)"

text \<open>
  The groups an outbound belongs to, each once, in the order they are met; Go ranges over a
  map of them in an unspecified order.
\<close>

definition groups_of :: "monitoring \<Rightarrow> tag list \<Rightarrow> tag list" where
  "groups_of m tags = remdups (concat (map (\<lambda>t. case getState m t of None \<Rightarrow> []
     | Some st \<Rightarrow> groupTags st) tags))"

definition batch_later :: "u64 \<Rightarrow> int \<Rightarrow> group_state \<Rightarrow> bool" where
  "batch_later generation batchNumber grp \<longleftrightarrow> generation > completedGeneration grp
     \<or> (generation = completedGeneration grp \<and> batchNumber > completedBatch grp)"

definition publish_batch_to ::
  "instant \<Rightarrow> u64 \<Rightarrow> int \<Rightarrow> tag list \<Rightarrow> tag \<Rightarrow> monitoring \<Rightarrow> monitoring" where
  "publish_batch_to now generation batchNumber tags g m =
     (case map_of (mon_groups m) g of
        None \<Rightarrow> m
      | Some grp \<Rightarrow>
          (let grp = (if batch_later generation batchNumber grp
                      then grp\<lparr> completedGeneration := generation, completedBatch := batchNumber \<rparr>
                      else grp)
           in m\<lparr> mon_groups := AList.update g grp (mon_groups m),
                 published_events := published_events m @ [\<lparr> GroupTag = g, From = now, To = now,
                   BatchCompleted = True, Generation = generation, BatchNumber = batchNumber,
                   EventTags = concat (map (\<lambda>t. case getState m t of None \<Rightarrow> []
                     | Some st \<Rightarrow> map (\<lambda>_. t) (filter ((=) g) (groupTags st))) tags) \<rparr>] \<rparr>))"

definition publishCompletedBatch ::
  "instant \<Rightarrow> u64 \<Rightarrow> int \<Rightarrow> tag list \<Rightarrow> monitoring \<Rightarrow> monitoring" where
  "publishCompletedBatch now generation batchNumber tags m =
     fold (publish_batch_to now generation batchNumber tags) (groups_of m tags) m"

definition emitGroupEventsForOutbounds :: "tag list \<Rightarrow> monitoring \<Rightarrow> monitoring" where
  "emitGroupEventsForOutbounds tags m = emitGroupEvent (groups_of m tags) m"

text \<open>The debounced event of a group notifier.\<close>

definition emitGroupEventThrottled :: "instant \<Rightarrow> tag \<Rightarrow> instant \<Rightarrow> monitoring \<Rightarrow> monitoring" where
  "emitGroupEventThrottled now g since m =
     (case map_of (mon_groups m) g of
        None \<Rightarrow> m
      | Some grp \<Rightarrow> m\<lparr> published_events := published_events m @ [\<lparr> GroupTag = g, From = since,
          To = now, BatchCompleted = (completedGeneration grp > 0),
          Generation = completedGeneration grp, BatchNumber = completedBatch grp,
          EventTags = filter (\<lambda>t. case getState m t of None \<Rightarrow> False
            | Some st \<Rightarrow> \<not> Before (Time (st_history st)) since) (grp_outbounds grp) \<rparr>] \<rparr>)"

text \<open>
  After a stage: done with the first stage that has a result without an error or with the last
  URL, otherwise the next URL and a new generation for the same targets.
\<close>

definition finish_stage ::
  "instant \<Rightarrow> nat \<Rightarrow> tag list \<Rightarrow> test_outcome list \<Rightarrow> monitoring \<Rightarrow> (u64 option) \<times> monitoring" where
  "finish_stage now idx tags outcomes m =
     (let success = length (filter (\<lambda>out. outcomeErr out = None) outcomes)
      in if success > 0 \<or> int idx = int (length (mc_urls (cfg m))) - 1
         then (None, emitGroupEventsForOutbounds tags m)
         else (let m = m\<lparr> currentLinkIndex := (currentLinkIndex m + 1) mod length (mc_urls (cfg m)) \<rparr>;
                   (cycleID, m) = allocate_cycle m
               in (Some cycleID, beginCheckGeneration now cycleID tags m)))"

section \<open>Targets of a refresh\<close>

text \<open>
  The recursive \<open>walk\<close> with its call stack made explicit: the tags still to be visited, the
  ones seen, the leaves found.
\<close>

definition unseen_groups :: "monitoring \<Rightarrow> tag list \<Rightarrow> nat" where
  "unseen_groups m seen = card (fst ` set (mon_groups m) - set seen)"

lemma unseen_groups_mono: "unseen_groups m (t # seen) \<le> unseen_groups m seen"
  unfolding unseen_groups_def by (rule card_mono) auto

lemma unseen_groups_less:
  "t \<notin> set seen \<Longrightarrow> map_of (mon_groups m) t = Some grp \<Longrightarrow> unseen_groups m (t # seen) < unseen_groups m seen"
  unfolding unseen_groups_def by (rule psubset_card_mono) (force dest: map_of_SomeD)+

function walk :: "monitoring \<Rightarrow> tag list \<Rightarrow> tag list \<Rightarrow> tag list \<Rightarrow> tag list" where
  "walk m [] seen result = result"
| "walk m (t # stack) seen result =
     (if t = [] \<or> t \<in> set seen then walk m stack seen result
      else case map_of (mon_groups m) t of
        Some grp \<Rightarrow> walk m (grp_outbounds grp @ stack) (t # seen) result
      | None \<Rightarrow> if getState m t \<noteq> None then walk m stack (t # seen) (result @ [t])
          else walk m stack (t # seen) result)"
  by pat_completeness auto
termination
proof (relation "inv_image (less_than <*lex*> less_than)
    (\<lambda>(m, stack, seen, result). (unseen_groups m seen, length stack))")
  show "wf (inv_image (less_than <*lex*> less_than)
      (\<lambda>(m, stack, seen, result). (unseen_groups m seen, length stack)))"
    by (intro wf_inv_image wf_lex_prod wf_less_than)
qed (use unseen_groups_mono in \<open>auto simp: unseen_groups_less le_less\<close>)

definition collectManualRefreshTargets :: "monitoring \<Rightarrow> tag \<Rightarrow> tag list" where
  "collectManualRefreshTargets m t = sort (walk m [t] [] [])"

section \<open>Manual refresh\<close>

definition markManualRefresh :: "tag \<Rightarrow> instant \<Rightarrow> monitoring \<Rightarrow> monitoring" where
  "markManualRefresh g stamp m = m\<lparr> manualRefreshAt := AList.update g stamp (manualRefreshAt m) \<rparr>"

definition refreshed_groups :: "monitoring \<Rightarrow> tag \<Rightarrow> tag list \<Rightarrow> tag list" where
  "refreshed_groups m requestedTag tags =
     (let gs = remdups ((if map_of (mon_groups m) requestedTag \<noteq> None then [requestedTag] else [])
                 @ filter (\<lambda>g. g \<noteq> []) (groups_of m tags))
      in filter (\<lambda>g. collectManualRefreshTargets m g \<noteq> []
                   \<and> set (collectManualRefreshTargets m g) \<subseteq> set tags) gs)"

definition markManualRefreshForTargets ::
  "tag \<Rightarrow> tag list \<Rightarrow> instant \<Rightarrow> monitoring \<Rightarrow> tag list \<times> monitoring" where
  "markManualRefreshForTargets requestedTag tags stamp m =
     (let gs = refreshed_groups m requestedTag tags
      in (sort gs, fold (\<lambda>g. markManualRefresh g stamp) gs m))"

definition RecentManualRefresh :: "instant \<Rightarrow> tag \<Rightarrow> monitoring \<Rightarrow> bool" where
  "RecentManualRefresh now g m =
     (let stamp = get_or 0 (manualRefreshAt m) g in \<not> IsZero stamp \<and> now - stamp \<le> seconds 30)"

definition ConsumeRecentManualRefresh :: "instant \<Rightarrow> tag \<Rightarrow> monitoring \<Rightarrow> bool \<times> monitoring" where
  "ConsumeRecentManualRefresh now g m =
     (let stamp = get_or 0 (manualRefreshAt m) g
      in if IsZero stamp \<or> now - stamp > seconds 30 then (False, m)
         else (True, m\<lparr> manualRefreshAt := AList.delete g (manualRefreshAt m) \<rparr>))"

definition prepareManualRefreshTarget ::
  "instant \<Rightarrow> tag \<Rightarrow> u64 \<Rightarrow> monitoring \<Rightarrow> bool \<times> monitoring" where
  "prepareManualRefreshTarget now t cycleID m =
     (if ctx_done m then (False, m)
      else case getState m t of
        None \<Rightarrow> (False, m)
      | Some st \<Rightarrow>
          if CheckGeneration (st_history st) \<noteq> cycleID then (False, m)
          else (let st = st\<lparr> enqueuedCycle := cycleID, queued := True, st_history := (st_history st)\<lparr>
                      URLTestStatus := StatusChecking, Time := now, CheckGeneration := cycleID \<rparr> \<rparr>
                in (True, emitGroupEvent (groupTags st) (set_state t st m))))"

text \<open>The start of \<open>executeManualRefreshTarget\<close>; the rest is the worker's.\<close>

definition start_manual_target :: "tag \<Rightarrow> u64 \<Rightarrow> monitoring \<Rightarrow> monitoring" where
  "start_manual_target t cycleID m = (case getState m t of None \<Rightarrow> m
     | Some st \<Rightarrow> set_state t (st\<lparr> testing := True, testingCycle := cycleID, queued := False,
         enqueuedCycle := 0 \<rparr>) m)"

definition cancel_target :: "u64 \<Rightarrow> tag \<Rightarrow> monitoring \<Rightarrow> monitoring" where
  "cancel_target cycleID t m = (case getState m t of None \<Rightarrow> m
     | Some st \<Rightarrow>
         if CheckGeneration (st_history st) = cycleID
         then (let st = st\<lparr> queued := False, priorityQueued := False, enqueuedCycle := 0 \<rparr>;
                   st = (if testingCycle st = cycleID
                         then st\<lparr> testing := False, testingCycle := 0 \<rparr> else st)
               in set_state t st m)
         else m)"

definition cancelManualRefreshTargets :: "u64 \<Rightarrow> tag list \<Rightarrow> monitoring \<Rightarrow> monitoring" where
  "cancelManualRefreshTargets cycleID pending m = fold (cancel_target cycleID) pending m"

definition manualRefreshTargetTimeout :: "duration \<Rightarrow> duration" where
  "manualRefreshTargetTimeout urlTestTimeout = (if urlTestTimeout \<le> 0 then seconds 5 else urlTestTimeout)"

text \<open>The time a whole refresh may take when the caller sets none.\<close>

definition manual_refresh_timeout :: "duration \<Rightarrow> int \<Rightarrow> int \<Rightarrow> duration \<Rightarrow> duration" where
  "manual_refresh_timeout timeout workersCount targets urlTestTimeout =
     (if timeout \<le> 0
      then (let w = (if workersCount \<le> 0 then 10 else workersCount);
                batch_count = (targets + w - 1) div w;
                perTargetTimeout = manualRefreshTargetTimeout urlTestTimeout;
                timeout = perTargetTimeout * max 1 batch_count + seconds 15;
                timeout = (if timeout < seconds 30 then seconds 30 else timeout)
            in if timeout > minutes 3 then minutes 3 else timeout)
      else timeout)"

record manual_refresh_report =
  rep_total :: int
  rep_success :: int
  rep_failed :: int
  rep_pending :: int
  rep_cancelled :: int
  rep_timeout :: bool
  rep_completedTargets :: "tag list"

definition record_outcome :: "test_outcome \<Rightarrow> manual_refresh_report \<Rightarrow> manual_refresh_report" where
  "record_outcome out r =
     (let r = r\<lparr> rep_completedTargets := rep_completedTargets r @ [outcomeTag out] \<rparr>
      in if outcomeErr out = None \<and> Success (outcomeHistory out)
         then r\<lparr> rep_success := rep_success r + 1 \<rparr>
         else r\<lparr> rep_failed := rep_failed r + 1 \<rparr>)"

definition completed :: "manual_refresh_report \<Rightarrow> int" where
  "completed r = rep_success r + rep_failed r"

definition markTimeout :: "int \<Rightarrow> manual_refresh_report \<Rightarrow> manual_refresh_report" where
  "markTimeout pending r = r\<lparr> rep_timeout := True, rep_cancelled := rep_cancelled r + pending,
     rep_pending := rep_total r - completed r \<rparr>"

text \<open>\<open>TestNow\<close> on a group: one generation for its leaves, each queued with priority.\<close>

definition TestNowGroup :: "instant \<Rightarrow> tag \<Rightarrow> monitoring \<Rightarrow> bool \<times> monitoring" where
  "TestNowGroup now t m =
     (let tags = collectManualRefreshTargets m t
      in if tags = [] then (False, m)
         else (let (cycleID, m) = allocate_cycle m;
                   m = beginCheckGeneration now cycleID tags m
               in (True, fold (\<lambda>t m. snd (enqueueTask now \<lparr> taskTag = t, taskCycle = cycleID,
                     taskPriority = True, taskFull = True, taskDefer = False \<rparr> m)) tags m)))"

section \<open>The cache\<close>

text \<open>What is left of a cached sample: its time, its IP metadata and the policy penalty.\<close>

definition restored :: "url_test_history \<Rightarrow> url_test_history" where
  "restored his = his\<lparr> Delay := 0, Success := False, ErrorType := [], ErrorText := [],
     URLTestStatus := StatusNotTested, HealthScore := 0, RuntimePenalty := 0, RealUserPenalty := 0,
     FreshnessPenalty := 0, VolatilityPenalty := 0, StabilityPoints := 0, DegradationPoints := 0,
     UDPProbeAvailable := False, UDPPenalty := 0, UDPLoss := 0, UDPJitterMs := 0,
     CheckGeneration := 0, PingReady := False, QualityReady := False, SpeedReady := False,
     UDPReady := False, CombinedReady := False, IPv6Status := IPv6StatusNotTested,
     IPv6CheckedAt := 0, IPv6Generation := 0, IPv6TargetSuccess := 0, IPv6TargetCount := 0,
     IPv6ErrorType := [], IPv6ErrorText := [] \<rparr>"

definition loadHistory :: "history_map \<Rightarrow> monitoring \<Rightarrow> monitoring" where
  "loadHistory saved m = fold (\<lambda>(t, his) m. case (getState m t, his) of
       (Some st, Some h) \<Rightarrow>
         if map_of (mon_groups m) t \<noteq> None then m
         else set_state t (st\<lparr> st_history := restored h, from_cache := True \<rparr>) m
     | _ \<Rightarrow> m) saved m"

definition saved_history :: "monitoring \<Rightarrow> history_map" where
  "saved_history m = map (\<lambda>(t, st). (t, Some (st_history st))) (mon_outbounds m)"

section \<open>Registration\<close>

text \<open>
  \<open>Start\<close> in its first stage, from the outbounds and endpoints with their dependencies and,
  for a group outbound, its members. A dependency that is not registered makes the source
  dereference a nil state.
\<close>

definition new_state :: "mon_outbound \<Rightarrow> tag list \<Rightarrow> outbound_state" where
  "new_state out deps = \<lparr> st_outbound = out, groupTags = [], dependenciesInverse = [],
     dependencies = deps, lastURL = [], invalid = True, queued = False, priorityQueued = False,
     testing = False, testingCycle = 0, enqueuedCycle = 0, from_cache = False,
     lastResultFromFullGeneration = False, lastResultSourceKnown = False, udpProbeRunning = False,
     udpProbeLast = 0, activeProbeRunning = False,
     st_history = zero_history\<lparr> URLTestStatus := StatusNotTested \<rparr>, rankingRevision = 0,
     activeProbePresentation = None \<rparr>"

definition register_outbounds :: "(mon_outbound \<times> tag list) list \<Rightarrow> monitoring \<Rightarrow> monitoring" where
  "register_outbounds outs m = fold (\<lambda>(out, deps). set_state (Tag out) (new_state out deps)) outs m"

definition link_dependencies :: "monitoring \<Rightarrow> monitoring outcome" where
  "link_dependencies m = fold (\<lambda>(t, d) r. and_then r (\<lambda>m. case getState m d of
       None \<Rightarrow> Panicked
     | Some st \<Rightarrow> Returned (set_state d (st\<lparr> dependenciesInverse := dependenciesInverse st @ [t] \<rparr>) m)))
     (concat (map (\<lambda>(t, st). map (Pair t) (dependencies st)) (mon_outbounds m))) (Returned m)"

definition empty_group :: group_state where
  "empty_group = \<lparr> grp_outbounds = [], notify = False, completedGeneration = 0, completedBatch = 0 \<rparr>"

definition makeGroup :: "tag \<Rightarrow> monitoring \<Rightarrow> monitoring" where
  "makeGroup g m = (if map_of (mon_groups m) g \<noteq> None then m
     else m\<lparr> mon_groups := AList.update g empty_group (mon_groups m) \<rparr>)"

definition join_group :: "tag \<Rightarrow> tag \<Rightarrow> monitoring \<Rightarrow> monitoring" where
  "join_group g t m =
     (case (map_of (mon_groups m) g, getState m t) of
        (Some grp, Some st) \<Rightarrow>
          set_state t (st\<lparr> groupTags := groupTags st @ [g] \<rparr>)
            (m\<lparr> mon_groups := AList.update g (grp\<lparr> grp_outbounds :=
                 (if t \<in> set (grp_outbounds grp) then grp_outbounds grp
                  else grp_outbounds grp @ [t]) \<rparr>) (mon_groups m) \<rparr>)
      | _ \<Rightarrow> m)"

text \<open>\<open>Inl t\<close> is the error of a group member that is not registered.\<close>

definition register_group :: "tag \<times> tag list \<Rightarrow> tag + monitoring \<Rightarrow> tag + monitoring" where
  "register_group grp r = (case r of Inl e \<Rightarrow> Inl e | Inr m \<Rightarrow>
     fold (\<lambda>t r. case r of Inl e \<Rightarrow> Inl e
       | Inr m \<Rightarrow> if getState m t = None then Inl t else Inr (join_group (fst grp) t m))
       (snd grp) (Inr (makeGroup (fst grp) m)))"

definition StartInitialize ::
  "(mon_outbound \<times> tag list) list \<Rightarrow> (tag \<times> tag list) list \<Rightarrow> history_map \<Rightarrow> monitoring \<Rightarrow>
   (tag + monitoring) outcome" where
  "StartInitialize outs grps saved m =
     and_then (link_dependencies (register_outbounds outs m)) (\<lambda>m.
       let m = makeGroup [] m;
           m = fold (join_group []) (map fst (mon_outbounds m)) m
       in Returned (case fold register_group grps (Inr m) of
            Inl e \<Rightarrow> Inl e
          | Inr m \<Rightarrow> Inr (loadHistory saved m)))"

end
