(* ===== verification/Monitor_Invariant.thy ===== *)
theory Monitor_Invariant
  imports Monitor_Cycle
begin

text \<open>
  The invariant of the monitor. \<open>mon_step\<close> is one critical section of any goroutine, in any
  order; the counter of generations is assumed not to wrap its 64 bits. Numbers that come from
  a test or a probe are only known to be what \<open>tester\<close>, \<open>newTaskErrorOutcome\<close> and
  \<open>RunUDPProbeThroughOutbound\<close> return.
\<close>

section \<open>The invariant\<close>

definition evidence_ok :: "url_test_history \<Rightarrow> bool" where
  "evidence_ok h \<longleftrightarrow>
     0 \<le> DegradationPoints h \<and> DegradationPoints h \<le> 100 \<and>
     0 \<le> StabilityPoints h \<and> StabilityPoints h \<le> 100 \<and>
     0 \<le> RealUserPenalty h \<and> RealUserPenalty h \<le> 30 \<and>
     0 \<le> VolatilityPenalty h \<and> VolatilityPenalty h \<le> 30 \<and>
     0 \<le> RuntimePenalty h \<and> RuntimePenalty h \<le> 25 \<and>
     0 \<le> UDPPenalty h \<and> UDPPenalty h \<le> 15 \<and>
     0 \<le> HealthScore h \<and> HealthScore h \<le> 100"

text \<open>
  A complete sample has a known source, a result of a full generation is complete, the overlay
  of an isolated probe belongs to the current revision and no generation is ahead of the
  counter.
\<close>

definition state_ok :: "u64 \<Rightarrow> outbound_state \<Rightarrow> bool" where
  "state_ok counter st \<longleftrightarrow>
     evidence_ok (st_history st) \<and>
     (CombinedReady (st_history st) \<longrightarrow> lastResultSourceKnown st) \<and>
     (lastResultFromFullGeneration st \<longrightarrow> CombinedReady (st_history st)) \<and>
     (\<forall>h r. activeProbePresentation st = Some (h, r) \<longrightarrow> r = rankingRevision st) \<and>
     CheckGeneration (st_history st) \<le> counter"

definition monitor_ok :: "monitoring \<Rightarrow> bool" where
  "monitor_ok m \<longleftrightarrow>
     (\<forall>t st. getState m t = Some st \<longrightarrow> state_ok (cycleSeq m) st) \<and>
     (\<forall>(t, s) \<in> set (runtimeStats m). stats_ok s) \<and>
     no_nil (storage m)"

definition outcome_ok :: "u64 \<Rightarrow> test_outcome \<Rightarrow> bool" where
  "outcome_ok counter out \<longleftrightarrow> outcomeCycle out \<le> counter \<and>
     0 \<le> RuntimePenalty (outcomeHistory out) \<and> RuntimePenalty (outcomeHistory out) \<le> 25"

section \<open>Fields an operation leaves alone\<close>

lemma getState_set_state [simp]: "getState (set_state t st m) u = (if u = t then Some st else getState m u)"
  by (simp add: getState_def set_state_def update_conv)

lemma set_state_frame [frame_simps]:
  "cycleSeq (set_state t st m) = cycleSeq m" "runtimeStats (set_state t st m) = runtimeStats m"
  "storage (set_state t st m) = storage m" "cfg (set_state t st m) = cfg m"
  "mon_groups (set_state t st m) = mon_groups m" "ctx_done (set_state t st m) = ctx_done m"
  by (simp_all add: set_state_def)

lemma publish_frame [frame_simps]:
  "getState (publish t h m) u = getState m u" "cycleSeq (publish t h m) = cycleSeq m"
  "runtimeStats (publish t h m) = runtimeStats m" "cfg (publish t h m) = cfg m"
  "mon_groups (publish t h m) = mon_groups m" "ctx_done (publish t h m) = ctx_done m"
  by (simp_all add: publish_def getState_def split: outcome.split)

lemma emit_frame [frame_simps]:
  "getState (emitGroupEvent gs m) u = getState m u" "cycleSeq (emitGroupEvent gs m) = cycleSeq m"
  "runtimeStats (emitGroupEvent gs m) = runtimeStats m" "storage (emitGroupEvent gs m) = storage m"
  "cfg (emitGroupEvent gs m) = cfg m" "ctx_done (emitGroupEvent gs m) = ctx_done m"
proof -
  have "getState (emitGroupEvent gs m) u = getState m u \<and> cycleSeq (emitGroupEvent gs m) = cycleSeq m
    \<and> runtimeStats (emitGroupEvent gs m) = runtimeStats m \<and> storage (emitGroupEvent gs m) = storage m
    \<and> cfg (emitGroupEvent gs m) = cfg m \<and> ctx_done (emitGroupEvent gs m) = ctx_done m"
    unfolding emitGroupEvent_def by (induction gs arbitrary: m) (simp_all add: getState_def)
  then show "getState (emitGroupEvent gs m) u = getState m u" "cycleSeq (emitGroupEvent gs m) = cycleSeq m"
    "runtimeStats (emitGroupEvent gs m) = runtimeStats m" "storage (emitGroupEvent gs m) = storage m"
    "cfg (emitGroupEvent gs m) = cfg m" "ctx_done (emitGroupEvent gs m) = ctx_done m"
    by simp_all
qed

lemma getState_fields [simp]:
  "getState (m\<lparr> udpProbeQueued := a \<rparr>) u = getState m u" "getState (m\<lparr> udpProbeQueue := b \<rparr>) u = getState m u"
  "getState (m\<lparr> priorityQueue := c \<rparr>) u = getState m u" "getState (m\<lparr> normalQueue := c \<rparr>) u = getState m u"
  "getState (m\<lparr> cacheDirty := d \<rparr>) u = getState m u" "getState (m\<lparr> runtimeTraffic := e \<rparr>) u = getState m u"
  "getState (m\<lparr> runtimeStats := f \<rparr>) u = getState m u" "getState (m\<lparr> cycleSeq := g \<rparr>) u = getState m u"
  "getState (m\<lparr> manualRefreshAt := i \<rparr>) u = getState m u" "getState (m\<lparr> mon_groups := j \<rparr>) u = getState m u"
  "getState (m\<lparr> mon_groups := j, published_events := k \<rparr>) u = getState m u"
  "getState (m\<lparr> published_events := k \<rparr>) u = getState m u"
  "getState (m\<lparr> udpProbeQueue := b, udpProbeQueued := a \<rparr>) u = getState m u"
  "getState (m\<lparr> fullCycleRequested := q \<rparr>) u = getState m u"
  "getState (m\<lparr> currentLinkIndex := l \<rparr>) u = getState m u"
  by (simp_all add: getState_def)

lemma monitor_ok_set_state: "monitor_ok m \<Longrightarrow> state_ok (cycleSeq m) st \<Longrightarrow> monitor_ok (set_state t st m)"
  by (simp add: monitor_ok_def frame_simps)

lemma monitor_ok_publish: "monitor_ok m \<Longrightarrow> monitor_ok (publish t h m)"
  using store_no_nil [of "storage m" t h]
  by (auto simp: monitor_ok_def getState_def publish_def split: outcome.split)

lemma monitor_ok_emit: "monitor_ok m \<Longrightarrow> monitor_ok (emitGroupEvent gs m)"
  by (simp add: monitor_ok_def frame_simps)

lemma monitor_ok_fields:
  assumes "monitor_ok m"
  shows "monitor_ok (m\<lparr> udpProbeQueued := a \<rparr>)" "monitor_ok (m\<lparr> udpProbeQueue := b \<rparr>)"
    "monitor_ok (m\<lparr> priorityQueue := c \<rparr>)" "monitor_ok (m\<lparr> normalQueue := c \<rparr>)"
    "monitor_ok (m\<lparr> cacheDirty := d \<rparr>)" "monitor_ok (m\<lparr> runtimeTraffic := e \<rparr>)"
    "monitor_ok (m\<lparr> manualRefreshAt := i \<rparr>)" "monitor_ok (m\<lparr> mon_groups := j \<rparr>)"
    "monitor_ok (m\<lparr> mon_groups := j, published_events := k \<rparr>)" "monitor_ok (m\<lparr> published_events := k \<rparr>)"
    "monitor_ok (m\<lparr> udpProbeQueue := b, udpProbeQueued := a \<rparr>)"
    "monitor_ok (m\<lparr> fullCycleRequested := q \<rparr>)" "monitor_ok (m\<lparr> currentLinkIndex := l \<rparr>)"
  using assms by (simp_all add: monitor_ok_def)

lemmas monitor_ok_intros = monitor_ok_set_state monitor_ok_publish monitor_ok_emit monitor_ok_fields

lemma monitor_ok_state: "monitor_ok m \<Longrightarrow> getState m t = Some st \<Longrightarrow> state_ok (cycleSeq m) st"
  by (simp add: monitor_ok_def)

section \<open>The sample operations\<close>

lemma refresh_fields [simp]:
  "DegradationPoints (refreshHealthScore now t h c) = DegradationPoints h"
  "StabilityPoints (refreshHealthScore now t h c) = StabilityPoints h"
  "RealUserPenalty (refreshHealthScore now t h c) = RealUserPenalty h"
  "VolatilityPenalty (refreshHealthScore now t h c) = VolatilityPenalty h"
  "RuntimePenalty (refreshHealthScore now t h c) = RuntimePenalty h"
  "UDPPenalty (refreshHealthScore now t h c) = UDPPenalty h"
  "CheckGeneration (refreshHealthScore now t h c) = CheckGeneration h"
  "CombinedReady (refreshHealthScore now t h c) = CombinedReady h"
  "Success (refreshHealthScore now t h c) = Success h"
  "Delay (refreshHealthScore now t h c) = Delay h"
  "Time (refreshHealthScore now t h c) = Time h"
  "URLTestStatus (refreshHealthScore now t h c) = URLTestStatus h"
  "ErrorType (refreshHealthScore now t h c) = ErrorType h"
  "ErrorText (refreshHealthScore now t h c) = ErrorText h"
  "IpInfo (refreshHealthScore now t h c) = IpInfo h"
  "IsFromCache (refreshHealthScore now t h c) = IsFromCache h"
  by (simp_all add: refreshHealthScore_def Let_def)

lemma refresh_score [simp]:
  "0 \<le> HealthScore (refreshHealthScore now t h c)" "HealthScore (refreshHealthScore now t h c) \<le> 100"
  using health_score_bounds_aux by (simp_all add: refreshHealthScore_def Let_def)

lemma clamp_bounds_simps [simp]:
  "0 \<le> clampHealthPoints v" "clampHealthPoints v \<le> 100" "0 \<le> clampHealthPenalty v"
  "clampHealthPenalty v \<le> 30" "0 \<le> clampStability v" "clampStability v \<le> 100"
  using clampHealthPoints_range clampHealthPenalty_range clampStability_range by simp_all

lemma evidence_ok_probe:
  assumes "evidence_ok previous" and "0 \<le> RuntimePenalty h" "RuntimePenalty h \<le> 25"
    and "0 \<le> UDPPenalty h" "UDPPenalty h \<le> 15"
  shows "evidence_ok (applyProbeEvidenceWithRecovery now t h previous full)"
  using assms by (simp add: evidence_ok_def applyProbeEvidenceWithRecovery_def Let_def)

lemma probe_evidence_fields [simp]:
  "CheckGeneration (applyProbeEvidenceWithRecovery now t h p full) = CheckGeneration h"
  "CombinedReady (applyProbeEvidenceWithRecovery now t h p full) = CombinedReady h"
  "RuntimePenalty (applyProbeEvidenceWithRecovery now t h p full) = RuntimePenalty h"
  "UDPPenalty (applyProbeEvidenceWithRecovery now t h p full) = UDPPenalty h"
  "Success (applyProbeEvidenceWithRecovery now t h p full) = Success h"
  "URLTestStatus (applyProbeEvidenceWithRecovery now t h p full) = URLTestStatus h"
  "ErrorType (applyProbeEvidenceWithRecovery now t h p full) = ErrorType h"
  "Delay (applyProbeEvidenceWithRecovery now t h p full) = Delay h"
  by (simp_all add: applyProbeEvidenceWithRecovery_def Let_def)

lemma normalize_runtime [simp]: "RuntimePenalty (normalizeTerminalHistory now t h e) = RuntimePenalty h"
  by (simp add: normalizeTerminalHistory_def Let_def split: prod.splits)

lemma committed_fields [simp]:
  "CheckGeneration (committed_history now cd st out new) = outcomeCycle out"
  "CombinedReady (committed_history now cd st out new)"
  "URLTestStatus (committed_history now cd st out new) = ResultStatus (Success new)"
  "Success (committed_history now cd st out new) = Success new"
  by (simp_all add: committed_history_def Let_def)

lemma committed_ok:
  assumes "evidence_ok (st_history st)" and "0 \<le> RuntimePenalty new" "RuntimePenalty new \<le> 25"
  shows "evidence_ok (committed_history now cd st out new)"
proof -
  have "evidence_ok (applyProbeEvidenceWithRecovery now t h (st_history st) full)"
    if "RuntimePenalty h = RuntimePenalty new" "UDPPenalty h = UDPPenalty (st_history st)" for t h full
    using assms that by (intro evidence_ok_probe) (simp_all add: evidence_ok_def)
  then show ?thesis
    using assms by (simp add: committed_history_def Let_def) (simp add: evidence_ok_def)
qed

lemma reset_ok: "evidence_ok h \<Longrightarrow> evidence_ok (reset_history c now g h)"
  by (simp add: evidence_ok_def reset_history_def zero_history_def Let_def)

lemma reset_fields [simp]:
  "CheckGeneration (reset_history c now g h) = g" "\<not> CombinedReady (reset_history c now g h)"
  by (simp_all add: reset_history_def zero_history_def Let_def)

section \<open>The operations keep the invariant\<close>

lemma advance_fields [simp]:
  "st_history (advanceRankingRevision st) = st_history st"
  "lastResultSourceKnown (advanceRankingRevision st) = lastResultSourceKnown st"
  "lastResultFromFullGeneration (advanceRankingRevision st) = lastResultFromFullGeneration st"
  "activeProbePresentation (advanceRankingRevision st) = None"
  "groupTags (advanceRankingRevision st) = groupTags st"
  by (simp_all add: advanceRankingRevision_def)

lemma reset_keeps:
  assumes "monitor_ok m" and "g \<le> cycleSeq m"
  shows "monitor_ok (resetOutboundCheckState now g t m)"
proof (cases "getState m t")
  case None
  then show ?thesis using assms by (simp add: resetOutboundCheckState_def)
next
  case (Some st)
  have ok: "evidence_ok (st_history st)"
    using monitor_ok_state [OF assms(1) Some] by (simp add: state_ok_def)
  show ?thesis
    unfolding resetOutboundCheckState_def Some option.case Let_def
    by (intro monitor_ok_intros assms(1)) (simp add: state_ok_def reset_ok ok assms(2))
qed

lemma reset_counter [simp]: "cycleSeq (resetOutboundCheckState now g t m) = cycleSeq m"
  by (simp add: resetOutboundCheckState_def Let_def frame_simps split: option.split)

lemma begin_keeps: "monitor_ok m \<Longrightarrow> g \<le> cycleSeq m \<Longrightarrow> monitor_ok (beginCheckGeneration now g tags m)"
  unfolding beginCheckGeneration_def by (induction tags arbitrary: m) (simp_all add: reset_keeps)

lemma state_ok_mono: "state_ok c st \<Longrightarrow> c \<le> c' \<Longrightarrow> state_ok c' st"
  by (auto simp: state_ok_def)

lemma allocate_keeps:
  assumes "monitor_ok m" and "cycleSeq m < cycleSeq m + 1"
  shows "monitor_ok (snd (allocate_cycle m))"
  using assms state_ok_mono [OF _ less_imp_le [OF assms(2)]]
  by (simp add: monitor_ok_def allocate_cycle_def Let_def)

lemma keeps_if:
  "monitor_ok (snd x) \<Longrightarrow> monitor_ok (snd y) \<Longrightarrow> monitor_ok (snd (if b then x else y))"
  by simp

lemma enqueue_keeps:
  assumes ok: "monitor_ok m" and cycle: "taskCycle task \<le> cycleSeq m"
  shows "monitor_ok (snd (enqueueTask now task m))"
proof (cases "ctx_done m \<or> getState m (taskTag task) = None")
  case True
  then show ?thesis using ok by (auto simp: enqueueTask_def)
next
  case False
  then obtain st where st: "getState m (taskTag task) = Some st" "\<not> ctx_done m" by auto
  note inv = monitor_ok_state [OF ok st(1)]
  define flags where "flags = (if taskPriority task then st\<lparr> priorityQueued := True \<rparr>
      else st\<lparr> enqueuedCycle := taskCycle task, queued := True \<rparr>)"
  have kept: "state_ok (cycleSeq m) (if b then flags else flags\<lparr> st_history := (st_history st)\<lparr>
      URLTestStatus := s, Time := n, CheckGeneration := taskCycle task \<rparr> \<rparr>)" for b s n
    using inv cycle by (auto simp: flags_def state_ok_def evidence_ok_def)
  have undone: "state_ok (cycleSeq m) (st'\<lparr> st_history := (st_history st')\<lparr> URLTestStatus := s, Time := n,
      CheckGeneration := CheckGeneration (st_history st) \<rparr> \<rparr>)" if "state_ok (cycleSeq m) st'" for st' s n
    using inv that by (auto simp: state_ok_def evidence_ok_def)
  have unmark: "state_ok (cycleSeq m) (if b then st'\<lparr> priorityQueued := False \<rparr>
      else st'\<lparr> queued := False, enqueuedCycle := 0 \<rparr>)" if "state_ok (cycleSeq m) st'" for b st'
    using that by (simp add: state_ok_def)
  have notify: "monitor_ok (if b then m' else emitGroupEvent gs m')" if "monitor_ok m'" for b m' gs
    using that by (simp add: monitor_ok_emit)
  have put: "monitor_ok (set_state t st' m')"
    if "monitor_ok m'" "cycleSeq m' = cycleSeq m" "state_ok (cycleSeq m) st'" for t st' m'
    using that by (simp add: monitor_ok_set_state)
  have pair: "monitor_ok (snd (b :: bool, m'))" if "monitor_ok m'" for b m'
    using that by simp
  show ?thesis
    unfolding enqueueTask_def Let_def st(1) option.case flags_def [symmetric]
    by (intro keeps_if pair notify put kept undone unmark monitor_ok_fields ok) simp_all
qed

lemma invalidate_keeps:
  assumes "monitor_ok m"
  shows "monitor_ok (snd (InvalidateTest now t m))"
proof (cases "getState m t")
  case None
  then show ?thesis using assms by (simp add: InvalidateTest_def)
next
  case (Some st)
  have "monitor_ok (set_state t (st\<lparr> invalid := True \<rparr>) m)"
    using monitor_ok_state [OF assms Some] assms by (intro monitor_ok_intros) (simp_all add: state_ok_def)
  then show ?thesis
    by (simp add: InvalidateTest_def Some Let_def enqueue_keeps)
qed

lemma apply_result_keeps:
  assumes ok: "monitor_ok m" and out: "outcome_ok (cycleSeq m) out"
  shows "monitor_ok (snd (applyResult now out m))"
proof (cases "ctx_done m \<or> getState m (outcomeTag out) = None")
  case True
  then show ?thesis using ok by (auto simp: applyResult_def)
next
  case False
  then obtain st where st: "getState m (outcomeTag out) = Some st" "\<not> ctx_done m" by auto
  note inv = monitor_ok_state [OF ok st(1)]
  have same: "state_ok (cycleSeq m) (st\<lparr> priorityQueued := a \<rparr>)"
    "state_ok (cycleSeq m) (st\<lparr> queued := a, enqueuedCycle := c \<rparr>)" for a c
    using inv by (simp_all add: state_ok_def)
  have committed: "evidence_ok (committed_history now cd st out (normalizeTerminalHistory now t
      (outcomeHistory out) e))" for cd t e
    using inv out by (intro committed_ok) (simp_all add: state_ok_def outcome_ok_def)
  have cycle: "outcomeCycle out \<le> cycleSeq m"
    using out by (simp add: outcome_ok_def)
  show ?thesis
    using ok same
    by (simp add: applyResult_def st Let_def)
      (auto intro!: monitor_ok_intros simp: frame_simps state_ok_def committed cycle)
qed

text \<open>Operations that change nothing the invariant speaks of but one history.\<close>

lemma evidence_update_keeps:
  assumes "monitor_ok m" and "getState m t = Some st" and "evidence_ok h"
    and "CombinedReady h = CombinedReady (st_history st)"
    and "CheckGeneration h = CheckGeneration (st_history st)"
  shows "monitor_ok (set_state t (st\<lparr> st_history := h \<rparr>) m)"
    and "monitor_ok (set_state t (st\<lparr> st_history := h, invalid := b \<rparr>) m)"
    and "monitor_ok (set_state t (st\<lparr> invalid := b, st_history := h \<rparr>) m)"
  using monitor_ok_state [OF assms(1,2)] assms by (auto intro!: monitor_ok_set_state simp: state_ok_def)

lemma runtime_stats_keeps:
  assumes "monitor_ok m" and "stats_ok s"
  shows "monitor_ok (m\<lparr> runtimeStats := AList.update t s (runtimeStats m) \<rparr>)"
proof -
  have "set (AList.update t s xs) \<subseteq> insert (t, s) (set xs)" for xs
    by (induction xs) auto
  then show ?thesis
    using assms unfolding monitor_ok_def by fastforce
qed

lemma error_stats_ok:
  assumes "\<And>s. old = Some s \<Longrightarrow> stats_ok s"
  shows "stats_ok (fst (record_error_stats now e old))"
proof -
  define s0 where "s0 = (case old of None \<Rightarrow> zero_stats
      | Some s \<Rightarrow> if now - StatsUpdatedAt s > runtimePenaltyTTL then zero_stats else s)"
  define s1 where "s1 = (fst (updateRuntimeBurst (incrementRuntimeStats s0 e) e now))\<lparr> StatsUpdatedAt := now \<rparr>"
  have "stats_ok s0"
    using assms by (auto simp: s0_def split: option.split)
  then have "stats_ok (fst (updateRuntimeBurst (incrementRuntimeStats s0 e) e now))"
    by (intro stats_ok_burst stats_ok_increment)
  then have s1: "stats_ok s1"
    by (simp add: s1_def stats_ok_def)
  have "fst (record_error_stats now e old) = s1\<lparr> Penalty := calculateRuntimePenalty s1 \<rparr>"
    by (simp add: record_error_stats_def Let_def split_def s0_def s1_def)
  then show ?thesis
    using s1 runtime_penalty_bounds [OF s1] by (simp add: stats_ok_def)
qed

lemma prune_keeps: "monitor_ok m \<Longrightarrow> monitor_ok (pruneRuntimeTraffic now m)"
  by (simp add: pruneRuntimeTraffic_def monitor_ok_fields)

lemma validation_keeps: "monitor_ok m \<Longrightarrow> monitor_ok (maybeQueueRuntimeValidationProbe now t m)"
  by (auto simp: maybeQueueRuntimeValidationProbe_def Let_def
      intro!: invalidate_keeps monitor_ok_fields prune_keeps)

lemma runtime_error_ok:
  "0 \<le> p \<Longrightarrow> p \<le> 25 \<Longrightarrow> evidence_ok h \<Longrightarrow> evidence_ok (runtime_error_history now t c e b p h)"
  by (simp add: runtime_error_history_def evidence_ok_def Let_def)

lemma runtime_error_fields [simp]:
  "CombinedReady (runtime_error_history now t c e b p h) = CombinedReady h"
  "CheckGeneration (runtime_error_history now t c e b p h) = CheckGeneration h"
  by (simp_all add: runtime_error_history_def Let_def)

lemma error_keeps:
  assumes ok: "monitor_ok m"
  shows "monitor_ok (RecordRuntimeError now t err m)"
proof (cases "t = [] \<or> err = None \<or> \<not> ShouldApplyRuntimePenalty (fst (ClassifyProbeError err)) False
    \<or> getState m t = None")
  case True
  then show ?thesis using ok by (auto simp: RecordRuntimeError_def split: prod.split)
next
  case False
  then obtain st where st: "getState m t = Some st" by auto
  obtain stats burst where stats:
    "record_error_stats now (fst (ClassifyProbeError err)) (map_of (runtimeStats m) t) = (stats, burst)"
    by (cases "record_error_stats now (fst (ClassifyProbeError err)) (map_of (runtimeStats m) t)")
  have "stats_ok s" if "map_of (runtimeStats m) t = Some s" for s
    using ok map_of_SomeD [OF that] by (auto simp: monitor_ok_def)
  then have stats_ok: "stats_ok stats"
    using error_stats_ok stats by (metis fst_conv)
  define m1 where "m1 = m\<lparr> runtimeStats := AList.update t stats (runtimeStats m) \<rparr>"
  have m1: "monitor_ok m1" "getState m1 t = Some st"
    using runtime_stats_keeps [OF ok stats_ok] st by (simp_all add: m1_def)
  let ?h = "runtime_error_history now t (from_cache st) (fst (ClassifyProbeError err)) burst (Penalty stats)
    (st_history st)"
  have "evidence_ok ?h"
    using stats_ok monitor_ok_state [OF ok st] by (intro runtime_error_ok) (simp_all add: stats_ok_def state_ok_def)
  then have "monitor_ok (set_state t (st\<lparr> st_history := ?h, invalid := True \<rparr>) m1)"
    by (intro evidence_update_keeps(2) [OF m1]) simp_all
  then have "monitor_ok (maybeQueueRuntimeValidationProbe now t (emitGroupEvent (groupTags st)
      (publish t ?h (set_state t (st\<lparr> st_history := ?h, invalid := True \<rparr>) m1))))"
    by (intro validation_keeps monitor_ok_emit monitor_ok_publish)
  then show ?thesis
    using False st by (auto simp: RecordRuntimeError_def split_def stats m1_def Let_def)
qed

lemma publish_if_changed_keeps: "monitor_ok m \<Longrightarrow> monitor_ok (publish_if_changed t a b gs m)"
  by (simp add: publish_if_changed_def monitor_ok_intros)

lemma success_keeps:
  assumes ok: "monitor_ok m"
  shows "monitor_ok (RecordRuntimeSuccess now t m)"
proof (cases "t = [] \<or> getState m t = None")
  case True
  then show ?thesis using ok by (auto simp: RecordRuntimeSuccess_def)
next
  case False
  then obtain st where st: "getState m t = Some st" by auto
  have "evidence_ok (st_history st)"
    using monitor_ok_state [OF ok st] by (simp add: state_ok_def)
  then show ?thesis
    using False st unfolding RecordRuntimeSuccess_def
    by (simp add: Let_def, intro publish_if_changed_keeps evidence_update_keeps [OF ok st])
      (simp_all add: evidence_ok_def)
qed

lemma traffic_keeps:
  assumes ok: "monitor_ok m"
  shows "monitor_ok (RecordRuntimeTraffic now t bytes download m)"
proof (cases "t = [] \<or> bytes \<le> 0 \<or> getState m t = None")
  case True
  then show ?thesis using ok by (auto simp: RecordRuntimeTraffic_def)
next
  case False
  then obtain st where st: "getState m t = Some st" by auto
  define m1 where "m1 = pruneRuntimeTraffic now m"
  obtain traffic v where sample: "traffic_sample now bytes download (traffic_of m1 t) = (traffic, v)"
    by (cases "traffic_sample now bytes download (traffic_of m1 t)")
  define m2 where "m2 = m1\<lparr> runtimeTraffic := AList.update t traffic (runtimeTraffic m1) \<rparr>"
  have m2: "monitor_ok m2" "getState m2 t = Some st"
    using st by (simp_all add: m2_def m1_def monitor_ok_fields prune_keeps ok pruneRuntimeTraffic_def)
  have ev: "evidence_ok (st_history st)"
    using monitor_ok_state [OF ok st] by (simp add: state_ok_def)
  have stalled: "monitor_ok (maybeQueueRuntimeValidationProbe now t (emitGroupEvent gs (publish t h
      (set_state t (st\<lparr> invalid := True, st_history := h \<rparr>) m2))))"
    if "evidence_ok h" "CombinedReady h = CombinedReady (st_history st)"
      "CheckGeneration h = CheckGeneration (st_history st)" for h gs
    by (intro validation_keeps monitor_ok_emit monitor_ok_publish evidence_update_keeps [OF m2] that)
  have clean: "monitor_ok (publish_if_changed t a h gs (set_state t (st\<lparr> st_history := h \<rparr>) m2))"
    if "evidence_ok h" "CombinedReady h = CombinedReady (st_history st)"
      "CheckGeneration h = CheckGeneration (st_history st)" for h a gs
    by (intro publish_if_changed_keeps evidence_update_keeps [OF m2] that)
  have "evidence_ok (refreshHealthScore now t (st_history st\<lparr>
        DegradationPoints := clampHealthPoints a, RealUserPenalty := clampHealthPenalty b,
        VolatilityPenalty := clampHealthPenalty d \<rparr>) c)"
    "evidence_ok (refreshHealthScore now t (st_history st\<lparr> RealUserPenalty := clampHealthPenalty a,
        DegradationPoints := clampHealthPoints b, StabilityPoints := clampStability d \<rparr>) c)" for a b d c
    using ev by (simp_all add: evidence_ok_def)
  then show ?thesis
    using False m2(1)
    unfolding RecordRuntimeTraffic_def Let_def m1_def [symmetric] sample case_prod_conv m2_def [symmetric] st
    by (simp add: stalled clean)
qed

text \<open>Operations on the flags of a state.\<close>

definition same_result_state :: "outbound_state \<Rightarrow> outbound_state \<Rightarrow> bool" where
  "same_result_state s s' \<longleftrightarrow> st_history s' = st_history s
     \<and> lastResultSourceKnown s' = lastResultSourceKnown s
     \<and> lastResultFromFullGeneration s' = lastResultFromFullGeneration s
     \<and> activeProbePresentation s' = activeProbePresentation s \<and> rankingRevision s' = rankingRevision s"

lemma flags_keep:
  "monitor_ok m \<Longrightarrow> getState m t = Some st \<Longrightarrow> same_result_state st st' \<Longrightarrow> monitor_ok (set_state t st' m)"
  by (rule monitor_ok_set_state) (auto simp: state_ok_def same_result_state_def dest: monitor_ok_state)

lemma mark_keeps: "monitor_ok m \<Longrightarrow> monitor_ok (mark_testing t c m)"
  by (auto simp: mark_testing_def same_result_state_def intro: flags_keep split: option.split)

lemma clear_keeps: "monitor_ok m \<Longrightarrow> monitor_ok (clear_testing t c m)"
  by (auto simp: clear_testing_def same_result_state_def intro: flags_keep split: option.split)

lemma start_manual_keeps: "monitor_ok m \<Longrightarrow> monitor_ok (start_manual_target t c m)"
  by (auto simp: start_manual_target_def same_result_state_def intro: flags_keep split: option.split)

lemma end_active_keeps: "monitor_ok m \<Longrightarrow> monitor_ok (end_active_probe t m)"
  by (auto simp: end_active_probe_def same_result_state_def intro: flags_keep split: option.split)

lemma begin_active_keeps: "monitor_ok m \<Longrightarrow> monitor_ok (snd (begin_active_probe t m))"
  by (auto simp: begin_active_probe_def same_result_state_def intro: flags_keep split: option.split)

lemma cancel_keeps: "monitor_ok m \<Longrightarrow> monitor_ok (cancelManualRefreshTargets c pending m)"
proof -
  have "monitor_ok m \<Longrightarrow> monitor_ok (cancel_target c t m)" for t m
    by (auto simp: cancel_target_def same_result_state_def Let_def intro: flags_keep split: option.split)
  then show "monitor_ok m \<Longrightarrow> monitor_ok (cancelManualRefreshTargets c pending m)"
    unfolding cancelManualRefreshTargets_def by (induction pending arbitrary: m) simp_all
qed

lemma clear_udp_keeps:
  assumes "monitor_ok m"
  shows "monitor_ok (clearUDPProbeQueued t m)"
proof (cases "getState m t")
  case None
  then show ?thesis using assms by (simp add: clearUDPProbeQueued_def monitor_ok_fields)
next
  case (Some st)
  then show ?thesis
    by (auto simp: clearUDPProbeQueued_def same_result_state_def
        intro!: flags_keep [where st = st] monitor_ok_fields assms)
qed

lemma enqueue_udp_keeps:
  assumes ok: "monitor_ok m"
  shows "monitor_ok (enqueueUDPProbe now t g m)"
proof (cases "getState m t")
  case None
  then show ?thesis using assms by (simp add: enqueueUDPProbe_def)
next
  case (Some st)
  have running: "monitor_ok (set_state t (st\<lparr> udpProbeRunning := b \<rparr>) m)" for b
    using flags_keep [OF ok Some] by (simp add: same_result_state_def)
  have again: "monitor_ok (set_state t (st\<lparr> udpProbeRunning := False \<rparr>)
      (set_state t (st\<lparr> udpProbeRunning := True \<rparr>) m))"
    by (rule flags_keep [OF running [of True], where st = "st\<lparr> udpProbeRunning := True \<rparr>"])
      (simp_all add: same_result_state_def)
  show ?thesis
    using ok running again
    by (auto simp: enqueueUDPProbe_def Some Let_def intro!: clear_udp_keeps monitor_ok_fields)
qed

lemma take_udp_keeps: "monitor_ok m \<Longrightarrow> take_udp_task m = Some (task, m') \<Longrightarrow> monitor_ok m'"
  by (auto simp: take_udp_task_def monitor_ok_fields split: list.splits prod.splits)

lemma start_udp_keeps: "monitor_ok m \<Longrightarrow> monitor_ok (snd (start_udp_probe task m))"
  by (auto simp: start_udp_probe_def same_result_state_def intro: flags_keep split: option.split)

lemma finish_udp_keeps:
  assumes ok: "monitor_ok m" and r: "result_ok r"
  shows "monitor_ok (finish_udp_probe now task r m)"
proof (cases "getState m (fst task)")
  case None
  then show ?thesis using ok by (simp add: finish_udp_probe_def)
next
  case (Some st)
  note inv = monitor_ok_state [OF ok Some]
  have "state_ok (cycleSeq m) (advanceRankingRevision (st\<lparr> udpProbeRunning := False,
      udpProbeLast := u, st_history := udp_probed_history now t c r (st_history st) \<rparr>))" for u t c
    using inv r by (simp add: state_ok_def evidence_ok_def udp_probed_history_def result_ok_def)
  moreover have "monitor_ok (set_state (fst task) (st\<lparr> udpProbeRunning := False \<rparr>) m)"
    using flags_keep [OF ok Some] by (simp add: same_result_state_def)
  ultimately show ?thesis
    using ok by (auto simp: finish_udp_probe_def Some Let_def intro!: monitor_ok_intros)
qed

lemma penalty_read_keeps: "monitor_ok m \<Longrightarrow> monitor_ok (snd (runtimePenaltyForTag now t m))"
  by (auto simp: monitor_ok_def runtimePenaltyForTag_def AList.delete_eq split: option.split)

lemma publish_active_keeps:
  assumes ok: "monitor_ok m"
  shows "monitor_ok (snd (PublishActiveProbePresentation now result m))"
proof (cases "getState m (ProbedTag result)")
  case None
  then show ?thesis using ok by (simp add: PublishActiveProbePresentation_def Let_def)
next
  case (Some st)
  have "monitor_ok (set_state (ProbedTag result) (st\<lparr> activeProbePresentation :=
      Some (h, rankingRevision st) \<rparr>) m)" for h
    using monitor_ok_state [OF ok Some] ok by (intro monitor_ok_set_state) (simp_all add: state_ok_def)
  then show ?thesis
    using ok penalty_read_keeps
    by (auto simp: PublishActiveProbePresentation_def Some Let_def split_def intro!: monitor_ok_emit monitor_ok_publish)
qed

lemma network_change_keeps:
  assumes "monitor_ok m"
  shows "monitor_ok (invalidateIPv6Capabilities m)"
proof -
  let ?step = "\<lambda>(t, _ :: outbound_state) m. if map_of (mon_groups m) t \<noteq> None then m
    else (case getState m t of None \<Rightarrow> m
      | Some st \<Rightarrow> emitGroupEvent (groupTags st) (publish t (invalidateIPv6 (st_history st))
          (set_state t (st\<lparr> st_history := invalidateIPv6 (st_history st) \<rparr>) m)))"
  have step: "monitor_ok (?step (t, s) m)" if "monitor_ok m" for t s m
  proof (cases "getState m t")
    case (Some st)
    have "state_ok (cycleSeq m) (st\<lparr> st_history := invalidateIPv6 (st_history st) \<rparr>)"
      using monitor_ok_state [OF that Some] by (simp add: state_ok_def evidence_ok_def invalidateIPv6_def)
    then show ?thesis
      using that by (auto simp: Some intro!: monitor_ok_intros)
  qed (use that in simp)
  have all: "monitor_ok (fold ?step xs m)" if "monitor_ok m" for xs m
    using that by (induction xs arbitrary: m) (use step in \<open>auto split del: if_split\<close>)
  show ?thesis
    unfolding invalidateIPv6Capabilities_def Let_def by (intro monitor_ok_fields all assms)
qed

lemma prepare_keeps:
  assumes ok: "monitor_ok m"
  shows "monitor_ok (snd (prepareManualRefreshTarget now t c m))"
proof (cases "getState m t")
  case None
  then show ?thesis using ok by (simp add: prepareManualRefreshTarget_def)
next
  case (Some st)
  have "state_ok (cycleSeq m) (st\<lparr> enqueuedCycle := c, queued := True, st_history := (st_history st)\<lparr>
      URLTestStatus := StatusChecking, Time := now, CheckGeneration := CheckGeneration (st_history st) \<rparr> \<rparr>)"
    using monitor_ok_state [OF ok Some] by (simp add: state_ok_def evidence_ok_def)
  then show ?thesis
    using ok by (auto simp: prepareManualRefreshTarget_def Some Let_def intro!: monitor_ok_intros)
qed

section \<open>Steps and runs\<close>

text \<open>
  \<open>begin\<close> resets targets to any generation allocated before: allocation and reset are separate
  sections of the source, and several goroutines allocate.
\<close>

inductive mon_step :: "monitoring \<Rightarrow> monitoring \<Rightarrow> bool" where
  allocate: "cycleSeq m < cycleSeq m + 1 \<Longrightarrow> mon_step m (snd (allocate_cycle m))"
| request: "mon_step m (m\<lparr> fullCycleRequested := b \<rparr>)"
| begin_generation: "g \<le> cycleSeq m \<Longrightarrow> mon_step m (beginCheckGeneration now g tags m)"
| enqueue: "taskCycle task \<le> cycleSeq m \<Longrightarrow> mon_step m (snd (enqueueTask now task m))"
| take_work: "take_task m = Some (task, m') \<Longrightarrow> mon_step m m'"
| mark: "mon_step m (mark_testing t c m)"
| unmark: "mon_step m (clear_testing t c m)"
| result: "outcome_ok (cycleSeq m) out \<Longrightarrow> mon_step m (snd (applyResult now out m))"
| next_url: "mon_step m (m\<lparr> currentLinkIndex := i \<rparr>)"
| batch_done: "mon_step m (publishCompletedBatch now g n tags m)"
| throttled: "mon_step m (emitGroupEventThrottled now grp since m)"
| invalidate: "mon_step m (snd (InvalidateTest now t m))"
| network_changed: "mon_step m (invalidateIPv6Capabilities m)"
| runtime_error: "mon_step m (RecordRuntimeError now t err m)"
| runtime_success: "mon_step m (RecordRuntimeSuccess now t m)"
| runtime_traffic: "mon_step m (RecordRuntimeTraffic now t bytes download m)"
| udp_schedule: "mon_step m (scheduleUDPProbesFromOutcomes now outs m)"
| udp_take: "take_udp_task m = Some (task', m') \<Longrightarrow> mon_step m m'"
| udp_start: "mon_step m (snd (start_udp_probe task' m))"
| udp_finish: "result_ok r \<Longrightarrow> mon_step m (finish_udp_probe now task' r m)"
| active_begin: "mon_step m (snd (begin_active_probe t m))"
| active_end: "mon_step m (end_active_probe t m)"
| active_publish: "mon_step m (snd (PublishActiveProbePresentation now res' m))"
| read_penalty: "mon_step m (snd (runtimePenaltyForTag now t m))"
| manual_prepare: "mon_step m (snd (prepareManualRefreshTarget now t c m))"
| manual_start: "mon_step m (start_manual_target t c m)"
| manual_cancel: "mon_step m (cancelManualRefreshTargets c pending m)"
| manual_mark: "mon_step m (snd (markManualRefreshForTargets t tags now m))"
| manual_consume: "mon_step m (snd (ConsumeRecentManualRefresh now t m))"

inductive_cases mon_stepE: "mon_step m m'"

lemma publish_batch_keeps: "monitor_ok m \<Longrightarrow> monitor_ok (publishCompletedBatch now g n tags m)"
proof -
  have "monitor_ok m \<Longrightarrow> monitor_ok (publish_batch_to now g n tags grp m)" for grp m
    by (simp add: publish_batch_to_def Let_def monitor_ok_fields split: option.split)
  then have "monitor_ok m \<Longrightarrow> monitor_ok (fold (publish_batch_to now g n tags) gs m)" for gs m
    by (induction gs arbitrary: m) simp_all
  then show "monitor_ok m \<Longrightarrow> monitor_ok (publishCompletedBatch now g n tags m)"
    by (simp add: publishCompletedBatch_def)
qed

lemma mark_manual_keeps: "monitor_ok m \<Longrightarrow> monitor_ok (snd (markManualRefreshForTargets t tags now m))"
proof -
  have "monitor_ok m \<Longrightarrow> monitor_ok (fold (\<lambda>g. markManualRefresh g now) gs m)" for gs m
    by (induction gs arbitrary: m) (simp_all add: markManualRefresh_def monitor_ok_fields)
  then show "monitor_ok m \<Longrightarrow> monitor_ok (snd (markManualRefreshForTargets t tags now m))"
    by (simp add: markManualRefreshForTargets_def Let_def)
qed

lemma enqueue_udp_all_keeps:
  "monitor_ok m \<Longrightarrow> monitor_ok (fold (\<lambda>c. enqueueUDPProbe now (outcomeTag c) (outcomeCycle c)) cs m)"
  by (induction cs arbitrary: m) (simp_all add: enqueue_udp_keeps)

lemma schedule_udp_keeps: "monitor_ok m \<Longrightarrow> monitor_ok (scheduleUDPProbesFromOutcomes now outs m)"
  unfolding scheduleUDPProbesFromOutcomes_def Let_def by (simp add: enqueue_udp_all_keeps del: not_None_eq)

lemma step_keeps: "mon_step m m' \<Longrightarrow> monitor_ok m \<Longrightarrow> monitor_ok m'"
proof (induction rule: mon_step.induct)
  case (take_work m task m')
  then show ?case by (auto simp: take_task_def monitor_ok_fields split: list.splits)
next
  case (manual_consume now t m)
  then show ?case by (simp add: ConsumeRecentManualRefresh_def Let_def monitor_ok_fields)
next
  case (throttled m now grp since)
  then show ?case by (simp add: emitGroupEventThrottled_def monitor_ok_fields split: option.split)
qed (simp_all add: allocate_keeps begin_keeps enqueue_keeps mark_keeps clear_keeps apply_result_keeps
    monitor_ok_fields publish_batch_keeps invalidate_keeps network_change_keeps error_keeps success_keeps
    traffic_keeps schedule_udp_keeps take_udp_keeps start_udp_keeps finish_udp_keeps begin_active_keeps
    end_active_keeps publish_active_keeps penalty_read_keeps prepare_keeps start_manual_keeps cancel_keeps
    mark_manual_keeps)

text \<open>\<open>NewOutboundMonitoring\<close> builds the empty monitor, \<open>StartInitialize\<close> registers the profile.\<close>

definition new_monitoring :: "mon_config \<Rightarrow> monitoring" where
  "new_monitoring c = \<lparr> cfg = c, ctx_done = False, mon_outbounds = [], mon_groups = [], storage = [],
     priorityQueue = [], normalQueue = [], cycleSeq = 0, fullCycleRequested = False,
     currentLinkIndex = 0, cacheDirty = False, runtimeStats = [], runtimeTraffic = [],
     manualRefreshAt = [], udpProbeQueued = [], udpProbeQueue = [], published_events = [] \<rparr>"

inductive mon_reachable :: "monitoring \<Rightarrow> bool" where
  started: "StartInitialize outs grps saved (new_monitoring c) = Returned (Inr m) \<Longrightarrow> mon_reachable m"
| stepped: "mon_reachable m \<Longrightarrow> mon_step m m' \<Longrightarrow> mon_reachable m'"

section \<open>The start\<close>

text \<open>Until the first check no result has a source.\<close>

definition fresh_ok :: "monitoring \<Rightarrow> bool" where
  "fresh_ok m \<longleftrightarrow> monitor_ok m \<and>
     (\<forall>t st. getState m t = Some st \<longrightarrow> \<not> lastResultFromFullGeneration st)"

lemma fresh_set_state:
  "fresh_ok m \<Longrightarrow> state_ok (cycleSeq m) st \<Longrightarrow> \<not> lastResultFromFullGeneration st \<Longrightarrow> fresh_ok (set_state t st m)"
  by (simp add: fresh_ok_def monitor_ok_set_state)

lemma fresh_flags:
  "fresh_ok m \<Longrightarrow> getState m t = Some st \<Longrightarrow> same_result_state st st' \<Longrightarrow> fresh_ok (set_state t st' m)"
  using flags_keep [of m t st st'] by (auto simp: fresh_ok_def same_result_state_def)

lemma fresh_fields: "fresh_ok m \<Longrightarrow> fresh_ok (m\<lparr> mon_groups := j \<rparr>)"
  by (simp add: fresh_ok_def monitor_ok_fields)

lemma new_monitoring_ok: "fresh_ok (new_monitoring c)"
  by (simp add: fresh_ok_def monitor_ok_def new_monitoring_def getState_def no_nil_def)

lemma register_keeps: "fresh_ok m \<Longrightarrow> fresh_ok (register_outbounds outs m)"
proof -
  have "state_ok g (new_state out deps)" "\<not> lastResultFromFullGeneration (new_state out deps)" for g out deps
    by (simp_all add: state_ok_def new_state_def evidence_ok_def zero_history_def)
  then show "fresh_ok m \<Longrightarrow> fresh_ok (register_outbounds outs m)"
    unfolding register_outbounds_def
    by (induction outs arbitrary: m) (auto simp: fresh_set_state)
qed

lemma link_keeps:
  assumes "fresh_ok m" and "link_dependencies m = Returned m'"
  shows "fresh_ok m'"
proof -
  let ?step = "\<lambda>(t, d) r. and_then r (\<lambda>m. case getState m d of None \<Rightarrow> Panicked
     | Some st \<Rightarrow> Returned (set_state d (st\<lparr> dependenciesInverse := dependenciesInverse st @ [t] \<rparr>) m))"
  have step: "fresh_ok m'" if "?step (t, d) (Returned m) = Returned m'" "fresh_ok m" for t d m m'
    using that by (auto simp: same_result_state_def intro!: fresh_flags split: option.splits)
  have panic: "fold ?step xs Panicked = Panicked" for xs
    by (induction xs) auto
  have "fresh_ok m'" if "fold ?step xs (Returned m) = Returned m'" "fresh_ok m" for xs m m'
    using that
  proof (induction xs arbitrary: m)
    case (Cons x xs)
    obtain t d where x: "x = (t, d)" by (cases x)
    show ?case
    proof (cases "?step x (Returned m)")
      case (Returned m1)
      then show ?thesis
        using Cons.IH [of m1] Cons.prems step [of t d m m1] by (simp add: x)
    next
      case Panicked
      then show ?thesis using Cons.prems panic by (simp add: x)
    qed
  qed simp
  then show ?thesis
    using assms unfolding link_dependencies_def by blast
qed

lemma make_group_keeps: "fresh_ok m \<Longrightarrow> fresh_ok (makeGroup g m)"
  by (simp add: makeGroup_def fresh_fields)

lemma join_group_keeps:
  assumes "fresh_ok m"
  shows "fresh_ok (join_group g t m)"
proof -
  have "fresh_ok (set_state t (st\<lparr> groupTags := gs \<rparr>) (m\<lparr> mon_groups := k \<rparr>))"
    if "getState m t = Some st" for st gs k
    using that by (intro fresh_flags [where st = st] fresh_fields assms) (simp_all add: same_result_state_def)
  then show ?thesis
    using assms by (simp add: join_group_def split: option.split)
qed

lemma register_group_keeps:
  assumes "register_group grp r = Inr m'" and "\<And>m. r = Inr m \<Longrightarrow> fresh_ok m"
  shows "fresh_ok m'"
proof -
  let ?step = "\<lambda>t r. case r of Inl e \<Rightarrow> Inl e
     | Inr m \<Rightarrow> if getState m t = None then Inl t else Inr (join_group (fst grp) t m)"
  have "fresh_ok m'" if "fold ?step ts r = Inr m'" "\<And>m. r = Inr m \<Longrightarrow> fresh_ok m" for ts r
    using that
  proof (induction ts arbitrary: r)
    case (Cons t ts)
    show ?case
      by (rule Cons.IH [of "?step t r"]) (use Cons.prems in \<open>auto simp: join_group_keeps split: sum.splits if_splits\<close>)
  qed simp
  then show ?thesis
    using assms make_group_keeps unfolding register_group_def
    by (auto split: sum.splits)
qed

lemma load_keeps: "fresh_ok m \<Longrightarrow> fresh_ok (loadHistory saved m)"
proof (induction saved arbitrary: m)
  case Nil
  then show ?case by (simp add: loadHistory_def)
next
  case (Cons x saved)
  obtain t his where x: "x = (t, his)" by (cases x)
  have head: "fresh_ok (loadHistory [x] m)"
  proof (cases "getState m t")
    case None
    then show ?thesis using Cons.prems by (simp add: loadHistory_def x)
  next
    case (Some st)
    have fresh: "\<not> lastResultFromFullGeneration st" "state_ok (cycleSeq m) st"
      using Cons.prems Some by (auto simp: fresh_ok_def monitor_ok_state)
    then have "state_ok (cycleSeq m) (st\<lparr> st_history := restored h, from_cache := True \<rparr>)" for h
      by (simp add: state_ok_def evidence_ok_def restored_def)
    then show ?thesis
      using Cons.prems fresh by (auto simp: loadHistory_def x Some intro!: fresh_set_state split: option.split)
  qed
  then show ?case
    using Cons.IH [OF head] by (simp add: loadHistory_def)
qed

lemma start_ok:
  assumes "StartInitialize outs grps saved (new_monitoring c) = Returned (Inr m)"
  shows "fresh_ok m"
proof -
  obtain m1 where m1: "link_dependencies (register_outbounds outs (new_monitoring c)) = Returned m1"
    and m: "(case fold register_group grps (Inr (fold (join_group []) (map fst (mon_outbounds (makeGroup [] m1)))
        (makeGroup [] m1))) of Inl e \<Rightarrow> Inl e | Inr m \<Rightarrow> Inr (loadHistory saved m)) = Inr m"
    using assms by (auto simp: StartInitialize_def and_then_Returned Let_def)
  have "fresh_ok m1"
    using link_keeps [OF register_keeps [OF new_monitoring_ok] m1] .
  moreover have "fresh_ok m \<Longrightarrow> fresh_ok (fold (join_group []) ts m)" for ts m
    by (induction ts arbitrary: m) (simp_all add: join_group_keeps)
  ultimately have joined: "fresh_ok (fold (join_group []) ts (makeGroup [] m1))" for ts
    using make_group_keeps by blast
  have "fresh_ok m'" if "fold register_group gs r = Inr m'" "\<And>m. r = Inr m \<Longrightarrow> fresh_ok m" for gs r m'
    using that
  proof (induction gs arbitrary: r)
    case (Cons g gs)
    show ?case
      by (rule Cons.IH [of "register_group g r"]) (use Cons.prems register_group_keeps in auto)
  qed simp
  then show ?thesis
    using m joined by (auto split: sum.splits intro!: load_keeps)
qed

theorem reachable_ok: "mon_reachable m \<Longrightarrow> monitor_ok m"
  by (induction rule: mon_reachable.induct) (use start_ok step_keeps in \<open>auto simp: fresh_ok_def\<close>)

end
