(* ===== verification/Monitor_Facts.thy ===== *)
theory Monitor_Facts
  imports Monitor_Invariant
begin

text \<open>
  What single operations of the monitor do to the views and the queues, and the walk over the
  groups of a profile.
\<close>

section \<open>The ranking view of a leaf\<close>

lemma dynamic_fields [simp]:
  "CheckGeneration (applyDynamicHealth now p t h) = CheckGeneration h"
  "CombinedReady (applyDynamicHealth now p t h) = CombinedReady h"
  "URLTestStatus (applyDynamicHealth now p t h) = URLTestStatus h"
  by (simp_all add: applyDynamicHealth_def Let_def)

lemma leaf_ranking_fields:
  "CheckGeneration (leaf_view now m t st False) = CheckGeneration (st_history st)"
  "CombinedReady (leaf_view now m t st False) \<longleftrightarrow> CombinedReady (st_history st) \<and>
     \<not> (lastResultSourceKnown st \<and> \<not> lastResultFromFullGeneration st \<and> CheckGeneration (st_history st) > 0)"
  by (auto simp: leaf_view_def dynamic_view_def Let_def split: option.split)

lemma those_pget:
  assumes "those (map (\<lambda>t. map_option (Pair t) (f t)) ts) = Some m" and "pget m t = Some h"
  shows "f t = Some (Some h)"
  using assms
proof (induction ts arbitrary: m)
  case (Cons a ts)
  then show ?case by (auto split: option.splits if_splits)
qed simp

lemma ranking_entry:
  assumes "OutboundsRankingHistory n now real_of m g = Some history" and "pget history t = Some h"
    and "getState m t = Some st" and "map_of (mon_groups m) t = None"
  shows "h = leaf_view now m t st False"
proof -
  have "getURLTest n now real_of m False t = Some (Some h)"
    using assms(1,2) those_pget [of "getURLTest n now real_of m False" _ history t h]
    by (auto simp: OutboundsRankingHistory_def outboundsHistory_def split: option.splits)
  then show ?thesis
    using assms(3,4) by (cases n) simp_all
qed

section \<open>Operations the ranking view does not see\<close>

lemma same_ranking_refl: "same_ranking m m"
  by (simp add: same_ranking_def option.rel_refl)

lemma same_ranking_trans:
  assumes "same_ranking a b" and "same_ranking b c"
  shows "same_ranking a c"
proof -
  let ?G = "\<lambda>g g'. grp_outbounds g' = grp_outbounds g"
  let ?S = "\<lambda>s s'. st_outbound s' = st_outbound s \<and> st_history s' = st_history s \<and>
        lastResultSourceKnown s' = lastResultSourceKnown s \<and> from_cache s' = from_cache s \<and>
        lastResultFromFullGeneration s' = lastResultFromFullGeneration s"
  have g: "rel_option ?G x z" if "rel_option ?G x y" "rel_option ?G y z" for x y z
    using that by (cases x; cases y; cases z) simp_all
  have s: "rel_option ?S x z" if "rel_option ?S x y" "rel_option ?S y z" for x y z
    using that by (cases x; cases y; cases z) simp_all
  show ?thesis
    using assms unfolding same_ranking_def by (blast intro: g s)
qed

lemma same_ranking_fields:
  assumes "mon_groups m' = mon_groups m" and "mon_outbounds m' = mon_outbounds m"
  shows "same_ranking m m'"
  using assms by (simp add: same_ranking_def getState_def option.rel_refl)

lemma same_ranking_emit: "same_ranking m (emitGroupEvent gs m)"
proof -
  have one: "same_ranking m (m\<lparr> mon_groups := map (\<lambda>(k, grp). (k, if k = g then grp\<lparr> notify := True \<rparr> else grp))
      (mon_groups m) \<rparr>)" for g m
  proof -
    have grp: "rel_option (\<lambda>x x'. grp_outbounds x' = grp_outbounds x) (map_of gs' t)
        (map_of (map (\<lambda>(k, grp). (k, if k = g then grp\<lparr> notify := True \<rparr> else grp)) gs') t)" for gs' t
      by (induction gs') auto
    show ?thesis
      unfolding same_ranking_def
      by (intro conjI allI) (simp add: grp, simp add: option.rel_refl)
  qed
  show ?thesis
    unfolding emitGroupEvent_def
    by (induction gs arbitrary: m) (use same_ranking_refl one same_ranking_trans in \<open>fastforce+\<close>)
qed

lemma same_ranking_publish: "same_ranking m (publish t h m)"
  by (simp add: publish_def same_ranking_refl same_ranking_fields split: outcome.split)

lemma same_ranking_set:
  assumes "getState m t = Some st" and "st_outbound st' = st_outbound st" "st_history st' = st_history st"
    "lastResultSourceKnown st' = lastResultSourceKnown st" "from_cache st' = from_cache st"
    "lastResultFromFullGeneration st' = lastResultFromFullGeneration st"
  shows "same_ranking m (set_state t st' m)"
  using assms by (simp add: same_ranking_def frame_simps option.rel_refl)

lemma same_ranking_penalty: "same_ranking m (snd (runtimePenaltyForTag now t m))"
  by (simp add: runtimePenaltyForTag_def same_ranking_refl same_ranking_fields split: option.split)

text \<open>The penalties the view reads, at any later time.\<close>

definition same_penalties :: "instant \<Rightarrow> monitoring \<Rightarrow> monitoring \<Rightarrow> bool" where
  "same_penalties now m m' \<longleftrightarrow> (\<forall>later t. now \<le> later \<longrightarrow>
     fst (runtimePenaltyForTag later t m') = fst (runtimePenaltyForTag later t m))"

lemma same_penalties_stats: "runtimeStats m' = runtimeStats m \<Longrightarrow> same_penalties now m m'"
  by (simp add: same_penalties_def runtimePenaltyForTag_def split: option.split)

lemma same_penalties_read: "same_penalties now m (snd (runtimePenaltyForTag now t m))"
  using expired_drop_unobservable by (auto simp: same_penalties_def)

lemma same_penalties_trans: "same_penalties now a b \<Longrightarrow> same_penalties now b c \<Longrightarrow> same_penalties now a c"
  by (simp add: same_penalties_def)

definition ranking_blind :: "instant \<Rightarrow> monitoring \<Rightarrow> monitoring \<Rightarrow> bool" where
  "ranking_blind now m m' \<longleftrightarrow> same_ranking m m' \<and> same_penalties now m m'"

lemma ranking_blind_trans: "ranking_blind now a b \<Longrightarrow> ranking_blind now b c \<Longrightarrow> ranking_blind now a c"
  using same_ranking_trans same_penalties_trans by (auto simp: ranking_blind_def)

lemma ranking_blind_refl: "ranking_blind now m m"
  by (simp add: ranking_blind_def same_ranking_refl same_penalties_stats)

lemma ranking_blind_histories:
  "ranking_blind now m m' \<Longrightarrow> now \<le> later
    \<Longrightarrow> OutboundsRankingHistory n later real_of m' g = OutboundsRankingHistory n later real_of m g"
  by (auto simp: ranking_blind_def same_penalties_def intro: same_ranking_histories)

lemma blind_emit: "ranking_blind now m (emitGroupEvent gs m)"
  by (simp add: ranking_blind_def same_ranking_emit same_penalties_stats frame_simps)

lemma blind_publish: "ranking_blind now m (publish t h m)"
  by (simp add: ranking_blind_def same_ranking_publish same_penalties_stats frame_simps)

lemma blind_penalty: "ranking_blind now m (snd (runtimePenaltyForTag now t m))"
  by (simp add: ranking_blind_def same_ranking_penalty same_penalties_read)

lemma blind_set:
  assumes "getState m t = Some st" and "st_outbound st' = st_outbound st" "st_history st' = st_history st"
    "lastResultSourceKnown st' = lastResultSourceKnown st" "from_cache st' = from_cache st"
    "lastResultFromFullGeneration st' = lastResultFromFullGeneration st"
  shows "ranking_blind now m (set_state t st' m)"
  using same_ranking_set [OF assms] by (simp add: ranking_blind_def same_penalties_stats frame_simps)

lemma blind_publish_active: "ranking_blind now m (snd (PublishActiveProbePresentation now result m))"
proof (cases "getState m (ProbedTag result)")
  case None
  then show ?thesis by (simp add: PublishActiveProbePresentation_def Let_def ranking_blind_refl)
next
  case (Some st)
  let ?m1 = "set_state (ProbedTag result) (st\<lparr> activeProbePresentation :=
      Some (ProbedHistory result, rankingRevision st) \<rparr>) m"
  have 1: "ranking_blind now m ?m1"
    by (rule blind_set [OF Some]) simp_all
  have "ranking_blind now m (emitGroupEvent gs (publish t h ?m1))"
    "ranking_blind now m (emitGroupEvent gs (publish t h (snd (runtimePenaltyForTag now t ?m1))))" for gs t h
    by (rule ranking_blind_trans [OF 1 ranking_blind_trans [OF blind_publish blind_emit]],
        rule ranking_blind_trans [OF 1 ranking_blind_trans [OF blind_penalty
          ranking_blind_trans [OF blind_publish blind_emit]]])
  then show ?thesis
    by (simp add: PublishActiveProbePresentation_def Some Let_def split_def ranking_blind_refl)
qed

lemma blind_begin_active: "ranking_blind now m (snd (begin_active_probe t m))"
  by (auto simp: begin_active_probe_def ranking_blind_refl intro: blind_set split: option.split)

lemma blind_end_active: "ranking_blind now m (end_active_probe t m)"
  by (auto simp: end_active_probe_def ranking_blind_refl intro: blind_set split: option.split)

lemma blind_single: "ranking_blind now m (snd (testSingleOutbound now t ready delay err udp m))"
proof -
  obtain r m1 where begin': "begin_active_probe t m = (r, m1)"
    by (cases "begin_active_probe t m")
  have m1: "ranking_blind now m m1"
    using blind_begin_active [of now m t] by (simp add: begin')
  have rest: "ranking_blind now m (snd (PublishActiveProbePresentation now res'
      (end_active_probe t (snd (runtimePenaltyForTag now t m1)))))" for res'
    by (rule ranking_blind_trans [OF m1 ranking_blind_trans [OF blind_penalty
        ranking_blind_trans [OF blind_end_active blind_publish_active]]])
  show ?thesis
  proof (cases r)
    case None
    then show ?thesis using m1 by (simp add: testSingleOutbound_def begin')
  next
    case (Some r')
    then show ?thesis
      using m1 rest by (cases r') (simp_all add: testSingleOutbound_def begin' split_def Let_def)
  qed
qed

section \<open>Results that arrive too late\<close>

lemma stale_result: 
  assumes "getState m (outcomeTag out) = Some st" and "CheckGeneration (st_history st) > 0"
    and "outcomeCycle out \<noteq> CheckGeneration (st_history st)"
  shows "applyResult now out m = (None, m)"
  using assms by (simp add: applyResult_def)

lemma late_success:
  assumes "getState m (outcomeTag out) = Some st" and "\<not> outcomeFull out" and "Success (outcomeHistory out)"
    and "lastResultFromFullGeneration st \<or> URLTestStatus (st_history st) = StatusFailed"
  shows "ranking_blind now m (snd (applyResult now out m)) \<and> storage (snd (applyResult now out m)) = storage m"
proof -
  have "ranking_blind now m (set_state (outcomeTag out) (st\<lparr> priorityQueued := False \<rparr>) m)"
    "ranking_blind now m (set_state (outcomeTag out) (st\<lparr> queued := False, enqueuedCycle := 0 \<rparr>) m)"
    by (rule blind_set [OF assms(1)]; simp)+
  then show ?thesis
    using assms by (simp add: applyResult_def ranking_blind_refl frame_simps Let_def)
qed

section \<open>The queue of validation probes\<close>

lemma stale_task_dropped:
  assumes "getState m (taskTag task) = Some st" and "CheckGeneration (st_history st) > 0"
    and "taskCycle task \<noteq> CheckGeneration (st_history st)"
  shows "enqueueTask now task m = (False, m)"
  using assms by (simp add: enqueueTask_def Let_def)

lemma queues_set_state [frame_simps]:
  "priorityQueue (set_state t st m) = priorityQueue m" "normalQueue (set_state t st m) = normalQueue m"
  by (simp_all add: set_state_def)

lemma validation_dropped:
  assumes "getState m t = Some st" and "CheckGeneration (st_history st) > 0"
    and "cycleSeq m \<noteq> CheckGeneration (st_history st)"
  shows "fst (InvalidateTest now t m)"
    and "priorityQueue (snd (InvalidateTest now t m)) = priorityQueue m"
    and "normalQueue (snd (InvalidateTest now t m)) = normalQueue m"
  using assms stale_task_dropped [of "set_state t (st\<lparr> invalid := True \<rparr>) m"
      "\<lparr> taskTag = t, taskCycle = cycleSeq m, taskPriority = True, taskFull = False, taskDefer = False \<rparr>"
      "st\<lparr> invalid := True \<rparr>" now]
  by (simp_all add: InvalidateTest_def Let_def frame_simps)

lemma queues_frame [frame_simps]:
  "priorityQueue (publish t h m) = priorityQueue m" "normalQueue (publish t h m) = normalQueue m"
  "priorityQueue (emitGroupEvent gs m) = priorityQueue m" "normalQueue (emitGroupEvent gs m) = normalQueue m"
proof -
  show "priorityQueue (publish t h m) = priorityQueue m" "normalQueue (publish t h m) = normalQueue m"
    by (simp_all add: publish_def split: outcome.split)
  have "priorityQueue (emitGroupEvent gs m) = priorityQueue m \<and> normalQueue (emitGroupEvent gs m) = normalQueue m"
    unfolding emitGroupEvent_def by (induction gs arbitrary: m) simp_all
  then show "priorityQueue (emitGroupEvent gs m) = priorityQueue m"
    "normalQueue (emitGroupEvent gs m) = normalQueue m" by simp_all
qed

lemma error_queues_nothing:
  assumes "getState m t = Some st" and "CheckGeneration (st_history st) > 0"
    and "cycleSeq m \<noteq> CheckGeneration (st_history st)"
  shows "priorityQueue (RecordRuntimeError now t err m) = priorityQueue m
    \<and> normalQueue (RecordRuntimeError now t err m) = normalQueue m"
proof -
  have probe: "priorityQueue (maybeQueueRuntimeValidationProbe now t m') = priorityQueue m' \<and>
      normalQueue (maybeQueueRuntimeValidationProbe now t m') = normalQueue m'"
    if "getState m' t = Some st'" "CheckGeneration (st_history st') = CheckGeneration (st_history st)"
      "cycleSeq m' = cycleSeq m" for m' st'
  proof -
    have g: "getState (m'\<lparr> runtimeTraffic := x \<rparr>) t = Some st'" for x
      using that(1) by simp
    show ?thesis
      using validation_dropped(2,3) [OF g] that assms(2,3)
      by (simp add: maybeQueueRuntimeValidationProbe_def pruneRuntimeTraffic_def Let_def)
  qed
  have gen: "CheckGeneration (runtime_error_history now t c e b p h) = CheckGeneration h" for c e b p h
    by (simp add: runtime_error_history_def Let_def)
  show ?thesis
    unfolding RecordRuntimeError_def
    using assms(1) probe gen
    by (auto simp: frame_simps Let_def split_def)
qed

text \<open>
  Two goroutines that allocate and reset in opposite orders take an outbound back to the older
  generation, and the results of the newer one are then dropped as stale.
\<close>

lemma begin_can_lower_generation:
  assumes "getState m t = Some st"
  shows "\<exists>st'. getState (beginCheckGeneration now g [t] m) t = Some st' \<and> CheckGeneration (st_history st') = g"
  using assms by (simp add: beginCheckGeneration_def resetOutboundCheckState_def Let_def frame_simps)

lemma newer_results_lost:
  assumes "mon_reachable m" and "getState m t = Some st" and "0 < g" and "g < CheckGeneration (st_history st)"
    and "outcomeTag out = t" and "outcomeCycle out = CheckGeneration (st_history st)"
  shows "\<exists>m'. mon_step m m' \<and> applyResult now out m' = (None, m')"
proof (intro exI conjI)
  have "g \<le> cycleSeq m"
    using monitor_ok_state [OF reachable_ok [OF assms(1)] assms(2)] assms(4) by (auto simp: state_ok_def)
  then show "mon_step m (beginCheckGeneration now g [t] m)"
    by (rule mon_step.begin_generation)
  show "applyResult now out (beginCheckGeneration now g [t] m) = (None, beginCheckGeneration now g [t] m)"
    using begin_can_lower_generation [OF assms(2), of now g] assms(3-6) by (auto intro!: stale_result)
qed

section \<open>The walk over groups\<close>

text \<open>What lies below a tag, by the membership of groups alone.\<close>

inductive below :: "monitoring \<Rightarrow> tag \<Rightarrow> tag \<Rightarrow> bool" for m t where
  here: "below m t t"
| member: "below m t u \<Longrightarrow> u \<noteq> [] \<Longrightarrow> map_of (mon_groups m) u = Some grp \<Longrightarrow> c \<in> set (grp_outbounds grp)
    \<Longrightarrow> below m t c"

definition leaf_tag :: "monitoring \<Rightarrow> tag \<Rightarrow> bool" where
  "leaf_tag m t \<longleftrightarrow> t \<noteq> [] \<and> map_of (mon_groups m) t = None \<and> getState m t \<noteq> None"

definition walk_ok :: "monitoring \<Rightarrow> tag \<Rightarrow> tag list \<Rightarrow> tag list \<Rightarrow> tag list \<Rightarrow> bool" where
  "walk_ok m t stack seen result \<longleftrightarrow>
     (\<forall>u \<in> set stack \<union> set seen. below m t u) \<and> t \<in> set stack \<union> set seen \<union> {[]} \<and>
     (\<forall>u \<in> set seen. u \<noteq> [] \<and> (\<forall>grp. map_of (mon_groups m) u = Some grp \<longrightarrow>
        set (grp_outbounds grp) \<subseteq> set seen \<union> set stack \<union> {[]})) \<and>
     set result = {u \<in> set seen. leaf_tag m u} \<and> distinct result"

lemma walk_invariant:
  "walk_ok m t stack seen result \<Longrightarrow> \<exists>seen'. walk_ok m t [] seen' (walk m stack seen result)"
proof (induction m stack seen result rule: walk.induct)
  case (1 m seen result)
  then show ?case by auto
next
  case (2 m u stack seen result)
  note ok = 2(5) [unfolded walk_ok_def]
  show ?case
  proof (cases "u = [] \<or> u \<in> set seen")
    case True
    have "set (u # stack) \<union> set seen \<union> {[]} = set stack \<union> set seen \<union> {[]}"
      "set seen \<union> set (u # stack) \<union> {[]} = set seen \<union> set stack \<union> {[]}"
      using True by auto
    then have "walk_ok m t stack seen result"
      using ok unfolding walk_ok_def by simp
    then show ?thesis using 2(1) True by simp
  next
    case fresh: False
    show ?thesis
    proof (cases "map_of (mon_groups m) u")
      case (Some grp)
      have below: "below m t u"
        using ok by simp
      have more: "below m t c" if "c \<in> set (grp_outbounds grp)" for c
        using below.member [OF below _ Some that] fresh by simp
      have no_leaf: "\<not> leaf_tag m u"
        by (simp add: leaf_tag_def Some)
      have seen_ok: "set (grp_outbounds grp') \<subseteq> set seen \<union> set (u # stack) \<union> {[]}"
        if "v \<in> set seen" "map_of (mon_groups m) v = Some grp'" for v grp'
        using ok that by blast
      have "walk_ok m t (grp_outbounds grp @ stack) (u # seen) result"
        unfolding walk_ok_def
      proof (intro conjI ballI allI impI)
        show "below m t c" if "c \<in> set (grp_outbounds grp @ stack) \<union> set (u # seen)" for c
          using that ok more by auto
        show "set (grp_outbounds grp') \<subseteq> set (u # seen) \<union> set (grp_outbounds grp @ stack) \<union> {[]}"
          if "v \<in> set (u # seen)" "map_of (mon_groups m) v = Some grp'" for v grp'
        proof (cases "v = u")
          case True
          then show ?thesis using that Some by auto
        next
          case False
          then have "set (grp_outbounds grp') \<subseteq> set seen \<union> set (u # stack) \<union> {[]}"
            using that seen_ok by simp
          then show ?thesis by auto
        qed
        show "v \<noteq> []" if "v \<in> set (u # seen)" for v
          using that ok fresh by auto
        show "set result = {v \<in> set (u # seen). leaf_tag m v}"
          using ok no_leaf by auto
      qed (use ok in auto)
      then show ?thesis using 2(2,3,4) Some fresh by auto
    next
      case None
      have "walk_ok m t stack (u # seen) (if getState m u \<noteq> None then result @ [u] else result)"
        using 2(5) None fresh unfolding walk_ok_def
        by (auto simp: leaf_tag_def split: if_splits)
      then show ?thesis
        using 2(2,3,4) None fresh by (cases "getState m u = None") auto
    qed
  qed
qed

lemma walk_finds_leaves:
  "set (walk m [t] [] []) = {u. below m t u \<and> leaf_tag m u} \<and> distinct (walk m [t] [] [])"
proof -
  have "walk_ok m t [t] [] []"
    by (simp add: walk_ok_def below.here)
  then obtain seen where ok: "walk_ok m t [] seen (walk m [t] [] [])"
    using walk_invariant by blast
  have "u \<in> set seen \<union> {[]}" if "below m t u" for u
    using that
  proof (induction rule: below.induct)
    case here
    then show ?case using ok by (simp add: walk_ok_def)
  next
    case (member u grp c)
    then show ?case using ok unfolding walk_ok_def by fastforce
  qed
  then show ?thesis
    using ok unfolding walk_ok_def by (auto simp: leaf_tag_def)
qed

text \<open>Batches are the targets, cut in order.\<close>

lemma concat_batches: "0 < n \<Longrightarrow> concat (batches n xs) = xs"
proof (induction n xs rule: batches.induct)
  case (1 n xs)
  then show ?case by (subst batches.simps) auto
qed

lemma batch_length: "b \<in> set (batches n xs) \<Longrightarrow> 0 < length b \<and> length b \<le> n"
proof (induction n xs rule: batches.induct)
  case (1 n xs)
  then show ?case by (subst (asm) (2) batches.simps) (auto split: if_splits)
qed

end
