(* ===== verification/Monitor_Settle.thy ===== *)
theory Monitor_Settle
  imports Monitor_Facts Smart_Invariant
begin

text \<open>
  What the monitor owes the selection: a test returns an outcome the invariant allows, and the
  full results of one generation, committed in any order, make the ranking view of a group a
  settled generation for Smart Active. The group is a list of leaves; \<open>full_result\<close> is what a
  committed full result leaves in the state of its outbound.
\<close>

section \<open>What a test returns\<close>

lemma tester_penalty: "RuntimePenalty (fst (tester now p mode prev c t d err cap gone lookup)) = p"
  unfolding tester_def Let_def split_def by (auto split: option.split)

lemma tester_outcome_ok:
  assumes "0 \<le> p" and "p \<le> 25" and "g \<le> counter"
  shows "outcome_ok counter \<lparr> outcomeTag = t, outcomeUrl = u,
    outcomeHistory = fst (tester now p mode prev c t d err cap gone lookup),
    outcomeErr = snd (tester now p mode prev c t d err cap gone lookup), outcomeCycle = g,
    outcomePriority = b, outcomeFull = f, outcomeDefer = n \<rparr>"
  using assms by (simp add: outcome_ok_def tester_penalty)

lemma task_error_ok:
  assumes "0 \<le> p" and "p \<le> 25" and "g \<le> counter"
  shows "outcome_ok counter (newTaskErrorOutcome now p t g b f err)"
  using assms by (simp add: outcome_ok_def newTaskErrorOutcome_def Let_def split_def)

text \<open>
  The IP lookup of a healthy server may take less than a millisecond: its delay is cut to 0, taken over
  as the delay of the test, and the result is stored as a failure.
\<close>

lemma instant_lookup_fails_server:
  assumes "0 < d" and "d < TimeoutDelay" and "\<not> IPv6ModeRequiresCapability mode" and "IpInfo prev = None"
    and "tester now p mode prev c t d None cap None (Some (ip, 0)) = (h, err)"
  shows "err = None \<and> Success h \<and> \<not> Success (normalizeTerminalHistory later t h err)"
proof -
  have none: "ClassifyProbeError None = (ErrorTypeNone, [])"
    by (simp add: ClassifyProbeError_def)
  have d: "d \<noteq> 0" "\<not> TimeoutDelay \<le> d"
    using assms(1,2) by (auto simp: word_gt_0)
  have "err = None" and h: "Success h \<and> Delay h = 0"
    using assms(5) unfolding tester_def Let_def none split_def
    by (simp_all add: d assms(1-4) none) (use assms(1) d in auto)
  moreover have "\<not> Success (normalizeTerminalHistory later t h err)"
    using h by (simp add: normalizeTerminalHistory_def Let_def split_def)
  ultimately show ?thesis by simp
qed

section \<open>A full result\<close>

lemma normalized_fields [simp]:
  "Time (normalizeTerminalHistory now t h e) = Time h"
  by (simp add: normalizeTerminalHistory_def Let_def split_def)

lemma probe_evidence_time [simp]: "Time (applyProbeEvidenceWithRecovery now t h p full) = Time h"
  by (simp add: applyProbeEvidenceWithRecovery_def Let_def)

lemma committed_time [simp]: "Time (committed_history now c st out new) = Time new"
  by (simp add: committed_history_def Let_def)

text \<open>The state of an outbound whose last result is that of a full check of generation \<open>g\<close>.\<close>

definition full_result :: "u64 \<Rightarrow> instant \<Rightarrow> outbound_state \<Rightarrow> bool" where
  "full_result g start st \<longleftrightarrow> lastResultFromFullGeneration st \<and> lastResultSourceKnown st \<and> \<not> from_cache st \<and>
     CombinedReady (st_history st) \<and> CheckGeneration (st_history st) = g \<and>
     Time (st_history st) \<noteq> 0 \<and> start \<le> Time (st_history st) \<and>
     URLTestStatus (st_history st) \<in> {StatusSuccess, StatusFailed}"

definition full_outcome :: "u64 \<Rightarrow> instant \<Rightarrow> test_outcome \<Rightarrow> bool" where
  "full_outcome g start out \<longleftrightarrow> outcomeFull out \<and> outcomeCycle out = g \<and>
     Time (outcomeHistory out) \<noteq> 0 \<and> start \<le> Time (outcomeHistory out)"

lemma apply_full:
  assumes "\<not> ctx_done m" and "getState m (outcomeTag out) = Some st"
    and "CheckGeneration (st_history st) = g" and "full_outcome g start out"
  shows "\<exists>st'. getState (snd (applyResult now out m)) (outcomeTag out) = Some st' \<and> full_result g start st'"
  using assms
  by (auto simp: applyResult_def full_outcome_def full_result_def frame_simps Let_def
      advanceRankingRevision_def ResultStatus_def)

text \<open>The members of a group, which no operation after the start changes.\<close>

definition members_of :: "monitoring \<Rightarrow> tag \<Rightarrow> tag list option" where
  "members_of m g = map_option grp_outbounds (map_of (mon_groups m) g)"

lemma members_fields [simp]:
  "members_of (set_state t st m) g = members_of m g" "members_of (publish t h m) g = members_of m g"
  "members_of (m\<lparr> cacheDirty := d \<rparr>) g = members_of m g"
  "members_of (m\<lparr> udpProbeQueued := q \<rparr>) g = members_of m g"
  by (simp_all add: members_of_def frame_simps)

lemma members_emit [simp]: "members_of (emitGroupEvent gs m) g = members_of m g"
proof -
  have "rel_option (\<lambda>x x'. grp_outbounds x' = grp_outbounds x) (map_of (mon_groups m) g)
      (map_of (mon_groups (emitGroupEvent gs m)) g)"
    using same_ranking_emit [of m gs] by (simp add: same_ranking_def)
  then show ?thesis
    unfolding members_of_def
    by (cases "map_of (mon_groups m) g"; cases "map_of (mon_groups (emitGroupEvent gs m)) g") simp_all
qed

lemma members_none: "map_of (mon_groups m) g = None \<longleftrightarrow> members_of m g = None"
  by (simp add: members_of_def)

lemma apply_frame [simp]:
  "members_of (snd (applyResult now out m)) g = members_of m g"
  "ctx_done (snd (applyResult now out m)) = ctx_done m"
  "t \<noteq> outcomeTag out \<Longrightarrow> getState (snd (applyResult now out m)) t = getState m t"
  by (auto simp: applyResult_def frame_simps Let_def split: option.splits)

lemma reset_frame [simp]:
  "members_of (resetOutboundCheckState now g t m) u = members_of m u"
  "ctx_done (resetOutboundCheckState now g t m) = ctx_done m"
  "u \<noteq> t \<Longrightarrow> getState (resetOutboundCheckState now g t m) u = getState m u"
  "getState (resetOutboundCheckState now g t m) u = None \<longleftrightarrow> getState m u = None"
  by (auto simp: resetOutboundCheckState_def frame_simps Let_def split: option.splits)

lemma begin_frame [simp]:
  "members_of (beginCheckGeneration now g tags m) u = members_of m u
    \<and> ctx_done (beginCheckGeneration now g tags m) = ctx_done m"
  unfolding beginCheckGeneration_def by (induction tags arbitrary: m) simp_all

lemma begin_generation_of:
  assumes "t \<in> set tags" and "getState m t \<noteq> None"
  shows "\<exists>st. getState (beginCheckGeneration now g tags m) t = Some st \<and> CheckGeneration (st_history st) = g"
  using assms
proof (induction tags arbitrary: m)
  case (Cons a tags)
  show ?case
  proof (cases "t \<in> set tags")
    case True
    then show ?thesis
      using Cons.IH [of "resetOutboundCheckState now g a m"] Cons.prems
      by (simp add: beginCheckGeneration_def)
  next
    case False
    have rest: "getState (beginCheckGeneration now g tags m) t = getState m t" if "t \<notin> set tags" for m tags
      using that unfolding beginCheckGeneration_def by (induction tags arbitrary: m) auto
    show ?thesis
      using begin_can_lower_generation [of m t _ now g] Cons.prems rest [OF False, of "resetOutboundCheckState now g a m"] False
      by (auto simp: beginCheckGeneration_def)
  qed
qed simp

text \<open>The results of a stage, each with the time it is committed at.\<close>

definition commit_all :: "(instant \<times> test_outcome) list \<Rightarrow> monitoring \<Rightarrow> monitoring" where
  "commit_all outs m = fold (\<lambda>(now, out) m. snd (applyResult now out m)) outs m"

lemma commit_frame [simp]:
  "members_of (commit_all outs m) g = members_of m g \<and> ctx_done (commit_all outs m) = ctx_done m"
  unfolding commit_all_def by (induction outs arbitrary: m) (simp_all add: split_def)

lemma commit_full:
  assumes "\<not> ctx_done m" and "\<forall>(now, out) \<in> set outs. full_outcome g start out"
    and "t \<in> outcomeTag ` snd ` set outs \<or> (\<exists>st. getState m t = Some st \<and> full_result g start st)"
    and "\<exists>st. getState m t = Some st \<and> CheckGeneration (st_history st) = g"
  shows "\<exists>st. getState (commit_all outs m) t = Some st \<and> full_result g start st"
  using assms
proof (induction outs arbitrary: m)
  case Nil
  then show ?case by (simp add: commit_all_def)
next
  case (Cons x outs)
  obtain now out where x: "x = (now, out)" by (cases x)
  let ?m = "snd (applyResult now out m)"
  obtain st where st: "getState m t = Some st" "CheckGeneration (st_history st) = g"
    using Cons.prems(4) by blast
  have full: "full_outcome g start out"
    using Cons.prems(2) by (simp add: x)
  have now_full: "\<exists>st. getState ?m t = Some st \<and> full_result g start st" if "t = outcomeTag out"
    using apply_full [OF Cons.prems(1)] st full that by simp
  have "\<exists>st. getState (commit_all outs ?m) t = Some st \<and> full_result g start st"
  proof (rule Cons.IH)
    show "t \<in> outcomeTag ` snd ` set outs \<or> (\<exists>st. getState ?m t = Some st \<and> full_result g start st)"
      using Cons.prems(3) now_full by (cases "t = outcomeTag out") (auto simp: x)
    show "\<exists>st. getState ?m t = Some st \<and> CheckGeneration (st_history st) = g"
      using now_full st by (cases "t = outcomeTag out") (auto simp: full_result_def)
  qed (use Cons.prems in \<open>simp_all add: x\<close>)
  then show ?case
    by (simp add: commit_all_def x)
qed

lemma full_result_view:
  assumes "full_result g start st" and "g > 0"
  shows "CheckGeneration (leaf_view now m t st False) = g" "CombinedReady (leaf_view now m t st False)"
    "Time (leaf_view now m t st False) = Time (st_history st)" "\<not> IsFromCache (leaf_view now m t st False)"
    "terminal_result (leaf_view now m t st False)"
proof -
  have dynamic: "Time (applyDynamicHealth now p t h) = Time h" "IsFromCache (applyDynamicHealth now p t h) = IsFromCache h" for p h
    by (simp_all add: applyDynamicHealth_def Let_def)
  have "URLTestStatus (leaf_view now m t st False) = URLTestStatus (st_history st)"
    using assms by (auto simp: leaf_view_def dynamic_view_def full_result_def Let_def split: option.split)
  then show "terminal_result (leaf_view now m t st False)"
    using assms by (auto simp: terminal_result_def full_result_def)
  show "CheckGeneration (leaf_view now m t st False) = g" "CombinedReady (leaf_view now m t st False)"
    using assms by (simp_all add: leaf_ranking_fields full_result_def)
  show "Time (leaf_view now m t st False) = Time (st_history st)" "\<not> IsFromCache (leaf_view now m t st False)"
    using assms by (auto simp: leaf_view_def dynamic_view_def full_result_def Let_def dynamic split: option.split)
qed

lemma those_pairs:
  assumes "\<forall>t \<in> set ts. \<exists>h. f t = Some (Some h) \<and> P t h"
  shows "\<exists>hs. those (map (\<lambda>t. map_option (Pair t) (f t)) ts) = Some hs \<and> (\<forall>t \<in> set ts. \<exists>h. pget hs t = Some h \<and> P t h)"
  using assms
proof (induction ts)
  case (Cons a ts)
  then obtain h hs where "f a = Some (Some h)" "P a h"
    "those (map (\<lambda>t. map_option (Pair t) (f t)) ts) = Some hs" "\<forall>t \<in> set ts. \<exists>h. pget hs t = Some h \<and> P t h"
    by auto
  then show ?case by auto
qed simp

lemma full_results_settle:
  assumes "members_of m grp = Some ts" and "\<forall>t \<in> set ts. members_of m t = None \<and>
      (\<exists>st. getState m t = Some st \<and> full_result g (sa_startedAt s) st)"
    and "g > 0" and "sa_outbounds s \<noteq> []" and "Tag ` set (sa_outbounds s) \<subseteq> set ts"
  shows "\<exists>history. OutboundsRankingHistory (Suc n) now real_of m grp = Some history \<and> generationSettled s history g"
proof -
  have "\<exists>h. getURLTest (Suc n) now real_of m False t = Some (Some h) \<and> settled_entry s g h" if t: "t \<in> set ts" for t
  proof -
    obtain st where st: "getState m t = Some st" "full_result g (sa_startedAt s) st"
      using assms(2) t by blast
    have "map_of (mon_groups m) t = None"
      using assms(2) t by (simp add: members_none)
    then show ?thesis
      using full_result_view [OF st(2) assms(3)] st
      by (simp add: settled_entry_def fresh_entry_def) (simp add: full_result_def)
  qed
  then obtain history where "those (map (\<lambda>t. map_option (Pair t) (getURLTest (Suc n) now real_of m False t)) ts)
      = Some history" and entries: "\<forall>t \<in> set ts. \<exists>h. pget history t = Some h \<and> settled_entry s g h"
    using those_pairs [of ts "getURLTest (Suc n) now real_of m False" "\<lambda>_. settled_entry s g"] by blast
  then have "OutboundsRankingHistory (Suc n) now real_of m grp = Some history"
    using assms(1) by (auto simp: OutboundsRankingHistory_def outboundsHistory_def members_of_def)
  moreover have "generationSettled s history g"
    using entries assms(3-5) unfolding generationSettled_iff by (auto simp: word_gt_0)
  ultimately show ?thesis by blast
qed

end
