(* ===== verification/Monitor_Scenarios.thy ===== *)
theory Monitor_Scenarios
  imports Monitor_Settle
begin

text \<open>
  A small profile for the witnesses: two servers in one group, registered, one cycle started and
  both results committed, with every state shown reachable.
\<close>

definition sample_config :: mon_config where
  "sample_config = \<lparr> mc_ipv6Mode = DomainStrategyAsIS, mc_ipv6CapabilityTTL = minutes 10,
     mc_mainInterval = minutes 3, mc_workersCount = 10, mc_udpProbeEnabled = False,
     mc_udpProbeCooldown = seconds 60, mc_udpProbeTopN = 3, mc_urls = [''u''] \<rparr>"

definition leaf :: "string \<Rightarrow> mon_outbound" where
  "leaf t = \<lparr> Tag = t, Networks = [NetworkTCP, NetworkUDP], OutType = ''vless'' \<rparr>"

definition group_outbound :: mon_outbound where
  "group_outbound = \<lparr> Tag = ''auto'', Networks = [NetworkTCP, NetworkUDP], OutType = ''balancer'' \<rparr>"

abbreviation (input) sample_start :: "(tag + monitoring) outcome" where
  "sample_start \<equiv> StartInitialize [(leaf ''a'', []), (leaf ''b'', []), (group_outbound, [])]
     [(''auto'', [''a'', ''b''])] [] (new_monitoring sample_config)"

definition sample_monitor :: monitoring where
  "sample_monitor = (case sample_start of Returned (Inr m) \<Rightarrow> m | _ \<Rightarrow> new_monitoring sample_config)"

lemma sample_started: "sample_start = Returned (Inr sample_monitor)"
proof -
  have "case sample_start of Returned (Inr m) \<Rightarrow> True | _ \<Rightarrow> False"
    by code_simp
  then show ?thesis
    unfolding sample_monitor_def by (auto split: outcome.splits sum.splits)
qed

lemma sample_reachable: "mon_reachable sample_monitor"
  by (rule mon_reachable.started [OF sample_started])

definition allocated :: monitoring where "allocated = snd (allocate_cycle sample_monitor)"

definition cycle_one :: monitoring where
  "cycle_one = beginCheckGeneration (seconds 1000) 1 [''a'', ''b''] allocated"

lemma cycle_one_reachable: "mon_reachable cycle_one"
proof -
  have "mon_reachable allocated"
    unfolding allocated_def
    by (rule mon_reachable.stepped [OF sample_reachable mon_step.allocate]) code_simp
  then show ?thesis
    unfolding cycle_one_def
    by (rule mon_reachable.stepped) (rule mon_step.begin_generation, code_simp)
qed

definition answered :: "tag \<Rightarrow> u16 \<Rightarrow> test_outcome" where
  "answered t d = \<lparr> outcomeTag = t, outcomeUrl = ''u'', outcomeHistory =
       fst (tester (seconds 1002) 0 DomainStrategyAsIS zero_history False t d None
         \<lparr> probe_status = [], probe_checkedAt = 0, probe_successes = 0, probe_attempts = 0, probe_errorType = [],
           probe_errorText = [] \<rparr>
         None None), outcomeErr = None, outcomeCycle = 1, outcomePriority = False, outcomeFull = True, outcomeDefer = True \<rparr>"

definition measured :: monitoring where
  "measured = snd (applyResult (seconds 1003) (answered ''b'' 90)
     (snd (applyResult (seconds 1002) (answered ''a'' 120) cycle_one)))"

lemma measured_reachable: "mon_reachable measured"
proof -
  have "cycleSeq cycle_one = 1" "cycleSeq (snd (applyResult (seconds 1002) (answered ''a'' 120) cycle_one)) = 1"
    by code_simp+
  moreover have "outcome_ok 1 (answered ''a'' 120)" "outcome_ok 1 (answered ''b'' 90)"
    by code_simp+
  ultimately show ?thesis
    unfolding measured_def by (intro mon_reachable.stepped [OF _ mon_step.result] cycle_one_reachable) simp_all
qed

end
