(* ===== verification/Claims_Monitoring.thy ===== *)
theory Claims_Monitoring
  imports Monitor_Scenarios Scenarios
begin

text \<open>
  Properties of the outbound monitoring: what settles a generation, what the ranking view does not
  see, what its numbers can be, and which tasks and targets its queues hold.
\<close>

section \<open>Settled generations\<close>

text \<open>
  C9: Only full results settle a generation. In every reachable monitor, when Smart Active takes the
  ranking histories of a group for a settled generation, the last result of every server of the profile
  is one of a full check of exactly that generation: no retest of a single server and no result of
  another cycle can complete it.
\<close>

theorem only_full_results_settle:
  assumes "mon_reachable m" and "OutboundsRankingHistory n now real_of m grp = Some history"
    and "generationSettled s history g" and "out \<in> set (sa_outbounds s)"
    and "getState m (Tag out) = Some st" and "map_of (mon_groups m) (Tag out) = None"
  shows "lastResultFromFullGeneration st \<and> CheckGeneration (st_history st) = g"
proof -
  obtain h where h: "pget history (Tag out) = Some h" "settled_entry s g h" and g: "g \<noteq> 0"
    using assms(3,4) by (auto simp: generationSettled_iff)
  have view: "h = leaf_view now m (Tag out) st False"
    by (rule ranking_entry [OF assms(2) h(1) assms(5,6)])
  have "CombinedReady (st_history st) \<longrightarrow> lastResultSourceKnown st"
    using monitor_ok_state [OF reachable_ok [OF assms(1)] assms(5)] by (simp add: state_ok_def)
  then show ?thesis
    using h(2) g by (auto simp: settled_entry_def view leaf_ranking_fields word_gt_0)
qed

abbreviation (input) shown :: "mon_outbound \<Rightarrow> tag" where "shown \<equiv> \<lambda>out. Tag out"

lemma measured_view:
  "OutboundsRankingHistory 1 (seconds 1060) shown measured ''auto'' = Some (the
     (OutboundsRankingHistory 1 (seconds 1060) shown measured ''auto''))"
  "generationSettled (NewSmartActive (seconds 1000) [server ''a'', server ''b''] DomainStrategyAsIS 0)
     (the (OutboundsRankingHistory 1 (seconds 1060) shown measured ''auto'')) 1"
proof -
  have "case OutboundsRankingHistory 1 (seconds 1060) shown measured ''auto'' of None \<Rightarrow> False | Some _ \<Rightarrow> True"
    by code_simp
  then show "OutboundsRankingHistory 1 (seconds 1060) shown measured ''auto'' = Some (the
     (OutboundsRankingHistory 1 (seconds 1060) shown measured ''auto''))"
    by (simp split: option.splits)
  show "generationSettled (NewSmartActive (seconds 1000) [server ''a'', server ''b''] DomainStrategyAsIS 0)
     (the (OutboundsRankingHistory 1 (seconds 1060) shown measured ''auto'')) 1"
    by code_simp
qed

lemma measured_a: "getState measured ''a'' = Some (the (getState measured ''a''))"
  "map_of (mon_groups measured) ''a'' = None"
proof -
  have "case getState measured ''a'' of None \<Rightarrow> False | Some _ \<Rightarrow> True"
    by code_simp
  then show "getState measured ''a'' = Some (the (getState measured ''a''))"
    by (simp split: option.splits)
  have "\<not> (case map_of (mon_groups measured) ''a'' of None \<Rightarrow> False | Some _ \<Rightarrow> True)"
    by code_simp
  then show "map_of (mon_groups measured) ''a'' = None"
    by (simp split: option.splits)
qed

theorem only_full_results_settle_witness:
  "lastResultFromFullGeneration (the (getState measured ''a''))
    \<and> CheckGeneration (st_history (the (getState measured ''a''))) = 1"
proof -
  have "server ''a'' \<in> set (sa_outbounds (NewSmartActive (seconds 1000) [server ''a'', server ''b''] DomainStrategyAsIS 0))"
    by (simp add: NewSmartActive_def)
  moreover have "Tag (server ''a'') = ''a''"
    by (simp add: server_def)
  ultimately show ?thesis
    using only_full_results_settle [OF measured_reachable measured_view(1) measured_view(2), of "server ''a''"]
      measured_a by simp
qed

text \<open>
  C10: A completed cycle settles. When a generation is begun for a set of targets and a full result of it
  is committed for each member of a group, in any order, the ranking view of that group is a settled
  generation for every Smart Active over these members, at any later time.
\<close>

theorem completed_cycle_settles:
  assumes "\<not> ctx_done m" and "0 < g" and "map_of (mon_groups m) grp = Some gs"
    and "\<forall>t \<in> set (grp_outbounds gs). getState m t \<noteq> None \<and> map_of (mon_groups m) t = None"
    and "set (grp_outbounds gs) \<subseteq> set targets" and "set (grp_outbounds gs) \<subseteq> outcomeTag ` snd ` set outs"
    and "\<forall>(_, out) \<in> set outs. full_outcome g (sa_startedAt s) out"
    and "sa_outbounds s \<noteq> []" and "Tag ` set (sa_outbounds s) \<subseteq> set (grp_outbounds gs)"
  shows "\<exists>history. OutboundsRankingHistory (Suc n) later real_of
      (commit_all outs (beginCheckGeneration now g targets m)) grp = Some history
    \<and> generationSettled s history g"
proof (rule full_results_settle)
  show "members_of (commit_all outs (beginCheckGeneration now g targets m)) grp = Some (grp_outbounds gs)"
    using assms(3) by simp (simp add: members_of_def)
  show "\<forall>t \<in> set (grp_outbounds gs). members_of (commit_all outs (beginCheckGeneration now g targets m)) t = None \<and>
      (\<exists>st. getState (commit_all outs (beginCheckGeneration now g targets m)) t = Some st
        \<and> full_result g (sa_startedAt s) st)"
  proof (intro ballI conjI)
    fix t assume t: "t \<in> set (grp_outbounds gs)"
    show "members_of (commit_all outs (beginCheckGeneration now g targets m)) t = None"
      using assms(4) t by simp (simp add: members_of_def)
    have "\<exists>st. getState (beginCheckGeneration now g targets m) t = Some st \<and> CheckGeneration (st_history st) = g"
      by (rule begin_generation_of) (use assms(4,5) t in auto)
    then show "\<exists>st. getState (commit_all outs (beginCheckGeneration now g targets m)) t = Some st
        \<and> full_result g (sa_startedAt s) st"
      by (intro commit_full) (use assms(1,6,7) t in auto)
  qed
qed (use assms in auto)

text \<open>The stage of the sample: both servers answer, the second first.\<close>

definition sample_stage :: "(instant \<times> test_outcome) list" where
  "sample_stage = [(seconds 1002, answered ''b'' 90), (seconds 1003, answered ''a'' 120)]"

theorem completed_cycle_settles_witness:
  "\<exists>history. OutboundsRankingHistory (Suc 0) (seconds 1060) shown
      (commit_all sample_stage (beginCheckGeneration (seconds 1000) 1 [''a'', ''b''] allocated)) ''auto'' = Some history
    \<and> generationSettled (NewSmartActive (seconds 1000) [server ''a'', server ''b''] DomainStrategyAsIS 0) history 1"
proof (rule completed_cycle_settles)
  let ?gs = "\<lparr> grp_outbounds = [''a'', ''b''], notify = False, completedGeneration = 0, completedBatch = 0 \<rparr>"
  show "map_of (mon_groups allocated) ''auto'' = Some ?gs"
    by code_simp
  show "\<forall>t \<in> set (grp_outbounds ?gs). getState allocated t \<noteq> None \<and> map_of (mon_groups allocated) t = None"
    by code_simp
  show "\<forall>(_, out) \<in> set sample_stage. full_outcome 1 (sa_startedAt
      (NewSmartActive (seconds 1000) [server ''a'', server ''b''] DomainStrategyAsIS 0)) out"
    by code_simp
qed (code_simp+)

section \<open>What the ranking does not see\<close>

text \<open>
  C24: The isolated probe never changes the ranking. Neither the publication of an isolated probe of the
  active outbound nor the refresh of a single server changes the ranking histories of any group, now or
  at any later time, whatever the probe measured.
\<close>

theorem active_probe_never_changes_ranking:
  assumes "now \<le> later"
  shows "OutboundsRankingHistory n later real_of (snd (PublishActiveProbePresentation now result m)) grp
      = OutboundsRankingHistory n later real_of m grp
    \<and> OutboundsRankingHistory n later real_of (snd (testSingleOutbound now t ready delay err udp m)) grp
      = OutboundsRankingHistory n later real_of m grp"
  using ranking_blind_histories [OF blind_publish_active assms] ranking_blind_histories [OF blind_single assms]
  by blast

theorem active_probe_never_changes_ranking_witness:
  "\<exists>result. fst (PublishActiveProbePresentation (seconds 1010) result measured)
    \<and> OutboundsHistory 1 (seconds 1060) shown (snd (PublishActiveProbePresentation (seconds 1010) result measured)) ''auto''
      \<noteq> OutboundsHistory 1 (seconds 1060) shown measured ''auto''
    \<and> OutboundsRankingHistory 1 (seconds 1060) shown
        (snd (PublishActiveProbePresentation (seconds 1010) result measured)) ''auto''
      = OutboundsRankingHistory 1 (seconds 1060) shown measured ''auto''"
proof -
  let ?r = "\<lparr> ProbedTag = ''a'', ProbedHistory = zero_history\<lparr> Time := seconds 1009, Delay := 70, Success := True,
     URLTestStatus := StatusSuccess \<rparr>, UDPAttempted = False, UDPErrorType = [], ProbedRevision = 2 \<rparr>"
  have delays: "map (map_option Delay \<circ> snd) (the (OutboundsHistory 1 (seconds 1060) shown
        (snd (PublishActiveProbePresentation (seconds 1010) ?r measured)) ''auto'')) = [Some 70, Some 90]"
    "map (map_option Delay \<circ> snd) (the (OutboundsHistory 1 (seconds 1060) shown measured ''auto''))
      = [Some 120, Some 90]"
    by code_simp+
  have "fst (PublishActiveProbePresentation (seconds 1010) ?r measured)"
    by code_simp
  moreover have "OutboundsHistory 1 (seconds 1060) shown
      (snd (PublishActiveProbePresentation (seconds 1010) ?r measured)) ''auto''
      \<noteq> OutboundsHistory 1 (seconds 1060) shown measured ''auto''"
  proof
    assume "OutboundsHistory 1 (seconds 1060) shown
        (snd (PublishActiveProbePresentation (seconds 1010) ?r measured)) ''auto''
      = OutboundsHistory 1 (seconds 1060) shown measured ''auto''"
    then have "[Some 70, Some 90] = [Some 120, Some (90 :: u16)]"
      using delays by metis
    then show False by simp
  qed
  ultimately show ?thesis
    using active_probe_never_changes_ranking [of "seconds 1010" "seconds 1060" 1 shown ?r measured "''auto''"]
    by auto
qed

text \<open>
  Results that come too late are ignored. A result of another generation than the one the outbound
  is checked in leaves the monitor as it is. A success of a single retest that arrives after a full
  result or after a failure of the same generation changes neither the published histories nor the
  ranking histories of any group, at any later time.
\<close>

theorem stale_results_are_ignored:
  assumes "getState m (outcomeTag out) = Some st" and "now \<le> later"
    and "CheckGeneration (st_history st) > 0 \<and> outcomeCycle out \<noteq> CheckGeneration (st_history st) \<or>
      \<not> outcomeFull out \<and> Success (outcomeHistory out) \<and>
        (lastResultFromFullGeneration st \<or> URLTestStatus (st_history st) = StatusFailed)"
  shows "(CheckGeneration (st_history st) > 0 \<and> outcomeCycle out \<noteq> CheckGeneration (st_history st)
      \<longrightarrow> applyResult now out m = (None, m))
    \<and> storage (snd (applyResult now out m)) = storage m
    \<and> OutboundsRankingHistory n later real_of (snd (applyResult now out m)) grp
      = OutboundsRankingHistory n later real_of m grp"
proof (cases "CheckGeneration (st_history st) > 0 \<and> outcomeCycle out \<noteq> CheckGeneration (st_history st)")
  case True
  then show ?thesis using stale_result [OF assms(1)] by simp
next
  case False
  then have late: "\<not> outcomeFull out" "Success (outcomeHistory out)"
    "lastResultFromFullGeneration st \<or> URLTestStatus (st_history st) = StatusFailed"
    using assms(3) by blast+
  show ?thesis
    using late_success [OF assms(1) late] ranking_blind_histories [OF _ assms(2)] False by blast
qed

theorem stale_results_are_ignored_witness:
  "applyResult (seconds 1010) ((answered ''a'' 50)\<lparr> outcomeCycle := 7 \<rparr>) measured = (None, measured)"
proof -
  have "0 < CheckGeneration (st_history (the (getState measured ''a'')))"
    "CheckGeneration (st_history (the (getState measured ''a''))) \<noteq> 7"
    by code_simp+
  then show ?thesis
    using stale_results_are_ignored [of measured "(answered ''a'' 50)\<lparr> outcomeCycle := 7 \<rparr>"
        "the (getState measured ''a'')" "seconds 1010" "seconds 1010" 1 shown "''auto''"] measured_a
    by (simp add: answered_def)
qed

section \<open>The numbers of the monitor\<close>

text \<open>
  C11: In every reachable monitor the evidence of every outbound is in its range (points within 0 and 100,
  penalties within 0 and 30, the runtime penalty at most 25, the UDP penalty at most 15, the score within
  0 and 100), its generation was allocated before, the overlay of an isolated probe belongs to the current
  revision of the ranking, and every runtime penalty on record is at most 25.
\<close>

theorem monitor_evidence_in_range:
  assumes "mon_reachable m" and "getState m t = Some st"
  shows "evidence_ok (st_history st) \<and> CheckGeneration (st_history st) \<le> cycleSeq m
    \<and> (\<forall>h r. activeProbePresentation st = Some (h, r) \<longrightarrow> r = rankingRevision st)
    \<and> 0 \<le> fst (runtimePenaltyForTag now u m) \<and> fst (runtimePenaltyForTag now u m) \<le> 25"
proof -
  have ok: "monitor_ok m"
    by (rule reachable_ok [OF assms(1)])
  have "0 \<le> Penalty s \<and> Penalty s \<le> 25" if "map_of (runtimeStats m) u = Some s" for s
    using ok map_of_SomeD [OF that] by (auto simp: monitor_ok_def stats_ok_def)
  then have "0 \<le> fst (runtimePenaltyForTag now u m) \<and> fst (runtimePenaltyForTag now u m) \<le> 25"
    by (auto simp: runtimePenaltyForTag_def split: option.split)
  then show ?thesis
    using monitor_ok_state [OF ok assms(2)] by (auto simp: state_ok_def)
qed

theorem monitor_evidence_in_range_witness:
  "evidence_ok (st_history (the (getState measured ''a'')))"
  using monitor_evidence_in_range [OF measured_reachable measured_a(1)] by blast

section \<open>Queues and targets\<close>

text \<open>
  C25: The validation probe a runtime error asks for is dropped whenever the counter of generations has
  moved on without the outbound: the request reports success, and neither the request nor the runtime
  error itself puts anything in a queue, because the task carries the newest generation and the queue
  only takes the one the outbound is checked in.
\<close>

theorem validation_probe_dropped:
  assumes "mon_reachable m" and "getState m t = Some st" and "0 < CheckGeneration (st_history st)"
    and "cycleSeq m < cycleSeq m + 1" and "m' = snd (allocate_cycle m)"
  shows "fst (InvalidateTest now t m') \<and> priorityQueue (snd (InvalidateTest now t m')) = priorityQueue m
    \<and> normalQueue (snd (InvalidateTest now t m')) = normalQueue m
    \<and> priorityQueue (RecordRuntimeError now t err m') = priorityQueue m
    \<and> normalQueue (RecordRuntimeError now t err m') = normalQueue m"
proof -
  have st: "getState m' t = Some st" and queues: "priorityQueue m' = priorityQueue m" "normalQueue m' = normalQueue m"
    and next': "cycleSeq m' = cycleSeq m + 1"
    using assms(2,5) by (simp_all add: allocate_cycle_def Let_def)
  have "CheckGeneration (st_history st) \<le> cycleSeq m"
    using monitor_ok_state [OF reachable_ok [OF assms(1)] assms(2)] by (simp add: state_ok_def)
  then have "cycleSeq m' \<noteq> CheckGeneration (st_history st)"
    using assms(4) by (auto simp: next')
  from validation_dropped [OF st assms(3) this] error_queues_nothing [OF st assms(3) this] queues
  show ?thesis by simp
qed

theorem validation_probe_dropped_witness:
  "fst (InvalidateTest (seconds 1020) ''a'' (snd (allocate_cycle measured)))
    \<and> priorityQueue (snd (InvalidateTest (seconds 1020) ''a'' (snd (allocate_cycle measured)))) = priorityQueue measured
    \<and> priorityQueue (RecordRuntimeError (seconds 1020) ''a'' (Some (plain_error ''EOF'')) (snd (allocate_cycle measured)))
      = priorityQueue measured"
proof -
  have "0 < CheckGeneration (st_history (the (getState measured ''a'')))" "cycleSeq measured < cycleSeq measured + 1"
    by code_simp+
  from validation_probe_dropped [OF measured_reachable measured_a(1) this refl] show ?thesis by blast
qed

text \<open>
  C26: The targets of a manual refresh are exactly the registered leaves below the tag, each once and in
  sorted order, for every nesting of groups, cycles and shared members included.
\<close>

theorem refresh_targets_are_reachable_leaves:
  "collectManualRefreshTargets m t = sorted_list_of_set {u. below m t u \<and> leaf_tag m u}"
proof -
  have "sorted (collectManualRefreshTargets m t)" "distinct (collectManualRefreshTargets m t)"
    "set (collectManualRefreshTargets m t) = {u. below m t u \<and> leaf_tag m u}"
    using walk_finds_leaves [of m t] by (simp_all add: collectManualRefreshTargets_def)
  then show ?thesis
    using sorted_list_of_set.idem_if_sorted_distinct by metis
qed

end
