(* ===== verification/Selector.thy ===== *)
theory Selector
  imports Switch_Policy IPv6_Gate
begin

text \<open>
  The manual selector of \<open>protocol/group/selector.go\<close>: the group whose member the user picks, the
  fallback that carries traffic while a picked group has no choice of its own yet, and the gate every
  flow passes. The calls to the monitoring service are recorded in order; an outbound is the object the
  outbound manager returns for a tag, so equality of outbounds is equality of pointers.
\<close>

section \<open>The state\<close>

text \<open>What the assertion of an outbound to \<open>OutboundGroup\<close> gives: its \<open>Now()\<close> and its \<open>All()\<close>.\<close>

record group_view =
  group_now :: tag
  group_all :: "tag list"

datatype monitor_call = RequestFullCycle | SignalChange tag | TestNow tag

record 'n selector =
  sel_tag :: tag
  sel_tags :: "tag list"
  sel_defaultTag :: tag
  sel_preferDefault :: bool
  sel_outbounds :: "(tag, outbound) go_map"
  sel_selected :: "outbound option"
  sel_transitionFallback :: "outbound option"
  sel_interruptGroup :: "'n group_conn list"
  sel_interruptExternalConnections :: bool
  sel_sessionGeneration :: string
  sel_ipv6Mode :: domain_strategy
  sel_ipv6CapabilityTTL :: duration
  sel_storedSelected :: "(tag \<times> tag) list"
  sel_calls :: "monitor_call list"

text \<open>
  What surrounds the selector: the outbound manager, the type of each outbound, the cache file if there
  is one (by the tag whose selection it loads), and whether a monitor is registered.
\<close>

record selector_env =
  se_manager :: "tag \<Rightarrow> outbound option"
  se_group :: "outbound \<Rightarrow> group_view option"
  se_cache :: "(tag \<Rightarrow> tag) option"
  se_monitor :: bool

datatype selector_error =
  SelMissingTags | SelNotFound nat tag | SelPreferredDefaultNotFound tag | SelDefaultNotFound tag

definition NewSelector :: "tag \<Rightarrow> tag list \<Rightarrow> tag \<Rightarrow> bool \<Rightarrow> bool \<Rightarrow> string \<Rightarrow> domain_strategy \<Rightarrow> duration
    \<Rightarrow> selector_error + 'n selector" where
  "NewSelector t tags defaultTag preferDefault interruptExt session mode ttl =
     (if tags = [] then Inl SelMissingTags
      else Inr \<lparr> sel_tag = t, sel_tags = tags, sel_defaultTag = defaultTag,
        sel_preferDefault = preferDefault, sel_outbounds = [], sel_selected = None,
        sel_transitionFallback = None, sel_interruptGroup = [],
        sel_interruptExternalConnections = interruptExt, sel_sessionGeneration = session,
        sel_ipv6Mode = mode, sel_ipv6CapabilityTTL = ttl, sel_storedSelected = [], sel_calls = [] \<rparr>)"

section \<open>Start\<close>

text \<open>The loop over the tags; \<open>i\<close> is the index the error names.\<close>

fun load_outbounds :: "(tag \<Rightarrow> outbound option) \<Rightarrow> nat \<Rightarrow> tag list \<Rightarrow> (tag, outbound) go_map
    \<Rightarrow> selector_error + (tag, outbound) go_map" where
  "load_outbounds manager i [] outs = Inr outs"
| "load_outbounds manager i (t # ts) outs =
     (case manager t of
        None \<Rightarrow> Inl (SelNotFound i t)
      | Some detour \<Rightarrow> load_outbounds manager (Suc i) ts (AList.update t detour outs))"

definition cached_selection :: "selector_env \<Rightarrow> 'n selector \<Rightarrow> outbound option" where
  "cached_selection env s =
     (if sel_tag s = [] then None
      else case se_cache env of
        None \<Rightarrow> None
      | Some load \<Rightarrow>
          (let selected = load (sel_tag s)
           in if selected = [] then None else map_of (sel_outbounds s) selected))"

text \<open>
  The last line stores \<open>s.outbounds[s.tags[0]]\<close>: \<open>NewSelector\<close> makes the tags nonempty and the loop has
  loaded each.
\<close>

definition Selector_Start :: "selector_env \<Rightarrow> 'n selector \<Rightarrow> selector_error + 'n selector" where
  "Selector_Start env s =
     (case load_outbounds (se_manager env) 0 (sel_tags s) (sel_outbounds s) of
        Inl err \<Rightarrow> Inl err
      | Inr outs \<Rightarrow>
          (let s = s\<lparr> sel_outbounds := outs \<rparr>;
               default = map_of outs (sel_defaultTag s)
           in if sel_preferDefault s \<and> sel_defaultTag s \<noteq> []
              then (case default of
                      None \<Rightarrow> Inl (SelPreferredDefaultNotFound (sel_defaultTag s))
                    | Some detour \<Rightarrow> Inr (s\<lparr> sel_selected := Some detour \<rparr>))
              else case cached_selection env s of
                Some detour \<Rightarrow> Inr (s\<lparr> sel_selected := Some detour \<rparr>)
              | None \<Rightarrow>
                  if sel_defaultTag s \<noteq> []
                  then (case default of
                          None \<Rightarrow> Inl (SelDefaultNotFound (sel_defaultTag s))
                        | Some detour \<Rightarrow> Inr (s\<lparr> sel_selected := Some detour \<rparr>))
                  else Inr (s\<lparr> sel_selected := map_of outs (hd (sel_tags s)) \<rparr>)))"

definition Selector_Now :: "'n selector \<Rightarrow> tag" where
  "Selector_Now s = (case sel_selected s of None \<Rightarrow> hd (sel_tags s) | Some detour \<Rightarrow> Tag detour)"

definition Selector_Network :: "'n selector \<Rightarrow> string list" where
  "Selector_Network s = (case sel_selected s of None \<Rightarrow> [NetworkTCP, NetworkUDP]
     | Some detour \<Rightarrow> Networks detour)"

definition RealTag :: "(outbound \<Rightarrow> group_view option) \<Rightarrow> outbound \<Rightarrow> tag" where
  "RealTag as_group detour = (case as_group detour of Some g \<Rightarrow> group_now g | None \<Rightarrow> Tag detour)"

section \<open>Selection by the user\<close>

text \<open>A call to a monitor that is not registered dereferences a nil pointer.\<close>

definition call_monitor :: "selector_env \<Rightarrow> monitor_call list \<Rightarrow> 'n selector \<Rightarrow> unit outcome \<times> 'n selector" where
  "call_monitor env calls s =
     (if se_monitor env then (Returned (), s\<lparr> sel_calls := sel_calls s @ calls \<rparr>) else (Panicked, s))"

definition pingSelected :: "selector_env \<Rightarrow> 'n selector \<Rightarrow> unit outcome \<times> 'n selector" where
  "pingSelected env s =
     (case sel_selected s of
        None \<Rightarrow> (Returned (), s)
      | Some selected \<Rightarrow>
          (case se_group env selected of
             Some g \<Rightarrow> call_monitor env ((if group_now g = [] then [RequestFullCycle] else [])
                 @ [SignalChange (Tag selected)]) s
           | None \<Rightarrow>
               (let realTag = RealTag (se_group env) selected
                in case se_manager env realTag of
                     None \<Rightarrow> (Returned (), s)
                   | Some r \<Rightarrow> if se_group env r = None then call_monitor env [TestNow realTag] s
                       else (Returned (), s))))"

definition prepareTransitionFallback ::
  "selector_env \<Rightarrow> outbound \<Rightarrow> outbound option \<Rightarrow> 'n selector \<Rightarrow> 'n selector" where
  "prepareTransitionFallback env detour previous s =
     (let s = s\<lparr> sel_transitionFallback := None \<rparr>
      in case (se_group env detour, previous) of
           (Some g, Some p) \<Rightarrow> if group_now g = [] \<and> Tag p \<in> set (group_all g)
             then s\<lparr> sel_transitionFallback := Some p \<rparr> else s
         | _ \<Rightarrow> s)"

definition selectorSessionGenerationMatches :: "string \<Rightarrow> string \<Rightarrow> bool" where
  "selectorSessionGenerationMatches captured current \<longleftrightarrow>
     captured = [] \<or> current = [] \<or> captured = current"

text \<open>
  \<open>select_member\<close> is \<open>SelectOutbound\<close> without the deferred ping: whether it succeeded, the
  connections it closed and the new state. \<open>session\<close> is the environment variable at the call.
\<close>

definition select_member ::
  "selector_env \<Rightarrow> string \<Rightarrow> tag \<Rightarrow> 'n selector \<Rightarrow> bool \<times> 'n group_conn list \<times> 'n selector" where
  "select_member env session t s =
     (if \<not> selectorSessionGenerationMatches (sel_sessionGeneration s) session then (False, [], s)
      else case map_of (sel_outbounds s) t of
        None \<Rightarrow> (False, [], s)
      | Some detour \<Rightarrow>
          (let previous = sel_selected s;
               s = s\<lparr> sel_selected := Some detour \<rparr>
           in if previous = Some detour then (True, [], s)
              else
                (let s = prepareTransitionFallback env detour previous s;
                     s = (if sel_tag s \<noteq> [] \<and> se_cache env \<noteq> None
                       then s\<lparr> sel_storedSelected := sel_storedSelected s @ [(sel_tag s, t)] \<rparr> else s);
                     (result, shut, rest) = Interrupt (sel_interruptGroup s) False
                 in (True, shut, s\<lparr> sel_interruptGroup := rest \<rparr>))))"

definition SelectOutbound :: "selector_env \<Rightarrow> string \<Rightarrow> tag \<Rightarrow> 'n selector
    \<Rightarrow> (bool \<times> 'n group_conn list) outcome \<times> 'n selector" where
  "SelectOutbound env session t s =
     (let (ok, shut, s) = select_member env session t s;
          (r, s) = pingSelected env s
      in (and_then r (\<lambda>_. Returned (ok, shut)), s))"

section \<open>Flows\<close>

datatype flow_error =
  MissingSelected | IPv6Disabled | IPv6MonitoringUnavailable | NoCurrentIPv6Proof | IPv6NotVerified

text \<open>\<open>outboundHistory\<close> is \<open>OutboundHistory\<close> of the monitor.\<close>

definition capabilityCheckedOutbound :: "selector_env \<Rightarrow> (tag \<Rightarrow> url_test_history option) \<Rightarrow> instant \<Rightarrow> bool
    \<Rightarrow> outbound option \<Rightarrow> inbound_context \<Rightarrow> 'n selector \<Rightarrow> flow_error + outbound" where
  "capabilityCheckedOutbound env outboundHistory now bootstrap selected metadata s =
     (case selected of
        None \<Rightarrow> Inl MissingSelected
      | Some out \<Rightarrow>
          if bootstrap then Inr out
          else if sel_ipv6Mode s = DomainStrategyAsIS then Inr out
          else if sel_ipv6Mode s = DomainStrategyIPv4Only
            then (if IPv6TrafficAllowed (sel_ipv6Mode s) metadata None now (sel_ipv6CapabilityTTL s)
                  then Inr out else Inl IPv6Disabled)
          else if \<not> se_monitor env
            then (if IPv6TrafficAllowed (sel_ipv6Mode s) metadata None now (sel_ipv6CapabilityTTL s)
                  then Inr out else Inl IPv6MonitoringUnavailable)
          else if \<not> IPv6TrafficAllowed (sel_ipv6Mode s) metadata
                 (outboundHistory (RealTag (se_group env) out)) now (sel_ipv6CapabilityTTL s)
            then (if sel_ipv6Mode s = DomainStrategyIPv6Only then Inl NoCurrentIPv6Proof
                  else Inl IPv6NotVerified)
          else Inr out)"

definition connectionOutbound :: "selector_env \<Rightarrow> (tag \<Rightarrow> url_test_history option) \<Rightarrow> instant \<Rightarrow> bool
    \<Rightarrow> inbound_context \<Rightarrow> 'n selector \<Rightarrow> (flow_error + outbound) \<times> 'n selector" where
  "connectionOutbound env outboundHistory now bootstrap metadata s =
     (let selected = sel_selected s;
          check = (\<lambda>out. capabilityCheckedOutbound env outboundHistory now bootstrap out metadata s)
      in case (case selected of None \<Rightarrow> None | Some out \<Rightarrow> se_group env out) of
           None \<Rightarrow> (check selected, s\<lparr> sel_transitionFallback := None \<rparr>)
         | Some g \<Rightarrow>
             if group_now g \<noteq> [] then (check selected, s\<lparr> sel_transitionFallback := None \<rparr>)
             else (case sel_transitionFallback s of
                     Some fallback \<Rightarrow> if Tag fallback \<in> set (group_all g) then (check (Some fallback), s)
                       else (check selected, s)
                   | None \<Rightarrow> (check selected, s)))"

text \<open>
  \<open>DialContext\<close> and \<open>ListenPacket\<close>: the result names the real outbound of the metadata afterwards;
  \<open>dial\<close> is the call to the outbound.
\<close>

datatype 'n flow_result = Refused flow_error | FlowFailed tag | Carried 'n outbound tag

definition open_flow :: "selector_env \<Rightarrow> (tag \<Rightarrow> url_test_history option) \<Rightarrow> instant \<Rightarrow> bool
    \<Rightarrow> inbound_context \<Rightarrow> ('n group_conn list \<Rightarrow> 'n \<Rightarrow> bool \<Rightarrow> 'n group_conn list) \<Rightarrow> bool
    \<Rightarrow> (outbound \<Rightarrow> 'n option) \<Rightarrow> 'n selector \<Rightarrow> 'n flow_result \<times> 'n selector" where
  "open_flow env outboundHistory now bootstrap metadata register external dial s =
     (case connectionOutbound env outboundHistory now bootstrap metadata s of
        (Inl err, s) \<Rightarrow> (Refused err, s)
      | (Inr out, s) \<Rightarrow>
          (let realTag = (if RealOutbound metadata = [] then RealTag (se_group env) out
            else RealOutbound metadata)
           in case dial out of
                None \<Rightarrow> (FlowFailed realTag, s)
              | Some c \<Rightarrow> (Carried c out realTag,
                  s\<lparr> sel_interruptGroup := register (sel_interruptGroup s) c external \<rparr>)))"

definition Selector_DialContext where
  "Selector_DialContext env outboundHistory now bootstrap metadata external dial s =
     open_flow env outboundHistory now bootstrap metadata NewConn external dial s"

definition Selector_ListenPacket where
  "Selector_ListenPacket env outboundHistory now bootstrap metadata external dial s =
     open_flow env outboundHistory now bootstrap metadata NewPacketConn external dial s"

text \<open>
  \<open>NewConnectionEx\<close> and \<open>NewPacketConnectionEx\<close> take a connection from an inbound: it is marked as coming
  from outside, registered, and handed with the outbound to the handler; a refused one is closed.
\<close>

definition NewSingPacketConn :: "'c group_conn list \<Rightarrow> 'c \<Rightarrow> bool \<Rightarrow> 'c group_conn list" where
  "NewSingPacketConn g c external = g @ [\<lparr> conn = c, isExternal = external, network = NetworkUDP \<rparr>]"

definition Selector_NewConnectionEx where
  "Selector_NewConnectionEx env outboundHistory now bootstrap metadata c s =
     open_flow env outboundHistory now bootstrap metadata NewConn True (\<lambda>_. Some c) s"

definition Selector_NewPacketConnectionEx where
  "Selector_NewPacketConnectionEx env outboundHistory now bootstrap metadata c s =
     open_flow env outboundHistory now bootstrap metadata NewSingPacketConn True (\<lambda>_. Some c) s"

text \<open>A direct route has the background context, so it is never a capability probe.\<close>

datatype direct_route = RouteRefused flow_error | NetworkUnsupported string tag | RoutedBy outbound

definition Selector_NewDirectRouteConnection where
  "Selector_NewDirectRouteConnection env outboundHistory now metadata s =
     (case connectionOutbound env outboundHistory now False metadata s of
        (Inl err, s) \<Rightarrow> (RouteRefused err, s)
      | (Inr out, s) \<Rightarrow>
          (if Network metadata \<notin> set (Networks out) then NetworkUnsupported (Network metadata) (Tag out)
           else RoutedBy out, s))"

section \<open>Reachable selectors\<close>

text \<open>The outbound manager is documented to return the outbound that carries the tag.\<close>

definition manager_ok :: "selector_env \<Rightarrow> bool" where
  "manager_ok env \<longleftrightarrow> (\<forall>t detour. se_manager env t = Some detour \<longrightarrow> Tag detour = t)"

inductive selector_step :: "selector_env \<Rightarrow> 'n selector \<Rightarrow> 'n selector \<Rightarrow> bool" for env where
  select: "SelectOutbound env session t s = (r, s') \<Longrightarrow> selector_step env s s'"
| ping: "pingSelected env s = (r, s') \<Longrightarrow> selector_step env s s'"
| tcp: "Selector_DialContext env hist now boot metadata external dial s = (f, s') \<Longrightarrow> selector_step env s s'"
| udp: "Selector_ListenPacket env hist now boot metadata external dial s = (f, s') \<Longrightarrow> selector_step env s s'"
| inbound: "Selector_NewConnectionEx env hist now boot metadata c s = (f, s') \<Longrightarrow> selector_step env s s'"
| packets: "Selector_NewPacketConnectionEx env hist now boot metadata c s = (f, s') \<Longrightarrow> selector_step env s s'"
| route: "Selector_NewDirectRouteConnection env hist now metadata s = (d, s') \<Longrightarrow> selector_step env s s'"

text \<open>Groups come to a choice, and change it, between the steps, so each step has an environment of its own.\<close>

inductive selector_reachable ::
  "(tag \<Rightarrow> outbound option) \<Rightarrow> 'n selector \<Rightarrow> bool" for manager where
  started: "NewSelector t tags d p i ses mode ttl = Inr s0 \<Longrightarrow> se_manager env = manager
    \<Longrightarrow> Selector_Start env s0 = Inr s \<Longrightarrow> selector_reachable manager s"
| stepped: "selector_reachable manager s \<Longrightarrow> se_manager env = manager \<Longrightarrow> selector_step env s s'
    \<Longrightarrow> selector_reachable manager s'"

definition member_of :: "'n selector \<Rightarrow> outbound \<Rightarrow> bool" where
  "member_of s out \<longleftrightarrow> Tag out \<in> set (sel_tags s) \<and> map_of (sel_outbounds s) (Tag out) = Some out"

definition selector_ok :: "(tag \<Rightarrow> outbound option) \<Rightarrow> 'n selector \<Rightarrow> bool" where
  "selector_ok manager s \<longleftrightarrow>
     (\<forall>t out. map_of (sel_outbounds s) t = Some out \<longrightarrow> t \<in> set (sel_tags s) \<and> manager t = Some out) \<and>
     (\<exists>out. sel_selected s = Some out \<and> out \<in> ran (map_of (sel_outbounds s))) \<and>
     (\<forall>out. sel_transitionFallback s = Some out \<longrightarrow>
        out \<in> ran (map_of (sel_outbounds s)) \<and> sel_selected s \<noteq> Some out)"

lemma load_outbounds_ok:
  assumes "load_outbounds manager i ts outs = Inr outs'"
  shows "(\<forall>t out. map_of outs' t = Some out \<longrightarrow> t \<in> set ts \<and> manager t = Some out \<or> map_of outs t = Some out)
    \<and> (\<forall>t \<in> set ts. map_of outs' t \<noteq> None)
    \<and> (\<forall>t. map_of outs t \<noteq> None \<longrightarrow> map_of outs' t \<noteq> None)"
  using assms
proof (induction ts arbitrary: i outs)
  case (Cons a ts)
  obtain detour where detour: "manager a = Some detour"
    "load_outbounds manager (Suc i) ts (AList.update a detour outs) = Inr outs'"
    using Cons.prems by (auto split: option.splits)
  show ?case
    using Cons.IH [OF detour(2)] detour(1) by (auto simp: update_conv split: if_splits)
qed simp

lemma start_selector_ok:
  assumes "NewSelector t tags d p i ses mode ttl = Inr s0" and "Selector_Start env s0 = Inr s"
  shows "selector_ok (se_manager env) s"
proof -
  have tags: "tags \<noteq> []" and s0: "sel_tags s0 = tags" "sel_outbounds s0 = []" "sel_transitionFallback s0 = None"
    using assms(1) by (auto simp: NewSelector_def split: if_splits)
  obtain outs where outs: "load_outbounds (se_manager env) 0 tags [] = Inr outs"
    using assms(2) by (auto simp: Selector_Start_def s0 split: sum.splits)
  note loaded = load_outbounds_ok [OF outs]
  have first: "map_of outs (hd tags) \<noteq> None"
    using loaded tags by simp
  have "\<exists>out. s = s0\<lparr> sel_outbounds := outs, sel_selected := Some out \<rparr> \<and> out \<in> ran (map_of outs)"
    using assms(2) first
    by (auto simp: Selector_Start_def cached_selection_def s0 outs Let_def ran_def split: option.splits if_splits)
  then show ?thesis
    using loaded by (auto simp: selector_ok_def s0)
qed

lemma ping_frame:
  assumes "pingSelected env s = (r, s')"
  shows "\<exists>calls. s' = s\<lparr> sel_calls := calls \<rparr>"
proof -
  have "s = s\<lparr> sel_calls := sel_calls s \<rparr>" by simp
  then have "s' = s \<or> (\<exists>calls. s' = s\<lparr> sel_calls := calls \<rparr>)"
    using assms by (auto simp: pingSelected_def call_monitor_def Let_def split: option.splits if_splits)
  then show ?thesis
    using \<open>s = s\<lparr> sel_calls := sel_calls s \<rparr>\<close> by metis
qed

lemma selector_ok_fields [simp]:
  "selector_ok manager (s\<lparr> sel_calls := c \<rparr>) = selector_ok manager s"
  "selector_ok manager (s\<lparr> sel_interruptGroup := g \<rparr>) = selector_ok manager s"
  "selector_ok manager (s\<lparr> sel_storedSelected := x \<rparr>) = selector_ok manager s"
  by (simp_all add: selector_ok_def)

lemma selector_ok_drop: "selector_ok manager s \<Longrightarrow> selector_ok manager (s\<lparr> sel_transitionFallback := None \<rparr>)"
  by (simp add: selector_ok_def)

lemma prepare_fields [simp]:
  "sel_interruptGroup (prepareTransitionFallback env d p s) = sel_interruptGroup s"
  "sel_selected (prepareTransitionFallback env d p s) = sel_selected s"
  "sel_tag (prepareTransitionFallback env d p s) = sel_tag s"
  by (simp_all add: prepareTransitionFallback_def Let_def split: option.split)

lemma prepare_ok:
  assumes "selector_ok manager s" and "map_of (sel_outbounds s) t = Some detour" and "sel_selected s \<noteq> Some detour"
  shows "selector_ok manager (prepareTransitionFallback env detour (sel_selected s) (s\<lparr> sel_selected := Some detour \<rparr>))"
  using assms
  by (auto simp: prepareTransitionFallback_def selector_ok_def Let_def ran_def split: option.splits)

lemma select_member_ok:
  assumes "selector_ok manager s" and "select_member env session t s = (ok, shut, s')"
  shows "selector_ok manager s'"
proof (cases "selectorSessionGenerationMatches (sel_sessionGeneration s) session")
  case True
  show ?thesis
  proof (cases "map_of (sel_outbounds s) t")
    case None
    then show ?thesis using assms True by (simp add: select_member_def)
  next
    case (Some detour)
    show ?thesis
    proof (cases "sel_selected s = Some detour")
      case True
      have "s\<lparr> sel_selected := Some detour \<rparr> = s"
        using True by simp
      moreover have "s' = s\<lparr> sel_selected := Some detour \<rparr>"
        using assms(2) Some True by (auto simp: select_member_def Let_def split: if_splits)
      ultimately have "s' = s" by (rule trans [rotated])
      then show ?thesis using assms(1) by simp
    next
      case False
      then show ?thesis
        using assms(2) prepare_ok [OF assms(1) Some False] True Some
        by (auto simp: select_member_def Let_def split_def split: if_splits)
    qed
  qed
qed (use assms in \<open>simp add: select_member_def\<close>)

lemma connection_frame:
  assumes "connectionOutbound env hist now boot metadata s = (r, s')"
  shows "s' = s \<or> s' = s\<lparr> sel_transitionFallback := None \<rparr>"
  using assms by (auto simp: connectionOutbound_def Let_def split: option.splits if_splits)

lemma open_flow_frame:
  fixes s :: "'n selector"
  assumes "open_flow env hist now boot metadata reg ext dial s = (f, s')"
  shows "\<exists>g. s' = s\<lparr> sel_interruptGroup := g \<rparr> \<or> s' = s\<lparr> sel_transitionFallback := None, sel_interruptGroup := g \<rparr>"
proof -
  obtain r s1 where c: "connectionOutbound env hist now boot metadata s = (r, s1)"
    by (cases "connectionOutbound env hist now boot metadata s")
  have same: "\<exists>g. x = x\<lparr> sel_interruptGroup := g \<rparr>" for x :: "'n selector"
    by (rule exI [of _ "sel_interruptGroup x"]) simp
  have "\<exists>g. s' = s1\<lparr> sel_interruptGroup := g \<rparr>"
    using assms same by (auto simp: open_flow_def c Let_def split: sum.splits option.splits)
  then show ?thesis
    using connection_frame [OF c] by auto
qed

lemma open_flow_ok:
  assumes "open_flow env hist now boot metadata reg ext dial s = (f, s')" and "selector_ok manager s"
  shows "selector_ok manager s'"
  using assms open_flow_frame by (metis selector_ok_drop selector_ok_fields(2))

lemma selector_step_ok:
  assumes "selector_step env s s'" and "selector_ok manager s"
  shows "selector_ok manager s'"
  using assms
proof (cases rule: selector_step.cases)
  case (select session t r)
  obtain ok shut s1 where m: "select_member env session t s = (ok, shut, s1)"
    by (cases "select_member env session t s")
  obtain r1 s2 where p: "pingSelected env s1 = (r1, s2)"
    by (cases "pingSelected env s1")
  have "s' = s2"
    using select by (simp add: SelectOutbound_def m p)
  then show ?thesis
    using select_member_ok [OF assms(2) m] ping_frame [OF p] by auto
next
  case (ping r)
  then show ?thesis using assms(2) ping_frame by fastforce
next
  case (tcp hist now boot metadata external dial f)
  then show ?thesis
    using assms(2) open_flow_ok unfolding Selector_DialContext_def by blast
next
  case (udp hist now boot metadata external dial f)
  then show ?thesis
    using assms(2) open_flow_ok unfolding Selector_ListenPacket_def by blast
next
  case (inbound hist now boot metadata c f)
  then show ?thesis
    using assms(2) open_flow_ok unfolding Selector_NewConnectionEx_def by blast
next
  case (packets hist now boot metadata c f)
  then show ?thesis
    using assms(2) open_flow_ok unfolding Selector_NewPacketConnectionEx_def by blast
next
  case (route hist now metadata d)
  obtain r s1 where c: "connectionOutbound env hist now False metadata s = (r, s1)"
    by (cases "connectionOutbound env hist now False metadata s")
  have "s' = s1"
    using route by (auto simp: Selector_NewDirectRouteConnection_def c split: sum.splits)
  then show ?thesis
    using connection_frame [OF c] assms(2) selector_ok_drop by metis
qed

lemma selector_reachable_ok: "selector_reachable manager s \<Longrightarrow> selector_ok manager s"
  by (induction rule: selector_reachable.induct) (use start_selector_ok selector_step_ok in blast)+

section \<open>What carries a flow\<close>

lemma checked_outbound:
  assumes "capabilityCheckedOutbound env hist now boot sel metadata s = Inr out"
  shows "sel = Some out \<and> (boot \<or> sel_ipv6Mode s = DomainStrategyAsIS \<or>
    (\<exists>h. IPv6TrafficAllowed (sel_ipv6Mode s) metadata h now (sel_ipv6CapabilityTTL s)
      \<and> (h = None \<or> h = hist (RealTag (se_group env) out))))"
  using assms by (auto simp: capabilityCheckedOutbound_def split: option.splits if_splits)

lemma connection_source:
  assumes "connectionOutbound env hist now boot metadata s = (Inr out, s')"
  shows "(sel_selected s = Some out \<or> sel_transitionFallback s = Some out \<and>
      (\<exists>d g. sel_selected s = Some d \<and> se_group env d = Some g \<and> group_now g = [] \<and> Tag out \<in> set (group_all g)))
    \<and> (boot \<or> sel_ipv6Mode s = DomainStrategyAsIS \<or>
    (\<exists>h. IPv6TrafficAllowed (sel_ipv6Mode s) metadata h now (sel_ipv6CapabilityTTL s)
      \<and> (h = None \<or> h = hist (RealTag (se_group env) out))))"
  using assms checked_outbound
  by (auto simp: connectionOutbound_def Let_def split: option.splits if_splits; blast)

end
