(* ===== verification/Url_Test_Group.thy ===== *)
theory Url_Test_Group
  imports Switch_Policy History_Storage Selector
begin

text \<open>
  The URL test group of \<open>protocol/group/urltest.go\<close>: the choice of the fastest outbound per network with
  a tolerance, the rounds of tests, the switch, the ticker that keeps testing while the group is in use,
  and the two ways to open a flow. Delays and the tolerance are 16 bits wide and their sum wraps.
\<close>

section \<open>The state\<close>

record 'n url_test_group =
  ug_outbounds :: "outbound list"
  ug_interval :: duration
  ug_tolerance :: u16
  ug_idleTimeout :: duration
  ug_history :: history_map
  ug_checking :: bool
  ug_selectedOutboundTCP :: "outbound option"
  ug_selectedOutboundUDP :: "outbound option"
  ug_interruptGroup :: "'n group_conn list"
  ug_interruptExternalConnections :: bool
  ug_started :: bool
  ug_ticker :: bool
  ug_lastActive :: instant
  ug_closed :: bool

abbreviation (input) DefaultURLTestInterval :: duration where "DefaultURLTestInterval \<equiv> minutes 3"
abbreviation (input) DefaultURLTestIdleTimeout :: duration where "DefaultURLTestIdleTimeout \<equiv> minutes 30"

text \<open>\<open>None\<close> is the error of an interval longer than the idle timeout.\<close>

definition NewURLTestGroup :: "outbound list \<Rightarrow> duration \<Rightarrow> u16 \<Rightarrow> duration \<Rightarrow> bool \<Rightarrow> history_map
    \<Rightarrow> 'n url_test_group option" where
  "NewURLTestGroup outbounds interval tolerance idleTimeout interruptExt history =
     (let interval = (if interval = 0 then DefaultURLTestInterval else interval);
          tolerance = (if tolerance = 0 then 50 else tolerance);
          idleTimeout = (if idleTimeout = 0 then DefaultURLTestIdleTimeout else idleTimeout)
      in if interval > idleTimeout then None
         else Some \<lparr> ug_outbounds = outbounds, ug_interval = interval, ug_tolerance = tolerance,
           ug_idleTimeout = idleTimeout, ug_history = history, ug_checking = False,
           ug_selectedOutboundTCP = None, ug_selectedOutboundUDP = None, ug_interruptGroup = [],
           ug_interruptExternalConnections = interruptExt, ug_started = False, ug_ticker = False,
           ug_lastActive = 0, ug_closed = False \<rparr>)"

text \<open>\<open>Start\<close> resolves the tags, which \<open>NewURLTest\<close> requires to be there, and makes the group.\<close>

datatype url_test_error = URLMissingTags | URLNotFound nat tag | IntervalTooLong

fun resolve_tags :: "(tag \<Rightarrow> outbound option) \<Rightarrow> nat \<Rightarrow> tag list \<Rightarrow> url_test_error + outbound list" where
  "resolve_tags manager i [] = Inr []"
| "resolve_tags manager i (t # ts) =
     (case manager t of
        None \<Rightarrow> Inl (URLNotFound i t)
      | Some detour \<Rightarrow> (case resolve_tags manager (Suc i) ts of
          Inl err \<Rightarrow> Inl err | Inr outs \<Rightarrow> Inr (detour # outs)))"

definition URLTest_Start :: "(tag \<Rightarrow> outbound option) \<Rightarrow> tag list \<Rightarrow> duration \<Rightarrow> u16 \<Rightarrow> duration \<Rightarrow> bool
    \<Rightarrow> history_map \<Rightarrow> url_test_error + 'n url_test_group" where
  "URLTest_Start manager tags interval tolerance idleTimeout interruptExt history =
     (if tags = [] then Inl URLMissingTags
      else case resolve_tags manager 0 tags of
        Inl err \<Rightarrow> Inl err
      | Inr outs \<Rightarrow>
          (case NewURLTestGroup outs interval tolerance idleTimeout interruptExt history of
             None \<Rightarrow> Inl IntervalTooLong | Some g \<Rightarrow> Inr g))"

lemma resolve_tags_Inr: "resolve_tags manager i ts = Inr outs \<Longrightarrow> map manager ts = map Some outs"
  by (induction ts arbitrary: i outs) (auto split: option.splits sum.splits)

lemma started_group:
  assumes "URLTest_Start manager tags interval tolerance idleTimeout e history = Inr g"
  shows "map manager tags = map Some (ug_outbounds g) \<and> ug_outbounds g \<noteq> [] \<and> 0 < ug_tolerance g
    \<and> ug_interval g \<noteq> 0 \<and> ug_interval g \<le> ug_idleTimeout g"
proof -
  obtain outs where outs: "tags \<noteq> []" "resolve_tags manager 0 tags = Inr outs"
    "NewURLTestGroup outs interval tolerance idleTimeout e history = Some g"
    using assms by (auto simp: URLTest_Start_def split: if_splits sum.splits option.splits)
  have tags: "map manager tags = map Some outs"
    by (rule resolve_tags_Inr [OF outs(2)])
  then have "outs \<noteq> []" using outs(1) by auto
  with tags outs(3) show ?thesis
    by (auto simp: NewURLTestGroup_def Let_def word_gt_0 split: if_splits)
qed

definition URLTest_Now :: "'n url_test_group \<Rightarrow> tag" where
  "URLTest_Now g = (case ug_selectedOutboundTCP g of Some out \<Rightarrow> Tag out
     | None \<Rightarrow> (case ug_selectedOutboundUDP g of Some out \<Rightarrow> Tag out | None \<Rightarrow> []))"

section \<open>The choice\<close>

definition selected_for :: "'n url_test_group \<Rightarrow> string \<Rightarrow> outbound option" where
  "selected_for g net = (if net = NetworkTCP then ug_selectedOutboundTCP g
     else if net = NetworkUDP then ug_selectedOutboundUDP g else None)"

definition history_of :: "(outbound \<Rightarrow> group_view option) \<Rightarrow> 'n url_test_group \<Rightarrow> outbound
    \<Rightarrow> url_test_history option" where
  "history_of as_group g detour = LoadURLTestHistory (ug_history g) (RealTag as_group detour)"

text \<open>One pass of the loop over the outbounds; the accumulator is the best so far and its delay.\<close>

definition url_select_step :: "(outbound \<Rightarrow> group_view option) \<Rightarrow> 'n url_test_group \<Rightarrow> string \<Rightarrow> outbound
    \<Rightarrow> outbound option \<times> u16 \<Rightarrow> outbound option \<times> u16" where
  "url_select_step as_group g net detour acc =
     (let (minOutbound, minDelay) = acc
      in if net \<notin> set (Networks detour) then acc
         else case history_of as_group g detour of
           None \<Rightarrow> acc
         | Some history \<Rightarrow>
             if minDelay = 0 \<or> minDelay > Delay history + ug_tolerance g
             then (Some detour, Delay history) else acc)"

definition url_select_start :: "(outbound \<Rightarrow> group_view option) \<Rightarrow> 'n url_test_group \<Rightarrow> string
    \<Rightarrow> outbound option \<times> u16" where
  "url_select_start as_group g net =
     (case selected_for g net of
        None \<Rightarrow> (None, 0)
      | Some selected \<Rightarrow>
          (case history_of as_group g selected of
             None \<Rightarrow> (None, 0)
           | Some history \<Rightarrow> (Some selected, Delay history)))"

definition URLTest_Select :: "(outbound \<Rightarrow> group_view option) \<Rightarrow> 'n url_test_group \<Rightarrow> string
    \<Rightarrow> outbound option \<times> bool" where
  "URLTest_Select as_group g net =
     (case fold (url_select_step as_group g net) (ug_outbounds g) (url_select_start as_group g net) of
        (Some detour, _) \<Rightarrow> (Some detour, True)
      | (None, _) \<Rightarrow> (find (\<lambda>detour. net \<in> set (Networks detour)) (ug_outbounds g), False))"

definition update_network :: "outbound option \<times> bool \<Rightarrow> outbound option \<Rightarrow> outbound option \<times> bool" where
  "update_network choice selected =
     (let (out, exists) = choice
      in if out \<noteq> None \<and> (selected = None \<or> exists \<and> out \<noteq> selected)
         then (out, selected \<noteq> None) else (selected, False))"

definition performUpdateCheck :: "(outbound \<Rightarrow> group_view option) \<Rightarrow> 'n url_test_group
    \<Rightarrow> 'n group_conn list \<times> 'n url_test_group" where
  "performUpdateCheck as_group g =
     (let (tcp, updatedTCP) = update_network (URLTest_Select as_group g NetworkTCP) (ug_selectedOutboundTCP g);
          g = g\<lparr> ug_selectedOutboundTCP := tcp \<rparr>;
          (udp, updatedUDP) = update_network (URLTest_Select as_group g NetworkUDP) (ug_selectedOutboundUDP g);
          g = g\<lparr> ug_selectedOutboundUDP := udp \<rparr>
      in if updatedTCP \<or> updatedUDP
         then (let (result, shut, rest) = Interrupt (ug_interruptGroup g) (ug_interruptExternalConnections g)
               in (shut, g\<lparr> ug_interruptGroup := rest \<rparr>))
         else ([], g))"

section \<open>A round of tests\<close>

text \<open>
  The outbounds a round tests, each real tag once: those without a recent history, all when forced,
  and only those the manager still knows.
\<close>

fun test_targets :: "(outbound \<Rightarrow> group_view option) \<Rightarrow> (tag \<Rightarrow> outbound option) \<Rightarrow> instant \<Rightarrow> bool
    \<Rightarrow> 'n url_test_group \<Rightarrow> outbound list \<Rightarrow> tag list \<Rightarrow> (tag \<times> tag) list" where
  "test_targets as_group manager now force g [] checked = []"
| "test_targets as_group manager now force g (detour # rest) checked =
     (let realTag = RealTag as_group detour
      in if realTag \<in> set checked then test_targets as_group manager now force g rest checked
         else (let recent = (case LoadURLTestHistory (ug_history g) realTag of None \<Rightarrow> False
                 | Some h \<Rightarrow> now - Time h < ug_interval g)
               in if \<not> force \<and> recent then test_targets as_group manager now force g rest checked
                  else if manager realTag = None
                    then test_targets as_group manager now force g rest (realTag # checked)
                  else (Tag detour, realTag) # test_targets as_group manager now force g rest (realTag # checked)))"

text \<open>
  The tests of a round run concurrently and each stores under its own real tag; \<open>probe\<close> is what
  \<open>URLTest\<close> returned for it.
\<close>

definition store_test :: "instant \<Rightarrow> (tag \<Rightarrow> u16 \<times> go_error option) \<Rightarrow> tag \<times> tag
    \<Rightarrow> (tag, u16) go_map \<times> history_map \<Rightarrow> ((tag, u16) go_map \<times> history_map) outcome" where
  "store_test now probe target acc =
     (let (t, realTag) = target; (result, history) = acc; (delay, err) = probe realTag
      in case err of
           Some e \<Rightarrow> and_then (StoreURLTestHistory history realTag (Some (NewURLTestHistory now 0 (Some e) 0)))
             (\<lambda>history. Returned (result, history))
         | None \<Rightarrow> and_then (StoreURLTestHistory history realTag (Some (NewURLTestHistory now delay None 0)))
             (\<lambda>history. Returned (AList.update t delay result, history)))"

definition urlTest :: "(outbound \<Rightarrow> group_view option) \<Rightarrow> (tag \<Rightarrow> outbound option) \<Rightarrow> instant \<Rightarrow> instant \<Rightarrow> bool
    \<Rightarrow> (tag \<Rightarrow> u16 \<times> go_error option) \<Rightarrow> 'n url_test_group
    \<Rightarrow> ((tag, u16) go_map \<times> 'n group_conn list \<times> 'n url_test_group) outcome" where
  "urlTest as_group manager now later force probe g =
     (if ug_checking g then Returned ([], [], g)
      else and_then (fold (\<lambda>target r. and_then r (store_test later probe target))
               (test_targets as_group manager now force g (ug_outbounds g) []) (Returned ([], ug_history g)))
             (\<lambda>(result, history).
                let (shut, g) = performUpdateCheck as_group (g\<lparr> ug_history := history \<rparr>)
                in Returned (result, shut, g)))"

section \<open>The ticker\<close>

definition URLTest_PostStart :: "instant \<Rightarrow> 'n url_test_group \<Rightarrow> 'n url_test_group" where
  "URLTest_PostStart now g = g\<lparr> ug_started := True, ug_lastActive := now \<rparr>"

definition URLTest_Touch :: "instant \<Rightarrow> 'n url_test_group \<Rightarrow> 'n url_test_group" where
  "URLTest_Touch now g =
     (if \<not> ug_started g then g
      else if ug_ticker g then g\<lparr> ug_lastActive := now \<rparr>
      else g\<lparr> ug_ticker := True \<rparr>)"

text \<open>\<open>ug_closed\<close> is the channel \<open>close\<close>; closing it twice panics.\<close>

definition URLTest_Close :: "'n url_test_group \<Rightarrow> 'n url_test_group outcome" where
  "URLTest_Close g =
     (if \<not> ug_ticker g then Returned g
      else if ug_closed g then Panicked
      else Returned (g\<lparr> ug_ticker := False, ug_closed := True \<rparr>))"

text \<open>
  A flow after the close starts a ticker again, whose loop ends at once on the closed channel without
  clearing it, so that closing once more panics.
\<close>

lemma close_touch_close_panics:
  assumes "ug_started g" and "ug_ticker g" and "\<not> ug_closed g"
  shows "and_then (URLTest_Close g) (\<lambda>g. URLTest_Close (URLTest_Touch now g)) = Panicked"
  using assms by (simp add: URLTest_Close_def URLTest_Touch_def)

text \<open>One pass of \<open>loopCheck\<close>: whether the group is tested, and the state in which it is.\<close>

definition loop_start :: "instant \<Rightarrow> 'n url_test_group \<Rightarrow> bool \<times> 'n url_test_group" where
  "loop_start now g = (if now - ug_lastActive g > ug_interval g then (True, g\<lparr> ug_lastActive := now \<rparr>)
     else (False, g))"

definition loop_tick :: "instant \<Rightarrow> 'n url_test_group \<Rightarrow> bool \<times> 'n url_test_group" where
  "loop_tick now g = (if now - ug_lastActive g > ug_idleTimeout g then (False, g\<lparr> ug_ticker := False \<rparr>)
     else (True, g))"

section \<open>Flows\<close>

datatype 'n url_flow = UnknownNetwork | MissingOutbound | URLFlowFailed tag | URLFlowCarried 'n outbound

text \<open>
  \<open>dial\<close> is the call to the outbound: a connection or an error, which is recorded as a failed test of the
  outbound's own tag. \<open>net_name\<close> is \<open>N.NetworkName\<close>, which cuts the version off a network.
\<close>

definition url_open :: "instant \<Rightarrow> (outbound \<Rightarrow> go_error + 'n) \<Rightarrow> ('n group_conn list \<Rightarrow> 'n \<Rightarrow> bool \<Rightarrow> 'n group_conn list)
    \<Rightarrow> bool \<Rightarrow> outbound option \<Rightarrow> 'n url_test_group \<Rightarrow> 'n url_flow outcome \<times> 'n url_test_group" where
  "url_open now dial register external choice g =
     (case choice of
        None \<Rightarrow> (Returned MissingOutbound, g)
      | Some out \<Rightarrow>
          (case dial out of
             Inr c \<Rightarrow> (Returned (URLFlowCarried c out),
               g\<lparr> ug_interruptGroup := register (ug_interruptGroup g) c external \<rparr>)
           | Inl err \<Rightarrow>
               (case StoreURLTestHistory (ug_history g) (Tag out) (Some (NewURLTestHistory now 0 (Some err) 0)) of
                  Panicked \<Rightarrow> (Panicked, g)
                | Returned h \<Rightarrow> (Returned (URLFlowFailed (Tag out)), g\<lparr> ug_history := h \<rparr>))))"

definition URLTest_DialContext where
  "URLTest_DialContext as_group net_name now dial external net g =
     (let g = URLTest_Touch now g
      in if net_name net \<noteq> NetworkTCP \<and> net_name net \<noteq> NetworkUDP then (Returned UnknownNetwork, g)
         else (let selected = selected_for g (net_name net);
                   choice = (if selected = None then fst (URLTest_Select as_group g net) else selected)
               in url_open now dial NewConn external choice g))"

definition URLTest_ListenPacket where
  "URLTest_ListenPacket as_group now dial external g =
     (let g = URLTest_Touch now g;
          selected = ug_selectedOutboundUDP g;
          choice = (if selected = None then fst (URLTest_Select as_group g NetworkUDP) else selected)
      in url_open now dial NewPacketConn external choice g)"

definition URLTest_NewDirectRouteConnection where
  "URLTest_NewDirectRouteConnection as_group now metadata g =
     (let g = URLTest_Touch now g;
          selected = ug_selectedOutboundTCP g;
          choice = (if selected = None then fst (URLTest_Select as_group g NetworkTCP) else selected)
      in (case choice of
            None \<Rightarrow> RouteRefused MissingSelected
          | Some out \<Rightarrow> if Network metadata \<notin> set (Networks out)
              then NetworkUnsupported (Network metadata) (Tag out) else RoutedBy out, g))"

section \<open>The choice of the fastest\<close>

text \<open>
  What the loop needs of a member: a last result, when there is one, with a positive delay whose sum with the
  tolerance has 16 bits. A delay of zero reads as "nothing chosen yet"; a failed test has the delay 65535.
\<close>

definition usable_delay :: "(outbound \<Rightarrow> group_view option) \<Rightarrow> 'n url_test_group \<Rightarrow> outbound \<Rightarrow> bool" where
  "usable_delay as_group g c \<longleftrightarrow> (\<forall>h. history_of as_group g c = Some h
     \<longrightarrow> 0 < Delay h \<and> uint (Delay h) + uint (ug_tolerance g) < 65536)"

lemma usable_sum:
  assumes "usable_delay as_group g detour" and "history_of as_group g detour = Some h"
  shows "uint (Delay h + ug_tolerance g) = uint (Delay h) + uint (ug_tolerance g)"
  using assms by (auto simp: usable_delay_def uint_plus_simple_iff no_olen_add uint_word_ariths)

definition best_so_far :: "(outbound \<Rightarrow> group_view option) \<Rightarrow> 'n url_test_group \<Rightarrow> string \<Rightarrow> outbound list
    \<Rightarrow> outbound option \<times> u16 \<Rightarrow> bool" where
  "best_so_far as_group g net seen acc \<longleftrightarrow>
     (\<forall>best. fst acc = Some best \<longrightarrow>
        (\<exists>h. history_of as_group g best = Some h \<and> Delay h = snd acc) \<and> snd acc \<noteq> 0) \<and>
     (fst acc = None \<longrightarrow> snd acc = 0) \<and>
     (\<forall>c \<in> set seen. \<forall>h. net \<in> set (Networks c) \<and> history_of as_group g c = Some h \<longrightarrow>
        fst acc \<noteq> None \<and> uint (snd acc) \<le> uint (Delay h) + uint (ug_tolerance g))"

lemma select_step_best:
  assumes "net \<in> set (Networks detour) \<Longrightarrow> usable_delay as_group g detour" and "best_so_far as_group g net seen acc"
  shows "best_so_far as_group g net (detour # seen) (url_select_step as_group g net detour acc)"
proof (cases "net \<in> set (Networks detour)")
  case True
  show ?thesis
  proof (cases "history_of as_group g detour")
    case None
    then show ?thesis using assms(2) by (auto simp: url_select_step_def best_so_far_def split: prod.splits)
  next
    case (Some h)
    note sum = usable_sum [OF assms(1) [OF True] Some]
    have "0 < Delay h"
      using assms(1) [OF True] Some unfolding usable_delay_def by blast
    then have pos: "Delay h \<noteq> 0"
      by auto
    have "uint (Delay h) \<le> uint (Delay h) + uint (ug_tolerance g)" by simp
    moreover have "uint (Delay h) \<le> uint (snd acc)" if "Delay h + ug_tolerance g < snd acc"
      using that sum uint_ge_0 [of "ug_tolerance g"] unfolding word_less_def by linarith
    moreover have "uint (snd acc) \<le> uint (Delay h) + uint (ug_tolerance g)" if "\<not> Delay h + ug_tolerance g < snd acc"
      using that sum unfolding word_less_def by linarith
    ultimately show ?thesis
      using assms(2) Some True pos
      by (fastforce simp: url_select_step_def best_so_far_def split: prod.splits)
  qed
qed (use assms(2) in \<open>auto simp: url_select_step_def best_so_far_def split: prod.splits\<close>)

lemma select_loop_best:
  assumes "\<forall>c \<in> set outs. net \<in> set (Networks c) \<longrightarrow> usable_delay as_group g c" and "best_so_far as_group g net seen acc"
  shows "best_so_far as_group g net (rev outs @ seen) (fold (url_select_step as_group g net) outs acc)"
  using assms
proof (induction outs arbitrary: seen acc)
  case (Cons a outs)
  then show ?case
    using Cons.IH [OF _ select_step_best [OF _ Cons.prems(2)]] by simp
qed simp

lemma select_start_best:
  assumes "\<forall>c. selected_for g net = Some c \<longrightarrow> usable_delay as_group g c"
  shows "best_so_far as_group g net [] (url_select_start as_group g net)"
  using assms by (fastforce simp: best_so_far_def url_select_start_def usable_delay_def split: option.splits)

lemma select_source:
  assumes "fst (fold (url_select_step as_group g net) outs (url_select_start as_group g net)) = Some c"
  shows "selected_for g net = Some c \<or> c \<in> set outs"
  using assms
proof (induction outs rule: rev_induct)
  case Nil
  then show ?case by (auto simp: url_select_start_def split: option.splits)
next
  case (snoc a outs)
  then show ?case by (auto simp: url_select_step_def split: prod.splits option.splits if_splits)
qed

section \<open>The sum that wraps\<close>

lemma wrapped_delay:
  assumes "0 < tolerance" and "tolerance \<le> d"
  shows "65535 + tolerance < (d :: u16)"
proof -
  have pos: "0 < uint tolerance" "uint tolerance \<le> uint d"
    using assms unfolding word_less_def word_le_def by simp_all
  have "uint (65535 + tolerance) = uint tolerance - 1"
    using pos by (simp add: uint_plus_if')
  then show ?thesis
    using pos unfolding word_less_def by linarith
qed

lemma select_known:
  "fst (fold (url_select_step as_group g net) outs (url_select_start as_group g net)) = None
      \<and> snd (fold (url_select_step as_group g net) outs (url_select_start as_group g net)) = 0
    \<or> (\<exists>out h. (out \<in> set outs \<or> selected_for g net = Some out) \<and> history_of as_group g out = Some h
        \<and> snd (fold (url_select_step as_group g net) outs (url_select_start as_group g net)) = Delay h)"
proof (induction outs rule: rev_induct)
  case Nil
  then show ?case by (auto simp: url_select_start_def split: option.splits)
next
  case (snoc a outs)
  then show ?case
    by (auto simp: url_select_step_def split: prod.splits option.splits if_splits)
qed

lemma failed_delay [simp]: "Delay (NewURLTestHistory now 0 (Some err) p) = 65535"
  by (simp add: NewURLTestHistory_def Let_def split_def)

end
