(* ===== verification/Broadcaster.thy ===== *)
theory Broadcaster
  imports Go_Prelude
begin

text \<open>
  \<open>Broadcaster\<close> of \<open>common/monitoring/brodcaster.go\<close>, over which the events of a group reach its
  subscribers. A channel is a buffer with a capacity; sending on a closed channel, closing one twice and
  writing to a nil map panic. Every operation holds the lock, so a run is a sequence of operations;
  subscribers drain their channels in between.
\<close>

section \<open>Channels and state\<close>

record 'e channel =
  capacity :: nat
  buffer :: "'e list"
  shut_down :: bool

text \<open>\<open>subs\<close> is \<open>None\<close> for the nil map; \<open>ended\<close> is \<open>ctx.Done()\<close>, \<open>swept\<close> that the watcher has run.\<close>

record 'e broadcaster =
  chans :: "'e channel list"
  subs :: "nat list option"
  ended :: bool
  swept :: bool

definition NewBroadcaster :: "'e broadcaster" where
  "NewBroadcaster = \<lparr> chans = [], subs = Some [], ended = False, swept = False \<rparr>"

definition close_chan :: "nat \<Rightarrow> 'e broadcaster \<Rightarrow> 'e broadcaster outcome" where
  "close_chan ch b = (if shut_down (chans b ! ch) then Panicked
     else Returned (b\<lparr> chans := (chans b)[ch := (chans b ! ch)\<lparr> shut_down := True \<rparr>] \<rparr>))"

section \<open>Operations\<close>

definition Subscribe :: "nat \<Rightarrow> 'e broadcaster \<Rightarrow> (nat \<times> 'e broadcaster) outcome" where
  "Subscribe n b =
     (let ch = length (chans b);
          b = b\<lparr> chans := chans b @ [\<lparr> capacity = n, buffer = [], shut_down = False \<rparr>] \<rparr>
      in if ended b then and_then (close_chan ch b) (\<lambda>b. Returned (ch, b))
         else (case subs b of
                 None \<Rightarrow> Panicked
               | Some s \<Rightarrow> Returned (ch, b\<lparr> subs := Some (s @ [ch]) \<rparr>)))"

definition Unsubscribe :: "nat \<Rightarrow> 'e broadcaster \<Rightarrow> 'e broadcaster outcome" where
  "Unsubscribe ch b =
     (case subs b of
        None \<Rightarrow> Returned b
      | Some s \<Rightarrow> if ch \<in> set s then close_chan ch (b\<lparr> subs := Some (filter (\<lambda>c. c \<noteq> ch) s) \<rparr>)
          else Returned b)"

text \<open>
  One pass of \<open>Publish\<close>: with room the event is sent, unless the context has ended and the \<open>select\<close>
  takes that branch (\<open>stop\<close>); without room an ended context ends the loop and otherwise the event is
  dropped for that subscriber. (A channel without a buffer hands the event to a waiting receiver or drops
  it; either way its buffer stays empty.)
\<close>

fun publish_loop :: "'e \<Rightarrow> (nat \<Rightarrow> bool) \<Rightarrow> nat list \<Rightarrow> 'e broadcaster \<Rightarrow> 'e broadcaster outcome" where
  "publish_loop e stop [] b = Returned b"
| "publish_loop e stop (ch # rest) b =
     (let c = chans b ! ch
      in if shut_down c then Panicked
         else if length (buffer c) < capacity c
         then (if ended b \<and> stop ch then Returned b
               else publish_loop e stop rest (b\<lparr> chans := (chans b)[ch := c\<lparr> buffer := buffer c @ [e] \<rparr>] \<rparr>))
         else if ended b then Returned b
         else publish_loop e stop rest b)"

definition Publish :: "'e \<Rightarrow> (nat \<Rightarrow> bool) \<Rightarrow> 'e broadcaster \<Rightarrow> 'e broadcaster outcome" where
  "Publish e stop b = publish_loop e stop (case subs b of None \<Rightarrow> [] | Some s \<Rightarrow> s) b"

definition Broadcaster_Close :: "'e broadcaster \<Rightarrow> 'e broadcaster" where
  "Broadcaster_Close b = b\<lparr> ended := True \<rparr>"

fun close_each :: "nat list \<Rightarrow> 'e broadcaster \<Rightarrow> 'e broadcaster outcome" where
  "close_each [] b = Returned b"
| "close_each (ch # rest) b = and_then (close_chan ch b) (close_each rest)"

definition closeAll :: "'e broadcaster \<Rightarrow> 'e broadcaster outcome" where
  "closeAll b = and_then (close_each (case subs b of None \<Rightarrow> [] | Some s \<Rightarrow> s) b)
     (\<lambda>b. Returned (b\<lparr> subs := None \<rparr>))"

section \<open>Runs\<close>

text \<open>\<open>watchContext\<close> runs \<open>closeAll\<close> once, after the context has ended.\<close>

inductive broadcast_step :: "'e broadcaster \<Rightarrow> 'e broadcaster outcome \<Rightarrow> bool" where
  subscribe: "broadcast_step b (and_then (Subscribe n b) (\<lambda>(ch, b). Returned b))"
| unsubscribe: "broadcast_step b (Unsubscribe ch b)"
| publish_event: "broadcast_step b (Publish e stop b)"
| close_it: "broadcast_step b (Returned (Broadcaster_Close b))"
| watch: "ended b \<Longrightarrow> \<not> swept b \<Longrightarrow> broadcast_step b (and_then (closeAll b) (\<lambda>b. Returned (b\<lparr> swept := True \<rparr>)))"
| receive: "ch < length (chans b) \<Longrightarrow> broadcast_step b (Returned (b\<lparr> chans := (chans b)[ch :=
    (chans b ! ch)\<lparr> buffer := tl (buffer (chans b ! ch)) \<rparr>] \<rparr>))"

inductive broadcast_reachable :: "'e broadcaster outcome \<Rightarrow> bool" where
  created: "broadcast_reachable (Returned NewBroadcaster)"
| stepped: "broadcast_reachable (Returned b) \<Longrightarrow> broadcast_step b r \<Longrightarrow> broadcast_reachable r"

definition broadcaster_ok :: "'e broadcaster \<Rightarrow> bool" where
  "broadcaster_ok b \<longleftrightarrow>
     (\<forall>s. subs b = Some s \<longrightarrow> distinct s \<and> (\<forall>ch \<in> set s. ch < length (chans b) \<and> \<not> shut_down (chans b ! ch))) \<and>
     (subs b = None \<longrightarrow> ended b) \<and> (swept b \<longrightarrow> subs b = None) \<and>
     (\<forall>ch < length (chans b). \<not> shut_down (chans b ! ch) \<longrightarrow> (\<exists>s. subs b = Some s \<and> ch \<in> set s)) \<and>
     (\<forall>ch < length (chans b). length (buffer (chans b ! ch)) \<le> capacity (chans b ! ch))"

lemma subscribe_ok:
  assumes "broadcaster_ok b"
  shows "\<exists>ch b'. Subscribe n b = Returned (ch, b') \<and> broadcaster_ok b'"
proof (cases "ended b")
  case True
  then show ?thesis
    using assms
    by (auto simp: Subscribe_def close_chan_def Let_def broadcaster_ok_def nth_append nth_list_update less_Suc_eq)
next
  case False
  then obtain s where "subs b = Some s"
    using assms by (cases "subs b") (auto simp: broadcaster_ok_def)
  then show ?thesis
    using assms False by (auto simp: Subscribe_def Let_def broadcaster_ok_def nth_append less_Suc_eq)
qed

lemma unsubscribe_ok:
  assumes "broadcaster_ok b"
  shows "\<exists>b'. Unsubscribe ch b = Returned b' \<and> broadcaster_ok b'"
  using assms
  by (cases "subs b") (auto simp: Unsubscribe_def close_chan_def broadcaster_ok_def nth_list_update)

lemma publish_loop_ok:
  assumes "broadcaster_ok b" and "distinct chs" and "\<forall>ch \<in> set chs. ch < length (chans b) \<and> \<not> shut_down (chans b ! ch)"
  shows "\<exists>b'. publish_loop e stop chs b = Returned b' \<and> broadcaster_ok b'"
  using assms
proof (induction chs arbitrary: b)
  case (Cons ch chs)
  let ?b = "b\<lparr> chans := (chans b)[ch := (chans b ! ch)\<lparr> buffer := buffer (chans b ! ch) @ [e] \<rparr>] \<rparr>"
  have sent: "broadcaster_ok ?b" if "length (buffer (chans b ! ch)) < capacity (chans b ! ch)"
    using Cons.prems that by (auto simp: broadcaster_ok_def nth_list_update)
  have rest: "\<forall>c \<in> set chs. c < length (chans ?b) \<and> \<not> shut_down (chans ?b ! c)"
    using Cons.prems by (auto simp: nth_list_update)
  show ?case
    using Cons.IH [OF sent] Cons.IH [OF Cons.prems(1)] rest Cons.prems by (auto simp: Let_def)
qed simp

lemma close_each_ok:
  assumes "distinct chs" and "\<forall>ch \<in> set chs. ch < length (chans b) \<and> \<not> shut_down (chans b ! ch)"
  shows "\<exists>b'. close_each chs b = Returned b' \<and> ended b' = ended b \<and> length (chans b') = length (chans b)
    \<and> (\<forall>ch < length (chans b). buffer (chans b' ! ch) = buffer (chans b ! ch) \<and>
        capacity (chans b' ! ch) = capacity (chans b ! ch) \<and>
        (shut_down (chans b' ! ch) \<longleftrightarrow> shut_down (chans b ! ch) \<or> ch \<in> set chs))"
  using assms
proof (induction chs arbitrary: b)
  case (Cons ch chs)
  let ?b = "b\<lparr> chans := (chans b)[ch := (chans b ! ch)\<lparr> shut_down := True \<rparr>] \<rparr>"
  have rest: "distinct chs" and open': "\<forall>c \<in> set chs. c < length (chans ?b) \<and> \<not> shut_down (chans ?b ! c)"
    using Cons.prems by (auto simp: nth_list_update)
  obtain b' where b': "close_each chs ?b = Returned b'" "ended b' = ended ?b" "length (chans b') = length (chans ?b)"
    "\<forall>ch < length (chans ?b). buffer (chans b' ! ch) = buffer (chans ?b ! ch) \<and>
        capacity (chans b' ! ch) = capacity (chans ?b ! ch) \<and>
        (shut_down (chans b' ! ch) \<longleftrightarrow> shut_down (chans ?b ! ch) \<or> ch \<in> set chs)"
    using Cons.IH [OF rest open'] by blast
  have "close_each (ch # chs) b = Returned b'"
    using Cons.prems b'(1) by (simp add: close_chan_def)
  moreover have "buffer (chans b' ! c) = buffer (chans b ! c) \<and> capacity (chans b' ! c) = capacity (chans b ! c) \<and>
      (shut_down (chans b' ! c) \<longleftrightarrow> shut_down (chans b ! c) \<or> c \<in> set (ch # chs))" if "c < length (chans b)" for c
    using b'(4) that by (cases "c = ch") simp_all
  ultimately show ?case
    using b'(2,3) by (intro exI [of _ b']) simp
qed simp

lemma watch_ok:
  assumes "broadcaster_ok b" and "ended b"
  shows "\<exists>b'. closeAll b = Returned b' \<and> broadcaster_ok (b'\<lparr> swept := True \<rparr>)"
proof (cases "subs b")
  case None
  then show ?thesis
    using assms by (auto simp: closeAll_def broadcaster_ok_def)
next
  case (Some s)
  then have "distinct s" "\<forall>ch \<in> set s. ch < length (chans b) \<and> \<not> shut_down (chans b ! ch)"
    using assms by (auto simp: broadcaster_ok_def)
  from close_each_ok [OF this] obtain b' where b': "close_each s b = Returned b'" "ended b' = ended b"
    "length (chans b') = length (chans b)"
    "\<forall>ch < length (chans b). buffer (chans b' ! ch) = buffer (chans b ! ch) \<and>
        capacity (chans b' ! ch) = capacity (chans b ! ch) \<and>
        (shut_down (chans b' ! ch) \<longleftrightarrow> shut_down (chans b ! ch) \<or> ch \<in> set s)"
    by blast
  have "shut_down (chans b ! ch) \<or> ch \<in> set s" if "ch < length (chans b)" for ch
    using assms(1) that Some by (auto simp: broadcaster_ok_def)
  then show ?thesis
    using b' assms Some by (auto simp: closeAll_def broadcaster_ok_def)
qed

lemma broadcast_step_ok:
  assumes "broadcast_step b r" and "broadcaster_ok b"
  shows "\<exists>b'. r = Returned b' \<and> broadcaster_ok b'"
  using assms
proof (induction rule: broadcast_step.induct)
  case (subscribe b n)
  then show ?case using subscribe_ok [of b n] by auto
next
  case (publish_event b e stop)
  show ?case
  proof (cases "subs b")
    case None
    then show ?thesis using publish_event by (simp add: Publish_def)
  next
    case (Some s)
    then have "distinct s" "\<forall>ch \<in> set s. ch < length (chans b) \<and> \<not> shut_down (chans b ! ch)"
      using publish_event by (simp_all add: broadcaster_ok_def)
    from publish_loop_ok [OF publish_event this] show ?thesis
      by (simp add: Publish_def Some)
  qed
next
  case (unsubscribe b ch)
  then show ?case by (rule unsubscribe_ok)
next
  case (watch b)
  then show ?case using watch_ok [of b] by auto
next
  case (receive ch b)
  then have "length (buffer (chans b ! ch)) \<le> capacity (chans b ! ch)"
    by (simp add: broadcaster_ok_def)
  then have "length (tl (buffer (chans b ! ch))) \<le> capacity (chans b ! ch)"
    by simp
  with receive show ?case
    by (simp add: broadcaster_ok_def nth_list_update)
qed (simp add: Broadcaster_Close_def broadcaster_ok_def)

lemma broadcast_reachable_ok: "broadcast_reachable r \<Longrightarrow> \<exists>b. r = Returned b \<and> broadcaster_ok b"
proof (induction rule: broadcast_reachable.induct)
  case created
  show ?case by (simp add: NewBroadcaster_def broadcaster_ok_def)
next
  case (stepped b r)
  then show ?case using broadcast_step_ok by auto
qed

lemma broadcast_reachable_Publish:
  assumes "broadcast_reachable (Returned b)"
  shows "\<exists>b'. Publish e stop b = Returned b'"
  using broadcast_reachable_ok [OF broadcast_reachable.stepped [OF assms broadcast_step.publish_event]] by blast

section \<open>What a subscriber receives\<close>

lemma publish_loop_other:
  assumes "publish_loop e stop chs b = Returned b'" and "ch \<notin> set chs"
  shows "chans b' ! ch = chans b ! ch"
  using assms by (induction e stop chs b rule: publish_loop.induct) (auto simp: Let_def split: if_splits)

lemma publish_loop_delivers:
  assumes "publish_loop e stop chs b = Returned b'" and "distinct chs" and "ch \<in> set chs" and "\<not> ended b"
    and "\<forall>c \<in> set chs. c < length (chans b)"
  shows "buffer (chans b' ! ch) = (if length (buffer (chans b ! ch)) < capacity (chans b ! ch)
    then buffer (chans b ! ch) @ [e] else buffer (chans b ! ch))"
  using assms
proof (induction chs arbitrary: b)
  case (Cons c chs)
  show ?case
  proof (cases "c = ch")
    case True
    then have "ch \<notin> set chs" using Cons.prems by simp
    then show ?thesis
      using Cons.prems True publish_loop_other by (fastforce simp: Let_def split: if_splits)
  next
    case False
    then show ?thesis
      using Cons.prems Cons.IH by (fastforce simp: Let_def split: if_splits)
  qed
qed simp

end
