(* ===== verification/Claims_Groups.thy ===== *)
theory Claims_Groups
  imports Url_Test_Group Broadcaster Scenarios
begin

text \<open>
  Properties of the two upstream groups the program keeps beside its balancer, the manual selector and
  the URL test group, and of the broadcaster over which the monitor tells the groups about new results.
\<close>

section \<open>The manual selector\<close>

text \<open>
  C27: A flow follows the user's choice. In every reachable selector a flow is carried by the outbound the
  user selected, or, only while that is a group without a choice of its own, by the fallback that was
  selected before and belongs to the group; both are outbounds of the profile, and unless the flow is a
  capability probe or the mode has no gate, the IP family gate allows it.
\<close>

theorem flows_follow_the_selection:
  assumes "selector_reachable manager s" and "se_manager env = manager"
    and "open_flow env hist now boot metadata register external dial s = (Carried c out realTag, s')"
  shows "(sel_selected s = Some out \<or> sel_transitionFallback s = Some out \<and>
      (\<exists>d g. sel_selected s = Some d \<and> se_group env d = Some g \<and> group_now g = [] \<and> Tag out \<in> set (group_all g)))
    \<and> (\<exists>t \<in> set (sel_tags s). manager t = Some out)
    \<and> (boot \<or> sel_ipv6Mode s = DomainStrategyAsIS \<or>
      (\<exists>h. IPv6TrafficAllowed (sel_ipv6Mode s) metadata h now (sel_ipv6CapabilityTTL s)
        \<and> (h = None \<or> h = hist (RealTag (se_group env) out))))"
proof -
  obtain s1 where c: "connectionOutbound env hist now boot metadata s = (Inr out, s1)"
    using assms(3) by (auto simp: open_flow_def Let_def split: prod.splits sum.splits option.splits)
  note source = connection_source [OF c]
  have "out \<in> ran (map_of (sel_outbounds s))"
    using selector_reachable_ok [OF assms(1)] source by (auto simp: selector_ok_def)
  then have "\<exists>t \<in> set (sel_tags s). manager t = Some out"
    using selector_reachable_ok [OF assms(1)] by (auto simp: selector_ok_def ran_def)
  then show ?thesis using source by blast
qed

text \<open>Auto is a group over \<open>a\<close> and \<open>b\<close>; the user moves from \<open>a\<close> to Auto before it has a choice.\<close>

definition small_env :: selector_env where
  "small_env = \<lparr> se_manager = (\<lambda>t. if t = ''a'' \<or> t = ''b'' \<or> t = ''auto'' then Some (server t) else None),
     se_group = (\<lambda>out. if Tag out = ''auto'' then Some \<lparr> group_now = [], group_all = [''a'', ''b''] \<rparr> else None),
     se_cache = None, se_monitor = True \<rparr>"

abbreviation (input) small_new :: "selector_error + nat selector" where
  "small_new \<equiv> NewSelector ''select'' [''auto'', ''a''] ''a'' False True [] DomainStrategyAsIS 0"

definition small_selector :: "nat selector" where
  "small_selector = (case small_new of Inl _ \<Rightarrow> undefined | Inr s \<Rightarrow>
     (case Selector_Start small_env s of Inl _ \<Rightarrow> undefined | Inr s \<Rightarrow> s))"

definition moved_selector :: "nat selector" where
  "moved_selector = snd (SelectOutbound small_env [] ''auto'' small_selector)"

lemma small_reachable: "selector_reachable (se_manager small_env) small_selector"
proof -
  obtain s0 where s0: "small_new = Inr s0"
    by (simp add: NewSelector_def)
  have "case Selector_Start small_env (projr small_new) of Inl _ \<Rightarrow> False | Inr _ \<Rightarrow> True"
    by code_simp
  then obtain s where s: "Selector_Start small_env s0 = Inr s"
    by (auto simp: s0 split: sum.splits)
  have "small_selector = s"
    by (simp only: small_selector_def s0 s sum.case)
  then show ?thesis
    using selector_reachable.started [OF s0 refl s] by simp
qed

lemma moved_reachable: "selector_reachable (se_manager small_env) moved_selector"
  unfolding moved_selector_def
  by (rule selector_reachable.stepped [OF small_reachable refl]) (rule selector_step.select, rule prod.collapse [symmetric])

definition web_flow :: inbound_context where
  "web_flow = \<lparr> IPVersion = 4, Network = NetworkTCP, DestinationAddr = Addr4 0x08080808, RealOutbound = [] \<rparr>"

theorem flows_follow_the_selection_witness:
  "sel_selected moved_selector = Some (server ''auto'')
    \<and> (\<exists>t \<in> set (sel_tags moved_selector). se_manager small_env t = Some (server ''a''))"
proof -
  obtain s' where "open_flow small_env (\<lambda>_. None) 0 False web_flow NewConn False (\<lambda>_. Some 7) moved_selector
      = (Carried 7 (server ''a'') ''a'', s')"
  proof -
    have "fst (open_flow small_env (\<lambda>_. None) 0 False web_flow NewConn False (\<lambda>_. Some 7) moved_selector)
        = Carried 7 (server ''a'') ''a''"
      by code_simp
    then show ?thesis using that by (metis prod.collapse)
  qed
  moreover have "sel_selected moved_selector = Some (server ''auto'')"
    by code_simp
  ultimately show ?thesis
    using flows_follow_the_selection [OF moved_reachable refl] by blast
qed

text \<open>
  C28: The user's choice never cuts what already runs. Whatever the option of the group says, selecting a
  member closes only connections that did not come from outside, none at all when the choice does not
  change, and a stale session or an unknown tag changes nothing; what is closed and what stays is the
  group as it was.
\<close>

theorem manual_selection_preserves:
  assumes "SelectOutbound env session t s = (Returned (ok, shut), s')"
  shows "mset shut + mset (sel_interruptGroup s') = mset (sel_interruptGroup s)
    \<and> (\<forall>c \<in> set shut. \<not> isExternal c)
    \<and> (\<not> ok \<or> sel_selected s = map_of (sel_outbounds s) t \<longrightarrow>
        shut = [] \<and> sel_selected s' = sel_selected s \<and> sel_transitionFallback s' = sel_transitionFallback s)
    \<and> (ok \<longrightarrow> selectorSessionGenerationMatches (sel_sessionGeneration s) session
        \<and> map_of (sel_outbounds s) t \<noteq> None \<and> sel_selected s' = map_of (sel_outbounds s) t)"
proof -
  obtain ok1 shut1 s1 where m: "select_member env session t s = (ok1, shut1, s1)"
    by (cases "select_member env session t s")
  obtain r s2 where p: "pingSelected env s1 = (r, s2)"
    by (cases "pingSelected env s1")
  have same: "ok1 = ok" "shut1 = shut" "s2 = s'"
    using assms by (auto simp: SelectOutbound_def m p and_then_Returned)
  obtain calls where s': "s' = s1\<lparr> sel_calls := calls \<rparr>"
    using ping_frame [OF p] same by auto
  show ?thesis
  proof (cases "selectorSessionGenerationMatches (sel_sessionGeneration s) session")
    case False
    then show ?thesis using m by (auto simp: select_member_def s' same)
  next
    case matches: True
    show ?thesis
    proof (cases "map_of (sel_outbounds s) t")
      case None
      then show ?thesis using m matches by (auto simp: select_member_def s' same)
    next
      case (Some detour)
      show ?thesis
      proof (cases "sel_selected s = Some detour")
        case True
        then show ?thesis using m matches Some by (auto simp: select_member_def s' same Let_def)
      next
        case False
        obtain result rest where i: "Interrupt (sel_interruptGroup s) False = (result, shut, rest)"
          and rest: "sel_interruptGroup s1 = rest" "sel_selected s1 = Some detour" and ok: "ok"
          using m matches Some False
          by (auto simp: select_member_def same Let_def split: prod.splits if_splits)
        show ?thesis
          using Interrupt_partition(1,2) [OF i] False Some ok matches
          by (simp add: s' rest to_close_def)
      qed
    qed
  qed
qed

definition busy_selector :: "nat selector" where
  "busy_selector = small_selector\<lparr> sel_interruptGroup :=
     [\<lparr> conn = 1, isExternal = True, network = NetworkTCP \<rparr>, \<lparr> conn = 2, isExternal = False, network = NetworkTCP \<rparr>] \<rparr>"

theorem manual_selection_preserves_witness:
  "\<exists>s'. SelectOutbound small_env [] ''auto'' busy_selector
      = (Returned (True, [\<lparr> conn = 2, isExternal = False, network = NetworkTCP \<rparr>]), s')
    \<and> sel_interruptGroup s' = [\<lparr> conn = 1, isExternal = True, network = NetworkTCP \<rparr>]"
proof -
  have "fst (SelectOutbound small_env [] ''auto'' busy_selector)
      = Returned (True, [\<lparr> conn = 2, isExternal = False, network = NetworkTCP \<rparr>])"
    by code_simp
  then obtain s' where s': "SelectOutbound small_env [] ''auto'' busy_selector
      = (Returned (True, [\<lparr> conn = 2, isExternal = False, network = NetworkTCP \<rparr>]), s')"
    by (metis prod.collapse)
  have "sel_interruptGroup busy_selector = [\<lparr> conn = 1, isExternal = True, network = NetworkTCP \<rparr>,
      \<lparr> conn = 2, isExternal = False, network = NetworkTCP \<rparr>]"
    by (simp add: busy_selector_def)
  then have "mset (sel_interruptGroup s') = {#\<lparr> conn = 1, isExternal = True, network = NetworkTCP \<rparr>#}"
    using manual_selection_preserves [OF s'] by auto
  then show ?thesis using s' by simp
qed

section \<open>The URL test group\<close>

text \<open>
  C29: The URL test group picks within its tolerance when nothing failed. Suppose the last result of every
  member that carries the network, and of the outbound selected so far, has a positive delay that fits 16 bits
  together with the tolerance. A failed test, which is stored with the delay 65535, is thereby excluded when the
  tolerance is positive, and so is a delay of zero milliseconds; the next property shows what a failed test
  does. Then the outbound picked has a test, no tested member that carries the network is faster by more than
  the tolerance, and when nothing is tested the first member that carries the network is returned.
\<close>

theorem url_test_picks_fastest:
  assumes "\<forall>c h. (selected_for g net = Some c \<or> c \<in> set (ug_outbounds g) \<and> net \<in> set (Networks c))
      \<and> history_of as_group g c = Some h
      \<longrightarrow> 0 < Delay h \<and> uint (Delay h) + uint (ug_tolerance g) < 65536"
    and "URLTest_Select as_group g net = (choice, tested)"
  shows "(tested \<longrightarrow> (\<exists>best h. choice = Some best \<and> history_of as_group g best = Some h
      \<and> (selected_for g net = Some best \<or> best \<in> set (ug_outbounds g))
      \<and> (\<forall>c \<in> set (ug_outbounds g). \<forall>hc. net \<in> set (Networks c) \<and> history_of as_group g c = Some hc
          \<longrightarrow> uint (Delay h) \<le> uint (Delay hc) + uint (ug_tolerance g))))
    \<and> (\<not> tested \<longrightarrow> choice = find (\<lambda>c. net \<in> set (Networks c)) (ug_outbounds g)
      \<and> (\<forall>c \<in> set (ug_outbounds g). net \<in> set (Networks c) \<longrightarrow> history_of as_group g c = None))"
proof -
  let ?acc = "fold (url_select_step as_group g net) (ug_outbounds g) (url_select_start as_group g net)"
  have usable: "\<forall>c. selected_for g net = Some c \<longrightarrow> usable_delay as_group g c"
    "\<forall>c \<in> set (ug_outbounds g). net \<in> set (Networks c) \<longrightarrow> usable_delay as_group g c"
    using assms(1) unfolding usable_delay_def by blast+
  have best: "best_so_far as_group g net (rev (ug_outbounds g)) ?acc"
    using select_loop_best [OF usable(2) select_start_best [OF usable(1)]] by simp
  have source: "fst ?acc = Some c \<Longrightarrow> selected_for g net = Some c \<or> c \<in> set (ug_outbounds g)" for c
    by (rule select_source)
  show ?thesis
  proof (cases "fst ?acc")
    case None
    then have "choice = find (\<lambda>c. net \<in> set (Networks c)) (ug_outbounds g)" "\<not> tested"
      using assms(2) by (auto simp: URLTest_Select_def split: prod.splits option.splits)
    moreover have "history_of as_group g c = None" if "c \<in> set (ug_outbounds g)" "net \<in> set (Networks c)" for c
      using best that None unfolding best_so_far_def by (cases "history_of as_group g c") auto
    ultimately show ?thesis by blast
  next
    case (Some c)
    then have "choice = Some c" "tested"
      using assms(2) by (auto simp: URLTest_Select_def split: prod.splits option.splits)
    moreover obtain h where "history_of as_group g c = Some h" "Delay h = snd ?acc"
      using best Some unfolding best_so_far_def by blast
    ultimately show ?thesis
      using best Some source [OF Some] unfolding best_so_far_def by auto
  qed
qed

definition url_group :: "u16 \<Rightarrow> u16 \<Rightarrow> nat url_test_group" where
  "url_group x y = \<lparr> ug_outbounds = [server ''a'', server ''b''], ug_interval = minutes 3, ug_tolerance = 50,
     ug_idleTimeout = minutes 30, ug_history = [(''a'', Some (zero_history\<lparr> Delay := x \<rparr>)),
       (''b'', Some (zero_history\<lparr> Delay := y \<rparr>))], ug_checking = False,
     ug_selectedOutboundTCP = None, ug_selectedOutboundUDP = None, ug_interruptGroup = [],
     ug_interruptExternalConnections = True, ug_started = True, ug_ticker = False, ug_lastActive = 0, ug_closed = False \<rparr>"

theorem url_test_picks_fastest_witness:
  "URLTest_Select (\<lambda>_. None) (url_group 300 90) NetworkTCP = (Some (server ''b''), True)
    \<and> (\<exists>h. history_of (\<lambda>_. None) (url_group 300 90) (server ''b'') = Some h \<and> uint (Delay h) \<le> 140)"
proof -
  have "\<forall>c h. (selected_for (url_group 300 90) NetworkTCP = Some c \<or> c \<in> set (ug_outbounds (url_group 300 90))
      \<and> NetworkTCP \<in> set (Networks c)) \<and> history_of (\<lambda>_. None) (url_group 300 90) c = Some h
      \<longrightarrow> 0 < Delay h \<and> uint (Delay h) + uint (ug_tolerance (url_group 300 90)) < 65536"
    by (auto simp: history_of_def LoadURLTestHistory_def RealTag_def url_group_def pget_def)
  moreover have run: "URLTest_Select (\<lambda>_. None) (url_group 300 90) NetworkTCP = (Some (server ''b''), True)"
    by code_simp
  ultimately obtain h where h: "history_of (\<lambda>_. None) (url_group 300 90) (server ''b'') = Some h"
    "\<forall>c \<in> set (ug_outbounds (url_group 300 90)). \<forall>hc. NetworkTCP \<in> set (Networks c)
        \<and> history_of (\<lambda>_. None) (url_group 300 90) c = Some hc
      \<longrightarrow> uint (Delay h) \<le> uint (Delay hc) + uint (ug_tolerance (url_group 300 90))"
    using url_test_picks_fastest by blast
  have "uint (Delay h) \<le> 140"
    using h(2) by (auto simp: history_of_def LoadURLTestHistory_def RealTag_def url_group_def pget_def server_def)
  then show ?thesis using run h by blast
qed

text \<open>
  C30: With 16 bits the sum wraps for a server that failed: its test is stored with the largest delay, the
  largest delay plus a tolerance is the tolerance minus one, so a failed server at the end of the list
  replaces the working servers before it whenever their delays are at least the tolerance, and the update
  check switches the group to it.
\<close>

theorem failed_server_replaces_working:
  assumes "ug_outbounds g = working @ [failed]" and "net \<in> set (Networks failed)"
    and "history_of as_group g failed = Some (NewURLTestHistory now 0 (Some err) 0)" and "0 < ug_tolerance g"
    and "\<forall>out h. (out \<in> set working \<or> selected_for g net = Some out) \<and> history_of as_group g out = Some h
      \<longrightarrow> ug_tolerance g \<le> Delay h"
  shows "URLTest_Select as_group g net = (Some failed, True)
    \<and> (net = NetworkTCP \<longrightarrow> ug_selectedOutboundTCP (snd (performUpdateCheck as_group g)) = Some failed)"
proof -
  let ?start = "fold (url_select_step as_group g net) working (url_select_start as_group g net)"
  have "snd ?start = 0 \<or> 65535 + ug_tolerance g < snd ?start"
    using select_known [of as_group g net working] assms(5) wrapped_delay [OF assms(4)] by fastforce
  then have "url_select_step as_group g net failed ?start = (Some failed, 65535)"
    using assms(2,3) by (auto simp: url_select_step_def split: prod.splits)
  then have choice: "URLTest_Select as_group g net = (Some failed, True)"
    by (simp add: URLTest_Select_def assms(1))
  then show ?thesis
    by (auto simp: performUpdateCheck_def update_network_def Let_def split_def)
qed

theorem failed_server_replaces_working_witness:
  "ug_selectedOutboundTCP (snd (performUpdateCheck (\<lambda>_. None) ((url_group 90 90)\<lparr> ug_history := [(''a'', Some (zero_history\<lparr> Delay := 90, Success := True \<rparr>)),
     (''b'', Some (NewURLTestHistory clock 0 (Some (plain_error ''EOF'')) 0))] \<rparr>))) = Some (server ''b'')"
proof (rule failed_server_replaces_working [where working = "[server ''a'']" and net = NetworkTCP, THEN conjunct2, THEN mp])
qed (auto simp: url_group_def server_def history_of_def LoadURLTestHistory_def RealTag_def pget_def selected_for_def
    split: if_splits)

section \<open>The broadcaster\<close>

text \<open>
  C31: The broadcaster never panics and never leaks an open channel: however subscriptions, closing and
  publishing interleave, no channel is closed twice, written to after its close or added to a nil map; a
  channel is open only while it is subscribed, so that after the context ended and the watcher ran all are
  closed; no buffer exceeds its capacity; and while the context lives a published event is appended to
  every subscribed channel with room and changes no other.
\<close>

theorem broadcaster_never_panics:
  assumes "broadcast_reachable r"
  shows "\<exists>b. r = Returned b \<and> (swept b \<longrightarrow> (\<forall>ch < length (chans b). shut_down (chans b ! ch)))
    \<and> (\<forall>ch < length (chans b). \<not> shut_down (chans b ! ch) \<longrightarrow> (\<exists>s. subs b = Some s \<and> ch \<in> set s))
    \<and> (\<forall>ch < length (chans b). length (buffer (chans b ! ch)) \<le> capacity (chans b ! ch))
    \<and> (\<not> ended b \<longrightarrow> (\<forall>e stop. \<exists>b'. Publish e stop b = Returned b' \<and> (\<forall>ch < length (chans b).
        buffer (chans b' ! ch) = (if \<not> shut_down (chans b ! ch) \<and> length (buffer (chans b ! ch)) < capacity (chans b ! ch)
          then buffer (chans b ! ch) @ [e] else buffer (chans b ! ch)))))"
proof -
  obtain b where b: "r = Returned b" and ok: "broadcaster_ok b"
    using broadcast_reachable_ok [OF assms] by blast
  have "\<exists>b'. Publish e stop b = Returned b' \<and> (\<forall>ch < length (chans b).
      buffer (chans b' ! ch) = (if \<not> shut_down (chans b ! ch) \<and> length (buffer (chans b ! ch)) < capacity (chans b ! ch)
        then buffer (chans b ! ch) @ [e] else buffer (chans b ! ch)))" if live: "\<not> ended b" for e stop
  proof -
    obtain s where s: "subs b = Some s"
      using ok live unfolding broadcaster_ok_def by (cases "subs b") auto
    have subscribed: "distinct s" "\<forall>ch \<in> set s. ch < length (chans b) \<and> \<not> shut_down (chans b ! ch)"
      "\<And>ch. ch < length (chans b) \<Longrightarrow> \<not> shut_down (chans b ! ch) \<Longrightarrow> ch \<in> set s"
      using ok s unfolding broadcaster_ok_def by auto
    obtain b' where b': "publish_loop e stop s b = Returned b'"
      using publish_loop_ok [OF ok subscribed(1,2)] by blast
    have "buffer (chans b' ! ch) = (if \<not> shut_down (chans b ! ch) \<and> length (buffer (chans b ! ch)) < capacity (chans b ! ch)
        then buffer (chans b ! ch) @ [e] else buffer (chans b ! ch))" if "ch < length (chans b)" for ch
    proof (cases "ch \<in> set s")
      case True
      moreover have "\<not> shut_down (chans b ! ch)" "\<forall>c \<in> set s. c < length (chans b)"
        using subscribed(2) True by blast+
      ultimately show ?thesis
        using publish_loop_delivers [OF b' subscribed(1) _ live] by simp
    next
      case False
      then have "shut_down (chans b ! ch)"
        using subscribed(3) that by blast
      then show ?thesis
        using publish_loop_other [OF b' False] by simp
    qed
    then show ?thesis using b' by (simp add: Publish_def s)
  qed
  moreover have "swept b \<longrightarrow> (\<forall>ch < length (chans b). shut_down (chans b ! ch))"
    using ok unfolding broadcaster_ok_def by (metis option.distinct(1))
  moreover have "\<forall>ch < length (chans b). \<not> shut_down (chans b ! ch) \<longrightarrow> (\<exists>s. subs b = Some s \<and> ch \<in> set s)"
    "\<forall>ch < length (chans b). length (buffer (chans b ! ch)) \<le> capacity (chans b ! ch)"
    using ok by (simp_all add: broadcaster_ok_def)
  ultimately show ?thesis using b by blast
qed

definition one_subscriber :: "nat broadcaster" where
  "one_subscriber = \<lparr> chans = [\<lparr> capacity = 1, buffer = [], shut_down = False \<rparr>], subs = Some [0],
     ended = False, swept = False \<rparr>"

theorem broadcaster_never_panics_witness:
  "\<exists>b'. Publish 7 (\<lambda>_. True) one_subscriber = Returned b' \<and> buffer (chans b' ! 0) = [7]"
proof -
  have "broadcast_reachable (and_then (Subscribe 1 NewBroadcaster) (\<lambda>(ch, b). Returned (b :: nat broadcaster)))"
    by (rule broadcast_reachable.stepped [OF broadcast_reachable.created broadcast_step.subscribe])
  moreover have "and_then (Subscribe 1 NewBroadcaster) (\<lambda>(ch, b). Returned b) = Returned one_subscriber"
    by (simp add: Subscribe_def NewBroadcaster_def one_subscriber_def)
  ultimately have "broadcast_reachable (Returned one_subscriber)"
    by (simp only:)
  from broadcaster_never_panics [OF this] obtain b' where "Publish 7 (\<lambda>_. True) one_subscriber = Returned b'"
    "buffer (chans b' ! 0) = [7]"
    by (auto simp: one_subscriber_def)
  then show ?thesis by blast
qed

end
