(* ===== verification/Config_Rules.thy ===== *)
theory Config_Rules
  imports Go_Sort Go_Strings IPv6_Gate
begin

text \<open>
  The rules \<open>v2/config/builder.go\<close> and \<open>managed_ru_rule_sets.go\<close> write into the configuration of the core:
  user rules, the policies of the Russia preset, and \<open>setRoutingOptions\<close>, which puts all of them in order.
  A list field is nil when empty; the fields the builder never sets are left out of the records. Tags are
  the UTF-8 bytes of the sources.
\<close>

section \<open>Tags\<close>

definition hidden :: "string \<Rightarrow> string" where
  "hidden s = s @ '' '' @ [CHR 0xC2, CHR 0xA7] @ ''hide'' @ [CHR 0xC2, CHR 0xA7]"

definition OutboundDirectTag :: string where "OutboundDirectTag = hidden ''direct''"
definition OutboundDirectFragmentTag :: string where "OutboundDirectFragmentTag = hidden ''direct-fragment''"
definition OutboundBypassTag :: string where "OutboundBypassTag = hidden ''bypass''"
definition OutboundDNSTag :: string where "OutboundDNSTag = hidden ''dns-out''"
definition OutboundSelectTag :: string where "OutboundSelectTag = ''select''"
definition OutboundURLTestTag :: string where "OutboundURLTestTag = ''lowest''"
definition OutboundRoundRobinTag :: string where "OutboundRoundRobinTag = ''balance''"
definition WARPConfigTag :: string where
  "WARPConfigTag = [CHR 0xF0, CHR 0x9F, CHR 0x94, CHR 0x92] @ '' WARP''"

definition DNSRemoteNoWarpTag :: string where "DNSRemoteNoWarpTag = ''dns-remote-no-warp''"
definition DNSFakeTag :: string where "DNSFakeTag = ''dns-fake''"
definition DNSMultiDirectTag :: string where "DNSMultiDirectTag = ''dns-direct''"
definition DNSMultiRemoteTag :: string where "DNSMultiRemoteTag = ''dns-remote''"

section \<open>Rules\<close>

record raw_rule =
  rr_Network :: "string list"
  rr_Protocol :: "string list"
  rr_Domain :: "string list"
  rr_DomainSuffix :: "string list"
  rr_DomainKeyword :: "string list"
  rr_DomainRegex :: "string list"
  rr_SourceIPCIDR :: "string list"
  rr_IPCIDR :: "string list"
  rr_IPIsPrivate :: bool
  rr_SourcePortRange :: "string list"
  rr_PortRange :: "string list"
  rr_ProcessName :: "string list"
  rr_ProcessPath :: "string list"
  rr_PackageName :: "string list"
  rr_RuleSet :: "string list"

definition no_conditions :: raw_rule where
  "no_conditions = \<lparr> rr_Network = [], rr_Protocol = [], rr_Domain = [], rr_DomainSuffix = [],
     rr_DomainKeyword = [], rr_DomainRegex = [], rr_SourceIPCIDR = [], rr_IPCIDR = [],
     rr_IPIsPrivate = False, rr_SourcePortRange = [], rr_PortRange = [], rr_ProcessName = [],
     rr_ProcessPath = [], rr_PackageName = [], rr_RuleSet = [] \<rparr>"

text \<open>\<open>NoAction\<close> is the zero value; \<open>Reject\<close> has the default method.\<close>

datatype rule_action = NoAction | RouteTo string | Reject | Sniff | HijackDNS

record route_rule =
  rule_raw :: raw_rule
  rule_action :: rule_action

definition DefaultRule_IsValid :: "route_rule \<Rightarrow> bool" where
  "DefaultRule_IsValid r \<longleftrightarrow> r \<noteq> \<lparr> rule_raw = no_conditions, rule_action = NoAction \<rparr>"

record raw_dns_rule =
  dr_QueryType :: "string list"
  dr_Domain :: "string list"
  dr_DomainSuffix :: "string list"
  dr_DomainKeyword :: "string list"
  dr_DomainRegex :: "string list"
  dr_RuleSet :: "string list"

definition any_query :: raw_dns_rule where
  "any_query = \<lparr> dr_QueryType = [], dr_Domain = [], dr_DomainSuffix = [], dr_DomainKeyword = [],
     dr_DomainRegex = [], dr_RuleSet = [] \<rparr>"

record dns_route =
  dns_server :: string
  dns_strategy :: domain_strategy
  dns_rewriteTTL :: "nat option"
  dns_disableCache :: bool
  dns_bypassIfFailed :: bool

datatype dns_action = DNSNoAction | DNSRoute dns_route | DNSRefused

record dns_rule =
  dns_raw :: raw_dns_rule
  dns_act :: dns_action

definition DefaultDNSRule_IsValid :: "dns_rule \<Rightarrow> bool" where
  "DefaultDNSRule_IsValid r \<longleftrightarrow> r \<noteq> \<lparr> dns_raw = any_query, dns_act = DNSNoAction \<rparr>"

definition DEFAULT_DNS_TTL :: nat where "DEFAULT_DNS_TTL = 60 * 60 * 24"

definition dns_to :: "string \<Rightarrow> domain_strategy \<Rightarrow> bool \<Rightarrow> dns_action" where
  "dns_to server strategy bypass = DNSRoute \<lparr> dns_server = server, dns_strategy = strategy,
     dns_rewriteTTL = Some DEFAULT_DNS_TTL, dns_disableCache = False, dns_bypassIfFailed = bypass \<rparr>"

record headless_rule =
  hr_Domain :: "string list"
  hr_DomainSuffix :: "string list"
  hr_IPCIDR :: "string list"

text \<open>A local and a remote set are binary; a remote one is fetched over the selector every five days.\<close>

datatype rule_set = InlineSet string "headless_rule list" | LocalSet string string | RemoteSet string string

fun set_tag :: "rule_set \<Rightarrow> string" where
  "set_tag (InlineSet t _) = t" | "set_tag (LocalSet t _) = t" | "set_tag (RemoteSet t _) = t"

section \<open>User rules\<close>

datatype outbound_choice = Outbound_proxy | Outbound_direct | Outbound_direct_with_fragment | Outbound_block
datatype network_choice = Network_all | Network_tcp | Network_udp
datatype protocol_choice = Protocol_tls | Protocol_http | Protocol_quic | Protocol_stun | Protocol_dns
  | Protocol_bittorrent

record user_rule =
  ListOrder :: "32 word"
  Enabled :: bool
  ur_Outbound :: outbound_choice
  RuleSets :: "string list"
  PackageNames :: "string list"
  ProcessNames :: "string list"
  ProcessPaths :: "string list"
  ur_Network :: network_choice
  PortRanges :: "string list"
  SourcePortRanges :: "string list"
  Protocols :: "protocol_choice list"
  IpCidrs :: "string list"
  SourceIpCidrs :: "string list"
  Domains :: "string list"
  DomainSuffixes :: "string list"
  DomainKeywords :: "string list"
  DomainRegexes :: "string list"

text \<open>The fields of \<open>HiddifyOptions\<close> the routing reads.\<close>

record routing_options =
  Region :: string
  BlockAds :: bool
  ho_Rules :: "user_rule list"
  ProfileRules :: "user_rule list"
  BypassLAN :: bool
  BlockQuic :: bool
  EnableFakeDNS :: bool
  RemoteDnsDomainStrategy :: domain_strategy
  DirectDnsDomainStrategy :: domain_strategy
  IPv6Mode :: domain_strategy
  ConnectionTestUrls :: "string list"

fun toRouteActionForUserRule :: "string \<Rightarrow> outbound_choice \<Rightarrow> rule_action" where
  "toRouteActionForUserRule main Outbound_direct = RouteTo OutboundDirectTag"
| "toRouteActionForUserRule main Outbound_direct_with_fragment = RouteTo OutboundDirectFragmentTag"
| "toRouteActionForUserRule main Outbound_block = Reject"
| "toRouteActionForUserRule main Outbound_proxy = RouteTo main"

fun toProtocolString :: "protocol_choice \<Rightarrow> string" where
  "toProtocolString Protocol_tls = ''tls''"
| "toProtocolString Protocol_http = ''http''"
| "toProtocolString Protocol_quic = ''quic''"
| "toProtocolString Protocol_stun = ''stun''"
| "toProtocolString Protocol_dns = ''dns''"
| "toProtocolString Protocol_bittorrent = ''bittorrent''"

fun toNetworkString :: "network_choice \<Rightarrow> string" where
  "toNetworkString Network_tcp = ''tcp''"
| "toNetworkString Network_udp = ''udp''"
| "toNetworkString Network_all = []"

definition orderedEnabledUserRules :: "user_rule list \<Rightarrow> user_rule list" where
  "orderedEnabledUserRules rules =
     slice_stable (\<lambda>a b. ListOrder a < ListOrder b) (filter Enabled rules)"

definition user_raw_rule :: "user_rule \<Rightarrow> raw_rule" where
  "user_raw_rule r = no_conditions\<lparr> rr_RuleSet := RuleSets r, rr_PackageName := PackageNames r,
     rr_ProcessName := ProcessNames r, rr_ProcessPath := ProcessPaths r, rr_PortRange := PortRanges r,
     rr_SourcePortRange := SourcePortRanges r, rr_IPCIDR := IpCidrs r, rr_SourceIPCIDR := SourceIpCidrs r,
     rr_Domain := Domains r, rr_DomainSuffix := DomainSuffixes r, rr_DomainKeyword := DomainKeywords r,
     rr_DomainRegex := DomainRegexes r,
     rr_Network := (let network = toNetworkString (ur_Network r) in if network \<noteq> [] then [network] else []),
     rr_Protocol := filter (\<lambda>p. p \<noteq> []) (map toProtocolString (Protocols r)) \<rparr>"

definition buildUserRouteRules :: "string \<Rightarrow> user_rule list \<Rightarrow> route_rule list" where
  "buildUserRouteRules main rules =
     filter DefaultRule_IsValid (map (\<lambda>r. \<lparr> rule_raw = user_raw_rule r,
       rule_action = toRouteActionForUserRule main (ur_Outbound r) \<rparr>) (orderedEnabledUserRules rules))"

definition user_dns_action :: "routing_options \<Rightarrow> outbound_choice \<Rightarrow> dns_action" where
  "user_dns_action hopt choice =
     (case choice of
        Outbound_direct \<Rightarrow> dns_to DNSMultiDirectTag (DirectDnsDomainStrategy hopt) True
      | Outbound_direct_with_fragment \<Rightarrow> dns_to DNSMultiDirectTag (DirectDnsDomainStrategy hopt) True
      | Outbound_block \<Rightarrow> DNSRefused
      | Outbound_proxy \<Rightarrow> dns_to DNSMultiRemoteTag (RemoteDnsDomainStrategy hopt) True)"

definition buildUserDNSRules :: "user_rule list \<Rightarrow> routing_options \<Rightarrow> dns_rule list" where
  "buildUserDNSRules rules hopt =
     map (\<lambda>r. \<lparr> dns_raw = any_query\<lparr> dr_RuleSet := RuleSets r, dr_Domain := Domains r,
             dr_DomainSuffix := DomainSuffixes r, dr_DomainKeyword := DomainKeywords r,
             dr_DomainRegex := DomainRegexes r \<rparr>,
           dns_act = user_dns_action hopt (ur_Outbound r) \<rparr>)
       (filter (\<lambda>r. \<not> (RuleSets r = [] \<and> Domains r = [] \<and> DomainSuffixes r = []
          \<and> DomainKeywords r = [] \<and> DomainRegexes r = [])) (orderedEnabledUserRules rules))"

section \<open>The parts of a policy\<close>

text \<open>DNS rules, route rules and rule sets, in the order they are appended.\<close>

type_synonym policy = "dns_rule list \<times> route_rule list \<times> rule_set list"

definition joined :: "policy \<Rightarrow> policy \<Rightarrow> policy" where
  "joined p q = (case (p, q) of ((d, r, s), (d', r', s')) \<Rightarrow> (d @ d', r @ r', s @ s'))"

definition ruleset_dns :: "string list \<Rightarrow> dns_action \<Rightarrow> dns_rule" where
  "ruleset_dns sets act = \<lparr> dns_raw = any_query\<lparr> dr_RuleSet := sets \<rparr>, dns_act = act \<rparr>"

definition ruleset_route :: "string list \<Rightarrow> rule_action \<Rightarrow> route_rule" where
  "ruleset_route sets act = \<lparr> rule_raw = no_conditions\<lparr> rr_RuleSet := sets \<rparr>, rule_action = act \<rparr>"

text \<open>\<open>baseline\<close> is the build constant \<open>ruRemoteDNSBaseline\<close>.\<close>

definition ruDestinationDNSPolicy :: "bool \<Rightarrow> routing_options \<Rightarrow> string \<times> domain_strategy" where
  "ruDestinationDNSPolicy baseline hopt =
     (let strategy = (if baseline then RemoteDnsDomainStrategy hopt else DirectDnsDomainStrategy hopt);
          strategy = (if IPv6Mode hopt = DomainStrategyIPv4Only \<or> IPv6Mode hopt = DomainStrategyIPv6Only
            then IPv6Mode hopt else strategy)
      in (if baseline then DNSMultiRemoteTag else DNSMultiDirectTag, strategy))"

definition fakeDNSEnabled :: "routing_options \<Rightarrow> bool" where
  "fakeDNSEnabled hopt \<longleftrightarrow> EnableFakeDNS hopt \<and> Region hopt \<noteq> ''ru''"

text \<open>\<open>ntp\<close> is the server of an enabled NTP service.\<close>

definition appendInternalDirectRoutes :: "string option \<Rightarrow> routing_options \<Rightarrow> policy" where
  "appendInternalDirectRoutes ntp hopt =
     (case ntp of
        None \<Rightarrow> ([], [], [])
      | Some server \<Rightarrow>
          if server = [] then ([], [], [])
          else ([\<lparr> dns_raw = any_query\<lparr> dr_Domain := [server] \<rparr>,
                   dns_act = dns_to DNSMultiDirectTag (DirectDnsDomainStrategy hopt) True \<rparr>],
                [\<lparr> rule_raw = no_conditions\<lparr> rr_Domain := [server] \<rparr>, rule_action = RouteTo OutboundDirectTag \<rparr>], []))"

definition BundledRUDomainsRuleSetTag :: string where "BundledRUDomainsRuleSetTag = ''zapret-ru-domains''"
definition BundledRUIPRuleSetTag :: string where "BundledRUIPRuleSetTag = ''zapret-ru-ip''"
definition BundledRUDomainsRuleSetPath :: string where
  "BundledRUDomainsRuleSetPath = ''data/rule-sets/zapret-ru-domains.srs''"
definition BundledRUIPRuleSetPath :: string where
  "BundledRUIPRuleSetPath = ''data/rule-sets/zapret-ru-ip.srs''"

definition appendBundledRUDestinationRouting :: "bool \<Rightarrow> routing_options \<Rightarrow> policy" where
  "appendBundledRUDestinationRouting baseline hopt =
     (let (ruDNSServer, ruDNSStrategy) = ruDestinationDNSPolicy baseline hopt
      in ([ruleset_dns [BundledRUDomainsRuleSetTag] (dns_to ruDNSServer ruDNSStrategy True)],
          [ruleset_route [BundledRUDomainsRuleSetTag] (RouteTo OutboundDirectTag),
           ruleset_route [BundledRUIPRuleSetTag] (RouteTo OutboundDirectTag)],
          [LocalSet BundledRUDomainsRuleSetTag BundledRUDomainsRuleSetPath,
           LocalSet BundledRUIPRuleSetTag BundledRUIPRuleSetPath]))"

record service_policy =
  ruleSetTag :: string
  domainSuffixes :: "string list"
  direct :: bool

definition appendRUServiceRoutingPolicy :: "string \<Rightarrow> bool \<Rightarrow> routing_options \<Rightarrow> service_policy \<Rightarrow> policy" where
  "appendRUServiceRoutingPolicy main baseline hopt policy =
     (let (dnsServer, dnsStrategy) = (if direct policy then ruDestinationDNSPolicy baseline hopt
            else (DNSMultiRemoteTag, RemoteDnsDomainStrategy hopt));
          outbound = (if direct policy then OutboundDirectTag else main)
      in ([ruleset_dns [ruleSetTag policy] (dns_to dnsServer dnsStrategy True)],
          [ruleset_route [ruleSetTag policy] (RouteTo outbound)],
          [InlineSet (ruleSetTag policy)
             [\<lparr> hr_Domain = [], hr_DomainSuffix = domainSuffixes policy, hr_IPCIDR = [] \<rparr>]]))"

definition ru_yandex :: service_policy where
  "ru_yandex = \<lparr> ruleSetTag = ''zeon-ru-yandex'',
     domainSuffixes = [''ya.ru'', ''yandex.ru'', ''yandex.net'', ''yastatic.net''], direct = True \<rparr>"

definition ru_wildberries :: service_policy where
  "ru_wildberries = \<lparr> ruleSetTag = ''zeon-ru-wildberries'',
     domainSuffixes = [''wildberries.ru'', ''wb.ru'', ''wbbasket.ru'', ''wbstatic.net'', ''wbcontent.net'',
       ''rwb.ru'', ''wibes.ru''], direct = True \<rparr>"

end
