(* ===== verification/Managed_Rules.thy ===== *)
theory Managed_Rules
  imports Config_Rules Go_Sha256 "HOL-Library.Char_ord" "HOL-Library.List_Lexorder"
begin

text \<open>
  \<open>v2/config/managed_ru_rule_sets.go\<close>: the bundle of rule sets the administrator publishes, how it is read
  and validated, and the rules it adds. Contents are lists of bytes. The decoders of JSON and base64,
  the canonical JSON of a payload, the parsers of a rule-set file and of an IP prefix, \<open>strings.ToLower\<close>
  and \<open>filepath.Join\<close> are fields of a codec; SHA-256 is the one of \<open>Go_Sha256\<close>.
\<close>

section \<open>The bundle\<close>

record rule_set_metadata =
  md_ID :: string
  md_Version :: string
  md_Source :: string
  md_GeneratedAt :: string
  md_ExpiresAt :: string
  md_Checksum :: string
  md_FormatVersion :: int
  md_DomainCount :: int
  md_CIDRCount :: int
  md_Priority :: int
  md_Action :: string
  md_ApplicablePreset :: string
  md_Format :: string
  md_Size :: int

record rule_set_payload =
  pl_DomainSuffix :: "string list"
  pl_IPCIDR :: "string list"
  pl_SRSBase64 :: string

record managed_rule_set =
  Metadata :: rule_set_metadata
  Payload :: rule_set_payload
  ArtifactPath :: string

record bundle_envelope =
  en_FormatVersion :: int
  en_Generation :: int
  en_Payload :: string
  en_Checksum :: string

record rule_set_bundle =
  bu_GeneratedAt :: string
  bu_ExpiresAt :: string
  bu_RuleSets :: "managed_rule_set list"

datatype file_read = NotExist | Unreadable | Content "u8 list"

record bundle_codec =
  read_file :: "string \<Rightarrow> file_read"
  json_envelope :: "u8 list \<Rightarrow> bundle_envelope option"
  json_bundle :: "u8 list \<Rightarrow> rule_set_bundle option"
  json_payload :: "rule_set_payload \<Rightarrow> u8 list option"
  raw_url_base64 :: "string \<Rightarrow> u8 list option"
  url_base64 :: "string \<Rightarrow> u8 list option"
  std_base64 :: "string \<Rightarrow> u8 list option"
  std_base64_encode :: "u8 list \<Rightarrow> string"
  srs_ok :: "u8 list \<Rightarrow> bool"
  prefix_ok :: "string \<Rightarrow> bool"
  to_lower :: "string \<Rightarrow> string"
  bundle_dir :: "string \<Rightarrow> string"
  artifact_path :: "string \<Rightarrow> string \<Rightarrow> string"

datatype bundle_error = ReadFailed | InvalidSize | BadEnvelope | UnsupportedEnvelope | BadPayload
  | BundleChecksum | BadBundle | IncompleteBundle | TooManySets | InvalidID | IncompleteMetadata
  | UnsupportedVersion | UnsupportedPreset | UnsupportedFormat | UnsupportedAction | CountMismatch
  | InvalidDomain string | InvalidCIDR string | InvalidAds | AdsBase64 | AdsSize | AdsChecksum | AdsSRS
  | ArtifactUnreadable | ArtifactMismatch | ArtifactSRS | UnexpectedSRS | MarshalFailed | PayloadChecksum
  | DuplicateID string | TooManyEntries | ConflictingActions string

definition managedRUMaxBundleBytes :: nat where "managedRUMaxBundleBytes = 4 * 2 ^ 20"
definition managedRUMaxRuleSets :: nat where "managedRUMaxRuleSets = 32"
definition managedRUMaxEntries :: int where "managedRUMaxEntries = 100000"

section \<open>Text\<close>

definition hex_digit :: "nat \<Rightarrow> char" where
  "hex_digit n = char_of (if n < 10 then 48 + n else 87 + n)"

definition hex_encode :: "u8 list \<Rightarrow> string" where
  "hex_encode bs = concat (map (\<lambda>b. [hex_digit (unat b div 16), hex_digit (unat b mod 16)]) bs)"

definition ascii_lower :: "string \<Rightarrow> string" where
  "ascii_lower = map (\<lambda>c. if 65 \<le> byte c \<and> byte c \<le> 90 then char_of (byte c + 32) else c)"

text \<open>\<open>strings.EqualFold\<close> where the first string is hexadecimal: no digit folds outside ASCII.\<close>

definition equal_fold :: "string \<Rightarrow> string \<Rightarrow> bool" where
  "equal_fold digits s \<longleftrightarrow> ascii_lower s = digits"

lemma ascii_lower_hex: "ascii_lower (hex_encode bs) = hex_encode bs"
proof -
  have digit: "ascii_lower [hex_digit n] = [hex_digit n]" if "n < 16" for n
  proof -
    have "byte (hex_digit n) = (if n < 10 then 48 + n else 87 + n)"
      using that by (simp add: hex_digit_def)
    then show ?thesis
      using that by (auto simp: ascii_lower_def)
  qed
  have nibbles: "unat b div 16 < 16 \<and> unat b mod 16 < 16" for b :: u8
  proof -
    have "unat b < 256" using unsigned_less [of b] by simp
    then show ?thesis by auto
  qed
  have "ascii_lower [c] = [c]" if mem: "c \<in> set (hex_encode bs)" for c
  proof -
    obtain b :: u8 where "c = hex_digit (unat b div 16) \<or> c = hex_digit (unat b mod 16)"
      using mem by (auto simp: hex_encode_def)
    then show ?thesis using digit nibbles by metis
  qed
  then show ?thesis
    unfolding ascii_lower_def by (intro map_idI) simp
qed

definition id_start :: "char \<Rightarrow> bool" where
  "id_start c \<longleftrightarrow> 97 \<le> byte c \<and> byte c \<le> 122 \<or> 48 \<le> byte c \<and> byte c \<le> 57"

definition id_matches :: "string \<Rightarrow> bool" where
  "id_matches s \<longleftrightarrow> s \<noteq> [] \<and> length s \<le> 64 \<and> id_start (hd s)
     \<and> list_all (\<lambda>c. id_start c \<or> c \<in> set ''._-'') (tl s)"

section \<open>Validation\<close>

definition decodeManagedRUPayload :: "bundle_codec \<Rightarrow> string \<Rightarrow> bundle_error + u8 list" where
  "decodeManagedRUPayload cd v =
     (case raw_url_base64 cd v of
        Some payload \<Rightarrow> Inr payload
      | None \<Rightarrow> (case url_base64 cd v of Some payload \<Rightarrow> Inr payload | None \<Rightarrow> Inl BadPayload))"

definition domain_ok :: "bundle_codec \<Rightarrow> string \<Rightarrow> bool" where
  "domain_ok cd domain \<longleftrightarrow> domain \<noteq> [] \<and> domain = TrimSpace domain \<and> domain = to_lower cd domain
     \<and> \<not> str_contains ''://'' domain \<and> list_all (\<lambda>c. c \<notin> set '' /@'') domain
     \<and> hd domain \<noteq> CHR ''.'' \<and> last domain \<noteq> CHR ''.''"

text \<open>The branch of an SRS rule set: the artifact in the payload and its copy on the disk.\<close>

definition validate_ads :: "bundle_codec \<Rightarrow> string \<Rightarrow> managed_rule_set \<Rightarrow> bundle_error + managed_rule_set" where
  "validate_ads cd dir rs =
     (let md = Metadata rs; pl = Payload rs
      in if md_ID md \<noteq> ''ads'' \<or> md_Action md \<noteq> ''BLOCK'' \<or> md_ApplicablePreset md \<noteq> ''all''
            \<or> pl_DomainSuffix pl \<noteq> [] \<or> pl_IPCIDR pl \<noteq> [] \<or> pl_SRSBase64 pl = [] then Inl InvalidAds
         else case std_base64 cd (pl_SRSBase64 pl) of
           None \<Rightarrow> Inl AdsBase64
         | Some artifact \<Rightarrow>
             if std_base64_encode cd artifact \<noteq> pl_SRSBase64 pl then Inl AdsBase64
             else if md_Size md \<noteq> int (length artifact) then Inl AdsSize
             else if \<not> equal_fold (hex_encode (sha256 artifact)) (md_Checksum md) then Inl AdsChecksum
             else if \<not> srs_ok cd artifact then Inl AdsSRS
             else (let path = artifact_path cd dir (md_ID md @ ''-'' @ ascii_lower (md_Checksum md) @ ''.srs'')
                   in case read_file cd path of
                        Content stored \<Rightarrow>
                          if int (length stored) \<noteq> md_Size md \<or> sha256 stored \<noteq> sha256 artifact
                          then Inl ArtifactMismatch
                          else if \<not> srs_ok cd stored then Inl ArtifactSRS
                          else Inr (rs\<lparr> ArtifactPath := path \<rparr>)
                      | _ \<Rightarrow> Inl ArtifactUnreadable))"

definition validate_json :: "bundle_codec \<Rightarrow> managed_rule_set \<Rightarrow> bundle_error + managed_rule_set" where
  "validate_json cd rs =
     (if pl_SRSBase64 (Payload rs) \<noteq> [] then Inl UnexpectedSRS
      else case json_payload cd (Payload rs) of
        None \<Rightarrow> Inl MarshalFailed
      | Some canonical \<Rightarrow>
          if \<not> equal_fold (hex_encode (sha256 canonical)) (md_Checksum (Metadata rs)) then Inl PayloadChecksum
          else Inr rs)"

definition validateManagedRURuleSet :: "bundle_codec \<Rightarrow> string \<Rightarrow> managed_rule_set \<Rightarrow> bundle_error + managed_rule_set" where
  "validateManagedRURuleSet cd dir rs =
     (let md = Metadata rs; pl = Payload rs
      in if \<not> id_matches (md_ID md) then Inl InvalidID
         else if md_Version md = [] \<or> md_Source md = [] \<or> md_GeneratedAt md = [] \<or> md_ExpiresAt md = []
         then Inl IncompleteMetadata
         else if md_FormatVersion md \<noteq> 1 then Inl UnsupportedVersion
         else if md_ApplicablePreset md \<noteq> ''russia'' \<and> md_ApplicablePreset md \<noteq> ''all'' then Inl UnsupportedPreset
         else (let rs = (if md_Format md = [] then rs\<lparr> Metadata := md\<lparr> md_Format := ''json'' \<rparr> \<rparr> else rs);
                   md = Metadata rs
               in if md_Format md \<noteq> ''json'' \<and> md_Format md \<noteq> ''srs'' then Inl UnsupportedFormat
                  else if md_Action md \<notin> {''VPN'', ''DIRECT'', ''BLOCK''} then Inl UnsupportedAction
                  else if md_DomainCount md \<noteq> int (length (pl_DomainSuffix pl))
                    \<or> md_CIDRCount md \<noteq> int (length (pl_IPCIDR pl)) then Inl CountMismatch
                  else case find (\<lambda>d. \<not> domain_ok cd d) (pl_DomainSuffix pl) of
                    Some d \<Rightarrow> Inl (InvalidDomain d)
                  | None \<Rightarrow>
                      (case find (\<lambda>c. \<not> prefix_ok cd c) (pl_IPCIDR pl) of
                         Some c \<Rightarrow> Inl (InvalidCIDR c)
                       | None \<Rightarrow> if md_Format md = ''srs'' then validate_ads cd dir rs else validate_json cd rs)))"

definition recordManagedRUAction :: "(string, string) go_map \<Rightarrow> string \<Rightarrow> string \<Rightarrow> bundle_error + (string, string) go_map" where
  "recordManagedRUAction actions v act =
     (case map_of actions v of
        Some previous \<Rightarrow> if previous \<noteq> act then Inl (ConflictingActions v) else Inr (AList.update v act actions)
      | None \<Rightarrow> Inr (AList.update v act actions))"

fun record_all :: "string \<Rightarrow> string list \<Rightarrow> (string, string) go_map \<Rightarrow> bundle_error + (string, string) go_map" where
  "record_all act [] actions = Inr actions"
| "record_all act (v # vs) actions =
     (case recordManagedRUAction actions v act of
        Inl err \<Rightarrow> Inl err | Inr actions \<Rightarrow> record_all act vs actions)"

definition entry_names :: "managed_rule_set \<Rightarrow> string list" where
  "entry_names rs = map (\<lambda>d. ''domain:'' @ d) (pl_DomainSuffix (Payload rs))
     @ map (\<lambda>c. ''cidr:'' @ c) (pl_IPCIDR (Payload rs))"

text \<open>The loop of \<open>readManagedRURuleSets\<close>; the validated sets replace those of the bundle.\<close>

fun check_sets :: "bundle_codec \<Rightarrow> string \<Rightarrow> managed_rule_set list \<Rightarrow> int \<Rightarrow> string list
    \<Rightarrow> (string, string) go_map \<Rightarrow> bundle_error + managed_rule_set list" where
  "check_sets cd dir [] entries seenIDs entryActions = Inr []"
| "check_sets cd dir (rs # rest) entries seenIDs entryActions =
     (case validateManagedRURuleSet cd dir rs of
        Inl err \<Rightarrow> Inl err
      | Inr rs \<Rightarrow>
          if md_ID (Metadata rs) \<in> set seenIDs then Inl (DuplicateID (md_ID (Metadata rs)))
          else (let entries = entries + int (length (entry_names rs))
                in if entries > managedRUMaxEntries then Inl TooManyEntries
                   else case record_all (md_Action (Metadata rs)) (entry_names rs) entryActions of
                     Inl err \<Rightarrow> Inl err
                   | Inr entryActions \<Rightarrow>
                       (case check_sets cd dir rest entries (md_ID (Metadata rs) # seenIDs) entryActions of
                          Inl err \<Rightarrow> Inl err | Inr sets \<Rightarrow> Inr (rs # sets))))"

definition set_less :: "managed_rule_set \<Rightarrow> managed_rule_set \<Rightarrow> bool" where
  "set_less a b =
     (if md_Priority (Metadata a) \<noteq> md_Priority (Metadata b)
      then md_Priority (Metadata a) < md_Priority (Metadata b)
      else md_ID (Metadata a) < md_ID (Metadata b))"

definition readManagedRURuleSets :: "bundle_codec \<Rightarrow> string \<Rightarrow> bundle_error + managed_rule_set list" where
  "readManagedRURuleSets cd path =
     (case read_file cd path of
        NotExist \<Rightarrow> Inr []
      | Unreadable \<Rightarrow> Inl ReadFailed
      | Content content \<Rightarrow>
          if content = [] \<or> length content > managedRUMaxBundleBytes then Inl InvalidSize
          else case json_envelope cd content of
            None \<Rightarrow> Inl BadEnvelope
          | Some envelope \<Rightarrow>
              if en_FormatVersion envelope \<noteq> 1 \<or> en_Generation envelope < 0 then Inl UnsupportedEnvelope
              else case decodeManagedRUPayload cd (en_Payload envelope) of
                Inl err \<Rightarrow> Inl err
              | Inr payload \<Rightarrow>
                  if \<not> equal_fold (hex_encode (sha256 payload)) (en_Checksum envelope) then Inl BundleChecksum
                  else case json_bundle cd payload of
                    None \<Rightarrow> Inl BadBundle
                  | Some bundle \<Rightarrow>
                      if bu_GeneratedAt bundle = [] \<or> bu_ExpiresAt bundle = [] then Inl IncompleteBundle
                      else if length (bu_RuleSets bundle) > managedRUMaxRuleSets then Inl TooManySets
                      else case check_sets cd (bundle_dir cd path) (bu_RuleSets bundle) 0 [] [] of
                        Inl err \<Rightarrow> Inl err
                      | Inr sets \<Rightarrow> Inr (slice_stable set_less sets))"

section \<open>The rules of a bundle\<close>

definition managed_tag :: "string \<Rightarrow> string" where
  "managed_tag i = ''zeon-managed-'' @ i"

definition managedRUDNSRule :: "bool \<Rightarrow> routing_options \<Rightarrow> string \<Rightarrow> string \<Rightarrow> dns_rule" where
  "managedRUDNSRule baseline hopt t act = ruleset_dns [t]
     (if act = ''VPN'' then dns_to DNSMultiRemoteTag (RemoteDnsDomainStrategy hopt) False
      else if act = ''DIRECT'' then (let (server, strategy) = ruDestinationDNSPolicy baseline hopt
        in dns_to server strategy True)
      else if act = ''BLOCK'' then DNSRefused else DNSNoAction)"

definition managedRURouteRule :: "string \<Rightarrow> string \<Rightarrow> string \<Rightarrow> route_rule" where
  "managedRURouteRule main t act = ruleset_route [t]
     (if act = ''VPN'' then RouteTo main else if act = ''DIRECT'' then RouteTo OutboundDirectTag
      else if act = ''BLOCK'' then Reject else NoAction)"

definition managed_policy :: "string \<Rightarrow> bool \<Rightarrow> routing_options \<Rightarrow> managed_rule_set \<Rightarrow> policy" where
  "managed_policy main baseline hopt rs =
     (let md = Metadata rs; pl = Payload rs; t = managed_tag (md_ID md)
      in if md_Format md \<noteq> ''json'' \<or> md_ApplicablePreset md \<noteq> ''russia'' then ([], [], [])
         else if pl_DomainSuffix pl = [] \<and> pl_IPCIDR pl = [] then ([], [], [])
         else (if pl_DomainSuffix pl \<noteq> [] then [managedRUDNSRule baseline hopt t (md_Action md)] else [],
               [managedRURouteRule main t (md_Action md)],
               [InlineSet t
                 ((if pl_DomainSuffix pl \<noteq> []
                   then [\<lparr> hr_Domain = [], hr_DomainSuffix = pl_DomainSuffix pl, hr_IPCIDR = [] \<rparr>] else [])
                  @ (if pl_IPCIDR pl \<noteq> []
                   then [\<lparr> hr_Domain = [], hr_DomainSuffix = [], hr_IPCIDR = pl_IPCIDR pl \<rparr>] else []))]))"

fun appendManagedRURouting :: "string \<Rightarrow> bool \<Rightarrow> routing_options \<Rightarrow> managed_rule_set list \<Rightarrow> policy" where
  "appendManagedRURouting main baseline hopt [] = ([], [], [])"
| "appendManagedRURouting main baseline hopt (rs # rest) =
     joined (managed_policy main baseline hopt rs) (appendManagedRURouting main baseline hopt rest)"

text \<open>The tag of the rule set appended, empty for none.\<close>

definition appendManagedAdsRuleSet :: "managed_rule_set list \<Rightarrow> rule_set list \<times> string" where
  "appendManagedAdsRuleSet managed =
     (case find (\<lambda>rs. md_ID (Metadata rs) = ''ads'' \<and> md_Format (Metadata rs) = ''srs'' \<and> ArtifactPath rs \<noteq> []) managed of
        None \<Rightarrow> ([], [])
      | Some rs \<Rightarrow> ([LocalSet (managed_tag (md_ID (Metadata rs))) (ArtifactPath rs)], managed_tag (md_ID (Metadata rs))))"

text \<open>\<open>embedded\<close> holds the rules of the embedded file, \<open>None\<close> when it is missing or does not parse.\<close>

definition appendEmbeddedAdsRuleSet :: "headless_rule list option \<Rightarrow> rule_set list \<times> string" where
  "appendEmbeddedAdsRuleSet embedded =
     (case embedded of
        None \<Rightarrow> ([], [])
      | Some rules \<Rightarrow> if rules = [] then ([], []) else ([InlineSet ''zeon-embedded-ads'' rules], ''zeon-embedded-ads''))"

section \<open>What is accepted\<close>

lemma ranking_set_less: "ranking set_less"
  by standard (auto simp: set_less_def split: if_splits)

interpretation managed_sets: ranking set_less
  by (rule ranking_set_less)

text \<open>What validation establishes of one set.\<close>

definition set_ok :: "bundle_codec \<Rightarrow> managed_rule_set \<Rightarrow> bool" where
  "set_ok cd rs \<longleftrightarrow>
     id_matches (md_ID (Metadata rs)) \<and> md_Action (Metadata rs) \<in> {''VPN'', ''DIRECT'', ''BLOCK''} \<and>
     list_all (domain_ok cd) (pl_DomainSuffix (Payload rs)) \<and> list_all (prefix_ok cd) (pl_IPCIDR (Payload rs)) \<and>
     (md_Format (Metadata rs) = ''json'' \<and>
        (\<exists>canonical. json_payload cd (Payload rs) = Some canonical \<and>
           ascii_lower (md_Checksum (Metadata rs)) = hex_encode (sha256 canonical))
      \<or> md_Format (Metadata rs) = ''srs'' \<and> md_ID (Metadata rs) = ''ads'' \<and> md_Action (Metadata rs) = ''BLOCK'' \<and>
        (\<exists>stored. read_file cd (ArtifactPath rs) = Content stored \<and> srs_ok cd stored \<and>
           int (length stored) = md_Size (Metadata rs) \<and>
           ascii_lower (md_Checksum (Metadata rs)) = hex_encode (sha256 stored)))"

lemma find_none_all: "find (\<lambda>x. \<not> P x) xs = None \<Longrightarrow> list_all P xs"
  by (auto simp: find_None_iff list_all_iff)

lemma validate_ads_ok:
  assumes "validate_ads cd dir rs = Inr rs'"
  shows "\<exists>path stored. rs' = rs\<lparr> ArtifactPath := path \<rparr> \<and> md_ID (Metadata rs) = ''ads''
    \<and> md_Action (Metadata rs) = ''BLOCK'' \<and> read_file cd path = Content stored \<and> srs_ok cd stored
    \<and> int (length stored) = md_Size (Metadata rs)
    \<and> ascii_lower (md_Checksum (Metadata rs)) = hex_encode (sha256 stored)"
  using assms
  by (auto simp: validate_ads_def Let_def equal_fold_def split: if_splits option.splits file_read.splits)

lemma validate_json_ok:
  assumes "validate_json cd rs = Inr rs'"
  shows "rs' = rs \<and> (\<exists>canonical. json_payload cd (Payload rs) = Some canonical
    \<and> ascii_lower (md_Checksum (Metadata rs)) = hex_encode (sha256 canonical))"
  using assms by (auto simp: validate_json_def equal_fold_def split: if_splits option.splits)

lemma validate_ok:
  assumes "validateManagedRURuleSet cd dir rs = Inr rs'"
  shows "set_ok cd rs' \<and> md_ID (Metadata rs') = md_ID (Metadata rs)"
proof -
  define rs1 where "rs1 = (if md_Format (Metadata rs) = []
    then rs\<lparr> Metadata := (Metadata rs)\<lparr> md_Format := ''json'' \<rparr> \<rparr> else rs)"
  have fields: "md_ID (Metadata rs1) = md_ID (Metadata rs)" "md_Action (Metadata rs1) = md_Action (Metadata rs)"
    "Payload rs1 = Payload rs"
    by (simp_all add: rs1_def)
  have checks: "id_matches (md_ID (Metadata rs))" "md_Format (Metadata rs1) = ''json'' \<or> md_Format (Metadata rs1) = ''srs''"
    "md_Action (Metadata rs1) \<in> {''VPN'', ''DIRECT'', ''BLOCK''}"
    "find (\<lambda>d. \<not> domain_ok cd d) (pl_DomainSuffix (Payload rs)) = None"
    "find (\<lambda>c. \<not> prefix_ok cd c) (pl_IPCIDR (Payload rs)) = None"
    "(if md_Format (Metadata rs1) = ''srs'' then validate_ads cd dir rs1 else validate_json cd rs1) = Inr rs'"
    using assms unfolding validateManagedRURuleSet_def Let_def rs1_def [symmetric]
    by (simp_all split: if_splits option.splits)
  show ?thesis
  proof (cases "md_Format (Metadata rs1) = ''srs''")
    case True
    then obtain path stored where "rs' = rs1\<lparr> ArtifactPath := path \<rparr>" "md_ID (Metadata rs1) = ''ads''"
      "md_Action (Metadata rs1) = ''BLOCK''" "read_file cd path = Content stored" "srs_ok cd stored"
      "int (length stored) = md_Size (Metadata rs1)"
      "ascii_lower (md_Checksum (Metadata rs1)) = hex_encode (sha256 stored)"
      using checks(6) validate_ads_ok by fastforce
    then show ?thesis
      using checks(1-5) True fields find_none_all unfolding set_ok_def by auto
  next
    case False
    then have "rs' = rs1" "\<exists>canonical. json_payload cd (Payload rs1) = Some canonical
        \<and> ascii_lower (md_Checksum (Metadata rs1)) = hex_encode (sha256 canonical)"
      using checks(6) validate_json_ok by fastforce+
    then show ?thesis
      using checks(1-5) False fields find_none_all unfolding set_ok_def by auto
  qed
qed

lemma record_all_ok:
  assumes "record_all act vs actions = Inr actions'"
  shows "(\<forall>v \<in> set vs. map_of actions' v = Some act)
    \<and> (\<forall>v a. map_of actions v = Some a \<longrightarrow> map_of actions' v = Some a)"
  using assms
proof (induction vs arbitrary: actions)
  case (Cons v vs)
  obtain actions1 where step: "recordManagedRUAction actions v act = Inr actions1"
    "record_all act vs actions1 = Inr actions'"
    using Cons.prems by (auto split: sum.splits)
  have "actions1 = AList.update v act actions" "map_of actions v = None \<or> map_of actions v = Some act"
    using step(1) by (auto simp: recordManagedRUAction_def split: option.splits if_splits)
  then have here: "map_of actions1 v = Some act"
    and keep: "\<And>w a. map_of actions w = Some a \<Longrightarrow> map_of actions1 w = Some a"
    by (auto simp: update_conv)
  show ?case
    using Cons.IH [OF step(2)] here keep by auto
qed simp

definition entry_total :: "managed_rule_set list \<Rightarrow> int" where
  "entry_total sets = sum_list (map (\<lambda>rs. int (length (entry_names rs))) sets)"

definition unambiguous :: "managed_rule_set list \<Rightarrow> bool" where
  "unambiguous sets \<longleftrightarrow> (\<forall>rs \<in> set sets. \<forall>rs' \<in> set sets. \<forall>v \<in> set (entry_names rs) \<inter> set (entry_names rs').
     md_Action (Metadata rs) = md_Action (Metadata rs'))"

lemma check_sets_ok:
  assumes "check_sets cd dir rss entries seen actions = Inr sets" and "entries \<le> managedRUMaxEntries"
  shows "list_all (set_ok cd) sets \<and> distinct (map (md_ID \<circ> Metadata) sets)
    \<and> set (map (md_ID \<circ> Metadata) sets) \<inter> set seen = {} \<and> length sets = length rss
    \<and> entries + entry_total sets \<le> managedRUMaxEntries \<and> unambiguous sets
    \<and> (\<forall>rs \<in> set sets. \<forall>v \<in> set (entry_names rs). \<forall>a. map_of actions v = Some a \<longrightarrow> a = md_Action (Metadata rs))"
  using assms
proof (induction rss arbitrary: entries seen actions sets)
  case Nil
  then show ?case by (simp add: entry_total_def unambiguous_def)
next
  case (Cons r rss)
  obtain rs actions1 rest where v: "validateManagedRURuleSet cd dir r = Inr rs"
    and new: "md_ID (Metadata rs) \<notin> set seen"
    and total: "entries + int (length (entry_names rs)) \<le> managedRUMaxEntries"
    and recorded: "record_all (md_Action (Metadata rs)) (entry_names rs) actions = Inr actions1"
    and rest: "check_sets cd dir rss (entries + int (length (entry_names rs))) (md_ID (Metadata rs) # seen) actions1 = Inr rest"
    and sets: "sets = rs # rest"
    using Cons.prems(1) by (auto simp: Let_def not_less split: sum.splits if_splits)
  note ih = Cons.IH [OF rest total]
  note acts = record_all_ok [OF recorded]
  have shared: "md_Action (Metadata rs') = md_Action (Metadata rs)"
    if "rs' \<in> set rest" "v \<in> set (entry_names rs)" "v \<in> set (entry_names rs')" for rs' v
    using ih acts that by metis
  have "unambiguous sets"
    using ih shared unfolding unambiguous_def sets by (auto; metis)
  moreover have "a = md_Action (Metadata rs')"
    if "rs' \<in> set sets" "v \<in> set (entry_names rs')" "map_of actions v = Some a" for rs' v a
  proof (cases "rs' = rs")
    case True
    then show ?thesis using acts that by force
  next
    case False
    then show ?thesis using ih acts that sets by auto
  qed
  ultimately show ?case
    using ih new validate_ok [OF v] by (auto simp: sets entry_total_def)
qed

lemma managed_sets_ok:
  assumes "readManagedRURuleSets cd path = Inr sets"
  shows "list_all (set_ok cd) sets \<and> distinct (map (md_ID \<circ> Metadata) sets) \<and> unambiguous sets
    \<and> length sets \<le> managedRUMaxRuleSets \<and> entry_total sets \<le> managedRUMaxEntries
    \<and> sorted_wrt (\<lambda>a b. \<not> set_less b a) sets"
proof (cases "sets = []")
  case True
  then show ?thesis by (simp add: unambiguous_def entry_total_def managedRUMaxEntries_def)
next
  case False
  obtain dir rss checked where c: "check_sets cd dir rss 0 [] [] = Inr checked"
    "sets = slice_stable set_less checked" "length rss \<le> managedRUMaxRuleSets"
    using assms False
    by (auto simp: readManagedRURuleSets_def not_less split: file_read.splits if_splits option.splits sum.splits)
  have same: "mset sets = mset checked" by (simp add: c(2))
  have ok: "list_all (set_ok cd) checked" "distinct (map (md_ID \<circ> Metadata) checked)" "length checked = length rss"
    "entry_total checked \<le> managedRUMaxEntries" "unambiguous checked"
    using check_sets_ok [OF c(1)] by (simp_all add: managedRUMaxEntries_def)
  have "set sets = set checked" using same by (metis set_mset_mset)
  then have "list_all (set_ok cd) sets" "unambiguous sets"
    using ok(1,5) by (simp_all add: list_all_iff unambiguous_def)
  moreover have "mset (map (md_ID \<circ> Metadata) sets) = mset (map (md_ID \<circ> Metadata) checked)"
    using same by simp
  then have "distinct (map (md_ID \<circ> Metadata) sets)"
    using ok(2) by (metis mset_eq_imp_distinct_iff)
  moreover have "entry_total sets = entry_total checked"
    unfolding entry_total_def using same by (metis mset_map sum_mset_sum_list)
  moreover have "length sets = length checked" using same by (metis size_mset)
  moreover have "sorted_wrt (\<lambda>a b. \<not> set_less b a) sets"
    using managed_sets.sorted_slice_stable c(2) by simp
  ultimately show ?thesis using ok c(3) by simp
qed

end
