(* ===== verification/Config_Routing.thy ===== *)
theory Config_Routing
  imports Managed_Rules
begin

text \<open>
  \<open>setRoutingOptions\<close> of \<open>v2/config/builder.go\<close>: the order of the rules, stage by stage, and what a flow
  meets on its way through them (\<open>matchRule\<close> of \<open>route/route.go\<close>). \<open>main\<close> is \<open>OutboundMainDetour\<close>.
\<close>

section \<open>The stages\<close>

text \<open>\<open>host_of\<close> is \<open>getHostnameIfNotIP\<close>, \<open>None\<close> its error; the order of a Go map is that of first insertion.\<close>

definition force_direct_domains :: "(string \<Rightarrow> string option) \<Rightarrow> string list \<Rightarrow> string list" where
  "force_direct_domains host_of urls =
     fold (\<lambda>u ds. case host_of u of None \<Rightarrow> ds | Some h \<Rightarrow> if h \<in> set ds then ds else ds @ [h])
       urls [''api.cloudflareclient.com'']"

definition addForceDirect :: "(string \<Rightarrow> string option) \<Rightarrow> routing_options \<Rightarrow> dns_rule list" where
  "addForceDirect host_of hopt =
     [\<lparr> dns_raw = any_query\<lparr> dr_Domain := [''api.cloudflareclient.com''] \<rparr>,
        dns_act = dns_to DNSRemoteNoWarpTag (DirectDnsDomainStrategy hopt) True \<rparr>,
      \<lparr> dns_raw = any_query\<lparr> dr_Domain := force_direct_domains host_of (ConnectionTestUrls hopt) \<rparr>,
        dns_act = dns_to DNSMultiDirectTag (DirectDnsDomainStrategy hopt) True \<rparr>]"

definition block_page :: raw_rule where
  "block_page = no_conditions\<lparr> rr_IPCIDR := [''10.10.34.0/24'', ''2001:4188:2:600:10:10:34:0/120''] \<rparr>"

definition dns_protocol :: raw_rule where
  "dns_protocol = no_conditions\<lparr> rr_Protocol := [''dns''] \<rparr>"

definition private_address :: raw_rule where
  "private_address = no_conditions\<lparr> rr_IPIsPrivate := True \<rparr>"

definition base_policy :: "string \<Rightarrow> (string \<Rightarrow> string option) \<Rightarrow> routing_options \<Rightarrow> policy" where
  "base_policy main host_of hopt =
     (addForceDirect host_of hopt,
      [\<lparr> rule_raw = no_conditions, rule_action = Sniff \<rparr>,
       \<lparr> rule_raw = dns_protocol, rule_action = HijackDNS \<rparr>,
       \<lparr> rule_raw = block_page, rule_action = RouteTo main \<rparr>], [])"

definition early_policy :: "string \<Rightarrow> routing_options \<Rightarrow> policy" where
  "early_policy main hopt =
     (let user = (buildUserDNSRules (ho_Rules hopt) hopt, buildUserRouteRules main (ho_Rules hopt), [])
      in if Region hopt \<noteq> ''ru''
         then joined user (buildUserDNSRules (ProfileRules hopt) hopt, buildUserRouteRules main (ProfileRules hopt), [])
         else user)"

definition lan_policy :: "routing_options \<Rightarrow> policy" where
  "lan_policy hopt =
     (if BypassLAN hopt \<or> Region hopt = ''ru''
      then ([], [\<lparr> rule_raw = private_address, rule_action = RouteTo OutboundDirectTag \<rparr>], [])
      else ([], [], []))"

definition ads_domains :: "string list" where
  "ads_domains = [''ad.mail.ru'', ''adfox.ru'', ''adlook.me'', ''ads.betweendigital.com'', ''adriver.ru'',
     ''advarkads.com'', ''advertur.ru'', ''advmaker.ru'', ''an.yandex.ru'', ''between.digital'',
     ''betweendigital.com'', ''bidvol.com'', ''bodyclick.net'', ''buzzoola.com'', ''directadvert.ru'', ''gnezdo.ru'',
     ''kadam.net'', ''ladycash.ru'', ''marketgid.com'', ''mc.yandex.ru'', ''mgid.com'', ''mixmarket.biz'',
     ''otm-r.com'', ''relap.io'', ''rotaban.ru'', ''rs.mail.ru'', ''smi2.ru'', ''soloway.ru'', ''target.my.com'',
     ''teasernet.com'', ''trafmag.com'', ''videonow.ru'', ''videoroll.net'']"

definition block_url :: "string \<Rightarrow> string" where
  "block_url name = ''https://raw.githubusercontent.com/hiddify/hiddify-geo/rule-set/block/'' @ name @ ''.srs''"

definition country_url :: "string \<Rightarrow> string" where
  "country_url name = ''https://raw.githubusercontent.com/hiddify/hiddify-geo/rule-set/country/'' @ name @ ''.srs''"

definition ads_policy :: "headless_rule list option \<Rightarrow> managed_rule_set list \<Rightarrow> routing_options \<Rightarrow> policy" where
  "ads_policy embedded managed hopt =
     (if \<not> BlockAds hopt then ([], [], [])
      else
        (let hard = InlineSet ''ru-adlist-hardcoded''
               [\<lparr> hr_Domain = ads_domains, hr_DomainSuffix = map (\<lambda>d. ''.'' @ d) ads_domains, hr_IPCIDR = [] \<rparr>];
             (managedSets, managedAdsTag) = appendManagedAdsRuleSet managed;
             (embeddedSets, embeddedAdsTag) = appendEmbeddedAdsRuleSet embedded;
             remote = map (\<lambda>t. RemoteSet t (block_url t))
               [''geosite-malware'', ''geosite-phishing'', ''geosite-cryptominers'', ''geoip-phishing'', ''geoip-malware''];
             extra = (if managedAdsTag \<noteq> [] then [managedAdsTag] else [])
               @ (if embeddedAdsTag \<noteq> [] then [embeddedAdsTag] else []);
             routeSets = extra @ [''ru-adlist-hardcoded'', ''geosite-malware'', ''geosite-phishing'',
               ''geosite-cryptominers'', ''geoip-malware'', ''geoip-phishing''];
             dnsSets = extra @ [''ru-adlist-hardcoded'', ''geosite-malware'', ''geosite-phishing'', ''geosite-cryptominers'']
         in ([ruleset_dns dnsSets DNSRefused], [ruleset_route routeSets Reject],
             hard # managedSets @ embeddedSets @ remote)))"

definition quic_policy :: "routing_options \<Rightarrow> policy" where
  "quic_policy hopt =
     (if BlockQuic hopt
      then ([], [\<lparr> rule_raw = no_conditions\<lparr> rr_Protocol := [''quic''] \<rparr>, rule_action = Reject \<rparr>], [])
      else ([], [], []))"

definition ru_policy :: "string \<Rightarrow> bool \<Rightarrow> managed_rule_set list \<Rightarrow> routing_options \<Rightarrow> policy" where
  "ru_policy main baseline managed hopt =
     joined (appendManagedRURouting main baseline hopt managed)
      (joined (appendRUServiceRoutingPolicy main baseline hopt ru_yandex)
        (joined (appendRUServiceRoutingPolicy main baseline hopt ru_wildberries)
          (appendBundledRUDestinationRouting baseline hopt)))"

definition country_policy :: "routing_options \<Rightarrow> policy" where
  "country_policy hopt =
     (let geoip = ''geoip-'' @ Region hopt; geosite = ''geosite-'' @ Region hopt;
          suffixes = [''.'' @ Region hopt]; direct_dns = dns_to DNSMultiDirectTag (DirectDnsDomainStrategy hopt) True
      in ([\<lparr> dns_raw = any_query\<lparr> dr_DomainSuffix := suffixes \<rparr>, dns_act = direct_dns \<rparr>, ruleset_dns [geosite] direct_dns],
          [\<lparr> rule_raw = no_conditions\<lparr> rr_DomainSuffix := suffixes \<rparr>, rule_action = RouteTo OutboundDirectTag \<rparr>,
           ruleset_route [geoip, geosite] (RouteTo OutboundDirectTag)],
          [RemoteSet geoip (country_url geoip), RemoteSet geosite (country_url geosite)]))"

definition region_policy :: "string \<Rightarrow> bool \<Rightarrow> managed_rule_set list \<Rightarrow> routing_options \<Rightarrow> policy" where
  "region_policy main baseline managed hopt =
     (if Region hopt = ''ru''
      then joined (ru_policy main baseline managed hopt)
             (buildUserDNSRules (ProfileRules hopt) hopt, buildUserRouteRules main (ProfileRules hopt), [])
      else if Region hopt \<noteq> ''other'' then country_policy hopt
      else ([], [], []))"

definition final_dns :: "routing_options \<Rightarrow> dns_rule list" where
  "final_dns hopt =
     (if fakeDNSEnabled hopt
      then [\<lparr> dns_raw = any_query\<lparr> dr_QueryType := [''A'', ''AAAA''] \<rparr>,
              dns_act = DNSRoute \<lparr> dns_server = DNSFakeTag, dns_strategy = RemoteDnsDomainStrategy hopt,
                dns_rewriteTTL = Some DEFAULT_DNS_TTL, dns_disableCache = True, dns_bypassIfFailed = False \<rparr> \<rparr>]
      else []) @
     [\<lparr> dns_raw = any_query, dns_act = dns_to DNSMultiRemoteTag (RemoteDnsDomainStrategy hopt) False \<rparr>]"

record routing_env =
  env_main :: string
  env_baseline :: bool
  env_ntp :: "string option"
  env_embedded :: "headless_rule list option"
  env_host_of :: "string \<Rightarrow> string option"
  env_bundle :: "bundle_error + managed_rule_set list"

text \<open>A bundle that does not validate is ignored.\<close>

definition managed_or_none :: "routing_env \<Rightarrow> managed_rule_set list" where
  "managed_or_none env = (case env_bundle env of Inl err \<Rightarrow> [] | Inr sets \<Rightarrow> sets)"

record built_routing =
  bt_dns :: "dns_rule list"
  bt_rules :: "route_rule list"
  bt_final :: string
  bt_sets :: "rule_set list"

definition policy_before_region :: "routing_env \<Rightarrow> routing_options \<Rightarrow> policy" where
  "policy_before_region env hopt =
     joined (base_policy (env_main env) (env_host_of env) hopt)
      (joined (appendInternalDirectRoutes (env_ntp env) hopt)
        (joined (early_policy (env_main env) hopt)
          (joined (lan_policy hopt)
            (joined (ads_policy (env_embedded env) (managed_or_none env) hopt) (quic_policy hopt)))))"

definition setRoutingOptions :: "routing_env \<Rightarrow> routing_options \<Rightarrow> built_routing" where
  "setRoutingOptions env hopt =
     (case joined (policy_before_region env hopt)
             (region_policy (env_main env) (env_baseline env) (managed_or_none env) hopt) of
        (dnsRules, routeRules, rulesets) \<Rightarrow>
          \<lparr> bt_dns = filter DefaultDNSRule_IsValid (dnsRules @ final_dns hopt), bt_rules = routeRules,
             bt_final = env_main env, bt_sets = rulesets \<rparr>)"

section \<open>A flow\<close>

text \<open>
  \<open>hits\<close> tells which conditions the flow meets, with the protocol and domain the sniffer found: the first
  rule of every configuration sniffs. A rule with a final action that is met ends the search. \<open>match_dns\<close> is the
  first rule a DNS question meets; when its server fails, a rule with \<open>BypassIfFailed\<close> passes the question on.
\<close>

fun matchRule :: "(raw_rule \<Rightarrow> bool) \<Rightarrow> route_rule list \<Rightarrow> rule_action option" where
  "matchRule hits [] = None"
| "matchRule hits (r # rs) =
     (if hits (rule_raw r) \<and> rule_action r \<noteq> Sniff \<and> rule_action r \<noteq> NoAction then Some (rule_action r)
      else matchRule hits rs)"

definition flow_decision :: "(raw_rule \<Rightarrow> bool) \<Rightarrow> built_routing \<Rightarrow> rule_action" where
  "flow_decision hits rt = (case matchRule hits (bt_rules rt) of Some act \<Rightarrow> act | None \<Rightarrow> RouteTo (bt_final rt))"

fun match_dns :: "(raw_dns_rule \<Rightarrow> bool) \<Rightarrow> dns_rule list \<Rightarrow> dns_action option" where
  "match_dns asks [] = None"
| "match_dns asks (r # rs) =
     (if asks (dns_raw r) \<and> dns_act r \<noteq> DNSNoAction then Some (dns_act r) else match_dns asks rs)"

lemma matchRule_append:
  "matchRule hits (xs @ ys) = (case matchRule hits xs of Some act \<Rightarrow> Some act | None \<Rightarrow> matchRule hits ys)"
  by (induction xs) auto

lemma matchRule_none: "\<forall>r \<in> set rs. \<not> hits (rule_raw r) \<Longrightarrow> matchRule hits rs = None"
  by (induction rs) auto

lemma match_dns_append:
  "match_dns asks (xs @ ys) = (case match_dns asks xs of Some act \<Rightarrow> Some act | None \<Rightarrow> match_dns asks ys)"
  by (induction xs) auto

section \<open>The Russia preset\<close>

text \<open>What the preset decides before the rules of the profile are asked.\<close>

definition strict_policy :: "routing_env \<Rightarrow> routing_options \<Rightarrow> policy" where
  "strict_policy env hopt = joined (policy_before_region env hopt)
     (ru_policy (env_main env) (env_baseline env) (managed_or_none env) hopt)"

lemma valid_dns_action [simp]: "DefaultDNSRule_IsValid \<lparr> dns_raw = raw, dns_act = dns_to s st b \<rparr>"
  by (simp add: DefaultDNSRule_IsValid_def dns_to_def)

lemma valid_ruleset_dns [simp]: "DefaultDNSRule_IsValid (ruleset_dns (t # ts) act)"
  by (simp add: DefaultDNSRule_IsValid_def ruleset_dns_def any_query_def)

lemma valid_user_dns: "\<forall>r \<in> set (buildUserDNSRules rules hopt). DefaultDNSRule_IsValid r"
  by (auto simp: buildUserDNSRules_def user_dns_action_def DefaultDNSRule_IsValid_def dns_to_def
      split: outbound_choice.split)

lemma joined_fields [simp]:
  "fst (joined p q) = fst p @ fst q"
  "fst (snd (joined p q)) = fst (snd p) @ fst (snd q)"
  "snd (snd (joined p q)) = snd (snd p) @ snd (snd q)"
  by (simp_all add: joined_def split: prod.split)

lemma built_fields:
  "bt_rules (setRoutingOptions env hopt) = fst (snd (policy_before_region env hopt)) @
     fst (snd (region_policy (env_main env) (env_baseline env) (managed_or_none env) hopt))"
  "bt_dns (setRoutingOptions env hopt) = filter DefaultDNSRule_IsValid (fst (policy_before_region env hopt) @
     fst (region_policy (env_main env) (env_baseline env) (managed_or_none env) hopt) @ final_dns hopt)"
  "bt_sets (setRoutingOptions env hopt) = snd (snd (policy_before_region env hopt)) @
     snd (snd (region_policy (env_main env) (env_baseline env) (managed_or_none env) hopt))"
  "bt_final (setRoutingOptions env hopt) = env_main env"
  by (simp_all add: setRoutingOptions_def joined_def split: prod.split)

lemma ru_region: "Region hopt = ''ru'' \<Longrightarrow>
  region_policy main baseline managed hopt = joined (ru_policy main baseline managed hopt)
    (buildUserDNSRules (ProfileRules hopt) hopt, buildUserRouteRules main (ProfileRules hopt), [])"
  by (simp add: region_policy_def)

definition valid_dns :: "policy \<Rightarrow> bool" where
  "valid_dns p \<longleftrightarrow> list_all DefaultDNSRule_IsValid (fst p)"

lemma valid_dns_simps [simp]:
  "valid_dns (joined p q) = (valid_dns p \<and> valid_dns q)" "valid_dns ([], r, s)"
  by (simp_all add: valid_dns_def)

lemma valid_user [simp]: "valid_dns (buildUserDNSRules rules hopt, r, s)"
  using valid_user_dns by (simp add: valid_dns_def list_all_iff)

lemma valid_base [simp]: "valid_dns (base_policy main host_of hopt)"
  by (simp add: valid_dns_def base_policy_def addForceDirect_def)

lemma valid_internal [simp]: "valid_dns (appendInternalDirectRoutes ntp hopt)"
  by (simp add: valid_dns_def appendInternalDirectRoutes_def split: option.split)

lemma valid_early [simp]: "valid_dns (early_policy main hopt)"
  by (simp add: early_policy_def Let_def)

lemma valid_lan [simp]: "valid_dns (lan_policy hopt)" "valid_dns (quic_policy hopt)"
  by (simp_all add: lan_policy_def quic_policy_def)

lemma valid_ads [simp]: "valid_dns (ads_policy embedded managed hopt)"
  by (auto simp: valid_dns_def ads_policy_def Let_def ruleset_dns_def DefaultDNSRule_IsValid_def any_query_def
      split: prod.split)

lemma valid_managed [simp]: "valid_dns (appendManagedRURouting main baseline hopt managed)"
  by (induction managed)
    (auto simp: managed_policy_def managedRUDNSRule_def Let_def valid_dns_def joined_def split: prod.splits)

lemma valid_services [simp]: "valid_dns (appendRUServiceRoutingPolicy main baseline hopt policy)"
  "valid_dns (appendBundledRUDestinationRouting baseline hopt)"
  by (simp_all add: valid_dns_def appendRUServiceRoutingPolicy_def appendBundledRUDestinationRouting_def Let_def
      split: prod.split)

lemma valid_strict: "valid_dns (strict_policy env hopt)"
  by (simp add: strict_policy_def policy_before_region_def ru_policy_def)

lemma strict_ignores_profile:
  "Region hopt = ''ru'' \<Longrightarrow> strict_policy env (hopt\<lparr> ProfileRules := rules \<rparr>) = strict_policy env hopt"
proof -
  assume ru: "Region hopt = ''ru''"
  have user: "buildUserDNSRules r (hopt\<lparr> ProfileRules := rules \<rparr>) = buildUserDNSRules r hopt" for r
    by (simp add: buildUserDNSRules_def user_dns_action_def cong: outbound_choice.case_cong)
  have policy: "ruDestinationDNSPolicy b (hopt\<lparr> ProfileRules := rules \<rparr>) = ruDestinationDNSPolicy b hopt" for b
    by (simp add: ruDestinationDNSPolicy_def)
  have dns: "managedRUDNSRule b (hopt\<lparr> ProfileRules := rules \<rparr>) t act = managedRUDNSRule b hopt t act" for b t act
    by (simp add: managedRUDNSRule_def policy)
  have one: "managed_policy main b (hopt\<lparr> ProfileRules := rules \<rparr>) rs = managed_policy main b hopt rs" for main b rs
    by (simp only: managed_policy_def dns)
  have managed: "appendManagedRURouting main b (hopt\<lparr> ProfileRules := rules \<rparr>) sets = appendManagedRURouting main b hopt sets"
    for main b sets
    by (induction sets) (simp_all add: one)
  have service: "appendRUServiceRoutingPolicy main b (hopt\<lparr> ProfileRules := rules \<rparr>) q = appendRUServiceRoutingPolicy main b hopt q"
    "appendBundledRUDestinationRouting b (hopt\<lparr> ProfileRules := rules \<rparr>) = appendBundledRUDestinationRouting b hopt"
    for main b q
    by (simp_all add: appendRUServiceRoutingPolicy_def appendBundledRUDestinationRouting_def policy)
  have base: "base_policy main h (hopt\<lparr> ProfileRules := rules \<rparr>) = base_policy main h hopt"
    "appendInternalDirectRoutes ntp (hopt\<lparr> ProfileRules := rules \<rparr>) = appendInternalDirectRoutes ntp hopt"
    "lan_policy (hopt\<lparr> ProfileRules := rules \<rparr>) = lan_policy hopt"
    "ads_policy e m (hopt\<lparr> ProfileRules := rules \<rparr>) = ads_policy e m hopt"
    "quic_policy (hopt\<lparr> ProfileRules := rules \<rparr>) = quic_policy hopt" for main h ntp e m
    by (simp_all add: base_policy_def addForceDirect_def appendInternalDirectRoutes_def lan_policy_def
        ads_policy_def quic_policy_def split: option.split)
  have early: "early_policy main (hopt\<lparr> ProfileRules := rules \<rparr>) = early_policy main hopt" for main
    using ru by (simp add: early_policy_def user)
  show ?thesis
    by (simp only: strict_policy_def policy_before_region_def ru_policy_def base early managed service)
qed

lemma russian_rules:
  assumes "Region hopt = ''ru''"
  shows "bt_rules (setRoutingOptions env hopt) = fst (snd (strict_policy env hopt))
      @ buildUserRouteRules (env_main env) (ProfileRules hopt)"
    and "bt_dns (setRoutingOptions env hopt) = fst (strict_policy env hopt)
      @ buildUserDNSRules (ProfileRules hopt) hopt @ filter DefaultDNSRule_IsValid (final_dns hopt)"
proof -
  have "filter DefaultDNSRule_IsValid (fst (strict_policy env hopt)) = fst (strict_policy env hopt)"
    using valid_strict by (simp add: valid_dns_def list_all_iff)
  moreover have "filter DefaultDNSRule_IsValid (buildUserDNSRules rules hopt) = buildUserDNSRules rules hopt" for rules
    using valid_user_dns by simp
  ultimately show "bt_rules (setRoutingOptions env hopt) = fst (snd (strict_policy env hopt))
      @ buildUserRouteRules (env_main env) (ProfileRules hopt)"
    "bt_dns (setRoutingOptions env hopt) = fst (strict_policy env hopt)
      @ buildUserDNSRules (ProfileRules hopt) hopt @ filter DefaultDNSRule_IsValid (final_dns hopt)"
    by (simp_all add: built_fields ru_region [OF assms] strict_policy_def)
qed

section \<open>Rule sets\<close>

text \<open>Every rule set a rule refers to is declared by the policy or named in \<open>U\<close>, by the user.\<close>

definition refers_within :: "string set \<Rightarrow> policy \<Rightarrow> bool" where
  "refers_within U p \<longleftrightarrow>
     (\<forall>r \<in> set (fst p). set (dr_RuleSet (dns_raw r)) \<subseteq> U \<union> set_tag ` set (snd (snd p))) \<and>
     (\<forall>r \<in> set (fst (snd p)). set (rr_RuleSet (rule_raw r)) \<subseteq> U \<union> set_tag ` set (snd (snd p)))"

definition user_sets :: "routing_options \<Rightarrow> string set" where
  "user_sets hopt = (\<Union>r \<in> {r \<in> set (ho_Rules hopt) \<union> set (ProfileRules hopt). Enabled r}. set (RuleSets r))"

lemma refers_joined: "refers_within U p \<Longrightarrow> refers_within U q \<Longrightarrow> refers_within U (joined p q)"
  unfolding refers_within_def joined_fields by (auto simp: image_Un)

lemma refers_simple:
  "refers_within U ([], [], [])" "refers_within U (lan_policy hopt)" "refers_within U (quic_policy hopt)"
  "refers_within U (appendInternalDirectRoutes ntp hopt)" "refers_within U (base_policy main h hopt)"
  by (auto simp: refers_within_def lan_policy_def quic_policy_def appendInternalDirectRoutes_def base_policy_def
      addForceDirect_def no_conditions_def any_query_def private_address_def block_page_def dns_protocol_def
      split: option.splits)

lemma refers_user:
  assumes "\<forall>r \<in> set rules. Enabled r \<longrightarrow> set (RuleSets r) \<subseteq> U"
  shows "refers_within U (buildUserDNSRules rules hopt, buildUserRouteRules main rules, [])"
proof -
  have "set (RuleSets r) \<subseteq> U" if "r \<in> set (orderedEnabledUserRules rules)" for r
    using assms that by (auto simp: orderedEnabledUserRules_def)
  moreover have "rr_RuleSet (user_raw_rule r) = RuleSets r" for r
    by (simp add: user_raw_rule_def)
  ultimately show ?thesis
    by (auto simp: refers_within_def buildUserDNSRules_def buildUserRouteRules_def simp del: set_filter)
      (auto simp: subset_iff)
qed

lemma refers_early: "user_sets hopt \<subseteq> U \<Longrightarrow> refers_within U (early_policy main hopt)"
  unfolding early_policy_def Let_def
  by (auto intro!: refers_joined refers_user simp: user_sets_def)

lemma refers_ads: "refers_within U (ads_policy embedded managed hopt)"
  by (auto simp: refers_within_def ads_policy_def Let_def ruleset_dns_def ruleset_route_def any_query_def
      no_conditions_def appendManagedAdsRuleSet_def appendEmbeddedAdsRuleSet_def split: option.splits)

lemma refers_managed: "refers_within U (appendManagedRURouting main baseline hopt managed)"
proof (induction managed)
  case (Cons rs managed)
  have "refers_within U (managed_policy main baseline hopt rs)"
    by (auto simp: refers_within_def managed_policy_def Let_def managedRUDNSRule_def managedRURouteRule_def
        ruleset_dns_def ruleset_route_def)
  then show ?case using Cons by (simp add: refers_joined)
qed (simp add: refers_simple)

lemma refers_services: "refers_within U (appendRUServiceRoutingPolicy main baseline hopt policy)"
  "refers_within U (appendBundledRUDestinationRouting baseline hopt)"
  by (auto simp: refers_within_def appendRUServiceRoutingPolicy_def appendBundledRUDestinationRouting_def Let_def
      ruleset_dns_def ruleset_route_def split: prod.splits)

lemma refers_country: "refers_within U (country_policy hopt)"
  by (auto simp: refers_within_def country_policy_def Let_def ruleset_dns_def ruleset_route_def any_query_def
      no_conditions_def)

lemma refers_region: "user_sets hopt \<subseteq> U \<Longrightarrow> refers_within U (region_policy main baseline managed hopt)"
  unfolding region_policy_def ru_policy_def
  by (auto intro!: refers_joined refers_managed refers_services refers_country refers_simple refers_user
      simp: user_sets_def)

lemma refers_before: "user_sets hopt \<subseteq> U \<Longrightarrow> refers_within U (policy_before_region env hopt)"
  unfolding policy_before_region_def
  by (intro refers_joined refers_simple refers_early refers_ads)

text \<open>The tags the policies declare.\<close>

definition json_set :: "managed_rule_set \<Rightarrow> bool" where
  "json_set rs \<longleftrightarrow> md_Format (Metadata rs) = ''json'' \<and> md_ApplicablePreset (Metadata rs) = ''russia''
     \<and> \<not> (pl_DomainSuffix (Payload rs) = [] \<and> pl_IPCIDR (Payload rs) = [])"

lemma managed_declares:
  "map set_tag (snd (snd (appendManagedRURouting main baseline hopt managed)))
    = map (\<lambda>rs. managed_tag (md_ID (Metadata rs))) (filter json_set managed)"
  by (induction managed) (auto simp: managed_policy_def json_set_def Let_def)

lemma before_declares:
  "snd (snd (policy_before_region env hopt)) = snd (snd (ads_policy (env_embedded env) (managed_or_none env) hopt))"
  by (simp add: policy_before_region_def base_policy_def appendInternalDirectRoutes_def early_policy_def
      lan_policy_def quic_policy_def Let_def split: option.split)

definition managed_ads :: "managed_rule_set list \<Rightarrow> string list" where
  "managed_ads managed = map set_tag (fst (appendManagedAdsRuleSet managed))"

lemma managed_ads_cases:
  "managed_ads managed = [] \<or> managed_ads managed = [managed_tag ''ads'']
     \<and> (\<exists>rs \<in> set managed. md_ID (Metadata rs) = ''ads'' \<and> md_Format (Metadata rs) = ''srs'')"
  by (auto simp: managed_ads_def appendManagedAdsRuleSet_def find_Some_iff split: option.splits)

lemma ads_declares:
  "\<exists>e \<in> {[], [''zeon-embedded-ads'']}. map set_tag (snd (snd (ads_policy embedded managed hopt))) =
    (if BlockAds hopt then ''ru-adlist-hardcoded'' # managed_ads managed @ e @
       [''geosite-malware'', ''geosite-phishing'', ''geosite-cryptominers'', ''geoip-phishing'', ''geoip-malware'']
     else [])"
  by (auto simp: ads_policy_def managed_ads_def appendEmbeddedAdsRuleSet_def Let_def split: prod.split option.splits)

lemma region_declares:
  "map set_tag (snd (snd (region_policy main baseline managed hopt))) =
    (if Region hopt = ''ru'' then map (\<lambda>rs. managed_tag (md_ID (Metadata rs))) (filter json_set managed)
       @ [''zeon-ru-yandex'', ''zeon-ru-wildberries'', ''zapret-ru-domains'', ''zapret-ru-ip'']
     else if Region hopt \<noteq> ''other'' then [''geoip-'' @ Region hopt, ''geosite-'' @ Region hopt] else [])"
  by (simp add: region_policy_def ru_policy_def managed_declares country_policy_def Let_def
      appendRUServiceRoutingPolicy_def appendBundledRUDestinationRouting_def ru_yandex_def ru_wildberries_def
      BundledRUDomainsRuleSetTag_def BundledRUIPRuleSetTag_def split: prod.split)

lemma managed_tags_distinct:
  assumes "distinct (map (md_ID \<circ> Metadata) managed)"
  shows "distinct (managed_ads managed @ map (\<lambda>rs. managed_tag (md_ID (Metadata rs))) (filter json_set managed))"
proof -
  have inj: "distinct (map (\<lambda>rs. managed_tag (md_ID (Metadata rs))) (filter json_set managed))"
    using assms by (auto simp: distinct_map managed_tag_def inj_on_def)
  have "managed_tag ''ads'' \<notin> set (map (\<lambda>rs. managed_tag (md_ID (Metadata rs))) (filter json_set managed))"
    if "rs \<in> set managed" "md_ID (Metadata rs) = ''ads''" "md_Format (Metadata rs) = ''srs''" for rs
  proof
    assume "managed_tag ''ads'' \<in> set (map (\<lambda>rs. managed_tag (md_ID (Metadata rs))) (filter json_set managed))"
    then obtain rs' where rs': "rs' \<in> set managed" "json_set rs'" "md_ID (Metadata rs') = ''ads''"
      by (auto simp: managed_tag_def)
    then have "rs' = rs"
      using assms that unfolding distinct_map inj_on_def by (metis comp_apply)
    then show False using rs'(2) that(3) by (simp add: json_set_def)
  qed
  note apart = this
  show ?thesis
    using managed_ads_cases [of managed]
  proof
    assume "managed_ads managed = []"
    then show ?thesis using inj by simp
  next
    assume "managed_ads managed = [managed_tag ''ads'']
      \<and> (\<exists>rs \<in> set managed. md_ID (Metadata rs) = ''ads'' \<and> md_Format (Metadata rs) = ''srs'')"
    then show ?thesis using inj apart by (metis append_Cons append_Nil distinct.simps(2))
  qed
qed

lemma declared_once:
  assumes "distinct (map (md_ID \<circ> Metadata) (managed_or_none env))"
    and "Region hopt \<notin> {''malware'', ''phishing'', ''cryptominers''}"
  shows "distinct (map set_tag (bt_sets (setRoutingOptions env hopt)))"
proof -
  let ?m = "managed_or_none env"
  obtain e where e: "e \<in> {[], [''zeon-embedded-ads'']}"
    and ads: "map set_tag (snd (snd (ads_policy (env_embedded env) ?m hopt))) =
      (if BlockAds hopt then ''ru-adlist-hardcoded'' # managed_ads ?m @ e @
         [''geosite-malware'', ''geosite-phishing'', ''geosite-cryptominers'', ''geoip-phishing'', ''geoip-malware'']
       else [])"
    using ads_declares by blast
  have ads_tags: "set (managed_ads ?m) \<subseteq> {managed_tag ''ads''}"
    using managed_ads_cases [of ?m] by auto
  have json_tags: "\<forall>t \<in> set (map (\<lambda>rs. managed_tag (md_ID (Metadata rs))) (filter json_set ?m)). \<exists>i. t = managed_tag i"
    by auto
  show ?thesis
    using managed_tags_distinct [OF assms(1)] e ads_tags json_tags assms(2)
    unfolding built_fields(3) before_declares map_append ads region_declares
    by (auto simp: managed_tag_def)
qed

end
