(* ===== verification/Bundled_Install.thy ===== *)
theory Bundled_Install
  imports Managed_Rules
begin

text \<open>
  \<open>v2/config/bundled_ru_rule_sets.go\<close>: the rule sets that come with the core, the check of their
  manifest, and their installation into the working directory. A file system maps paths to contents; every
  call to the operating system may fail, and \<open>os_calls\<close> holds which do and the names \<open>CreateTemp\<close> picks.
\<close>

section \<open>The manifest\<close>

record rule_set_reference =
  rf_Repository :: string
  rf_Commit :: string
  rf_Tree :: string
  rf_ManifestFile :: string
  rf_ManifestSHA256 :: string

record bundled_metadata =
  bm_ID :: string
  bm_Version :: string
  bm_SourceRepository :: string
  bm_SourceCommit :: string
  bm_SourceFile :: string
  bm_SourceSHA256 :: string
  bm_GeneratedSRSSHA256 :: string
  bm_License :: string
  bm_GeneratedAt :: string
  bm_DomainCount :: int
  bm_CIDRCount :: int
  bm_FormatVersion :: int
  bm_IPv4CIDRCount :: int
  bm_IPv6CIDRCount :: int
  bm_DeclaredUpstreamSource :: string
  bm_DeclaredUpstreamCommit :: string
  bm_DeclaredUpstreamVerified :: bool

record bundled_manifest =
  bn_FormatVersion :: int
  bn_GeneratedAtSemantics :: string
  bn_Reference :: rule_set_reference
  bn_RuleSets :: "bundled_metadata list"

record bundled_asset =
  as_id :: string
  as_embeddedPath :: string
  as_sourceEmbeddedPath :: string
  as_targetPath :: string
  as_sourceSHA256 :: string
  as_sha256 :: string

definition bundledRURuleSetAssets :: "bundled_asset list" where
  "bundledRURuleSetAssets =
     [\<lparr> as_id = BundledRUDomainsRuleSetTag, as_embeddedPath = ''rulesets/zapret-ru-domains.srs'',
        as_sourceEmbeddedPath = ''rulesets/zapret-ru-domains.json'', as_targetPath = BundledRUDomainsRuleSetPath,
        as_sourceSHA256 = ''311c8f5a2ef10b5ad2d52362db354e42dba45d34993816dae2cbf027867bea1b'',
        as_sha256 = ''a39faeb4a4c894a2ce665b8919322cee626f61dd12c63a63736fcf8b0a433053'' \<rparr>,
      \<lparr> as_id = BundledRUIPRuleSetTag, as_embeddedPath = ''rulesets/zapret-ru-ip.srs'',
        as_sourceEmbeddedPath = ''rulesets/zapret-ru-ip.srs'', as_targetPath = BundledRUIPRuleSetPath,
        as_sourceSHA256 = ''1f4cccc9bb9510bb29d8a4b7d326b869bff94e9911d555acc0570545dabfaa7b'',
        as_sha256 = ''1f4cccc9bb9510bb29d8a4b7d326b869bff94e9911d555acc0570545dabfaa7b'' \<rparr>]"

datatype manifest_error = ManifestUnreadable | ManifestSyntax | ManifestFormat | NoSemantics | NotPinned
  | ReferenceChecksum | WrongCount | UnexpectedSet string | IncompleteProvenance string | UnpinnedSource string
  | ManifestSRSChecksum string | ManifestSourceChecksum string | EmbeddedMissing | SourceChecksum string
  | SRSChecksum string

definition sha256Hex :: "u8 list \<Rightarrow> string" where
  "sha256Hex content = hex_encode (sha256 content)"

text \<open>\<open>embedded\<close> is the embedded file system.\<close>

definition check_metadata :: "(string \<Rightarrow> u8 list option) \<Rightarrow> rule_set_reference \<Rightarrow> bundled_metadata \<Rightarrow> bundled_asset
    \<Rightarrow> manifest_error option" where
  "check_metadata embedded ref md asset =
     (if bm_Version md = [] \<or> bm_SourceRepository md = [] \<or> bm_SourceCommit md = [] \<or> bm_SourceFile md = []
         \<or> bm_SourceSHA256 md = [] \<or> bm_GeneratedSRSSHA256 md = [] \<or> bm_License md = [] \<or> bm_GeneratedAt md = []
         \<or> bm_FormatVersion md \<le> 0 then Some (IncompleteProvenance (bm_ID md))
      else if bm_SourceRepository md \<noteq> rf_Repository ref \<or> bm_SourceCommit md \<noteq> rf_Commit ref
      then Some (UnpinnedSource (bm_ID md))
      else if bm_GeneratedSRSSHA256 md \<noteq> as_sha256 asset then Some (ManifestSRSChecksum (bm_ID md))
      else if bm_SourceSHA256 md \<noteq> as_sourceSHA256 asset then Some (ManifestSourceChecksum (bm_ID md))
      else case embedded (as_sourceEmbeddedPath asset) of
        None \<Rightarrow> Some EmbeddedMissing
      | Some sourceContent \<Rightarrow>
          if sha256Hex sourceContent \<noteq> as_sourceSHA256 asset then Some (SourceChecksum (bm_ID md))
          else case embedded (as_embeddedPath asset) of
            None \<Rightarrow> Some EmbeddedMissing
          | Some content \<Rightarrow> if sha256Hex content \<noteq> as_sha256 asset then Some (SRSChecksum (bm_ID md)) else None)"

fun check_manifest_sets :: "(string \<Rightarrow> u8 list option) \<Rightarrow> rule_set_reference \<Rightarrow> bundled_metadata list \<Rightarrow> string list
    \<Rightarrow> manifest_error option" where
  "check_manifest_sets embedded ref [] seen = None"
| "check_manifest_sets embedded ref (md # rest) seen =
     (case find (\<lambda>a. as_id a = bm_ID md) bundledRURuleSetAssets of
        None \<Rightarrow> Some (UnexpectedSet (bm_ID md))
      | Some asset \<Rightarrow>
          if bm_ID md \<in> set seen then Some (UnexpectedSet (bm_ID md))
          else case check_metadata embedded ref md asset of
            Some err \<Rightarrow> Some err
          | None \<Rightarrow> check_manifest_sets embedded ref rest (bm_ID md # seen))"

definition validateBundledRURuleSetManifest :: "(string \<Rightarrow> u8 list option) \<Rightarrow> bundled_manifest \<Rightarrow> manifest_error option" where
  "validateBundledRURuleSetManifest embedded manifest =
     (let ref = bn_Reference manifest
      in if bn_FormatVersion manifest \<noteq> 1 then Some ManifestFormat
         else if bn_GeneratedAtSemantics manifest = [] then Some NoSemantics
         else if rf_Repository ref \<noteq> ''https://github.com/youtubediscord/ZapretKVN-android''
           \<or> rf_Commit ref \<noteq> ''20794bfd2e4223c0d11dba73cab2a0f0fb354e07''
           \<or> rf_Tree ref \<noteq> ''490d86e6eea8dc16fd47e40c9914e6e942cc4963'' then Some NotPinned
         else case embedded ''rulesets/reference-manifest.json'' of
           None \<Rightarrow> Some EmbeddedMissing
         | Some referenceManifest \<Rightarrow>
             if sha256Hex referenceManifest \<noteq> rf_ManifestSHA256 ref then Some ReferenceChecksum
             else if length (bn_RuleSets manifest) \<noteq> 2 then Some WrongCount
             else check_manifest_sets embedded ref (bn_RuleSets manifest) [])"

definition ReadBundledRURuleSetManifest ::
  "(string \<Rightarrow> u8 list option) \<Rightarrow> (u8 list \<Rightarrow> bundled_manifest option) \<Rightarrow> manifest_error + bundled_manifest" where
  "ReadBundledRURuleSetManifest embedded json =
     (case embedded ''rulesets/manifest.json'' of
        None \<Rightarrow> Inl ManifestUnreadable
      | Some content \<Rightarrow>
          (case json content of
             None \<Rightarrow> Inl ManifestSyntax
           | Some manifest \<Rightarrow> (case validateBundledRURuleSetManifest embedded manifest of
               Some err \<Rightarrow> Inl err | None \<Rightarrow> Inr manifest)))"

section \<open>The installation of one file\<close>

type_synonym file_system = "(string, u8 list) go_map"

record os_calls =
  can_open :: bool
  can_read :: bool
  can_mkdir :: bool
  temp_name :: "string option"
  write_fails :: "nat option"
  can_sync :: bool
  can_close_temp :: bool
  can_reopen :: bool
  can_reread :: bool
  can_chmod :: bool
  can_rename :: bool
  can_stat :: bool
  backup_name :: "string option"
  can_close_backup :: bool
  can_remove_backup :: bool
  can_move_away :: bool
  can_move_in :: bool
  can_restore :: bool
  cleans_temp :: bool
  cleans_backup :: bool

datatype install_error = MkdirFailed | CreateTempFailed | WriteFailed | SyncFailed | CloseFailed | ReopenFailed
  | RereadFailed | TempChecksum | ChmodFailed | ReplaceFailed | CreateBackupFailed | CloseBackupFailed
  | RemoveBackupFailed | MoveAwayFailed | MoveInFailed | RestoreFailed

definition move_file :: "string \<Rightarrow> string \<Rightarrow> file_system \<Rightarrow> file_system" where
  "move_file a b fs = AList.update b (get_or [] fs a) (AList.delete a fs)"

definition remove_if :: "bool \<Rightarrow> string \<Rightarrow> file_system \<Rightarrow> file_system" where
  "remove_if ok p fs = (if ok then AList.delete p fs else fs)"

text \<open>
  The path for systems whose rename does not replace: the target moves to a backup. The last step is the
  deferred removal of the backup.
\<close>

definition swap_with_backup :: "os_calls \<Rightarrow> string \<Rightarrow> string \<Rightarrow> file_system \<Rightarrow> install_error option \<times> file_system" where
  "swap_with_backup os target temp fs =
     (if \<not> can_stat os \<or> map_of fs target = None then (Some ReplaceFailed, fs)
      else case backup_name os of
        None \<Rightarrow> (Some CreateBackupFailed, fs)
      | Some bk \<Rightarrow>
          (let fs = AList.update bk [] fs;
               (err, fs) =
                 (if \<not> can_close_backup os then (Some CloseBackupFailed, fs)
                  else if \<not> can_remove_backup os then (Some RemoveBackupFailed, fs)
                  else (let fs = AList.delete bk fs
                        in if \<not> can_move_away os then (Some MoveAwayFailed, fs)
                           else (let fs = move_file target bk fs
                                 in if can_move_in os then (None, move_file temp target fs)
                                    else if can_restore os then (Some MoveInFailed, move_file bk target fs)
                                    else (Some RestoreFailed, fs))))
           in (err, remove_if (cleans_backup os) bk fs)))"

text \<open>From the open temporary file on; the deferred removal of the temporary file follows.\<close>

definition fill_and_swap :: "os_calls \<Rightarrow> string \<Rightarrow> string \<Rightarrow> u8 list \<Rightarrow> string \<Rightarrow> file_system
    \<Rightarrow> install_error option \<times> file_system" where
  "fill_and_swap os target temp content expected fs =
     (case write_fails os of
        Some n \<Rightarrow> (Some WriteFailed, AList.update temp (take n content) fs)
      | None \<Rightarrow>
          (let fs = AList.update temp content fs
           in if \<not> can_sync os then (Some SyncFailed, fs)
              else if \<not> can_close_temp os then (Some CloseFailed, fs)
              else if \<not> can_reopen os then (Some ReopenFailed, fs)
              else if \<not> can_reread os then (Some RereadFailed, fs)
              else if sha256Hex (get_or [] fs temp) \<noteq> expected then (Some TempChecksum, fs)
              else if \<not> can_chmod os then (Some ChmodFailed, fs)
              else if can_rename os then (None, move_file temp target fs)
              else swap_with_backup os target temp fs))"

definition installBundledRURuleSetFile :: "os_calls \<Rightarrow> string \<Rightarrow> u8 list \<Rightarrow> string \<Rightarrow> file_system
    \<Rightarrow> install_error option \<times> file_system" where
  "installBundledRURuleSetFile os target content expected fs =
     (if can_open os \<and> can_read os \<and> map_option sha256Hex (map_of fs target) = Some expected then (None, fs)
      else if \<not> can_mkdir os then (Some MkdirFailed, fs)
      else case temp_name os of
        None \<Rightarrow> (Some CreateTempFailed, fs)
      | Some temp \<Rightarrow>
          (let (err, fs) = fill_and_swap os target temp content expected (AList.update temp [] fs)
           in (err, remove_if (cleans_temp os) temp fs)))"

section \<open>The installation of all files\<close>

datatype ensure_error = NoWorkingPath | BadManifest manifest_error | MissingAsset | AssetFailed string install_error
  | ManifestFailed install_error

text \<open>\<open>calls p\<close> are the answers of the system while \<open>p\<close> is installed; \<open>join\<close> is \<open>filepath.Join\<close>.\<close>

fun install_assets :: "(string \<Rightarrow> os_calls) \<Rightarrow> (string \<Rightarrow> string) \<Rightarrow> (string \<Rightarrow> u8 list option) \<Rightarrow> bundled_asset list
    \<Rightarrow> file_system \<Rightarrow> ensure_error option \<times> file_system" where
  "install_assets calls join embedded [] fs = (None, fs)"
| "install_assets calls join embedded (a # rest) fs =
     (case embedded (as_embeddedPath a) of
        None \<Rightarrow> (Some MissingAsset, fs)
      | Some content \<Rightarrow>
          (let target = join (as_targetPath a)
           in case installBundledRURuleSetFile (calls target) target content (as_sha256 a) fs of
                (Some err, fs) \<Rightarrow> (Some (AssetFailed (as_id a) err), fs)
              | (None, fs) \<Rightarrow> install_assets calls join embedded rest fs))"

definition EnsureBundledRURuleSets :: "(string \<Rightarrow> os_calls) \<Rightarrow> (string \<Rightarrow> string \<Rightarrow> string) \<Rightarrow> (string \<Rightarrow> u8 list option)
    \<Rightarrow> (u8 list \<Rightarrow> bundled_manifest option) \<Rightarrow> string \<Rightarrow> file_system \<Rightarrow> ensure_error option \<times> file_system" where
  "EnsureBundledRURuleSets calls join embedded json workingPath fs =
     (if TrimSpace workingPath = [] then (Some NoWorkingPath, fs)
      else case ReadBundledRURuleSetManifest embedded json of
        Inl err \<Rightarrow> (Some (BadManifest err), fs)
      | Inr _ \<Rightarrow>
          (case install_assets calls (join workingPath) embedded bundledRURuleSetAssets fs of
             (Some err, fs) \<Rightarrow> (Some err, fs)
           | (None, fs) \<Rightarrow>
               (case embedded ''rulesets/manifest.json'' of
                  None \<Rightarrow> (Some MissingAsset, fs)
                | Some manifest \<Rightarrow>
                    (let target = join workingPath ''data/rule-sets/manifest.json''
                     in case installBundledRURuleSetFile (calls target) target manifest (sha256Hex manifest) fs of
                          (Some err, fs) \<Rightarrow> (Some (ManifestFailed err), fs)
                        | (None, fs) \<Rightarrow> (None, fs)))))"

section \<open>What an installation leaves\<close>

lemma map_of_move: "map_of (move_file a b fs) = (map_of fs)(a := None, b := Some (get_or [] fs a))"
  by (auto simp: move_file_def update_conv delete_conv)

lemma map_of_remove: "map_of (remove_if ok p fs) = (if ok then (map_of fs)(p := None) else map_of fs)"
  by (simp add: remove_if_def delete_conv')

lemma get_or_move: "get_or d (move_file a b fs) p =
    (if p = b then get_or [] fs a else if p = a then d else get_or d fs p)"
  by (simp add: get_or_def map_of_move)

text \<open>The names \<open>CreateTemp\<close> picks are new.\<close>

definition fresh_names :: "os_calls \<Rightarrow> string \<Rightarrow> file_system \<Rightarrow> bool" where
  "fresh_names os target fs \<longleftrightarrow>
     (\<forall>t. temp_name os = Some t \<longrightarrow> t \<noteq> target \<and> map_of fs t = None) \<and>
     (\<forall>b. backup_name os = Some b \<longrightarrow> b \<noteq> target \<and> map_of fs b = None \<and> temp_name os \<noteq> Some b)"

definition own_files :: "os_calls \<Rightarrow> string \<Rightarrow> string set" where
  "own_files os target = {target} \<union> set_option (temp_name os) \<union> set_option (backup_name os)"

lemma swap_result:
  assumes "swap_with_backup os target temp fs = (err, fs')" and "temp \<noteq> target"
    and "\<forall>b. backup_name os = Some b \<longrightarrow> b \<noteq> target \<and> b \<noteq> temp"
  shows "(err = None \<longrightarrow> map_of fs' target = Some (get_or [] fs temp))
    \<and> (err \<noteq> None \<and> err \<noteq> Some RestoreFailed \<longrightarrow> map_of fs' target = map_of fs target)
    \<and> (err = Some RestoreFailed \<longrightarrow> map_of fs' target = None
        \<and> (cleans_backup os \<longrightarrow> (\<forall>b. backup_name os = Some b \<longrightarrow> map_of fs' b = None)))
    \<and> (\<forall>p. p \<noteq> target \<and> p \<noteq> temp \<and> backup_name os \<noteq> Some p \<longrightarrow> map_of fs' p = map_of fs p)"
proof (cases "backup_name os")
  case None
  then show ?thesis
    using assms(1) by (auto simp: swap_with_backup_def split: if_splits)
next
  case (Some bk)
  then have new: "bk \<noteq> target" "bk \<noteq> temp" using assms(3) by auto
  show ?thesis
    using assms(1,2) Some new
    by (auto simp: swap_with_backup_def Let_def map_of_move map_of_remove get_or_move get_or_update update_conv
        delete_conv get_or_def split: if_splits option.splits)
qed

lemma fill_result:
  assumes "fill_and_swap os target temp content expected fs = (err, fs')" and "temp \<noteq> target"
    and "\<forall>b. backup_name os = Some b \<longrightarrow> b \<noteq> target \<and> b \<noteq> temp"
  shows "(err = None \<longrightarrow> map_of fs' target = Some content \<and> sha256Hex content = expected)
    \<and> (err \<noteq> None \<and> err \<noteq> Some RestoreFailed \<longrightarrow> map_of fs' target = map_of fs target)
    \<and> (err = Some RestoreFailed \<longrightarrow> map_of fs' target = None
        \<and> (cleans_backup os \<longrightarrow> (\<forall>b. backup_name os = Some b \<longrightarrow> map_of fs' b = None)))
    \<and> (\<forall>p. p \<noteq> target \<and> p \<noteq> temp \<and> backup_name os \<noteq> Some p \<longrightarrow> map_of fs' p = map_of fs p)"
proof -
  let ?fs = "AList.update temp content fs"
  have written: "get_or [] ?fs temp = content" "map_of ?fs target = map_of fs target"
    "p \<noteq> temp \<Longrightarrow> map_of ?fs p = map_of fs p" for p
    using assms(2) by (auto simp: get_or_def update_conv)
  have cases: "err \<noteq> None \<and> err \<noteq> Some RestoreFailed \<and> (\<exists>c. fs' = AList.update temp c fs)
    \<or> sha256Hex content = expected \<and> (err = None \<and> fs' = move_file temp target ?fs
        \<or> swap_with_backup os target temp ?fs = (err, fs'))"
  proof (cases "write_fails os")
    case None
    then show ?thesis
      using assms(1) written(1) by (auto simp: fill_and_swap_def Let_def split: if_splits)
  next
    case (Some n)
    then show ?thesis using assms(1) by (auto simp: fill_and_swap_def)
  qed
  consider (failed) c where "err \<noteq> None" "err \<noteq> Some RestoreFailed" "fs' = AList.update temp c fs"
    | (renamed) "err = None" "fs' = move_file temp target ?fs" "sha256Hex content = expected"
    | (swapped) "swap_with_backup os target temp ?fs = (err, fs')" "sha256Hex content = expected"
    using cases by blast
  then show ?thesis
  proof cases
    case failed
    then show ?thesis using assms(2) by (auto simp: update_conv)
  next
    case renamed
    then show ?thesis using written assms(2) by (simp add: map_of_move)
  next
    case swapped
    show ?thesis
      using swap_result [OF swapped(1) assms(2,3)] swapped(2) written by auto
  qed
qed

lemma install_result:
  assumes "installBundledRURuleSetFile os target content expected fs = (err, fs')" and "fresh_names os target fs"
  shows "(err = None \<longrightarrow> (\<exists>c. map_of fs' target = Some c \<and> sha256Hex c = expected))
    \<and> (err \<noteq> None \<and> err \<noteq> Some RestoreFailed \<longrightarrow> map_of fs' target = map_of fs target)
    \<and> (err = Some RestoreFailed \<longrightarrow> map_of fs' target = None
        \<and> (cleans_backup os \<longrightarrow> (\<forall>b. backup_name os = Some b \<longrightarrow> map_of fs' b = None)))
    \<and> (cleans_temp os \<longrightarrow> (\<forall>t. temp_name os = Some t \<longrightarrow> map_of fs' t = None))
    \<and> (\<forall>p. p \<notin> own_files os target \<longrightarrow> map_of fs' p = map_of fs p)"
proof -
  have others: "\<And>t. temp_name os = Some t \<Longrightarrow> t \<noteq> target \<and> map_of fs t = None"
    "\<And>b. backup_name os = Some b \<Longrightarrow> b \<noteq> target \<and> map_of fs b = None \<and> temp_name os \<noteq> Some b"
    using assms(2) by (auto simp: fresh_names_def)
  consider (present) "err = None" "fs' = fs" "map_option sha256Hex (map_of fs target) = Some expected"
    | (early) "err \<noteq> None" "err \<noteq> Some RestoreFailed" "fs' = fs"
    | (filled) temp fs1 where "temp_name os = Some temp"
        "fill_and_swap os target temp content expected (AList.update temp [] fs) = (err, fs1)"
        "fs' = remove_if (cleans_temp os) temp fs1"
    using assms(1) by (auto simp: installBundledRURuleSetFile_def split: if_splits option.splits prod.splits)
  then show ?thesis
  proof cases
    case present
    then show ?thesis using others(1) by auto
  next
    case early
    then show ?thesis using others(1) by auto
  next
    case filled
    have t: "temp \<noteq> target" using others(1) filled(1) by simp
    have b: "\<forall>b. backup_name os = Some b \<longrightarrow> b \<noteq> target \<and> b \<noteq> temp"
      using others(2) filled(1) by auto
    have target_same: "map_of fs' target = map_of fs1 target"
      using t filled(3) by (auto simp: map_of_remove)
    have "map_of (AList.update temp [] fs) p = map_of fs p" if "p \<noteq> temp" for p
      using that by (simp add: update_conv)
    then show ?thesis
      using fill_result [OF filled(2) t b] t filled(1,3) b
      by (auto simp: target_same map_of_remove own_files_def)
  qed
qed

section \<open>The installation as a whole\<close>

definition holds :: "file_system \<Rightarrow> string \<Rightarrow> string \<Rightarrow> bool" where
  "holds fs p digest \<longleftrightarrow> (\<exists>c. map_of fs p = Some c \<and> sha256Hex c = digest)"

text \<open>The names picked for different targets differ and are new.\<close>

definition apart :: "(string \<Rightarrow> os_calls) \<Rightarrow> string list \<Rightarrow> file_system \<Rightarrow> bool" where
  "apart calls targets fs \<longleftrightarrow> distinct targets \<and> (\<forall>p \<in> set targets. fresh_names (calls p) p fs) \<and>
     (\<forall>p \<in> set targets. \<forall>q \<in> set targets. p \<noteq> q \<longrightarrow> own_files (calls p) p \<inter> own_files (calls q) q = {})"

lemma fresh_names_cong:
  assumes "fresh_names os p fs" and "\<forall>q \<in> own_files os p. map_of fs' q = map_of fs q"
  shows "fresh_names os p fs'"
  using assms by (auto simp: fresh_names_def own_files_def)

lemma apart_after:
  assumes "apart calls (p # rest) fs" and "\<forall>q. q \<notin> own_files (calls p) p \<longrightarrow> map_of fs' q = map_of fs q"
  shows "apart calls rest fs'"
proof -
  have "fresh_names (calls q) q fs'" if "q \<in> set rest" for q
  proof (rule fresh_names_cong)
    show "fresh_names (calls q) q fs" using assms(1) that by (simp add: apart_def)
    have "own_files (calls p) p \<inter> own_files (calls q) q = {}"
      using assms(1) that by (auto simp: apart_def)
    then show "\<forall>r \<in> own_files (calls q) q. map_of fs' r = map_of fs r"
      using assms(2) by blast
  qed
  then show ?thesis using assms(1) by (simp add: apart_def)
qed

lemma install_assets_result:
  assumes "install_assets calls join embedded assets fs = (None, fs')"
    and "apart calls (map (join \<circ> as_targetPath) assets @ later) fs"
  shows "(\<forall>a \<in> set assets. holds fs' (join (as_targetPath a)) (as_sha256 a)) \<and> apart calls later fs'
    \<and> (\<forall>p. (\<forall>a \<in> set assets. p \<notin> own_files (calls (join (as_targetPath a))) (join (as_targetPath a)))
        \<longrightarrow> map_of fs' p = map_of fs p)"
  using assms
proof (induction assets arbitrary: fs)
  case (Cons a assets)
  let ?t = "join (as_targetPath a)"
  obtain content fs1 where step: "installBundledRURuleSetFile (calls ?t) ?t content (as_sha256 a) fs = (None, fs1)"
    and rest: "install_assets calls join embedded assets fs1 = (None, fs')"
    using Cons.prems(1) by (auto simp: Let_def split: option.splits prod.splits)
  have fresh: "fresh_names (calls ?t) ?t fs"
    using Cons.prems(2) by (simp add: apart_def)
  note one = install_result [OF step fresh]
  have apart0: "apart calls (?t # map (join \<circ> as_targetPath) assets @ later) fs"
    using Cons.prems(2) by (simp add: comp_def)
  have apart1: "apart calls (map (join \<circ> as_targetPath) assets @ later) fs1"
    by (rule apart_after [OF apart0]) (use one in simp)
  note ih = Cons.IH [OF rest apart1]
  have unchanged: "map_of fs' ?t = map_of fs1 ?t"
  proof -
    have "?t \<notin> own_files (calls (join (as_targetPath b))) (join (as_targetPath b))" if "b \<in> set assets" for b
    proof
      assume inside: "?t \<in> own_files (calls (join (as_targetPath b))) (join (as_targetPath b))"
      have "?t \<in> own_files (calls ?t) ?t" by (simp add: own_files_def)
      moreover have "?t \<noteq> join (as_targetPath b)"
        and "own_files (calls ?t) ?t \<inter> own_files (calls (join (as_targetPath b))) (join (as_targetPath b)) = {}"
        using apart0 that by (auto simp: apart_def)
      ultimately show False using inside by blast
    qed
    then show ?thesis using ih by blast
  qed
  have "holds fs' ?t (as_sha256 a)" using one unchanged by (simp add: holds_def)
  moreover have "map_of fs' p = map_of fs p"
    if "\<forall>b \<in> set (a # assets). p \<notin> own_files (calls (join (as_targetPath b))) (join (as_targetPath b))" for p
    using ih one that by simp
  ultimately show ?case using ih by simp
qed simp

end
