(* ===== verification/Claims_Config.thy ===== *)
theory Claims_Config
  imports Config_Routing Bundled_Install
begin

text \<open>
  Properties of the configuration the core is started with: the order of the routing rules, the rule sets
  they refer to, and the bundle of managed rule sets.
\<close>

section \<open>An example\<close>

definition plain_rule :: user_rule where
  "plain_rule = \<lparr> ListOrder = 0, Enabled = True, ur_Outbound = Outbound_proxy, RuleSets = [], PackageNames = [],
     ProcessNames = [], ProcessPaths = [], ur_Network = Network_all, PortRanges = [], SourcePortRanges = [],
     Protocols = [], IpCidrs = [], SourceIpCidrs = [], Domains = [], DomainSuffixes = [], DomainKeywords = [],
     DomainRegexes = [] \<rparr>"

definition russian :: routing_options where
  "russian = \<lparr> Region = ''ru'', BlockAds = True, ho_Rules = [], ProfileRules = [plain_rule\<lparr> DomainSuffixes := [''ru''] \<rparr>],
     BypassLAN = False, BlockQuic = False, EnableFakeDNS = True, RemoteDnsDomainStrategy = DomainStrategyPreferIPv4,
     DirectDnsDomainStrategy = DomainStrategyAsIS, IPv6Mode = DomainStrategyIPv4Only, ConnectionTestUrls = [] \<rparr>"

definition plain_env :: routing_env where
  "plain_env = \<lparr> env_main = ''select'', env_baseline = False, env_ntp = None, env_embedded = None,
     env_host_of = (\<lambda>_. None), env_bundle = Inr [] \<rparr>"

section \<open>The order of the rules\<close>

text \<open>
  C13: In the Russia preset the rules of a profile never pre-empt the preset: whatever a user's own rules, the
  LAN rule, the blocking rules, the managed sets, the service policies or the bundled destinations decide
  for a flow, or as the first answer to a DNS question, stays decided, whatever rules the profile brings.
\<close>

theorem profile_never_preempts_russia:
  assumes "Region hopt = ''ru''"
  shows "(matchRule hits (fst (snd (strict_policy env hopt))) = Some act \<longrightarrow>
      flow_decision hits (setRoutingOptions env (hopt\<lparr> ProfileRules := rules \<rparr>)) = act)
    \<and> (match_dns asks (fst (strict_policy env hopt)) = Some d \<longrightarrow>
      match_dns asks (bt_dns (setRoutingOptions env (hopt\<lparr> ProfileRules := rules \<rparr>))) = Some d)"
proof -
  have ru: "Region (hopt\<lparr> ProfileRules := rules \<rparr>) = ''ru''"
    using assms by simp
  show ?thesis
    by (simp add: flow_decision_def russian_rules [OF ru] strict_ignores_profile [OF assms] matchRule_append
        match_dns_append)
qed

theorem profile_never_preempts_russia_witness:
  "flow_decision (\<lambda>r. rr_RuleSet r = [BundledRUIPRuleSetTag] \<or> rr_DomainSuffix r = [''ru''])
    (setRoutingOptions plain_env russian) = RouteTo OutboundDirectTag"
proof -
  have "matchRule (\<lambda>r. rr_RuleSet r = [BundledRUIPRuleSetTag] \<or> rr_DomainSuffix r = [''ru''])
      (fst (snd (strict_policy plain_env russian))) = Some (RouteTo OutboundDirectTag)"
    by (simp add: strict_policy_def policy_before_region_def base_policy_def appendInternalDirectRoutes_def
        early_policy_def lan_policy_def ads_policy_def quic_policy_def ru_policy_def matchRule_append
        appendRUServiceRoutingPolicy_def appendBundledRUDestinationRouting_def Let_def ruDestinationDNSPolicy_def
        appendManagedAdsRuleSet_def appendEmbeddedAdsRuleSet_def ruleset_route_def russian_def plain_env_def
        managed_or_none_def buildUserRouteRules_def orderedEnabledUserRules_def no_conditions_def private_address_def
        block_page_def dns_protocol_def ru_yandex_def ru_wildberries_def BundledRUIPRuleSetTag_def
        BundledRUDomainsRuleSetTag_def)
  moreover have "Region russian = ''ru''" "russian\<lparr> ProfileRules := ProfileRules russian \<rparr> = russian"
    by (simp_all add: russian_def)
  ultimately show ?thesis
    using profile_never_preempts_russia [of russian _ plain_env _ "ProfileRules russian"] by metis
qed

text \<open>
  C32: The Russia preset keeps private destinations off the tunnel, unless the user's own rules say otherwise,
  with one exception that comes before them: the block page range, private addresses too, goes to the
  main outbound.
\<close>

theorem russia_keeps_lan_direct:
  assumes "Region hopt = ''ru''" and "hits private_address" and "\<not> hits dns_protocol" and "env_ntp env = None"
    and "\<forall>r \<in> set (ho_Rules hopt). Enabled r \<longrightarrow> \<not> hits (user_raw_rule r)"
  shows "flow_decision hits (setRoutingOptions env hopt)
    = RouteTo (if hits block_page then env_main env else OutboundDirectTag)"
proof -
  have "matchRule hits (buildUserRouteRules main (ho_Rules hopt)) = None" for main
  proof -
    have "\<forall>r \<in> set (buildUserRouteRules main (ho_Rules hopt)). \<not> hits (rule_raw r)"
      using assms(5) by (auto simp: buildUserRouteRules_def orderedEnabledUserRules_def)
    then show ?thesis by (rule matchRule_none)
  qed
  then show ?thesis
    using assms(1-4)
    by (simp add: flow_decision_def built_fields policy_before_region_def base_policy_def early_policy_def
        lan_policy_def appendInternalDirectRoutes_def Let_def matchRule_append)
qed

theorem russia_keeps_lan_direct_witness:
  "flow_decision (\<lambda>r. r = private_address \<or> r = no_conditions) (setRoutingOptions plain_env russian)
    = RouteTo OutboundDirectTag"
proof -
  have "\<not> (block_page = private_address \<or> block_page = no_conditions)"
    "\<not> (dns_protocol = private_address \<or> dns_protocol = no_conditions)"
    by (simp_all add: block_page_def dns_protocol_def private_address_def no_conditions_def)
  then show ?thesis
    using russia_keeps_lan_direct [of russian "\<lambda>r. r = private_address \<or> r = no_conditions" plain_env]
    by (simp add: russian_def plain_env_def)
qed

text \<open>
  C36: A rule of the user without conditions takes every flow the fixed rules leave. The guard of the builder
  means to drop it, but a rule always has an action, so it counts as valid; on the DNS side the same
  rule is dropped. A rule to block then blocks everything.
\<close>

theorem conditionless_rule_takes_all:
  assumes "ho_Rules hopt = [r]" and "Enabled r" and "user_raw_rule r = no_conditions"
    and "hits no_conditions" and "\<not> hits dns_protocol" and "\<not> hits block_page" and "env_ntp env = None"
  shows "flow_decision hits (setRoutingOptions env hopt) = toRouteActionForUserRule (env_main env) (ur_Outbound r)
    \<and> buildUserDNSRules (ho_Rules hopt) hopt = []"
proof -
  have lists: "RuleSets r = []" "Domains r = []" "DomainSuffixes r = []" "DomainKeywords r = []" "DomainRegexes r = []"
    using assms(3) by (simp_all add: user_raw_rule_def no_conditions_def)
  have act: "toRouteActionForUserRule main (ur_Outbound r) \<notin> {Sniff, NoAction}" for main
    by (cases "ur_Outbound r") simp_all
  have ordered: "orderedEnabledUserRules [r] = [r]"
    using assms(2) by (simp add: orderedEnabledUserRules_def slice_stable_def)
  have "matchRule hits (buildUserRouteRules main [r]) = Some (toRouteActionForUserRule main (ur_Outbound r))" for main
    using act assms(3,4) by (simp add: buildUserRouteRules_def ordered DefaultRule_IsValid_def)
  then show ?thesis
    using assms(1,5-7) lists
    by (simp add: flow_decision_def built_fields policy_before_region_def base_policy_def early_policy_def
        appendInternalDirectRoutes_def Let_def matchRule_append buildUserDNSRules_def ordered)
qed

theorem conditionless_rule_takes_all_witness:
  "flow_decision (\<lambda>r. r = no_conditions)
    (setRoutingOptions plain_env (russian\<lparr> ho_Rules := [plain_rule\<lparr> ur_Outbound := Outbound_block \<rparr>] \<rparr>)) = Reject"
proof -
  have "dns_protocol \<noteq> no_conditions" "block_page \<noteq> no_conditions"
    by (simp_all add: block_page_def dns_protocol_def no_conditions_def)
  then show ?thesis
    using conditionless_rule_takes_all [of "russian\<lparr> ho_Rules := [plain_rule\<lparr> ur_Outbound := Outbound_block \<rparr>] \<rparr>"
        "plain_rule\<lparr> ur_Outbound := Outbound_block \<rparr>" "\<lambda>r. r = no_conditions" plain_env]
    by (simp add: plain_rule_def plain_env_def user_raw_rule_def no_conditions_def)
qed

section \<open>Rule sets\<close>

text \<open>
  C33: The configuration is closed: every rule set is declared once, and every rule set a route or DNS rule
  refers to is declared, except those an enabled rule of the user or the profile names itself.
\<close>

theorem rule_sets_are_declared:
  assumes "env_bundle env = readManagedRURuleSets cd path"
    and "Region hopt \<notin> {''malware'', ''phishing'', ''cryptominers''}"
  shows "distinct (map set_tag (bt_sets (setRoutingOptions env hopt)))
    \<and> (\<forall>r \<in> set (bt_rules (setRoutingOptions env hopt)). \<forall>t \<in> set (rr_RuleSet (rule_raw r)).
        t \<in> set (map set_tag (bt_sets (setRoutingOptions env hopt))) \<or> t \<in> user_sets hopt)
    \<and> (\<forall>r \<in> set (bt_dns (setRoutingOptions env hopt)). \<forall>t \<in> set (dr_RuleSet (dns_raw r)).
        t \<in> set (map set_tag (bt_sets (setRoutingOptions env hopt))) \<or> t \<in> user_sets hopt)"
proof -
  have "distinct (map (md_ID \<circ> Metadata) (managed_or_none env))"
    using managed_sets_ok [of cd path] assms(1) by (simp add: managed_or_none_def split: sum.split)
  note once = declared_once [OF this assms(2)]
  let ?p = "joined (policy_before_region env hopt)
    (region_policy (env_main env) (env_baseline env) (managed_or_none env) hopt)"
  have within: "refers_within (user_sets hopt) ?p"
    by (intro refers_joined refers_before refers_region subset_refl)
  have "\<forall>r \<in> set (final_dns hopt). dr_RuleSet (dns_raw r) = []"
    by (simp add: final_dns_def any_query_def)
  then have "set (dr_RuleSet (dns_raw r)) \<subseteq> user_sets hopt \<union> set_tag ` set (bt_sets (setRoutingOptions env hopt))"
    if "r \<in> set (bt_dns (setRoutingOptions env hopt))" for r
    using within that unfolding refers_within_def joined_fields built_fields by auto
  moreover have "set (rr_RuleSet (rule_raw r)) \<subseteq> user_sets hopt \<union> set_tag ` set (bt_sets (setRoutingOptions env hopt))"
    if "r \<in> set (bt_rules (setRoutingOptions env hopt))" for r
    using within that unfolding refers_within_def joined_fields built_fields by blast
  ultimately show ?thesis
    using once by (simp only: set_map) blast
qed

theorem rule_sets_are_declared_witness:
  "distinct (map set_tag (bt_sets (setRoutingOptions plain_env russian)))"
proof -
  let ?cd = "\<lparr> read_file = (\<lambda>_. NotExist), json_envelope = (\<lambda>_. None), json_bundle = (\<lambda>_. None), json_payload = (\<lambda>_. None),
    raw_url_base64 = (\<lambda>_. None), url_base64 = (\<lambda>_. None), std_base64 = (\<lambda>_. None), std_base64_encode = (\<lambda>_. []),
    srs_ok = (\<lambda>_. False), prefix_ok = (\<lambda>_. False), to_lower = id, bundle_dir = id, artifact_path = (\<lambda>_ _. []) \<rparr>"
  have "env_bundle plain_env = readManagedRURuleSets ?cd []"
    by (simp add: plain_env_def readManagedRURuleSets_def)
  then show ?thesis
    using rule_sets_are_declared [of plain_env ?cd "[]" russian] by (simp add: russian_def)
qed

text \<open>
  C34: Only a consistent bundle of managed rule sets is used. A bundle that is read has at most 32 sets with
  different identifiers and at most 100000 entries, every set has a valid identifier, action, domains and
  prefixes and the checksum of its content, a binary set is the blocking set and its stored copy is the
  published one, no domain or prefix has two actions, and the sets come in the order of priority and
  identifier, which leaves nothing to the order of the file.
\<close>

theorem managed_bundle_is_consistent:
  assumes "readManagedRURuleSets cd path = Inr sets"
  shows "list_all (set_ok cd) sets \<and> distinct (map (md_ID \<circ> Metadata) sets) \<and> length sets \<le> 32
    \<and> sum_list (map (\<lambda>rs. length (entry_names rs)) sets) \<le> 100000
    \<and> (\<forall>rs \<in> set sets. \<forall>rs' \<in> set sets. \<forall>v \<in> set (entry_names rs) \<inter> set (entry_names rs').
        md_Action (Metadata rs) = md_Action (Metadata rs'))
    \<and> sorted_wrt set_less sets"
proof -
  note ok = managed_sets_ok [OF assms]
  have "int (sum_list (map (\<lambda>rs. length (entry_names rs)) sets)) = entry_total sets"
    unfolding entry_total_def by (induction sets) simp_all
  then have "sum_list (map (\<lambda>rs. length (entry_names rs)) sets) \<le> 100000"
    using ok by (simp add: managedRUMaxEntries_def)
  moreover have "sorted_wrt set_less sets"
  proof -
    have total: "set_less a b" if "\<not> set_less b a" "md_ID (Metadata a) \<noteq> md_ID (Metadata b)" for a b
      using that unfolding set_less_def by (metis linorder_neq_iff)
    have "distinct (map (md_ID \<circ> Metadata) xs) \<Longrightarrow> sorted_wrt (\<lambda>a b. \<not> set_less b a) xs \<Longrightarrow> sorted_wrt set_less xs"
      for xs
      by (induction xs) (auto simp: total image_iff)
    then show ?thesis using ok by blast
  qed
  ultimately show ?thesis
    using ok by (simp add: unambiguous_def managedRUMaxRuleSets_def)
qed

definition small_set :: "string \<Rightarrow> string \<Rightarrow> managed_rule_set" where
  "small_set i domain = \<lparr> Metadata = \<lparr> md_ID = i, md_Version = ''1'', md_Source = ''s'', md_GeneratedAt = ''t'',
       md_ExpiresAt = ''t'', md_Checksum = hex_encode (sha256 [7]), md_FormatVersion = 1, md_DomainCount = 1,
       md_CIDRCount = 0, md_Priority = 5, md_Action = ''VPN'', md_ApplicablePreset = ''russia'', md_Format = ''json'', md_Size = 0 \<rparr>,
     Payload = \<lparr> pl_DomainSuffix = [domain], pl_IPCIDR = [], pl_SRSBase64 = [] \<rparr>, ArtifactPath = [] \<rparr>"

definition small_codec :: bundle_codec where
  "small_codec = \<lparr> read_file = (\<lambda>_. Content [1]),
     json_envelope = (\<lambda>_. Some \<lparr> en_FormatVersion = 1, en_Generation = 3, en_Payload = ''p'', en_Checksum = hex_encode (sha256 [2]) \<rparr>),
     json_bundle = (\<lambda>_. Some \<lparr> bu_GeneratedAt = ''t'', bu_ExpiresAt = ''t'',
       bu_RuleSets = [small_set ''b'' ''x.org'', small_set ''a'' ''y.org''] \<rparr>),
     json_payload = (\<lambda>_. Some [7]), raw_url_base64 = (\<lambda>_. Some [2]), url_base64 = (\<lambda>_. None), std_base64 = (\<lambda>_. None),
     std_base64_encode = (\<lambda>_. []), srs_ok = (\<lambda>_. False), prefix_ok = (\<lambda>_. True), to_lower = id,
     bundle_dir = id, artifact_path = (\<lambda>_ _. []) \<rparr>"

lemma small_fields [simp]:
  "md_ID (Metadata (small_set i d)) = i" "md_Action (Metadata (small_set i d)) = ''VPN''"
  "entry_names (small_set i d) = [''domain:'' @ d]"
  by (simp_all add: small_set_def entry_names_def)

lemma small_codec_fields [simp]:
  "read_file small_codec p = Content [1]" "raw_url_base64 small_codec v = Some [2]"
  "json_envelope small_codec c = Some \<lparr> en_FormatVersion = 1, en_Generation = 3, en_Payload = ''p'',
     en_Checksum = hex_encode (sha256 [2]) \<rparr>"
  "json_bundle small_codec c = Some \<lparr> bu_GeneratedAt = ''t'', bu_ExpiresAt = ''t'',
     bu_RuleSets = [small_set ''b'' ''x.org'', small_set ''a'' ''y.org''] \<rparr>"
  "json_payload small_codec q = Some [7]" "to_lower small_codec s = s"
  by (simp_all add: small_codec_def)

lemma small_valid:
  assumes "id_matches i" and "domain_ok small_codec d"
  shows "validateManagedRURuleSet small_codec dir (small_set i d) = Inr (small_set i d)"
  using assms
  by (simp add: validateManagedRURuleSet_def validate_json_def small_set_def equal_fold_def ascii_lower_hex Let_def)

theorem managed_bundle_is_consistent_witness:
  "readManagedRURuleSets small_codec ''f'' = Inr [small_set ''a'' ''y.org'', small_set ''b'' ''x.org'']
    \<and> sorted_wrt set_less [small_set ''a'' ''y.org'', small_set ''b'' ''x.org'']"
proof -
  have trims: "TrimSpace ''x.org'' = ''x.org''" "TrimSpace ''y.org'' = ''y.org''"
    by code_simp+
  have names: "id_matches ''a''" "id_matches ''b''" "domain_ok small_codec ''x.org''" "domain_ok small_codec ''y.org''"
    using trims by (simp_all add: id_matches_def id_start_def domain_ok_def small_codec_def)
  have order: "slice_stable set_less [small_set ''b'' ''x.org'', small_set ''a'' ''y.org'']
      = [small_set ''a'' ''y.org'', small_set ''b'' ''x.org'']"
    by (simp add: slice_stable_def set_less_def small_set_def)
  have checked: "check_sets small_codec dir [small_set ''b'' ''x.org'', small_set ''a'' ''y.org''] 0 [] []
      = Inr [small_set ''b'' ''x.org'', small_set ''a'' ''y.org'']" for dir
    by (simp add: small_valid names managedRUMaxEntries_def recordManagedRUAction_def)
  have run: "readManagedRURuleSets small_codec ''f'' = Inr [small_set ''a'' ''y.org'', small_set ''b'' ''x.org'']"
    by (simp add: readManagedRURuleSets_def decodeManagedRUPayload_def equal_fold_def ascii_lower_hex checked order
        managedRUMaxBundleBytes_def managedRUMaxRuleSets_def del: check_sets.simps)
  then show ?thesis
    using managed_bundle_is_consistent [OF run] by blast
qed

section \<open>The installation of the bundled files\<close>

text \<open>
  C35: The installation of a bundled file is all or nothing, whatever call to the system fails: it reports success
  only when the target has the pinned checksum, and after an error the target is what it was, with one
  exception: when the previous file was moved away and neither the new one nor the backup could be moved
  in, the target is gone, and the deferred clean-up removes the backup too, so no copy is left. Files of
  others are never touched.
\<close>

theorem install_is_atomic:
  assumes "installBundledRURuleSetFile os target content expected fs = (err, fs')" and "fresh_names os target fs"
  shows "(err = None \<longrightarrow> holds fs' target expected)
    \<and> (err \<noteq> None \<and> err \<noteq> Some RestoreFailed \<longrightarrow> map_of fs' target = map_of fs target)
    \<and> (err = Some RestoreFailed \<longrightarrow> map_of fs' target = None
        \<and> (cleans_backup os \<longrightarrow> (\<forall>b. backup_name os = Some b \<longrightarrow> map_of fs' b = None)))
    \<and> (\<forall>p. p \<notin> own_files os target \<longrightarrow> map_of fs' p = map_of fs p)"
  using install_result [OF assms] by (simp add: holds_def)

definition stubborn :: os_calls where
  "stubborn = \<lparr> can_open = False, can_read = True, can_mkdir = True, temp_name = Some ''t.tmp'', write_fails = None,
     can_sync = True, can_close_temp = True, can_reopen = True, can_reread = True, can_chmod = True,
     can_rename = False, can_stat = True, backup_name = Some ''t.previous'', can_close_backup = True,
     can_remove_backup = True, can_move_away = True, can_move_in = False, can_restore = False,
     cleans_temp = True, cleans_backup = True \<rparr>"

theorem install_is_atomic_witness:
  "map_of (snd (installBundledRURuleSetFile stubborn ''t'' [2] (sha256Hex [2]) [(''t'', [1]), (''u'', [3])])) ''t'' = None
    \<and> map_of (snd (installBundledRURuleSetFile stubborn ''t'' [2] (sha256Hex [2]) [(''t'', [1]), (''u'', [3])])) ''u'' = Some [3]"
proof -
  let ?fs = "[(''t'', [1]), (''u'', [3])] :: file_system"
  have fresh: "fresh_names stubborn ''t'' ?fs"
    by (simp add: fresh_names_def stubborn_def)
  obtain fs' where run: "installBundledRURuleSetFile stubborn ''t'' [2] (sha256Hex [2]) ?fs = (Some RestoreFailed, fs')"
    by (simp add: installBundledRURuleSetFile_def fill_and_swap_def swap_with_backup_def stubborn_def Let_def
        get_or_def move_file_def)
  show ?thesis
    using install_is_atomic [OF run fresh] unfolding run by (simp add: own_files_def stubborn_def)
qed

end
