(* ===== verification/Config_Outbounds.thy ===== *)
theory Config_Outbounds
  imports Config_Routing Selector Debug_Fault
begin

text \<open>
  \<open>setOutbounds\<close> of \<open>v2/config/builder.go\<close>: which outbounds and endpoints of a profile enter the
  configuration, how \<open>outbound.go\<close> and \<open>warp.go\<close> patch them, and the groups put above them. The records keep
  the fields this code reads or writes; the others pass through.
\<close>

section \<open>Outbounds\<close>

record fragment_options =
  fo_Enabled :: bool
  fo_Size :: string
  fo_Sleep :: string

record dialer_options =
  dl_Detour :: string
  BindInterface :: string
  Inet4BindAddress :: "string option"
  Inet6BindAddress :: "string option"
  RoutingMark :: "32 word"
  NetNs :: string
  TCPFastOpen :: bool
  TLSFragment :: fragment_options

record tls_tricks =
  MixedCaseSNI :: bool
  PaddingMode :: string
  PaddingSize :: string

text \<open>\<open>tls_Reality\<close> is the pointer to the reality options, of which \<open>Enabled\<close> is read.\<close>

record tls_options =
  tls_Enabled :: bool
  tls_Reality :: "bool option"
  tls_Tricks :: "tls_tricks option"

text \<open>
  The value in the interface field \<open>Options\<close>: its Go type, whether it is a pointer, and the parts its type
  embeds. \<open>so_transport\<close> is the type of the transport, if there is one.
\<close>

datatype options_type = VLESSOptions | TrojanOptions | VMessOptions | OtherOptions

record stored_options =
  so_type :: options_type
  so_pointer :: bool
  so_dialer :: "dialer_options option"
  so_tls :: "tls_options option"
  so_transport :: "string option"

record balancer_options =
  bl_Outbounds :: "string list"
  bl_Strategy :: string
  bl_DelayAcceptableRatio :: rat
  bl_Tolerance :: nat
  bl_InterruptExistConnections :: bool
  bl_MaxRetry :: int
  bl_IPv6Mode :: domain_strategy
  bl_IPv6CapabilityTTL :: duration
  bl_debug :: debug_options

record selector_options =
  sl_Outbounds :: "string list"
  sl_Default :: string
  sl_ZeonPreferDefault :: bool
  sl_InterruptExistConnections :: bool
  sl_IPv6Mode :: domain_strategy
  sl_IPv6CapabilityTTL :: duration

datatype any_options = Stored stored_options | BalancerOptions balancer_options | SelectorOptions selector_options

record profile_outbound =
  ob_Type :: string
  ob_Tag :: string
  ob_Options :: any_options

text \<open>
  The wrapper interfaces have pointer receivers, so only a pointer satisfies them; an assertion to a struct
  type holds only for a value of it.
\<close>

fun as_dialer :: "any_options \<Rightarrow> dialer_options option" where
  "as_dialer (Stored o1) = (if so_pointer o1 then so_dialer o1 else None)"
| "as_dialer _ = None"

fun as_tls :: "any_options \<Rightarrow> tls_options option" where
  "as_tls (Stored o1) = (if so_pointer o1 then so_tls o1 else None)"
| "as_tls _ = None"

fun value_transport :: "any_options \<Rightarrow> string option" where
  "value_transport (Stored o1) = (if \<not> so_pointer o1 \<and> so_type o1 \<noteq> OtherOptions then so_transport o1 else None)"
| "value_transport _ = None"

fun replace_dialer :: "dialer_options \<Rightarrow> any_options \<Rightarrow> any_options" where
  "replace_dialer d (Stored o1) = Stored (o1\<lparr> so_dialer := Some d \<rparr>)"
| "replace_dialer d opts = opts"

fun set_tls :: "tls_options \<Rightarrow> any_options \<Rightarrow> any_options" where
  "set_tls t (Stored o1) = Stored (o1\<lparr> so_tls := Some t \<rparr>)"
| "set_tls t opts = opts"

section \<open>Endpoints\<close>

record wg_peer =
  pe_Address :: string
  pe_Port :: "16 word"
  pe_PublicKey :: string

record warp_options =
  wo_UniqueIdentifier :: string
  wo_Server :: string
  wo_ServerPort :: "16 word"
  wo_ProfileDetour :: string
  wo_Detour :: string
  wo_MTU :: "32 word"

text \<open>\<open>wg_Noise\<close> is \<open>None\<close> for the zero value.\<close>

record wg_options =
  wg_PrivateKey :: string
  wg_Peers :: "wg_peer list"
  wg_Detour :: string
  wg_MTU :: "32 word"
  wg_Noise :: "string option"

datatype endpoint_options = WARPOptions warp_options | WireGuardOptions wg_options | OtherEndpoint

record endpoint =
  ep_Type :: string
  ep_Tag :: string
  ep_Options :: endpoint_options

record profile =
  in_Outbounds :: "profile_outbound list"
  in_Endpoints :: "endpoint list"

section \<open>Options\<close>

text \<open>\<open>HiddifyOptions\<close> is one struct; these are the fields the rest of the builder reads.\<close>

record hiddify_options = routing_options +
  PreferredSelectorOutbound :: string
  BalancerStrategy :: string
  EnableFragment :: bool
  FragmentSize :: string
  FragmentSleep :: string
  MixedSNICase :: bool
  EnableWarp :: bool
  WarpMode :: string
  WarpPrivateKey :: string
  ho_MTU :: "32 word"
  ho_debug :: debug_options
  ConnectionTestUrl :: string
  URLTestInterval :: int
  EnableClashApi :: bool
  UDPProbeEnabled :: bool
  EnableTun :: bool
  AllowConnectionFromLAN :: bool
  NetworkMtuMode :: string
  NetworkTransportType :: string
  NetworkInterfaceMTU :: int
  MixedPort :: "16 word"
  TProxyPort :: "16 word"
  RedirectPort :: "16 word"
  DirectPort :: "16 word"
  EnableFullConfig :: bool

definition mark :: "string \<Rightarrow> string" where
  "mark s = [CHR 0xC2, CHR 0xA7] @ s @ [CHR 0xC2, CHR 0xA7]"

definition PredefinedOutboundTags :: "string list" where
  "PredefinedOutboundTags = [OutboundDirectTag, OutboundBypassTag, OutboundSelectTag, OutboundURLTestTag,
     OutboundDNSTag, OutboundDirectFragmentTag, WARPConfigTag]"

section \<open>Patching an outbound\<close>

definition patchOutboundFragment :: "hiddify_options \<Rightarrow> profile_outbound \<Rightarrow> profile_outbound" where
  "patchOutboundFragment opt base =
     (if EnableFragment opt
      then (case as_dialer (ob_Options base) of
              None \<Rightarrow> base
            | Some dialer \<Rightarrow> base\<lparr> ob_Options := replace_dialer (dialer\<lparr> TCPFastOpen := False,
                TLSFragment := \<lparr> fo_Enabled = EnableFragment opt, fo_Size = FragmentSize opt,
                  fo_Sleep = FragmentSleep opt \<rparr> \<rparr>) (ob_Options base) \<rparr>)
      else base)"

definition isOutboundReality :: "profile_outbound \<Rightarrow> bool" where
  "isOutboundReality base \<longleftrightarrow> ob_Type base = ''vless'' \<and>
     (case as_tls (ob_Options base) of
        None \<Rightarrow> False
      | Some tls \<Rightarrow> tls_Enabled tls \<and> (case tls_Reality tls of None \<Rightarrow> False | Some on \<Rightarrow> on))"

text \<open>The new tricks are zero but for the mixed case; the branch guarded by the constant false is left out.\<close>

definition patchOutboundTLSTricks :: "hiddify_options \<Rightarrow> profile_outbound \<Rightarrow> profile_outbound" where
  "patchOutboundTLSTricks opt base =
     (if ob_Type base \<in> {''selector'', ''urltest'', ''block'', ''dns''} then base
      else if isOutboundReality base then base
      else (let tls = as_tls (ob_Options base); transport = value_transport (ob_Options base)
            in if ob_Type base = ''direct'' then patchOutboundFragment opt base
               else case (tls, transport) of
                 (Some tls, Some transport) \<Rightarrow>
                   if \<not> tls_Enabled tls then base
                   else if transport \<notin> {''ws'', ''grpc'', ''httpupgrade''} then base
                   else (let base = patchOutboundFragment opt base;
                             tricks = (case tls_Tricks tls of Some t \<Rightarrow> t
                               | None \<Rightarrow> \<lparr> MixedCaseSNI = False, PaddingMode = [], PaddingSize = [] \<rparr>)
                         in base\<lparr> ob_Options := set_tls (tls\<lparr> tls_Tricks := Some (tricks\<lparr> MixedCaseSNI :=
                              MixedCaseSNI tricks \<or> MixedSNICase opt \<rparr>) \<rparr>) (ob_Options base) \<rparr>)
               | _ \<Rightarrow> base))"

definition patchOutbound :: "hiddify_options \<Rightarrow> profile_outbound \<Rightarrow> profile_outbound" where
  "patchOutbound opt base = patchOutboundTLSTricks opt base"

definition patchHiddifyWarpFromConfig :: "hiddify_options \<Rightarrow> profile_outbound \<Rightarrow> profile_outbound" where
  "patchHiddifyWarpFromConfig opt out =
     (if ob_Type out = ''psiphon'' then out
      else if EnableWarp opt \<and> WarpMode opt = ''proxy_over_warp''
      then (case as_dialer (ob_Options out) of
              None \<Rightarrow> out
            | Some dialer \<Rightarrow> out\<lparr> ob_Options := replace_dialer (dialer\<lparr> dl_Detour := WARPConfigTag \<rparr>) (ob_Options out) \<rparr>)
      else out)"

section \<open>Patching an endpoint\<close>

text \<open>
  The answers of the resolver, and the random WARP host of each family and the port drawn for an endpoint.
  The cache of resolved hosts is state of the process.
\<close>

record network_env =
  net_lookup :: "string \<Rightarrow> string list"
  net_v4 :: "string \<Rightarrow> string"
  net_v6 :: "string \<Rightarrow> string"
  net_port :: "string \<Rightarrow> 16 word"

type_synonym ip_maps = "(string, string list) go_map"

definition has_prefix :: "string \<Rightarrow> string \<Rightarrow> bool" where
  "has_prefix s p \<longleftrightarrow> take (length p) s = p"

definition isBlockedIP :: "string \<Rightarrow> bool" where
  "isBlockedIP ip \<longleftrightarrow> has_prefix ip ''10.'' \<or> has_prefix ip ''2001:4188:2:600:10''"

text \<open>An empty result is stored as nil, which reads as no entry.\<close>

definition getIPs :: "network_env \<Rightarrow> ip_maps \<Rightarrow> string \<Rightarrow> string list \<times> ip_maps" where
  "getIPs net ips domain =
     (let res = filter (\<lambda>ip. \<not> isBlockedIP ip) (net_lookup net domain); known = get_or [] ips domain
      in if res = [] \<and> known \<noteq> [] then (known, ips) else (res, AList.update domain res ips))"

definition isBlockedDomain :: "network_env \<Rightarrow> ip_maps \<Rightarrow> string \<Rightarrow> bool \<times> ip_maps" where
  "isBlockedDomain net ips domain =
     (if has_prefix ''full:'' domain then (False, ips)
      else if str_contains ''instagram'' domain \<or> str_contains ''facebook'' domain
        \<or> str_contains ''telegram'' domain \<or> str_contains ''t.me'' domain then (True, ips)
      else (case getIPs net ips domain of (found, ips) \<Rightarrow> (found = [], ips)))"

definition warp_hosts :: "string set" where
  "warp_hosts = {''default'', ''random'', ''auto'', ''auto4'', ''auto6''}"

definition warp_host :: "network_env \<Rightarrow> string \<Rightarrow> string \<Rightarrow> string" where
  "warp_host net t host =
     (let host = (if host \<noteq> ''auto4'' \<and> host = ''auto6'' then net_v6 net t else host)
      in if host \<noteq> ''auto6'' then net_v4 net t else host)"

definition patch_wireguard :: "network_env \<Rightarrow> ip_maps \<Rightarrow> string \<Rightarrow> wg_options \<Rightarrow> wg_options \<times> ip_maps" where
  "patch_wireguard net ips t w =
     (let peers = (if wg_Peers w = [] then [\<lparr> pe_Address = ''auto'', pe_Port = 0, pe_PublicKey = [] \<rparr>] else wg_Peers w);
          peer = hd peers;
          host = (if pe_Address peer \<noteq> [] then pe_Address peer else ''auto'');
          (blocked, ips) = (if host \<in> warp_hosts then (True, ips) else isBlockedDomain net ips host);
          peer = (if blocked then peer\<lparr> pe_Address := warp_host net t host \<rparr> else peer);
          peer = (if pe_Port peer = 0 then peer\<lparr> pe_Port := net_port net t \<rparr> else peer);
          w = w\<lparr> wg_Peers := peer # tl peers \<rparr>
      in (if wg_Detour w \<noteq> [] then w\<lparr> wg_MTU := (if wg_MTU w < 100 then 1280 else wg_MTU w), wg_Noise := None \<rparr> else w,
          ips))"

text \<open>\<open>patchWarp\<close> in the final pass; what follows its first return is not reached.\<close>

definition patchEndpoint :: "network_env \<Rightarrow> ip_maps \<Rightarrow> endpoint \<Rightarrow> endpoint \<times> ip_maps" where
  "patchEndpoint net ips base =
     (case ep_Options base of
        WARPOptions w \<Rightarrow>
          (if ep_Type base = ''warp''
           then (base\<lparr> ep_Options := WARPOptions (w\<lparr> wo_Server := [], wo_ServerPort := 0,
                   wo_ProfileDetour := OutboundDirectFragmentTag \<rparr>) \<rparr>, ips)
           else (base, ips))
      | WireGuardOptions w \<Rightarrow>
          (if ep_Type base = ''wireguard''
           then (case patch_wireguard net ips (ep_Tag base) w of
                   (w, ips) \<Rightarrow> (base\<lparr> ep_Options := WireGuardOptions w \<rparr>, ips))
           else (base, ips))
      | OtherEndpoint \<Rightarrow> (base, ips))"

definition GenerateWarpSingboxNew :: "string \<Rightarrow> endpoint" where
  "GenerateWarpSingboxNew uniqueIdentifier = \<lparr> ep_Type = ''warp'', ep_Tag = ''WARP'',
     ep_Options = WARPOptions \<lparr> wo_UniqueIdentifier = uniqueIdentifier, wo_Server = [], wo_ServerPort = 0,
       wo_ProfileDetour = OutboundSelectTag, wo_Detour = [], wo_MTU = 1280 \<rparr> \<rparr>"

section \<open>The loops\<close>

type_synonym outbound_state = "profile_outbound list \<times> string list \<times> bool"

definition outbound_step :: "hiddify_options \<Rightarrow> profile_outbound \<Rightarrow> outbound_state \<Rightarrow> outbound_state" where
  "outbound_step opt out s =
     (case s of (outbounds, tags, hasPsiphon) \<Rightarrow>
        if ob_Tag out \<in> set PredefinedOutboundTags then s
        else (let out = patchOutbound opt out
              in if ob_Type out \<in> {''block'', ''dns'', ''selector'', ''urltest'', ''custom''} then s
                 else if ob_Tag out \<in> {''direct'', ''bypass'', ''block''} then s
                 else if ob_Type out = ''psiphon'' \<and> hasPsiphon then s
                 else (outbounds @ [patchHiddifyWarpFromConfig opt out],
                       if str_contains (mark ''hide'') (ob_Tag out) then tags else tags @ [ob_Tag out],
                       hasPsiphon \<or> ob_Type out = ''psiphon'')))"

text \<open>The endpoint of the built-in WARP, and the MTU it asks for.\<close>

definition builtin_warp :: "hiddify_options \<Rightarrow> endpoint \<times> hiddify_options" where
  "builtin_warp opt =
     (let out = (GenerateWarpSingboxNew ''p1'')\<lparr> ep_Tag := WARPConfigTag \<rparr>
      in case ep_Options out of
           WARPOptions w \<Rightarrow>
             if WarpMode opt = ''warp_over_proxy''
             then (out\<lparr> ep_Options := WARPOptions (w\<lparr> wo_Detour := OutboundSelectTag, wo_MTU := 1280 \<rparr>) \<rparr>, opt)
             else (out\<lparr> ep_Options := WARPOptions (w\<lparr> wo_Detour := OutboundDirectTag \<rparr>) \<rparr>,
                   opt\<lparr> ho_MTU := max (ho_MTU opt) 1340 \<rparr>)
         | _ \<Rightarrow> (out, opt))"

record endpoint_state =
  es_opt :: hiddify_options
  es_ips :: ip_maps
  es_tags :: "string list"
  es_endpoints :: "endpoint list"

definition is_own_warp :: "hiddify_options \<Rightarrow> endpoint \<Rightarrow> bool" where
  "is_own_warp opt e =
     (case ep_Options e of
        WARPOptions w \<Rightarrow> ep_Type e = ''warp'' \<and> wo_UniqueIdentifier w = ''p1''
      | WireGuardOptions w \<Rightarrow> ep_Type e = ''wireguard'' \<and> wg_PrivateKey w = WarpPrivateKey opt
      | OtherEndpoint \<Rightarrow> False)"

definition is_warp_kind :: "endpoint \<Rightarrow> bool" where
  "is_warp_kind e =
     (case ep_Options e of
        WARPOptions w \<Rightarrow> ep_Type e = ''warp''
      | WireGuardOptions w \<Rightarrow> ep_Type e = ''wireguard''
      | OtherEndpoint \<Rightarrow> False)"

definition endpoint_step :: "network_env \<Rightarrow> endpoint \<Rightarrow> endpoint_state \<Rightarrow> endpoint_state" where
  "endpoint_step net e s =
     (let opt = es_opt s
      in if ep_Tag e \<in> set PredefinedOutboundTags then s
         else if EnableWarp opt \<and> is_own_warp opt e then s
         else (let opt = (if EnableWarp opt \<and> is_warp_kind e \<and> WarpMode opt = ''warp_over_proxy''
                     then opt\<lparr> ho_MTU := max (ho_MTU opt) 1340 \<rparr> else opt);
                   (out, ips) = patchEndpoint net (es_ips s) e
               in s\<lparr> es_opt := opt, es_ips := ips,
                    es_tags := (if str_contains (mark ''hide'') (ep_Tag out) then es_tags s else es_tags s @ [ep_Tag out]),
                    es_endpoints := es_endpoints s @ [out] \<rparr>))"

section \<open>The groups\<close>

definition no_debug :: debug_options where
  "no_debug = \<lparr> SmartActiveDebugForceStatus = [], SmartActiveDebugForceError = [],
     SmartActiveDebugForceDegradation = 0, SmartActiveDebugRuntimePenalty = 0,
     SmartActiveDebugRealUserPenalty = 0, SmartActiveDebugForceCandidate = [], SmartActiveDebugCandidateScore = 0 \<rparr>"

definition url_test_outbound :: "hiddify_options \<Rightarrow> string list \<Rightarrow> profile_outbound" where
  "url_test_outbound opt tags = \<lparr> ob_Type = ''balancer'', ob_Tag = OutboundURLTestTag,
     ob_Options = BalancerOptions \<lparr> bl_Outbounds = tags, bl_Strategy = ''lowest-delay'', bl_DelayAcceptableRatio = 2,
       bl_Tolerance = 1, bl_InterruptExistConnections = False, bl_MaxRetry = 0, bl_IPv6Mode = IPv6Mode opt,
       bl_IPv6CapabilityTTL = minutes 10, bl_debug = no_debug \<rparr> \<rparr>"

definition balancer_outbound :: "hiddify_options \<Rightarrow> string list \<Rightarrow> profile_outbound" where
  "balancer_outbound opt tags =
     (let strategy = (if BalancerStrategy opt = [] then ''round-robin'' else BalancerStrategy opt)
      in \<lparr> ob_Type = ''balancer'', ob_Tag = OutboundRoundRobinTag,
           ob_Options = BalancerOptions \<lparr> bl_Outbounds = tags, bl_Strategy = strategy, bl_DelayAcceptableRatio = 2,
             bl_Tolerance = 1, bl_InterruptExistConnections = (strategy = ''smart-active-auto''), bl_MaxRetry = 0,
             bl_IPv6Mode = IPv6Mode opt, bl_IPv6CapabilityTTL = minutes 10, bl_debug = ho_debug opt \<rparr> \<rparr>)"

definition selector_outbound :: "hiddify_options \<Rightarrow> string list \<Rightarrow> string \<Rightarrow> bool \<Rightarrow> profile_outbound" where
  "selector_outbound opt tags defaultSelect preferDefault = \<lparr> ob_Type = ''selector'', ob_Tag = OutboundSelectTag,
     ob_Options = SelectorOptions \<lparr> sl_Outbounds = tags, sl_Default = defaultSelect,
       sl_ZeonPreferDefault = preferDefault, sl_InterruptExistConnections = False, sl_IPv6Mode = IPv6Mode opt,
       sl_IPv6CapabilityTTL = minutes 10 \<rparr> \<rparr>"

definition plain_dialer :: dialer_options where
  "plain_dialer = \<lparr> dl_Detour = [], BindInterface = [], Inet4BindAddress = None, Inet6BindAddress = None,
     RoutingMark = 0, NetNs = [], TCPFastOpen = False,
     TLSFragment = \<lparr> fo_Enabled = False, fo_Size = [], fo_Sleep = [] \<rparr> \<rparr>"

definition direct_outbounds :: "hiddify_options \<Rightarrow> profile_outbound list" where
  "direct_outbounds opt =
     [\<lparr> ob_Type = ''direct'', ob_Tag = OutboundDirectTag,
        ob_Options = Stored \<lparr> so_type = OtherOptions, so_pointer = True, so_dialer = Some plain_dialer, so_tls = None,
          so_transport = None \<rparr> \<rparr>,
      \<lparr> ob_Type = ''direct'', ob_Tag = OutboundDirectFragmentTag,
        ob_Options = Stored \<lparr> so_type = OtherOptions, so_pointer = True,
          so_dialer = Some (plain_dialer\<lparr> TLSFragment := \<lparr> fo_Enabled = True, fo_Size = FragmentSize opt,
            fo_Sleep = FragmentSleep opt \<rparr> \<rparr>), so_tls = None, so_transport = None \<rparr> \<rparr>]"

text \<open>
  The list of the selector and its default: \<open>tags\<close> is not empty; the group tags come first when there is a
  choice.
\<close>

definition selector_choice :: "hiddify_options \<Rightarrow> string \<Rightarrow> string list \<Rightarrow> string list \<times> string \<times> bool" where
  "selector_choice opt main tags =
     (let defaultSelect = (if list_ex (str_contains (mark ''default'')) tags then mark ''default'' else hd tags);
          (selectorTags, defaultSelect) =
            (if length tags > 1
             then if main = WARPConfigTag then (OutboundURLTestTag # tags, OutboundURLTestTag)
                  else (OutboundURLTestTag # OutboundRoundRobinTag # tags, OutboundRoundRobinTag)
             else (tags, defaultSelect))
      in if PreferredSelectorOutbound opt \<in> set selectorTags
         then (selectorTags, PreferredSelectorOutbound opt, True)
         else (selectorTags, defaultSelect, False))"

record built_outbounds =
  bo_Endpoints :: "endpoint list"
  bo_Outbounds :: "profile_outbound list"
  bo_main :: string
  bo_opt :: hiddify_options
  bo_ips :: ip_maps

text \<open>The loops over the profile: the outbounds, the tags to choose from, and the state of the endpoint loop.\<close>

definition collect :: "network_env \<Rightarrow> ip_maps \<Rightarrow> hiddify_options \<Rightarrow> profile \<Rightarrow> profile_outbound list \<times> endpoint_state" where
  "collect net ips opt input =
     (let (outbounds, tags, hasPsiphon) = fold (outbound_step opt) (in_Outbounds input) ([], [], False);
          s = (if EnableWarp opt
               then (let (out, opt) = builtin_warp opt; (out, ips) = patchEndpoint net ips out
                     in \<lparr> es_opt = opt, es_ips = ips, es_tags = tags, es_endpoints = [out] \<rparr>)
               else \<lparr> es_opt = opt, es_ips = ips, es_tags = tags, es_endpoints = [] \<rparr>)
      in (outbounds, fold (endpoint_step net) (in_Endpoints input) s))"

definition setOutbounds :: "network_env \<Rightarrow> ip_maps \<Rightarrow> hiddify_options \<Rightarrow> profile \<Rightarrow> built_outbounds outcome" where
  "setOutbounds net ips opt input =
     (let main = (if EnableWarp opt then WARPConfigTag else OutboundSelectTag);
          (outbounds, s) = collect net ips opt input;
          opt = es_opt s; tags = es_tags s
      in if tags = [] then Panicked
         else (let groups = (if length tags > 1
                     then (if main = WARPConfigTag then [url_test_outbound opt tags]
                           else [balancer_outbound opt tags, url_test_outbound opt tags]) else []);
                   (selectorTags, defaultSelect, preferDefault) = selector_choice opt main tags
               in Returned \<lparr> bo_Endpoints = es_endpoints s,
                    bo_Outbounds = selector_outbound opt selectorTags defaultSelect preferDefault # groups
                      @ outbounds @ direct_outbounds opt,
                    bo_main = main, bo_opt = opt, bo_ips = es_ips s \<rparr>))"

text \<open>Only outbounds are examined.\<close>

definition binds_socket :: "dialer_options \<Rightarrow> bool" where
  "binds_socket d \<longleftrightarrow> BindInterface d \<noteq> [] \<or> Inet4BindAddress d \<noteq> None \<or> Inet6BindAddress d \<noteq> None
     \<or> RoutingMark d \<noteq> 0 \<or> NetNs d \<noteq> []"

definition validateAndroidProtectCompatibility :: "bool \<Rightarrow> string \<Rightarrow> profile_outbound list \<Rightarrow> bool" where
  "validateAndroidProtectCompatibility android defaultInterface outbounds \<longleftrightarrow> \<not> android \<or>
     defaultInterface = [] \<and>
     list_all (\<lambda>ob. case as_dialer (ob_Options ob) of None \<Rightarrow> True | Some d \<Rightarrow> \<not> binds_socket d) outbounds"

end
