(* ===== verification/Config_Dns.thy ===== *)
theory Config_Dns
  imports Config_Outbounds
begin

text \<open>
  \<open>v2/config/dns.go\<close>: the DNS servers of the configuration. The parsers of URLs, IP addresses, socket
  addresses and numbers are arguments; \<open>None\<close> is an error or an invalid result.
\<close>

section \<open>Addresses\<close>

record parsed_url =
  url_Scheme :: string
  url_Host :: string
  url_Hostname :: string
  url_Port :: string
  url_Path :: string
  url_String :: string

record parsed_ip =
  ip_Is4 :: bool
  ip_Is6 :: bool
  ip_String :: string

record parsed_sock =
  sk_AddrString :: string
  sk_Port :: "16 word"

record parsers =
  parse_url :: "string \<Rightarrow> parsed_url option"
  parse_addr :: "string \<Rightarrow> parsed_ip option"
  is_ip :: "string \<Rightarrow> bool"
  parse_sock :: "string \<Rightarrow> parsed_sock option"
  atoi :: "string \<Rightarrow> int option"

definition DNSRemoteTag :: string where "DNSRemoteTag = ''dns-remote''"
definition DNSRemoteTagFallback :: string where "DNSRemoteTagFallback = ''dns-remote-fallback''"
definition DNSIPv6CapabilityBootstrapTag :: string where
  "DNSIPv6CapabilityBootstrapTag = ''dns-ipv6-capability-bootstrap''"
definition DNSLocalTag :: string where "DNSLocalTag = ''dns-local''"
definition DNSStaticTag :: string where "DNSStaticTag = ''dns-static''"
definition DNSDirectTag :: string where "DNSDirectTag = ''dns-direct''"
definition DNSTricksDirectTag :: string where "DNSTricksDirectTag = ''dns-trick-direct''"

definition trim_brackets :: "string \<Rightarrow> string" where
  "trim_brackets s = (let front = dropWhile (\<lambda>c. c \<in> set ''[]'') s
     in rev (dropWhile (\<lambda>c. c \<in> set ''[]'') (rev front)))"

definition getDnsAddress :: "string \<Rightarrow> string" where
  "getDnsAddress d = (if \<not> str_contains ''://'' d then ''udp://'' @ d else d)"

text \<open>\<open>None\<close> is the error.\<close>

definition getHostnameIfNotIP :: "parsers \<Rightarrow> string \<Rightarrow> string option" where
  "getHostnameIfNotIP ps inp =
     (if inp = [] then None
      else if is_ip ps (trim_brackets inp) then None
      else (let inp2 = (if \<not> str_contains ''://'' inp then ''http://'' @ inp else inp)
            in case parse_url ps inp2 of
                 None \<Rightarrow> Some inp
               | Some u \<Rightarrow> if is_ip ps (trim_brackets (url_Host u)) then None else Some (url_Host u)))"

datatype dns_error = NoIPv6Resolver | NoIPv6Peer string | InvalidIPv6Address | CustomIPv4Port
  | InvalidServerAddress | UnknownRcode string | UnsupportedScheme string

definition ipv6DoHAddressByIPv4 :: "(string, string) go_map" where
  "ipv6DoHAddressByIPv4 = [(''1.1.1.1'', ''https://cloudflare-dns.com/dns-query''),
     (''1.0.0.1'', ''https://cloudflare-dns.com/dns-query''), (''8.8.8.8'', ''https://dns.google/dns-query''),
     (''8.8.4.4'', ''https://dns.google/dns-query'')]"

text \<open>The part from \<open>url.Parse\<close> on.\<close>

definition ipv6_only_url :: "parsers \<Rightarrow> string \<Rightarrow> dns_error + string" where
  "ipv6_only_url ps address =
     (case parse_url ps (getDnsAddress address) of
        None \<Rightarrow> Inl InvalidIPv6Address
      | Some serverURL \<Rightarrow>
          if url_Hostname serverURL = [] then Inl InvalidIPv6Address
          else case parse_addr ps (url_Hostname serverURL) of
            None \<Rightarrow> Inr (url_String serverURL)
          | Some ip \<Rightarrow>
              if \<not> ip_Is4 ip then Inr (url_String serverURL)
              else case map_of ipv6DoHAddressByIPv4 (ip_String ip) of
                None \<Rightarrow> Inl (NoIPv6Peer (ip_String ip))
              | Some mapped \<Rightarrow>
                  if url_Port serverURL \<notin> {[], ''53'', ''443''} then Inl CustomIPv4Port else Inr mapped)"

definition ipv6OnlyRemoteDNSAddress :: "parsers \<Rightarrow> string \<Rightarrow> dns_error + string" where
  "ipv6OnlyRemoteDNSAddress ps address =
     (let address = TrimSpace address
      in if address = [] \<or> address = ''local'' then Inl NoIPv6Resolver
         else case parse_addr ps (trim_brackets address) of
           None \<Rightarrow> ipv6_only_url ps address
         | Some ip \<Rightarrow>
             if ip_Is6 ip then Inr (''udp://['' @ ip_String ip @ '']'')
             else if map_of ipv6DoHAddressByIPv4 (ip_String ip) = None then Inl (NoIPv6Peer (ip_String ip))
             else ipv6_only_url ps (''udp://'' @ ip_String ip))"

section \<open>One server\<close>

record remote_dns =
  rd_Detour :: string
  rd_DomainResolver :: string
  rd_Strategy :: domain_strategy
  rd_Server :: string
  rd_ServerPort :: "16 word"
  rd_ConnectTimeout :: duration
  rd_DisableTCPKeepAlive :: bool

record https_dns = remote_dns +
  hd_Path :: string
  hd_Fragment :: bool
  hd_FragmentFallbackDelay :: duration

datatype dns_server_kind = LocalDNS remote_dns | RemoteDNS remote_dns | TLSDNS remote_dns | HTTPSDNS https_dns
  | RcodeDNS nat | DHCPDNS string | FakeIPDNS string string | HostsDNS "(string \<times> string list) list"

record dns_server_options =
  ds_Tag :: string
  ds_Type :: string
  ds_Options :: dns_server_kind

text \<open>What \<open>strings.Split\<close> leaves after the last separator.\<close>

fun after_last :: "string \<Rightarrow> string \<Rightarrow> string" where
  "after_last sep [] = []"
| "after_last sep (c # cs) =
     (if str_contains sep cs then after_last sep cs
      else if has_prefix (c # cs) sep then drop (length sep) (c # cs)
      else after_last sep cs)"

definition server_of :: "parsers \<Rightarrow> string \<Rightarrow> 16 word \<Rightarrow> remote_dns \<Rightarrow> dns_error + remote_dns" where
  "server_of ps host defaultPort o1 =
     (case parse_sock ps host of
        None \<Rightarrow> Inl InvalidServerAddress
      | Some serverAddr \<Rightarrow> Inr (o1\<lparr> rd_Server := sk_AddrString serverAddr,
          rd_ServerPort := (if sk_Port serverAddr \<noteq> 0 \<and> sk_Port serverAddr \<noteq> defaultPort
            then sk_Port serverAddr else rd_ServerPort o1) \<rparr>))"

definition https_of :: "parsers \<Rightarrow> string \<Rightarrow> parsed_url \<Rightarrow> remote_dns \<Rightarrow> https_dns" where
  "https_of ps dnsurl serverURL o1 =
     (let fragment = str_contains ''#fragment='' dnsurl
      in remote_dns.extend o1 \<lparr> hd_Path = (if url_Path serverURL \<noteq> ''/dns-query'' then url_Path serverURL else []),
           hd_Fragment = fragment,
           hd_FragmentFallbackDelay = (if fragment
             then (case atoi ps (after_last ''#fragment='' dnsurl) of
                     Some delay \<Rightarrow> if delay \<ge> 0 then delay * 1000000 else 0 | None \<Rightarrow> 0)
             else 0) \<rparr>)"

definition rcodes :: "(string, nat) go_map" where
  "rcodes = [(''success'', 0), (''format_error'', 1), (''server_failure'', 2), (''name_error'', 3),
     (''not_implemented'', 4), (''refused'', 5)]"

definition getDNSServerOptions :: "parsers \<Rightarrow> string \<Rightarrow> string \<Rightarrow> string \<Rightarrow> string \<Rightarrow> domain_strategy
    \<Rightarrow> dns_error + dns_server_options" where
  "getDNSServerOptions ps t dnsurl domain_resolver detour strategy =
     (let serverURL = parse_url ps dnsurl;
          scheme = (case serverURL of Some u \<Rightarrow> url_Scheme u | None \<Rightarrow> []);
          serverType = (if scheme \<noteq> [] then scheme
            else if dnsurl = ''local'' \<or> dnsurl = ''fakeip'' then dnsurl else ''udp'');
          res = (case getHostnameIfNotIP ps dnsurl of Some h \<Rightarrow> h | None \<Rightarrow> []);
          o1 = \<lparr> rd_Detour = detour, rd_DomainResolver = (if res = [] then [] else domain_resolver),
            rd_Strategy = strategy, rd_Server = [], rd_ServerPort = 0, rd_ConnectTimeout = 0,
            rd_DisableTCPKeepAlive = False \<rparr>;
          server = (\<lambda>kind. \<lparr> ds_Tag = t, ds_Type = serverType, ds_Options = kind \<rparr>)
      in if serverType = ''local'' then Inr (server (LocalDNS o1))
         else if serverType = ''udp''
         then map_sum id (\<lambda>o1. server (RemoteDNS (o1\<lparr> rd_ConnectTimeout := seconds 5, rd_DisableTCPKeepAlive := True \<rparr>)))
           (server_of ps (case serverURL of Some u \<Rightarrow> if url_Scheme u = [] then dnsurl else url_Host u
              | None \<Rightarrow> dnsurl) 53 o1)
         else if serverType = ''fakeip'' then Inr (server (FakeIPDNS [] []))
         else case serverURL of
           None \<Rightarrow> Inl (if serverType \<in> {''tcp'', ''tls'', ''quic'', ''https'', ''h3'', ''rcode'', ''dhcp''}
             then InvalidServerAddress else UnsupportedScheme serverType)
         | Some u \<Rightarrow>
             if serverType = ''tcp'' then map_sum id (\<lambda>o1. server (RemoteDNS o1)) (server_of ps (url_Host u) 53 o1)
             else if serverType = ''tls'' \<or> serverType = ''quic''
             then map_sum id (\<lambda>o1. server (TLSDNS o1)) (server_of ps (url_Host u) 853 o1)
             else if serverType = ''https'' \<or> serverType = ''h3''
             then map_sum id (\<lambda>o1. server (HTTPSDNS (https_of ps dnsurl u o1))) (server_of ps (url_Host u) 443 o1)
             else if serverType = ''rcode''
             then (case map_of rcodes (url_Host u) of
                     None \<Rightarrow> Inl (UnknownRcode (url_Host u))
                   | Some rcode \<Rightarrow> Inr \<lparr> ds_Tag = t, ds_Type = ''legacy_rcode'', ds_Options = RcodeDNS rcode \<rparr>)
             else if serverType = ''dhcp''
             then Inr (server (DHCPDNS (if url_Host u \<noteq> [] \<and> url_Host u \<noteq> ''auto'' then url_Host u else [])))
             else Inl (UnsupportedScheme serverType))"

section \<open>All servers\<close>

record dns_build =
  db_IndependentCache :: bool
  db_Final :: string
  db_ReverseMapping :: bool
  db_Servers :: "dns_server_options list"

record dns_settings =
  RemoteDnsAddress :: string
  DirectDnsAddress :: string
  IndependentDNSCache :: bool

definition bind_result :: "'e + 'a \<Rightarrow> ('a \<Rightarrow> 'e + 'b) \<Rightarrow> 'e + 'b" where
  "bind_result r f = (case r of Inl e \<Rightarrow> Inl e | Inr x \<Rightarrow> f x)"

text \<open>The remote address, its fallback and the strategy of their resolver, with the server for the bootstrap.\<close>

definition remote_addresses :: "parsers \<Rightarrow> domain_strategy \<Rightarrow> string \<Rightarrow> dns_error + string \<times> string \<times> domain_strategy" where
  "remote_addresses ps mode remote =
     (let strict = (mode = DomainStrategyIPv6Only);
          fallback_of = (\<lambda>remote. if getDnsAddress remote = ''https://8.8.8.8/dns-query''
            then ''https://1.0.0.1/dns-query'' else ''https://8.8.8.8/dns-query'')
      in if strict
         then bind_result (ipv6OnlyRemoteDNSAddress ps remote) (\<lambda>remote.
                bind_result (ipv6OnlyRemoteDNSAddress ps (fallback_of remote)) (\<lambda>fallback.
                  Inr (remote, fallback, DomainStrategyIPv6Only)))
         else Inr (remote, fallback_of remote, DomainStrategyPreferIPv4))"

definition bootstrap_server :: "parsers \<Rightarrow> string \<Rightarrow> domain_strategy \<Rightarrow> string \<Rightarrow> dns_error + dns_server_options list" where
  "bootstrap_server ps main mode remote =
     (if mode = DomainStrategyIPv6Only
      then map_sum id (\<lambda>s. [s]) (getDNSServerOptions ps DNSIPv6CapabilityBootstrapTag remote DNSDirectTag main
             DomainStrategyPreferIPv4)
      else Inr [])"

definition direct_detour :: "string \<Rightarrow> string" where
  "direct_detour address =
     (if has_prefix address ''udp://'' \<or> \<not> str_contains ''://'' address then [] else OutboundDirectFragmentTag)"

text \<open>The static hosts are empty in every call; \<open>warp\<close> is \<open>OutboundWARPConfigDetour\<close>.\<close>

definition setDns :: "parsers \<Rightarrow> bool \<Rightarrow> string \<Rightarrow> string \<Rightarrow> dns_settings \<Rightarrow> routing_options \<Rightarrow> dns_error + dns_build" where
  "setDns ps ios main warp st opt =
     bind_result (bootstrap_server ps main (IPv6Mode opt) (RemoteDnsAddress st)) (\<lambda>bootstrap.
     bind_result (remote_addresses ps (IPv6Mode opt) (RemoteDnsAddress st)) (\<lambda>(remote, fallback, strategy).
     bind_result (getDNSServerOptions ps DNSRemoteTag (getDnsAddress remote) DNSDirectTag main strategy) (\<lambda>remote_dns.
     bind_result (getDNSServerOptions ps DNSRemoteTagFallback fallback DNSDirectTag main strategy) (\<lambda>remote_dns_fallback.
     bind_result (getDNSServerOptions ps DNSRemoteNoWarpTag remote DNSDirectTag warp strategy) (\<lambda>remote_no_warp_dns.
     bind_result (getDNSServerOptions ps DNSDirectTag (DirectDnsAddress st) DNSLocalTag
       (direct_detour (DirectDnsAddress st)) DomainStrategyPreferIPv4) (\<lambda>direct_dns.
     bind_result (getDNSServerOptions ps DNSTricksDirectTag ''https://dns.cloudflare.com/dns-query#fragment=300''
       DNSDirectTag OutboundDirectFragmentTag DomainStrategyPreferIPv4) (\<lambda>trick_dns.
     bind_result (getDNSServerOptions ps DNSLocalTag ''local'' [] [] DomainStrategyPreferIPv4) (\<lambda>local_dns.
       Inr \<lparr> db_IndependentCache = (IndependentDNSCache st \<and> \<not> ios), db_Final = DNSMultiRemoteTag,
          db_ReverseMapping = (Region opt = ''ru''),
          db_Servers = [\<lparr> ds_Tag = DNSStaticTag, ds_Type = ''hosts'', ds_Options = HostsDNS [] \<rparr>, remote_dns,
              remote_dns_fallback, trick_dns, direct_dns, local_dns, remote_no_warp_dns]
            @ (if fakeDNSEnabled opt then [\<lparr> ds_Tag = DNSFakeTag, ds_Type = ''fakeip'',
                ds_Options = FakeIPDNS ''198.18.0.0/15'' ''fc00::/18'' \<rparr>] else [])
            @ bootstrap \<rparr>))))))))"

end
