(* ===== verification/Config_Build.thy ===== *)
theory Config_Build
  imports Config_Dns
begin

text \<open>
  \<open>BuildConfig\<close> of \<open>v2/config/builder.go\<close>: the test URLs, the monitoring section, the inbounds and the MTU,
  and the composition of all parts. Environment variables, the platform and the parsers are arguments.
\<close>

section \<open>Connection tests\<close>

definition zeonBackendHealthURL :: string where "zeonBackendHealthURL = ''https://api.zeon-vps.online/health''"

definition isBlockedConnectionTestUrl :: "parsers \<Rightarrow> network_env \<Rightarrow> ip_maps \<Rightarrow> string \<Rightarrow> bool \<times> ip_maps" where
  "isBlockedConnectionTestUrl ps net ips d =
     (case parse_url ps d of None \<Rightarrow> (False, ips) | Some u \<Rightarrow> isBlockedDomain net ips (url_Host u))"

definition add_url :: "string \<Rightarrow> string list \<Rightarrow> string list" where
  "add_url testURL urls = (if testURL = [] \<or> testURL \<in> set urls then urls else urls @ [testURL])"

definition ensureBackendHealthConnectionTest :: "parsers \<Rightarrow> network_env \<Rightarrow> ip_maps \<Rightarrow> hiddify_options
    \<Rightarrow> hiddify_options \<times> ip_maps" where
  "ensureBackendHealthConnectionTest ps net ips hopt =
     (let (configured, ips) =
        (if ConnectionTestUrls hopt = []
         then (case isBlockedConnectionTestUrl ps net ips (ConnectionTestUrl hopt) of
                 (blocked, ips) \<Rightarrow> (if blocked then [ConnectionTestUrl hopt]
                   else [ConnectionTestUrl hopt, ''https://zeon-vps.link/generate_204'',
                     ''http://captive.apple.com/generate_204'', ''https://cp.cloudflare.com'',
                     ''https://google.com/generate_204''], ips))
         else (ConnectionTestUrls hopt, ips))
      in (hopt\<lparr> ConnectionTestUrls := fold add_url configured [zeonBackendHealthURL] \<rparr>, ips))"

section \<open>Monitoring\<close>

record udp_settings =
  ud_Endpoint :: string
  ud_Secret :: string
  ud_Count :: int
  ud_Size :: int
  ud_IntervalMs :: int
  ud_TimeoutMs :: int
  ud_CooldownSec :: int
  ud_TopN :: int

record monitoring_options =
  mn_URLs :: "string list"
  mn_Interval :: duration
  mn_DebounceWindow :: duration
  mn_IdleTimeout :: duration
  mn_UDPProbeEnabled :: bool
  mn_UDPProbeEndpoint :: string
  mn_UDPProbeSecret :: string
  mn_UDPProbeCount :: int
  mn_UDPProbeSize :: int
  mn_UDPProbeInterval :: duration
  mn_UDPProbeTimeout :: duration
  mn_UDPProbeCooldown :: duration
  mn_UDPProbeTopN :: int
  mn_IPv6Mode :: domain_strategy
  mn_IPv6CapabilityTTL :: duration

record experimental =
  ex_monitoring :: monitoring_options
  ex_clash :: "(string \<times> string) option"

definition parseEnvBool :: "(string \<Rightarrow> string) \<Rightarrow> string \<Rightarrow> bool" where
  "parseEnvBool getenv key \<longleftrightarrow>
     (let v = go_lower (TrimSpace (getenv key)) in v = ''1'' \<or> v = ''true'' \<or> v = ''yes'' \<or> v = ''on'')"

definition envOrDefault :: "(string \<Rightarrow> string) \<Rightarrow> string \<Rightarrow> string \<Rightarrow> string" where
  "envOrDefault getenv key fallback =
     (let v = TrimSpace (getenv key) in if v = [] then fallback else v)"

text \<open>\<open>clash\<close> is the controller address and secret, \<open>random\<close> the secret drawn when none is set.\<close>

definition setExperimental :: "(string \<Rightarrow> string) \<Rightarrow> string \<Rightarrow> udp_settings \<Rightarrow> string \<times> string \<Rightarrow> hiddify_options
    \<Rightarrow> experimental option" where
  "setExperimental getenv random ud clash hopt =
     (let capabilityMonitoringRequired = (IPv6Mode hopt = DomainStrategyPreferIPv4
            \<or> IPv6Mode hopt = DomainStrategyPreferIPv6 \<or> IPv6Mode hopt = DomainStrategyIPv6Only);
          interval = seconds (URLTestInterval hopt)
      in if EnableClashApi hopt \<or> capabilityMonitoringRequired
         then Some \<lparr> ex_monitoring = \<lparr> mn_URLs = ConnectionTestUrls hopt, mn_Interval = interval,
             mn_DebounceWindow = 500 * 1000000, mn_IdleTimeout = interval * 3,
             mn_UDPProbeEnabled = (UDPProbeEnabled hopt \<or> parseEnvBool getenv ''ZEON_UDP_PROBE_ENABLED''),
             mn_UDPProbeEndpoint = envOrDefault getenv ''ZEON_UDP_PROBE_ENDPOINT'' (ud_Endpoint ud),
             mn_UDPProbeSecret = envOrDefault getenv ''ZEON_UDP_PROBE_SECRET'' (ud_Secret ud),
             mn_UDPProbeCount = ud_Count ud, mn_UDPProbeSize = ud_Size ud,
             mn_UDPProbeInterval = ud_IntervalMs ud * 1000000, mn_UDPProbeTimeout = ud_TimeoutMs ud * 1000000,
             mn_UDPProbeCooldown = seconds (ud_CooldownSec ud), mn_UDPProbeTopN = ud_TopN ud,
             mn_IPv6Mode = IPv6Mode hopt, mn_IPv6CapabilityTTL = minutes 10 \<rparr>,
           ex_clash = (if EnableClashApi hopt then Some (fst clash, if snd clash = [] then random else snd clash)
             else None) \<rparr>
         else None)"

section \<open>MTU\<close>

definition dynamicMTUForTransport :: "string \<Rightarrow> 32 word" where
  "dynamicMTUForTransport transport =
     (let t = go_lower (TrimSpace transport)
      in if t = ''cellular'' then 1380 else if t = ''wifi'' \<or> t = ''ethernet'' then 1460 else 1400)"

definition clampMTU :: "32 word \<Rightarrow> 32 word" where
  "clampMTU mtu = (if mtu < 576 then 576 else if mtu > 9000 then 9000 else mtu)"

text \<open>The conversion of the interface MTU keeps 32 bits.\<close>

definition resolveEffectiveTunMTU :: "hiddify_options \<Rightarrow> 32 word" where
  "resolveEffectiveTunMTU hopt =
     (let mode = go_lower (TrimSpace (NetworkMtuMode hopt));
          mode = (if mode = [] then ''dynamic'' else mode);
          effective =
            (if mode = ''dynamic''
             then (if NetworkInterfaceMTU hopt > 0 then word_of_int (NetworkInterfaceMTU hopt)
                   else dynamicMTUForTransport (NetworkTransportType hopt))
             else if mode \<in> {''fixed'', ''manual'', ''static''}
             then (if ho_MTU hopt = 0 then 1500 else ho_MTU hopt)
             else if ho_MTU hopt = 0 then dynamicMTUForTransport (NetworkTransportType hopt) else ho_MTU hopt)
      in clampMTU effective)"

section \<open>Inbounds\<close>

record platform =
  IsAndroid :: bool
  IsIos :: bool
  IsDarwin :: bool
  IsLinux :: bool
  IsAdmin :: bool
  ResolvesIPv6Loopback :: bool

datatype inbound = TunInbound string "32 word" "string list" | ListenInbound string string string "16 word"
  | OtherInbound string

definition isIPv6Supported :: "platform \<Rightarrow> bool" where
  "isIPv6Supported pf \<longleftrightarrow> IsIos pf \<or> IsDarwin pf \<or> ResolvesIPv6Loopback pf"

definition listen_inbounds :: "platform \<Rightarrow> hiddify_options \<Rightarrow> string \<Rightarrow> inbound list" where
  "listen_inbounds pf hopt bind_to =
     [ListenInbound ''mixed'' (''mixed-in'' @ bind_to) bind_to (MixedPort hopt)]
     @ (if IsLinux pf \<and> \<not> IsAndroid pf \<and> TProxyPort hopt > 0 \<and> IsAdmin pf
        then [ListenInbound ''tproxy'' (''tproxy-in'' @ bind_to) bind_to (TProxyPort hopt)] else [])
     @ (if (IsLinux pf \<or> IsDarwin pf) \<and> \<not> IsAndroid pf \<and> RedirectPort hopt > 0
        then [ListenInbound ''redirect'' (''redirect-in'' @ bind_to) bind_to (RedirectPort hopt)] else [])
     @ (if DirectPort hopt > 0
        then [ListenInbound ''direct'' (''dns-in'' @ bind_to) bind_to (DirectPort hopt)] else [])"

text \<open>The stack, route and proxy switches of the options are copied and left out.\<close>

definition setInbound :: "platform \<Rightarrow> hiddify_options \<Rightarrow> inbound list \<Rightarrow> inbound list" where
  "setInbound pf hopt inbounds =
     (let ipv6Enable = (isIPv6Supported pf \<and> IPv6Mode hopt \<noteq> DomainStrategyIPv4Only);
          tun = (if EnableTun hopt
            then [TunInbound ''tun-in'' (resolveEffectiveTunMTU hopt)
              (''172.19.0.1/28'' # (if ipv6Enable then [''fdfe:dcba:9876::1/126''] else []))] else []);
          binds = (if AllowConnectionFromLAN hopt then (if ipv6Enable then [''::''] else [''0.0.0.0''])
            else (if ipv6Enable then [''::1''] else []) @ [''127.0.0.1''])
      in inbounds @ tun @ concat (map (listen_inbounds pf hopt) binds))"

section \<open>The whole\<close>

datatype build_error = DnsFailed dns_error | ProtectConflict

record build_env =
  be_parsers :: parsers
  be_net :: network_env
  be_platform :: platform
  be_getenv :: "string \<Rightarrow> string"
  be_random :: string
  be_udp :: udp_settings
  be_clash :: "string \<times> string"
  be_dns :: dns_settings
  be_baseline :: bool
  be_embedded :: "headless_rule list option"
  be_bundle :: "bundle_error + managed_rule_set list"

record built_config =
  bc_experimental :: "experimental option"
  bc_inbounds :: "inbound list"
  bc_outbounds :: built_outbounds
  bc_dns :: dns_build
  bc_routing :: built_routing

text \<open>
  \<open>inbounds\<close> are the inbounds of the profile, which are kept when the full configuration is enabled. The DNS and
  route sections of the profile are replaced in any case. No NTP service is set.
\<close>

definition BuildConfig :: "build_env \<Rightarrow> ip_maps \<Rightarrow> inbound list \<Rightarrow> hiddify_options \<Rightarrow> profile
    \<Rightarrow> (build_error + built_config) outcome" where
  "BuildConfig env ips inbounds hopt input =
     (let kept = (if EnableFullConfig hopt then inbounds else []);
          (hopt, ips) = ensureBackendHealthConnectionTest (be_parsers env) (be_net env) ips hopt
      in case setOutbounds (be_net env) ips hopt input of
           Panicked \<Rightarrow> Panicked
         | Returned b \<Rightarrow> Returned
             (let ropt = routing_options.truncate (bo_opt b)
              in case setDns (be_parsers env) (IsIos (be_platform env)) (bo_main b) OutboundDirectFragmentTag
                   (be_dns env) ropt of
                   Inl err \<Rightarrow> Inl (DnsFailed err)
                 | Inr dns \<Rightarrow>
                     if validateAndroidProtectCompatibility (IsAndroid (be_platform env)) [] (bo_Outbounds b)
                     then Inr \<lparr> bc_experimental = setExperimental (be_getenv env) (be_random env) (be_udp env)
                           (be_clash env) hopt,
                         bc_inbounds = setInbound (be_platform env) hopt kept, bc_outbounds = b, bc_dns = dns,
                         bc_routing = setRoutingOptions \<lparr> env_main = bo_main b, env_baseline = be_baseline env,
                           env_ntp = None, env_embedded = be_embedded env,
                           env_host_of = getHostnameIfNotIP (be_parsers env), env_bundle = be_bundle env \<rparr> ropt \<rparr>
                     else Inl ProtectConflict))"

end
