(* ===== verification/Outbound_Facts.thy ===== *)
theory Outbound_Facts
  imports Config_Outbounds "HOL-Library.Sublist"
begin

text \<open>
  What \<open>setOutbounds\<close> builds: the outbounds and endpoints it keeps, the tags it offers, and how the groups
  find their members.
\<close>

section \<open>Patching keeps the identity\<close>

lemma patched_fields [simp]:
  "ob_Tag (patchOutboundFragment opt o1) = ob_Tag o1" "ob_Type (patchOutboundFragment opt o1) = ob_Type o1"
  "ob_Tag (patchOutbound opt o1) = ob_Tag o1" "ob_Type (patchOutbound opt o1) = ob_Type o1"
  "ob_Tag (patchHiddifyWarpFromConfig opt o1) = ob_Tag o1" "ob_Type (patchHiddifyWarpFromConfig opt o1) = ob_Type o1"
  by (simp_all add: patchOutbound_def patchOutboundTLSTricks_def patchOutboundFragment_def
      patchHiddifyWarpFromConfig_def Let_def split: option.split)

text \<open>A pointer has no value transport, a value no TLS wrapper: the tricks never get past the first test.\<close>

lemma tls_and_value_transport: "as_tls opts = None \<or> value_transport opts = None"
  by (cases opts) auto

lemma patch_keeps_servers: "ob_Type o1 \<noteq> ''direct'' \<Longrightarrow> patchOutbound opt o1 = o1"
  using tls_and_value_transport [of "ob_Options o1"]
  by (auto simp: patchOutbound_def patchOutboundTLSTricks_def Let_def split: option.split)

lemma patched_endpoint:
  assumes "patchEndpoint net ips e = (e', ips')"
  shows "ep_Tag e' = ep_Tag e \<and> ep_Type e' = ep_Type e"
  using assms by (auto simp: patchEndpoint_def split: endpoint_options.splits if_splits prod.splits)

section \<open>The loops\<close>

definition keepable :: "profile_outbound \<Rightarrow> bool" where
  "keepable o1 \<longleftrightarrow> ob_Tag o1 \<notin> set PredefinedOutboundTags \<union> {''direct'', ''bypass'', ''block''}
     \<and> ob_Type o1 \<notin> {''block'', ''dns'', ''selector'', ''urltest'', ''custom''}"

abbreviation (input) hides :: "string \<Rightarrow> bool" where "hides t \<equiv> str_contains (mark ''hide'') t"

definition built_from :: "hiddify_options \<Rightarrow> profile_outbound \<Rightarrow> profile_outbound" where
  "built_from opt o1 = patchHiddifyWarpFromConfig opt (patchOutbound opt o1)"

lemma built_from_fields [simp]: "ob_Tag (built_from opt o1) = ob_Tag o1" "ob_Type (built_from opt o1) = ob_Type o1"
  by (simp_all add: built_from_def)

lemma outbound_step_cases:
  "outbound_step opt o1 (outs, tags, p) = (outs, tags, p) \<or>
   keepable o1 \<and> outbound_step opt o1 (outs, tags, p) =
     (outs @ [built_from opt o1], tags @ filter (\<lambda>t. \<not> hides t) [ob_Tag o1], p \<or> ob_Type o1 = ''psiphon'')"
  by (simp add: outbound_step_def keepable_def built_from_def Let_def)

lemma outbound_fold:
  assumes "fold (outbound_step opt) xs (outs, tags, p) = (outs', tags', p')"
  shows "\<exists>kept. subseq kept xs \<and> list_all keepable kept \<and> outs' = outs @ map (built_from opt) kept
    \<and> tags' = tags @ filter (\<lambda>t. \<not> hides t) (map ob_Tag kept)"
  using assms
proof (induction xs arbitrary: outs tags p)
  case Nil
  then show ?case by simp
next
  case (Cons o1 xs)
  show ?case
  proof (cases "outbound_step opt o1 (outs, tags, p) = (outs, tags, p)")
    case True
    then obtain kept where k: "subseq kept xs" "list_all keepable kept" "outs' = outs @ map (built_from opt) kept"
      "tags' = tags @ filter (\<lambda>t. \<not> hides t) (map ob_Tag kept)"
      using Cons.IH [of outs tags p] Cons.prems by auto
    have "subseq kept (o1 # xs)" using k(1) by (rule list_emb_Cons)
    then show ?thesis using k by blast
  next
    case False
    then have step: "keepable o1" "outbound_step opt o1 (outs, tags, p) =
        (outs @ [built_from opt o1], tags @ filter (\<lambda>t. \<not> hides t) [ob_Tag o1], p \<or> ob_Type o1 = ''psiphon'')"
      using outbound_step_cases by blast+
    have "fold (outbound_step opt) xs (outs @ [built_from opt o1], tags @ filter (\<lambda>t. \<not> hides t) [ob_Tag o1],
        p \<or> ob_Type o1 = ''psiphon'') = (outs', tags', p')"
      using Cons.prems step(2) by (simp del: filter.simps)
    from Cons.IH [OF this] obtain kept where k: "subseq kept xs" "list_all keepable kept"
      "outs' = (outs @ [built_from opt o1]) @ map (built_from opt) kept"
      "tags' = (tags @ filter (\<lambda>t. \<not> hides t) [ob_Tag o1]) @ filter (\<lambda>t. \<not> hides t) (map ob_Tag kept)"
      by blast
    have "subseq (o1 # kept) (o1 # xs)" "list_all keepable (o1 # kept)"
      "outs' = outs @ map (built_from opt) (o1 # kept)"
      "tags' = tags @ filter (\<lambda>t. \<not> hides t) (map ob_Tag (o1 # kept))"
      using k step(1) by simp_all
    then show ?thesis by blast
  qed
qed

definition endpoints_kept :: "endpoint_state \<Rightarrow> endpoint list \<Rightarrow> endpoint_state \<Rightarrow> bool" where
  "endpoints_kept s kept s' \<longleftrightarrow> list_all (\<lambda>e. ep_Tag e \<notin> set PredefinedOutboundTags) kept
     \<and> map ep_Tag (es_endpoints s') = map ep_Tag (es_endpoints s) @ map ep_Tag kept
     \<and> es_tags s' = es_tags s @ filter (\<lambda>t. \<not> hides t) (map ep_Tag kept)
     \<and> (\<exists>m. es_opt s' = (es_opt s)\<lparr> ho_MTU := m \<rparr>)"

lemma endpoints_kept_refl: "endpoints_kept s [] s"
  by (auto simp: endpoints_kept_def intro: exI [of _ "ho_MTU (es_opt s)"])

lemma endpoints_kept_trans:
  "endpoints_kept s k s1 \<Longrightarrow> endpoints_kept s1 k' s2 \<Longrightarrow> endpoints_kept s (k @ k') s2"
  by (auto simp: endpoints_kept_def)

lemma endpoint_step_cases: "endpoint_step net e s = s \<or> endpoints_kept s [e] (endpoint_step net e s)"
proof -
  obtain e' ips' where p: "patchEndpoint net (es_ips s) e = (e', ips')" by fastforce
  have "ep_Tag e' = ep_Tag e" using patched_endpoint [OF p] by simp
  moreover have "\<exists>m. es_opt s = (es_opt s)\<lparr> ho_MTU := m \<rparr>"
    by (rule exI [of _ "ho_MTU (es_opt s)"]) simp
  ultimately show ?thesis
    by (auto simp: endpoint_step_def endpoints_kept_def p Let_def)
qed

lemma endpoint_fold: "\<exists>kept. subseq kept xs \<and> endpoints_kept s kept (fold (endpoint_step net) xs s)"
proof (induction xs arbitrary: s)
  case Nil
  then show ?case using endpoints_kept_refl by (intro exI [of _ "[]"]) simp
next
  case (Cons e xs)
  obtain kept where rest: "subseq kept xs"
    "endpoints_kept (endpoint_step net e s) kept (fold (endpoint_step net) xs (endpoint_step net e s))"
    using Cons.IH by blast
  show ?case
  proof (cases "endpoint_step net e s = s")
    case True
    then show ?thesis using rest by (intro exI [of _ kept]) auto
  next
    case False
    then have "endpoints_kept s [e] (endpoint_step net e s)" using endpoint_step_cases by blast
    from endpoints_kept_trans [OF this rest(2)] show ?thesis
      using rest(1) by (intro exI [of _ "e # kept"]) simp
  qed
qed

section \<open>The result\<close>

definition collected :: "hiddify_options \<Rightarrow> profile \<Rightarrow> profile_outbound list \<Rightarrow> endpoint list \<Rightarrow> bool" where
  "collected opt input ko ke \<longleftrightarrow> subseq ko (in_Outbounds input) \<and> list_all keepable ko \<and>
     subseq ke (in_Endpoints input) \<and> list_all (\<lambda>e. ep_Tag e \<notin> set PredefinedOutboundTags) ke"

definition offered :: "profile_outbound list \<Rightarrow> endpoint list \<Rightarrow> string list" where
  "offered ko ke = filter (\<lambda>t. \<not> hides t) (map ob_Tag ko @ map ep_Tag ke)"

lemma builtin_warp_result:
  assumes "builtin_warp opt = (out, opt')"
  shows "ep_Tag out = WARPConfigTag \<and> (\<exists>m. opt' = opt\<lparr> ho_MTU := m \<rparr>)"
proof -
  have "\<exists>m. opt = opt\<lparr> ho_MTU := m \<rparr>" by (rule exI [of _ "ho_MTU opt"]) simp
  then show ?thesis
    using assms by (auto simp: builtin_warp_def GenerateWarpSingboxNew_def Let_def split: if_splits)
qed

lemma collect_result:
  assumes "collect net ips opt input = (outs, s)"
  shows "\<exists>ko ke m. collected opt input ko ke \<and> outs = map (built_from opt) ko \<and> es_tags s = offered ko ke
    \<and> map ep_Tag (es_endpoints s) = (if EnableWarp opt then [WARPConfigTag] else []) @ map ep_Tag ke
    \<and> es_opt s = opt\<lparr> ho_MTU := m \<rparr>"
proof -
  obtain tags p where f: "fold (outbound_step opt) (in_Outbounds input) ([], [], False) = (outs, tags, p)"
    using assms by (auto simp: collect_def Let_def split: prod.splits)
  obtain ko where ko: "subseq ko (in_Outbounds input)" "list_all keepable ko" "outs = map (built_from opt) ko"
    "tags = filter (\<lambda>t. \<not> hides t) (map ob_Tag ko)"
    using outbound_fold [OF f] by auto
  obtain s0 where s: "s = fold (endpoint_step net) (in_Endpoints input) s0" and s0: "es_tags s0 = tags"
    "map ep_Tag (es_endpoints s0) = (if EnableWarp opt then [WARPConfigTag] else [])"
    "\<exists>m. es_opt s0 = opt\<lparr> ho_MTU := m \<rparr>"
  proof (cases "EnableWarp opt")
    case True
    obtain out opt' where w: "builtin_warp opt = (out, opt')" by fastforce
    obtain out' ips' where e: "patchEndpoint net ips out = (out', ips')" by fastforce
    show ?thesis
      by (rule that [of "\<lparr> es_opt = opt', es_ips = ips', es_tags = tags, es_endpoints = [out'] \<rparr>"])
        (use assms f w e True builtin_warp_result [OF w] patched_endpoint [OF e] in
          \<open>auto simp: collect_def Let_def\<close>)
  next
    case False
    have "\<exists>m. opt = opt\<lparr> ho_MTU := m \<rparr>" by (rule exI [of _ "ho_MTU opt"]) simp
    then show ?thesis
      by (intro that [of "\<lparr> es_opt = opt, es_ips = ips, es_tags = tags, es_endpoints = [] \<rparr>"])
        (use assms f False in \<open>auto simp: collect_def Let_def\<close>)
  qed
  obtain ke where ke: "subseq ke (in_Endpoints input)" "endpoints_kept s0 ke s"
    using endpoint_fold s by blast
  have "collected opt input ko ke" using ko ke by (simp add: collected_def endpoints_kept_def)
  moreover have "es_tags s = offered ko ke" using ko(4) ke(2) s0(1) by (simp add: offered_def endpoints_kept_def)
  moreover have "map ep_Tag (es_endpoints s) = (if EnableWarp opt then [WARPConfigTag] else []) @ map ep_Tag ke"
    using ke(2) s0(2) by (simp add: endpoints_kept_def)
  moreover obtain m where "es_opt s = opt\<lparr> ho_MTU := m \<rparr>" using ke(2) s0(3) by (auto simp: endpoints_kept_def)
  ultimately show ?thesis
    using ko(3) by blast
qed

definition group_outbounds :: "hiddify_options \<Rightarrow> string list \<Rightarrow> profile_outbound list" where
  "group_outbounds opt tags =
     (if length tags > 1
      then (if EnableWarp opt then [url_test_outbound opt tags]
            else [balancer_outbound opt tags, url_test_outbound opt tags]) else [])"

definition main_tag :: "hiddify_options \<Rightarrow> string" where
  "main_tag opt = (if EnableWarp opt then WARPConfigTag else OutboundSelectTag)"

lemma main_is_warp: "main_tag opt = WARPConfigTag \<longleftrightarrow> EnableWarp opt"
  by (simp add: main_tag_def WARPConfigTag_def OutboundSelectTag_def)

text \<open>The shape of every configuration that is built.\<close>

lemma setOutbounds_result:
  assumes "setOutbounds net ips opt input = Returned b"
  shows "\<exists>ko ke m. collected opt input ko ke \<and> offered ko ke \<noteq> [] \<and> bo_main b = main_tag opt
    \<and> bo_opt b = opt\<lparr> ho_MTU := m \<rparr>
    \<and> map ep_Tag (bo_Endpoints b) = (if EnableWarp opt then [WARPConfigTag] else []) @ map ep_Tag ke
    \<and> bo_Outbounds b = (case selector_choice opt (main_tag opt) (offered ko ke) of (ts, d, p) \<Rightarrow>
        selector_outbound (bo_opt b) ts d p # group_outbounds (bo_opt b) (offered ko ke)
        @ map (built_from opt) ko @ direct_outbounds (bo_opt b))"
proof -
  obtain outs s where c: "collect net ips opt input = (outs, s)" by fastforce
  obtain ko ke m where r: "collected opt input ko ke" "outs = map (built_from opt) ko" "es_tags s = offered ko ke"
    "map ep_Tag (es_endpoints s) = (if EnableWarp opt then [WARPConfigTag] else []) @ map ep_Tag ke"
    "es_opt s = opt\<lparr> ho_MTU := m \<rparr>"
    using collect_result [OF c] by blast
  have choice: "selector_choice (opt\<lparr> ho_MTU := m \<rparr>) main ts = selector_choice opt main ts" for main ts
    by (simp add: selector_choice_def)
  have tags: "offered ko ke \<noteq> []" and main: "bo_main b = main_tag opt" and opt: "bo_opt b = opt\<lparr> ho_MTU := m \<rparr>"
    and ends: "bo_Endpoints b = es_endpoints s"
    and outbounds: "bo_Outbounds b = (case selector_choice opt (main_tag opt) (offered ko ke) of (ts, d, p) \<Rightarrow>
        selector_outbound (bo_opt b) ts d p # group_outbounds (bo_opt b) (offered ko ke)
        @ map (built_from opt) ko @ direct_outbounds (bo_opt b))"
    using assms
    by (auto simp: setOutbounds_def c r(2,3,5) choice main_tag_def [symmetric] main_is_warp group_outbounds_def Let_def
        split: if_splits prod.splits)
  have "map ep_Tag (bo_Endpoints b) = (if EnableWarp opt then [WARPConfigTag] else []) @ map ep_Tag ke"
    using r(4) ends by simp
  then show ?thesis using r(1) tags main opt outbounds by blast
qed

section \<open>Tags\<close>

definition built_tags :: "built_outbounds \<Rightarrow> string list" where
  "built_tags b = map ob_Tag (bo_Outbounds b) @ map ep_Tag (bo_Endpoints b)"

definition profile_tags :: "profile \<Rightarrow> string list" where
  "profile_tags input = map ob_Tag (in_Outbounds input) @ map ep_Tag (in_Endpoints input)"

fun members :: "any_options \<Rightarrow> string list" where
  "members (SelectorOptions sl) = sl_Outbounds sl"
| "members (BalancerOptions bl) = bl_Outbounds bl"
| "members (Stored _) = []"

lemma group_fields [simp]:
  "ob_Tag (selector_outbound opt ts d p) = OutboundSelectTag" "ob_Tag (url_test_outbound opt ts) = OutboundURLTestTag"
  "ob_Tag (balancer_outbound opt ts) = OutboundRoundRobinTag"
  "members (ob_Options (selector_outbound opt ts d p)) = ts" "members (ob_Options (url_test_outbound opt ts)) = ts"
  "members (ob_Options (balancer_outbound opt ts)) = ts"
  "map ob_Tag (direct_outbounds opt) = [OutboundDirectTag, OutboundDirectFragmentTag]"
  by (simp_all add: selector_outbound_def url_test_outbound_def balancer_outbound_def direct_outbounds_def Let_def)

lemma own_tags_distinct: "distinct (OutboundRoundRobinTag # PredefinedOutboundTags)"
  by (simp add: PredefinedOutboundTags_def OutboundRoundRobinTag_def OutboundDirectTag_def OutboundBypassTag_def
      OutboundSelectTag_def OutboundURLTestTag_def OutboundDNSTag_def OutboundDirectFragmentTag_def WARPConfigTag_def
      hidden_def)

lemma subseq_distinct: "subseq xs ys \<Longrightarrow> distinct ys \<Longrightarrow> distinct xs"
  by (induction rule: list_emb.induct) (auto dest: list_emb_set)

lemma collected_tags:
  assumes "collected opt input ko ke"
  shows "subseq (map ob_Tag ko @ map ep_Tag ke) (profile_tags input)"
    and "set (map ob_Tag ko @ map ep_Tag ke) \<inter> set PredefinedOutboundTags = {}"
proof -
  have "subseq (map ob_Tag ko) (map ob_Tag (in_Outbounds input))" "subseq (map ep_Tag ke) (map ep_Tag (in_Endpoints input))"
    using assms by (auto simp: collected_def intro: subseq_map)
  then show "subseq (map ob_Tag ko @ map ep_Tag ke) (profile_tags input)"
    unfolding profile_tags_def by (rule list_emb_append_mono)
  show "set (map ob_Tag ko @ map ep_Tag ke) \<inter> set PredefinedOutboundTags = {}"
    using assms by (auto simp: collected_def keepable_def list_all_iff)
qed

lemma choice_members:
  assumes "selector_choice opt main tags = (ts, d, p)"
  shows "ts = (if length tags > 1 then (if main = WARPConfigTag then [OutboundURLTestTag]
      else [OutboundURLTestTag, OutboundRoundRobinTag]) else []) @ tags"
    and "p \<longleftrightarrow> PreferredSelectorOutbound opt \<in> set ts"
    and "p \<Longrightarrow> d = PreferredSelectorOutbound opt"
    and "tags \<noteq> [] \<Longrightarrow> d \<in> set ts \<or> \<not> p \<and> d = mark ''default'' \<and> ts = tags \<and> length tags = 1
      \<and> str_contains (mark ''default'') (hd tags)"
    and "length ts > 1 \<Longrightarrow> \<not> p \<Longrightarrow> d \<in> {OutboundURLTestTag, OutboundRoundRobinTag}"
  using assms by (cases tags; auto simp: selector_choice_def Let_def split: if_splits)+

lemma built_outbound_tags:
  assumes "bo_Outbounds b = (case selector_choice opt (main_tag opt) (offered ko ke) of (ts, d, p) \<Rightarrow>
        selector_outbound (bo_opt b) ts d p # group_outbounds (bo_opt b) (offered ko ke)
        @ map (built_from opt) ko @ direct_outbounds (bo_opt b))"
  shows "map ob_Tag (bo_Outbounds b) = OutboundSelectTag # map ob_Tag (group_outbounds (bo_opt b) (offered ko ke))
    @ map ob_Tag ko @ [OutboundDirectTag, OutboundDirectFragmentTag]"
  using assms by (auto simp: comp_def split: prod.splits)

lemma group_tags:
  "map ob_Tag (group_outbounds opt tags) = (if length tags > 1 then (if EnableWarp opt then [OutboundURLTestTag]
     else [OutboundRoundRobinTag, OutboundURLTestTag]) else [])"
  by (simp add: group_outbounds_def)

lemma built_distinct:
  assumes "setOutbounds net ips opt input = Returned b" and "distinct (profile_tags input)"
    and "OutboundRoundRobinTag \<notin> set (profile_tags input)"
  shows "distinct (built_tags b)"
proof -
  obtain ko ke m where r: "collected opt input ko ke"
    "map ep_Tag (bo_Endpoints b) = (if EnableWarp opt then [WARPConfigTag] else []) @ map ep_Tag ke"
    "bo_Outbounds b = (case selector_choice opt (main_tag opt) (offered ko ke) of (ts, d, p) \<Rightarrow>
        selector_outbound (bo_opt b) ts d p # group_outbounds (bo_opt b) (offered ko ke)
        @ map (built_from opt) ko @ direct_outbounds (bo_opt b))"
    using setOutbounds_result [OF assms(1)] by blast
  let ?t = "map ob_Tag ko @ map ep_Tag ke"
  have "distinct ?t" using collected_tags(1) [OF r(1)] assms(2) by (rule subseq_distinct)
  moreover have "OutboundRoundRobinTag \<notin> set ?t"
    using list_emb_set [OF collected_tags(1) [OF r(1)]] assms(3) by blast
  moreover have "set ?t \<inter> set PredefinedOutboundTags = {}" by (rule collected_tags(2) [OF r(1)])
  ultimately have "distinct (OutboundSelectTag # OutboundRoundRobinTag # OutboundURLTestTag # map ob_Tag ko
      @ [OutboundDirectTag, OutboundDirectFragmentTag] @ [WARPConfigTag] @ map ep_Tag ke)"
    using own_tags_distinct by (auto simp: PredefinedOutboundTags_def)
  then show ?thesis
    by (auto simp: built_tags_def built_outbound_tags [OF r(3)] r(2) group_tags)
qed

lemma built_from_members: "members (ob_Options (built_from opt o1)) = members (ob_Options o1)"
  by (cases "ob_Options o1")
    (auto simp: built_from_def patchHiddifyWarpFromConfig_def patchOutbound_def patchOutboundTLSTricks_def
      patchOutboundFragment_def Let_def split: option.split)

text \<open>The parts of a configuration, with the list of its selector.\<close>

lemma built_parts:
  assumes "setOutbounds net ips opt input = Returned b"
  obtains ko ts d p tags where "bo_Outbounds b = selector_outbound (bo_opt b) ts d p
      # group_outbounds (bo_opt b) tags @ map (built_from opt) ko @ direct_outbounds (bo_opt b)"
    and "selector_choice opt (main_tag opt) tags = (ts, d, p)" and "tags \<noteq> []"
    and "set ko \<subseteq> set (in_Outbounds input)" and "\<forall>o1 \<in> set ko. keepable o1" and "set tags \<subseteq> set (profile_tags input)"
    and "set ts \<union> set tags \<subseteq> set (built_tags b) - {OutboundSelectTag}"
proof -
  obtain ko ke m where r: "collected opt input ko ke" "bo_opt b = opt\<lparr> ho_MTU := m \<rparr>" "offered ko ke \<noteq> []"
    "map ep_Tag (bo_Endpoints b) = (if EnableWarp opt then [WARPConfigTag] else []) @ map ep_Tag ke"
    "bo_Outbounds b = (case selector_choice opt (main_tag opt) (offered ko ke) of (ts, d, p) \<Rightarrow>
        selector_outbound (bo_opt b) ts d p # group_outbounds (bo_opt b) (offered ko ke)
        @ map (built_from opt) ko @ direct_outbounds (bo_opt b))"
    using setOutbounds_result [OF assms(1)] by blast
  obtain ts d p where c: "selector_choice opt (main_tag opt) (offered ko ke) = (ts, d, p)" by (metis prod_cases3)
  let ?t = "map ob_Tag ko @ map ep_Tag ke"
  have tags: "set (offered ko ke) \<subseteq> set ?t" by (auto simp: offered_def)
  have "set ?t \<subseteq> set (built_tags b)"
    by (auto simp: built_tags_def built_outbound_tags [OF r(5)] r(4))
  moreover have "OutboundSelectTag \<notin> set ?t"
    using collected_tags(2) [OF r(1)] by (auto simp: PredefinedOutboundTags_def)
  ultimately have offered: "set (offered ko ke) \<subseteq> set (built_tags b) - {OutboundSelectTag}" using tags by blast
  moreover have "set (if length (offered ko ke) > 1 then (if main_tag opt = WARPConfigTag then [OutboundURLTestTag]
      else [OutboundURLTestTag, OutboundRoundRobinTag]) else []) \<subseteq> set (built_tags b) - {OutboundSelectTag}"
    using own_tags_distinct
    by (auto simp: built_tags_def built_outbound_tags [OF r(5)] group_tags r(2) main_is_warp PredefinedOutboundTags_def)
  ultimately have "set ts \<union> set (offered ko ke) \<subseteq> set (built_tags b) - {OutboundSelectTag}"
    unfolding choice_members(1) [OF c] by auto
  moreover have "set ko \<subseteq> set (in_Outbounds input)" "\<forall>o1 \<in> set ko. keepable o1"
    using r(1) by (auto simp: collected_def list_all_iff dest: list_emb_set)
  moreover have "set (offered ko ke) \<subseteq> set (profile_tags input)"
    using tags list_emb_set [OF collected_tags(1) [OF r(1)]] by blast
  ultimately show thesis
    using that [of ts d p "offered ko ke" ko] r(3,5) c by (simp del: set_append)
qed

lemma built_closed:
  assumes "setOutbounds net ips opt input = Returned b" and "ob \<in> set (bo_Outbounds b)"
  shows "set (members (ob_Options ob)) \<subseteq> set (built_tags b) - {OutboundSelectTag}
    \<or> (\<exists>o1 \<in> set (in_Outbounds input). keepable o1 \<and> ob = built_from opt o1)"
proof -
  have group: "ob \<in> set (group_outbounds opt' tags) \<Longrightarrow> members (ob_Options ob) = tags" for opt' tags
    by (auto simp: group_outbounds_def split: if_splits)
  have direct: "ob \<in> set (direct_outbounds opt') \<Longrightarrow> members (ob_Options ob) = []" for opt'
    by (auto simp: direct_outbounds_def)
  obtain ko ts d p tags where parts: "bo_Outbounds b = selector_outbound (bo_opt b) ts d p
      # group_outbounds (bo_opt b) tags @ map (built_from opt) ko @ direct_outbounds (bo_opt b)"
    "set ko \<subseteq> set (in_Outbounds input)" "\<forall>o1 \<in> set ko. keepable o1" "set ts \<union> set tags \<subseteq> set (built_tags b) - {OutboundSelectTag}"
    by (rule built_parts [OF assms(1)])
  then consider "ob = selector_outbound (bo_opt b) ts d p" | "ob \<in> set (group_outbounds (bo_opt b) tags)"
    | "ob \<in> built_from opt ` set ko" | "ob \<in> set (direct_outbounds (bo_opt b))"
    using assms(2) by auto
  then show ?thesis
  proof cases
    case 3
    then show ?thesis using parts(2,3) by blast
  qed (use parts(4) group direct in auto)
qed

section \<open>The start of the selector\<close>

lemma load_outbounds_total:
  "\<forall>t \<in> set ts. manager t \<noteq> None \<Longrightarrow>
   \<exists>outs'. load_outbounds manager i ts outs = Inr outs' \<and>
     (\<forall>t. map_of outs' t = (if t \<in> set ts then manager t else map_of outs t))"
proof (induction ts arbitrary: i outs)
  case (Cons t ts)
  then obtain detour where d: "manager t = Some detour" by auto
  obtain outs' where "load_outbounds manager (Suc i) ts (AList.update t detour outs) = Inr outs'"
    "\<forall>t'. map_of outs' t' = (if t' \<in> set ts then manager t' else map_of (AList.update t detour outs) t')"
    using Cons.IH Cons.prems by fastforce
  then show ?case using d by (intro exI [of _ outs']) (auto simp: update_conv)
qed simp

definition start_selector :: "selector_env \<Rightarrow> string \<Rightarrow> profile_outbound \<Rightarrow> selector_error + 'n selector" where
  "start_selector env session ob =
     (case ob_Options ob of
        SelectorOptions sl \<Rightarrow>
          (case NewSelector (ob_Tag ob) (sl_Outbounds sl) (sl_Default sl) (sl_ZeonPreferDefault sl)
              (sl_InterruptExistConnections sl) session (sl_IPv6Mode sl) (sl_IPv6CapabilityTTL sl) of
             Inl err \<Rightarrow> Inl err | Inr s \<Rightarrow> Selector_Start env s)
      | _ \<Rightarrow> Inl SelMissingTags)"

definition remembered :: "selector_env \<Rightarrow> string list \<Rightarrow> outbound option" where
  "remembered env ts = (case se_cache env of None \<Rightarrow> None
     | Some load \<Rightarrow> (let t = load OutboundSelectTag in if t \<noteq> [] \<and> t \<in> set ts then se_manager env t else None))"

lemma start_selector_result:
  assumes "\<forall>t \<in> set ts. se_manager env t \<noteq> None" and "ts \<noteq> []" and "d \<noteq> []" and "p \<Longrightarrow> d \<in> set ts"
  shows "(case (start_selector env session (selector_outbound opt ts d p) :: selector_error + 'n selector) of
      Inl err \<Rightarrow> \<not> p \<and> remembered env ts = None \<and> d \<notin> set ts \<and> err = SelDefaultNotFound d
    | Inr s \<Rightarrow> sel_selected s = (if p then se_manager env d
        else case remembered env ts of Some o1 \<Rightarrow> Some o1 | None \<Rightarrow> se_manager env d)
      \<and> (p \<or> remembered env ts \<noteq> None \<or> d \<in> set ts))"
proof -
  obtain outs where outs: "load_outbounds (se_manager env) 0 ts [] = Inr outs"
    "\<forall>t. map_of outs t = (if t \<in> set ts then se_manager env t else None)"
    using load_outbounds_total [OF assms(1), of 0 "[]"] by auto
  have tag: "OutboundSelectTag \<noteq> []" by (simp add: OutboundSelectTag_def)
  have cached: "cached_selection env s = remembered env ts"
    if "sel_tag s = OutboundSelectTag" "sel_outbounds s = outs" for s :: "'n selector"
    using that outs(2) tag by (auto simp: cached_selection_def remembered_def Let_def split: option.splits)
  have known: "d \<notin> set ts \<or> (\<exists>o1. se_manager env d = Some o1)" using assms(1) by auto
  then show ?thesis
    using assms(2-4) outs tag
    by (auto simp: start_selector_def selector_outbound_def NewSelector_def Selector_Start_def Let_def cached
        split: option.split)
qed

end
