(* ===== verification/Build_Facts.thy ===== *)
theory Build_Facts
  imports Config_Build Outbound_Facts
begin

text \<open>
  What holds of every configuration \<open>BuildConfig\<close> returns: its rules name only outbounds and DNS servers it
  declares, its test URLs start with the backend, its TUN has a usable MTU.
\<close>

section \<open>Rules name declared targets\<close>

definition targets_within :: "string set \<Rightarrow> string set \<Rightarrow> policy \<Rightarrow> bool" where
  "targets_within outs servers p \<longleftrightarrow>
     (\<forall>r \<in> set (fst (snd p)). \<forall>t. rule_action r = RouteTo t \<longrightarrow> t \<in> outs) \<and>
     (\<forall>r \<in> set (fst p). \<forall>d. dns_act r = DNSRoute d \<longrightarrow> dns_server d \<in> servers)"

definition fixed_servers :: "string set" where
  "fixed_servers = {DNSRemoteNoWarpTag, DNSMultiDirectTag, DNSMultiRemoteTag}"

lemma targets_simps [simp]:
  "targets_within outs servers (joined p q) \<longleftrightarrow> targets_within outs servers p \<and> targets_within outs servers q"
  "targets_within outs servers ([], [], s)"
  by (auto simp: targets_within_def)

lemma user_route_targets:
  "r \<in> set (buildUserRouteRules main rules) \<Longrightarrow> rule_action r = RouteTo t
    \<Longrightarrow> t \<in> {main, OutboundDirectTag, OutboundDirectFragmentTag}"
proof -
  have "toRouteActionForUserRule main c = RouteTo t \<Longrightarrow> t \<in> {main, OutboundDirectTag, OutboundDirectFragmentTag}" for c
    by (cases c) auto
  then show "r \<in> set (buildUserRouteRules main rules) \<Longrightarrow> rule_action r = RouteTo t
    \<Longrightarrow> t \<in> {main, OutboundDirectTag, OutboundDirectFragmentTag}"
    by (auto simp: buildUserRouteRules_def)
qed

lemma user_dns_targets:
  "r \<in> set (buildUserDNSRules rules hopt) \<Longrightarrow> dns_act r = DNSRoute d \<Longrightarrow> dns_server d \<in> fixed_servers"
  by (auto simp: buildUserDNSRules_def user_dns_action_def dns_to_def fixed_servers_def split: outbound_choice.splits)

lemma policy_server: "fst (ruDestinationDNSPolicy baseline hopt) \<in> fixed_servers"
  by (simp add: ruDestinationDNSPolicy_def fixed_servers_def Let_def)

definition declares :: "string \<Rightarrow> string set \<Rightarrow> string set \<Rightarrow> bool" where
  "declares main outs servers \<longleftrightarrow>
     {main, OutboundDirectTag, OutboundDirectFragmentTag} \<subseteq> outs \<and> fixed_servers \<subseteq> servers"

lemma user_targets:
  "declares main outs servers \<Longrightarrow>
   targets_within outs servers (buildUserDNSRules rules hopt, buildUserRouteRules main rules', s)"
  using user_route_targets user_dns_targets unfolding targets_within_def declares_def by fastforce

lemma managed_targets:
  "declares main outs servers \<Longrightarrow> targets_within outs servers (appendManagedRURouting main baseline hopt managed)"
proof (induction managed)
  case (Cons rs managed)
  have "targets_within outs servers (managed_policy main baseline hopt rs)"
    using Cons.prems policy_server [of baseline hopt]
    by (auto simp: managed_policy_def targets_within_def managedRUDNSRule_def managedRURouteRule_def ruleset_dns_def
        ruleset_route_def dns_to_def fixed_servers_def declares_def Let_def split: prod.splits)
  then show ?case using Cons by simp
qed simp

lemma stage_targets:
  assumes "declares main outs servers"
  shows "targets_within outs servers (base_policy main host_of hopt)"
    and "targets_within outs servers (appendInternalDirectRoutes ntp hopt)"
    and "targets_within outs servers (early_policy main hopt)"
    and "targets_within outs servers (lan_policy hopt)"
    and "targets_within outs servers (quic_policy hopt)"
    and "targets_within outs servers (ads_policy embedded managed hopt)"
    and "targets_within outs servers (country_policy hopt)"
  using assms user_targets [OF assms]
  by (auto simp: targets_within_def base_policy_def addForceDirect_def dns_to_def fixed_servers_def declares_def
      appendInternalDirectRoutes_def lan_policy_def quic_policy_def ads_policy_def ruleset_dns_def ruleset_route_def
      country_policy_def early_policy_def Let_def split: option.splits prod.splits)

lemma service_targets:
  assumes "declares main outs servers"
  shows "targets_within outs servers (appendRUServiceRoutingPolicy main baseline hopt policy)"
    and "targets_within outs servers (appendBundledRUDestinationRouting baseline hopt)"
  using assms policy_server [of baseline hopt]
  by (auto simp: targets_within_def appendRUServiceRoutingPolicy_def appendBundledRUDestinationRouting_def
      ruleset_dns_def ruleset_route_def dns_to_def fixed_servers_def declares_def Let_def split: prod.splits)

lemma region_targets:
  "declares main outs servers \<Longrightarrow> targets_within outs servers (region_policy main baseline managed hopt)"
  by (simp add: region_policy_def ru_policy_def managed_targets service_targets stage_targets user_targets)

lemma routing_targets:
  assumes "{env_main env, OutboundDirectTag, OutboundDirectFragmentTag} \<subseteq> outs"
    and "fixed_servers \<union> (if fakeDNSEnabled hopt then {DNSFakeTag} else {}) \<subseteq> servers"
  shows "bt_final (setRoutingOptions env hopt) \<in> outs"
    and "\<forall>r \<in> set (bt_rules (setRoutingOptions env hopt)). \<forall>t. rule_action r = RouteTo t \<longrightarrow> t \<in> outs"
    and "\<forall>r \<in> set (bt_dns (setRoutingOptions env hopt)). \<forall>d. dns_act r = DNSRoute d \<longrightarrow> dns_server d \<in> servers"
proof -
  have own: "declares (env_main env) outs servers" using assms by (auto simp: declares_def)
  let ?before = "policy_before_region env hopt"
  let ?region = "region_policy (env_main env) (env_baseline env) (managed_or_none env) hopt"
  have "targets_within outs servers ?before"
    unfolding policy_before_region_def
    by (simp add: stage_targets [OF own])
  moreover have "targets_within outs servers ?region" by (rule region_targets [OF own])
  moreover have "\<forall>r \<in> set (final_dns hopt). \<forall>d. dns_act r = DNSRoute d \<longrightarrow> dns_server d \<in> servers"
    using assms(2) by (auto simp: final_dns_def dns_to_def fixed_servers_def)
  ultimately show "bt_final (setRoutingOptions env hopt) \<in> outs"
    "\<forall>r \<in> set (bt_rules (setRoutingOptions env hopt)). \<forall>t. rule_action r = RouteTo t \<longrightarrow> t \<in> outs"
    "\<forall>r \<in> set (bt_dns (setRoutingOptions env hopt)). \<forall>d. dns_act r = DNSRoute d \<longrightarrow> dns_server d \<in> servers"
    using assms(1) unfolding targets_within_def built_fields by (simp_all add: ball_Un) blast+
qed

section \<open>DNS servers\<close>

fun kind_remote :: "dns_server_kind \<Rightarrow> remote_dns option" where
  "kind_remote (LocalDNS o1) = Some o1"
| "kind_remote (RemoteDNS o1) = Some o1"
| "kind_remote (TLSDNS o1) = Some o1"
| "kind_remote (HTTPSDNS o1) = Some (remote_dns.truncate o1)"
| "kind_remote _ = None"

lemma server_of_fields:
  "server_of ps host port o1 = Inr o2 \<Longrightarrow> rd_Detour o2 = rd_Detour o1 \<and> rd_DomainResolver o2 = rd_DomainResolver o1"
  by (auto simp: server_of_def split: option.splits)

lemma map_server_of:
  "map_sum id f (server_of ps host port o1) = Inr s \<longleftrightarrow> (\<exists>o2. server_of ps host port o1 = Inr o2 \<and> s = f o2)"
  by (cases "server_of ps host port o1") auto

lemma https_remote: "kind_remote (HTTPSDNS (https_of ps dnsurl u o1)) = Some o1"
  by (cases o1) (simp add: https_of_def remote_dns.defs Let_def)

lemma dns_server_fields:
  assumes "getDNSServerOptions ps t dnsurl resolver detour strategy = Inr s"
  shows "ds_Tag s = t \<and> (\<forall>r. kind_remote (ds_Options s) = Some r \<longrightarrow>
    rd_Detour r = detour \<and> rd_DomainResolver r \<in> {[], resolver})"
  using assms
  by (auto simp: getDNSServerOptions_def Let_def map_server_of https_remote simp del: kind_remote.simps(4)
      dest!: server_of_fields split: if_split_asm option.split_asm)

lemma bind_result_Inr: "bind_result r f = Inr y \<longleftrightarrow> (\<exists>x. r = Inr x \<and> f x = Inr y)"
  by (cases r) (auto simp: bind_result_def)

definition remote_within :: "string set \<Rightarrow> string set \<Rightarrow> dns_server_options \<Rightarrow> bool" where
  "remote_within detours resolvers s \<longleftrightarrow> (\<forall>r. kind_remote (ds_Options s) = Some r \<longrightarrow>
     rd_Detour r \<in> insert [] detours \<and> rd_DomainResolver r \<in> insert [] resolvers)"

lemma server_within:
  assumes "getDNSServerOptions ps t dnsurl resolver detour strategy = Inr s"
    and "detour \<in> insert [] detours" and "resolver \<in> insert [] resolvers"
  shows "remote_within detours resolvers s"
  using dns_server_fields [OF assms(1)] assms(2,3) by (auto simp: remote_within_def)

lemma bootstrap_within:
  assumes "bootstrap_server ps main mode remote = Inr ss" and "main \<in> detours" and "DNSDirectTag \<in> resolvers"
  shows "\<forall>s \<in> set ss. remote_within detours resolvers s"
  using assms server_within [of ps _ remote DNSDirectTag main]
  by (cases "getDNSServerOptions ps DNSIPv6CapabilityBootstrapTag remote DNSDirectTag main DomainStrategyPreferIPv4")
    (auto simp: bootstrap_server_def split: if_splits)

lemma setDns_result:
  assumes "setDns ps ios main warp st opt = Inr d"
  shows "set (map ds_Tag (db_Servers d)) \<supseteq> fixed_servers \<union> {DNSLocalTag}
      \<union> (if fakeDNSEnabled opt then {DNSFakeTag} else {})"
    and "\<forall>s \<in> set (db_Servers d). remote_within {main, warp, OutboundDirectFragmentTag} {DNSDirectTag, DNSLocalTag} s"
proof -
  let ?in = "remote_within {main, warp, OutboundDirectFragmentTag} {DNSDirectTag, DNSLocalTag}"
  obtain boot remote fallback strategy s1 s2 s3 s4 s5 s6 where s:
    "bootstrap_server ps main (IPv6Mode opt) (RemoteDnsAddress st) = Inr boot"
    "getDNSServerOptions ps DNSRemoteTag (getDnsAddress remote) DNSDirectTag main strategy = Inr s1"
    "getDNSServerOptions ps DNSRemoteTagFallback fallback DNSDirectTag main strategy = Inr s2"
    "getDNSServerOptions ps DNSRemoteNoWarpTag remote DNSDirectTag warp strategy = Inr s3"
    "getDNSServerOptions ps DNSDirectTag (DirectDnsAddress st) DNSLocalTag
       (direct_detour (DirectDnsAddress st)) DomainStrategyPreferIPv4 = Inr s4"
    "getDNSServerOptions ps DNSTricksDirectTag ''https://dns.cloudflare.com/dns-query#fragment=300''
       DNSDirectTag OutboundDirectFragmentTag DomainStrategyPreferIPv4 = Inr s5"
    "getDNSServerOptions ps DNSLocalTag ''local'' [] [] DomainStrategyPreferIPv4 = Inr s6"
    and servers: "db_Servers d = [\<lparr> ds_Tag = DNSStaticTag, ds_Type = ''hosts'', ds_Options = HostsDNS [] \<rparr>, s1,
              s2, s5, s4, s6, s3]
            @ (if fakeDNSEnabled opt then [\<lparr> ds_Tag = DNSFakeTag, ds_Type = ''fakeip'',
                ds_Options = FakeIPDNS ''198.18.0.0/15'' ''fc00::/18'' \<rparr>] else [])
            @ boot"
    using assms unfolding setDns_def bind_result_Inr by (clarsimp simp: bind_result_Inr)
  have tags: "ds_Tag s1 = DNSRemoteTag" "ds_Tag s3 = DNSRemoteNoWarpTag" "ds_Tag s4 = DNSDirectTag" "ds_Tag s6 = DNSLocalTag"
    using dns_server_fields [OF s(2)] dns_server_fields [OF s(4)] dns_server_fields [OF s(5)] dns_server_fields [OF s(7)]
    by simp_all
  show "set (map ds_Tag (db_Servers d)) \<supseteq> fixed_servers \<union> {DNSLocalTag}
      \<union> (if fakeDNSEnabled opt then {DNSFakeTag} else {})"
    by (simp add: servers tags fixed_servers_def DNSMultiDirectTag_def DNSMultiRemoteTag_def DNSRemoteTag_def
        DNSDirectTag_def)
  have detour: "direct_detour a \<in> insert [] {main, warp, OutboundDirectFragmentTag}" for a
    by (simp add: direct_detour_def)
  have "?in s1" by (rule server_within [OF s(2)]) simp_all
  moreover have "?in s2" by (rule server_within [OF s(3)]) simp_all
  moreover have "?in s3" by (rule server_within [OF s(4)]) simp_all
  moreover have "?in s4" by (rule server_within [OF s(5) detour]) simp
  moreover have "?in s5" by (rule server_within [OF s(6)]) simp_all
  moreover have "?in s6" by (rule server_within [OF s(7)]) simp_all
  moreover have "\<forall>s \<in> set boot. ?in s"
    by (rule bootstrap_within [OF s(1)]) simp_all
  ultimately show "\<forall>s \<in> set (db_Servers d). ?in s"
    by (auto simp: servers remote_within_def)
qed

lemma setDns_final: "setDns ps ios main warp st opt = Inr d \<Longrightarrow> db_Final d = DNSMultiRemoteTag"
  unfolding setDns_def by (clarsimp simp: bind_result_Inr)

section \<open>The parts of a build\<close>

lemma built_targets:
  assumes "setOutbounds net ips opt input = Returned b"
  shows "{bo_main b, OutboundDirectTag, OutboundDirectFragmentTag} \<subseteq> set (built_tags b)"
proof -
  obtain ko ke m where r: "bo_main b = main_tag opt"
    "map ep_Tag (bo_Endpoints b) = (if EnableWarp opt then [WARPConfigTag] else []) @ map ep_Tag ke"
    "bo_Outbounds b = (case selector_choice opt (main_tag opt) (offered ko ke) of (ts, d, p) \<Rightarrow>
        selector_outbound (bo_opt b) ts d p # group_outbounds (bo_opt b) (offered ko ke)
        @ map (built_from opt) ko @ direct_outbounds (bo_opt b))"
    using setOutbounds_result [OF assms] by blast
  show ?thesis
    by (auto simp: built_tags_def built_outbound_tags [OF r(3)] r(1,2) main_tag_def)
qed

lemma build_parts:
  assumes "BuildConfig env ips inbounds hopt input = Returned (Inr c)"
  obtains hopt' ips' where "ensureBackendHealthConnectionTest (be_parsers env) (be_net env) ips hopt = (hopt', ips')"
    and "setOutbounds (be_net env) ips' hopt' input = Returned (bc_outbounds c)"
    and "setDns (be_parsers env) (IsIos (be_platform env)) (bo_main (bc_outbounds c)) OutboundDirectFragmentTag
      (be_dns env) (routing_options.truncate (bo_opt (bc_outbounds c))) = Inr (bc_dns c)"
    and "bc_routing c = setRoutingOptions \<lparr> env_main = bo_main (bc_outbounds c), env_baseline = be_baseline env,
      env_ntp = None, env_embedded = be_embedded env, env_host_of = getHostnameIfNotIP (be_parsers env),
      env_bundle = be_bundle env \<rparr> (routing_options.truncate (bo_opt (bc_outbounds c)))"
    and "bc_experimental c = setExperimental (be_getenv env) (be_random env) (be_udp env) (be_clash env) hopt'"
    and "bc_inbounds c = setInbound (be_platform env) hopt' (if EnableFullConfig hopt then inbounds else [])"
    and "validateAndroidProtectCompatibility (IsAndroid (be_platform env)) [] (bo_Outbounds (bc_outbounds c))"
proof -
  obtain hopt' ips' where e: "ensureBackendHealthConnectionTest (be_parsers env) (be_net env) ips hopt = (hopt', ips')"
    by fastforce
  show thesis
    by (rule that [OF e])
      (use assms e in \<open>auto simp: BuildConfig_def Let_def split: outcome.splits sum.splits if_splits\<close>)
qed

section \<open>Test URLs\<close>

lemma fold_add_url:
  "distinct urls \<Longrightarrow> urls \<noteq> [] \<Longrightarrow> [] \<notin> set urls \<Longrightarrow>
   distinct (fold add_url us urls) \<and> hd (fold add_url us urls) = hd urls \<and> fold add_url us urls \<noteq> []
   \<and> set (fold add_url us urls) = set urls \<union> (set us - {[]})"
proof (induction us arbitrary: urls)
  case (Cons u us)
  have "distinct (add_url u urls)" "add_url u urls \<noteq> []" "[] \<notin> set (add_url u urls)" "hd (add_url u urls) = hd urls"
    "set (add_url u urls) = set urls \<union> ({u} - {[]})"
    using Cons.prems by (auto simp: add_url_def)
  then show ?case using Cons.IH [of "add_url u urls"] by auto
qed simp

lemma health_urls:
  assumes "ensureBackendHealthConnectionTest ps net ips hopt = (hopt', ips')"
  shows "distinct (ConnectionTestUrls hopt') \<and> hd (ConnectionTestUrls hopt') = zeonBackendHealthURL
    \<and> [] \<notin> set (ConnectionTestUrls hopt')
    \<and> (ConnectionTestUrls hopt \<noteq> [] \<longrightarrow>
        set (ConnectionTestUrls hopt') = insert zeonBackendHealthURL (set (ConnectionTestUrls hopt) - {[]}))
    \<and> hopt' = hopt\<lparr> ConnectionTestUrls := ConnectionTestUrls hopt' \<rparr>"
proof -
  obtain us where us: "ConnectionTestUrls hopt' = fold add_url us [zeonBackendHealthURL]"
    "hopt' = hopt\<lparr> ConnectionTestUrls := ConnectionTestUrls hopt' \<rparr>"
    "ConnectionTestUrls hopt \<noteq> [] \<Longrightarrow> us = ConnectionTestUrls hopt"
    using assms by (auto simp: ensureBackendHealthConnectionTest_def Let_def split: if_splits prod.splits)
  have "zeonBackendHealthURL \<noteq> []" by (simp add: zeonBackendHealthURL_def)
  then have "distinct (fold add_url us [zeonBackendHealthURL]) \<and> hd (fold add_url us [zeonBackendHealthURL]) = zeonBackendHealthURL
   \<and> set (fold add_url us [zeonBackendHealthURL]) = {zeonBackendHealthURL} \<union> (set us - {[]})"
    using fold_add_url [of "[zeonBackendHealthURL]" us] by simp
  then show ?thesis using us \<open>zeonBackendHealthURL \<noteq> []\<close> by auto
qed

section \<open>Inbounds\<close>

lemma clamped: "576 \<le> unat (clampMTU m) \<and> unat (clampMTU m) \<le> 9000"
proof -
  have "576 \<le> clampMTU m \<and> clampMTU m \<le> 9000"
    by (auto simp: clampMTU_def)
  then show ?thesis by (simp add: word_le_nat_alt)
qed

lemma resolved_mtu: "576 \<le> unat (resolveEffectiveTunMTU hopt) \<and> unat (resolveEffectiveTunMTU hopt) \<le> 9000"
  using clamped by (simp add: resolveEffectiveTunMTU_def Let_def)

section \<open>Two corners\<close>

text \<open>The name \<open>auto6\<close> asks for an IPv6 host of WARP; the second test then sees another name and takes IPv4.\<close>

lemma warp_host_is_v4: "net_v6 net t \<noteq> ''auto6'' \<Longrightarrow> warp_host net t host = net_v4 net t"
  by (simp add: warp_host_def)

text \<open>In the strict mode the fallback of a Google address is compared before both are translated.\<close>

lemma strict_google_has_no_fallback:
  assumes "ipv6OnlyRemoteDNSAddress ps remote = Inr ''https://dns.google/dns-query''"
    and "ipv6OnlyRemoteDNSAddress ps ''https://8.8.8.8/dns-query'' = Inr ''https://dns.google/dns-query''"
  shows "remote_addresses ps DomainStrategyIPv6Only remote
    = Inr (''https://dns.google/dns-query'', ''https://dns.google/dns-query'', DomainStrategyIPv6Only)"
  using assms by (simp add: remote_addresses_def bind_result_def getDnsAddress_def)

end
