(* ===== verification/Claims_Build.thy ===== *)
theory Claims_Build
  imports Build_Facts
begin

text \<open>
  Properties of the configuration as a whole: its parts fit together, its selector starts, and its groups,
  test URLs and inbounds are what the rest of the core relies on.
\<close>

section \<open>An example\<close>

definition no_prefs :: hiddify_options where
  "no_prefs = \<lparr> Region = ''ru'', BlockAds = True, ho_Rules = [], ProfileRules = [], BypassLAN = False,
     BlockQuic = False, EnableFakeDNS = True, RemoteDnsDomainStrategy = DomainStrategyPreferIPv4,
     DirectDnsDomainStrategy = DomainStrategyAsIS, IPv6Mode = DomainStrategyIPv4Only, ConnectionTestUrls = [zeonBackendHealthURL, ''http://t''],
     PreferredSelectorOutbound = [], BalancerStrategy = ''smart-active-auto'', EnableFragment = True, FragmentSize = ''10-30'',
     FragmentSleep = ''2-8'', MixedSNICase = True, EnableWarp = False, WarpMode = [], WarpPrivateKey = [], ho_MTU = 9000,
     ho_debug = no_debug, ConnectionTestUrl = [], URLTestInterval = 600, EnableClashApi = True, UDPProbeEnabled = False,
     EnableTun = True, AllowConnectionFromLAN = False, NetworkMtuMode = [], NetworkTransportType = ''wifi'',
     NetworkInterfaceMTU = 0, MixedPort = 12334, TProxyPort = 0, RedirectPort = 0, DirectPort = 0, EnableFullConfig = False \<rparr>"

definition server_at :: "string \<Rightarrow> profile_outbound" where
  "server_at t = \<lparr> ob_Type = ''vless'', ob_Tag = t, ob_Options = Stored \<lparr> so_type = VLESSOptions, so_pointer = True,
     so_dialer = Some plain_dialer, so_tls = Some \<lparr> tls_Enabled = True, tls_Reality = None, tls_Tricks = None \<rparr>,
     so_transport = Some ''ws'' \<rparr> \<rparr>"

definition two_servers :: profile where
  "two_servers = \<lparr> in_Outbounds = [server_at ''one'', server_at ''two''], in_Endpoints = [] \<rparr>"

definition still_net :: network_env where
  "still_net = \<lparr> net_lookup = (\<lambda>_. []), net_v4 = (\<lambda>_. ''162.159.192.1''), net_v6 = (\<lambda>_. ''2606::1''), net_port = (\<lambda>_. 500) \<rparr>"

text \<open>The two servers get the balancer and the lowest-delay group above them.\<close>

definition two_built :: built_outbounds where
  "two_built = \<lparr> bo_Endpoints = [],
     bo_Outbounds = [selector_outbound no_prefs [''lowest'', ''balance'', ''one'', ''two''] ''balance'' False,
       balancer_outbound no_prefs [''one'', ''two''], url_test_outbound no_prefs [''one'', ''two''],
       server_at ''one'', server_at ''two''] @ direct_outbounds no_prefs,
     bo_main = ''select'', bo_opt = no_prefs, bo_ips = [] \<rparr>"

lemma two_fields [simp]:
  "ob_Tag (server_at t) = t" "ob_Type (server_at t) = ''vless''" "IPv6Mode no_prefs = DomainStrategyIPv4Only"
  "EnableWarp no_prefs = False" "PreferredSelectorOutbound no_prefs = []" "EnableTun no_prefs = True"
  "ConnectionTestUrls no_prefs = [zeonBackendHealthURL, ''http://t'']"
  by (simp_all add: server_at_def no_prefs_def)

lemma two_servers_build: "setOutbounds still_net [] no_prefs two_servers = Returned two_built"
proof -
  have own: "t \<notin> set PredefinedOutboundTags" "\<not> str_contains (mark ''hide'') t" "\<not> str_contains (mark ''default'') t"
    if "t = ''one'' \<or> t = ''two''" for t
    using that
    by (auto simp: PredefinedOutboundTags_def OutboundDirectTag_def OutboundBypassTag_def OutboundSelectTag_def
        OutboundURLTestTag_def OutboundDNSTag_def OutboundDirectFragmentTag_def WARPConfigTag_def hidden_def mark_def)
  have warp: "patchHiddifyWarpFromConfig no_prefs o1 = o1" for o1
    by (simp add: patchHiddifyWarpFromConfig_def)
  have collected: "collect still_net [] no_prefs two_servers = ([server_at ''one'', server_at ''two''],
      \<lparr> es_opt = no_prefs, es_ips = [], es_tags = [''one'', ''two''], es_endpoints = [] \<rparr>)"
    by (simp add: collect_def two_servers_def outbound_step_def own patch_keeps_servers warp
        mark_def Let_def)
  show ?thesis
    by (simp add: setOutbounds_def collected two_built_def selector_choice_def own mark_def OutboundSelectTag_def
        OutboundURLTestTag_def OutboundRoundRobinTag_def WARPConfigTag_def Let_def)
qed

section \<open>The outbounds\<close>

text \<open>
  C37: The outbounds of a configuration are well-formed: when the tags of the profile differ and none is the tag of
  the balancer, all tags built differ, and every member of every group is built and is not the selector, so
  no group refers to nothing or to the group above it, with one exception. A profile server called \<open>balance\<close> is
  not excluded as the other reserved tags are; and a balancer of the profile, unlike its selectors and URL
  tests, is kept with the members it names, which need not be built.
\<close>

theorem groups_are_closed:
  assumes "setOutbounds net ips opt input = Returned b" and "distinct (profile_tags input)"
    and "OutboundRoundRobinTag \<notin> set (profile_tags input)"
  shows "distinct (built_tags b)
    \<and> (\<forall>ob \<in> set (bo_Outbounds b). set (members (ob_Options ob)) \<subseteq> set (built_tags b) - {OutboundSelectTag}
       \<or> (\<exists>o1 \<in> set (in_Outbounds input). ob = patchHiddifyWarpFromConfig opt (patchOutbound opt o1)
            \<and> ob_Type o1 \<notin> {''selector'', ''urltest'', ''block'', ''dns'', ''custom''}
            \<and> members (ob_Options o1) \<noteq> [] \<and> members (ob_Options ob) = members (ob_Options o1)))"
proof -
  have "set (members (ob_Options ob)) \<subseteq> set (built_tags b) - {OutboundSelectTag}
       \<or> (\<exists>o1 \<in> set (in_Outbounds input). ob = patchHiddifyWarpFromConfig opt (patchOutbound opt o1)
            \<and> ob_Type o1 \<notin> {''selector'', ''urltest'', ''block'', ''dns'', ''custom''}
            \<and> members (ob_Options o1) \<noteq> [] \<and> members (ob_Options ob) = members (ob_Options o1))"
    if ob: "ob \<in> set (bo_Outbounds b)" for ob
    using built_closed [OF assms(1) ob]
  proof
    assume "\<exists>o1 \<in> set (in_Outbounds input). keepable o1 \<and> ob = built_from opt o1"
    then obtain o1 where o1: "o1 \<in> set (in_Outbounds input)" "keepable o1" "ob = built_from opt o1" by blast
    then show ?thesis
      using built_from_members [of opt o1]
      by (cases "members (ob_Options o1) = []") (auto simp: keepable_def built_from_def)
  qed simp
  then show ?thesis using built_distinct [OF assms(1-3)] by blast
qed

theorem groups_are_closed_witness:
  "distinct (built_tags two_built) \<and> setOutbounds still_net [] no_prefs two_servers = Returned two_built
    \<and> (\<Union>ob \<in> set (bo_Outbounds two_built). set (members (ob_Options ob))) \<subseteq> set (built_tags two_built) - {OutboundSelectTag}"
proof -
  have "distinct (profile_tags two_servers)" "OutboundRoundRobinTag \<notin> set (profile_tags two_servers)"
    "\<forall>o1 \<in> set (in_Outbounds two_servers). members (ob_Options o1) = []"
    by (simp_all add: profile_tags_def two_servers_def OutboundRoundRobinTag_def server_at_def)
  then show ?thesis
    using groups_are_closed [OF two_servers_build] two_servers_build by blast
qed

text \<open>A balancer of the profile over a group that is dropped names an outbound that is not built.\<close>

definition profile_balancer :: profile_outbound where
  "profile_balancer = (url_test_outbound no_prefs [''gone''])\<lparr> ob_Tag := ''mine'' \<rparr>"

lemma profile_balancer_dangles:
  "\<exists>b. setOutbounds still_net [] no_prefs \<lparr> in_Outbounds = [profile_balancer], in_Endpoints = [] \<rparr> = Returned b
    \<and> profile_balancer \<in> set (bo_Outbounds b) \<and> ''gone'' \<in> set (members (ob_Options profile_balancer))
    \<and> ''gone'' \<notin> set (built_tags b)"
proof -
  have fields: "ob_Tag profile_balancer = ''mine''" "ob_Type profile_balancer = ''balancer''"
    "patchHiddifyWarpFromConfig no_prefs (patchOutbound no_prefs profile_balancer) = profile_balancer"
    "''gone'' \<in> set (members (ob_Options profile_balancer))"
    by (simp_all add: profile_balancer_def url_test_outbound_def patchHiddifyWarpFromConfig_def patchOutbound_def
        patchOutboundTLSTricks_def isOutboundReality_def Let_def)
  have own: "''mine'' \<notin> set PredefinedOutboundTags" "\<not> str_contains (mark ''hide'') ''mine''"
    "\<not> str_contains (mark ''default'') ''mine''"
    by (simp_all add: PredefinedOutboundTags_def OutboundDirectTag_def OutboundBypassTag_def OutboundSelectTag_def
        OutboundURLTestTag_def OutboundDNSTag_def OutboundDirectFragmentTag_def WARPConfigTag_def hidden_def mark_def)
  have type: "ob_Type (patchOutbound no_prefs profile_balancer) = ''balancer''"
    "ob_Tag (patchOutbound no_prefs profile_balancer) = ''mine''"
    using fields(1,2) by simp_all
  have collected: "collect still_net [] no_prefs \<lparr> in_Outbounds = [profile_balancer], in_Endpoints = [] \<rparr>
      = ([profile_balancer], \<lparr> es_opt = no_prefs, es_ips = [], es_tags = [''mine''], es_endpoints = [] \<rparr>)"
    by (simp add: collect_def outbound_step_def fields own [simplified] own type mark_def Let_def)
  obtain ts d p where choice: "selector_choice no_prefs OutboundSelectTag [''mine''] = (ts, d, p)"
    by (metis prod_cases3)
  have tags: "''gone'' \<notin> {OutboundSelectTag, OutboundDirectTag, OutboundDirectFragmentTag}"
    by (simp add: OutboundSelectTag_def OutboundDirectTag_def OutboundDirectFragmentTag_def hidden_def mark_def)
  have "ob_Tag ` set (direct_outbounds no_prefs) = {OutboundDirectTag, OutboundDirectFragmentTag}"
    by (simp add: direct_outbounds_def)
  then show ?thesis
    using tags fields(4)
    by (simp add: setOutbounds_def collected choice built_tags_def fields(1) Let_def)
qed

text \<open>With a server of that tag the balancer's tag is built twice.\<close>

lemma balance_tag_collides:
  "\<exists>b. setOutbounds still_net [] no_prefs \<lparr> in_Outbounds = [server_at OutboundRoundRobinTag, server_at ''two''],
     in_Endpoints = [] \<rparr> = Returned b \<and> \<not> distinct (built_tags b)"
proof -
  have collected: "collect still_net [] no_prefs \<lparr> in_Outbounds = [server_at OutboundRoundRobinTag, server_at ''two''],
     in_Endpoints = [] \<rparr> = ([server_at OutboundRoundRobinTag, server_at ''two''],
      \<lparr> es_opt = no_prefs, es_ips = [], es_tags = [OutboundRoundRobinTag, ''two''], es_endpoints = [] \<rparr>)"
    by (simp add: collect_def outbound_step_def patch_keeps_servers patchHiddifyWarpFromConfig_def PredefinedOutboundTags_def
        OutboundDirectTag_def OutboundBypassTag_def OutboundSelectTag_def OutboundURLTestTag_def OutboundDNSTag_def
        OutboundDirectFragmentTag_def WARPConfigTag_def OutboundRoundRobinTag_def hidden_def mark_def Let_def)
  obtain ts d p where "selector_choice no_prefs OutboundSelectTag [OutboundRoundRobinTag, ''two''] = (ts, d, p)"
    by (metis prod_cases3)
  then show ?thesis
    by (simp add: setOutbounds_def collected built_tags_def OutboundSelectTag_def WARPConfigTag_def Let_def)
qed

text \<open>
  C14: The selector of every configuration starts with the choice the options ask for: the preferred outbound
  when it is there, else the one remembered, else the default, which is a group whenever there are two
  servers. The one exception: with a single server whose tag only contains the default mark, the default is
  the bare mark, no outbound has that tag, and the selector fails to start unless a choice is remembered.
\<close>

theorem built_selector_starts:
  assumes "setOutbounds net ips opt input = Returned b" and "[] \<notin> set (profile_tags input)"
    and "\<forall>t \<in> set (built_tags b). se_manager env t \<noteq> None"
  shows "\<exists>ts d. members (ob_Options (hd (bo_Outbounds b))) = ts \<and>
    (case (start_selector env session (hd (bo_Outbounds b)) :: selector_error + 'n selector) of
       Inl err \<Rightarrow> err = SelDefaultNotFound (mark ''default'') \<and> length ts = 1
         \<and> str_contains (mark ''default'') (hd ts) \<and> mark ''default'' \<notin> set ts \<and> remembered env ts = None
     | Inr s \<Rightarrow> sel_selected s =
         (if PreferredSelectorOutbound opt \<in> set ts then se_manager env (PreferredSelectorOutbound opt)
          else case remembered env ts of Some o1 \<Rightarrow> Some o1 | None \<Rightarrow> se_manager env d)
       \<and> sel_selected s \<noteq> None
       \<and> (length ts > 1 \<and> PreferredSelectorOutbound opt \<notin> set ts \<longrightarrow> d \<in> {OutboundURLTestTag, OutboundRoundRobinTag}))"
proof -
  obtain ko ts d p tags where parts: "bo_Outbounds b = selector_outbound (bo_opt b) ts d p
      # group_outbounds (bo_opt b) tags @ map (built_from opt) ko @ direct_outbounds (bo_opt b)"
    "selector_choice opt (main_tag opt) tags = (ts, d, p)" "tags \<noteq> []" "set tags \<subseteq> set (profile_tags input)"
    "set ts \<union> set tags \<subseteq> set (built_tags b) - {OutboundSelectTag}"
    by (rule built_parts [OF assms(1)])
  note chosen = choice_members [OF parts(2)]
  have managed: "\<forall>t \<in> set ts. se_manager env t \<noteq> None" using assms(3) parts(5) by blast
  have some: "ts \<noteq> []" using chosen(1) parts(3) by simp
  have pin: "p \<Longrightarrow> d \<in> set ts" using chosen(2,3) by simp
  have "[] \<notin> set ts"
    unfolding chosen(1) using assms(2) parts(4)
    by (auto simp: OutboundURLTestTag_def OutboundRoundRobinTag_def)
  then have d: "d \<noteq> []" using chosen(4) [OF parts(3)] by (auto simp: mark_def)
  have list: "members (ob_Options (hd (bo_Outbounds b))) = ts" using parts(1) by simp
  have outcome: "case (start_selector env session (hd (bo_Outbounds b)) :: selector_error + 'n selector) of
      Inl err \<Rightarrow> \<not> p \<and> remembered env ts = None \<and> d \<notin> set ts \<and> err = SelDefaultNotFound d
    | Inr s \<Rightarrow> sel_selected s = (if p then se_manager env d
        else case remembered env ts of Some o1 \<Rightarrow> Some o1 | None \<Rightarrow> se_manager env d)
      \<and> (p \<or> remembered env ts \<noteq> None \<or> d \<in> set ts)"
    unfolding parts(1) list.sel by (rule start_selector_result [OF managed some d pin])
  show ?thesis
  proof (rule exI [of _ ts], rule exI [of _ d], rule conjI [OF list])
    show "case (start_selector env session (hd (bo_Outbounds b)) :: selector_error + 'n selector) of
       Inl err \<Rightarrow> err = SelDefaultNotFound (mark ''default'') \<and> length ts = 1
         \<and> str_contains (mark ''default'') (hd ts) \<and> mark ''default'' \<notin> set ts \<and> remembered env ts = None
     | Inr s \<Rightarrow> sel_selected s =
         (if PreferredSelectorOutbound opt \<in> set ts then se_manager env (PreferredSelectorOutbound opt)
          else case remembered env ts of Some o1 \<Rightarrow> Some o1 | None \<Rightarrow> se_manager env d)
       \<and> sel_selected s \<noteq> None
       \<and> (length ts > 1 \<and> PreferredSelectorOutbound opt \<notin> set ts \<longrightarrow> d \<in> {OutboundURLTestTag, OutboundRoundRobinTag})"
    proof (cases "start_selector env session (hd (bo_Outbounds b)) :: selector_error + 'n selector")
      case (Inl err)
      then show ?thesis using outcome chosen(4) [OF parts(3)] by auto
    next
      case (Inr s)
      have "p = (PreferredSelectorOutbound opt \<in> set ts)" using chosen(2) by simp
      moreover have "p \<Longrightarrow> d = PreferredSelectorOutbound opt" using chosen(3) by simp
      moreover have "sel_selected s \<noteq> None"
        using outcome Inr pin managed by (auto split: option.splits if_splits)
      ultimately show ?thesis using outcome Inr chosen(5) by auto
    qed
  qed
qed

definition two_env :: selector_env where
  "two_env = \<lparr> se_manager = (\<lambda>t. if t \<in> set (built_tags two_built) then Some \<lparr> Tag = t, Networks = [] \<rparr> else None),
     se_group = (\<lambda>_. None), se_cache = None, se_monitor = True \<rparr>"

theorem built_selector_starts_witness:
  "\<exists>s :: unit selector. start_selector two_env [] (hd (bo_Outbounds two_built)) = Inr s
    \<and> sel_selected s \<in> se_manager two_env ` {''lowest'', ''balance''}"
proof -
  have nonempty: "[] \<notin> set (profile_tags two_servers)"
    by (simp add: profile_tags_def two_servers_def)
  have managed: "\<forall>t \<in> set (built_tags two_built). se_manager two_env t \<noteq> None"
    by (simp add: two_env_def)
  have "members (ob_Options (hd (bo_Outbounds two_built))) = [''lowest'', ''balance'', ''one'', ''two'']"
    by (simp add: two_built_def)
  moreover have "remembered two_env ts = None" for ts
    by (simp add: remembered_def two_env_def)
  ultimately show ?thesis
    using built_selector_starts [OF two_servers_build nonempty managed, of "[]", where 'n = unit]
    by (cases "start_selector two_env [] (hd (bo_Outbounds two_built)) :: selector_error + unit selector")
      (auto simp: OutboundURLTestTag_def OutboundRoundRobinTag_def)
qed

text \<open>A single server that only contains the default mark: its tag is not the mark, and the start fails.\<close>

definition marked_server :: string where
  "marked_server = ''a'' @ mark ''default''"

definition marked_profile :: profile where
  "marked_profile = \<lparr> in_Outbounds = [server_at marked_server], in_Endpoints = [] \<rparr>"

lemma marked_start_fails:
  "\<exists>b. setOutbounds still_net [] no_prefs marked_profile = Returned b
    \<and> (\<forall>env session. se_manager env marked_server \<noteq> None \<and> se_cache env = None \<longrightarrow>
        (start_selector env session (hd (bo_Outbounds b)) :: selector_error + unit selector)
          = Inl (SelDefaultNotFound (mark ''default'')))"
proof -
  have own: "marked_server \<notin> set PredefinedOutboundTags" "\<not> str_contains (mark ''hide'') marked_server"
    "str_contains (mark ''default'') marked_server" "marked_server \<noteq> mark ''default''" "marked_server \<noteq> []"
    "marked_server \<notin> {''direct'', ''bypass'', ''block''}" "mark ''default'' \<noteq> []"
    by (simp_all add: PredefinedOutboundTags_def OutboundDirectTag_def OutboundBypassTag_def OutboundSelectTag_def
        OutboundURLTestTag_def OutboundDNSTag_def OutboundDirectFragmentTag_def WARPConfigTag_def hidden_def mark_def
        marked_server_def)
  have collected: "collect still_net [] no_prefs marked_profile = ([server_at marked_server],
      \<lparr> es_opt = no_prefs, es_ips = [], es_tags = [marked_server], es_endpoints = [] \<rparr>)"
    using own
    by (simp add: collect_def marked_profile_def outbound_step_def patch_keeps_servers patchHiddifyWarpFromConfig_def
        Let_def)
  have "selector_choice no_prefs main [marked_server] = ([marked_server], mark ''default'', False)" for main
    using own by (simp add: selector_choice_def Let_def)
  then obtain b where b: "setOutbounds still_net [] no_prefs marked_profile = Returned b"
    "hd (bo_Outbounds b) = selector_outbound no_prefs [marked_server] (mark ''default'') False"
    by (simp add: setOutbounds_def collected Let_def)
  have "(start_selector env session (hd (bo_Outbounds b)) :: selector_error + unit selector)
      = Inl (SelDefaultNotFound (mark ''default''))"
    if "se_manager env marked_server \<noteq> None" "se_cache env = None" for env session
    using that start_selector_result [of "[marked_server]" env "mark ''default''" False session no_prefs, where 'n = unit] own
    unfolding b(2) by (auto simp: remembered_def split: sum.splits)
  then show ?thesis using b(1) by blast
qed

text \<open>
  C38: The TLS tricks of the options never reach a server. Whatever \<open>EnableFragment\<close> and \<open>MixedSNICase\<close> say, an
  outbound of the profile that is not direct enters the configuration as it stands in the profile, but for
  the detour over WARP: the transport is asked from a value and the TLS part from a pointer, and nothing is
  both.
\<close>

theorem tls_tricks_never_apply:
  assumes "setOutbounds net ips opt input = Returned b" and "ob \<in> set (bo_Outbounds b)"
    and "ob_Options ob = Stored o1" and "ob_Type ob \<noteq> ''direct''"
  shows "\<exists>server \<in> set (in_Outbounds input). ob = patchHiddifyWarpFromConfig opt server"
proof -
  obtain ko ts d p tags where parts: "bo_Outbounds b = selector_outbound (bo_opt b) ts d p
      # group_outbounds (bo_opt b) tags @ map (built_from opt) ko @ direct_outbounds (bo_opt b)"
    "set ko \<subseteq> set (in_Outbounds input)"
    by (rule built_parts [OF assms(1)])
  have "ob \<notin> set (group_outbounds opt' tags)" for opt'
    using assms(3) by (auto simp: group_outbounds_def url_test_outbound_def balancer_outbound_def Let_def split: if_splits)
  moreover have "ob \<notin> set (direct_outbounds opt')" for opt'
    using assms(4) by (auto simp: direct_outbounds_def)
  moreover have "ob \<noteq> selector_outbound opt' ts d p" for opt'
    using assms(3) by (auto simp: selector_outbound_def)
  ultimately obtain server where "server \<in> set ko" "ob = built_from opt server"
    using assms(2) unfolding parts(1) by auto
  then show ?thesis
    using assms(4) parts(2) patch_keeps_servers by (auto simp: built_from_def)
qed

theorem tls_tricks_never_apply_witness:
  "EnableFragment no_prefs \<and> MixedSNICase no_prefs \<and>
   (\<exists>server \<in> set (in_Outbounds two_servers). server_at ''one'' = patchHiddifyWarpFromConfig no_prefs server)"
proof -
  have "server_at ''one'' \<in> set (bo_Outbounds two_built)" by (simp add: two_built_def)
  moreover have "\<exists>o1. ob_Options (server_at ''one'') = Stored o1" by (simp add: server_at_def)
  ultimately show ?thesis
    using tls_tricks_never_apply [OF two_servers_build] by (auto simp: no_prefs_def)
qed

section \<open>The whole\<close>

definition plain_build :: build_env where
  "plain_build = \<lparr> be_parsers = \<lparr> parse_url = (\<lambda>_. None), parse_addr = (\<lambda>_. None), is_ip = (\<lambda>_. False),
       parse_sock = (\<lambda>h. Some \<lparr> sk_AddrString = h, sk_Port = 53 \<rparr>), atoi = (\<lambda>_. None) \<rparr>,
     be_net = still_net, be_platform = \<lparr> IsAndroid = True, IsIos = False, IsDarwin = False, IsLinux = True,
       IsAdmin = False, ResolvesIPv6Loopback = True \<rparr>,
     be_getenv = (\<lambda>_. []), be_random = ''secret'',
     be_udp = \<lparr> ud_Endpoint = [], ud_Secret = [], ud_Count = 10, ud_Size = 100, ud_IntervalMs = 50, ud_TimeoutMs = 1000,
       ud_CooldownSec = 300, ud_TopN = 3 \<rparr>,
     be_clash = (''127.0.0.1:16756'', []),
     be_dns = \<lparr> RemoteDnsAddress = ''1.1.1.1'', DirectDnsAddress = ''1.1.1.1'', IndependentDNSCache = False \<rparr>,
     be_baseline = False, be_embedded = None, be_bundle = Inr [] \<rparr>"

lemma two_servers_config:
  "\<exists>c. BuildConfig plain_build [] [] no_prefs two_servers = Returned (Inr c) \<and> bc_experimental c \<noteq> None
    \<and> bc_inbounds c = setInbound (be_platform plain_build) no_prefs []"
proof -
  have urls: "ensureBackendHealthConnectionTest ps net ips no_prefs = (no_prefs, ips)" for ps net ips
    by (simp add: ensureBackendHealthConnectionTest_def add_url_def zeonBackendHealthURL_def no_prefs_def)
  have server: "\<exists>s. getDNSServerOptions (be_parsers plain_build) t a r d st = Inr s" for t a r d st
    by (auto simp: getDNSServerOptions_def plain_build_def server_of_def Let_def)
  have "\<exists>d. setDns (be_parsers plain_build) ios main warp (be_dns plain_build) (routing_options.truncate no_prefs) = Inr d"
    for ios main warp
  proof -
    have mode: "IPv6Mode (routing_options.truncate no_prefs) = DomainStrategyIPv4Only"
      by (simp add: no_prefs_def routing_options.truncate_def)
    obtain g where "\<And>t a r d st. getDNSServerOptions (be_parsers plain_build) t a r d st = Inr (g t a r d st)"
      using server by metis
    then show ?thesis
      unfolding setDns_def mode by (simp add: bootstrap_server_def remote_addresses_def bind_result_def)
  qed
  then obtain d where d: "setDns (be_parsers plain_build) False ''select'' OutboundDirectFragmentTag
      (be_dns plain_build) (routing_options.truncate no_prefs) = Inr d" by blast
  have "validateAndroidProtectCompatibility True [] (bo_Outbounds two_built)"
    by (simp add: validateAndroidProtectCompatibility_def two_built_def selector_outbound_def url_test_outbound_def
        balancer_outbound_def direct_outbounds_def server_at_def plain_dialer_def binds_socket_def Let_def)
  moreover have "be_net plain_build = still_net" "IsAndroid (be_platform plain_build)" "\<not> IsIos (be_platform plain_build)"
    by (simp_all add: plain_build_def)
  moreover have "bo_opt two_built = no_prefs" "bo_main two_built = ''select''" by (simp_all add: two_built_def)
  moreover have "EnableClashApi no_prefs" by (simp add: no_prefs_def)
  ultimately show ?thesis
    using d by (simp add: BuildConfig_def urls two_servers_build setExperimental_def Let_def)
qed

text \<open>
  C12: A configuration that is built is closed. Every route rule sends traffic to an outbound or endpoint of the
  configuration, and so does its final rule; every DNS rule asks a server of the configuration; and every
  server is reached over an outbound of the configuration, and resolved by a server of it, or by none.
\<close>

theorem configuration_is_closed:
  assumes "BuildConfig env ips inbounds hopt input = Returned (Inr c)"
  shows "bt_final (bc_routing c) \<in> set (built_tags (bc_outbounds c))
    \<and> (\<forall>r \<in> set (bt_rules (bc_routing c)). \<forall>t. rule_action r = RouteTo t \<longrightarrow> t \<in> set (built_tags (bc_outbounds c)))
    \<and> (\<forall>r \<in> set (bt_dns (bc_routing c)). \<forall>d. dns_act r = DNSRoute d
        \<longrightarrow> dns_server d \<in> set (map ds_Tag (db_Servers (bc_dns c))))
    \<and> (\<forall>s \<in> set (db_Servers (bc_dns c)). remote_within (set (built_tags (bc_outbounds c)))
        (set (map ds_Tag (db_Servers (bc_dns c)))) s)
    \<and> db_Final (bc_dns c) \<in> set (map ds_Tag (db_Servers (bc_dns c)))"
proof -
  obtain hopt' ips' where parts: "setOutbounds (be_net env) ips' hopt' input = Returned (bc_outbounds c)"
    "setDns (be_parsers env) (IsIos (be_platform env)) (bo_main (bc_outbounds c)) OutboundDirectFragmentTag
      (be_dns env) (routing_options.truncate (bo_opt (bc_outbounds c))) = Inr (bc_dns c)"
    "bc_routing c = setRoutingOptions \<lparr> env_main = bo_main (bc_outbounds c), env_baseline = be_baseline env,
      env_ntp = None, env_embedded = be_embedded env, env_host_of = getHostnameIfNotIP (be_parsers env),
      env_bundle = be_bundle env \<rparr> (routing_options.truncate (bo_opt (bc_outbounds c)))"
    by (rule build_parts [OF assms])
  let ?outs = "set (built_tags (bc_outbounds c))"
  let ?servers = "set (map ds_Tag (db_Servers (bc_dns c)))"
  note outs = built_targets [OF parts(1)]
  note servers = setDns_result [OF parts(2)]
  have declared: "fixed_servers \<union> (if fakeDNSEnabled (routing_options.truncate (bo_opt (bc_outbounds c)))
      then {DNSFakeTag} else {}) \<subseteq> ?servers"
    using servers(1) by blast
  have resolvers: "{DNSDirectTag, DNSLocalTag} \<subseteq> ?servers"
    using servers(1) by (simp add: fixed_servers_def DNSMultiDirectTag_def DNSDirectTag_def)
  have "remote_within ?outs ?servers s" if "s \<in> set (db_Servers (bc_dns c))" for s
    using servers(2) that outs resolvers unfolding remote_within_def by blast
  moreover have "db_Final (bc_dns c) \<in> ?servers"
    using declared parts(2) setDns_final by (simp add: fixed_servers_def)
  moreover have targets: "{env_main \<lparr> env_main = bo_main (bc_outbounds c), env_baseline = be_baseline env,
      env_ntp = None, env_embedded = be_embedded env, env_host_of = getHostnameIfNotIP (be_parsers env),
      env_bundle = be_bundle env \<rparr>, OutboundDirectTag, OutboundDirectFragmentTag} \<subseteq> ?outs"
    using outs by simp
  ultimately show ?thesis
    unfolding parts(3) using routing_targets [OF targets declared] by blast
qed

theorem configuration_is_closed_witness:
  "\<exists>c. BuildConfig plain_build [] [] no_prefs two_servers = Returned (Inr c)
    \<and> bt_final (bc_routing c) \<in> set (built_tags (bc_outbounds c))"
  using two_servers_config configuration_is_closed [of plain_build "[]" "[]" no_prefs two_servers] by blast

text \<open>
  C39: Automatic selection always tests the backend: whenever a configuration has a monitoring section, the first
  test URL is the health check of the backend, the URLs are different and not empty, and the configured
  ones are all there.
\<close>

theorem backend_is_tested_first:
  assumes "BuildConfig env ips inbounds hopt input = Returned (Inr c)" and "bc_experimental c = Some ex"
  shows "hd (mn_URLs (ex_monitoring ex)) = zeonBackendHealthURL \<and> distinct (mn_URLs (ex_monitoring ex))
    \<and> [] \<notin> set (mn_URLs (ex_monitoring ex))
    \<and> (ConnectionTestUrls hopt \<noteq> [] \<longrightarrow>
        set (mn_URLs (ex_monitoring ex)) = insert zeonBackendHealthURL (set (ConnectionTestUrls hopt) - {[]}))"
proof -
  obtain hopt' ips' where parts:
    "ensureBackendHealthConnectionTest (be_parsers env) (be_net env) ips hopt = (hopt', ips')"
    "bc_experimental c = setExperimental (be_getenv env) (be_random env) (be_udp env) (be_clash env) hopt'"
    by (rule build_parts [OF assms(1)])
  then have "mn_URLs (ex_monitoring ex) = ConnectionTestUrls hopt'"
    using assms(2) by (auto simp: setExperimental_def Let_def split: if_splits)
  then show ?thesis using health_urls [OF parts(1)] by simp
qed

theorem backend_is_tested_first_witness:
  "\<exists>c ex. BuildConfig plain_build [] [] no_prefs two_servers = Returned (Inr c) \<and> bc_experimental c = Some ex
    \<and> hd (mn_URLs (ex_monitoring ex)) = zeonBackendHealthURL"
  using two_servers_config backend_is_tested_first [of plain_build "[]" "[]" no_prefs two_servers] by blast

text \<open>
  C40: The inbounds ZEON builds are safe, and no others are in the configuration unless the user enables the full
  configuration: then the inbounds of the profile come first and are passed on as they are, whatever they
  listen on. Of the built ones the TUN has an MTU between 576 and 9000, whatever mode, transport and interface
  MTU (which is cut to 32 bits) say, and no IPv6 address in the IPv4-only mode; every other one listens on a
  loopback address unless connections from the network are allowed.
\<close>

theorem inbounds_are_safe:
  assumes "BuildConfig env ips inbounds hopt input = Returned (Inr c)"
  shows "\<exists>own. bc_inbounds c = (if EnableFullConfig hopt then inbounds else []) @ own \<and> (\<forall>i \<in> set own. case i of
      TunInbound t mtu addresses \<Rightarrow> EnableTun hopt \<and> 576 \<le> unat mtu \<and> unat mtu \<le> 9000
        \<and> (IPv6Mode hopt = DomainStrategyIPv4Only \<longrightarrow> addresses = [''172.19.0.1/28''])
    | ListenInbound kind t address port \<Rightarrow> AllowConnectionFromLAN hopt \<or> address \<in> {''127.0.0.1'', ''::1''}
    | OtherInbound t \<Rightarrow> False)"
proof -
  obtain hopt' ips' where parts:
    "ensureBackendHealthConnectionTest (be_parsers env) (be_net env) ips hopt = (hopt', ips')"
    "bc_inbounds c = setInbound (be_platform env) hopt' (if EnableFullConfig hopt then inbounds else [])"
    by (rule build_parts [OF assms(1)])
  obtain urls where hopt': "hopt' = hopt\<lparr> ConnectionTestUrls := urls \<rparr>" using health_urls [OF parts(1)] by metis
  then have same: "EnableTun hopt' = EnableTun hopt" "IPv6Mode hopt' = IPv6Mode hopt"
    "AllowConnectionFromLAN hopt' = AllowConnectionFromLAN hopt" by simp_all
  have listen: "i \<in> set (listen_inbounds pf hopt' a) \<Longrightarrow> \<exists>k t p. i = ListenInbound k t a p" for i pf a
    by (auto simp: listen_inbounds_def split: if_splits)
  show ?thesis
    unfolding parts(2) setInbound_def Let_def
    by (rule exI, rule conjI, rule refl)
      (use resolved_mtu in \<open>auto simp: same dest!: listen split: if_splits\<close>)
qed

theorem inbounds_are_safe_witness:
  "\<exists>c t mtu addresses. BuildConfig plain_build [] [] no_prefs two_servers = Returned (Inr c)
    \<and> TunInbound t mtu addresses \<in> set (bc_inbounds c) \<and> unat mtu \<le> 9000 \<and> addresses = [''172.19.0.1/28'']"
proof -
  obtain c where c: "BuildConfig plain_build [] [] no_prefs two_servers = Returned (Inr c)"
    "bc_inbounds c = setInbound (be_platform plain_build) no_prefs []"
    using two_servers_config by blast
  have "\<exists>t mtu addresses. TunInbound t mtu addresses \<in> set (bc_inbounds c)"
    by (auto simp: c(2) setInbound_def Let_def)
  then show ?thesis
    using c(1) inbounds_are_safe [OF c(1)] by fastforce
qed

end
