(* ===== verification/Spec2Isabelle.thy ===== *)
theory Spec2Isabelle
  imports Claims_Smart Claims_Ranking Claims_Health Claims_Strategies Claims_Traffic Claims_Report Claims_Udp
    Claims_Monitoring Claims_Groups Claims_Config Claims_Build
begin

text \<open>
  Verification of how the ZEON core chooses the server that carries the traffic of its user, and of the
  configuration it builds for itself.

  \<^bold>\<open>The program.\<close> ZEON is an application over a modified sing-box core
  (\<open>src/hiddify-core/hiddify-sing-box\<close>, the directory of the paths below; \<open>v2/config\<close> is
  \<open>src/hiddify-core/v2/config\<close>). Its own logic is the automatic choice of an outbound, and the configuration:

    \<^item> the monitor (\<open>common/monitoring\<close>) tests every outbound in numbered generations, adds what user traffic,
      UDP probes and isolated probes show, scores the result and keeps two views of it: the presentation and
      the ranking;
    \<^item> the score, the classification of errors and the records are in \<open>common/urltest\<close> and
      \<open>adapter/experimental.go\<close>;
    \<^item> the balancer (\<open>protocol/group/balancer\<close>) is a group outbound with a strategy. It wakes on the events of
      the monitor, which a broadcaster delivers, reads the ranking view and lets the strategy decide. The
      strategy Smart Active holds one active outbound and leaves it only on evidence; round robin, lowest
      delay, consistent hashing and sticky sessions share the interface;
    \<^item> a change of the active outbound closes connections by a policy (\<open>switch_policy.go\<close>,
      \<open>common/interrupt/group.go\<close>), and every flow passes the IP family gate (\<open>ipv6_capability.go\<close>);
    \<^item> the manual selector and the URL test group (\<open>protocol/group/selector.go\<close>, \<open>urltest.go\<close>) stand above and
      beside the balancer;
    \<^item> the builder (\<open>v2/config\<close>) turns the profile and the options of the user into the configuration: the
      outbounds with the groups above them, the DNS servers, the test URLs of the monitor, the inbounds, and
      the rules of the user, of the managed and bundled rule sets and of the Russia preset, in order.

  \<^bold>\<open>Where each part is modelled.\<close>

    \<^item> Go itself: \<open>Go_Prelude\<close> (instants, widths, maps, slices, outcomes with panics), \<open>Go_Strings\<close>, \<open>Go_Sort\<close>
      (the stable sort), \<open>Go_Float\<close> (float64 rounding), \<open>Go_Sha256\<close> (SHA-256 and HMAC).
    \<^item> Samples and scores: \<open>Probe_History\<close> (\<open>URLTestHistory\<close>), \<open>Url_Health\<close> (\<open>health.go\<close>), \<open>Runtime_Health\<close>
      (the weights of user traffic), \<open>Probe_Evidence\<close> (what one result adds, \<open>tester\<close>, the active probe),
      \<open>History_Storage\<close> (\<open>urltest.go\<close>), \<open>IPv6_Gate\<close>, \<open>Udp_Packet\<close> and \<open>Udp_Probe\<close> (\<open>udp_probe.go\<close>).
    \<^item> The monitor (\<open>outbound_monitoring.go\<close>, \<open>active_probe.go\<close>): \<open>Monitor_State\<close> (\<open>outboundState\<close>,
      \<open>groupState\<close>, the queues, a generation and the commit of a result), \<open>Monitor_Evidence\<close> (user traffic,
      the UDP queue, the isolated probe), \<open>Monitor_View\<close> (\<open>getURLTest\<close> and the two views), \<open>Monitor_Cycle\<close> (cycles,
      batches, manual refreshes, start and cache). \<open>Broadcaster\<close> is \<open>brodcaster.go\<close>.
    \<^item> Smart Active (\<open>smart_active.go\<close>, \<open>smart_active_probe.go\<close>): \<open>Smart_Types\<close> (state, health classes,
      eligibility), \<open>Smart_Memory\<close> (the last complete generation), \<open>Smart_Select\<close> and \<open>Smart_Choose\<close> (candidates
      and \<open>switchTo\<close>), \<open>Smart_Probe\<close> (isolated samples), \<open>Smart_Update\<close> (\<open>updateOutboundsInfo\<close>). \<open>Debug_Fault\<close> is the
      fault injection of debug builds.
    \<^item> The other strategies: \<open>Balancer_Common\<close> (\<open>common.go\<close>), \<open>Strategies\<close> (\<open>roundrobin.go\<close>, \<open>lowest_delay.go\<close>),
      \<open>Jump_Hash\<close>, \<open>Hash_Strategies\<close> (\<open>consistent_hashing.go\<close>, \<open>sticky_session.go\<close>).
    \<^item> The groups: \<open>Switch_Policy\<close>, \<open>Probe_Schedule\<close> (\<open>active_monitor.go\<close>), \<open>Balancer\<close> (\<open>balancer.go\<close>),
      \<open>Balancer_Report\<close> (what it reports), \<open>Selector\<close>, \<open>Url_Test_Group\<close>.
    \<^item> The configuration: \<open>Config_Rules\<close> (rules, user rules and service policies), \<open>Managed_Rules\<close>
      (\<open>managed_ru_rule_sets.go\<close>), \<open>Config_Routing\<close> (\<open>setRoutingOptions\<close> and the way of a flow through the rules),
      \<open>Bundled_Install\<close> (\<open>bundled_ru_rule_sets.go\<close>), \<open>Config_Outbounds\<close> (\<open>setOutbounds\<close>, \<open>outbound.go\<close>, \<open>warp.go\<close>),
      \<open>Config_Dns\<close> (\<open>dns.go\<close>), \<open>Config_Build\<close> (test URLs, monitoring, MTU, inbounds and \<open>BuildConfig\<close>).

  A struct is a record with the fields the code has, less the logger, locks and handles; a method is a
  definition that takes the state and returns the new one, with every early return as a branch. A clock
  reading, a random value and the answer of a library or of the network is an argument. A nil pointer is
  \<open>None\<close>, a panic the value \<open>Panicked\<close>. Fixed-width integers are words where they can wrap (generations,
  batches, delays, hash keys) and integers where their range is proved small (scores, penalties, counters).

  \<^bold>\<open>Concurrency.\<close> The locks of the sources delimit critical sections, and each section is one definition. A run
  is a sequence of sections in any order: \<open>mon_step\<close> and \<open>mon_reachable\<close> for the monitor (\<open>Monitor_Invariant\<close>), the
  step relations of \<open>Smart_Invariant\<close>, \<open>Balancer_Invariant\<close>, \<open>Probe_Schedule\<close>, \<open>Selector\<close> and \<open>Broadcaster\<close>.
  A task between two sections carries its captured generation, as the code does, so results that arrive late
  and interleaved cycles are runs of the model.

  \<^bold>\<open>What is shown.\<close> The library theories hold the lemmas; the properties of the manifest stand in the theories
  \<open>Claims_...\<close>, each behind its number, with a witness on a concrete state.

    \<^item> \<open>Smart_Safety\<close>, \<open>Smart_Invariant\<close>, \<open>Smart_Progress\<close>, \<open>Smart_Quarantine\<close>, \<open>Smart_Departure\<close>, \<open>Smart_Ranking\<close>,
      \<open>Smart_Worsening\<close> carry \<open>Claims_Smart\<close> and \<open>Claims_Ranking\<close>: only eligible outbounds are installed, a single
      bad sample never moves traffic and a confirmed one does, start-up ends, traffic moves only on results of
      the selected generation, a critical active is left, a working one only with a reason for each of the ways
      the code has, what is left after start-up is avoided for two minutes, the choice ignores the order of the
      profile. \<open>Scenarios\<close> and \<open>Departure_Scenarios\<close> hold the concrete states of the witnesses.
    \<^item> \<open>Monitor_Invariant\<close>, \<open>Monitor_Facts\<close>, \<open>Monitor_Settle\<close>, \<open>Monitor_Scenarios\<close> carry \<open>Claims_Monitoring\<close>: the
      invariant of the monitor, what settles a generation and what never changes the ranking. With
      \<open>Claims_Smart\<close> they compose: \<open>completed_cycle_settles\<close> yields the settled generation that
      \<open>startup_completes\<close> needs.
    \<^item> \<open>Strategy_Contract\<close> states the interface of a strategy as the locale \<open>strategy\<close>; \<open>Strategy_Contract\<close>,
      \<open>Hash_Strategies\<close> and \<open>Smart_Strategy\<close> interpret it on the model of the code. \<open>Go_Sort\<close> states the order a
      comparator must be as the locale \<open>ranking\<close>, interpreted on the comparators of the sources, and
      \<open>Go_Prelude\<close> the laws of a Go map as \<open>go_dictionary\<close>, interpreted on association lists. They carry
      \<open>Claims_Strategies\<close>.
    \<^item> \<open>Balancer_Invariant\<close> carries \<open>Claims_Traffic\<close>: connections go to outbounds of the profile the gate allows,
      and connections from outside survive routine switches.
    \<^item> \<open>Claims_Health\<close>, \<open>Claims_Report\<close>, \<open>Claims_Udp\<close> and \<open>Claims_Groups\<close> hold the properties of the scores and the
      gate, of the report and the fault injection, of the UDP probe, and of the selector, the URL test group
      and the broadcaster.
    \<^item> \<open>Config_Routing\<close> carries \<open>Claims_Config\<close>: the rules of a profile never pre-empt the Russia preset, every rule
      set a rule refers to is declared, a managed bundle is consistent, an installation is all or nothing.
      \<open>Outbound_Facts\<close> and \<open>Build_Facts\<close> carry \<open>Claims_Build\<close>: a configuration names only outbounds and DNS servers it
      declares, and its selector starts, which composes \<open>setOutbounds\<close> with \<open>Selector_Start\<close>.

  \<^bold>\<open>Bounds.\<close> \<open>getURLTest\<close> descends through groups and takes a depth: \<open>view_returns\<close> shows that for a profile whose
  groups can be ranked (no group below itself) a depth above the rank suffices, and a profile with a cycle
  does not return in Go either. \<open>walk\<close> of a manual refresh ends because every call marks a new tag; \<open>batches\<close>,
  \<open>sha_blocks\<close> and \<open>trim_left\<close> consume their list, \<open>jump_loop\<close> raises its bucket. Loops over counters
  (\<open>udp_loop\<close>, \<open>consistent_retry\<close>) recurse on the number of passes left. The counter of generations is assumed not
  to wrap its 64 bits; this is a hypothesis of \<open>mon_step\<close> and of every property that needs it.

  \<^bold>\<open>Not modelled.\<close> Log lines; the goroutine machinery around the sections (channels as wake-ups, the debounce
  of the notifier, tickers and deadlines, which appear as steps at any time); the HTTP client of one URL test
  and of the IP lookup, sockets, and the encoding of the cache file, which are arguments. The routing and DNS
  engine (but for the first-match search), the protocols and transports, the file formats of rule sets, the
  bindings and the patched dependencies under \<open>replace\<close> are upstream code; the subscription and profile parsers,
  the option defaults, the process control with its RPC, and the Flutter application convert data and drive
  the core. Of the builder, the log section, options that are only copied, and functions nothing calls
  (\<open>setNTP\<close>, \<open>patchOutboundMux\<close>, the code after the first return of \<open>patchWarp\<close>) are left out; the parsers of
  JSON, base64, URLs and addresses, the resolver and the calls to the operating system are arguments. The
  manifest lists the parts left out with the reason.
\<close>

end
